(* ===== verification/Prelude.thy ===== *)
theory Prelude
  imports Main "HOL-Library.Word"
begin

text \<open>
  Shared vocabulary of the development: the collections its components feed, the
  C integer conversions, and the generic facts on suffixes of a character list (the
  model of a pair of string iterators) that the parsers share.
\<close>

text \<open>Rewrite rules that say what an operation leaves alone.\<close>
named_theorems frame_simps

text \<open>Definitions of invariants, unfolded together.\<close>
named_theorems inv_defs

section \<open>C integers\<close>

text \<open>
  A C \<open>int\<close> is kept as an \<open>int\<close> in the two's complement range; \<open>to_int32\<close> and
  \<open>to_int64\<close> are the narrowing conversions of the compilers the program targets.
\<close>

definition to_int32 :: "int \<Rightarrow> int" where
  "to_int32 x = (x + 2147483648) mod 4294967296 - 2147483648"

definition to_int64 :: "int \<Rightarrow> int" where
  "to_int64 x = (x + 9223372036854775808) mod 18446744073709551616 - 9223372036854775808"

definition INT_MAX :: int where "INT_MAX = 2147483647"
definition INT_MIN :: int where "INT_MIN = - 2147483648"

lemma to_int32_bounds: "INT_MIN \<le> to_int32 x \<and> to_int32 x \<le> INT_MAX"
proof -
  have "0 \<le> (x + 2147483648) mod 4294967296" "(x + 2147483648) mod 4294967296 < 4294967296"
    by simp_all
  then show ?thesis by (simp add: to_int32_def INT_MIN_def INT_MAX_def)
qed

lemma to_int32_id: "INT_MIN \<le> x \<Longrightarrow> x \<le> INT_MAX \<Longrightarrow> to_int32 x = x"
  by (simp add: to_int32_def INT_MIN_def INT_MAX_def)

lemma to_int64_id:
  "- 9223372036854775808 \<le> x \<Longrightarrow> x \<le> 9223372036854775807 \<Longrightarrow> to_int64 x = x"
  by (simp add: to_int64_def)

definition to_uint16 :: "int \<Rightarrow> int" where
  "to_uint16 x = x mod 65536"

lemma to_uint16_bounds: "0 \<le> to_uint16 x \<and> to_uint16 x \<le> 65535"
proof -
  have "x mod 65536 < 65536" by simp
  then show ?thesis by (simp add: to_uint16_def)
qed

lemma to_uint16_id: "0 \<le> x \<Longrightarrow> x \<le> 65535 \<Longrightarrow> to_uint16 x = x"
  by (simp add: to_uint16_def)

section \<open>Iterator ranges as suffixes\<close>

text \<open>
  A pair of iterators \<open>(pos, end)\<close> over one buffer is modelled by the list of the
  characters from \<open>pos\<close> to \<open>end\<close>. \<open>std::find_if\<close> is \<open>dropWhile\<close> (where it stops)
  and \<open>takeWhile\<close> (what it passed); a reverse search that trims a tail is \<open>rtrim\<close>.
\<close>

definition rtrim :: "('a \<Rightarrow> bool) \<Rightarrow> 'a list \<Rightarrow> 'a list" where
  "rtrim P xs = rev (dropWhile P (rev xs))"

lemma rtrim_Nil [simp]: "rtrim P [] = []"
  by (simp add: rtrim_def)

lemma rtrim_snoc: "rtrim P (xs @ [x]) = (if P x then rtrim P xs else xs @ [x])"
  by (simp add: rtrim_def)

lemma rtrim_last: "rtrim P xs \<noteq> [] \<Longrightarrow> \<not> P (last (rtrim P xs))"
  by (metis hd_dropWhile last_rev rev_is_Nil_conv rtrim_def)

lemma rtrim_eq_self: "xs = [] \<or> \<not> P (last xs) \<Longrightarrow> rtrim P xs = xs"
  by (cases xs rule: rev_cases) (auto simp: rtrim_snoc)

lemma rtrim_append_all:
  assumes "\<forall>x\<in>set ys. P x"
  shows "rtrim P (xs @ ys) = rtrim P xs"
  using assms by (induction ys rule: rev_induct) (auto simp: rtrim_snoc simp flip: append_assoc)

lemma rtrim_prefix: "\<exists>ys. xs = rtrim P xs @ ys \<and> (\<forall>y\<in>set ys. P y)"
proof (induction xs rule: rev_induct)
  case (snoc x xs)
  then obtain ys where "xs = rtrim P xs @ ys" "\<forall>y\<in>set ys. P y" by blast
  then show ?case
    by (cases "P x") (auto simp: rtrim_snoc intro!: exI [of _ "ys @ [x]"])
qed simp

lemma set_rtrim: "set (rtrim P xs) \<subseteq> set xs"
  by (metis Un_iff rtrim_prefix set_append subsetI)

lemma dropWhile_length_le: "length (dropWhile P xs) \<le> length xs"
  by (induction xs) auto

lemma dropWhile_length_less: "xs \<noteq> [] \<Longrightarrow> P (hd xs) \<Longrightarrow> length (dropWhile P xs) < length xs"
  by (cases xs) (auto intro: le_imp_less_Suc dropWhile_length_le)

lemma dropWhile_head_False: "dropWhile P xs = y # ys \<Longrightarrow> \<not> P y"
  by (metis dropWhile_eq_Cons_conv)

lemma takeWhile_all: "(\<And>x. x \<in> set xs \<Longrightarrow> P x) \<Longrightarrow> takeWhile P xs = xs"
  by (simp add: takeWhile_eq_all_conv)

lemma rtrim_append_keep: "rtrim P ys \<noteq> [] \<Longrightarrow> rtrim P (xs @ ys) = xs @ rtrim P ys"
  by (induction ys rule: rev_induct) (auto simp: rtrim_snoc simp flip: append_assoc)

lemma rtrim_head:
  assumes "xs \<noteq> []" "\<not> P (hd xs)"
  shows "rtrim P xs \<noteq> [] \<and> hd (rtrim P xs) = hd xs"
proof -
  define r where "r = rtrim P xs"
  obtain ys where ys: "xs = r @ ys" "\<forall>y\<in>set ys. P y"
    using rtrim_prefix [of xs P] unfolding r_def by auto
  have "r \<noteq> []" using assms unfolding ys(1) using ys(2) by (cases ys) auto
  moreover have "hd xs = hd r" unfolding ys(1) using \<open>r \<noteq> []\<close> by simp
  ultimately show ?thesis by (simp add: r_def)
qed

section \<open>Short runs\<close>

lemma two_steps: "r x y \<Longrightarrow> r y z \<Longrightarrow> r\<^sup>*\<^sup>* x z"
  by (rule converse_rtranclp_into_rtranclp) auto

lemma three_steps: "r w x \<Longrightarrow> r x y \<Longrightarrow> r y z \<Longrightarrow> r\<^sup>*\<^sup>* w z"
  by (rule converse_rtranclp_into_rtranclp, assumption) (rule two_steps)

end
