(* ===== verification/Utility.thy ===== *)
theory Utility
  imports Prelude
begin

unbundle bit_operations_syntax

text \<open>
  The conversions of \<open>src/utility.h\<close> that the rest of the program uses on untrusted text:
  \<open>hex_vec\<close> / \<open>from_hex_vec\<close> (certificates, salts and keys of the pairing protocol),
  \<open>from_hex\<close> (hexadecimal options) and \<open>from_chars\<close> / \<open>from_view\<close> (decimal options and
  RTSP attributes). A pointer that walks backwards over a buffer is the reversed list of
  the characters before it; running off the front is \<open>None\<close>.
\<close>

type_synonym byte = "8 word"

section \<open>Hexadecimal\<close>

definition hex_bits :: string where
  "hex_bits = ''0123456789ABCDEF''"

definition hex_char :: "byte \<Rightarrow> char" where
  "hex_char n = hex_bits ! unat n"

fun hex_of_bytes :: "byte list \<Rightarrow> string" where
  "hex_of_bytes [] = []"
| "hex_of_bytes (b # bs) = hex_char (b div 16) # hex_char (b mod 16) # hex_of_bytes bs"

definition hex_vec :: "byte list \<Rightarrow> bool \<Rightarrow> string" where
  "hex_vec bs is_rev = (if is_rev then hex_of_bytes bs else hex_of_bytes (rev bs))"

definition char_byte :: "char \<Rightarrow> byte" where
  "char_byte ch = of_nat (of_char ch)"

definition isdigit :: "char \<Rightarrow> bool" where
  "isdigit ch \<longleftrightarrow> 48 \<le> (of_char ch :: nat) \<and> (of_char ch :: nat) \<le> 57"

lemma isdigit_code [code]:
  "isdigit (Char b0 b1 b2 b3 b4 b5 b6 b7) \<longleftrightarrow> \<not> b7 \<and> \<not> b6 \<and> b5 \<and> b4 \<and> (\<not> b3 \<or> \<not> b2 \<and> \<not> b1)"
  by (simp add: isdigit_def of_bool_def)

definition is_convertable :: "char \<Rightarrow> bool" where
  "is_convertable ch \<longleftrightarrow>
     isdigit ch \<or> (let c = char_byte ch OR 32 in \<not> (97 > c \<or> c > 122))"

definition convert :: "char \<Rightarrow> byte" where
  "convert ch =
     (if isdigit ch then char_byte ch - 48 else (char_byte ch OR 32) - 97 + 10)"

text \<open>The pointer \<open>data\<close> moves towards the front: the argument is the reversed text.\<close>

definition next_digit :: "string \<Rightarrow> (byte \<times> string) option" where
  "next_digit data =
     (case dropWhile (\<lambda>c. \<not> is_convertable c) data of
        [] \<Rightarrow> None
      | c # rest \<Rightarrow> Some (convert c, rest))"

fun hex_fill :: "nat \<Rightarrow> string \<Rightarrow> (byte list) option" where
  "hex_fill 0 data = Some []"
| "hex_fill (Suc n) data =
     (case next_digit data of None \<Rightarrow> None
      | Some (ch_r, data1) \<Rightarrow>
          (case next_digit data1 of None \<Rightarrow> None
           | Some (ch_l, data2) \<Rightarrow>
               map_option (\<lambda>els. (push_bit 4 ch_l OR ch_r) # els) (hex_fill n data2)))"

definition count_convertable :: "string \<Rightarrow> nat" where
  "count_convertable hex = length (filter is_convertable hex)"

definition from_hex_vec :: "string \<Rightarrow> bool \<Rightarrow> (byte list) option" where
  "from_hex_vec hex is_rev =
     (let buf_size = count_convertable hex div 2
      in map_option (if is_rev then rev else id) (hex_fill buf_size (rev hex)))"

text \<open>
  \<open>from_hex<T>\<close> with \<open>sizeof(T) = n\<close>: more than \<open>2 n\<close> digits would write past the
  buffer (\<open>None\<close>); fewer are padded with zero bytes. The result is the little-endian
  value of the bytes.
\<close>

definition from_hex_bytes :: "nat \<Rightarrow> string \<Rightarrow> bool \<Rightarrow> (byte list) option" where
  "from_hex_bytes n hex is_rev =
     (let buf_size = count_convertable hex div 2
      in if n < buf_size then None
         else map_option (\<lambda>els. (if is_rev then rev else id) (els @ replicate (n - buf_size) 0))
                (hex_fill buf_size (rev hex)))"

fun le_value :: "byte list \<Rightarrow> int" where
  "le_value [] = 0"
| "le_value (b # bs) = uint b + 256 * le_value bs"

definition from_hex_int :: "string \<Rightarrow> int option" where
  "from_hex_int hex = map_option (\<lambda>bs. to_int32 (le_value bs)) (from_hex_bytes 4 hex False)"

lemma next_digit_Some_iff: "(\<exists>r. next_digit data = Some r) \<longleftrightarrow> 0 < count_convertable data"
proof (induction data)
  case (Cons c cs)
  then show ?case by (auto simp: next_digit_def count_convertable_def split: list.splits)
qed (simp add: next_digit_def count_convertable_def)

lemma next_digit_count:
  "next_digit data = Some (d, rest) \<Longrightarrow> count_convertable data = Suc (count_convertable rest)"
proof (induction data)
  case (Cons c cs)
  then show ?case
    by (cases "is_convertable c") (auto simp: next_digit_def count_convertable_def)
qed (simp add: next_digit_def)

lemma hex_fill_total: "2 * n \<le> count_convertable data \<Longrightarrow> \<exists>els. hex_fill n data = Some els \<and> length els = n"
proof (induction n arbitrary: data)
  case (Suc n)
  then have "0 < count_convertable data" by simp
  then obtain r d1 where r: "next_digit data = Some (r, d1)"
    using next_digit_Some_iff by (metis surj_pair)
  then have "0 < count_convertable d1" using Suc.prems next_digit_count by fastforce
  then obtain l d2 where l: "next_digit d1 = Some (l, d2)"
    using next_digit_Some_iff by (metis surj_pair)
  have "2 * n \<le> count_convertable d2"
    using Suc.prems next_digit_count [OF r] next_digit_count [OF l] by simp
  then show ?case using Suc.IH [of d2] r l by auto
qed simp

lemma count_convertable_rev [simp]: "count_convertable (rev s) = count_convertable s"
  by (simp add: count_convertable_def flip: rev_filter)

text \<open>No input makes the backward walk leave the buffer.\<close>

lemma from_hex_vec_total: "\<exists>bs. from_hex_vec hex r = Some bs \<and> length bs = count_convertable hex div 2"
proof -
  have "2 * (count_convertable hex div 2) \<le> count_convertable (rev hex)" by simp
  then obtain els where "hex_fill (count_convertable hex div 2) (rev hex) = Some els"
    "length els = count_convertable hex div 2"
    using hex_fill_total by blast
  then show ?thesis by (auto simp: from_hex_vec_def)
qed

lemma from_hex_bytes_None_iff: "from_hex_bytes n hex r = None \<longleftrightarrow> n < count_convertable hex div 2"
proof -
  have "2 * (count_convertable hex div 2) \<le> count_convertable (rev hex)" by simp
  then obtain els where "hex_fill (count_convertable hex div 2) (rev hex) = Some els"
    using hex_fill_total by blast
  then show ?thesis by (simp add: from_hex_bytes_def Let_def)
qed

lemma hex_char_props:
  assumes "n < 16"
  shows "is_convertable (hex_char n) \<and> convert (hex_char n) = n"
proof -
  have all: "\<forall>k\<in>set [0..<16]. is_convertable (hex_char (word_of_nat k)) \<and>
      convert (hex_char (word_of_nat k)) = word_of_nat k"
    by (simp add: upt_rec hex_char_def hex_bits_def is_convertable_def isdigit_def convert_def
        char_byte_def)
  have "unat n \<in> set [0..<16]" using assms by (simp add: word_less_nat_alt)
  with all have "is_convertable (hex_char (word_of_nat (unat n))) \<and>
      convert (hex_char (word_of_nat (unat n))) = word_of_nat (unat n)" by blast
  then show ?thesis by simp
qed

lemma byte_halves: "push_bit 4 (b div 16 :: byte) OR (b mod 16) = b"
proof (rule bit_word_eqI)
  fix i :: nat assume "i < LENGTH(8)"
  have d: "b div 16 = drop_bit 4 b" and m: "b mod 16 = take_bit 4 b"
    by (simp_all add: drop_bit_eq_div take_bit_eq_mod)
  show "bit (push_bit 4 (b div 16) OR (b mod 16)) i = bit b i"
    using \<open>i < LENGTH(8)\<close>
    by (auto simp: d m bit_or_iff bit_push_bit_iff bit_drop_bit_eq bit_take_bit_iff)
qed

lemma byte_nibbles: "(b :: byte) div 16 < 16" "(b :: byte) mod 16 < 16"
proof -
  have "unat b < 256" using unsigned_less [of b] by simp
  then show "b div 16 < 16" by (simp add: word_less_nat_alt unat_div)
  show "b mod 16 < 16" by (simp add: word_less_nat_alt unat_mod)
qed

lemma next_digit_hex: "n < 16 \<Longrightarrow> next_digit (hex_char n # data) = Some (n, data)"
  using hex_char_props by (simp add: next_digit_def)

lemma hex_of_bytes_append: "hex_of_bytes (xs @ ys) = hex_of_bytes xs @ hex_of_bytes ys"
  by (induction xs) auto

lemma length_hex_of_bytes [simp]: "length (hex_of_bytes bs) = 2 * length bs"
  by (induction bs) auto

lemma count_convertable_hex [simp]: "count_convertable (hex_of_bytes bs) = 2 * length bs"
  by (induction bs) (auto simp: count_convertable_def hex_char_props byte_nibbles)

lemma hex_fill_hex: "hex_fill (length bs) (rev (hex_of_bytes bs) @ ys) = Some (rev bs)"
proof (induction bs arbitrary: ys rule: rev_induct)
  case (snoc b bs)
  then show ?case
    by (simp add: hex_of_bytes_append next_digit_hex byte_nibbles byte_halves)
qed simp

text \<open>
  A vector of bytes written as hexadecimal digits reads back, in either byte order.
\<close>
theorem hex_roundtrip: "from_hex_vec (hex_vec bs r) r = Some bs"
proof (cases r)
  case True
  have "hex_fill (length bs) (rev (hex_of_bytes bs)) = Some (rev bs)"
    using hex_fill_hex [of bs "[]"] by simp
  then show ?thesis using True by (simp add: from_hex_vec_def hex_vec_def)
next
  case False
  have "hex_fill (length bs) (rev (hex_of_bytes (rev bs))) = Some bs"
    using hex_fill_hex [of "rev bs" "[]"] by simp
  then show ?thesis using False by (simp add: from_hex_vec_def hex_vec_def)
qed

section \<open>Decimal\<close>

text \<open>
  \<open>char\<close> is signed on the program's targets. \<open>from_chars\<close> accumulates in \<open>int64_t\<close>
  from the last character to the second, then treats the first one as a sign or a digit. It
  never rejects a character.
\<close>

definition schar :: "char \<Rightarrow> int" where
  "schar c = (let n = of_char c :: int in if n < 128 then n else n - 256)"

fun from_chars_loop :: "string \<Rightarrow> int \<Rightarrow> int \<Rightarrow> int \<times> int" where
  "from_chars_loop [] res mul = (res, mul)"
| "from_chars_loop (c # cs) res mul =
     from_chars_loop cs (to_int64 (res + (schar c - 48) * mul)) (to_int64 (mul * 10))"

definition from_chars :: "string \<Rightarrow> int" where
  "from_chars s =
     (case s of
        [] \<Rightarrow> 0
      | c # cs \<Rightarrow>
          (let (res, mul) = from_chars_loop (rev cs) 0 1
           in if c \<noteq> CHR ''-'' then to_int64 (res + (schar c - 48) * mul) else to_int64 (- res)))"

definition from_view :: "string \<Rightarrow> int" where
  "from_view number = from_chars number"

text \<open>What a decimal numeral denotes.\<close>

definition dec_value :: "string \<Rightarrow> int" where
  "dec_value s = foldl (\<lambda>a c. 10 * a + (schar c - 48)) 0 s"

lemma to_int64_shift: "to_int64 (x + 18446744073709551616 * k) = to_int64 x"
proof -
  have "x + 18446744073709551616 * k + 9223372036854775808 =
      (x + 9223372036854775808) + 18446744073709551616 * k" by simp
  then show ?thesis unfolding to_int64_def by (simp only: mod_mult_self2)
qed

lemma to_int64_repr: "\<exists>k. to_int64 a = a + 18446744073709551616 * k"
proof
  show "to_int64 a = a + 18446744073709551616 * (- ((a + 9223372036854775808) div 18446744073709551616))"
    unfolding to_int64_def minus_mult_div_eq_mod [symmetric] by simp
qed

lemma to_int64_linear: "to_int64 (to_int64 a + c * to_int64 b) = to_int64 (a + c * b)"
proof -
  obtain k l where k: "to_int64 a = a + 18446744073709551616 * k"
    and l: "to_int64 b = b + 18446744073709551616 * l"
    using to_int64_repr by blast
  have "to_int64 a + c * to_int64 b = (a + c * b) + 18446744073709551616 * (k + c * l)"
    unfolding k l by (simp only: distrib_left mult.left_commute add.assoc add.left_commute)
  then show ?thesis by (simp only: to_int64_shift)
qed

lemma to_int64_mult: "to_int64 (to_int64 a * c) = to_int64 (a * c)"
  using to_int64_linear [of 0 c a] by (simp add: to_int64_id mult.commute)

lemma to_int64_minus: "to_int64 (- to_int64 a) = to_int64 (- a)"
  using to_int64_linear [of 0 "-1" a] by (simp add: to_int64_id)

lemma from_chars_loop_value:
  "from_chars_loop cs (to_int64 res) (to_int64 mul) =
     (to_int64 (res + mul * dec_value (rev cs)), to_int64 (mul * 10 ^ length cs))"
proof (induction cs arbitrary: res mul)
  case Nil
  then show ?case by (simp add: dec_value_def)
next
  case (Cons c cs)
  have d: "dec_value (rev (c # cs)) = 10 * dec_value (rev cs) + (schar c - 48)"
    by (simp add: dec_value_def)
  have step: "from_chars_loop (c # cs) (to_int64 res) (to_int64 mul) =
      from_chars_loop cs (to_int64 (res + (schar c - 48) * mul)) (to_int64 (mul * 10))"
    by (simp add: to_int64_linear to_int64_mult)
  show ?case unfolding step Cons.IH d by (simp add: algebra_simps)
qed

lemma dec_value_Cons: "dec_value (c # cs) = (schar c - 48) * 10 ^ length cs + dec_value cs"
proof -
  have "foldl (\<lambda>a c. 10 * a + (schar c - 48)) k cs = k * 10 ^ length cs + dec_value cs" for k
    unfolding dec_value_def
  proof (induction cs arbitrary: k)
    case (Cons d ds)
    have "foldl (\<lambda>a c. 10 * a + (schar c - 48)) k (d # ds) =
        (10 * k + (schar d - 48)) * 10 ^ length ds + foldl (\<lambda>a c. 10 * a + (schar c - 48)) 0 ds"
      using Cons [of "10 * k + (schar d - 48)"] by simp
    moreover have "foldl (\<lambda>a c. 10 * a + (schar c - 48)) 0 (d # ds) =
        (schar d - 48) * 10 ^ length ds + foldl (\<lambda>a c. 10 * a + (schar c - 48)) 0 ds"
      using Cons [of "schar d - 48"] by simp
    ultimately show ?case by (simp add: distrib_right)
  qed simp
  from this [of "schar c - 48"] show ?thesis by (simp add: dec_value_def)
qed

lemma from_chars_value:
  "from_chars s =
     (case s of [] \<Rightarrow> 0
      | c # cs \<Rightarrow> if c = CHR ''-'' then to_int64 (- dec_value cs) else to_int64 (dec_value s))"
proof (cases s)
  case Nil
  then show ?thesis by (simp add: from_chars_def)
next
  case (Cons c cs)
  have "from_chars_loop (rev cs) 0 1 = (to_int64 (dec_value cs), to_int64 (10 ^ length cs))"
    using from_chars_loop_value [of "rev cs" 0 1] by (simp add: to_int64_id)
  then show ?thesis
    by (simp add: from_chars_def Cons to_int64_linear to_int64_minus dec_value_Cons add.commute)
qed

lemma dec_value_bounds:
  assumes "\<forall>c\<in>set s. isdigit c"
  shows "0 \<le> dec_value s \<and> dec_value s < 10 ^ length s"
  using assms
proof (induction s)
  case (Cons c cs)
  have "schar c = int (of_char c)" if le: "of_char c \<le> (57 :: nat)"
  proof -
    have "(of_char c :: int) = int (of_char c)" by (rule of_nat_of_char [symmetric])
    with le have "(of_char c :: int) < 128" by linarith
    then show ?thesis by (simp add: schar_def of_nat_of_char)
  qed
  with Cons.prems have d: "0 \<le> schar c - 48" "schar c - 48 \<le> 9"
    by (auto simp: isdigit_def simp del: of_nat_of_char)
  have "(schar c - 48) * 10 ^ length cs \<le> 9 * 10 ^ length cs"
    using d(2) by (simp add: mult_right_mono)
  moreover have "0 \<le> (schar c - 48) * 10 ^ length cs" using d(1) by simp
  moreover have "0 \<le> dec_value cs" "dec_value cs < 10 ^ length cs" using Cons by auto
  ultimately show ?case unfolding dec_value_Cons length_Cons power_Suc by linarith
qed (simp add: dec_value_def)

lemma isdigit_not_minus: "isdigit c \<Longrightarrow> c \<noteq> CHR ''-''"
  by (auto simp: isdigit_def)

lemma from_view_digits:
  assumes "s \<noteq> []" "\<forall>c\<in>set s. isdigit c" "length s \<le> 18"
  shows "from_view s = dec_value s \<and> from_view (CHR ''-'' # s) = - dec_value s"
proof -
  have "dec_value s < 10 ^ length s" "0 \<le> dec_value s" using dec_value_bounds assms(2) by auto
  moreover have "(10::int) ^ length s \<le> 10 ^ 18"
    using assms(3) by (intro power_increasing) auto
  ultimately have b: "0 \<le> dec_value s" "dec_value s < 1000000000000000000" by simp_all
  obtain c cs where "s = c # cs" using assms(1) by (cases s) auto
  then show ?thesis using b assms(2) isdigit_not_minus [of c]
    by (simp add: from_view_def from_chars_value to_int64_id)
qed

end
