(* ===== verification/Config_Parse.thy ===== *)
theory Config_Parse
  imports Prelude
begin

text \<open>
  The reader of \<open>sunshine.conf\<close> (\<open>src/config.cpp\<close>: \<open>endline\<close> .. \<open>parse_config\<close>) and the
  writer the web UI uses (\<open>saveConfig\<close> of \<open>src/confighttp.cpp\<close>). An iterator is the suffix of
  the text it points to; the parsed options are a map, and \<open>emplace\<close> keeps the first binding.
\<close>

type_synonym var_map = "string \<Rightarrow> string option"

definition endline :: "char \<Rightarrow> bool" where
  "endline ch \<longleftrightarrow> ch = CHR 0x0D \<or> ch = CHR 0x0A"

definition space_tab :: "char \<Rightarrow> bool" where
  "space_tab ch \<longleftrightarrow> ch = CHR '' '' \<or> ch = CHR 0x09"

definition whitespace :: "char \<Rightarrow> bool" where
  "whitespace ch \<longleftrightarrow> space_tab ch \<or> endline ch"

lemma next_line_length:
  "pos \<noteq> [] \<Longrightarrow>
     length (dropWhile (\<lambda>c. \<not> endline c) (dropWhile (\<lambda>c. c \<noteq> CHR ''#'') pos)) < length pos"
proof (induction pos)
  case (Cons c cs)
  then show ?case
    by (cases "cs = []") (auto simp: endline_def less_Suc_eq_le dropWhile_length_le)
qed simp

text \<open>\<open>to_string\<close> copies a range without its comments; the line ends stay.\<close>

function to_string :: "string \<Rightarrow> string" where
  "to_string pos =
     (if pos = [] then []
      else (let comment = dropWhile (\<lambda>c. c \<noteq> CHR ''#'') pos;
                endl = dropWhile (\<lambda>c. \<not> endline c) comment
            in takeWhile (\<lambda>c. c \<noteq> CHR ''#'') pos @ to_string endl))"
  by pat_completeness auto
termination
  by (relation "measure length") (auto intro: next_line_length)

declare to_string.simps [simp del]

fun skip_list_from :: "nat \<Rightarrow> string \<Rightarrow> string" where
  "skip_list_from stack [] = []"
| "skip_list_from stack (c # cs) =
     (if stack = 0 then c # cs
      else skip_list_from
             (let stack1 = (if c = CHR ''['' then Suc stack else stack)
              in if c = CHR '']'' then stack1 - 1 else stack1) cs)"

definition skip_list :: "string \<Rightarrow> string" where
  "skip_list skipper = skip_list_from 1 skipper"

text \<open>The characters between two iterators of one buffer.\<close>

definition between :: "string \<Rightarrow> string \<Rightarrow> string" where
  "between b e = take (length b - length e) b"

definition parse_option :: "string \<Rightarrow> string \<times> (string \<times> string) option" where
  "parse_option text =
     (let beg = dropWhile whitespace text;
          endl = dropWhile (\<lambda>c. \<not> endline c) beg;
          body = rtrim whitespace (takeWhile (\<lambda>c. c \<noteq> CHR ''#'') (between beg endl));
          name = takeWhile (\<lambda>c. c \<noteq> CHR ''='') body
      in if length name = length body \<or> name = [] then (endl, None)
         else
           (let after_eq = drop (Suc (length name)) body;
                begin_val = drop (Suc (length name) + length (takeWhile space_tab after_eq)) beg
            in if length begin_val = length endl then (endl, None)
               else if hd begin_val = CHR ''['' then
                 (let endl2 = skip_list (tl begin_val)
                  in if endl2 = [] \<and> tl begin_val = [] then (endl2, None)
                     else (endl2, Some (to_string (rtrim space_tab name),
                                        to_string (between begin_val endl2))))
               else (endl, Some (to_string (rtrim space_tab name),
                                 to_string (between begin_val endl)))))"

definition emplace :: "'k \<Rightarrow> 'v \<Rightarrow> ('k \<Rightarrow> 'v option) \<Rightarrow> ('k \<Rightarrow> 'v option)" where
  "emplace k v m = (case m k of None \<Rightarrow> m(k \<mapsto> v) | Some _ \<Rightarrow> m)"

lemma skip_list_from_length: "length (skip_list_from n s) \<le> length s"
  by (induction n s rule: skip_list_from.induct) (auto simp: Let_def)

lemma skip_list_length: "length (skip_list s) \<le> length s"
  by (simp add: skip_list_def skip_list_from_length)

lemma parse_option_length: "length (fst (parse_option text)) \<le> length text"
proof -
  let ?beg = "dropWhile whitespace text"
  have b: "length ?beg \<le> length text" by (rule dropWhile_length_le)
  have e: "length (dropWhile (\<lambda>c. \<not> endline c) ?beg) \<le> length text"
    using dropWhile_length_le b by (rule order_trans)
  have v: "length (skip_list (tl (drop n ?beg))) \<le> length text" for n
    using skip_list_length [of "tl (drop n ?beg)"] b by simp
  have "\<exists>n. fst (parse_option text) = dropWhile (\<lambda>c. \<not> endline c) ?beg \<or>
      fst (parse_option text) = skip_list (tl (drop n ?beg))"
    unfolding parse_option_def Let_def by (simp only: if_distrib [of fst] fst_conv) auto
  then show ?thesis using e v by metis
qed

function parse_config_from :: "string \<Rightarrow> var_map \<Rightarrow> var_map" where
  "parse_config_from pos vars =
     (if pos = [] then vars
      else (let (endl, var) = parse_option pos;
                pos2 = (if endl = [] then [] else drop (if hd endl = CHR 0x0D then 2 else 1) endl)
            in parse_config_from pos2
                 (case var of None \<Rightarrow> vars | Some (name, val) \<Rightarrow> emplace name val vars)))"
  by pat_completeness auto
termination
proof (relation "measure (length \<circ> fst)", goal_cases)
  case (2 pos vars x endl var pos2)
  have "length endl \<le> length pos"
    using parse_option_length [of pos] 2 by (metis fst_conv)
  then show ?case using 2 by (cases endl) auto
qed simp

declare parse_config_from.simps [simp del]

definition parse_config :: "string \<Rightarrow> var_map" where
  "parse_config file_content = parse_config_from file_content Map.empty"

section \<open>The writer\<close>

text \<open>
  \<open>saveConfig\<close> walks the members of the JSON object it received. A value is null, a string or
  something else, written with \<open>dump()\<close>.
\<close>

datatype json_value = JNull | JString string | JOther string

definition save_config_item :: "string \<Rightarrow> json_value \<Rightarrow> string" where
  "save_config_item k v =
     (if v = JNull \<or> v = JString [] then []
      else k @ '' = '' @ (case v of JString s \<Rightarrow> s | JOther dump \<Rightarrow> dump | JNull \<Rightarrow> []) @ [CHR 0x0A])"

definition save_config_text :: "(string \<times> json_value) list \<Rightarrow> string" where
  "save_config_text items = concat (map (\<lambda>(k, v). save_config_item k v) items)"

section \<open>Reading back what was written\<close>

lemma between_append [simp]: "between (xs @ ys) ys = xs"
  by (simp add: between_def)

lemma to_string_plain: "CHR ''#'' \<notin> set s \<Longrightarrow> to_string s = s"
proof -
  assume a: "CHR ''#'' \<notin> set s"
  then have "takeWhile (\<lambda>c. c \<noteq> CHR ''#'') s = s" "dropWhile (\<lambda>c. c \<noteq> CHR ''#'') s = []"
    by (auto simp: takeWhile_eq_all_conv)
  then show ?thesis unfolding to_string.simps [of s] Let_def
    by (simp only: dropWhile.simps) (simp add: to_string.simps [of "[]"])
qed

text \<open>Names and values the line format can carry.\<close>

definition wf_name :: "string \<Rightarrow> bool" where
  "wf_name k \<longleftrightarrow> k \<noteq> [] \<and> \<not> whitespace (hd k) \<and> \<not> space_tab (last k) \<and>
     (\<forall>c\<in>set k. c \<noteq> CHR ''='' \<and> c \<noteq> CHR ''#'' \<and> \<not> endline c)"

fun closes :: "nat \<Rightarrow> string \<Rightarrow> bool" where
  "closes n [] = (n = 0)"
| "closes n (c # cs) =
     (n \<noteq> 0 \<and> closes (if c = CHR ''['' then Suc n else if c = CHR '']'' then n - 1 else n) cs)"

text \<open>A plain value stays on one line; a list runs to its matching bracket, over line ends.\<close>

definition wf_value :: "string \<Rightarrow> bool" where
  "wf_value v \<longleftrightarrow> v \<noteq> [] \<and> \<not> whitespace (hd v) \<and> CHR ''#'' \<notin> set v \<and>
     (if hd v = CHR ''['' then closes 1 (tl v) else (\<forall>c\<in>set v. \<not> endline c))"

lemma skip_list_from_closes: "closes n w \<Longrightarrow> skip_list_from n (w @ rest) = rest"
proof (induction n w rule: closes.induct)
  case (1 n)
  then show ?case by (cases rest) auto
qed (auto simp: Let_def split: if_splits)

lemma parse_option_line:
  assumes k: "wf_name k" and v: "wf_value v"
  shows "parse_option (k @ '' = '' @ v @ CHR 0x0A # rest) = (CHR 0x0A # rest, Some (k, v))"
proof -
  let ?text = "k @ '' = '' @ v @ CHR 0x0A # rest"
  define v1 where "v1 = takeWhile (\<lambda>c. \<not> endline c) v"
  define e where "e = dropWhile (\<lambda>c. \<not> endline c) (v @ CHR 0x0A # rest)"
  have nl: "endline (CHR 0x0A)" by (simp add: endline_def)
  have hv: "v \<noteq> []" "\<not> whitespace (hd v)" "CHR ''#'' \<notin> set v"
    using v by (auto simp: wf_value_def)
  have v1: "v1 \<noteq> []" "hd v1 = hd v" "\<not> whitespace (hd v1)" "CHR ''#'' \<notin> set v1"
    using hv by (cases v; auto simp: v1_def whitespace_def dest: set_takeWhileD)+
  have split: "v @ CHR 0x0A # rest = v1 @ e"
    by (cases "\<forall>c\<in>set v. \<not> endline c")
       (auto simp: v1_def e_def nl takeWhile_all dropWhile_append2 dropWhile_append1)
  have beg: "dropWhile whitespace ?text = ?text"
    using k by (cases k) (auto simp: wf_name_def)
  have line: "\<forall>c\<in>set (k @ '' = '' ). \<not> endline c"
    using k by (auto simp: wf_name_def endline_def)
  have endl: "dropWhile (\<lambda>c. \<not> endline c) ?text = e"
    using line by (simp add: dropWhile_append2 endline_def e_def)
  have btw: "between ?text e = k @ '' = '' @ v1"
    using between_append [of "k @ '' = '' @ v1" e] split by simp
  have nohash: "takeWhile (\<lambda>c. c \<noteq> CHR ''#'') (k @ '' = '' @ v1) = k @ '' = '' @ v1"
    using k v1(4) by (auto simp: takeWhile_eq_all_conv wf_name_def)
  have body: "rtrim whitespace (k @ '' = '' @ v1) = k @ '' = '' @ rtrim whitespace v1"
    using rtrim_append_keep [of whitespace v1 "k @ '' = ''"] rtrim_head [of v1 whitespace] v1 by simp
  have name: "takeWhile (\<lambda>c. c \<noteq> CHR ''='') (k @ '' = '' @ rtrim whitespace v1) = k @ '' ''"
    using k by (auto simp: wf_name_def takeWhile_append2 takeWhile_eq_all_conv)
  have hr: "rtrim whitespace v1 \<noteq> []" "\<not> space_tab (hd (rtrim whitespace v1))"
    using rtrim_head [of v1 whitespace] v1 by (auto simp: whitespace_def)
  then have tw: "takeWhile space_tab ('' '' @ rtrim whitespace v1) = '' ''"
    by (cases "rtrim whitespace v1") (auto simp: space_tab_def)
  have bv: "drop (Suc (length (k @ '' '')) + length '' '') ?text = v @ CHR 0x0A # rest" by simp
  have len: "length (v @ CHR 0x0A # rest) \<noteq> length e"
    using split v1(1) by simp
  have nm: "to_string (rtrim space_tab (k @ '' '')) = k"
    using k by (auto simp: wf_name_def rtrim_snoc space_tab_def rtrim_eq_self intro!: to_string_plain)
  have main: "parse_option ?text =
     (if hd v = CHR ''['' then
        (let endl2 = skip_list (tl v @ CHR 0x0A # rest)
         in (endl2, Some (k, to_string (between (v @ CHR 0x0A # rest) endl2))))
      else (e, Some (k, to_string (between (v @ CHR 0x0A # rest) e))))"
    unfolding parse_option_def beg endl btw nohash body name Let_def
    using hr len tw bv nm hv(1) by (auto simp: Let_def)
  show ?thesis
  proof (cases "hd v = CHR ''[''")
    case True
    then have "skip_list (tl v @ CHR 0x0A # rest) = CHR 0x0A # rest"
      using v by (simp add: skip_list_def wf_value_def skip_list_from_closes)
    then show ?thesis using main True hv by (simp add: to_string_plain)
  next
    case False
    then have "e = CHR 0x0A # rest"
      using v by (simp add: e_def wf_value_def dropWhile_append2 nl)
    then show ?thesis using main False hv by (simp add: to_string_plain)
  qed
qed

lemma parse_config_from_Nil [simp]: "parse_config_from [] vars = vars"
  by (simp add: parse_config_from.simps)

lemma parse_config_from_line:
  assumes "wf_name k" "wf_value v"
  shows "parse_config_from (k @ '' = '' @ v @ CHR 0x0A # rest) vars =
    parse_config_from rest (emplace k v vars)"
proof -
  have "k @ '' = '' @ v @ CHR 0x0A # rest \<noteq> []" by simp
  then show ?thesis
    by (subst parse_config_from.simps) (simp add: parse_option_line [OF assms, simplified])
qed

definition json_text :: "json_value \<Rightarrow> string" where
  "json_text v = (case v of JNull \<Rightarrow> [] | JString s \<Rightarrow> s | JOther dump \<Rightarrow> dump)"

definition is_written :: "json_value \<Rightarrow> bool" where
  "is_written v \<longleftrightarrow> v \<noteq> JNull \<and> v \<noteq> JString []"

definition saved_pairs :: "(string \<times> json_value) list \<Rightarrow> (string \<times> string) list" where
  "saved_pairs items = map (\<lambda>(k, v). (k, json_text v)) (filter (\<lambda>(k, v). is_written v) items)"

lemma emplace_add: "m ++ emplace k v vars = (m(k \<mapsto> v)) ++ vars"
  by (auto simp: emplace_def map_add_def fun_eq_iff split: option.splits)

lemma parse_config_from_saved:
  assumes "\<forall>(k, v)\<in>set items. is_written v \<longrightarrow> wf_name k \<and> wf_value (json_text v)"
  shows "parse_config_from (save_config_text items) vars = map_of (saved_pairs items) ++ vars"
  using assms
proof (induction items arbitrary: vars)
  case Nil
  then show ?case by (simp add: save_config_text_def saved_pairs_def)
next
  case (Cons kv items)
  obtain k v where kv: "kv = (k, v)" by fastforce
  show ?case
  proof (cases "is_written v")
    case False
    then have "save_config_text (kv # items) = save_config_text items"
      "saved_pairs (kv # items) = saved_pairs items"
      by (auto simp: kv save_config_text_def save_config_item_def saved_pairs_def is_written_def)
    then show ?thesis using Cons by auto
  next
    case True
    then have "save_config_text (kv # items) =
        k @ '' = '' @ json_text v @ CHR 0x0A # save_config_text items"
      by (auto simp: kv save_config_text_def save_config_item_def is_written_def json_text_def
          split: json_value.splits)
    moreover have "saved_pairs (kv # items) = (k, json_text v) # saved_pairs items"
      using True by (simp add: kv saved_pairs_def)
    moreover have "wf_name k" "wf_value (json_text v)" using Cons.prems True kv by auto
    ultimately show ?thesis
      using Cons by (simp add: parse_config_from_line [simplified] emplace_add fun_upd_def)
  qed
qed

text \<open>
  C21: A configuration the web UI saves is read back unchanged: for every JSON object whose
  written members have names and values the line format can carry (values may hold blanks at
  their end, or be a bracketed list over several lines), the parser returns exactly the
  members that were written, and the first binding of a name wins.
\<close>
theorem save_parse_roundtrip:
  assumes "\<forall>(k, v)\<in>set items. is_written v \<longrightarrow> wf_name k \<and> wf_value (json_text v)"
  shows "parse_config (save_config_text items) = map_of (saved_pairs items)"
  using parse_config_from_saved [OF assms, of Map.empty] by (simp add: parse_config_def)

theorem save_parse_roundtrip_witness:
  "parse_config (save_config_text
      [(''port'', JString ''47989''), (''keybindings'', JOther ''[16, 160]''), (''x'', JNull)]) =
    map_of (saved_pairs
      [(''port'', JString ''47989''), (''keybindings'', JOther ''[16, 160]''), (''x'', JNull)])"
  by (rule save_parse_roundtrip)
    (simp add: is_written_def wf_name_def wf_value_def json_text_def whitespace_def space_tab_def
      endline_def)

section \<open>Comments\<close>

text \<open>
  A comment line (a \<open>#\<close> after any white space) contributes no option and ends at its own
  line end, so the options after it are read as if it were not there.
\<close>
theorem comment_line_skipped:
  assumes "\<forall>c\<in>set ws. whitespace c" "\<forall>c\<in>set cs. \<not> endline c"
  shows "parse_config_from (ws @ CHR ''#'' # cs @ CHR 0x0A # rest) vars = parse_config_from rest vars"
proof -
  let ?line = "CHR ''#'' # cs @ CHR 0x0A # rest"
  have beg: "dropWhile whitespace (ws @ ?line) = ?line"
    using assms(1) by (simp add: dropWhile_append2 whitespace_def space_tab_def endline_def)
  have endl: "dropWhile (\<lambda>c. \<not> endline c) ?line = CHR 0x0A # rest"
    using assms(2) by (simp add: dropWhile_append2 endline_def)
  have "between ?line (CHR 0x0A # rest) = CHR ''#'' # cs"
    using between_append [of "CHR ''#'' # cs" "CHR 0x0A # rest"] by simp
  then have "parse_option (ws @ ?line) = (CHR 0x0A # rest, None)"
    unfolding parse_option_def beg endl Let_def by simp
  moreover have "ws @ ?line \<noteq> []" by simp
  ultimately show ?thesis by (subst parse_config_from.simps) simp
qed

theorem comment_line_skipped_witness:
  "parse_config_from ('' '' @ CHR ''#'' # ''a = b'' @ CHR 0x0A # []) Map.empty =
     parse_config_from [] Map.empty"
  by (rule comment_line_skipped) (simp_all add: whitespace_def space_tab_def endline_def)

end
