(* ===== verification/Config_Options.thy ===== *)
theory Config_Options
  imports Complex_Main Config_Parse Utility
begin

text \<open>
  The option readers of \<open>src/config.cpp\<close> (\<open>string_f\<close> .. \<open>map_int_int_f\<close>). A reader takes the
  remaining variables, the name of an option and the value the setting has, and returns the
  variables without that option and the new value of the setting. What a reader may do wrong
  is a value of \<open>config_error\<close>: a hexadecimal value too long for its buffer, malformed JSON,
  or a file system error.
\<close>

datatype config_error = Buffer_Overrun | Json_Error | Filesystem_Error

type_synonym 'a reader = "var_map \<Rightarrow> string \<Rightarrow> 'a \<Rightarrow> config_error + (var_map \<times> 'a)"

section \<open>Strings\<close>

definition string_f :: "string reader" where
  "string_f vars name input =
     (case vars name of None \<Rightarrow> Inr (vars, input) | Some v \<Rightarrow> Inr (vars(name := None), v))"

text \<open>The \<open>tmp\<close> of the readers that convert a string: empty when the option is absent.\<close>

definition read_tmp :: "var_map \<Rightarrow> string \<Rightarrow> var_map \<times> string" where
  "read_tmp vars name = (case string_f vars name [] of Inr p \<Rightarrow> p | Inl _ \<Rightarrow> (vars, []))"

definition generic_f :: "(string \<Rightarrow> 'a) \<Rightarrow> 'a reader" where
  "generic_f f vars name input =
     (let (vars, tmp) = read_tmp vars name
      in Inr (vars, if tmp \<noteq> [] then f tmp else input))"

text \<open>The same reader where the conversion parses JSON and may throw.\<close>

definition generic_throw_f :: "(string \<Rightarrow> 'a option) \<Rightarrow> 'a reader" where
  "generic_throw_f f vars name input =
     (let (vars, tmp) = read_tmp vars name
      in if tmp \<noteq> []
         then (case f tmp of None \<Rightarrow> Inl Json_Error | Some x \<Rightarrow> Inr (vars, x))
         else Inr (vars, input))"

fun first_match :: "string \<Rightarrow> string list \<Rightarrow> string \<Rightarrow> string" where
  "first_match temp [] input = input"
| "first_match temp (allowed_val # vals) input =
     (if temp = allowed_val then temp else first_match temp vals input)"

definition string_restricted_f :: "string list \<Rightarrow> string reader" where
  "string_restricted_f allowed_vals vars name input =
     (let (vars, temp) = read_tmp vars name
      in Inr (vars, first_match temp allowed_vals input))"

text \<open>\<open>std::getline (ss, item, ',')\<close> until the stream is exhausted.\<close>

function getlines :: "string \<Rightarrow> string list" where
  "getlines s =
     (if s = [] then []
      else takeWhile (\<lambda>c. c \<noteq> CHR '','') s # getlines (tl (dropWhile (\<lambda>c. c \<noteq> CHR '','') s)))"
  by pat_completeness auto
termination
proof (relation "measure length", goal_cases)
  case (2 s)
  have "length (tl (dropWhile (\<lambda>c. c \<noteq> CHR '','') s)) \<le> length s - 1"
    by (simp add: diff_le_mono dropWhile_length_le)
  then show ?case using 2 by (cases s) auto
qed simp

declare getlines.simps [simp del]

definition trim :: "string \<Rightarrow> string" where
  "trim item = rtrim whitespace (dropWhile whitespace item)"

definition string_list_f :: "string list reader" where
  "string_list_f vars name output =
     (let (vars, temp) = read_tmp vars name
      in Inr (vars, if temp = [] then output
                    else filter (\<lambda>item. item \<noteq> []) (map trim (getlines temp))))"

section \<open>Numbers\<close>

text \<open>A value written \<open>"756"\<close> instead of \<open>756\<close> loses its first and last character.\<close>

definition unquote :: "string \<Rightarrow> string" where
  "unquote val =
     (if 2 \<le> length val \<and> hd val = CHR 0x22 then take (length val - 2) (drop 1 val) else val)"

definition parse_int :: "string \<Rightarrow> config_error + int" where
  "parse_int text =
     (let val = unquote text
      in if 2 \<le> length val \<and> take 2 val = ''0x''
         then (case from_hex_int (drop 2 val) of None \<Rightarrow> Inl Buffer_Overrun | Some n \<Rightarrow> Inr n)
         else Inr (to_int32 (from_view val)))"

definition int_f :: "int reader" where
  "int_f vars name input =
     (case vars name of
        None \<Rightarrow> Inr (vars, input)
      | Some text \<Rightarrow>
          (case parse_int text of Inl e \<Rightarrow> Inl e | Inr n \<Rightarrow> Inr (vars(name := None), n)))"

definition int_opt_f :: "int option reader" where
  "int_opt_f vars name input =
     (case vars name of
        None \<Rightarrow> Inr (vars, input)
      | Some text \<Rightarrow>
          (case parse_int text of Inl e \<Rightarrow> Inl e | Inr n \<Rightarrow> Inr (vars(name := None), Some n)))"

text \<open>The two templates that convert the text with a function.\<close>

definition int_conv_f :: "(string \<Rightarrow> int) \<Rightarrow> int reader" where
  "int_conv_f f vars name input =
     (let (vars, tmp) = read_tmp vars name
      in Inr (vars, if tmp \<noteq> [] then f tmp else input))"

definition int_opt_conv_f :: "(string \<Rightarrow> int option) \<Rightarrow> int option reader" where
  "int_opt_conv_f f vars name input =
     (let (vars, tmp) = read_tmp vars name
      in Inr (vars, if tmp \<noteq> [] then f tmp else input))"

definition int_between_f :: "int \<times> int \<Rightarrow> int reader" where
  "int_between_f bounds vars name input =
     (case int_f vars name input of
        Inl e \<Rightarrow> Inl e
      | Inr (vars, temp) \<Rightarrow>
          Inr (vars, if fst bounds \<le> temp \<and> temp \<le> snd bounds then temp else input))"

text \<open>
  \<open>double\<close>: the finite values as rationals (rounding is not modelled), the infinities and
  NaN. \<open>strtod\<close> is the C library's; \<open>None\<close> is "no conversion performed".
\<close>

datatype cdouble = Fin rat | PosInf | NegInf | NaN

fun dle :: "cdouble \<Rightarrow> cdouble \<Rightarrow> bool" where
  "dle NaN _ = False"
| "dle _ NaN = False"
| "dle NegInf _ = True"
| "dle _ PosInf = True"
| "dle (Fin a) (Fin b) = (a \<le> b)"
| "dle _ _ = False"

definition double_f :: "(string \<Rightarrow> cdouble option) \<Rightarrow> cdouble reader" where
  "double_f strtod vars name input =
     (let (vars, tmp) = read_tmp vars name
      in Inr (vars, if tmp = [] then input
                    else (case strtod tmp of None \<Rightarrow> input | Some val \<Rightarrow> val)))"

definition double_between_f ::
    "(string \<Rightarrow> cdouble option) \<Rightarrow> cdouble \<times> cdouble \<Rightarrow> cdouble reader" where
  "double_between_f strtod bounds vars name input =
     (case double_f strtod vars name input of
        Inl e \<Rightarrow> Inl e
      | Inr (vars, temp) \<Rightarrow>
          Inr (vars, if dle (fst bounds) temp \<and> dle temp (snd bounds) then temp else input))"

section \<open>Booleans\<close>

text \<open>
  The \<open>for_each\<close> of \<open>to_bool\<close> returns each lowered character and drops it: the text is
  compared as it was written.
\<close>

definition to_bool :: "string \<Rightarrow> bool" where
  "to_bool boolean \<longleftrightarrow>
     boolean = ''true'' \<or> boolean = ''yes'' \<or> boolean = ''enable'' \<or> boolean = ''enabled'' \<or>
     boolean = ''on'' \<or> CHR ''1'' \<in> set boolean"

definition bool_f :: "bool reader" where
  "bool_f vars name input =
     (let (vars, tmp) = read_tmp vars name
      in Inr (vars, if tmp = [] then input else to_bool tmp))"

text \<open>
  \<open>bool_f\<close> on an \<open>optional<int>\<close> seen through \<open>(bool &)\<close>: the low byte of the payload.
\<close>

definition bool_opt_f :: "int option reader" where
  "bool_opt_f vars name input =
     (let (vars, tmp) = read_tmp vars name
      in Inr (vars, if tmp = [] then input
                    else map_option (\<lambda>n. n - n mod 256 + (if to_bool tmp then 1 else 0)) input))"

section \<open>Lists\<close>

text \<open>
  The loop of \<open>list_string_f\<close>: \<open>beg\<close> is where the current element starts, \<open>pos\<close> the
  cursor. After a nested list the code steps one past the bracket it stopped at, which is
  past the end of the text when the bracket was the last character: the range
  \<open>[begin, pos)\<close> then ends behind the text (\<open>None\<close>).
\<close>

function list_loop :: "string \<Rightarrow> string \<Rightarrow> string list \<Rightarrow> (string list) option" where
  "list_loop beg pos input =
     (case pos of
        [] \<Rightarrow> Some (if length beg = 0 then input else input @ [beg])
      | c # cs \<Rightarrow>
          if c = CHR ''['' then
            (case skip_list cs of [] \<Rightarrow> None | _ # rest \<Rightarrow> list_loop beg rest input)
          else if c = CHR '']'' then
            Some (if length pos = length beg then input else input @ [between beg pos])
          else if c = CHR '','' then
            (let beg2 = dropWhile whitespace cs
             in list_loop beg2 beg2 (input @ [between beg pos]))
          else list_loop beg cs input)"
  by pat_completeness auto
termination
proof (relation "measure (\<lambda>(beg, pos, input). length pos)", goal_cases)
  case (2 beg pos input c cs d rest)
  then show ?case using skip_list_length [of cs] by simp
next
  case (3 beg pos input c cs beg2)
  then show ?case by (simp add: less_Suc_eq_le dropWhile_length_le)
qed auto

declare list_loop.simps [simp del]

definition list_elements :: "string \<Rightarrow> (string list) option" where
  "list_elements text =
     (let beg = dropWhile whitespace (if hd text = CHR ''['' then tl text else text)
      in if beg = [] then Some [] else list_loop beg beg [])"

definition list_string_f :: "string list reader" where
  "list_string_f vars name input =
     (let (vars, text) = read_tmp vars name
      in if text = [] then Inr (vars, input)
         else (case list_elements text of
                 None \<Rightarrow> Inl Buffer_Overrun
               | Some els \<Rightarrow> Inr (vars, els)))"

fun parse_ints :: "string list \<Rightarrow> config_error + int list" where
  "parse_ints [] = Inr []"
| "parse_ints (el # els) =
     (case parse_int el of
        Inl e \<Rightarrow> Inl e
      | Inr tmp \<Rightarrow> (case parse_ints els of Inl e \<Rightarrow> Inl e | Inr ns \<Rightarrow> Inr (tmp # ns)))"

definition list_int_f :: "int list reader" where
  "list_int_f vars name input =
     (case list_string_f vars name [] of
        Inl e \<Rightarrow> Inl e
      | Inr (vars, els) \<Rightarrow>
          if els = [] then Inr (vars, input)
          else (case parse_ints els of Inl e \<Rightarrow> Inl e | Inr ns \<Rightarrow> Inr (vars, ns)))"

fun emplace_pairs :: "int list \<Rightarrow> (int \<Rightarrow> int option) \<Rightarrow> (int \<Rightarrow> int option)" where
  "emplace_pairs (key # val # rest) m = emplace_pairs rest (emplace key val m)"
| "emplace_pairs _ m = m"

definition map_int_int_f :: "(int \<Rightarrow> int option) reader" where
  "map_int_int_f vars name input =
     (case list_int_f vars name [] of
        Inl e \<Rightarrow> Inl e
      | Inr (vars, xs) \<Rightarrow>
          Inr (vars, if odd (length xs) then input else emplace_pairs xs input))"

section \<open>The contract of a reader\<close>

text \<open>
  What \<open>apply_config\<close> relies on, whatever the type of the setting: a reader removes its own
  option and touches no other, an absent option leaves the setting alone, and the result
  depends on the text of this option only.
\<close>

locale consuming_reader =
  fixes read :: "'a reader"
  assumes consumes: "read vars name x = Inr (vars', y) \<Longrightarrow> vars' = vars(name := None)"
begin

lemma removed: "read vars name x = Inr (vars', y) \<Longrightarrow> vars' name = None"
  by (drule consumes) simp

lemma others: "read vars name x = Inr (vars', y) \<Longrightarrow> m \<noteq> name \<Longrightarrow> vars' m = vars m"
  by (drule consumes) simp

lemma restricts: "read vars name x = Inr (vars', y) \<Longrightarrow> vars' = vars |` (- {name})"
  by (drule consumes) (auto simp: restrict_map_def)

end

locale option_reader = consuming_reader read for read :: "'a reader" +
  assumes absent: "vars name = None \<Longrightarrow> read vars name x = Inr (vars, x)"
    and own_text: "vars name = vars2 name \<Longrightarrow> read vars name x = Inr (vars', y) \<Longrightarrow>
        read vars2 name x = Inr (vars2(name := None), y)"
begin

text \<open>A second option of the same name can never be read: the first read took it.\<close>

lemma second_read: "read vars name x = Inr (vars', y) \<Longrightarrow> read vars' name z = Inr (vars', z)"
  using removed absent by blast

lemma commute:
  assumes "m \<noteq> n" "read vars m x = Inr (v1, x')" "read v1 n y = Inr (v2, y')"
  shows "\<exists>w. read vars n y = Inr (w, y') \<and> read w m x = Inr (v2, x')"
proof -
  have v1: "v1 = vars(m := None)" and v2: "v2 = v1(n := None)" using assms consumes by blast+
  have "read vars n y = Inr (vars(n := None), y')"
    by (rule own_text [OF _ assms(3)]) (use v1 assms(1) in simp)
  moreover have "read (vars(n := None)) m x = Inr ((vars(n := None))(m := None), x')"
    by (rule own_text [OF _ assms(2)]) (use assms(1) in simp)
  ultimately show ?thesis using v1 v2 assms(1) by (auto simp: fun_upd_twist)
qed

end

lemma read_tmp_eq:
  "read_tmp vars name = (vars(name := None), case vars name of None \<Rightarrow> [] | Some v \<Rightarrow> v)"
  by (auto simp: read_tmp_def string_f_def split: option.splits)

lemma first_match_Nil: "[] \<notin> set vals \<Longrightarrow> first_match [] vals input = input"
  by (induction vals) auto

lemma first_match_cases: "first_match temp vals input = input \<or> first_match temp vals input \<in> set vals"
  by (induction vals) auto

interpretation rd_string: option_reader string_f
  by unfold_locales (auto simp: string_f_def split: option.splits)

interpretation rd_generic: option_reader "generic_f f" for f :: "string \<Rightarrow> 'a"
  by unfold_locales (auto simp: generic_f_def read_tmp_eq split: option.splits)

interpretation rd_generic_throw: option_reader "generic_throw_f f" for f :: "string \<Rightarrow> 'a option"
  by unfold_locales (auto simp: generic_throw_f_def read_tmp_eq split: option.splits if_splits)

interpretation rd_int: option_reader int_f
  by unfold_locales (auto simp: int_f_def split: option.splits sum.splits)

interpretation rd_int_opt: option_reader int_opt_f
  by unfold_locales (auto simp: int_opt_f_def split: option.splits sum.splits)

interpretation rd_int_conv: option_reader "int_conv_f f" for f
  by unfold_locales (auto simp: int_conv_f_def read_tmp_eq split: option.splits)

interpretation rd_int_opt_conv: option_reader "int_opt_conv_f f" for f
  by unfold_locales (auto simp: int_opt_conv_f_def read_tmp_eq split: option.splits)

interpretation rd_int_between: option_reader "int_between_f bounds" for bounds
proof (unfold_locales, goal_cases)
  case (1 vars name x vars' y)
  then show ?case by (auto simp: int_between_f_def int_f_def split: option.splits sum.splits)
next
  case (2 vars name x)
  then show ?case by (auto simp: int_between_f_def int_f_def)
next
  case (3 vars name vars2 x vars' y)
  then show ?case by (auto simp: int_between_f_def int_f_def split: option.splits sum.splits)
qed

interpretation rd_bool: option_reader bool_f
  by unfold_locales (auto simp: bool_f_def read_tmp_eq split: option.splits)

interpretation rd_bool_opt: option_reader bool_opt_f
  by unfold_locales (auto simp: bool_opt_f_def read_tmp_eq split: option.splits)

interpretation rd_double: option_reader "double_f strtod" for strtod
  by unfold_locales (auto simp: double_f_def read_tmp_eq split: option.splits)

interpretation rd_double_between: option_reader "double_between_f strtod bounds" for strtod bounds
  by unfold_locales
    (auto simp: double_between_f_def double_f_def read_tmp_eq split: option.splits if_splits)

interpretation rd_string_list: option_reader string_list_f
  by unfold_locales (auto simp: string_list_f_def read_tmp_eq split: option.splits)

interpretation rd_list_string: option_reader list_string_f
  by unfold_locales
    (auto simp: list_string_f_def read_tmp_eq split: option.splits if_splits)

lemma list_int_f_cases:
  "list_int_f vars name input =
     (case vars name of
        None \<Rightarrow> Inr (vars, input)
      | Some text \<Rightarrow>
          (case list_string_f vars name [] of
             Inl e \<Rightarrow> Inl e
           | Inr (vars', els) \<Rightarrow>
               if els = [] then Inr (vars(name := None), input)
               else (case parse_ints els of Inl e \<Rightarrow> Inl e
                     | Inr ns \<Rightarrow> Inr (vars(name := None), ns))))"
  by (auto simp: list_int_f_def rd_list_string.absent split: option.splits sum.splits
      dest: rd_list_string.consumes)

interpretation rd_list_int: option_reader list_int_f
proof (unfold_locales, goal_cases)
  case (1 vars name x vars' y)
  then show ?case by (auto simp: list_int_f_cases split: option.splits sum.splits if_splits)
next
  case (2 vars name x)
  then show ?case by (simp add: list_int_f_cases)
next
  case (3 vars name vars2 x vars' y)
  show ?case
  proof (cases "vars name")
    case None
    then show ?thesis using 3 by (auto simp: list_int_f_cases)
  next
    case (Some t)
    then obtain v els where l: "list_string_f vars name [] = Inr (v, els)"
      using 3 by (auto simp: list_int_f_cases split: sum.splits)
    have "list_string_f vars2 name [] = Inr (vars2(name := None), els)"
      using rd_list_string.own_text l 3(1) by blast
    moreover have "vars2 name = Some t" using Some 3(1) by simp
    ultimately show ?thesis
      using 3(2) Some l by (auto simp: list_int_f_cases split: sum.splits if_splits)
  qed
qed

interpretation rd_map_int_int: option_reader map_int_int_f
proof (unfold_locales, goal_cases)
  case (1 vars name x vars' y)
  then show ?case by (auto simp: map_int_int_f_def split: sum.splits dest: rd_list_int.consumes)
next
  case (2 vars name x)
  then show ?case by (simp add: map_int_int_f_def rd_list_int.absent)
next
  case (3 vars name vars2 x vars' y)
  then obtain v xs where l: "list_int_f vars name [] = Inr (v, xs)"
    by (auto simp: map_int_int_f_def split: sum.splits)
  then have "list_int_f vars2 name [] = Inr (vars2(name := None), xs)"
    using rd_list_int.own_text 3(1) by blast
  then show ?case using 3 l by (auto simp: map_int_int_f_def)
qed

text \<open>
  \<open>string_restricted_f\<close> accepts an absent option as the empty string, so it keeps the full
  contract only when the empty string is not an allowed value.
\<close>

interpretation rd_restricted: consuming_reader "string_restricted_f vals" for vals
  by unfold_locales (auto simp: string_restricted_f_def read_tmp_eq)

lemma string_restricted_reader:
  "[] \<notin> set vals \<Longrightarrow> option_reader (string_restricted_f vals)"
  by unfold_locales
    (auto simp: string_restricted_f_def read_tmp_eq first_match_Nil split: option.splits)

section \<open>What the readers compute\<close>

lemma int_between_f_bounds:
  assumes "int_between_f bounds vars name x = Inr (vars', y)"
  shows "y = x \<or> fst bounds \<le> y \<and> y \<le> snd bounds"
  using assms by (auto simp: int_between_f_def split: sum.splits if_splits)

lemma double_between_f_bounds:
  assumes "double_between_f strtod bounds vars name x = Inr (vars', y)"
  shows "y = x \<or> dle (fst bounds) y \<and> dle y (snd bounds)"
  using assms by (auto simp: double_between_f_def split: sum.splits if_splits)

lemma string_restricted_f_cases:
  assumes "string_restricted_f vals vars name x = Inr (vars', y)"
  shows "y = x \<or> y \<in> set vals"
  using assms first_match_cases [of _ vals x]
  by (auto simp: string_restricted_f_def read_tmp_eq)

lemma unquote_digits:
  assumes "\<forall>c\<in>set s. isdigit c"
  shows "unquote s = s"
proof (cases s)
  case (Cons c cs)
  then show ?thesis using assms by (auto simp: unquote_def isdigit_def)
qed (simp add: unquote_def)

lemma not_hex_digits:
  assumes "\<forall>c\<in>set s. isdigit c"
  shows "take 2 s \<noteq> ''0x''"
proof
  assume "take 2 s = ''0x''"
  then have "CHR ''x'' \<in> set (take 2 s)" by simp
  then have "CHR ''x'' \<in> set s" by (rule in_set_takeD)
  then have "isdigit (CHR ''x'')" using assms by blast
  then show False by (simp add: isdigit_def)
qed

lemma parse_int_digits:
  assumes "s \<noteq> []" "\<forall>c\<in>set s. isdigit c" "length s \<le> 18"
  shows "parse_int s = Inr (to_int32 (dec_value s))"
  using from_view_digits [OF assms] unquote_digits [OF assms(2)] not_hex_digits [OF assms(2)]
  by (simp add: parse_int_def)

text \<open>
  A decimal option that fits in an int is read as the number it denotes: for a non-empty
  text of digits denoting at most \<open>INT_MAX\<close>, \<open>int_f\<close> stores that number and removes the
  option.
\<close>
theorem int_f_decimal:
  assumes "vars name = Some s" "s \<noteq> []" "\<forall>c\<in>set s. isdigit c" "length s \<le> 18"
    "dec_value s \<le> INT_MAX"
  shows "int_f vars name x = Inr (vars(name := None), dec_value s)"
proof -
  have "0 \<le> dec_value s" using dec_value_bounds assms(3) by blast
  then have "to_int32 (dec_value s) = dec_value s"
    using assms(5) by (intro to_int32_id) (simp_all add: INT_MIN_def)
  then show ?thesis using parse_int_digits [OF assms(2-4)] assms(1) by (simp add: int_f_def)
qed

theorem int_f_decimal_witness:
  "int_f [''qp'' \<mapsto> ''28''] ''qp'' 7 = Inr ([''qp'' \<mapsto> ''28''](''qp'' := None), dec_value ''28'') \<and>
   dec_value ''28'' = 28"
proof
  show "dec_value ''28'' = 28" by (simp add: dec_value_def schar_def)
  then show "int_f [''qp'' \<mapsto> ''28''] ''qp'' 7 =
      Inr ([''qp'' \<mapsto> ''28''](''qp'' := None), dec_value ''28'')"
    by (intro int_f_decimal) (simp_all add: isdigit_def INT_MAX_def)
qed

text \<open>
  A blank kept at the end of a decimal option changes its value: the parser keeps blanks
  before a line end or a comment, and \<open>int_f\<close> reads the digits \<open>s\<close> followed by one blank as
  \<open>10 * s - 16\<close> (\<open>qp = 28\<close> with a blank after it becomes 264).
\<close>
theorem trailing_blank_misread:
  assumes "s \<noteq> []" "\<forall>c\<in>set s. isdigit c" "length s \<le> 8"
  shows "parse_config (''qp = '' @ s @ '' '' @ [CHR 0x0A]) ''qp'' = Some (s @ '' '') \<and>
    int_f [''qp'' \<mapsto> s @ '' ''] ''qp'' x = Inr (Map.empty, 10 * dec_value s - 16)"
proof -
  obtain c cs where s: "s = c # cs" using assms(1) by (cases s) auto
  have d: "\<not> whitespace c \<and> c \<noteq> CHR ''['' \<and> c \<noteq> CHR 0x22" if "isdigit c" for c
    using that by (auto simp: isdigit_def whitespace_def space_tab_def endline_def)
  have h: "c \<noteq> CHR ''#'' \<and> \<not> endline c" if "isdigit c" for c
    using that by (auto simp: isdigit_def endline_def)
  have c: "isdigit c" using assms(2) s by simp
  have v: "wf_value (s @ '' '')"
    using assms(2) d [OF c] h by (auto simp: wf_value_def s endline_def dest: h)
  have k: "wf_name ''qp''" by (simp add: wf_name_def whitespace_def space_tab_def endline_def)
  have parsed: "parse_config (''qp = '' @ s @ '' '' @ [CHR 0x0A]) ''qp'' = Some (s @ '' '')"
    using parse_config_from_line [OF k v, of "[]" Map.empty]
    by (simp add: parse_config_def emplace_def)
  have sp: "schar (CHR '' '') = 32" by (simp add: schar_def)
  have e: "dec_value (s @ '' '') = 10 * dec_value s - 16" by (simp add: dec_value_def sp)
  have b: "0 \<le> dec_value s" "dec_value s < 10 ^ length s" using dec_value_bounds assms(2) by auto
  have "(10::int) ^ length s \<le> 10 ^ 8" using assms(3) by (intro power_increasing) auto
  then have i: "to_int64 (10 * dec_value s - 16) = 10 * dec_value s - 16"
    "to_int32 (10 * dec_value s - 16) = 10 * dec_value s - 16"
    using b by (simp_all add: to_int64_id to_int32_id INT_MIN_def INT_MAX_def)
  have u: "unquote (s @ '' '') = s @ '' ''" using d [OF c] by (simp add: unquote_def s)
  have x: "take 2 (s @ '' '') \<noteq> ''0x''"
    using assms(2) by (cases cs) (auto simp: s isdigit_def)
  have "from_view (s @ '' '') = 10 * dec_value s - 16"
    using isdigit_not_minus [OF c] e i(1) by (simp add: from_view_def from_chars_value s)
  then have "int_f [''qp'' \<mapsto> s @ '' ''] ''qp'' x = Inr (Map.empty, 10 * dec_value s - 16)"
    using u x i(2) by (simp add: int_f_def parse_int_def)
  with parsed show ?thesis by simp
qed

theorem trailing_blank_misread_witness:
  "int_f [''qp'' \<mapsto> ''28 ''] ''qp'' 28 = Inr (Map.empty, 264)"
  using trailing_blank_misread [of "''28''" 28] by (simp add: isdigit_def dec_value_def schar_def)

end
