(* ===== verification/Config_State.thy ===== *)
theory Config_State
  imports Config_Options
begin

text \<open>
  The configuration globals of \<open>src/config.h\<close>, their initial values and the functions of
  \<open>src/config.cpp\<close> that turn the text of an option into an encoder constant. A record field
  carries the prefix of its struct (\<open>v_qp\<close> is \<open>video.qp\<close>), a nested struct is a nested record.
\<close>

section \<open>Choices by name\<close>

text \<open>A chain of \<open>_CONVERT_\<close> tests: the first name that matches wins, else a default.\<close>

definition pick_name :: "(string \<times> 'a) list \<Rightarrow> 'a \<Rightarrow> string \<Rightarrow> 'a" where
  "pick_name table dflt view = (case map_of table view of Some x \<Rightarrow> x | None \<Rightarrow> dflt)"

datatype nvenc_two_pass = TP_disabled | TP_quarter_resolution | TP_full_resolution

definition twopass_from_view :: "string \<Rightarrow> nvenc_two_pass" where
  "twopass_from_view = pick_name
     [(''disabled'', TP_disabled), (''quarter_res'', TP_quarter_resolution),
      (''full_res'', TP_full_resolution)] TP_quarter_resolution"

text \<open>The enumerations of \<open>config::amd\<close> with their values off Windows.\<close>

definition quality_av1_e :: "(string \<times> int) list" where
  "quality_av1_e = [(''speed'', 100), (''quality'', 30), (''balanced'', 70)]"
definition quality_hevc_e :: "(string \<times> int) list" where
  "quality_hevc_e = [(''speed'', 10), (''quality'', 0), (''balanced'', 5)]"
definition quality_h264_e :: "(string \<times> int) list" where
  "quality_h264_e = [(''speed'', 1), (''quality'', 2), (''balanced'', 0)]"
definition rc_av1_e :: "(string \<times> int) list" where
  "rc_av1_e = [(''cbr'', 3), (''cqp'', 0), (''vbr_latency'', 1), (''vbr_peak'', 2)]"
definition rc_hevc_e :: "(string \<times> int) list" where
  "rc_hevc_e = [(''cbr'', 3), (''cqp'', 0), (''vbr_latency'', 1), (''vbr_peak'', 2)]"
definition rc_h264_e :: "(string \<times> int) list" where
  "rc_h264_e = [(''cbr'', 1), (''cqp'', 0), (''vbr_latency'', 3), (''vbr_peak'', 2)]"
definition usage_av1_e :: "(string \<times> int) list" where
  "usage_av1_e = [(''transcoding'', 0), (''webcam'', 3), (''lowlatency_high_quality'', 5),
     (''lowlatency'', 1), (''ultralowlatency'', 2)]"
definition usage_hevc_e :: "(string \<times> int) list" where
  "usage_hevc_e = [(''transcoding'', 0), (''webcam'', 3), (''lowlatency_high_quality'', 5),
     (''lowlatency'', 2), (''ultralowlatency'', 1)]"
definition usage_h264_e :: "(string \<times> int) list" where
  "usage_h264_e = [(''transcoding'', 0), (''webcam'', 3), (''lowlatency_high_quality'', 5),
     (''lowlatency'', 2), (''ultralowlatency'', 1)]"

definition quality_from_view :: "(string \<times> int) list \<Rightarrow> string \<Rightarrow> int option \<Rightarrow> int option" where
  "quality_from_view T quality_type original =
     pick_name (map (\<lambda>x. (x, map_of T x)) [''balanced'', ''quality'', ''speed'']) original quality_type"

definition rc_from_view :: "(string \<times> int) list \<Rightarrow> string \<Rightarrow> int option \<Rightarrow> int option" where
  "rc_from_view T rc original =
     pick_name (map (\<lambda>x. (x, map_of T x)) [''cbr'', ''cqp'', ''vbr_latency'', ''vbr_peak'']) original rc"

definition usage_from_view :: "(string \<times> int) list \<Rightarrow> string \<Rightarrow> int option \<Rightarrow> int option" where
  "usage_from_view T usage original =
     pick_name (map (\<lambda>x. (x, map_of T x))
       [''lowlatency'', ''lowlatency_high_quality'', ''transcoding'', ''ultralowlatency'', ''webcam''])
       original usage"

definition amd_coder_from_view :: "string \<Rightarrow> int" where
  "amd_coder_from_view = pick_name
     [(''auto'', 0), (''cabac'', 1), (''ac'', 1), (''cavlc'', 2), (''vlc'', 2)] 0"

definition qsv_preset_from_view :: "string \<Rightarrow> int option" where
  "qsv_preset_from_view = pick_name
     [(''veryslow'', Some 1), (''slower'', Some 2), (''slow'', Some 3), (''medium'', Some 4),
      (''fast'', Some 5), (''faster'', Some 6), (''veryfast'', Some 7)] None"

definition qsv_coder_from_view :: "string \<Rightarrow> int option" where
  "qsv_coder_from_view = pick_name
     [(''auto'', Some 0), (''cabac'', Some 0), (''ac'', Some 0), (''cavlc'', Some 1),
      (''vlc'', Some 1)] None"

definition vt_coder_from_view :: "string \<Rightarrow> int" where
  "vt_coder_from_view = pick_name
     [(''auto'', 0), (''cabac'', 1), (''ac'', 1), (''cavlc'', 2), (''vlc'', 2)] (- 1)"

definition vt_allow_software_from_view :: "string \<Rightarrow> int" where
  "vt_allow_software_from_view software =
     (if software = ''allowed'' \<or> software = ''forced'' then 1 else 0)"

definition vt_force_software_from_view :: "string \<Rightarrow> int" where
  "vt_force_software_from_view software = (if software = ''forced'' then 1 else 0)"

definition vt_rt_from_view :: "string \<Rightarrow> int" where
  "vt_rt_from_view rt = (if rt = ''disabled'' \<or> rt = ''off'' \<or> rt = ''0'' then 0 else 1)"

definition svtav1_preset_from_view :: "string \<Rightarrow> int" where
  "svtav1_preset_from_view = pick_name
     [(''veryslow'', 1), (''slower'', 2), (''slow'', 4), (''medium'', 5), (''fast'', 7),
      (''faster'', 9), (''veryfast'', 10), (''superfast'', 11), (''ultrafast'', 12)] 11"

section \<open>Display device options\<close>

datatype config_option_e =
  CO_disabled | CO_verify_only | CO_ensure_active | CO_ensure_primary | CO_ensure_only_display

datatype resolution_option_e = RO_disabled | RO_automatic | RO_manual
datatype refresh_rate_option_e = RR_disabled | RR_automatic | RR_manual
datatype hdr_option_e = HO_disabled | HO_automatic

definition config_option_from_view :: "string \<Rightarrow> config_option_e" where
  "config_option_from_view = pick_name
     [(''disabled'', CO_disabled), (''verify_only'', CO_verify_only),
      (''ensure_active'', CO_ensure_active), (''ensure_primary'', CO_ensure_primary),
      (''ensure_only_display'', CO_ensure_only_display)] CO_disabled"

definition resolution_option_from_view :: "string \<Rightarrow> resolution_option_e" where
  "resolution_option_from_view = pick_name
     [(''disabled'', RO_disabled), (''auto'', RO_automatic), (''manual'', RO_manual)] RO_disabled"

definition refresh_rate_option_from_view :: "string \<Rightarrow> refresh_rate_option_e" where
  "refresh_rate_option_from_view = pick_name
     [(''disabled'', RR_disabled), (''auto'', RR_automatic), (''manual'', RR_manual)] RR_disabled"

definition hdr_option_from_view :: "string \<Rightarrow> hdr_option_e" where
  "hdr_option_from_view = pick_name
     [(''disabled'', HO_disabled), (''auto'', HO_automatic)] HO_disabled"

record mode_remapping_entry_t =
  requested_resolution :: string
  requested_fps :: string
  final_resolution :: string
  final_refresh_rate :: string

record mode_remapping_t =
  mixed :: "mode_remapping_entry_t list"
  resolution_only :: "mode_remapping_entry_t list"
  refresh_rate_only :: "mode_remapping_entry_t list"

text \<open>
  The JSON reader is a library: \<open>read_json\<close> gives, for the wrapped text, the three lists with
  the members \<open>get_optional\<close> found, or \<open>None\<close> where it throws.
\<close>

type_synonym json_entry = "string option \<times> string option \<times> string option \<times> string option"

definition value_or :: "'a \<Rightarrow> 'a option \<Rightarrow> 'a" where
  "value_or d x = (case x of None \<Rightarrow> d | Some v \<Rightarrow> v)"

definition parse_entry_list :: "json_entry list \<Rightarrow> mode_remapping_entry_t list" where
  "parse_entry_list = map (\<lambda>(rr, rf, fr, ff).
     \<lparr>requested_resolution = value_or [] rr, requested_fps = value_or [] rf,
      final_resolution = value_or [] fr, final_refresh_rate = value_or [] ff\<rparr>)"

definition mode_remapping_from_view ::
    "(string \<Rightarrow> (json_entry list \<times> json_entry list \<times> json_entry list) option) \<Rightarrow>
     string \<Rightarrow> mode_remapping_t option" where
  "mode_remapping_from_view read_json value =
     map_option (\<lambda>(m, r, f). \<lparr>mixed = parse_entry_list m, resolution_only = parse_entry_list r,
         refresh_rate_only = parse_entry_list f\<rparr>)
       (read_json ([CHR 0x7B, CHR 0x22] @ ''dd_mode_remapping'' @ [CHR 0x22] @ '':'' @ value @ [CHR 0x7D]))"

section \<open>The structs\<close>

record nvenc_config =
  nv_quality_preset :: int
  nv_two_pass :: nvenc_two_pass
  nv_vbv_percentage_increase :: int
  nv_weighted_prediction :: bool
  nv_adaptive_quantization :: bool
  nv_enable_min_qp :: bool
  nv_min_qp_h264 :: nat
  nv_min_qp_hevc :: nat
  nv_min_qp_av1 :: nat
  nv_h264_cavlc :: bool
  nv_insert_filler_data :: bool

record sw_t =
  sw_preset :: string
  sw_tune :: string
  sw_svtav1_preset :: "int option"

record nv_legacy_t =
  nvl_preset :: int
  nvl_multipass :: int
  nvl_h264_coder :: int
  nvl_aq :: int
  nvl_vbv_percentage_increase :: int

record qsv_t =
  qsv_preset :: "int option"
  qsv_cavlc :: "int option"
  qsv_slow_hevc :: bool

record amd_t =
  amd_usage_h264 :: "int option"
  amd_usage_hevc :: "int option"
  amd_usage_av1 :: "int option"
  amd_rc_h264 :: "int option"
  amd_rc_hevc :: "int option"
  amd_rc_av1 :: "int option"
  amd_enforce_hrd :: "int option"
  amd_quality_h264 :: "int option"
  amd_quality_hevc :: "int option"
  amd_quality_av1 :: "int option"
  amd_preanalysis :: "int option"
  amd_vbaq :: "int option"
  amd_coder :: int

record vt_t =
  vt_allow_sw :: int
  vt_require_sw :: int
  vt_realtime :: int
  vt_coder :: int

record dd_t =
  dd_configuration_option :: config_option_e
  dd_resolution_option :: resolution_option_e
  dd_manual_resolution :: string
  dd_refresh_rate_option :: refresh_rate_option_e
  dd_manual_refresh_rate :: string
  dd_hdr_option :: hdr_option_e
  dd_config_revert_delay :: int
  dd_config_revert_on_disconnect :: bool
  dd_mode_remapping :: mode_remapping_t
  dd_hdr_toggle_delay :: int

record video_t =
  v_qp :: int
  v_hevc_mode :: int
  v_av1_mode :: int
  v_min_threads :: int
  v_sw :: sw_t
  v_nv :: nvenc_config
  v_nv_realtime_hags :: bool
  v_nv_opengl_vulkan_on_dxgi :: bool
  v_nv_sunshine_high_power_mode :: bool
  v_nv_legacy :: nv_legacy_t
  v_qsv :: qsv_t
  v_amd :: amd_t
  v_vt :: vt_t
  v_vaapi_strict_rc_buffer :: bool
  v_vk_tune :: int
  v_vk_rc_mode :: int
  v_capture :: string
  v_encoder :: string
  v_adapter_name :: string
  v_output_name :: string
  v_dd :: dd_t
  v_max_bitrate :: int
  v_minimum_fps_target :: cdouble

record audio_t =
  au_sink :: string
  au_virtual_sink :: string
  au_stream :: bool
  au_install_steam_drivers :: bool

record stream_t =
  st_ping_timeout :: int
  st_file_apps :: string
  st_fec_percentage :: int
  st_lan_encryption_mode :: int
  st_wan_encryption_mode :: int

record nvhttp_t =
  nvh_origin_web_ui_allowed :: string
  nvh_pkey :: string
  nvh_cert :: string
  nvh_sunshine_name :: string
  nvh_file_state :: string
  nvh_external_ip :: string

text \<open>Durations in milliseconds, but \<open>in_key_repeat_period\<close> in seconds.\<close>

record input_t =
  in_keybindings :: "int \<Rightarrow> int option"
  in_back_button_timeout :: int
  in_key_repeat_delay :: int
  in_key_repeat_period :: cdouble
  in_gamepad :: string
  in_ds4_back_as_touchpad_click :: bool
  in_motion_as_ds4 :: bool
  in_touchpad_as_ds4 :: bool
  in_ds5_inputtino_randomize_mac :: bool
  in_keyboard :: bool
  in_mouse :: bool
  in_controller :: bool
  in_always_send_scancodes :: bool
  in_high_resolution_scrolling :: bool
  in_native_pen_touch :: bool

datatype flag_e = PIN_STDIN | FRESH_STATE | FORCE_VIDEO_HEADER_REPLACE | UPNP | CONST_PIN

record prep_cmd_t =
  do_cmd :: string
  undo_cmd :: string
  elevated :: bool

record sunshine_t =
  sun_locale :: string
  sun_min_log_level :: int
  sun_flags :: "flag_e \<Rightarrow> bool"
  sun_credentials_file :: string
  sun_config_file :: string
  sun_cmd_name :: string
  sun_cmd_argv :: "string list"
  sun_port :: int
  sun_address_family :: string
  sun_bind_address :: string
  sun_log_file :: string
  sun_notify_pre_releases :: bool
  sun_system_tray :: bool
  sun_prep_cmds :: "prep_cmd_t list"
  sun_csrf_allowed_origins :: "string list"

text \<open>
  What the code takes from its surroundings: the platform, the C library, the JSON reader and
  the file system. \<open>fs_writable\<close> says where creating a file or directory succeeds;
  \<open>assets_apps\<close> is the installed \<open>apps.json\<close>; the \<open>nvenc_\<close> constants come from the
  \<open>nvEncodeAPI\<close> header.
\<close>

record environment =
  appdata :: string
  host_name :: string
  gamepads :: "string list"
  strtod :: "string \<Rightarrow> cdouble option"
  read_remapping :: "string \<Rightarrow> (json_entry list \<times> json_entry list \<times> json_entry list) option"
  read_prep_cmds :: "string \<Rightarrow> (string option \<times> string option \<times> bool option) list option"
  fs_writable :: "string \<Rightarrow> bool"
  assets_apps :: "string option"
  nvenc_multi_pass_disabled :: int
  nvenc_two_pass_quarter :: int
  nvenc_two_pass_full :: int
  nvenc_coding_cavlc :: int
  nvenc_coding_cabac :: int

datatype fs_node = Dir | File string

record config_t =
  c_vars :: var_map
  c_modified :: var_map
  c_video :: video_t
  c_audio :: audio_t
  c_stream :: stream_t
  c_nvhttp :: nvhttp_t
  c_input :: input_t
  c_sunshine :: sunshine_t
  c_fs :: "string \<Rightarrow> fs_node option"

section \<open>Initial values\<close>

definition default_nv :: nvenc_config where
  "default_nv = \<lparr>nv_quality_preset = 1, nv_two_pass = TP_quarter_resolution,
     nv_vbv_percentage_increase = 0, nv_weighted_prediction = False,
     nv_adaptive_quantization = False, nv_enable_min_qp = False, nv_min_qp_h264 = 19,
     nv_min_qp_hevc = 23, nv_min_qp_av1 = 23, nv_h264_cavlc = False,
     nv_insert_filler_data = False\<rparr>"

definition default_video :: video_t where
  "default_video = \<lparr>v_qp = 28, v_hevc_mode = 0, v_av1_mode = 0, v_min_threads = 2,
     v_sw = \<lparr>sw_preset = ''superfast'', sw_tune = ''zerolatency'', sw_svtav1_preset = Some 11\<rparr>,
     v_nv = default_nv, v_nv_realtime_hags = True, v_nv_opengl_vulkan_on_dxgi = True,
     v_nv_sunshine_high_power_mode = True,
     v_nv_legacy = \<lparr>nvl_preset = 0, nvl_multipass = 0, nvl_h264_coder = 0, nvl_aq = 0,
       nvl_vbv_percentage_increase = 0\<rparr>,
     v_qsv = \<lparr>qsv_preset = Some 4, qsv_cavlc = Some 0, qsv_slow_hevc = False\<rparr>,
     v_amd = \<lparr>amd_usage_h264 = Some 1, amd_usage_hevc = Some 1, amd_usage_av1 = Some 2,
       amd_rc_h264 = Some 3, amd_rc_hevc = Some 1, amd_rc_av1 = Some 1, amd_enforce_hrd = Some 0,
       amd_quality_h264 = Some 0, amd_quality_hevc = Some 5, amd_quality_av1 = Some 70,
       amd_preanalysis = Some 0, amd_vbaq = Some 1, amd_coder = 0\<rparr>,
     v_vt = \<lparr>vt_allow_sw = 0, vt_require_sw = 0, vt_realtime = 1, vt_coder = - 1\<rparr>,
     v_vaapi_strict_rc_buffer = False, v_vk_tune = 2, v_vk_rc_mode = 4,
     v_capture = [], v_encoder = [], v_adapter_name = [], v_output_name = [],
     v_dd = \<lparr>dd_configuration_option = CO_disabled, dd_resolution_option = RO_automatic,
       dd_manual_resolution = [], dd_refresh_rate_option = RR_automatic,
       dd_manual_refresh_rate = [], dd_hdr_option = HO_automatic, dd_config_revert_delay = 3000,
       dd_config_revert_on_disconnect = False,
       dd_mode_remapping = \<lparr>mixed = [], resolution_only = [], refresh_rate_only = []\<rparr>,
       dd_hdr_toggle_delay = 0\<rparr>,
     v_max_bitrate = 0, v_minimum_fps_target = Fin 0\<rparr>"

definition default_audio :: audio_t where
  "default_audio = \<lparr>au_sink = [], au_virtual_sink = [], au_stream = True,
     au_install_steam_drivers = True\<rparr>"

definition default_stream :: "environment \<Rightarrow> stream_t" where
  "default_stream env = \<lparr>st_ping_timeout = 10000, st_file_apps = appdata env @ ''/apps.json'',
     st_fec_percentage = 20, st_lan_encryption_mode = 0, st_wan_encryption_mode = 1\<rparr>"

definition default_nvhttp :: "environment \<Rightarrow> nvhttp_t" where
  "default_nvhttp env = \<lparr>nvh_origin_web_ui_allowed = ''lan'',
     nvh_pkey = ''credentials/cakey.pem'', nvh_cert = ''credentials/cacert.pem'',
     nvh_sunshine_name = host_name env, nvh_file_state = ''sunshine_state.json'',
     nvh_external_ip = []\<rparr>"

text \<open>\<open>supported_gamepads\<close> never returns an empty list; the default is its first entry.\<close>

definition default_input :: "environment \<Rightarrow> input_t" where
  "default_input env = \<lparr>in_keybindings = [0x10 \<mapsto> 0xA0, 0x11 \<mapsto> 0xA2, 0x12 \<mapsto> 0xA4],
     in_back_button_timeout = - 1, in_key_repeat_delay = 500,
     in_key_repeat_period = Fin (10 / 249),
     in_gamepad = (case gamepads env of [] \<Rightarrow> [] | g # _ \<Rightarrow> g),
     in_ds4_back_as_touchpad_click = True, in_motion_as_ds4 = True, in_touchpad_as_ds4 = True,
     in_ds5_inputtino_randomize_mac = True, in_keyboard = True, in_mouse = True,
     in_controller = True, in_always_send_scancodes = True, in_high_resolution_scrolling = True,
     in_native_pen_touch = True\<rparr>"

definition default_sunshine :: "environment \<Rightarrow> sunshine_t" where
  "default_sunshine env = \<lparr>sun_locale = ''en'', sun_min_log_level = 2, sun_flags = (\<lambda>_. False),
     sun_credentials_file = [], sun_config_file = appdata env @ ''/sunshine.conf'',
     sun_cmd_name = [], sun_cmd_argv = [], sun_port = 47989, sun_address_family = ''ipv4'',
     sun_bind_address = [], sun_log_file = appdata env @ ''/sunshine.log'',
     sun_notify_pre_releases = False, sun_system_tray = True, sun_prep_cmds = [],
     sun_csrf_allowed_origins = []\<rparr>"

definition default_config :: "environment \<Rightarrow> (string \<Rightarrow> fs_node option) \<Rightarrow> config_t" where
  "default_config env fs = \<lparr>c_vars = Map.empty, c_modified = Map.empty, c_video = default_video,
     c_audio = default_audio, c_stream = default_stream env, c_nvhttp = default_nvhttp env,
     c_input = default_input env, c_sunshine = default_sunshine env, c_fs = fs\<rparr>"

end
