(* ===== verification/Config_Apply.thy ===== *)
theory Config_Apply
  imports Config_State
begin

text \<open>
  \<open>apply_config\<close>, \<open>apply_flags\<close> and \<open>parse\<close> of \<open>src/config.cpp\<close>. A statement is a function
  from the configuration to an error or the next configuration; the body of \<open>apply_config\<close>
  is the list of its statements in the order of the code, cut into sections by the part of
  the configuration they write. An error ends the run, as the exception does.
\<close>

type_synonym stmt = "config_t \<Rightarrow> config_error + config_t"

fun seq :: "stmt list \<Rightarrow> stmt" where
  "seq [] c = Inr c"
| "seq (s # ss) c = (case s c of Inl e \<Rightarrow> Inl e | Inr c' \<Rightarrow> seq ss c')"

definition act :: "(config_t \<Rightarrow> config_t) \<Rightarrow> stmt" where
  "act f c = Inr (f c)"

text \<open>\<open>reader(vars, name, setting)\<close>, for a setting given by its selector and its update.\<close>

definition opt :: "'a reader \<Rightarrow> string \<Rightarrow> (config_t \<Rightarrow> 'a) \<Rightarrow>
    (('a \<Rightarrow> 'a) \<Rightarrow> config_t \<Rightarrow> config_t) \<Rightarrow> stmt" where
  "opt reader name get upd c =
     (case reader (c_vars c) name (get c) of
        Inl e \<Rightarrow> Inl e
      | Inr (vs, x) \<Rightarrow> Inr (upd (\<lambda>_. x) (c\<lparr>c_vars := vs\<rparr>)))"

text \<open>A reader into a local variable with an initial value, and what is done with it.\<close>

definition local_opt :: "'a reader \<Rightarrow> string \<Rightarrow> 'a \<Rightarrow> ('a \<Rightarrow> config_t \<Rightarrow> config_t) \<Rightarrow> stmt" where
  "local_opt reader name init use c =
     (case reader (c_vars c) name init of
        Inl e \<Rightarrow> Inl e
      | Inr (vs, x) \<Rightarrow> Inr (use x (c\<lparr>c_vars := vs\<rparr>)))"

definition vopt :: "'a reader \<Rightarrow> string \<Rightarrow> (video_t \<Rightarrow> 'a) \<Rightarrow>
    (('a \<Rightarrow> 'a) \<Rightarrow> video_t \<Rightarrow> video_t) \<Rightarrow> stmt" where
  "vopt reader name get upd =
     opt reader name (\<lambda>c. get (c_video c)) (\<lambda>f. c_video_update (upd f))"

definition sopt :: "'a reader \<Rightarrow> string \<Rightarrow> (sunshine_t \<Rightarrow> 'a) \<Rightarrow>
    (('a \<Rightarrow> 'a) \<Rightarrow> sunshine_t \<Rightarrow> sunshine_t) \<Rightarrow> stmt" where
  "sopt reader name get upd =
     opt reader name (\<lambda>c. get (c_sunshine c)) (\<lambda>f. c_sunshine_update (upd f))"

definition iopt :: "'a reader \<Rightarrow> string \<Rightarrow> (input_t \<Rightarrow> 'a) \<Rightarrow>
    (('a \<Rightarrow> 'a) \<Rightarrow> input_t \<Rightarrow> input_t) \<Rightarrow> stmt" where
  "iopt reader name get upd =
     opt reader name (\<lambda>c. get (c_input c)) (\<lambda>f. c_input_update (upd f))"

definition nopt :: "'a reader \<Rightarrow> string \<Rightarrow> (nvhttp_t \<Rightarrow> 'a) \<Rightarrow>
    (('a \<Rightarrow> 'a) \<Rightarrow> nvhttp_t \<Rightarrow> nvhttp_t) \<Rightarrow> stmt" where
  "nopt reader name get upd =
     opt reader name (\<lambda>c. get (c_nvhttp c)) (\<lambda>f. c_nvhttp_update (upd f))"

definition stopt :: "'a reader \<Rightarrow> string \<Rightarrow> (stream_t \<Rightarrow> 'a) \<Rightarrow>
    (('a \<Rightarrow> 'a) \<Rightarrow> stream_t \<Rightarrow> stream_t) \<Rightarrow> stmt" where
  "stopt reader name get upd =
     opt reader name (\<lambda>c. get (c_stream c)) (\<lambda>f. c_stream_update (upd f))"

definition aopt :: "'a reader \<Rightarrow> string \<Rightarrow> (audio_t \<Rightarrow> 'a) \<Rightarrow>
    (('a \<Rightarrow> 'a) \<Rightarrow> audio_t \<Rightarrow> audio_t) \<Rightarrow> stmt" where
  "aopt reader name get upd =
     opt reader name (\<lambda>c. get (c_audio c)) (\<lambda>f. c_audio_update (upd f))"

section \<open>Paths\<close>

definition is_absolute :: "string \<Rightarrow> bool" where
  "is_absolute p \<longleftrightarrow> p \<noteq> [] \<and> hd p = CHR ''/''"

text \<open>\<open>base / p\<close> and \<open>remove_filename\<close> of \<open>std::filesystem::path\<close> on POSIX.\<close>

definition path_join :: "string \<Rightarrow> string \<Rightarrow> string" where
  "path_join base p =
     (if is_absolute p then p
      else if base = [] \<or> last base = CHR ''/'' then base @ p else base @ ''/'' @ p)"

definition remove_filename :: "string \<Rightarrow> string" where
  "remove_filename p = rev (dropWhile (\<lambda>c. c \<noteq> CHR ''/'') (rev p))"

text \<open>\<open>create_directories\<close> makes the directory and every missing directory above it.\<close>

definition is_parent_or_self :: "string \<Rightarrow> string \<Rightarrow> bool" where
  "is_parent_or_self p dir \<longleftrightarrow>
     p \<noteq> [] \<and> length p \<le> length dir \<and> take (length p) dir = p \<and>
     (length p = length dir \<or> last p = CHR ''/'' \<or> dir ! length p = CHR ''/'')"

definition create_directories :: "environment \<Rightarrow> string \<Rightarrow> stmt" where
  "create_directories env dir c =
     (if fs_writable env dir
      then Inr (c\<lparr>c_fs := (\<lambda>p. if c_fs c p = None \<and> is_parent_or_self p dir then Some Dir
                             else c_fs c p)\<rparr>)
      else Inl Filesystem_Error)"

definition path_value :: "environment \<Rightarrow> string \<Rightarrow> string \<Rightarrow> string" where
  "path_value env temp input =
     (let p = (if temp \<noteq> [] then temp else input)
      in if is_absolute p then p else path_join (appdata env) p)"

definition path_f :: "environment \<Rightarrow> string \<Rightarrow> (config_t \<Rightarrow> string) \<Rightarrow>
    ((string \<Rightarrow> string) \<Rightarrow> config_t \<Rightarrow> config_t) \<Rightarrow> stmt" where
  "path_f env name get upd c =
     (let (vs, temp) = read_tmp (c_vars c) name;
          p = path_value env temp (get c);
          c1 = upd (\<lambda>_. p) (c\<lparr>c_vars := vs\<rparr>);
          dir = remove_filename p
      in if c_fs c1 dir \<noteq> None then Inr c1 else create_directories env dir c1)"

section \<open>Flags\<close>

definition flip_flag :: "flag_e \<Rightarrow> (flag_e \<Rightarrow> bool) \<Rightarrow> (flag_e \<Rightarrow> bool)" where
  "flip_flag f flags = flags(f := \<not> flags f)"

fun apply_flags :: "string \<Rightarrow> int \<Rightarrow> (flag_e \<Rightarrow> bool) \<Rightarrow> int \<times> (flag_e \<Rightarrow> bool)" where
  "apply_flags [] ret flags = (ret, flags)"
| "apply_flags (ch # line) ret flags =
     (if ch = CHR ''0'' then apply_flags line ret (flip_flag PIN_STDIN flags)
      else if ch = CHR ''1'' then apply_flags line ret (flip_flag FRESH_STATE flags)
      else if ch = CHR ''2'' then apply_flags line ret (flip_flag FORCE_VIDEO_HEADER_REPLACE flags)
      else if ch = CHR ''p'' then apply_flags line ret (flip_flag UPNP flags)
      else apply_flags line (- 1) flags)"

section \<open>The sections of apply_config\<close>

text \<open>\<open>log_config_settings(vars, true)\<close> remembers every option; what it prints of one.\<close>

definition redacted_config :: "string list" where
  "redacted_config = [''csrf_allowed_origins'']"

definition logged_value :: "string \<Rightarrow> string \<Rightarrow> string" where
  "logged_value name val = (if name \<in> set redacted_config then ''[redacted]'' else val)"

definition log_config_settings :: "bool \<Rightarrow> stmt" where
  "log_config_settings save =
     act (\<lambda>c. if save then c\<lparr>c_modified := c_modified c ++ c_vars c\<rparr> else c)"

definition apply_software :: "stmt list" where
  "apply_software =
    [vopt int_f ''qp'' v_qp v_qp_update,
     vopt (int_between_f (0, 3)) ''hevc_mode'' v_hevc_mode v_hevc_mode_update,
     vopt (int_between_f (0, 3)) ''av1_mode'' v_av1_mode v_av1_mode_update,
     vopt int_f ''min_threads'' v_min_threads v_min_threads_update,
     vopt string_f ''sw_preset'' (sw_preset \<circ> v_sw) (v_sw_update \<circ> sw_preset_update),
     act (c_video_update (\<lambda>v. if sw_preset (v_sw v) \<noteq> []
       then v\<lparr>v_sw := (v_sw v)\<lparr>sw_svtav1_preset := Some (svtav1_preset_from_view (sw_preset (v_sw v)))\<rparr>\<rparr>
       else v)),
     vopt string_f ''sw_tune'' (sw_tune \<circ> v_sw) (v_sw_update \<circ> sw_tune_update)]"

definition set_nv_legacy :: "environment \<Rightarrow> video_t \<Rightarrow> video_t" where
  "set_nv_legacy env v = v\<lparr>v_nv_legacy :=
     \<lparr>nvl_preset = nv_quality_preset (v_nv v) + 11,
      nvl_multipass =
        (if nv_two_pass (v_nv v) = TP_quarter_resolution then nvenc_two_pass_quarter env
         else if nv_two_pass (v_nv v) = TP_full_resolution then nvenc_two_pass_full env
         else nvenc_multi_pass_disabled env),
      nvl_h264_coder =
        (if nv_h264_cavlc (v_nv v) then nvenc_coding_cavlc env else nvenc_coding_cabac env),
      nvl_aq = (if nv_adaptive_quantization (v_nv v) then 1 else 0),
      nvl_vbv_percentage_increase = nv_vbv_percentage_increase (v_nv v)\<rparr>\<rparr>"

definition apply_nvenc :: "environment \<Rightarrow> stmt list" where
  "apply_nvenc env =
    [vopt (int_between_f (1, 7)) ''nvenc_preset''
       (nv_quality_preset \<circ> v_nv) (v_nv_update \<circ> nv_quality_preset_update),
     vopt (int_between_f (0, 400)) ''nvenc_vbv_increase''
       (nv_vbv_percentage_increase \<circ> v_nv) (v_nv_update \<circ> nv_vbv_percentage_increase_update),
     vopt bool_f ''nvenc_spatial_aq''
       (nv_adaptive_quantization \<circ> v_nv) (v_nv_update \<circ> nv_adaptive_quantization_update),
     vopt (generic_f twopass_from_view) ''nvenc_twopass''
       (nv_two_pass \<circ> v_nv) (v_nv_update \<circ> nv_two_pass_update),
     vopt bool_f ''nvenc_h264_cavlc'' (nv_h264_cavlc \<circ> v_nv) (v_nv_update \<circ> nv_h264_cavlc_update),
     vopt bool_f ''nvenc_realtime_hags'' v_nv_realtime_hags v_nv_realtime_hags_update,
     vopt bool_f ''nvenc_opengl_vulkan_on_dxgi''
       v_nv_opengl_vulkan_on_dxgi v_nv_opengl_vulkan_on_dxgi_update,
     vopt bool_f ''nvenc_latency_over_power''
       v_nv_sunshine_high_power_mode v_nv_sunshine_high_power_mode_update,
     act (c_video_update (set_nv_legacy env))]"

definition apply_qsv :: "stmt list" where
  "apply_qsv =
    [vopt (int_opt_conv_f qsv_preset_from_view) ''qsv_preset''
       (qsv_preset \<circ> v_qsv) (v_qsv_update \<circ> qsv_preset_update),
     vopt (int_opt_conv_f qsv_coder_from_view) ''qsv_coder''
       (qsv_cavlc \<circ> v_qsv) (v_qsv_update \<circ> qsv_cavlc_update),
     vopt bool_f ''qsv_slow_hevc'' (qsv_slow_hevc \<circ> v_qsv) (v_qsv_update \<circ> qsv_slow_hevc_update)]"

text \<open>
  \<open>amd_quality\<close>, \<open>amd_rc\<close> and \<open>amd_usage\<close> are read into a local string and, when it is not
  empty, written to the settings of all three codecs.
\<close>

definition set_amd_quality :: "string \<Rightarrow> amd_t \<Rightarrow> amd_t" where
  "set_amd_quality quality a = (if quality = [] then a else
     a\<lparr>amd_quality_h264 := quality_from_view quality_h264_e quality (amd_quality_h264 a),
       amd_quality_hevc := quality_from_view quality_hevc_e quality (amd_quality_hevc a),
       amd_quality_av1 := quality_from_view quality_av1_e quality (amd_quality_av1 a)\<rparr>)"

definition set_amd_rc :: "string \<Rightarrow> amd_t \<Rightarrow> amd_t" where
  "set_amd_rc rc a = (if rc = [] then a else
     a\<lparr>amd_rc_h264 := rc_from_view rc_h264_e rc (amd_rc_h264 a),
       amd_rc_hevc := rc_from_view rc_hevc_e rc (amd_rc_hevc a),
       amd_rc_av1 := rc_from_view rc_av1_e rc (amd_rc_av1 a)\<rparr>)"

definition set_amd_usage :: "string \<Rightarrow> amd_t \<Rightarrow> amd_t" where
  "set_amd_usage usage a = (if usage = [] then a else
     a\<lparr>amd_usage_h264 := usage_from_view usage_h264_e usage (amd_usage_h264 a),
       amd_usage_hevc := usage_from_view usage_hevc_e usage (amd_usage_hevc a),
       amd_usage_av1 := usage_from_view usage_av1_e usage (amd_usage_av1 a)\<rparr>)"

definition apply_amd :: "stmt list" where
  "apply_amd =
    [local_opt string_f ''amd_quality'' [] (\<lambda>s. c_video_update (v_amd_update (set_amd_quality s))),
     local_opt string_f ''amd_rc'' [] (\<lambda>s. c_video_update (v_amd_update (set_amd_rc s))),
     vopt (int_conv_f amd_coder_from_view) ''amd_coder''
       (amd_coder \<circ> v_amd) (v_amd_update \<circ> amd_coder_update),
     local_opt string_f ''amd_usage'' [] (\<lambda>s. c_video_update (v_amd_update (set_amd_usage s))),
     vopt bool_opt_f ''amd_preanalysis''
       (amd_preanalysis \<circ> v_amd) (v_amd_update \<circ> amd_preanalysis_update),
     vopt bool_opt_f ''amd_vbaq'' (amd_vbaq \<circ> v_amd) (v_amd_update \<circ> amd_vbaq_update),
     vopt bool_opt_f ''amd_enforce_hrd''
       (amd_enforce_hrd \<circ> v_amd) (v_amd_update \<circ> amd_enforce_hrd_update)]"

definition apply_vt :: "stmt list" where
  "apply_vt =
    [vopt (int_conv_f vt_coder_from_view) ''vt_coder'' (vt_coder \<circ> v_vt) (v_vt_update \<circ> vt_coder_update),
     vopt (int_conv_f vt_allow_software_from_view) ''vt_software''
       (vt_allow_sw \<circ> v_vt) (v_vt_update \<circ> vt_allow_sw_update),
     vopt (int_conv_f vt_force_software_from_view) ''vt_software''
       (vt_require_sw \<circ> v_vt) (v_vt_update \<circ> vt_require_sw_update),
     vopt (int_conv_f vt_rt_from_view) ''vt_realtime''
       (vt_realtime \<circ> v_vt) (v_vt_update \<circ> vt_realtime_update)]"

definition apply_vaapi_vk :: "stmt list" where
  "apply_vaapi_vk =
    [vopt bool_f ''vaapi_strict_rc_buffer'' v_vaapi_strict_rc_buffer v_vaapi_strict_rc_buffer_update,
     vopt int_f ''vk_tune'' v_vk_tune v_vk_tune_update,
     vopt int_f ''vk_rc_mode'' v_vk_rc_mode v_vk_rc_mode_update,
     vopt string_f ''capture'' v_capture v_capture_update,
     vopt string_f ''encoder'' v_encoder v_encoder_update,
     vopt string_f ''adapter_name'' v_adapter_name v_adapter_name_update,
     vopt string_f ''output_name'' v_output_name v_output_name_update]"

definition ddopt :: "'a reader \<Rightarrow> string \<Rightarrow> (dd_t \<Rightarrow> 'a) \<Rightarrow> (('a \<Rightarrow> 'a) \<Rightarrow> dd_t \<Rightarrow> dd_t) \<Rightarrow> stmt" where
  "ddopt reader name get upd = vopt reader name (\<lambda>v. get (v_dd v)) (\<lambda>f. v_dd_update (upd f))"

definition apply_dd :: "environment \<Rightarrow> stmt list" where
  "apply_dd env =
    [ddopt (generic_f config_option_from_view) ''dd_configuration_option''
       dd_configuration_option dd_configuration_option_update,
     ddopt (generic_f resolution_option_from_view) ''dd_resolution_option''
       dd_resolution_option dd_resolution_option_update,
     ddopt string_f ''dd_manual_resolution'' dd_manual_resolution dd_manual_resolution_update,
     ddopt (generic_f refresh_rate_option_from_view) ''dd_refresh_rate_option''
       dd_refresh_rate_option dd_refresh_rate_option_update,
     ddopt string_f ''dd_manual_refresh_rate'' dd_manual_refresh_rate dd_manual_refresh_rate_update,
     ddopt (generic_f hdr_option_from_view) ''dd_hdr_option'' dd_hdr_option dd_hdr_option_update,
     local_opt (int_between_f (0, INT_MAX)) ''dd_config_revert_delay'' (- 1)
       (\<lambda>value c. if 0 \<le> value
          then c_video_update (v_dd_update (dd_config_revert_delay_update (\<lambda>_. value))) c else c),
     ddopt bool_f ''dd_config_revert_on_disconnect''
       dd_config_revert_on_disconnect dd_config_revert_on_disconnect_update,
     ddopt (generic_throw_f (mode_remapping_from_view (read_remapping env))) ''dd_mode_remapping''
       dd_mode_remapping dd_mode_remapping_update,
     local_opt (int_between_f (0, 3000)) ''dd_wa_hdr_toggle_delay'' 0
       (\<lambda>value. c_video_update (v_dd_update (dd_hdr_toggle_delay_update (\<lambda>_. value)))),
     vopt int_f ''max_bitrate'' v_max_bitrate v_max_bitrate_update,
     vopt (double_between_f (strtod env) (Fin 0, Fin 1000)) ''minimum_fps_target''
       v_minimum_fps_target v_minimum_fps_target_update]"

definition list_prep_cmd_f :: "environment \<Rightarrow> prep_cmd_t list reader" where
  "list_prep_cmd_f env vars name input =
     (let (vars, text) = read_tmp vars name
      in if text = [] then Inr (vars, input)
         else (case read_prep_cmds env
                 ([CHR 0x7B, CHR 0x22] @ ''prep_cmd'' @ [CHR 0x22] @ '':'' @ text @ [CHR 0x7D]) of
                 None \<Rightarrow> Inl Json_Error
               | Some cmds \<Rightarrow> Inr (vars, input @ map (\<lambda>(d, u, e).
                   \<lparr>do_cmd = value_or [] d, undo_cmd = value_or [] u,
                    elevated = value_or False e\<rparr>) cmds)))"

definition apply_paths :: "environment \<Rightarrow> stmt list" where
  "apply_paths env =
    [path_f env ''pkey'' (\<lambda>c. nvh_pkey (c_nvhttp c)) (\<lambda>f. c_nvhttp_update (nvh_pkey_update f)),
     path_f env ''cert'' (\<lambda>c. nvh_cert (c_nvhttp c)) (\<lambda>f. c_nvhttp_update (nvh_cert_update f)),
     nopt string_f ''sunshine_name'' nvh_sunshine_name nvh_sunshine_name_update,
     path_f env ''log_path'' (\<lambda>c. sun_log_file (c_sunshine c))
       (\<lambda>f. c_sunshine_update (sun_log_file_update f)),
     path_f env ''file_state'' (\<lambda>c. nvh_file_state (c_nvhttp c))
       (\<lambda>f. c_nvhttp_update (nvh_file_state_update f)),
     act (\<lambda>c. c\<lparr>c_sunshine := (c_sunshine c)\<lparr>sun_credentials_file := nvh_file_state (c_nvhttp c)\<rparr>\<rparr>),
     path_f env ''credentials_file'' (\<lambda>c. sun_credentials_file (c_sunshine c))
       (\<lambda>f. c_sunshine_update (sun_credentials_file_update f)),
     nopt string_f ''external_ip'' nvh_external_ip nvh_external_ip_update,
     sopt (list_prep_cmd_f env) ''global_prep_cmd'' sun_prep_cmds sun_prep_cmds_update,
     aopt string_f ''audio_sink'' au_sink au_sink_update,
     aopt string_f ''virtual_sink'' au_virtual_sink au_virtual_sink_update,
     aopt bool_f ''stream_audio'' au_stream au_stream_update,
     aopt bool_f ''install_steam_audio_drivers''
       au_install_steam_drivers au_install_steam_drivers_update,
     nopt (string_restricted_f [''pc'', ''lan'', ''wan'']) ''origin_web_ui_allowed''
       nvh_origin_web_ui_allowed nvh_origin_web_ui_allowed_update]"

definition default_origins :: "string list" where
  "default_origins = [''https://localhost'', ''https://127.0.0.1'', ''https://[::1]'']"

definition valid_origin :: "string \<Rightarrow> bool" where
  "valid_origin origin \<longleftrightarrow> 8 < length origin \<and> take 8 origin = ''https://''"

definition apply_csrf :: "stmt list" where
  "apply_csrf =
    [local_opt string_list_f ''csrf_allowed_origins'' []
       (\<lambda>user_csrf_origins. c_sunshine_update (sun_csrf_allowed_origins_update
          (\<lambda>_. default_origins @ filter valid_origin user_csrf_origins)))]"

definition copy_apps :: "environment \<Rightarrow> stmt" where
  "copy_apps env c =
     (let dest = st_file_apps (c_stream c)
      in if c_fs c dest \<noteq> None then Inr c
         else (case assets_apps env of
                 None \<Rightarrow> Inl Filesystem_Error
               | Some content \<Rightarrow>
                   if fs_writable env dest then Inr (c\<lparr>c_fs := (c_fs c)(dest \<mapsto> File content)\<rparr>)
                   else Inl Filesystem_Error))"

definition apply_stream :: "environment \<Rightarrow> stmt list" where
  "apply_stream env =
    [local_opt (int_between_f (- 1, INT_MAX)) ''ping_timeout'' (- 1)
       (\<lambda>to c. if to \<noteq> - 1 then c_stream_update (st_ping_timeout_update (\<lambda>_. to)) c else c),
     stopt (int_between_f (0, 2)) ''lan_encryption_mode''
       st_lan_encryption_mode st_lan_encryption_mode_update,
     stopt (int_between_f (0, 2)) ''wan_encryption_mode''
       st_wan_encryption_mode st_wan_encryption_mode_update,
     path_f env ''file_apps'' (\<lambda>c. st_file_apps (c_stream c))
       (\<lambda>f. c_stream_update (st_file_apps_update f)),
     copy_apps env,
     stopt (int_between_f (1, 255)) ''fec_percentage'' st_fec_percentage st_fec_percentage_update]"

text \<open>\<open>std::chrono::duration<double> {1 / repeat_frequency}\<close> for a positive frequency.\<close>

fun reciprocal :: "cdouble \<Rightarrow> cdouble" where
  "reciprocal (Fin r) = Fin (1 / r)"
| "reciprocal PosInf = Fin 0"
| "reciprocal NegInf = Fin 0"
| "reciprocal NaN = NaN"

definition dpositive :: "cdouble \<Rightarrow> bool" where
  "dpositive d \<longleftrightarrow> (case d of Fin r \<Rightarrow> 0 < r | PosInf \<Rightarrow> True | _ \<Rightarrow> False)"

text \<open>\<open>numeric_limits<double>::max()\<close>: every finite double is below it.\<close>

definition double_max :: cdouble where
  "double_max = Fin (of_int ((2 ^ 53 - 1) * 2 ^ 971))"

definition apply_input :: "environment \<Rightarrow> stmt list" where
  "apply_input env =
    [iopt map_int_int_f ''keybindings'' in_keybindings in_keybindings_update,
     local_opt bool_f ''key_rightalt_to_key_win'' False
       (\<lambda>map_rightalt c. if map_rightalt
          then c_input_update (in_keybindings_update (emplace 0xA5 0x5B)) c else c),
     local_opt int_f ''back_button_timeout'' INT_MIN
       (\<lambda>to c. if INT_MIN < to
          then c_input_update (in_back_button_timeout_update (\<lambda>_. to)) c else c),
     local_opt (double_between_f (strtod env) (Fin 0, double_max)) ''key_repeat_frequency'' (Fin 0)
       (\<lambda>freq c. if dpositive freq
          then c_input_update (in_key_repeat_period_update (\<lambda>_. reciprocal freq)) c else c),
     local_opt int_f ''key_repeat_delay'' (- 1)
       (\<lambda>to c. if 0 \<le> to
          then c_input_update (in_key_repeat_delay_update (\<lambda>_. to)) c else c),
     iopt (string_restricted_f (gamepads env)) ''gamepad'' in_gamepad in_gamepad_update,
     iopt bool_f ''ds4_back_as_touchpad_click''
       in_ds4_back_as_touchpad_click in_ds4_back_as_touchpad_click_update,
     iopt bool_f ''motion_as_ds4'' in_motion_as_ds4 in_motion_as_ds4_update,
     iopt bool_f ''touchpad_as_ds4'' in_touchpad_as_ds4 in_touchpad_as_ds4_update,
     iopt bool_f ''ds5_inputtino_randomize_mac''
       in_ds5_inputtino_randomize_mac in_ds5_inputtino_randomize_mac_update,
     iopt bool_f ''mouse'' in_mouse in_mouse_update,
     iopt bool_f ''keyboard'' in_keyboard in_keyboard_update,
     iopt bool_f ''controller'' in_controller in_controller_update,
     iopt bool_f ''always_send_scancodes'' in_always_send_scancodes in_always_send_scancodes_update,
     iopt bool_f ''high_resolution_scrolling''
       in_high_resolution_scrolling in_high_resolution_scrolling_update,
     iopt bool_f ''native_pen_touch'' in_native_pen_touch in_native_pen_touch_update,
     sopt bool_f ''notify_pre_releases'' sun_notify_pre_releases sun_notify_pre_releases_update,
     sopt bool_f ''system_tray'' sun_system_tray sun_system_tray_update]"

text \<open>\<open>std::format\<close> of an unsigned number.\<close>

function nat_string :: "nat \<Rightarrow> string" where
  "nat_string n =
     (if n < 10 then [char_of (48 + n)] else nat_string (n div 10) @ [char_of (48 + n mod 10)])"
  by pat_completeness auto
termination by (relation "measure id") auto

declare nat_string.simps [simp del]

definition NVHTTP_PORT_HTTPS :: int where "NVHTTP_PORT_HTTPS = - 5"
definition RTSP_SETUP_PORT :: int where "RTSP_SETUP_PORT = 21"

definition port_range :: "int \<times> int" where
  "port_range = (1024 + NVHTTP_PORT_HTTPS, 65535 - RTSP_SETUP_PORT)"

definition add_port_origins :: "sunshine_t \<Rightarrow> sunshine_t" where
  "add_port_origins s =
     (let web_ui_port = nat_string (nat (to_uint16 (sun_port s + 1)))
      in s\<lparr>sun_csrf_allowed_origins := sun_csrf_allowed_origins s @
        [''https://localhost:'' @ web_ui_port, ''https://127.0.0.1:'' @ web_ui_port,
         ''https://[::1]:'' @ web_ui_port]\<rparr>)"

text \<open>The port goes through a local \<open>int\<close> and is cast back, also when the option is absent.\<close>

definition port_f :: "int reader" where
  "port_f vars name input =
     (case int_between_f port_range vars name input of
        Inl e \<Rightarrow> Inl e
      | Inr (vars, port) \<Rightarrow> Inr (vars, to_uint16 port))"

definition apply_network :: "stmt list" where
  "apply_network =
    [sopt port_f ''port'' sun_port sun_port_update,
     act (c_sunshine_update add_port_origins),
     sopt (string_restricted_f [''ipv4'', ''both'']) ''address_family''
       sun_address_family sun_address_family_update,
     sopt string_f ''bind_address'' sun_bind_address sun_bind_address_update,
     local_opt bool_f ''upnp'' False
       (\<lambda>upnp. if upnp then c_sunshine_update (sun_flags_update (flip_flag UPNP)) else id)]"

definition locales :: "string list" where
  "locales =
    [''bg'', ''cs'', ''de'', ''en'', ''en_GB'', ''en_US'', ''es'', ''fr'', ''hu'', ''it'', ''ja'',
     ''ko'', ''pl'', ''pt'', ''pt_BR'', ''ru'', ''sv'', ''tr'', ''uk'', ''vi'', ''zh'', ''zh_TW'']"

definition log_level_from_view :: "string \<Rightarrow> int \<Rightarrow> int" where
  "log_level_from_view s level =
     (case map_of [(''verbose'', 0), (''debug'', 1), (''info'', 2), (''warning'', 3),
                   (''error'', 4), (''fatal'', 5), (''none'', 6)] s of
        Some n \<Rightarrow> n
      | None \<Rightarrow>
          (case s of [] \<Rightarrow> level
           | c # _ \<Rightarrow> if 48 \<le> schar c \<and> schar c < 55 then schar c - 48 else level))"

definition flags_f :: stmt where
  "flags_f c =
     (case c_vars c ''flags'' of
        None \<Rightarrow> Inr c
      | Some text \<Rightarrow>
          Inr (c\<lparr>c_sunshine := (c_sunshine c)\<lparr>sun_flags :=
                 snd (apply_flags text 0 (sun_flags (c_sunshine c)))\<rparr>,
               c_vars := (c_vars c)(''flags'' := None)\<rparr>))"

definition apply_logging :: "stmt list" where
  "apply_logging =
    [sopt (string_restricted_f locales) ''locale'' sun_locale sun_locale_update,
     local_opt string_f ''min_log_level'' []
       (\<lambda>s. c_sunshine_update (sun_min_log_level_update (log_level_from_view s))),
     flags_f]"

definition config_body :: "environment \<Rightarrow> stmt list" where
  "config_body env =
     apply_software @ apply_nvenc env @ apply_qsv @ apply_amd @ apply_vt @ apply_vaapi_vk @
     apply_dd env @ apply_paths env @ apply_csrf @ apply_stream env @ apply_input env @
     apply_network @ apply_logging"

definition apply_config :: "environment \<Rightarrow> var_map \<Rightarrow> stmt" where
  "apply_config env vars c =
     seq (log_config_settings True # config_body env) (c\<lparr>c_vars := vars\<rparr>)"

text \<open>The options \<open>apply_config\<close> warns about at the end.\<close>

definition unrecognized :: "config_t \<Rightarrow> string set" where
  "unrecognized c = (if sun_min_log_level (c_sunshine c) \<le> 3 then dom (c_vars c) else {})"

section \<open>The command line\<close>

datatype arg_result = Exit int config_t | Args var_map config_t

fun parse_args :: "string list \<Rightarrow> var_map \<Rightarrow> config_t \<Rightarrow> arg_result" where
  "parse_args [] cmd_vars c = Args cmd_vars c"
| "parse_args (line # rest) cmd_vars c =
     (if line = ''--help'' then Exit 1 c
      else if take 1 line = ''-'' then
        (if take 2 line = ''--'' then
           Args cmd_vars (c\<lparr>c_sunshine := (c_sunshine c)\<lparr>sun_cmd_name := drop 2 line,
                                                         sun_cmd_argv := rest\<rparr>\<rparr>)
         else (let (ret, flags) = apply_flags (drop 1 line) 0 (sun_flags (c_sunshine c));
                   c1 = c\<lparr>c_sunshine := (c_sunshine c)\<lparr>sun_flags := flags\<rparr>\<rparr>
               in if ret \<noteq> 0 then Exit (- 1) c1 else parse_args rest cmd_vars c1))
      else if CHR ''='' \<notin> set line then
        parse_args rest cmd_vars (c\<lparr>c_sunshine := (c_sunshine c)\<lparr>sun_config_file := line\<rparr>\<rparr>)
      else (case snd (parse_option line) of
              None \<Rightarrow> Exit (- 1) c
            | Some (name, val) \<Rightarrow> parse_args rest (cmd_vars(name \<mapsto> val)) c))"

text \<open>
  \<open>parse\<close> off Windows. The result is the exit code with the configuration, or an error no
  handler catches. A file system error ends the run with \<open>-1\<close>.
\<close>

definition make_directory :: "environment \<Rightarrow> string \<Rightarrow> stmt" where
  "make_directory env path c =
     (if c_fs c path \<noteq> None then Inr c else create_directories env path c)"

definition create_config_file :: "environment \<Rightarrow> stmt" where
  "create_config_file env c =
     (let f = sun_config_file (c_sunshine c)
      in Inr (if c_fs c f = None \<and> fs_writable env f
              then c\<lparr>c_fs := (c_fs c)(f \<mapsto> File [])\<rparr> else c))"

definition read_file :: "config_t \<Rightarrow> string \<Rightarrow> string" where
  "read_file c path = (case c_fs c path of Some (File content) \<Rightarrow> content | _ \<Rightarrow> [])"

definition load_config :: "environment \<Rightarrow> var_map \<Rightarrow> stmt" where
  "load_config env cmd_vars =
     seq [make_directory env (appdata env), create_config_file env,
          (\<lambda>c. apply_config env
             (parse_config (read_file c (sun_config_file (c_sunshine c))) ++ cmd_vars) c)]"

definition parse_cmdline :: "environment \<Rightarrow> string list \<Rightarrow> config_t \<Rightarrow> config_error + (int \<times> config_t)" where
  "parse_cmdline env args c =
     (case parse_args args Map.empty c of
        Exit ret c1 \<Rightarrow> Inr (ret, c1)
      | Args cmd_vars c1 \<Rightarrow>
          (case load_config env cmd_vars c1 of
             Inl Filesystem_Error \<Rightarrow> Inr (- 1, c1)
           | Inl e \<Rightarrow> Inl e
           | Inr c2 \<Rightarrow> Inr (0, c2)))"

section \<open>Which options are consumed\<close>

definition consumes :: "stmt \<Rightarrow> string set \<Rightarrow> bool" where
  "consumes s N \<longleftrightarrow> (\<forall>c c'. s c = Inr c' \<longrightarrow> c_vars c' = c_vars c |` (- N))"

named_theorems consumes_intros

lemma consumesI: "(\<And>c c'. s c = Inr c' \<Longrightarrow> c_vars c' = c_vars c |` (- N)) \<Longrightarrow> consumes s N"
  by (simp add: consumes_def)

lemma consumes_seq_Nil [consumes_intros]: "consumes (seq []) {}"
  by (simp add: consumes_def restrict_map_def)

lemma consumes_seq_Cons [consumes_intros]:
  assumes "consumes s M" "consumes (seq ss) N"
  shows "consumes (seq (s # ss)) (M \<union> N)"
proof (rule consumesI)
  fix c c' assume "seq (s # ss) c = Inr c'"
  then obtain c1 where 1: "s c = Inr c1" "seq ss c1 = Inr c'" by (auto split: sum.splits)
  then have "c_vars c' = (c_vars c |` (- M)) |` (- N)"
    using assms by (simp add: consumes_def)
  then show "c_vars c' = c_vars c |` (- (M \<union> N))" by (simp add: Compl_Un)
qed

lemma seq_append: "seq (xs @ ys) c = (case seq xs c of Inl e \<Rightarrow> Inl e | Inr c' \<Rightarrow> seq ys c')"
  by (induction xs arbitrary: c) (auto split: sum.splits)

lemma consumes_append:
  assumes "consumes (seq xs) M" "consumes (seq ys) N"
  shows "consumes (seq (xs @ ys)) (M \<union> N)"
proof (rule consumesI)
  fix c c' assume "seq (xs @ ys) c = Inr c'"
  then obtain c1 where 1: "seq xs c = Inr c1" "seq ys c1 = Inr c'"
    by (auto simp: seq_append split: sum.splits)
  then have "c_vars c' = (c_vars c |` (- M)) |` (- N)"
    using assms by (simp add: consumes_def)
  then show "c_vars c' = c_vars c |` (- (M \<union> N))" by (simp add: Compl_Un)
qed

lemma consumes_act [consumes_intros]: "(\<And>c. c_vars (f c) = c_vars c) \<Longrightarrow> consumes (act f) {}"
  by (auto simp: consumes_def act_def restrict_map_def)

lemma consumes_opt:
  assumes "consuming_reader r" "\<And>f c. c_vars (upd f c) = c_vars c"
  shows "consumes (opt r name get upd) {name}"
proof (rule consumesI)
  fix c c' assume "opt r name get upd c = Inr c'"
  then obtain vs x where "r (c_vars c) name (get c) = Inr (vs, x)" "c_vars c' = vs"
    using assms(2) by (auto simp: opt_def split: sum.splits prod.splits)
  then show "c_vars c' = c_vars c |` (- {name})"
    using consuming_reader.restricts [OF assms(1)] by blast
qed

lemma consumes_local_opt [consumes_intros]:
  assumes "consuming_reader r" "\<And>x c. c_vars (use x c) = c_vars c"
  shows "consumes (local_opt r name init use) {name}"
proof (rule consumesI)
  fix c c' assume "local_opt r name init use c = Inr c'"
  then obtain vs x where "r (c_vars c) name init = Inr (vs, x)" "c_vars c' = vs"
    using assms(2) by (auto simp: local_opt_def split: sum.splits prod.splits)
  then show "c_vars c' = c_vars c |` (- {name})"
    using consuming_reader.restricts [OF assms(1)] by blast
qed

lemma consumes_opts [consumes_intros]:
  "consuming_reader r \<Longrightarrow> consumes (vopt r name vget vupd) {name}"
  "consuming_reader r \<Longrightarrow> consumes (ddopt r name dget dupd) {name}"
  "consuming_reader r \<Longrightarrow> consumes (sopt r name sget supd) {name}"
  "consuming_reader r \<Longrightarrow> consumes (iopt r name iget iupd) {name}"
  "consuming_reader r \<Longrightarrow> consumes (nopt r name nget nupd) {name}"
  "consuming_reader r \<Longrightarrow> consumes (stopt r name tget tupd) {name}"
  "consuming_reader r \<Longrightarrow> consumes (aopt r name aget aupd) {name}"
  unfolding vopt_def sopt_def iopt_def nopt_def stopt_def aopt_def ddopt_def
  by (simp_all add: consumes_opt)

lemma consumes_path_f:
  assumes "\<And>f c. c_vars (upd f c) = c_vars c"
  shows "consumes (path_f env name get upd) {name}"
  using assms
  by (auto simp: consumes_def path_f_def Let_def read_tmp_eq create_directories_def
      restrict_map_def fun_eq_iff split: if_splits)

lemma consumes_paths [consumes_intros]:
  "consumes (path_f env name get (\<lambda>f. c_nvhttp_update (nupd f))) {name}"
  "consumes (path_f env name get (\<lambda>f. c_sunshine_update (supd f))) {name}"
  "consumes (path_f env name get (\<lambda>f. c_stream_update (tupd f))) {name}"
  by (simp_all add: consumes_path_f)

lemma consumes_copy_apps [consumes_intros]: "consumes (copy_apps env) {}"
  by (auto simp: consumes_def copy_apps_def Let_def restrict_map_def
      split: if_splits option.splits)

lemma consumes_flags_f [consumes_intros]: "consumes flags_f {''flags''}"
  by (auto simp: consumes_def flags_f_def restrict_map_def fun_eq_iff split: option.splits)

interpretation rd_port: consuming_reader port_f
  by unfold_locales
    (auto simp: port_f_def split: sum.splits dest: rd_int_between.consumes)

interpretation rd_prep: consuming_reader "list_prep_cmd_f env" for env
  by unfold_locales
    (auto simp: list_prep_cmd_f_def read_tmp_eq Let_def split: if_splits option.splits)

lemmas readers [consumes_intros] =
  rd_string.consuming_reader_axioms rd_generic.consuming_reader_axioms
  rd_generic_throw.consuming_reader_axioms rd_int.consuming_reader_axioms
  rd_int_conv.consuming_reader_axioms rd_int_opt_conv.consuming_reader_axioms
  rd_int_between.consuming_reader_axioms rd_bool.consuming_reader_axioms
  rd_bool_opt.consuming_reader_axioms rd_double_between.consuming_reader_axioms
  rd_string_list.consuming_reader_axioms rd_map_int_int.consuming_reader_axioms
  rd_restricted.consuming_reader_axioms rd_port.consuming_reader_axioms
  rd_prep.consuming_reader_axioms

end
