(* ===== verification/Config_Correct.thy ===== *)
theory Config_Correct
  imports Config_Apply
begin

text \<open>
  What \<open>apply_config\<close> guarantees: which options it consumes, the ranges every setting stays
  in whatever the file says, the directories it makes sure exist, and what the options
  \<open>vt_software\<close> and \<open>port\<close> can do.
\<close>

section \<open>Every known option is consumed, nothing else\<close>

definition option_names :: "string set" where
  "option_names =
    {''qp'', ''hevc_mode'', ''av1_mode'', ''min_threads'', ''sw_preset'', ''sw_tune''} \<union>
    {''nvenc_preset'', ''nvenc_vbv_increase'', ''nvenc_spatial_aq'', ''nvenc_twopass'',
     ''nvenc_h264_cavlc'', ''nvenc_realtime_hags'', ''nvenc_opengl_vulkan_on_dxgi'',
     ''nvenc_latency_over_power''} \<union>
    {''qsv_preset'', ''qsv_coder'', ''qsv_slow_hevc''} \<union>
    {''amd_quality'', ''amd_rc'', ''amd_coder'', ''amd_usage'', ''amd_preanalysis'', ''amd_vbaq'',
     ''amd_enforce_hrd''} \<union>
    {''vt_coder'', ''vt_software'', ''vt_realtime''} \<union>
    {''vaapi_strict_rc_buffer'', ''vk_tune'', ''vk_rc_mode'', ''capture'', ''encoder'',
     ''adapter_name'', ''output_name''} \<union>
    {''dd_configuration_option'', ''dd_resolution_option'', ''dd_manual_resolution'',
     ''dd_refresh_rate_option'', ''dd_manual_refresh_rate'', ''dd_hdr_option'',
     ''dd_config_revert_delay'', ''dd_config_revert_on_disconnect'', ''dd_mode_remapping'',
     ''dd_wa_hdr_toggle_delay'', ''max_bitrate'', ''minimum_fps_target''} \<union>
    {''pkey'', ''cert'', ''sunshine_name'', ''log_path'', ''file_state'', ''credentials_file'',
     ''external_ip'', ''global_prep_cmd'', ''audio_sink'', ''virtual_sink'', ''stream_audio'',
     ''install_steam_audio_drivers'', ''origin_web_ui_allowed''} \<union>
    {''csrf_allowed_origins''} \<union>
    {''ping_timeout'', ''lan_encryption_mode'', ''wan_encryption_mode'', ''file_apps'',
     ''fec_percentage''} \<union>
    {''keybindings'', ''key_rightalt_to_key_win'', ''back_button_timeout'',
     ''key_repeat_frequency'', ''key_repeat_delay'', ''gamepad'', ''ds4_back_as_touchpad_click'',
     ''motion_as_ds4'', ''touchpad_as_ds4'', ''ds5_inputtino_randomize_mac'', ''mouse'',
     ''keyboard'', ''controller'', ''always_send_scancodes'', ''high_resolution_scrolling'',
     ''native_pen_touch'', ''notify_pre_releases'', ''system_tray''} \<union>
    {''port'', ''address_family'', ''bind_address'', ''upnp''} \<union>
    {''locale'', ''min_log_level'', ''flags''}"

lemma consumes_eq: "consumes s M \<Longrightarrow> M = N \<Longrightarrow> consumes s N"
  by simp

lemma consumes_software: "consumes (seq apply_software)
    {''qp'', ''hevc_mode'', ''av1_mode'', ''min_threads'', ''sw_preset'', ''sw_tune''}"
  unfolding apply_software_def by (rule consumes_eq, (rule consumes_intros | simp; fail)+) auto

lemma consumes_nvenc: "consumes (seq (apply_nvenc env))
    {''nvenc_preset'', ''nvenc_vbv_increase'', ''nvenc_spatial_aq'', ''nvenc_twopass'',
     ''nvenc_h264_cavlc'', ''nvenc_realtime_hags'', ''nvenc_opengl_vulkan_on_dxgi'',
     ''nvenc_latency_over_power''}"
  unfolding apply_nvenc_def by (rule consumes_eq, (rule consumes_intros | simp; fail)+) auto

lemma consumes_qsv: "consumes (seq apply_qsv)
    {''qsv_preset'', ''qsv_coder'', ''qsv_slow_hevc''}"
  unfolding apply_qsv_def by (rule consumes_eq, (rule consumes_intros | simp; fail)+) auto

lemma consumes_amd: "consumes (seq apply_amd)
    {''amd_quality'', ''amd_rc'', ''amd_coder'', ''amd_usage'', ''amd_preanalysis'',
     ''amd_vbaq'', ''amd_enforce_hrd''}"
  unfolding apply_amd_def by (rule consumes_eq, (rule consumes_intros | simp; fail)+) auto

lemma consumes_vt: "consumes (seq apply_vt)
    {''vt_coder'', ''vt_software'', ''vt_realtime''}"
  unfolding apply_vt_def by (rule consumes_eq, (rule consumes_intros | simp; fail)+) auto

lemma consumes_vaapi_vk: "consumes (seq apply_vaapi_vk)
    {''vaapi_strict_rc_buffer'', ''vk_tune'', ''vk_rc_mode'', ''capture'', ''encoder'',
     ''adapter_name'', ''output_name''}"
  unfolding apply_vaapi_vk_def by (rule consumes_eq, (rule consumes_intros | simp; fail)+) auto

lemma consumes_dd: "consumes (seq (apply_dd env))
    {''dd_configuration_option'', ''dd_resolution_option'', ''dd_manual_resolution'',
     ''dd_refresh_rate_option'', ''dd_manual_refresh_rate'', ''dd_hdr_option'',
     ''dd_config_revert_delay'', ''dd_config_revert_on_disconnect'', ''dd_mode_remapping'',
     ''dd_wa_hdr_toggle_delay'', ''max_bitrate'', ''minimum_fps_target''}"
  unfolding apply_dd_def by (rule consumes_eq, (rule consumes_intros | simp; fail)+) auto

lemma consumes_path_section: "consumes (seq (apply_paths env))
    {''pkey'', ''cert'', ''sunshine_name'', ''log_path'', ''file_state'', ''credentials_file'',
     ''external_ip'', ''global_prep_cmd'', ''audio_sink'', ''virtual_sink'', ''stream_audio'',
     ''install_steam_audio_drivers'', ''origin_web_ui_allowed''}"
  unfolding apply_paths_def by (rule consumes_eq, (rule consumes_intros | simp; fail)+) auto

lemma consumes_csrf: "consumes (seq apply_csrf)
    {''csrf_allowed_origins''}"
  unfolding apply_csrf_def by (rule consumes_eq, (rule consumes_intros | simp; fail)+)

lemma consumes_stream: "consumes (seq (apply_stream env))
    {''ping_timeout'', ''lan_encryption_mode'', ''wan_encryption_mode'', ''file_apps'',
     ''fec_percentage''}"
  unfolding apply_stream_def by (rule consumes_eq, (rule consumes_intros | simp; fail)+) auto

lemma consumes_input: "consumes (seq (apply_input env))
    {''keybindings'', ''key_rightalt_to_key_win'', ''back_button_timeout'',
     ''key_repeat_frequency'', ''key_repeat_delay'', ''gamepad'', ''ds4_back_as_touchpad_click'',
     ''motion_as_ds4'', ''touchpad_as_ds4'', ''ds5_inputtino_randomize_mac'', ''mouse'',
     ''keyboard'', ''controller'', ''always_send_scancodes'', ''high_resolution_scrolling'',
     ''native_pen_touch'', ''notify_pre_releases'', ''system_tray''}"
  unfolding apply_input_def by (rule consumes_eq, (rule consumes_intros | simp; fail)+) auto

lemma consumes_network: "consumes (seq apply_network)
    {''port'', ''address_family'', ''bind_address'', ''upnp''}"
  unfolding apply_network_def by (rule consumes_eq, (rule consumes_intros | simp; fail)+) auto

lemma consumes_logging: "consumes (seq apply_logging)
    {''locale'', ''min_log_level'', ''flags''}"
  unfolding apply_logging_def by (rule consumes_eq, (rule consumes_intros | simp; fail)+) auto

lemmas consumes_sections = consumes_software consumes_nvenc consumes_qsv consumes_amd consumes_vt
  consumes_vaapi_vk consumes_dd consumes_path_section consumes_csrf consumes_stream consumes_input
  consumes_network consumes_logging

lemma consumes_body: "consumes (seq (config_body env)) option_names"
  unfolding config_body_def option_names_def Un_assoc
  by (rule consumes_append, rule consumes_sections)+ (rule consumes_sections)

text \<open>
  \<open>apply_config\<close> consumes exactly the options it knows: whatever the file holds, after a
  run that does not fail the variables left over (the ones it warns about) are the given ones
  without the known option names.
\<close>
theorem apply_config_leftover:
  assumes "apply_config env vars c = Inr c'"
  shows "c_vars c' = vars |` (- option_names)"
  using assms consumes_body [of env]
  by (auto simp: apply_config_def consumes_def log_config_settings_def act_def)

text \<open>A concrete run, for the witnesses.\<close>

definition demo_env :: environment where
  "demo_env = \<lparr>appdata = ''/home/u/.config/sunshine'', host_name = ''host'',
     gamepads = [''auto'', ''ds5''], strtod = (\<lambda>_. None), read_remapping = (\<lambda>_. None),
     read_prep_cmds = (\<lambda>_. None), fs_writable = (\<lambda>_. True), assets_apps = Some ''apps'',
     nvenc_multi_pass_disabled = 0, nvenc_two_pass_quarter = 1, nvenc_two_pass_full = 2,
     nvenc_coding_cavlc = 2, nvenc_coding_cabac = 1\<rparr>"

definition demo_config :: config_t where
  "demo_config = default_config demo_env (\<lambda>_. None)"

definition demo_vars :: var_map where
  "demo_vars = [''qp'' \<mapsto> ''30'', ''port'' \<mapsto> ''1019'', ''fec_percentage'' \<mapsto> ''999'',
     ''vt_software'' \<mapsto> ''forced'', ''colour'' \<mapsto> ''red'']"

lemma demo_runs: "\<not> isl (apply_config demo_env demo_vars demo_config)"
  by code_simp

lemma demo_Inr: "\<exists>c'. apply_config demo_env demo_vars demo_config = Inr c'"
  using demo_runs by (auto simp: isl_def) (metis sum.exhaust)

theorem apply_config_leftover_witness:
  "\<exists>c'. apply_config demo_env demo_vars demo_config = Inr c' \<and>
     c_vars c' = demo_vars |` (- option_names)"
  using demo_Inr apply_config_leftover by blast

section \<open>Settings stay in range\<close>

definition between_ok :: "int \<Rightarrow> int \<Rightarrow> int \<Rightarrow> bool" where
  "between_ok lo hi x \<longleftrightarrow> lo \<le> x \<and> x \<le> hi"

definition video_ok :: "video_t \<Rightarrow> bool" where
  [inv_defs]: "video_ok v \<longleftrightarrow>
     between_ok 0 3 (v_hevc_mode v) \<and> between_ok 0 3 (v_av1_mode v) \<and>
     between_ok 1 7 (nv_quality_preset (v_nv v)) \<and>
     between_ok 0 400 (nv_vbv_percentage_increase (v_nv v)) \<and>
     between_ok 0 INT_MAX (dd_config_revert_delay (v_dd v)) \<and>
     between_ok 0 3000 (dd_hdr_toggle_delay (v_dd v)) \<and>
     dle (Fin 0) (v_minimum_fps_target v) \<and> dle (v_minimum_fps_target v) (Fin 1000)"

definition stream_ok :: "stream_t \<Rightarrow> bool" where
  [inv_defs]: "stream_ok s \<longleftrightarrow>
     between_ok 0 2 (st_lan_encryption_mode s) \<and> between_ok 0 2 (st_wan_encryption_mode s) \<and>
     between_ok 1 255 (st_fec_percentage s) \<and> between_ok 0 INT_MAX (st_ping_timeout s)"

definition nvhttp_ok :: "nvhttp_t \<Rightarrow> bool" where
  [inv_defs]: "nvhttp_ok n \<longleftrightarrow> nvh_origin_web_ui_allowed n \<in> set [''pc'', ''lan'', ''wan'']"

definition input_ok :: "environment \<Rightarrow> input_t \<Rightarrow> bool" where
  [inv_defs]: "input_ok env i \<longleftrightarrow> 0 \<le> in_key_repeat_delay i \<and> in_gamepad i \<in> set (gamepads env)"

definition sunshine_ok :: "sunshine_t \<Rightarrow> bool" where
  [inv_defs]: "sunshine_ok s \<longleftrightarrow>
     between_ok (fst port_range) (snd port_range) (sun_port s) \<and>
     between_ok 0 6 (sun_min_log_level s) \<and>
     sun_address_family s \<in> set [''ipv4'', ''both''] \<and> sun_locale s \<in> set locales \<and>
     (\<forall>origin\<in>set (sun_csrf_allowed_origins s). take 8 origin = ''https://'')"

definition config_ok :: "environment \<Rightarrow> config_t \<Rightarrow> bool" where
  "config_ok env c \<longleftrightarrow> video_ok (c_video c) \<and> stream_ok (c_stream c) \<and> nvhttp_ok (c_nvhttp c) \<and>
     input_ok env (c_input c) \<and> sunshine_ok (c_sunshine c)"

definition preserves :: "(config_t \<Rightarrow> bool) \<Rightarrow> stmt \<Rightarrow> bool" where
  "preserves I s \<longleftrightarrow> (\<forall>c c'. I c \<longrightarrow> s c = Inr c' \<longrightarrow> I c')"

lemma preservesD: "preserves I s \<Longrightarrow> I c \<Longrightarrow> s c = Inr c' \<Longrightarrow> I c'"
  by (simp add: preserves_def)

lemma preserves_Nil: "preserves I (seq [])"
  by (simp add: preserves_def)

lemma preserves_Cons:
  assumes "preserves I s" "preserves I (seq ss)"
  shows "preserves I (seq (s # ss))"
  unfolding preserves_def
proof (intro allI impI)
  fix c c' assume I: "I c" and r: "seq (s # ss) c = Inr c'"
  from r obtain c1 where 1: "s c = Inr c1" "seq ss c1 = Inr c'" by (auto split: sum.splits)
  show "I c'" by (rule preservesD [OF assms(2) preservesD [OF assms(1) I 1(1)] 1(2)])
qed

lemma preserves_append:
  assumes "preserves I (seq xs)" "preserves I (seq ys)"
  shows "preserves I (seq (xs @ ys))"
  unfolding preserves_def
proof (intro allI impI)
  fix c c' assume I: "I c" and r: "seq (xs @ ys) c = Inr c'"
  from r obtain c1 where 1: "seq xs c = Inr c1" "seq ys c1 = Inr c'"
    by (auto simp: seq_append split: sum.splits)
  show "I c'" by (rule preservesD [OF assms(2) preservesD [OF assms(1) I 1(1)] 1(2)])
qed

lemma preserves_act: "(\<And>c. I c \<Longrightarrow> I (f c)) \<Longrightarrow> preserves I (act f)"
  by (simp add: preserves_def act_def)

lemma preserves_opt:
  assumes "\<And>c vs x. I c \<Longrightarrow> r (c_vars c) name (get c) = Inr (vs, x) \<Longrightarrow> I (upd (\<lambda>_. x) (c\<lparr>c_vars := vs\<rparr>))"
  shows "preserves I (opt r name get upd)"
  using assms by (auto simp: preserves_def opt_def split: sum.splits)

lemma preserves_local_opt:
  assumes "\<And>c vs x. I c \<Longrightarrow> r (c_vars c) name init = Inr (vs, x) \<Longrightarrow> I (use x (c\<lparr>c_vars := vs\<rparr>))"
  shows "preserves I (local_opt r name init use)"
  using assms by (auto simp: preserves_def local_opt_def split: sum.splits)

lemma create_directories_cases:
  "create_directories env dir c = Inr c' \<Longrightarrow> \<exists>fs. c' = c\<lparr>c_fs := fs\<rparr>"
  by (auto simp: create_directories_def split: if_splits)

lemma path_f_cases:
  assumes "path_f env name get upd c = Inr c'"
  shows "\<exists>vs p fs. c' = upd (\<lambda>_. p) (c\<lparr>c_vars := vs\<rparr>) \<or> c' = upd (\<lambda>_. p) (c\<lparr>c_vars := vs\<rparr>)\<lparr>c_fs := fs\<rparr>"
proof -
  obtain vs temp where t: "read_tmp (c_vars c) name = (vs, temp)" by fastforce
  show ?thesis using assms
    by (simp add: path_f_def t Let_def split: if_splits) (blast dest: create_directories_cases)+
qed

lemma preserves_path_f:
  assumes "\<And>c vs fs p. I c \<Longrightarrow> I (upd (\<lambda>_. p) (c\<lparr>c_vars := vs\<rparr>)\<lparr>c_fs := fs\<rparr>)"
    and "\<And>c vs p. I c \<Longrightarrow> I (upd (\<lambda>_. p) (c\<lparr>c_vars := vs\<rparr>))"
  shows "preserves I (path_f env name get upd)"
  unfolding preserves_def using assms by (blast dest!: path_f_cases)

lemma int_between_ok:
  "int_between_f (lo, hi) vars name x = Inr (vs, y) \<Longrightarrow> between_ok lo hi x \<Longrightarrow> between_ok lo hi y"
  using int_between_f_bounds by (fastforce simp: between_ok_def)

lemma double_between_ok:
  "double_between_f conv (lo, hi) vars name x = Inr (vs, y) \<Longrightarrow>
   dle lo x \<Longrightarrow> dle x hi \<Longrightarrow> dle lo y \<and> dle y hi"
  using double_between_f_bounds by fastforce

lemma restricted_ok:
  "string_restricted_f vals vars name x = Inr (vs, y) \<Longrightarrow> x \<in> set vals \<Longrightarrow> y \<in> set vals"
  using string_restricted_f_cases by blast

lemma port_ok:
  assumes "port_f vars name x = Inr (vs, y)" "between_ok (fst port_range) (snd port_range) x"
  shows "between_ok (fst port_range) (snd port_range) y"
proof -
  obtain p where p: "int_between_f port_range vars name x = Inr (vs, p)" "y = to_uint16 p"
    using assms(1) by (auto simp: port_f_def split: sum.splits)
  then have "between_ok (fst port_range) (snd port_range) p"
    using int_between_ok [of "fst port_range" "snd port_range"] assms(2) by (metis prod.collapse)
  then show ?thesis using p(2)
    by (simp add: between_ok_def port_range_def NVHTTP_PORT_HTTPS_def RTSP_SETUP_PORT_def
        to_uint16_id)
qed

lemma log_level_ok: "between_ok 0 6 n \<Longrightarrow> between_ok 0 6 (log_level_from_view s n)"
  by (auto simp: log_level_from_view_def between_ok_def split: list.splits)

lemmas reader_ok = int_between_ok double_between_ok restricted_ok port_ok log_level_ok

lemma preserves_copy_apps:
  assumes "\<And>c fs. I c \<Longrightarrow> I (c\<lparr>c_fs := fs\<rparr>)"
  shows "preserves I (copy_apps env)"
  using assms by (auto simp: preserves_def copy_apps_def Let_def split: if_splits option.splits)

lemma preserves_flags_f:
  assumes "\<And>c vs f. I c \<Longrightarrow> I (c\<lparr>c_sunshine := c_sunshine c\<lparr>sun_flags := f\<rparr>, c_vars := vs\<rparr>)"
  shows "preserves I flags_f"
  using assms by (auto simp: preserves_def flags_f_def split: option.splits)

lemmas opt_defs = vopt_def sopt_def iopt_def nopt_def stopt_def aopt_def ddopt_def

text \<open>A statement on one part of the configuration only has to keep the invariant of that part.\<close>

named_theorems preserves_intros

lemma preserves_part_opt [preserves_intros]:
  "(\<And>v vars vs x. video_ok v \<Longrightarrow> r1 vars name (get1 v) = Inr (vs, x) \<Longrightarrow> video_ok (upd1 (\<lambda>_. x) v)) \<Longrightarrow>
     preserves (config_ok env) (vopt r1 name get1 upd1)"
  "(\<And>v vars vs x. sunshine_ok v \<Longrightarrow> r2 vars name (get2 v) = Inr (vs, x) \<Longrightarrow> sunshine_ok (upd2 (\<lambda>_. x) v)) \<Longrightarrow>
     preserves (config_ok env) (sopt r2 name get2 upd2)"
  "(\<And>v vars vs x. input_ok env v \<Longrightarrow> r3 vars name (get3 v) = Inr (vs, x) \<Longrightarrow> input_ok env (upd3 (\<lambda>_. x) v)) \<Longrightarrow>
     preserves (config_ok env) (iopt r3 name get3 upd3)"
  "(\<And>v vars vs x. nvhttp_ok v \<Longrightarrow> r4 vars name (get4 v) = Inr (vs, x) \<Longrightarrow> nvhttp_ok (upd4 (\<lambda>_. x) v)) \<Longrightarrow>
     preserves (config_ok env) (nopt r4 name get4 upd4)"
  "(\<And>v vars vs x. stream_ok v \<Longrightarrow> r5 vars name (get5 v) = Inr (vs, x) \<Longrightarrow> stream_ok (upd5 (\<lambda>_. x) v)) \<Longrightarrow>
     preserves (config_ok env) (stopt r5 name get5 upd5)"
  "preserves (config_ok env) (aopt r6 name get6 upd6)"
  "(\<And>v vars vs x. video_ok v \<Longrightarrow> r7 vars name (get7 (v_dd v)) = Inr (vs, x) \<Longrightarrow>
       video_ok (v_dd_update (upd7 (\<lambda>_. x)) v)) \<Longrightarrow>
     preserves (config_ok env) (ddopt r7 name get7 upd7)"
  unfolding opt_defs by (rule preserves_opt, simp add: config_ok_def)+

lemma preserves_other [preserves_intros]:
  "(\<And>c. config_ok env c \<Longrightarrow> config_ok env (f c)) \<Longrightarrow> preserves (config_ok env) (act f)"
  "(\<And>c vs x. config_ok env c \<Longrightarrow> r (c_vars c) name init = Inr (vs, x) \<Longrightarrow>
       config_ok env (use x (c\<lparr>c_vars := vs\<rparr>))) \<Longrightarrow>
     preserves (config_ok env) (local_opt r name init use)"
  "preserves (config_ok env) flags_f"
  "preserves (config_ok env) (copy_apps env)"
  by (auto intro!: preserves_act preserves_local_opt preserves_flags_f preserves_copy_apps
      simp: config_ok_def sunshine_ok_def)

lemma preserves_path [preserves_intros]:
  "(\<And>n p. nvhttp_ok n \<Longrightarrow> nvhttp_ok (nupd (\<lambda>_. p) n)) \<Longrightarrow>
     preserves (config_ok env) (path_f env name get (\<lambda>f. c_nvhttp_update (nupd f)))"
  "(\<And>n p. sunshine_ok n \<Longrightarrow> sunshine_ok (supd (\<lambda>_. p) n)) \<Longrightarrow>
     preserves (config_ok env) (path_f env name get (\<lambda>f. c_sunshine_update (supd f)))"
  "(\<And>n p. stream_ok n \<Longrightarrow> stream_ok (tupd (\<lambda>_. p) n)) \<Longrightarrow>
     preserves (config_ok env) (path_f env name get (\<lambda>f. c_stream_update (tupd f)))"
  by (rule preserves_path_f; simp add: config_ok_def)+

declare preserves_Nil [preserves_intros] preserves_Cons [preserves_intros]

lemma preserves_software: "preserves (config_ok env) (seq apply_software)"
  unfolding apply_software_def
  by (intro preserves_intros) (auto simp: video_ok_def config_ok_def dest: reader_ok)

lemma preserves_nvenc: "preserves (config_ok env) (seq (apply_nvenc env))"
  unfolding apply_nvenc_def
  by (intro preserves_intros) (auto simp: video_ok_def config_ok_def set_nv_legacy_def dest: reader_ok)

lemma preserves_encoders:
  "preserves (config_ok env) (seq apply_qsv)" "preserves (config_ok env) (seq apply_amd)"
  "preserves (config_ok env) (seq apply_vt)" "preserves (config_ok env) (seq apply_vaapi_vk)"
  unfolding apply_qsv_def apply_amd_def apply_vt_def apply_vaapi_vk_def
  by ((intro preserves_intros; simp add: video_ok_def config_ok_def))+

lemma preserves_dd: "preserves (config_ok env) (seq (apply_dd env))"
  unfolding apply_dd_def
  by (intro preserves_intros)
    (auto simp: video_ok_def config_ok_def between_ok_def dest: reader_ok int_between_f_bounds)

lemma preserves_path_section: "preserves (config_ok env) (seq (apply_paths env))"
  unfolding apply_paths_def
  by (intro preserves_intros)
    (auto simp: nvhttp_ok_def sunshine_ok_def config_ok_def dest: reader_ok)

lemma preserves_csrf: "preserves (config_ok env) (seq apply_csrf)"
  unfolding apply_csrf_def
  by (intro preserves_intros)
    (auto simp: config_ok_def sunshine_ok_def default_origins_def valid_origin_def)

lemma preserves_stream: "preserves (config_ok env) (seq (apply_stream env))"
  unfolding apply_stream_def
  by (intro preserves_intros)
    (auto simp: config_ok_def stream_ok_def between_ok_def dest: int_between_f_bounds)

lemma preserves_input: "preserves (config_ok env) (seq (apply_input env))"
  unfolding apply_input_def
  by (intro preserves_intros)
    (auto simp: config_ok_def input_ok_def sunshine_ok_def dest: restricted_ok)

lemma preserves_network: "preserves (config_ok env) (seq apply_network)"
  unfolding apply_network_def
  by (intro preserves_intros)
    (auto simp: config_ok_def sunshine_ok_def add_port_origins_def Let_def
      dest: port_ok restricted_ok)

lemma preserves_logging: "preserves (config_ok env) (seq apply_logging)"
  unfolding apply_logging_def
  by (intro preserves_intros)
    (auto simp: config_ok_def sunshine_ok_def dest: restricted_ok log_level_ok)

lemma preserves_body: "preserves (config_ok env) (seq (config_body env))"
  unfolding config_body_def
  by (intro preserves_append preserves_software preserves_nvenc preserves_encoders preserves_dd
      preserves_path_section preserves_csrf preserves_stream preserves_input preserves_network
      preserves_logging)


lemma default_config_ok:
  assumes "gamepads env \<noteq> []"
  shows "config_ok env (default_config env fs)"
  using assms
  by (auto simp: config_ok_def default_config_def video_ok_def stream_ok_def nvhttp_ok_def
      input_ok_def sunshine_ok_def default_video_def default_nv_def default_stream_def
      default_nvhttp_def default_input_def default_sunshine_def between_ok_def port_range_def
      NVHTTP_PORT_HTTPS_def RTSP_SETUP_PORT_def locales_def INT_MAX_def split: list.splits)


section \<open>Software encoding on VideoToolbox\<close>

definition require_sw :: "config_t \<Rightarrow> int" where
  "require_sw c = vt_require_sw (v_vt (c_video c))"

definition keeps :: "(config_t \<Rightarrow> 'a) \<Rightarrow> stmt \<Rightarrow> bool" where
  "keeps g s \<longleftrightarrow> (\<forall>c c'. s c = Inr c' \<longrightarrow> g c' = g c)"

named_theorems keeps_intros

lemma keeps_seq_Nil [keeps_intros]: "keeps g (seq [])"
  by (simp add: keeps_def)

lemma keeps_seq_Cons [keeps_intros]: "keeps g s \<Longrightarrow> keeps g (seq ss) \<Longrightarrow> keeps g (seq (s # ss))"
  by (fastforce simp: keeps_def split: sum.splits)

lemma keeps_append: "keeps g (seq xs) \<Longrightarrow> keeps g (seq ys) \<Longrightarrow> keeps g (seq (xs @ ys))"
  by (fastforce simp: keeps_def seq_append split: sum.splits)

lemma keeps_act [keeps_intros]: "(\<And>c. g (f c) = g c) \<Longrightarrow> keeps g (act f)"
  by (simp add: keeps_def act_def)

lemma keeps_opt [keeps_intros]:
  "(\<And>c vs x. g (upd (\<lambda>_. x) (c\<lparr>c_vars := vs\<rparr>)) = g c) \<Longrightarrow> keeps g (opt r name get upd)"
  by (auto simp: keeps_def opt_def split: sum.splits)

lemma keeps_local_opt [keeps_intros]:
  "(\<And>c vs x. g (use x (c\<lparr>c_vars := vs\<rparr>)) = g c) \<Longrightarrow> keeps g (local_opt r name init use)"
  by (auto simp: keeps_def local_opt_def split: sum.splits)

lemma keeps_path_f [keeps_intros]:
  assumes "\<And>c vs p. g (upd (\<lambda>_. p) (c\<lparr>c_vars := vs\<rparr>)) = g c" "\<And>c fs. g (c\<lparr>c_fs := fs\<rparr>) = g c"
  shows "keeps g (path_f env name get upd)"
  unfolding keeps_def using assms by (auto dest!: path_f_cases)

lemma keeps_copy_apps [keeps_intros]:
  "(\<And>c fs. g (c\<lparr>c_fs := fs\<rparr>) = g c) \<Longrightarrow> keeps g (copy_apps env)"
  by (auto simp: keeps_def copy_apps_def Let_def split: if_splits option.splits)

lemma keeps_flags_f [keeps_intros]:
  "(\<And>c vs f. g (c\<lparr>c_sunshine := c_sunshine c\<lparr>sun_flags := f\<rparr>, c_vars := vs\<rparr>) = g c) \<Longrightarrow>
   keeps g flags_f"
  by (auto simp: keeps_def flags_f_def split: option.splits)

lemma keeps_require_sw:
  "keeps require_sw (seq apply_software)" "keeps require_sw (seq (apply_nvenc env))"
  "keeps require_sw (seq apply_qsv)" "keeps require_sw (seq apply_amd)"
  "keeps require_sw (seq apply_vaapi_vk)" "keeps require_sw (seq (apply_dd env))"
  "keeps require_sw (seq (apply_paths env))" "keeps require_sw (seq apply_csrf)"
  "keeps require_sw (seq (apply_stream env))" "keeps require_sw (seq (apply_input env))"
  "keeps require_sw (seq apply_network)" "keeps require_sw (seq apply_logging)"
  unfolding apply_software_def apply_nvenc_def apply_qsv_def apply_amd_def apply_vaapi_vk_def
    apply_dd_def apply_paths_def apply_csrf_def apply_stream_def apply_input_def
    apply_network_def apply_logging_def opt_defs
  by ((intro keeps_intros; simp add: require_sw_def set_nv_legacy_def))+

text \<open>The first read of \<open>vt_software\<close> takes the option away, so the second one finds nothing.\<close>

context option_reader begin

lemma opt_absent: "c_vars c name = None \<Longrightarrow> opt read name get upd c = Inr (upd (\<lambda>_. get c) c)"
  by (simp add: opt_def absent)

lemma opt_removes:
  assumes "opt read name get upd c = Inr c'" "\<And>x c. c_vars (upd (\<lambda>_. x) c) = c_vars c"
  shows "c_vars c' name = None"
  using assms removed by (auto simp: opt_def split: sum.splits)

end

lemma keeps_require_sw_vt: "keeps require_sw (seq apply_vt)"
  unfolding keeps_def
proof (intro allI impI)
  let ?s = "\<lambda>f name get upd. vopt (int_conv_f f) name (get \<circ> v_vt) (v_vt_update \<circ> upd)"
  fix c c' assume run: "seq apply_vt c = Inr c'"
  obtain c1 c2 c3 where
      1: "?s vt_coder_from_view ''vt_coder'' vt_coder vt_coder_update c = Inr c1" and
      2: "?s vt_allow_software_from_view ''vt_software'' vt_allow_sw vt_allow_sw_update c1 = Inr c2" and
      3: "?s vt_force_software_from_view ''vt_software'' vt_require_sw vt_require_sw_update c2 = Inr c3" and
      4: "?s vt_rt_from_view ''vt_realtime'' vt_realtime vt_realtime_update c3 = Inr c'"
    using run unfolding apply_vt_def by (auto simp del: fun_upd_apply split: sum.splits)
  have "c_vars c2 ''vt_software'' = None"
    by (rule rd_int_conv.opt_removes [OF 2 [unfolded vopt_def]]) simp
  then have "require_sw c3 = require_sw c2"
    using 3 unfolding vopt_def by (auto simp: rd_int_conv.opt_absent require_sw_def)
  moreover have "require_sw c1 = require_sw c" "require_sw c2 = require_sw c1"
      "require_sw c' = require_sw c3"
    using 1 2 4 by (auto simp: vopt_def opt_def require_sw_def split: sum.splits)
  ultimately show "require_sw c' = require_sw c" by simp
qed

text \<open>
  The option \<open>vt_software\<close> can allow software encoding but never require it: no
  configuration file changes \<open>vt_require_sw\<close>, since the option is consumed by the read before.
\<close>
theorem vt_require_sw_unchanged:
  assumes "apply_config env vars c = Inr c'"
  shows "vt_require_sw (v_vt (c_video c')) = vt_require_sw (v_vt (c_video c))"
proof -
  have "keeps require_sw (seq (log_config_settings True # config_body env))"
    unfolding log_config_settings_def config_body_def
    by (intro keeps_seq_Cons keeps_act keeps_append keeps_require_sw keeps_require_sw_vt)
      (simp add: require_sw_def)
  then show ?thesis using assms unfolding keeps_def apply_config_def by (fastforce simp: require_sw_def)
qed

theorem vt_require_sw_unchanged_witness:
  "demo_vars ''vt_software'' = Some ''forced'' \<and>
   (\<exists>c'. apply_config demo_env demo_vars demo_config = Inr c' \<and> vt_require_sw (v_vt (c_video c')) = 0)"
proof -
  have "vt_require_sw (v_vt (c_video demo_config)) = 0"
    by (simp add: demo_config_def default_config_def default_video_def)
  then show ?thesis
    using demo_Inr vt_require_sw_unchanged by (fastforce simp: demo_vars_def)
qed

section \<open>The directories the program needs\<close>

definition located :: "config_t \<Rightarrow> string \<Rightarrow> bool" where
  "located c p \<longleftrightarrow> is_absolute p \<and> c_fs c (remove_filename p) \<noteq> None"

lemma path_value_absolute: "is_absolute (appdata env) \<Longrightarrow> is_absolute (path_value env temp p)"
  by (auto simp: path_value_def path_join_def is_absolute_def Let_def)

lemma remove_filename_absolute:
  assumes "is_absolute p"
  shows "remove_filename p \<noteq> []"
proof -
  have "CHR ''/'' \<in> set (rev p)" using assms by (cases p) (auto simp: is_absolute_def)
  then show ?thesis by (auto simp: remove_filename_def dropWhile_eq_Nil_conv)
qed

lemma create_directories_made:
  assumes "create_directories env dir c = Inr c'" "dir \<noteq> []"
  shows "c_fs c' dir \<noteq> None"
  using assms by (auto simp: create_directories_def is_parent_or_self_def split: if_splits)

lemma create_directories_mono:
  assumes "create_directories env dir c = Inr c'" "c_fs c q \<noteq> None"
  shows "c_fs c' q \<noteq> None"
  using assms by (auto simp: create_directories_def split: if_splits)

lemma path_f_located:
  assumes run: "path_f env name get upd c = Inr c'" and abs: "is_absolute (appdata env)"
    and get: "\<And>c x. get (upd (\<lambda>_. x) c) = x" and frame: "\<And>c fs. get (c\<lparr>c_fs := fs\<rparr>) = get c"
  shows "located c' (get c')"
proof -
  obtain vs temp where t: "read_tmp (c_vars c) name = (vs, temp)" by fastforce
  define p where "p = path_value env temp (get c)"
  define c1 where "c1 = upd (\<lambda>_. p) (c\<lparr>c_vars := vs\<rparr>)"
  have p: "is_absolute p" unfolding p_def by (rule path_value_absolute [OF abs])
  have g: "get c1 = p" unfolding c1_def by (rule get)
  have r: "(if c_fs c1 (remove_filename p) \<noteq> None then Inr c1
      else create_directories env (remove_filename p) c1) = Inr c'"
    using run unfolding path_f_def t Let_def c1_def p_def by simp
  show ?thesis
  proof (cases "c_fs c1 (remove_filename p) = None")
    case True
    then have c: "create_directories env (remove_filename p) c1 = Inr c'" using r by simp
    obtain fs where "c' = c1\<lparr>c_fs := fs\<rparr>" using create_directories_cases [OF c] by blast
    then have "get c' = p" using g frame by simp
    then show ?thesis
      using p create_directories_made [OF c remove_filename_absolute [OF p]]
      by (simp add: located_def)
  next
    case False
    then show ?thesis using r g p by (simp add: located_def)
  qed
qed

text \<open>The file system only grows.\<close>

definition grows :: "stmt \<Rightarrow> bool" where
  "grows s \<longleftrightarrow> (\<forall>c c' q. s c = Inr c' \<longrightarrow> c_fs c q \<noteq> None \<longrightarrow> c_fs c' q \<noteq> None)"

lemma keeps_fs_grows: "keeps c_fs s \<Longrightarrow> grows s"
  by (simp add: keeps_def grows_def)

named_theorems grows_intros

lemma grows_Nil [grows_intros]: "grows (seq [])"
  by (simp add: grows_def)

lemma grows_append: "grows (seq xs) \<Longrightarrow> grows (seq ys) \<Longrightarrow> grows (seq (xs @ ys))"
  unfolding grows_def by (fastforce simp: seq_append split: sum.splits)

lemma grows_Cons [grows_intros]: "grows s \<Longrightarrow> grows (seq ss) \<Longrightarrow> grows (seq (s # ss))"
  unfolding grows_def by (fastforce split: sum.splits)

lemma grows_opts [grows_intros]:
  "(\<And>c. c_fs (f c) = c_fs c) \<Longrightarrow> grows (act f)"
  "(\<And>c x. c_fs (upd (\<lambda>_. x) c) = c_fs c) \<Longrightarrow> grows (opt r name get upd)"
  "(\<And>c x. c_fs (use x c) = c_fs c) \<Longrightarrow> grows (local_opt r' name init use)"
  "grows flags_f"
  by (rule keeps_fs_grows, rule keeps_intros, simp)+

lemma grows_path_f [grows_intros]:
  assumes "\<And>c p. c_fs (upd (\<lambda>_. p) c) = c_fs c"
  shows "grows (path_f env name get upd)"
  unfolding grows_def
proof (intro allI impI)
  fix c c' q assume run: "path_f env name get upd c = Inr c'" and q: "c_fs c q \<noteq> None"
  obtain vs temp where t: "read_tmp (c_vars c) name = (vs, temp)" by fastforce
  show "c_fs c' q \<noteq> None"
    using run q assms create_directories_mono unfolding path_f_def t Let_def
    by (auto split: if_splits)
qed

lemma grows_copy_apps [grows_intros]: "grows (copy_apps env)"
  by (auto simp: grows_def copy_apps_def Let_def split: if_splits option.splits)

lemma grows_sections:
  "grows (seq (apply_paths env))" "grows (seq apply_csrf)"
  "grows (seq (apply_stream env))" "grows (seq (apply_input env))"
  "grows (seq apply_network)" "grows (seq apply_logging)"
  unfolding apply_paths_def apply_csrf_def apply_stream_def apply_input_def
    apply_network_def apply_logging_def opt_defs
  by ((intro grows_intros; simp))+

text \<open>A statement that locates a path, followed by statements that keep it.\<close>

lemma located_later:
  assumes "seq xs c = Inr c1" "keeps g (seq xs)" "grows (seq xs)" "located c (g c)"
  shows "located c1 (g c1)"
  using assms unfolding keeps_def grows_def located_def by metis

lemma seq_split:
  assumes "seq (xs @ s # ys) c = Inr c'"
  obtains c1 c2 where "seq xs c = Inr c1" "s c1 = Inr c2" "seq ys c2 = Inr c'"
  using assms by (auto simp: seq_append split: sum.splits)

lemma located_from:
  assumes "seq (xs @ s # ys) c = Inr c'" "\<And>c c'. s c = Inr c' \<Longrightarrow> located c' (g c')"
    and "keeps g (seq ys)" "grows (seq ys)"
  shows "located c' (g c')"
proof -
  obtain c1 c2 where 1: "s c1 = Inr c2" "seq ys c2 = Inr c'" using assms(1) by (rule seq_split)
  show ?thesis by (rule located_later [OF 1(2) assms(3,4) assms(2) [OF 1(1)]])
qed

definition pkey_path :: "config_t \<Rightarrow> string" where "pkey_path c = nvh_pkey (c_nvhttp c)"
definition cert_path :: "config_t \<Rightarrow> string" where "cert_path c = nvh_cert (c_nvhttp c)"
definition log_path :: "config_t \<Rightarrow> string" where "log_path c = sun_log_file (c_sunshine c)"
definition state_path :: "config_t \<Rightarrow> string" where "state_path c = nvh_file_state (c_nvhttp c)"
definition credentials_path :: "config_t \<Rightarrow> string" where
  "credentials_path c = sun_credentials_file (c_sunshine c)"
definition apps_path :: "config_t \<Rightarrow> string" where "apps_path c = st_file_apps (c_stream c)"

lemmas path_names = pkey_path_def cert_path_def log_path_def state_path_def credentials_path_def
  apps_path_def

definition all_paths :: "config_t \<Rightarrow> string list" where
  "all_paths c = [pkey_path c, cert_path c, log_path c, state_path c, credentials_path c]"

definition later_sections :: "environment \<Rightarrow> stmt list" where
  "later_sections env = apply_csrf @ apply_stream env @ apply_input env @ apply_network @ apply_logging"

lemma keeps_all_paths: "keeps all_paths (seq (later_sections env))"
  unfolding later_sections_def apply_csrf_def apply_stream_def apply_input_def
    apply_network_def apply_logging_def opt_defs
  by (intro keeps_append keeps_intros; simp add: all_paths_def path_names add_port_origins_def Let_def)

lemma grows_later: "grows (seq (later_sections env))"
  unfolding later_sections_def by (intro grows_append grows_sections)

lemma keeps_one_path:
  "keeps pkey_path (seq (later_sections env))" "keeps cert_path (seq (later_sections env))"
  "keeps log_path (seq (later_sections env))" "keeps state_path (seq (later_sections env))"
  "keeps credentials_path (seq (later_sections env))"
  using keeps_all_paths [of env] unfolding keeps_def all_paths_def by blast+

lemma paths_tail:
  "keeps pkey_path (seq (drop 1 (apply_paths env)))"
  "keeps cert_path (seq (drop 2 (apply_paths env)))"
  "keeps log_path (seq (drop 4 (apply_paths env)))"
  "keeps state_path (seq (drop 5 (apply_paths env)))"
  "keeps credentials_path (seq (drop 7 (apply_paths env)))"
  unfolding apply_paths_def opt_defs
  by (simp add: drop_Cons' del: seq.simps; intro keeps_intros; simp add: path_names)+

lemma grows_all: "list_all grows ss \<Longrightarrow> grows (seq ss)"
  by (induction ss) (simp_all add: grows_Nil grows_Cons del: seq.simps)

lemma grows_tail: "grows (seq (drop n (apply_paths env)))"
proof -
  have "list_all grows (apply_paths env)"
    unfolding apply_paths_def opt_defs list.pred_inject by (intro conjI grows_intros; simp)
  then show ?thesis by (intro grows_all) (auto simp: list_all_iff dest: in_set_dropD)
qed

definition earlier_sections :: "environment \<Rightarrow> stmt list" where
  "earlier_sections env = log_config_settings True # apply_software @ apply_nvenc env @ apply_qsv @
     apply_amd @ apply_vt @ apply_vaapi_vk @ apply_dd env"

lemma body_at:
  assumes "n < length (apply_paths env)"
  shows "log_config_settings True # config_body env =
    (earlier_sections env @ take n (apply_paths env)) @ apply_paths env ! n #
    (drop (Suc n) (apply_paths env) @ later_sections env)"
proof -
  have "apply_paths env = take n (apply_paths env) @ apply_paths env ! n # drop (Suc n) (apply_paths env)"
    using assms by (rule id_take_nth_drop)
  then show ?thesis
    unfolding config_body_def earlier_sections_def later_sections_def by simp
qed

lemma located_after_body:
  assumes run: "apply_config env vars c = Inr c'" and abs: "is_absolute (appdata env)"
    and n: "n < length (apply_paths env)" "apply_paths env ! n = path_f env name get upd"
    and get: "\<And>c x. get (upd (\<lambda>_. x) c) = x" and frame: "\<And>c fs. get (c\<lparr>c_fs := fs\<rparr>) = get c"
    and kept: "keeps get (seq (drop (Suc n) (apply_paths env)))" "keeps get (seq (later_sections env))"
  shows "located c' (get c')"
proof (rule located_from)
  show "seq ((earlier_sections env @ take n (apply_paths env)) @ path_f env name get upd #
      (drop (Suc n) (apply_paths env) @ later_sections env)) (c\<lparr>c_vars := vars\<rparr>) = Inr c'"
    using run unfolding apply_config_def body_at [OF n(1)] n(2) .
  show "located c2 (get c2)" if "path_f env name get upd c1 = Inr c2" for c1 c2
    by (rule path_f_located [OF that abs get frame])
qed (intro keeps_append grows_append kept grows_tail grows_later)+

lemma paths_at:
  "length (apply_paths env) = 14"
  "apply_paths env ! 0 = path_f env ''pkey'' pkey_path (\<lambda>f. c_nvhttp_update (nvh_pkey_update f))"
  "apply_paths env ! 1 = path_f env ''cert'' cert_path (\<lambda>f. c_nvhttp_update (nvh_cert_update f))"
  "apply_paths env ! 3 = path_f env ''log_path'' log_path (\<lambda>f. c_sunshine_update (sun_log_file_update f))"
  "apply_paths env ! 4 = path_f env ''file_state'' state_path (\<lambda>f. c_nvhttp_update (nvh_file_state_update f))"
  "apply_paths env ! 6 = path_f env ''credentials_file'' credentials_path
     (\<lambda>f. c_sunshine_update (sun_credentials_file_update f))"
  by (simp_all add: apply_paths_def path_names [abs_def])

text \<open>
  When the application data directory is absolute, then after a run of \<open>apply_config\<close> the
  private key, the certificate, the log, the state and the credentials file are absolute paths
  whose directory exists, whatever the file or the command line gave.
\<close>
theorem apply_config_paths_located:
  assumes "apply_config env vars c = Inr c'" "is_absolute (appdata env)"
  shows "\<forall>p\<in>set [nvh_pkey (c_nvhttp c'), nvh_cert (c_nvhttp c'), sun_log_file (c_sunshine c'),
     nvh_file_state (c_nvhttp c'), sun_credentials_file (c_sunshine c')]. located c' p"
proof -
  note at = located_after_body [OF assms, unfolded paths_at(1)]
  have "located c' (pkey_path c')"
    by (rule at [OF _ paths_at(2)]) (use paths_tail keeps_one_path in \<open>simp_all add: path_names\<close>)
  moreover have "located c' (cert_path c')"
    by (rule at [OF _ paths_at(3)]) (use paths_tail keeps_one_path in \<open>simp_all add: path_names numeral_2_eq_2\<close>)
  moreover have "located c' (log_path c')"
    by (rule at [OF _ paths_at(4)]) (use paths_tail keeps_one_path in \<open>simp_all add: path_names\<close>)
  moreover have "located c' (state_path c')"
    by (rule at [OF _ paths_at(5)]) (use paths_tail keeps_one_path in \<open>simp_all add: path_names\<close>)
  moreover have "located c' (credentials_path c')"
    by (rule at [OF _ paths_at(6)]) (use paths_tail keeps_one_path in \<open>simp_all add: path_names\<close>)
  ultimately show ?thesis by (simp add: path_names)
qed

theorem apply_config_paths_located_witness:
  "\<exists>c'. apply_config demo_env demo_vars demo_config = Inr c' \<and> located c' (nvh_pkey (c_nvhttp c'))"
proof -
  have "is_absolute (appdata demo_env)" by (simp add: demo_env_def is_absolute_def)
  then show ?thesis using demo_Inr apply_config_paths_located by fastforce
qed

section \<open>The port\<close>

lemma parse_int_number:
  assumes "s \<noteq> []" "\<forall>c\<in>set s. isdigit c" "length s \<le> 9"
  shows "parse_int s = Inr (dec_value s)"
proof -
  have b: "0 \<le> dec_value s" "dec_value s < 10 ^ length s" using dec_value_bounds assms(2) by auto
  have "(10::int) ^ length s \<le> 10 ^ 9" using assms(3) by (intro power_increasing) auto
  then have "to_int32 (dec_value s) = dec_value s"
    using b by (intro to_int32_id) (simp_all add: INT_MIN_def INT_MAX_def)
  then show ?thesis using parse_int_digits assms by simp
qed

text \<open>
  A decimal \<open>port\<close> is accepted exactly from 1019 to 65514 and otherwise leaves the setting
  alone. The documented lower end, 1029, is not what the code has: the offset of the HTTPS port
  is negative, so it lowers the bound instead of keeping every derived port above 1023.
\<close>
theorem port_accepted:
  assumes "vars name = Some s" "s \<noteq> []" "\<forall>c\<in>set s. isdigit c" "length s \<le> 9"
    and "0 \<le> old" "old \<le> 65535"
  shows "port_f vars name old =
    Inr (vars(name := None), if 1019 \<le> dec_value s \<and> dec_value s \<le> 65514 then dec_value s else old)"
proof -
  have "to_uint16 old = old" "1019 \<le> dec_value s \<Longrightarrow> dec_value s \<le> 65514 \<Longrightarrow>
      to_uint16 (dec_value s) = dec_value s"
    using assms by (auto intro: to_uint16_id)
  then show ?thesis
    using parse_int_number [OF assms(2-4)] assms(1)
    by (simp add: port_f_def int_between_f_def int_f_def port_range_def NVHTTP_PORT_HTTPS_def
        RTSP_SETUP_PORT_def)
qed

theorem port_accepted_witness:
  "port_f [''port'' \<mapsto> ''1019''] ''port'' 47989 = Inr ([''port'' \<mapsto> ''1019''](''port'' := None), 1019)"
  using port_accepted [of "[''port'' \<mapsto> ''1019'']" "''port''" "''1019''" 47989]
  by (simp add: isdigit_def dec_value_def schar_def)

section \<open>Precedence\<close>

lemma keeps_modified:
  "keeps c_modified (seq apply_software)" "keeps c_modified (seq (apply_nvenc env))"
  "keeps c_modified (seq apply_qsv)" "keeps c_modified (seq apply_amd)"
  "keeps c_modified (seq apply_vt)" "keeps c_modified (seq apply_vaapi_vk)"
  "keeps c_modified (seq (apply_dd env))" "keeps c_modified (seq (apply_paths env))"
  "keeps c_modified (seq apply_csrf)" "keeps c_modified (seq (apply_stream env))"
  "keeps c_modified (seq (apply_input env))" "keeps c_modified (seq apply_network)"
  "keeps c_modified (seq apply_logging)"
  unfolding apply_software_def apply_nvenc_def apply_qsv_def apply_amd_def apply_vt_def
    apply_vaapi_vk_def apply_dd_def apply_paths_def apply_csrf_def apply_stream_def
    apply_input_def apply_network_def apply_logging_def opt_defs
  by ((intro keeps_intros; simp))+

text \<open>
  The command line wins over the file: whatever \<open>name=value\<close> pairs the arguments gave,
  \<open>apply_config\<close> works on, and remembers in \<open>modified_config_settings\<close>, the value of the
  command line where there is one and the value of the file elsewhere.
\<close>
theorem command_line_wins:
  assumes "parse_args args Map.empty c = Args cmd_vars c1"
    and "parse_cmdline env args c = Inr (0, c2)"
    and "c_fs c1 (appdata env) \<noteq> None" "c_fs c1 (sun_config_file (c_sunshine c1)) = Some (File content)"
  shows "c_modified c2 name = (case cmd_vars name of Some v \<Rightarrow> Some v
     | None \<Rightarrow> (case parse_config content name of Some v \<Rightarrow> Some v | None \<Rightarrow> c_modified c1 name))"
proof -
  have "load_config env cmd_vars c1 = Inr c2"
    using assms(1,2) by (simp add: parse_cmdline_def split: sum.splits config_error.splits)
  then have run: "apply_config env (parse_config content ++ cmd_vars) c1 = Inr c2"
    using assms(3,4)
    by (simp add: load_config_def make_directory_def create_config_file_def Let_def read_file_def
        split: sum.splits)
  have "keeps c_modified (seq (config_body env))"
    unfolding config_body_def by (intro keeps_append keeps_modified)
  then have "c_modified c2 = c_modified c1 ++ (parse_config content ++ cmd_vars)"
    using run by (auto simp: apply_config_def log_config_settings_def act_def keeps_def)
  then show ?thesis by (auto simp: map_add_def split: option.splits)
qed

definition demo_fs :: "string \<Rightarrow> fs_node option" where
  "demo_fs = (\<lambda>_. Some Dir)(''/etc/s.conf'' \<mapsto> File (''port = 2000'' @ [CHR 0x0A]))"

definition demo_args :: "string list" where
  "demo_args = [''/etc/s.conf'', ''port=1019'']"

definition demo_start :: config_t where
  "demo_start = (default_config demo_env demo_fs)\<lparr>c_sunshine :=
     (default_sunshine demo_env)\<lparr>sun_config_file := ''/etc/s.conf''\<rparr>\<rparr>"

lemma demo_file: "parse_config (''port = 2000'' @ [CHR 0x0A]) = [''port'' \<mapsto> ''2000'']"
proof -
  have k: "wf_name ''port''" by (simp add: wf_name_def whitespace_def space_tab_def endline_def)
  have v: "wf_value ''2000''" by (simp add: wf_value_def whitespace_def space_tab_def endline_def)
  show ?thesis
    using parse_config_from_line [OF k v, of "[]" Map.empty]
    by (simp add: parse_config_def emplace_def parse_config_from.simps)
qed

lemma demo_start_runs: "\<not> isl (apply_config demo_env [''port'' \<mapsto> ''1019''] demo_start)"
  by code_simp

theorem command_line_wins_witness:
  "\<exists>c2. parse_cmdline demo_env demo_args (default_config demo_env demo_fs) = Inr (0, c2) \<and>
     c_modified c2 ''port'' = Some ''1019''"
proof -
  have "parse_option ''port=1019'' = ([], Some (''port'', ''1019''))" by code_simp
  then have a: "parse_args demo_args Map.empty (default_config demo_env demo_fs) =
      Args [''port'' \<mapsto> ''1019''] demo_start"
    by (simp add: demo_args_def demo_start_def default_config_def)
  have fs: "c_fs demo_start (appdata demo_env) \<noteq> None"
    "c_fs demo_start (sun_config_file (c_sunshine demo_start)) = Some (File (''port = 2000'' @ [CHR 0x0A]))"
    by (simp_all add: demo_start_def default_config_def demo_fs_def demo_env_def)
  have "[''port'' \<mapsto> ''2000''] ++ [''port'' \<mapsto> ''1019''] = [''port'' \<mapsto> ''1019'']" by simp
  then obtain c2 where "load_config demo_env [''port'' \<mapsto> ''1019''] demo_start = Inr c2"
    using demo_start_runs fs demo_file
    by (cases "apply_config demo_env [''port'' \<mapsto> ''1019''] demo_start")
      (auto simp: load_config_def make_directory_def create_config_file_def Let_def read_file_def)
  then have r: "parse_cmdline demo_env demo_args (default_config demo_env demo_fs) = Inr (0, c2)"
    by (simp add: parse_cmdline_def a)
  from command_line_wins [OF a r fs, of "''port''"] r show ?thesis by auto
qed

end
