(* ===== verification/Network.thy ===== *)
theory Network
  imports Config_Correct
begin

text \<open>
  The pure part of \<open>src/network.cpp\<close>: classes of remote addresses, bind addresses, derived
  ports and the mDNS instance name. IP addresses are the library's: \<open>asio\<close> collects what the
  code asks of it, and \<open>in_hosts\<close> says whether the hosts of a network given in CIDR notation
  contain an address.
\<close>

datatype net_e = PC | LAN | WAN
datatype af_e = IPV4 | BOTH

record 'a asio =
  make_address :: "string \<Rightarrow> 'a option"
  address_string :: "'a \<Rightarrow> string"
  is_v6 :: "'a \<Rightarrow> bool"
  v4_mapped :: "'a \<Rightarrow> 'a option"
  in_hosts :: "string \<Rightarrow> 'a \<Rightarrow> bool"

definition from_enum_string :: "string \<Rightarrow> net_e" where
  "from_enum_string view = (if view = ''wan'' then WAN else if view = ''lan'' then LAN else PC)"

definition to_enum_string :: "net_e \<Rightarrow> string" where
  "to_enum_string net = (case net of PC \<Rightarrow> ''pc'' | LAN \<Rightarrow> ''lan'' | WAN \<Rightarrow> ''wan'')"

definition pc_ips_v4 :: "string list" where "pc_ips_v4 = [''127.0.0.0/8'']"

definition lan_ips_v4 :: "string list" where
  "lan_ips_v4 = [''192.168.0.0/16'', ''172.16.0.0/12'', ''10.0.0.0/8'', ''100.64.0.0/10'', ''169.254.0.0/16'']"

definition pc_ips_v6 :: "string list" where "pc_ips_v6 = [''::1/128'']"
definition lan_ips_v6 :: "string list" where "lan_ips_v6 = [''fc00::/7'', ''fe80::/64'']"

definition normalize_address :: "'a asio \<Rightarrow> 'a \<Rightarrow> 'a" where
  "normalize_address io address =
     (if is_v6 io address then (case v4_mapped io address of Some v4 \<Rightarrow> v4 | None \<Rightarrow> address)
      else address)"

text \<open>\<open>None\<close> where \<open>make_address\<close> throws.\<close>

definition from_address :: "'a asio \<Rightarrow> string \<Rightarrow> net_e option" where
  "from_address io view =
     map_option (\<lambda>a. let addr = normalize_address io a in
        if is_v6 io addr then
          (if list_ex (\<lambda>range. in_hosts io range addr) pc_ips_v6 then PC
           else if list_ex (\<lambda>range. in_hosts io range addr) lan_ips_v6 then LAN else WAN)
        else
          (if list_ex (\<lambda>range. in_hosts io range addr) pc_ips_v4 then PC
           else if list_ex (\<lambda>range. in_hosts io range addr) lan_ips_v4 then LAN else WAN))
       (make_address io view)"

definition af_from_enum_string :: "string \<Rightarrow> af_e" where
  "af_from_enum_string view = (if view = ''ipv4'' then IPV4 else BOTH)"

definition af_to_any_address_string :: "af_e \<Rightarrow> string" where
  "af_to_any_address_string af = (case af of IPV4 \<Rightarrow> ''0.0.0.0'' | BOTH \<Rightarrow> ''::'')"

definition get_bind_address :: "sunshine_t \<Rightarrow> af_e \<Rightarrow> string" where
  "get_bind_address s af =
     (if sun_bind_address s \<noteq> [] then sun_bind_address s else af_to_any_address_string af)"

definition addr_to_normalized_string :: "'a asio \<Rightarrow> 'a \<Rightarrow> string" where
  "addr_to_normalized_string io address = address_string io (normalize_address io address)"

definition addr_to_url_escaped_string :: "'a asio \<Rightarrow> 'a \<Rightarrow> string" where
  "addr_to_url_escaped_string io address =
     (let a = normalize_address io address
      in if is_v6 io a then ''['' @ address_string io a @ '']'' else address_string io a)"

definition encryption_mode_for_address :: "'a asio \<Rightarrow> stream_t \<Rightarrow> 'a \<Rightarrow> int option" where
  "encryption_mode_for_address io st address =
     map_option (\<lambda>nettype. if nettype = PC \<or> nettype = LAN then st_lan_encryption_mode st
                           else st_wan_encryption_mode st)
       (from_address io (address_string io address))"

definition map_port :: "sunshine_t \<Rightarrow> int \<Rightarrow> int" where
  "map_port s port = to_uint16 (sun_port s + port)"

definition map_port_warns :: "sunshine_t \<Rightarrow> int \<Rightarrow> bool" where
  "map_port_warns s port \<longleftrightarrow> map_port s port < 1024 \<or> map_port s port > 65535"

text \<open>\<open>std::isalnum\<close> in the C locale.\<close>

definition isalnum :: "char \<Rightarrow> bool" where
  "isalnum c \<longleftrightarrow> isdigit c \<or> (97 \<le> schar c \<and> schar c \<le> 122) \<or> (65 \<le> schar c \<and> schar c \<le> 90)"

fun clean_name :: "string \<Rightarrow> string" where
  "clean_name [] = []"
| "clean_name (c # cs) =
     (if c = CHR '' '' then CHR ''-'' # clean_name cs
      else if \<not> isalnum c \<and> c \<noteq> CHR ''-'' then [] else c # clean_name cs)"

definition mdns_instance_name :: "string \<Rightarrow> string" where
  "mdns_instance_name hostname =
     (let instancename = clean_name (take 63 hostname)
      in if instancename \<noteq> [] then instancename else ''Sunshine'')"

section \<open>Properties\<close>

text \<open>
  Every port the program derives is the configured port plus its offset: with a port
  \<open>apply_config\<close> can set, the offsets from the HTTPS port (-5) to RTSP (21) never wrap around.
\<close>
theorem map_port_exact:
  assumes "sunshine_ok s" "- 5 \<le> port" "port \<le> 21"
  shows "map_port s port = sun_port s + port \<and> 1014 \<le> map_port s port \<and> map_port s port \<le> 65535"
  using assms to_uint16_id [of "sun_port s + port"]
  by (simp add: map_port_def sunshine_ok_def between_ok_def port_range_def
      NVHTTP_PORT_HTTPS_def RTSP_SETUP_PORT_def)

theorem map_port_exact_witness: "map_port (default_sunshine demo_env) 21 = 48010"
proof -
  have "config_ok demo_env (default_config demo_env (\<lambda>_. None))"
    by (rule default_config_ok) (simp add: demo_env_def)
  then have "sunshine_ok (default_sunshine demo_env)" by (simp add: config_ok_def default_config_def)
  from map_port_exact [OF this, of 21] show ?thesis by (simp add: default_sunshine_def)
qed

lemma clean_name_chars: "c \<in> set (clean_name s) \<Longrightarrow> isalnum c \<or> c = CHR ''-''"
  by (induction s) (auto split: if_splits)

lemma clean_name_length: "length (clean_name s) \<le> length s"
  by (induction s) auto

text \<open>
  The mDNS instance name is always valid: between 1 and 63 characters, each a letter, a
  digit or a dash, whatever the host name.
\<close>
theorem mdns_name_valid:
  "mdns_instance_name hostname \<noteq> [] \<and> length (mdns_instance_name hostname) \<le> 63 \<and>
   list_all (\<lambda>c. isalnum c \<or> c = CHR ''-'') (mdns_instance_name hostname)"
proof (cases "clean_name (take 63 hostname) = []")
  case True
  then show ?thesis by (simp add: mdns_instance_name_def isalnum_def isdigit_def schar_def)
next
  case False
  have "length (clean_name (take 63 hostname)) \<le> 63"
    using clean_name_length [of "take 63 hostname"] by simp
  then show ?thesis
    using False clean_name_chars [of _ "take 63 hostname"]
    by (auto simp: mdns_instance_name_def list_all_iff)
qed

text \<open>
  An IPv4 client seen through an IPv6 socket is treated as the IPv4 client: given that
  printing and parsing an address round-trips and that a mapped address is not an IPv6 one,
  both get the same encryption mode.
\<close>
theorem mapped_address_same_mode:
  assumes "\<And>a. make_address io (address_string io a) = Some a"
    and "is_v6 io address" "v4_mapped io address = Some v4" "\<not> is_v6 io v4"
  shows "encryption_mode_for_address io st address = encryption_mode_for_address io st v4"
  using assms by (simp add: encryption_mode_for_address_def from_address_def normalize_address_def)

text \<open>Addresses for the witness: an IPv4 number, or the IPv6 form of one.\<close>

definition demo_asio :: "(bool \<times> bool) asio" where
  "demo_asio = \<lparr>make_address = (\<lambda>s. if s = [] then None else Some (hd s = CHR ''6'', tl s = ''L'')),
     address_string = (\<lambda>(six, lan). (if six then CHR ''6'' else CHR ''4'') # (if lan then ''L'' else [])),
     is_v6 = fst, v4_mapped = (\<lambda>(six, lan). if six then Some (False, lan) else None),
     in_hosts = (\<lambda>range a. snd a \<and> range = ''10.0.0.0/8'')\<rparr>"

theorem mapped_address_same_mode_witness:
  "encryption_mode_for_address demo_asio (default_stream demo_env) (True, True) =
   encryption_mode_for_address demo_asio (default_stream demo_env) (False, True)"
  by (rule mapped_address_same_mode) (auto simp: demo_asio_def split: if_splits)

end
