(* ===== verification/Thread_Safe.thy ===== *)
theory Thread_Safe
  imports Prelude "HOL-Library.Sublist" "HOL-Library.Word" "HOL-Library.Char_ord"
    "HOL-Library.List_Lexorder"
begin

text \<open>
  The thread-safe containers of \<open>src/thread_safe.h\<close>. An operation holds the lock of its object
  from its first statement to its return, or to a wait on the condition variable, so it is a
  function of the state of the object; a wait ends it with \<open>Wait\<close> and the function of the
  matching wake-up goes on from there. A value of \<open>util::optional_t\<close> is an option, \<open>None\<close>
  being \<open>false_v\<close>.
\<close>

datatype 'v outcome = Return "'v option" | Wait

datatype wait_kind = Pop | Pop_for | View | View_for

section \<open>event_t\<close>

record 'v event =
  ev_continue :: bool
  ev_status :: "'v option"

definition event_init :: "'v event" where
  "event_init = \<lparr>ev_continue = True, ev_status = None\<rparr>"

text \<open>The second component says whether the operation notifies the waiting threads.\<close>

definition event_raise :: "'v option \<Rightarrow> 'v event \<Rightarrow> 'v event \<times> bool" where
  "event_raise x e = (if \<not> ev_continue e then (e, False) else (e\<lparr>ev_status := x\<rparr>, True))"

definition event_stop :: "'v event \<Rightarrow> 'v event \<times> bool" where
  "event_stop e = (e\<lparr>ev_continue := False\<rparr>, True)"

definition event_reset :: "'v event \<Rightarrow> 'v event \<times> bool" where
  "event_reset e = (e\<lparr>ev_continue := True, ev_status := None\<rparr>, False)"

definition event_peek :: "'v event \<Rightarrow> bool" where
  "event_peek e \<longleftrightarrow> ev_continue e \<and> ev_status e \<noteq> None"

text \<open>The code after the loop, which \<open>pop\<close> and \<open>view\<close> reach once there is a status.\<close>

definition event_take :: "wait_kind \<Rightarrow> 'v event \<Rightarrow> 'v event \<times> 'v outcome" where
  "event_take k e =
     (if k = Pop \<or> k = Pop_for then (e\<lparr>ev_status := None\<rparr>, Return (ev_status e))
      else (e, Return (ev_status e)))"

definition event_enter :: "wait_kind \<Rightarrow> 'v event \<Rightarrow> 'v event \<times> 'v outcome" where
  "event_enter k e =
     (if \<not> ev_continue e then (e, Return None)
      else if ev_status e = None then (e, Wait) else event_take k e)"

text \<open>
  The untimed loops test \<open>_continue\<close> right after the wait, the timed ones only when there is
  still no status, and give up at a timeout without looking at the status again.
\<close>

definition event_wake :: "wait_kind \<Rightarrow> bool \<Rightarrow> 'v event \<Rightarrow> 'v event \<times> 'v outcome" where
  "event_wake k timeout e =
     (if k = Pop \<or> k = View then
        (if \<not> ev_continue e then (e, Return None)
         else if ev_status e = None then (e, Wait) else event_take k e)
      else
        (if timeout then (e, Return None)
         else if ev_status e \<noteq> None then event_take k e
         else if \<not> ev_continue e then (e, Return None) else (e, Wait)))"

section \<open>queue_t\<close>

record 'v queue =
  q_continue :: bool
  q_max_elements :: nat
  q_queue :: "'v list"

definition queue_init :: "nat \<Rightarrow> 'v queue" where
  "queue_init max_elements = \<lparr>q_continue = True, q_max_elements = max_elements, q_queue = []\<rparr>"

definition queue_raise :: "'v \<Rightarrow> 'v queue \<Rightarrow> 'v queue \<times> bool" where
  "queue_raise x q =
     (if \<not> q_continue q then (q, False)
      else (q\<lparr>q_queue :=
        (if length (q_queue q) = q_max_elements q then [] else q_queue q) @ [x]\<rparr>, True))"

definition queue_peek :: "'v queue \<Rightarrow> bool" where
  "queue_peek q \<longleftrightarrow> q_continue q \<and> q_queue q \<noteq> []"

definition queue_stop :: "'v queue \<Rightarrow> 'v queue \<times> bool" where
  "queue_stop q = (q\<lparr>q_continue := False\<rparr>, True)"

definition queue_take :: "'v queue \<Rightarrow> 'v queue \<times> 'v outcome" where
  "queue_take q = (q\<lparr>q_queue := tl (q_queue q)\<rparr>, Return (Some (hd (q_queue q))))"

definition queue_enter :: "wait_kind \<Rightarrow> 'v queue \<Rightarrow> 'v queue \<times> 'v outcome" where
  "queue_enter k q =
     (if \<not> q_continue q then (q, Return None)
      else if q_queue q = [] then (q, Wait) else queue_take q)"

definition queue_wake :: "wait_kind \<Rightarrow> bool \<Rightarrow> 'v queue \<Rightarrow> 'v queue \<times> 'v outcome" where
  "queue_wake k timeout q =
     (if k = Pop then
        (if \<not> q_continue q then (q, Return None)
         else if q_queue q = [] then (q, Wait) else queue_take q)
      else
        (if timeout then (q, Return None)
         else if q_queue q \<noteq> [] then queue_take q
         else if \<not> q_continue q then (q, Return None) else (q, Wait)))"

section \<open>Threads on a condition variable\<close>

text \<open>
  A thread is outside the object, asleep on its condition variable, or notified and about to
  take the lock again. Every sleeper may also wake without a notification, at a timeout or
  spuriously. \<open>ops\<close> are the operations that do not wait; \<open>enter\<close> and \<open>wake\<close> are the two
  halves of the waiting ones. The log holds what the waiting operations returned.
\<close>

datatype pc = Idle | Asleep wait_kind | Notified wait_kind

definition notify :: "pc \<Rightarrow> pc" where
  "notify p = (case p of Asleep k \<Rightarrow> Notified k | _ \<Rightarrow> p)"

lemma notify_not_asleep [simp]: "notify p \<noteq> Asleep k"
  by (simp add: notify_def split: pc.splits)

record ('s, 'v) monitor =
  m_object :: 's
  m_pc :: "nat \<Rightarrow> pc"
  m_log :: "(nat \<times> 'v option) list"

inductive mon_step ::
    "(wait_kind \<Rightarrow> 's \<Rightarrow> 's \<times> 'v outcome) \<Rightarrow> (wait_kind \<Rightarrow> bool \<Rightarrow> 's \<Rightarrow> 's \<times> 'v outcome) \<Rightarrow>
     ('s \<Rightarrow> 's \<times> bool) set \<Rightarrow> ('s, 'v) monitor \<Rightarrow> ('s, 'v) monitor \<Rightarrow> bool"
  for enter wake ops where
  operate: "f \<in> ops \<Longrightarrow> f (m_object M) = (s, notified) \<Longrightarrow>
    mon_step enter wake ops M
      (M\<lparr>m_object := s, m_pc := (if notified then notify \<circ> m_pc M else m_pc M)\<rparr>)"
| enter_return: "m_pc M t = Idle \<Longrightarrow> enter k (m_object M) = (s, Return v) \<Longrightarrow>
    mon_step enter wake ops M (M\<lparr>m_object := s, m_log := m_log M @ [(t, v)]\<rparr>)"
| enter_wait: "m_pc M t = Idle \<Longrightarrow> enter k (m_object M) = (s, Wait) \<Longrightarrow>
    mon_step enter wake ops M (M\<lparr>m_object := s, m_pc := (m_pc M)(t := Asleep k)\<rparr>)"
| wake_return: "m_pc M t \<in> {Asleep k, Notified k} \<Longrightarrow> wake k timeout (m_object M) = (s, Return v) \<Longrightarrow>
    mon_step enter wake ops M
      (M\<lparr>m_object := s, m_pc := (m_pc M)(t := Idle), m_log := m_log M @ [(t, v)]\<rparr>)"
| wake_wait: "m_pc M t \<in> {Asleep k, Notified k} \<Longrightarrow> wake k timeout (m_object M) = (s, Wait) \<Longrightarrow>
    mon_step enter wake ops M (M\<lparr>m_object := s, m_pc := (m_pc M)(t := Asleep k)\<rparr>)"

definition mon_init :: "'s \<Rightarrow> ('s, 'v) monitor" where
  "mon_init s = \<lparr>m_object = s, m_pc = (\<lambda>_. Idle), m_log = []\<rparr>"

text \<open>
  What the threads rely on, for any object: nobody is put to sleep while there is something to
  take or the object is stopped, a returning operation neither stops the object nor makes it
  ready, and an operation that notifies nobody leaves a waiting object waiting.
\<close>

locale waitable =
  fixes ready running :: "'s \<Rightarrow> bool"
    and enter :: "wait_kind \<Rightarrow> 's \<Rightarrow> 's \<times> 'v outcome"
    and wake :: "wait_kind \<Rightarrow> bool \<Rightarrow> 's \<Rightarrow> 's \<times> 'v outcome"
    and ops :: "('s \<Rightarrow> 's \<times> bool) set"
  assumes enter_waits: "enter k s = (s', Wait) \<Longrightarrow> s' = s \<and> \<not> ready s \<and> running s"
    and wake_waits: "wake k timeout s = (s', Wait) \<Longrightarrow> s' = s \<and> \<not> ready s \<and> running s"
    and enter_returns: "enter k s = (s', Return v) \<Longrightarrow> running s' = running s \<and> (ready s' \<longrightarrow> ready s)"
    and wake_returns: "wake k timeout s = (s', Return v) \<Longrightarrow>
        running s' = running s \<and> (ready s' \<longrightarrow> ready s)"
    and silent: "f \<in> ops \<Longrightarrow> f s = (s', False) \<Longrightarrow> \<not> ready s \<Longrightarrow> running s \<Longrightarrow>
        \<not> ready s' \<and> running s'"
begin

definition sleepers_wait :: "('s, 'v) monitor \<Rightarrow> bool" where
  "sleepers_wait M \<longleftrightarrow>
     (\<forall>t k. m_pc M t = Asleep k \<longrightarrow> \<not> ready (m_object M) \<and> running (m_object M))"

lemma sleepers_wait_step:
  assumes "mon_step enter wake ops M M'" "sleepers_wait M"
  shows "sleepers_wait M'"
  using assms
proof (induction rule: mon_step.induct)
  case (operate f M s notified)
  then show ?case
    using silent [OF operate(1), of "m_object M" s]
    by (cases notified) (auto simp: sleepers_wait_def)
next
  case (enter_return M t k s v)
  then show ?case using enter_returns [of k "m_object M" s v] by (auto simp: sleepers_wait_def)
next
  case (enter_wait M t k s)
  then show ?case using enter_waits [of k "m_object M" s] by (auto simp: sleepers_wait_def)
next
  case (wake_return M t k timeout s v)
  then show ?case
    using wake_returns [of k timeout "m_object M" s v] by (auto simp: sleepers_wait_def)
next
  case (wake_wait M t k timeout s)
  then show ?case
    using wake_waits [of k timeout "m_object M" s] by (auto simp: sleepers_wait_def)
qed

lemma no_lost_wakeup:
  assumes "(mon_step enter wake ops)\<^sup>*\<^sup>* (mon_init s) M" "m_pc M t = Asleep k"
  shows "\<not> ready (m_object M) \<and> running (m_object M)"
proof -
  have "sleepers_wait M"
    using assms(1)
    by (induction rule: rtranclp_induct)
      (auto intro: sleepers_wait_step, simp add: sleepers_wait_def mon_init_def)
  then show ?thesis using assms(2) by (auto simp: sleepers_wait_def)
qed

end

definition event_ops :: "('v event \<Rightarrow> 'v event \<times> bool) set" where
  "event_ops = insert event_stop (insert event_reset (range event_raise))"

definition queue_ops :: "('v queue \<Rightarrow> 'v queue \<times> bool) set" where
  "queue_ops = insert queue_stop (range queue_raise)"

interpretation ev: waitable "\<lambda>e. ev_status e \<noteq> None" ev_continue event_enter event_wake event_ops
  by unfold_locales
    (auto simp: event_enter_def event_wake_def event_take_def event_ops_def event_raise_def
      event_stop_def event_reset_def split: if_splits)

interpretation qu: waitable "\<lambda>q. q_queue q \<noteq> []" q_continue queue_enter queue_wake queue_ops
  by unfold_locales
    (auto simp: queue_enter_def queue_wake_def queue_take_def queue_ops_def queue_raise_def
      queue_stop_def split: if_splits)

text \<open>
  No wake-up of an \<open>event_t\<close> is lost: in every reachable state, whatever the interleaving of
  \<open>raise\<close>, \<open>stop\<close>, \<open>reset\<close>, \<open>pop\<close> and \<open>view\<close>, a thread asleep on the event means that the event
  has no status and is not stopped.
\<close>
theorem event_no_lost_wakeup:
  assumes "(mon_step event_enter event_wake event_ops)\<^sup>*\<^sup>* (mon_init event_init) M"
    and "m_pc M t = Asleep k"
  shows "ev_status (m_object M) = None \<and> ev_continue (m_object M)"
  using ev.no_lost_wakeup [OF assms] by simp

lemma one_sleeper:
  assumes "enter Pop s = (s, Wait)"
  shows "(mon_step enter wake ops)\<^sup>*\<^sup>* (mon_init s) ((mon_init s)\<lparr>m_pc := (\<lambda>_. Idle)(7 := Asleep Pop)\<rparr>)"
  using mon_step.enter_wait [of "mon_init s" 7 enter Pop s wake ops] assms
  by (simp add: mon_init_def r_into_rtranclp)

theorem event_no_lost_wakeup_witness:
  "\<exists>M. (mon_step event_enter event_wake event_ops)\<^sup>*\<^sup>* (mon_init (event_init :: nat event)) M \<and>
     m_pc M 7 = Asleep Pop \<and> ev_status (m_object M) = None \<and> ev_continue (m_object M)"
proof -
  let ?M = "(mon_init event_init)\<lparr>m_pc := (\<lambda>_. Idle)(7 := Asleep Pop)\<rparr>"
  have r: "(mon_step event_enter event_wake event_ops)\<^sup>*\<^sup>* (mon_init (event_init :: nat event)) ?M"
    by (rule one_sleeper) (simp add: event_enter_def event_init_def)
  have "m_pc ?M 7 = Asleep Pop" by simp
  with r event_no_lost_wakeup [OF r this] show ?thesis by blast
qed

text \<open>
  No wake-up of a \<open>queue_t\<close> is lost: a thread asleep on the queue means that the queue is
  empty and not stopped.
\<close>
theorem queue_no_lost_wakeup:
  assumes "(mon_step queue_enter queue_wake queue_ops)\<^sup>*\<^sup>* (mon_init (queue_init n)) M"
    and "m_pc M t = Asleep k"
  shows "q_queue (m_object M) = [] \<and> q_continue (m_object M)"
  using qu.no_lost_wakeup [OF assms] by simp

theorem queue_no_lost_wakeup_witness:
  "\<exists>M. (mon_step queue_enter queue_wake queue_ops)\<^sup>*\<^sup>* (mon_init (queue_init 32 :: nat queue)) M \<and>
     m_pc M 7 = Asleep Pop \<and> q_queue (m_object M) = []"
proof -
  let ?M = "(mon_init (queue_init 32))\<lparr>m_pc := (\<lambda>_. Idle)(7 := Asleep Pop)\<rparr>"
  have r: "(mon_step queue_enter queue_wake queue_ops)\<^sup>*\<^sup>* (mon_init (queue_init 32 :: nat queue)) ?M"
    by (rule one_sleeper) (simp add: queue_enter_def queue_init_def)
  have "m_pc ?M 7 = Asleep Pop" by simp
  with r queue_no_lost_wakeup [OF r this] show ?thesis by blast
qed

section \<open>Order and loss in a queue\<close>

datatype 'v queue_op = Raise_Q 'v | Pop_Q

text \<open>A run of raises and pops that do not block, and what the pops return.\<close>

fun queue_run :: "'v queue_op list \<Rightarrow> 'v queue \<Rightarrow> 'v queue \<times> 'v list" where
  "queue_run [] q = (q, [])"
| "queue_run (Raise_Q x # ops) q = queue_run ops (fst (queue_raise x q))"
| "queue_run (Pop_Q # ops) q =
     (case queue_enter Pop q of
        (q1, Return (Some v)) \<Rightarrow> (let (q2, vs) = queue_run ops q1 in (q2, v # vs))
      | (q1, _) \<Rightarrow> queue_run ops q1)"

fun raised :: "'v queue_op list \<Rightarrow> 'v list" where
  "raised [] = []"
| "raised (Raise_Q x # ops) = x # raised ops"
| "raised (Pop_Q # ops) = raised ops"

lemma queue_enter_Pop:
  "queue_enter Pop q = (q1, Return (Some v)) \<longleftrightarrow>
     q_continue q \<and> q_queue q = v # q_queue q1 \<and> q1 = q\<lparr>q_queue := tl (q_queue q)\<rparr>"
  by (cases "q_queue q") (auto simp: queue_enter_def queue_take_def)

lemma queue_enter_other:
  "queue_enter Pop q = (q1, r) \<Longrightarrow> (\<forall>v. r \<noteq> Return (Some v)) \<Longrightarrow> q1 = q"
  by (auto simp: queue_enter_def queue_take_def split: if_splits)

lemma queue_run_Pop:
  "queue_run (Pop_Q # ops) q =
     (if q_continue q \<and> q_queue q \<noteq> []
      then (let (q2, vs) = queue_run ops (q\<lparr>q_queue := tl (q_queue q)\<rparr>)
            in (q2, hd (q_queue q) # vs))
      else queue_run ops q)"
  by (auto simp: queue_enter_def queue_take_def)

lemma queue_run_subseq:
  "subseq (snd (queue_run ops q) @ q_queue (fst (queue_run ops q))) (q_queue q @ raised ops)"
proof (induction ops arbitrary: q rule: raised.induct)
  case (2 x ops)
  have "subseq (raised ops) (x # raised ops)" by (rule list_emb_Cons) simp
  then have "subseq (q_queue (fst (queue_raise x q)) @ raised ops) (q_queue q @ x # raised ops)"
    by (auto simp: queue_raise_def intro: list_emb_append2 list_emb_append_mono)
  from subseq_order.order_trans [OF 2 this] show ?case by simp
next
  case (3 ops)
  show ?case
    using 3 [of "q\<lparr>q_queue := tl (q_queue q)\<rparr>"] 3 [of q]
    by (cases "q_queue q") (auto simp: queue_run_Pop split: prod.splits simp del: queue_run.simps(3))
qed simp

text \<open>
  A \<open>queue_t\<close> delivers in order and never twice: the popped values followed by those still
  queued are a subsequence of the values raised.
\<close>
theorem queue_in_order:
  "subseq (snd (queue_run ops (queue_init n)) @ q_queue (fst (queue_run ops (queue_init n)))) (raised ops)"
  using queue_run_subseq [of ops "queue_init n"] by (simp add: queue_init_def)

lemma queue_run_lossless:
  assumes "q_continue q" "length (q_queue q) + length (raised ops) \<le> q_max_elements q"
  shows "snd (queue_run ops q) @ q_queue (fst (queue_run ops q)) = q_queue q @ raised ops"
  using assms
proof (induction ops arbitrary: q rule: raised.induct)
  case (3 ops)
  show ?case
    using 3(1) [of "q\<lparr>q_queue := tl (q_queue q)\<rparr>"] 3(1) [of q] 3(2,3)
    by (cases "q_queue q") (auto simp: queue_run_Pop split: prod.splits simp del: queue_run.simps(3))
qed (auto simp: queue_raise_def)

text \<open>
  A \<open>queue_t\<close> loses a value only when it is full: while at most \<open>max_elements\<close> values were
  raised, what was popped followed by what is queued is what was raised.
\<close>
theorem queue_lossless:
  assumes "length (raised ops) \<le> n"
  shows "snd (queue_run ops (queue_init n)) @ q_queue (fst (queue_run ops (queue_init n))) = raised ops"
  using queue_run_lossless [of "queue_init n" ops] assms by (simp add: queue_init_def)

theorem queue_lossless_witness:
  "snd (queue_run [Raise_Q (1::nat), Pop_Q, Raise_Q 2] (queue_init 2)) @
     q_queue (fst (queue_run [Raise_Q 1, Pop_Q, Raise_Q 2] (queue_init 2))) = [1, 2]"
  using queue_lossless [of "[Raise_Q (1::nat), Pop_Q, Raise_Q 2]" 2] by simp

section \<open>shared_t\<close>

text \<open>
  A reference-counted object that its first reference constructs and its last one destructs.
  \<open>construct\<close> and \<open>destruct\<close> are the functions given to \<open>make_shared\<close>; the log holds their
  calls, with the result of \<open>construct\<close>. A handle is a number; \<open>sh_owner\<close> says which handles
  point to the object. The objects of the program are static, so the count starts at 0.
\<close>

datatype sh_call = Construct int | Destruct

record 'a shared =
  sh_count :: "32 word"
  sh_object :: 'a
  sh_log :: "sh_call list"
  sh_owners :: "nat set"

definition shared_init :: "'a \<Rightarrow> 'a shared" where
  "shared_init x = \<lparr>sh_count = 0, sh_object = x, sh_log = [], sh_owners = {}\<rparr>"

text \<open>\<open>ref\<close> under the lock: whether the pointer it returns has an owner.\<close>

definition sh_ref :: "('a \<Rightarrow> int \<times> 'a) \<Rightarrow> 'a \<Rightarrow> 'a shared \<Rightarrow> 'a shared \<times> bool" where
  "sh_ref construct fresh s =
     (if sh_count s = 0 then
        (let (ret, obj) = construct fresh;
             s1 = s\<lparr>sh_object := obj, sh_log := sh_log s @ [Construct ret]\<rparr>
         in if ret \<noteq> 0 then (s1, False) else (s1\<lparr>sh_count := sh_count s1 + 1\<rparr>, True))
      else (s\<lparr>sh_count := sh_count s + 1\<rparr>, True))"

definition sh_release :: "('a \<Rightarrow> 'a) \<Rightarrow> nat \<Rightarrow> 'a shared \<Rightarrow> 'a shared" where
  "sh_release destruct h s =
     (let s1 = s\<lparr>sh_count := sh_count s - 1\<rparr>;
          s2 = (if sh_count s1 = 0
                then s1\<lparr>sh_object := destruct (sh_object s1), sh_log := sh_log s1 @ [Destruct]\<rparr> else s1)
      in s2\<lparr>sh_owners := sh_owners s2 - {h}\<rparr>)"

text \<open>The copy constructor: the temporary reference it takes is the one the copy keeps.\<close>

definition sh_copy :: "('a \<Rightarrow> int \<times> 'a) \<Rightarrow> 'a \<Rightarrow> nat \<Rightarrow> nat \<Rightarrow> 'a shared \<Rightarrow> 'a shared" where
  "sh_copy construct fresh src h s =
     (if src \<notin> sh_owners s then s
      else (let s1 = fst (sh_ref construct fresh s) in s1\<lparr>sh_owners := insert h (sh_owners s1)\<rparr>))"

definition sh_move :: "nat \<Rightarrow> nat \<Rightarrow> 'a shared \<Rightarrow> 'a shared" where
  "sh_move src h s = s\<lparr>sh_owners := (if src \<in> sh_owners s then insert h (sh_owners s - {src}) else sh_owners s)\<rparr>"

definition sh_move_assign :: "('a \<Rightarrow> 'a) \<Rightarrow> nat \<Rightarrow> nat \<Rightarrow> 'a shared \<Rightarrow> 'a shared" where
  "sh_move_assign destruct src h s =
     (let s1 = (if h \<in> sh_owners s then sh_release destruct h s else s)
      in s1\<lparr>sh_owners := (if src \<in> sh_owners s1 then insert h (sh_owners s1 - {src}) else sh_owners s1)\<rparr>)"

definition sh_destroy :: "('a \<Rightarrow> 'a) \<Rightarrow> nat \<Rightarrow> 'a shared \<Rightarrow> 'a shared" where
  "sh_destroy destruct h s = (if h \<in> sh_owners s then sh_release destruct h s else s)"

text \<open>
  What threads may do with handles. A constructor writes a handle that is not in use; fewer
  than \<open>2 ^ 32 - 1\<close> handles own the object at any time.
\<close>

inductive sh_step :: "('a \<Rightarrow> int \<times> 'a) \<Rightarrow> ('a \<Rightarrow> 'a) \<Rightarrow> 'a \<Rightarrow> 'a shared \<Rightarrow> 'a shared \<Rightarrow> bool"
  for construct destruct fresh where
  take_ref: "h \<notin> sh_owners s \<Longrightarrow> card (sh_owners s) < 2 ^ 32 - 1 \<Longrightarrow>
    sh_ref construct fresh s = (s1, owned) \<Longrightarrow>
    sh_step construct destruct fresh s (s1\<lparr>sh_owners := if owned then insert h (sh_owners s1) else sh_owners s1\<rparr>)"
| copy: "h \<notin> sh_owners s \<Longrightarrow> card (sh_owners s) < 2 ^ 32 - 1 \<Longrightarrow>
    sh_step construct destruct fresh s (sh_copy construct fresh src h s)"
| move: "h \<notin> sh_owners s \<Longrightarrow> src \<noteq> h \<Longrightarrow> sh_step construct destruct fresh s (sh_move src h s)"
| move_assign: "src \<noteq> h \<Longrightarrow> sh_step construct destruct fresh s (sh_move_assign destruct src h s)"
| destroy: "sh_step construct destruct fresh s (sh_destroy destruct h s)"

definition sh_balance :: "sh_call list \<Rightarrow> int" where
  "sh_balance calls = (\<Sum>c\<leftarrow>calls. case c of Construct r \<Rightarrow> if r = 0 then 1 else 0 | Destruct \<Rightarrow> - 1)"

lemma sh_balance_simps [simp]:
  "sh_balance [] = 0"
  "sh_balance (cs @ [Construct r]) = sh_balance cs + (if r = 0 then 1 else 0)"
  "sh_balance (cs @ [Destruct]) = sh_balance cs - 1"
  by (simp_all add: sh_balance_def)

definition sh_inv :: "'a shared \<Rightarrow> bool" where
  [inv_defs]: "sh_inv s \<longleftrightarrow> finite (sh_owners s) \<and> unat (sh_count s) = card (sh_owners s) \<and>
     sh_balance (sh_log s) = (if sh_count s = 0 then 0 else 1)"

lemma sh_inv_add:
  assumes "sh_inv s" "h \<notin> sh_owners s" "card (sh_owners s) < 2 ^ 32 - 1"
    and "sh_ref construct fresh s = (s1, owned)"
  shows "sh_inv (s1\<lparr>sh_owners := if owned then insert h (sh_owners s1) else sh_owners s1\<rparr>)"
proof -
  have c: "unat (sh_count s) = card (sh_owners s)" and fin: "finite (sh_owners s)"
    using assms(1) by (simp_all add: sh_inv_def)
  have u: "unat (sh_count s + 1) = Suc (unat (sh_count s))"
    using assms(3) c by (simp add: unat_word_ariths)
  then have nz: "sh_count s + 1 \<noteq> 0" by (metis nat.distinct(1) unat_0)
  show ?thesis
    using assms c fin u nz
    by (auto simp: sh_inv_def sh_ref_def Let_def split: if_splits prod.splits)
qed

lemma sh_inv_release:
  assumes "sh_inv s" "h \<in> sh_owners s"
  shows "sh_inv (sh_release destruct h s)"
proof -
  have c: "unat (sh_count s) = card (sh_owners s)" and fin: "finite (sh_owners s)"
    and b: "sh_balance (sh_log s) = (if sh_count s = 0 then 0 else 1)"
    using assms(1) by (simp_all add: sh_inv_def)
  have pos: "0 < card (sh_owners s)" using fin assms(2) card_gt_0_iff by blast
  then have nz: "sh_count s \<noteq> 0" using c by auto
  have u: "unat (sh_count s - 1) = card (sh_owners s - {h})"
    using c fin assms(2) nz pos by (simp add: unat_sub_if' Suc_leI)
  show ?thesis
    using c fin b nz u by (auto simp: sh_inv_def sh_release_def Let_def)
qed

lemma sh_inv_transfer:
  assumes "sh_inv s" "h \<notin> sh_owners s" "src \<in> sh_owners s"
  shows "sh_inv (s\<lparr>sh_owners := insert h (sh_owners s - {src})\<rparr>)"
  using assms card_Suc_Diff1 [of "sh_owners s" src] by (auto simp: sh_inv_def)

lemma sh_inv_step:
  assumes "sh_step construct destruct fresh s s'" "sh_inv s"
  shows "sh_inv s'"
  using assms
proof (induction rule: sh_step.induct)
  case (take_ref h s s1 owned)
  then show ?case by (intro sh_inv_add)
next
  case (copy h s src)
  obtain s1 owned where r: "sh_ref construct fresh s = (s1, owned)" by fastforce
  show ?case
  proof (cases "src \<in> sh_owners s")
    case True
    then have "sh_count s \<noteq> 0" using copy.prems by (auto simp: sh_inv_def)
    then have "owned" using r by (auto simp: sh_ref_def)
    then show ?thesis
      using sh_inv_add [OF copy.prems copy.hyps r] True r by (simp add: sh_copy_def Let_def)
  qed (use copy in \<open>simp add: sh_copy_def\<close>)
next
  case (move h s src)
  then show ?case using sh_inv_transfer by (auto simp: sh_move_def)
next
  case (move_assign src h s)
  define s1 where "s1 = (if h \<in> sh_owners s then sh_release destruct h s else s)"
  have i: "sh_inv s1" using move_assign sh_inv_release by (auto simp: s1_def)
  have "h \<notin> sh_owners s1" by (auto simp: s1_def sh_release_def Let_def)
  then show ?case
    using sh_inv_transfer [OF i] i unfolding sh_move_assign_def s1_def [symmetric] by (simp add: Let_def)
next
  case (destroy s h)
  then show ?case using sh_inv_release by (auto simp: sh_destroy_def)
qed

text \<open>
  A \<open>shared_t\<close> is destructed exactly once per successful construction, when its last
  reference goes: in every reachable state the successful constructions less the destructions
  are 1 if some handle owns the object and 0 if none does, and the count is the number of
  owning handles.
\<close>
theorem shared_balanced:
  assumes "(sh_step construct destruct fresh)\<^sup>*\<^sup>* (shared_init x) s"
  shows "unat (sh_count s) = card (sh_owners s) \<and>
    sh_balance (sh_log s) = (if sh_owners s = {} then 0 else 1)"
proof -
  have "sh_inv (shared_init x)" by (simp add: sh_inv_def shared_init_def)
  with assms have i: "sh_inv s"
    by (induction rule: rtranclp_induct) (auto intro: sh_inv_step)
  then have "sh_count s = 0 \<longleftrightarrow> sh_owners s = {}"
    by (auto simp: sh_inv_def card_eq_0_iff simp flip: unat_eq_zero)
  then show ?thesis using i by (simp add: sh_inv_def)
qed

theorem shared_balanced_witness:
  "\<exists>s. (sh_step (\<lambda>x. (0, Suc x)) (\<lambda>x. x) 4)\<^sup>*\<^sup>* (shared_init 0) s \<and>
     unat (sh_count s) = card (sh_owners s) \<and> sh_balance (sh_log s) = 1"
proof -
  let ?start = "shared_init (0 :: nat)"
  obtain s1 where r: "sh_ref (\<lambda>x. (0, Suc x)) 4 ?start = (s1, True)"
    by (simp add: sh_ref_def shared_init_def)
  let ?s = "s1\<lparr>sh_owners := if True then insert 9 (sh_owners s1) else sh_owners s1\<rparr>"
  have "sh_step (\<lambda>x. (0, Suc x)) (\<lambda>x. x) 4 ?start ?s"
    by (rule sh_step.take_ref [where s = ?start and h = 9, OF _ _ r]) (simp_all add: shared_init_def)
  then have s: "(sh_step (\<lambda>x. (0, Suc x)) (\<lambda>x. x) 4)\<^sup>*\<^sup>* ?start ?s" by (rule r_into_rtranclp)
  show ?thesis using s shared_balanced [OF s] by auto
qed

section \<open>Mail\<close>

text \<open>
  \<open>mail_raw_t\<close> maps a name to a weak pointer to a post, an event or a queue that removes itself
  when its last reference goes. A post is a number; \<open>ml_refs\<close> counts its references, so a weak
  pointer has expired when the count is 0. Between the last reference going and \<open>cleanup\<close>,
  which the destructor of the post calls, another thread may run: \<open>ml_pending\<close> counts the
  destructors on their way there. \<open>ml_ids\<close> is the map in its order.
\<close>

record mail =
  ml_ids :: "(string \<times> nat) list"
  ml_refs :: "nat \<Rightarrow> nat"
  ml_next :: nat
  ml_pending :: nat

definition mail_init :: mail where
  "mail_init = \<lparr>ml_ids = [], ml_refs = (\<lambda>_. 0), ml_next = 0, ml_pending = 0\<rparr>"

text \<open>\<open>event\<close> and \<open>queue\<close>: \<open>None\<close> is the null pointer \<open>lock\<close> gives for an expired post.\<close>

definition mail_get :: "string \<Rightarrow> mail \<Rightarrow> mail \<times> nat option" where
  "mail_get name m =
     (case map_of (ml_ids m) name of
        Some p \<Rightarrow>
          if ml_refs m p = 0 then (m, None)
          else (m\<lparr>ml_refs := (ml_refs m)(p := ml_refs m p + 1)\<rparr>, Some p)
      | None \<Rightarrow>
          (m\<lparr>ml_ids := insort_key fst (name, ml_next m) (ml_ids m),
             ml_refs := (ml_refs m)(ml_next m := 1), ml_next := Suc (ml_next m)\<rparr>,
           Some (ml_next m)))"

text \<open>A reference goes; the last one starts the destructor of the post.\<close>

definition mail_drop :: "nat \<Rightarrow> mail \<Rightarrow> mail" where
  "mail_drop p m =
     m\<lparr>ml_refs := (ml_refs m)(p := ml_refs m p - 1),
       ml_pending := ml_pending m + (if ml_refs m p = 1 then 1 else 0)\<rparr>"

fun erase_first :: "('a \<Rightarrow> bool) \<Rightarrow> 'a list \<Rightarrow> 'a list" where
  "erase_first P [] = []"
| "erase_first P (x # xs) = (if P x then xs else x # erase_first P xs)"

definition mail_cleanup :: "mail \<Rightarrow> mail" where
  "mail_cleanup m =
     m\<lparr>ml_ids := erase_first (\<lambda>(_, p). ml_refs m p = 0) (ml_ids m), ml_pending := ml_pending m - 1\<rparr>"

inductive mail_step :: "mail \<Rightarrow> mail \<Rightarrow> bool" where
  get_post: "mail_step m (fst (mail_get name m))"
| drop_post: "0 < ml_refs m p \<Longrightarrow> mail_step m (mail_drop p m)"
| clean_up: "0 < ml_pending m \<Longrightarrow> mail_step m (mail_cleanup m)"

definition expired :: "(nat \<Rightarrow> nat) \<Rightarrow> (string \<times> nat) list \<Rightarrow> nat" where
  "expired refs ids = length (filter (\<lambda>e. refs (snd e) = 0) ids)"

definition mail_inv :: "mail \<Rightarrow> bool" where
  [inv_defs]: "mail_inv m \<longleftrightarrow>
     distinct (map fst (ml_ids m)) \<and> distinct (map snd (ml_ids m)) \<and>
     (\<forall>p\<in>snd ` set (ml_ids m). p < ml_next m) \<and>
     (\<forall>p. 0 < ml_refs m p \<longrightarrow> p \<in> snd ` set (ml_ids m)) \<and>
     expired (ml_refs m) (ml_ids m) = ml_pending m"

lemma expired_cong:
  assumes "\<And>p. p \<in> snd ` set ids \<Longrightarrow> (r p = 0) = (r' p = 0)"
  shows "expired r ids = expired r' ids"
proof -
  have "filter (\<lambda>e. r (snd e) = 0) ids = filter (\<lambda>e. r' (snd e) = 0) ids"
    using assms by (intro filter_cong) auto
  then show ?thesis by (simp add: expired_def)
qed

lemma expired_insort: "expired r (insort_key f x xs) = (if r (snd x) = 0 then 1 else 0) + expired r xs"
  by (induction xs) (auto simp: expired_def)

lemma distinct_map_insort:
  "distinct (map g (insort_key f x xs)) \<longleftrightarrow> g x \<notin> g ` set xs \<and> distinct (map g xs)"
  by (induction xs) (auto simp: set_insort_key)

lemma expired_last_ref:
  assumes "distinct (map snd xs)" "p \<in> snd ` set xs" "r p \<noteq> 0"
  shows "expired (r(p := 0)) xs = Suc (expired r xs)"
  using assms
proof (induction xs)
  case (Cons x xs)
  show ?case
  proof (cases "snd x = p")
    case True
    then have "p \<notin> snd ` set xs" using Cons.prems by auto
    then have "expired (r(p := 0)) xs = expired r xs" by (intro expired_cong) auto
    then show ?thesis using True Cons.prems by (simp add: expired_def)
  qed (use Cons in \<open>auto simp: expired_def\<close>)
qed simp

lemma set_erase_first: "set (erase_first P xs) \<subseteq> set xs"
  by (induction xs) auto

lemma distinct_erase_first: "distinct (map f xs) \<Longrightarrow> distinct (map f (erase_first P xs))"
  using set_erase_first by (induction xs) (fastforce simp: subset_iff)+

lemma expired_erase_first: "expired r (erase_first (\<lambda>e. r (snd e) = 0) xs) = expired r xs - 1"
  by (induction xs) (auto simp: expired_def)

lemma kept_erase_first: "x \<in> set xs \<Longrightarrow> \<not> P x \<Longrightarrow> x \<in> set (erase_first P xs)"
  by (induction xs) auto

lemma mail_inv_get:
  assumes "mail_inv m"
  shows "mail_inv (fst (mail_get name m))"
proof (cases "map_of (ml_ids m) name")
  case None
  have new: "ml_next m \<notin> snd ` set (ml_ids m)" "name \<notin> fst ` set (ml_ids m)"
    using assms None by (auto simp: mail_inv_def map_of_eq_None_iff)
  have "expired ((ml_refs m)(ml_next m := 1)) (ml_ids m) = expired (ml_refs m) (ml_ids m)"
    using new(1) by (intro expired_cong) force
  then show ?thesis
    using assms None new
    by (auto simp: mail_inv_def mail_get_def expired_insort distinct_map_insort
        set_insort_key less_SucI)
next
  case (Some p)
  have "expired ((ml_refs m)(p := Suc (ml_refs m p))) (ml_ids m) = expired (ml_refs m) (ml_ids m)"
    if "0 < ml_refs m p"
    using that by (intro expired_cong) auto
  moreover have "p \<in> snd ` set (ml_ids m)" using Some by (force dest: map_of_SomeD)
  ultimately show ?thesis
    using assms Some by (simp add: mail_inv_def mail_get_def)
qed

lemma mail_inv_drop:
  assumes "mail_inv m" "0 < ml_refs m p"
  shows "mail_inv (mail_drop p m)"
proof -
  have p: "p \<in> snd ` set (ml_ids m)" using assms by (simp add: mail_inv_def)
  have "expired ((ml_refs m)(p := ml_refs m p - 1)) (ml_ids m) =
      expired (ml_refs m) (ml_ids m) + (if ml_refs m p = 1 then 1 else 0)"
  proof (cases "ml_refs m p = 1")
    case True
    then show ?thesis using expired_last_ref [OF _ p, of "ml_refs m"] assms by (simp add: mail_inv_def)
  next
    case False
    then have "expired ((ml_refs m)(p := ml_refs m p - 1)) (ml_ids m) = expired (ml_refs m) (ml_ids m)"
      using assms(2) by (intro expired_cong) auto
    then show ?thesis using False by simp
  qed
  then show ?thesis using assms by (auto simp: mail_inv_def mail_drop_def)
qed

lemma mail_inv_cleanup:
  assumes "mail_inv m"
  shows "mail_inv (mail_cleanup m)"
proof -
  let ?ids = "erase_first (\<lambda>e. ml_refs m (snd e) = 0) (ml_ids m)"
  have eq: "mail_cleanup m = m\<lparr>ml_ids := ?ids, ml_pending := ml_pending m - 1\<rparr>"
    by (simp add: mail_cleanup_def case_prod_beta')
  have "p \<in> snd ` set ?ids" if "0 < ml_refs m p" for p
  proof -
    have "p \<in> snd ` set (ml_ids m)" using assms that by (simp add: mail_inv_def)
    then obtain e where "e \<in> set (ml_ids m)" "snd e = p" by blast
    then show ?thesis using that kept_erase_first [of e "ml_ids m"] by force
  qed
  then show ?thesis
    using assms set_erase_first [of _ "ml_ids m"]
    by (auto simp: mail_inv_def eq distinct_erase_first expired_erase_first)
qed

lemma mail_inv_reachable:
  assumes "mail_step\<^sup>*\<^sup>* mail_init m"
  shows "mail_inv m"
  using assms
proof (induction rule: rtranclp_induct)
  case (step m m')
  from step.hyps(2) step.IH show ?case
    by (cases rule: mail_step.cases) (auto intro: mail_inv_get mail_inv_drop mail_inv_cleanup)
qed (simp add: mail_inv_def mail_init_def expired_def)

text \<open>
  Two users of a mail who ask for the same name get the same post: in every reachable
  state with no destructor under way, \<open>event\<close> and \<open>queue\<close> return a post that is alive, and
  asking again returns the same one.
\<close>
theorem mail_shared_post:
  assumes "mail_step\<^sup>*\<^sup>* mail_init m" "ml_pending m = 0"
  shows "\<exists>m1 m2 p. mail_get name m = (m1, Some p) \<and> 0 < ml_refs m1 p \<and> mail_get name m1 = (m2, Some p)"
proof -
  have inv: "mail_inv m" by (rule mail_inv_reachable [OF assms(1)])
  show ?thesis
  proof (cases "map_of (ml_ids m) name")
    case None
    then have "map_of (insort_key fst (name, ml_next m) (ml_ids m)) name = Some (ml_next m)"
      using inv by (auto simp: mail_inv_def distinct_map_insort set_insort_key map_of_eq_None_iff
          intro!: map_of_is_SomeI)
    then show ?thesis using None by (simp add: mail_get_def)
  next
    case (Some p)
    have "expired (ml_refs m) (ml_ids m) = 0" using inv assms(2) by (simp add: mail_inv_def)
    then have "0 < ml_refs m p"
      using map_of_SomeD [OF Some] by (auto simp: expired_def filter_empty_conv)
    then show ?thesis using Some by (simp add: mail_get_def)
  qed
qed

theorem mail_shared_post_witness:
  "\<exists>m1 m2 p. mail_get ''shutdown'' mail_init = (m1, Some p) \<and> mail_get ''shutdown'' m1 = (m2, Some p)"
  using mail_shared_post [of mail_init "''shutdown''"] by (auto simp: mail_init_def)

text \<open>
  A user who asks for a name while the destructor of its post is under way gets a null
  pointer: the weak pointer is still in the map and has expired.
\<close>
theorem mail_null_post:
  "\<exists>m p. mail_step\<^sup>*\<^sup>* mail_init m \<and> snd (mail_get ''shutdown'' mail_init) = Some p \<and>
     ml_pending m = 1 \<and> snd (mail_get ''shutdown'' m) = None"
proof -
  let ?m1 = "fst (mail_get ''shutdown'' mail_init)"
  have "mail_step mail_init ?m1" by (rule mail_step.get_post)
  moreover have "mail_step ?m1 (mail_drop 0 ?m1)"
    by (rule mail_step.drop_post) (simp add: mail_get_def mail_init_def)
  ultimately have "mail_step\<^sup>*\<^sup>* mail_init (mail_drop 0 ?m1)" by simp
  moreover have "snd (mail_get ''shutdown'' mail_init) = Some 0"
    "ml_pending (mail_drop 0 ?m1) = 1" "snd (mail_get ''shutdown'' (mail_drop 0 ?m1)) = None"
    by (simp_all add: mail_get_def mail_init_def mail_drop_def)
  ultimately show ?thesis by blast
qed

end
