(* ===== verification/Task_Pool.thy ===== *)
theory Task_Pool
  imports Prelude "HOL-Library.Multiset"
begin

text \<open>
  The task queue of \<open>src/task_pool.h\<close> and the worker threads of \<open>src/thread_pool.h\<close>. A task
  is named by a number, its address; \<open>None\<close> is the null pointer a moved-from task leaves. Times
  are ticks of the steady clock.
\<close>

section \<open>TaskPool\<close>

type_synonym timer = "int \<times> nat option"

record task_pool =
  tp_tasks :: "nat option list"
  tp_timer_tasks :: "timer list"

definition tp_init :: task_pool where
  "tp_init = \<lparr>tp_tasks = [], tp_timer_tasks = []\<rparr>"

definition tp_push :: "nat \<Rightarrow> task_pool \<Rightarrow> task_pool" where
  "tp_push task p = p\<lparr>tp_tasks := tp_tasks p @ [Some task]\<rparr>"

text \<open>Before the first element with a smaller time: the last element is the next one due.\<close>

fun insert_timer :: "timer \<Rightarrow> timer list \<Rightarrow> timer list" where
  "insert_timer task [] = [task]"
| "insert_timer task (t # ts) = (if fst t < fst task then task # t # ts else t # insert_timer task ts)"

definition tp_push_delayed :: "timer \<Rightarrow> task_pool \<Rightarrow> task_pool" where
  "tp_push_delayed task p = p\<lparr>tp_timer_tasks := insert_timer task (tp_timer_tasks p)\<rparr>"

text \<open>
  \<open>delay\<close> moves the element at \<open>it\<close> toward the front: the loop goes down to the beginning and
  swaps each pair that is out of order. \<open>bubble k ts\<close> is the loop from position \<open>k\<close>.
\<close>

fun bubble :: "nat \<Rightarrow> timer list \<Rightarrow> timer list" where
  "bubble 0 ts = ts"
| "bubble (Suc k) ts =
     bubble k (if fst (ts ! Suc k) > fst (ts ! k) then ts[Suc k := ts ! k, k := ts ! Suc k] else ts)"

fun find_timer :: "nat \<Rightarrow> timer list \<Rightarrow> nat option" where
  "find_timer task [] = None"
| "find_timer task (t # ts) = (if snd t = Some task then Some 0 else map_option Suc (find_timer task ts))"

definition tp_delay :: "nat \<Rightarrow> int \<Rightarrow> task_pool \<Rightarrow> task_pool" where
  "tp_delay task_id time p =
     (case find_timer task_id (tp_timer_tasks p) of
        None \<Rightarrow> p
      | Some i \<Rightarrow> p\<lparr>tp_timer_tasks :=
          bubble i ((tp_timer_tasks p)[i := (time, snd (tp_timer_tasks p ! i))])\<rparr>)"

definition tp_cancel :: "nat \<Rightarrow> task_pool \<Rightarrow> task_pool \<times> bool" where
  "tp_cancel task_id p =
     (case find_timer task_id (tp_timer_tasks p) of
        None \<Rightarrow> (p, False)
      | Some i \<Rightarrow> (p\<lparr>tp_timer_tasks :=
          take i (tp_timer_tasks p) @ drop (Suc i) (tp_timer_tasks p)\<rparr>, True))"

text \<open>\<open>pop(task_id)\<close> moves the pair out and leaves it in the list without its task.\<close>

definition tp_pop_id :: "nat \<Rightarrow> task_pool \<Rightarrow> task_pool \<times> timer option" where
  "tp_pop_id task_id p =
     (case find_timer task_id (tp_timer_tasks p) of
        None \<Rightarrow> (p, None)
      | Some i \<Rightarrow> (p\<lparr>tp_timer_tasks :=
          (tp_timer_tasks p)[i := (fst (tp_timer_tasks p ! i), None)]\<rparr>, Some (tp_timer_tasks p ! i)))"

definition tp_pop :: "int \<Rightarrow> task_pool \<Rightarrow> task_pool \<times> nat option option" where
  "tp_pop now p =
     (if tp_tasks p \<noteq> [] then (p\<lparr>tp_tasks := tl (tp_tasks p)\<rparr>, Some (hd (tp_tasks p)))
      else if tp_timer_tasks p \<noteq> [] \<and> fst (last (tp_timer_tasks p)) \<le> now then
        (p\<lparr>tp_timer_tasks := butlast (tp_timer_tasks p)\<rparr>, Some (snd (last (tp_timer_tasks p))))
      else (p, None))"

definition tp_ready :: "int \<Rightarrow> task_pool \<Rightarrow> bool" where
  "tp_ready now p \<longleftrightarrow> tp_tasks p \<noteq> [] \<or>
     (tp_timer_tasks p \<noteq> [] \<and> fst (last (tp_timer_tasks p)) \<le> now)"

definition tp_next :: "task_pool \<Rightarrow> int option" where
  "tp_next p = (if tp_timer_tasks p = [] then None else Some (fst (last (tp_timer_tasks p))))"

section \<open>The timers are ordered\<close>

definition ordered :: "timer list \<Rightarrow> bool" where
  [inv_defs]: "ordered ts \<longleftrightarrow> sorted_wrt (\<lambda>a b. fst b \<le> fst a) ts"

lemma ordered_iff: "ordered ts \<longleftrightarrow> (\<forall>j<length ts. \<forall>i<j. fst (ts ! j) \<le> fst (ts ! i))"
  by (auto simp: ordered_def sorted_wrt_iff_nth_less)

lemma insert_timer_mset [simp]: "mset (insert_timer t ts) = add_mset t (mset ts)"
  by (induction ts) auto

lemma insert_timer_set [simp]: "set (insert_timer t ts) = insert t (set ts)"
  by (induction ts) auto

lemma insert_timer_ordered: "ordered ts \<Longrightarrow> ordered (insert_timer t ts)"
  by (induction ts) (fastforce simp: ordered_def)+

lemma find_timer_Some:
  "find_timer k ts = Some i \<Longrightarrow> i < length ts \<and> snd (ts ! i) = Some k"
  by (induction ts arbitrary: i) (auto split: if_splits)

lemma bubble_length [simp]: "length (bubble k ts) = length ts"
  by (induction k arbitrary: ts) auto

lemma bubble_mset: "k < length ts \<Longrightarrow> mset (bubble k ts) = mset ts"
  by (induction k arbitrary: ts) (auto simp: mset_swap)

lemma ordered_last: "ordered ts \<Longrightarrow> t \<in> set ts \<Longrightarrow> fst (last ts) \<le> fst t"
  by (induction ts rule: rev_induct) (auto simp: ordered_def sorted_wrt_append)

lemma ordered_butlast: "ordered ts \<Longrightarrow> ordered (butlast ts)"
  by (induction ts rule: rev_induct) (auto simp: ordered_def sorted_wrt_append)

text \<open>
  The state in which the loop of \<open>delay\<close> runs: everything is in order but the element at \<open>k\<close>,
  which may be too large for the elements before it but not too small for those after it.
\<close>

definition almost_ordered :: "nat \<Rightarrow> timer list \<Rightarrow> bool" where
  "almost_ordered k ts \<longleftrightarrow>
     (\<forall>j<length ts. \<forall>i<j. j \<noteq> k \<longrightarrow> fst (ts ! j) \<le> fst (ts ! i))"

lemma bubble_ordered:
  assumes "k < length ts" "almost_ordered k ts"
  shows "ordered (bubble k ts)"
  using assms
proof (induction k arbitrary: ts)
  case 0
  then show ?case by (auto simp: almost_ordered_def ordered_iff)
next
  case (Suc k)
  let ?ts = "if fst (ts ! Suc k) > fst (ts ! k) then ts[Suc k := ts ! k, k := ts ! Suc k] else ts"
  have "almost_ordered k ?ts"
  proof (cases "fst (ts ! Suc k) > fst (ts ! k)")
    case True
    then show ?thesis using Suc.prems unfolding almost_ordered_def
      by (auto simp: nth_list_update; force)
  next
    case False
    have "fst (ts ! Suc k) \<le> fst (ts ! i)" if "i < Suc k" for i
    proof (cases "i = k")
      case False
      then have "fst (ts ! k) \<le> fst (ts ! i)"
        using Suc.prems that by (auto simp: almost_ordered_def)
      then show ?thesis using \<open>\<not> fst (ts ! Suc k) > fst (ts ! k)\<close> by simp
    qed (use False in simp)
    then show ?thesis using Suc.prems False by (auto simp: almost_ordered_def)
  qed
  then show ?case using Suc by simp
qed

lemma almost_ordered_update:
  assumes "ordered ts" "i < length ts" "fst (ts ! i) \<le> time"
  shows "almost_ordered i (ts[i := (time, x)])"
  unfolding almost_ordered_def
proof (intro allI impI)
  fix j k assume a: "j < length (ts[i := (time, x)])" "k < j" "j \<noteq> i"
  then have "fst (ts ! j) \<le> fst (ts ! k)" using assms(1) by (auto simp: ordered_iff)
  then show "fst (ts[i := (time, x)] ! j) \<le> fst (ts[i := (time, x)] ! k)"
    using a assms(2,3) by (cases "k = i") auto
qed

lemma find_timer_update_mset:
  assumes "i < length ts"
  shows "mset (ts[i := x]) = add_mset x (mset (take i ts @ drop (Suc i) ts))"
    "mset ts = add_mset (ts ! i) (mset (take i ts @ drop (Suc i) ts))"
  using assms
  by (simp_all add: upd_conv_take_nth_drop) (metis id_take_nth_drop mset.simps(2) mset_append union_mset_add_mset_right)

section \<open>TaskPool against a priority queue\<close>

text \<open>
  The specification: a queue of tasks and a bag of timers. A pop takes the first queued task,
  else some timer whose time is the least and has come.
\<close>

definition pool_abs :: "task_pool \<Rightarrow> nat option list \<times> timer multiset" where
  "pool_abs p = (tp_tasks p, mset (tp_timer_tasks p))"

definition spec_pop :: "int \<Rightarrow> nat option list \<times> timer multiset \<Rightarrow>
    (nat option list \<times> timer multiset) \<Rightarrow> nat option option \<Rightarrow> bool" where
  "spec_pop now a b r \<longleftrightarrow>
     (case a of
        (task # tasks, timers) \<Rightarrow> b = (tasks, timers) \<and> r = Some task
      | ([], timers) \<Rightarrow>
          (\<exists>t. t \<in># timers \<and> (\<forall>u. u \<in># timers \<longrightarrow> fst t \<le> fst u) \<and> fst t \<le> now \<and>
             b = ([], timers - {#t#}) \<and> r = Some (snd t)) \<or>
          (\<forall>t. t \<in># timers \<longrightarrow> now < fst t) \<and> b = ([], timers) \<and> r = None)"

definition tp_inv :: "task_pool \<Rightarrow> bool" where
  [inv_defs]: "tp_inv p \<longleftrightarrow> ordered (tp_timer_tasks p)"

text \<open>
  C39: \<open>pop\<close> implements a priority queue: on ordered timers it takes the first pushed task, else
  a timer that is due and no later than any other, and returns nothing exactly when no task is
  queued and no timer is due; what it leaves is ordered again.
\<close>
theorem pop_refines_spec:
  assumes "tp_inv p" "tp_pop now p = (p', r)"
  shows "spec_pop now (pool_abs p) (pool_abs p') r \<and> tp_inv p'"
proof (cases "tp_tasks p")
  case Nil
  show ?thesis
  proof (cases "tp_timer_tasks p" rule: rev_cases)
    case Nil
    then show ?thesis using assms \<open>tp_tasks p = []\<close> by (auto simp: tp_pop_def spec_pop_def pool_abs_def)
  next
    case (snoc ts t)
    have le: "fst t \<le> fst u" if "u \<in> set (ts @ [t])" for u
      using ordered_last [of "ts @ [t]" u] assms(1) that by (simp add: tp_inv_def snoc)
    have le': "\<forall>u\<in>set ts. fst t \<le> fst u" using le by simp
    show ?thesis
    proof (cases "fst t \<le> now")
      case True
      then have "p' = p\<lparr>tp_timer_tasks := ts\<rparr>" "r = Some (snd t)"
        using assms(2) Nil snoc by (auto simp: tp_pop_def)
      then show ?thesis
        using assms(1) Nil snoc le' True ordered_butlast [of "ts @ [t]"]
        by (auto simp: spec_pop_def pool_abs_def tp_inv_def intro!: disjI1 exI [of _ "fst t"] exI [of _ "snd t"])
    next
      case False
      then have "p' = p" "r = None" using assms(2) Nil snoc by (auto simp: tp_pop_def)
      then show ?thesis
        using assms(1) Nil snoc le False by (force simp: spec_pop_def pool_abs_def)
    qed
  qed
next
  case (Cons task tasks)
  then show ?thesis using assms by (auto simp: tp_pop_def spec_pop_def pool_abs_def tp_inv_def)
qed

theorem pop_refines_spec_witness:
  "spec_pop 5 (pool_abs \<lparr>tp_tasks = [], tp_timer_tasks = [(9, Some 1), (4, Some 2)]\<rparr>)
     (pool_abs \<lparr>tp_tasks = [], tp_timer_tasks = [(9, Some 1)]\<rparr>) (Some (Some 2))"
  by (rule pop_refines_spec [THEN conjunct1]) (simp_all add: tp_inv_def ordered_def tp_pop_def)

text \<open>
  The other operations keep the timers in order and act on the bag of timers as their names
  say: \<open>pushDelayed\<close> adds one, \<open>cancel\<close> removes one with the given id if there is one, and \<open>delay\<close>
  to a time that is not before the old one changes the time of one.
\<close>
theorem pool_operations_ordered:
  assumes "tp_inv p"
  shows "tp_inv (tp_push_delayed t p) \<and>
    pool_abs (tp_push_delayed t p) = (tp_tasks p, add_mset t (mset (tp_timer_tasks p))) \<and>
    tp_inv (fst (tp_cancel k p)) \<and>
    (find_timer k (tp_timer_tasks p) = Some i \<longrightarrow> fst (tp_timer_tasks p ! i) \<le> time \<longrightarrow>
       tp_inv (tp_delay k time p) \<and>
       add_mset (tp_timer_tasks p ! i) (mset (tp_timer_tasks (tp_delay k time p))) =
         add_mset (time, Some k) (mset (tp_timer_tasks p)))"
proof (intro conjI impI)
  show "tp_inv (tp_push_delayed t p)"
    "pool_abs (tp_push_delayed t p) = (tp_tasks p, add_mset t (mset (tp_timer_tasks p)))"
    using assms insert_timer_ordered by (auto simp: tp_inv_def tp_push_delayed_def pool_abs_def)
  show "tp_inv (fst (tp_cancel k p))"
  proof (cases "find_timer k (tp_timer_tasks p)")
    case (Some n)
    have "ordered (take n (tp_timer_tasks p) @ tp_timer_tasks p ! n # drop (Suc n) (tp_timer_tasks p))"
      using assms find_timer_Some [OF Some] by (simp add: tp_inv_def id_take_nth_drop [symmetric])
    then show ?thesis
      using Some by (auto simp: tp_inv_def tp_cancel_def ordered_def sorted_wrt_append)
  qed (use assms in \<open>simp add: tp_cancel_def\<close>)
  assume f: "find_timer k (tp_timer_tasks p) = Some i" and le: "fst (tp_timer_tasks p ! i) \<le> time"
  have i: "i < length (tp_timer_tasks p)" "snd (tp_timer_tasks p ! i) = Some k"
    using find_timer_Some [OF f] by auto
  show "tp_inv (tp_delay k time p)"
    using bubble_ordered [OF _ almost_ordered_update [OF _ i(1) le]] assms i f
    by (simp add: tp_inv_def tp_delay_def)
  show "add_mset (tp_timer_tasks p ! i) (mset (tp_timer_tasks (tp_delay k time p))) =
      add_mset (time, Some k) (mset (tp_timer_tasks p))"
    using find_timer_update_mset [OF i(1)] i f by (simp add: tp_delay_def bubble_mset)
qed

theorem pool_operations_ordered_witness:
  "tp_inv (tp_delay 2 12 \<lparr>tp_tasks = [], tp_timer_tasks = [(9, Some 1), (4, Some 2)]\<rparr>) \<and>
   tp_timer_tasks (tp_delay 2 12 \<lparr>tp_tasks = [], tp_timer_tasks = [(9, Some 1), (4, Some 2)]\<rparr>) =
     [(12, Some 2), (9, Some 1)]"
  using pool_operations_ordered [of "\<lparr>tp_tasks = [], tp_timer_tasks = [(9, Some 1), (4, Some 2)]\<rparr>" "(0, None)" 2 1 12]
  by (simp add: tp_inv_def ordered_def tp_delay_def One_nat_def)

definition late_pool :: task_pool where
  "late_pool = tp_push_delayed (40, Some 2) (tp_push_delayed (30, Some 1) (tp_push_delayed (90, Some 3) tp_init))"

text \<open>
  \<open>delay\<close> to an earlier time loses the order: the element is not moved toward the end, so
  with timers at 30, 40 and 90, moving the last of them to 10 leaves a due task that \<open>pop\<close>
  does not return at time 20.
\<close>
theorem delay_earlier_is_late:
  "tp_inv late_pool \<and>
   (10, Some 3) \<in> set (tp_timer_tasks (tp_delay 3 10 late_pool)) \<and>
   snd (tp_pop 20 (tp_delay 3 10 late_pool)) = None \<and>
   \<not> spec_pop 20 (pool_abs (tp_delay 3 10 late_pool)) (pool_abs (tp_delay 3 10 late_pool)) None"
  by (auto simp: late_pool_def tp_push_delayed_def tp_init_def tp_delay_def tp_pop_def tp_inv_def
      ordered_def spec_pop_def pool_abs_def intro!: exI [of _ 10])

text \<open>
  \<open>pop(task_id)\<close> does not take the timer out of the list: the list keeps its length and an
  entry with a null task, which \<open>pop\<close> hands to a worker once its time has come.
\<close>
theorem pop_id_leaves_null:
  assumes "tp_tasks p = []" "tp_timer_tasks p = [(time, Some k)]" "time \<le> now"
  shows "snd (tp_pop_id k p) = Some (time, Some k) \<and> snd (tp_pop now (fst (tp_pop_id k p))) = Some None"
  using assms by (simp add: tp_pop_id_def tp_pop_def)

theorem pop_id_leaves_null_witness:
  "snd (tp_pop 6 (fst (tp_pop_id 8 (tp_push_delayed (5, Some 8) tp_init)))) = Some None"
  using pop_id_leaves_null [of "tp_push_delayed (5, Some 8) tp_init" 5 8 6]
  by (simp add: tp_push_delayed_def tp_init_def)

section \<open>ThreadPool\<close>

text \<open>
  \<open>_main\<close> of a worker, cut where another thread can run between: testing \<open>_continue\<close> and
  popping, running a task, deciding under \<open>_lock\<close> whether to wait (with the deadline of the
  wait), and after the loop the tasks that remain. A thread that is not a worker is \<open>W_Done\<close>.
\<close>

datatype worker =
  W_Top | W_Run "nat option" | W_Else | W_Asleep "int option" | W_Notified
| W_Drain | W_Drain_Run "nat option" | W_Done

text \<open>
  Ghost fields: what was pushed, what was run, and whether something was pushed after \<open>stop\<close>.
\<close>

record thread_pool =
  th_pool :: task_pool
  th_continue :: bool
  th_worker :: "nat \<Rightarrow> worker"
  th_now :: int
  th_pushed :: "nat option multiset"
  th_run :: "nat option multiset"
  th_late :: bool

definition th_init :: "int \<Rightarrow> nat \<Rightarrow> thread_pool" where
  "th_init now threads = \<lparr>th_pool = tp_init, th_continue = True,
     th_worker = (\<lambda>t. if t < threads then W_Top else W_Done), th_now = now,
     th_pushed = {#}, th_run = {#}, th_late = False\<rparr>"

definition notify_all :: "(nat \<Rightarrow> worker) \<Rightarrow> nat \<Rightarrow> worker" where
  "notify_all w t = (case w t of W_Asleep _ \<Rightarrow> W_Notified | x \<Rightarrow> x)"

inductive th_step :: "thread_pool \<Rightarrow> thread_pool \<Rightarrow> bool" where
  top_stopped: "th_worker P t = W_Top \<Longrightarrow> \<not> th_continue P \<Longrightarrow>
    th_step P (P\<lparr>th_worker := (th_worker P)(t := W_Drain)\<rparr>)"
| top_task: "th_worker P t = W_Top \<Longrightarrow> th_continue P \<Longrightarrow>
    tp_pop (th_now P) (th_pool P) = (p, Some task) \<Longrightarrow>
    th_step P (P\<lparr>th_pool := p, th_worker := (th_worker P)(t := W_Run task),
                 th_run := add_mset task (th_run P)\<rparr>)"
| top_none: "th_worker P t = W_Top \<Longrightarrow> th_continue P \<Longrightarrow>
    tp_pop (th_now P) (th_pool P) = (p, None) \<Longrightarrow>
    th_step P (P\<lparr>th_pool := p, th_worker := (th_worker P)(t := W_Else)\<rparr>)"
| ran: "th_worker P t = W_Run task \<Longrightarrow> th_step P (P\<lparr>th_worker := (th_worker P)(t := W_Top)\<rparr>)"
| else_ready: "th_worker P t = W_Else \<Longrightarrow> tp_ready (th_now P) (th_pool P) \<Longrightarrow>
    th_step P (P\<lparr>th_worker := (th_worker P)(t := W_Top)\<rparr>)"
| else_stopped: "th_worker P t = W_Else \<Longrightarrow> \<not> tp_ready (th_now P) (th_pool P) \<Longrightarrow>
    \<not> th_continue P \<Longrightarrow> th_step P (P\<lparr>th_worker := (th_worker P)(t := W_Drain)\<rparr>)"
| else_wait: "th_worker P t = W_Else \<Longrightarrow> \<not> tp_ready (th_now P) (th_pool P) \<Longrightarrow>
    th_continue P \<Longrightarrow>
    th_step P (P\<lparr>th_worker := (th_worker P)(t := W_Asleep (tp_next (th_pool P)))\<rparr>)"
| wake: "th_worker P t = W_Asleep d \<or> th_worker P t = W_Notified \<Longrightarrow>
    th_step P (P\<lparr>th_worker := (th_worker P)(t := W_Top)\<rparr>)"
| drain_task: "th_worker P t = W_Drain \<Longrightarrow> tp_pop (th_now P) (th_pool P) = (p, Some task) \<Longrightarrow>
    th_step P (P\<lparr>th_pool := p, th_worker := (th_worker P)(t := W_Drain_Run task),
                 th_run := add_mset task (th_run P)\<rparr>)"
| drain_ran: "th_worker P t = W_Drain_Run task \<Longrightarrow>
    th_step P (P\<lparr>th_worker := (th_worker P)(t := W_Drain)\<rparr>)"
| drained: "th_worker P t = W_Drain \<Longrightarrow> tp_pop (th_now P) (th_pool P) = (p, None) \<Longrightarrow>
    th_step P (P\<lparr>th_pool := p, th_worker := (th_worker P)(t := W_Done)\<rparr>)"
| push_one: "th_worker P t = W_Asleep d \<Longrightarrow>
    th_step P (P\<lparr>th_pool := tp_push task (th_pool P), th_worker := (th_worker P)(t := W_Notified),
                 th_pushed := add_mset (Some task) (th_pushed P), th_late := (th_late P \<or> \<not> th_continue P)\<rparr>)"
| push_none: "(\<forall>t d. th_worker P t \<noteq> W_Asleep d) \<Longrightarrow>
    th_step P (P\<lparr>th_pool := tp_push task (th_pool P),
                 th_pushed := add_mset (Some task) (th_pushed P), th_late := (th_late P \<or> \<not> th_continue P)\<rparr>)"
| push_delayed: "th_step P (P\<lparr>th_pool := tp_push_delayed (time, Some task) (th_pool P),
                 th_worker := notify_all (th_worker P), th_pushed := add_mset (Some task) (th_pushed P)\<rparr>)"
| stop: "th_step P (P\<lparr>th_continue := False, th_worker := notify_all (th_worker P)\<rparr>)"
| tick: "th_step P (P\<lparr>th_now := th_now P + 1\<rparr>)"

definition th_waiting :: "thread_pool \<Rightarrow> nat option multiset" where
  "th_waiting P = mset (tp_tasks (th_pool P)) + image_mset snd (mset (tp_timer_tasks (th_pool P)))"

text \<open>A worker that will look for a task again without being notified.\<close>

definition awake :: "worker \<Rightarrow> bool" where
  "awake w \<longleftrightarrow> (case w of W_Asleep _ \<Rightarrow> False | W_Done \<Rightarrow> False | _ \<Rightarrow> True)"

definition some_awake :: "(nat \<Rightarrow> worker) \<Rightarrow> bool" where
  "some_awake w \<longleftrightarrow> (\<exists>t. awake (w t))"

definition th_inv :: "thread_pool \<Rightarrow> bool" where
  [inv_defs]: "th_inv P \<longleftrightarrow>
     tp_inv (th_pool P) \<and>
     th_pushed P = th_run P + th_waiting P \<and>
     (\<not> th_continue P \<longrightarrow> (\<forall>t d. th_worker P t \<noteq> W_Asleep d)) \<and>
     (tp_tasks (th_pool P) \<noteq> [] \<longrightarrow> (\<exists>t d. th_worker P t = W_Asleep d) \<longrightarrow> some_awake (th_worker P)) \<and>
     (\<forall>t d. th_worker P t = W_Asleep d \<longrightarrow> tp_timer_tasks (th_pool P) \<noteq> [] \<longrightarrow>
        (\<exists>x. d = Some x \<and> x \<le> fst (last (tp_timer_tasks (th_pool P)))))"

lemma tp_pop_waiting:
  assumes "tp_pop now p = (p', r)"
  shows "mset (tp_tasks p) + image_mset snd (mset (tp_timer_tasks p)) =
    (case r of None \<Rightarrow> {#} | Some task \<Rightarrow> {#task#}) +
    (mset (tp_tasks p') + image_mset snd (mset (tp_timer_tasks p')))"
proof (cases "tp_tasks p = []")
  case True
  show ?thesis
  proof (cases "tp_timer_tasks p" rule: rev_cases)
    case (snoc ts t)
    then show ?thesis using assms True by (auto simp: tp_pop_def split: if_splits)
  qed (use assms True in \<open>auto simp: tp_pop_def\<close>)
next
  case False
  then show ?thesis using assms by (cases "tp_tasks p") (auto simp: tp_pop_def)
qed

lemma tp_pop_None: "tp_pop now p = (p', None) \<Longrightarrow> p' = p \<and> tp_tasks p = []"
  by (auto simp: tp_pop_def split: if_splits)

lemma tp_pop_inv: "tp_inv p \<Longrightarrow> tp_pop now p = (p', r) \<Longrightarrow> tp_inv p'"
  by (auto simp: tp_pop_def tp_inv_def ordered_butlast split: if_splits)

lemma tp_pop_last:
  assumes "tp_inv p" "tp_pop now p = (p', r)" "tp_timer_tasks p' \<noteq> []"
  shows "tp_timer_tasks p \<noteq> [] \<and> fst (last (tp_timer_tasks p)) \<le> fst (last (tp_timer_tasks p'))"
proof -
  have "set (tp_timer_tasks p') \<subseteq> set (tp_timer_tasks p)"
    using assms(2) by (auto simp: tp_pop_def split: if_splits dest: in_set_butlastD)
  moreover have "last (tp_timer_tasks p') \<in> set (tp_timer_tasks p')" using assms(3) by simp
  ultimately have l: "last (tp_timer_tasks p') \<in> set (tp_timer_tasks p)" by blast
  then show ?thesis using ordered_last assms(1) by (auto simp: tp_inv_def)
qed

lemma notify_all_asleep [simp]: "notify_all w t \<noteq> W_Asleep d"
  by (simp add: notify_all_def split: worker.splits)

lemma some_awake_simps [simp]: "awake x \<Longrightarrow> some_awake (w(t := x))"
  by (auto simp: some_awake_def)

lemma some_awake_update:
  "some_awake w \<Longrightarrow> (awake (w t) \<Longrightarrow> awake x) \<Longrightarrow> some_awake (w(t := x))"
  unfolding some_awake_def by (metis fun_upd_apply)

text \<open>A worker moves between two awake places and the pool stays.\<close>

lemma th_inv_move:
  assumes "th_inv P" "w \<notin> range W_Asleep" "awake (th_worker P t) \<Longrightarrow> awake w"
  shows "th_inv (P\<lparr>th_worker := (th_worker P)(t := w)\<rparr>)"
proof -
  have "some_awake ((th_worker P)(t := w))" if "some_awake (th_worker P)"
    using that assms(3) by (rule some_awake_update)
  then show ?thesis
    using assms by (auto simp: th_inv_def th_waiting_def split: if_splits)
qed

lemma th_inv_pop:
  assumes "th_inv P" "tp_pop (th_now P) (th_pool P) = (p, Some task)" "awake w"
  shows "th_inv (P\<lparr>th_pool := p, th_worker := (th_worker P)(t := w), th_run := add_mset task (th_run P)\<rparr>)"
proof -
  have inv: "tp_inv p" using assms tp_pop_inv by (auto simp: th_inv_def)
  have bag: "th_waiting P = {#task#} + (mset (tp_tasks p) + image_mset snd (mset (tp_timer_tasks p)))"
    using tp_pop_waiting [OF assms(2)] by (simp add: th_waiting_def)
  have nd: "w \<noteq> W_Asleep d" for d using assms(3) by (auto simp: awake_def)
  have dead: "\<exists>x. d = Some x \<and> x \<le> fst (last (tp_timer_tasks p))"
    if "th_worker P u = W_Asleep d" "tp_timer_tasks p \<noteq> []" for u d
    using that tp_pop_last [OF _ assms(2) that(2)] assms(1) by (fastforce simp: th_inv_def)
  show ?thesis
    using assms(1) inv bag assms(3) nd dead
    by (auto simp: th_inv_def th_waiting_def split: if_splits)
qed

lemma th_inv_step:
  assumes "th_step P P'" "th_inv P"
  shows "th_inv P'"
  using assms
proof (induction rule: th_step.induct)
  case (top_none P t p)
  then show ?case
    using th_inv_move [of P W_Else t] tp_pop_None by (fastforce simp: awake_def)
next
  case (else_wait P t)
  have e: "tp_tasks (th_pool P) = []" using else_wait by (simp add: tp_ready_def)
  show ?case
    using else_wait e by (auto simp: th_inv_def th_waiting_def tp_next_def)
next
  case (drained P t p)
  have p: "p = th_pool P" "tp_tasks (th_pool P) = []" using tp_pop_None drained(2) by blast+
  show ?case using drained p by (auto simp: th_inv_def th_waiting_def split: if_splits)
next
  case (push_one P t d task)
  have "awake W_Notified" by (simp add: awake_def)
  then show ?case
    using push_one
    by (auto simp: th_inv_def th_waiting_def tp_push_def tp_inv_def split: if_splits)
next
  case (push_none P task)
  then show ?case by (auto simp: th_inv_def th_waiting_def tp_push_def tp_inv_def)
next
  case (push_delayed P time task)
  then show ?case
    by (auto simp: th_inv_def th_waiting_def tp_push_delayed_def tp_inv_def insert_timer_ordered)
next
  case (stop P)
  then show ?case by (auto simp: th_inv_def th_waiting_def)
next
  case (tick P)
  then show ?case by (auto simp: th_inv_def th_waiting_def)
next
  case (top_task P t p task)
  then show ?case using th_inv_pop by (simp add: awake_def)
next
  case (drain_task P t p task)
  then show ?case using th_inv_pop by (simp add: awake_def)
qed (rule th_inv_move; auto simp: awake_def)+

lemma th_inv_reachable:
  assumes "th_step\<^sup>*\<^sup>* (th_init now threads) P"
  shows "th_inv P"
  using assms
proof (induction rule: rtranclp_induct)
  case base
  show ?case by (auto simp: th_inv_def th_init_def tp_init_def th_waiting_def tp_inv_def ordered_def)
qed (use th_inv_step in blast)


text \<open>
  Every task runs once: what was pushed is, as a bag, what was run and what still waits.
\<close>
theorem each_task_once:
  assumes "th_step\<^sup>*\<^sup>* (th_init now threads) P"
  shows "th_pushed P = th_run P + mset (tp_tasks (th_pool P)) +
    image_mset snd (mset (tp_timer_tasks (th_pool P)))"
  using th_inv_reachable [OF assms] by (simp add: th_inv_def th_waiting_def ac_simps)

lemma init_reaches:
  "th_step\<^sup>*\<^sup>* (th_init 0 1)
    ((th_init 0 1)\<lparr>th_worker := (th_worker (th_init 0 1))(0 := W_Else, 0 := W_Asleep None)\<rparr>)"
proof -
  let ?P = "th_init 0 1"
  let ?Q = "?P\<lparr>th_pool := th_pool ?P, th_worker := (th_worker ?P)(0 := W_Else)\<rparr>"
  have 1: "th_step ?P ?Q"
    by (rule th_step.top_none) (simp_all add: th_init_def tp_pop_def tp_init_def)
  have "th_step ?Q (?Q\<lparr>th_worker := (th_worker ?Q)(0 := W_Asleep (tp_next (th_pool ?Q)))\<rparr>)"
    by (rule th_step.else_wait) (simp_all add: th_init_def tp_ready_def tp_init_def)
  then have 2: "th_step ?Q (?P\<lparr>th_worker := (th_worker ?P)(0 := W_Else, 0 := W_Asleep None)\<rparr>)"
    by (simp add: th_init_def tp_next_def tp_init_def)
  show ?thesis by (rule two_steps [of th_step, OF 1 2])
qed


theorem each_task_once_witness:
  "\<exists>P. th_step\<^sup>*\<^sup>* (th_init 0 1) P \<and> th_pushed P = {#Some 5#} \<and>
     {#Some 5#} = th_run P + mset (tp_tasks (th_pool P)) + image_mset snd (mset (tp_timer_tasks (th_pool P)))"
proof -
  let ?P = "th_init 0 1"
  let ?Q = "?P\<lparr>th_pool := tp_push 5 (th_pool ?P),
     th_pushed := add_mset (Some 5) (th_pushed ?P), th_late := (th_late ?P \<or> \<not> th_continue ?P)\<rparr>"
  have "th_step ?P ?Q" by (rule th_step.push_none) (simp add: th_init_def)
  then have r: "th_step\<^sup>*\<^sup>* ?P ?Q" by (rule r_into_rtranclp)
  from each_task_once [OF r] r show ?thesis
    by (intro exI [of _ ?Q]) (simp add: th_init_def)
qed

definition drain_inv :: "nat \<Rightarrow> thread_pool \<Rightarrow> bool" where
  [inv_defs]: "drain_inv n P \<longleftrightarrow>
     (\<forall>t. th_worker P t \<in> insert W_Drain (range W_Drain_Run) \<longrightarrow> \<not> th_continue P) \<and>
     (\<forall>t<n. th_worker P t = W_Done \<longrightarrow>
        \<not> th_continue P \<and> (th_late P \<or> tp_tasks (th_pool P) = []))"

lemma notify_all_same: "x \<notin> range W_Asleep \<Longrightarrow> x \<noteq> W_Notified \<Longrightarrow> notify_all w t = x \<longleftrightarrow> w t = x"
  by (auto simp: notify_all_def split: worker.splits)

lemma drain_inv_step:
  assumes "th_step P P'" "drain_inv n P"
  shows "drain_inv n P'"
  using assms
proof (induction rule: th_step.induct)
  case (push_delayed P time task)
  then show ?case
    by (auto simp: drain_inv_def tp_push_delayed_def notify_all_same image_iff)
next
  case (stop P)
  then show ?case by (auto simp: drain_inv_def notify_all_same image_iff)
next
  case (top_task P t p task)
  then show ?case by (auto simp: drain_inv_def)
next
  case (drain_task P t p task)
  then show ?case by (auto simp: drain_inv_def tp_pop_def split: if_splits)
next
  case (drained P t p)
  then show ?case using tp_pop_None [OF drained(2)] by (auto simp: drain_inv_def split: if_splits)
next
  case (top_none P t p)
  then show ?case using tp_pop_None [OF top_none(3)] by (auto simp: drain_inv_def split: if_splits)
qed (auto simp: drain_inv_def tp_push_def split: if_splits)

text \<open>
  C40: A stopped pool drains: once some worker has ended, the pool was stopped, and unless a task
  was pushed after the stop no queued task is left behind.
\<close>
theorem drained_at_end:
  assumes "th_step\<^sup>*\<^sup>* (th_init now threads) P" "t < threads" "th_worker P t = W_Done"
  shows "\<not> th_continue P \<and> (th_late P \<or> tp_tasks (th_pool P) = [])"
proof -
  have "drain_inv threads P"
    using assms(1)
  proof (induction rule: rtranclp_induct)
    case base
    show ?case by (auto simp: drain_inv_def th_init_def)
  qed (use drain_inv_step in blast)
  then show ?thesis using assms(2,3) by (auto simp: drain_inv_def)
qed

theorem drained_at_end_witness:
  "\<exists>P. th_step\<^sup>*\<^sup>* (th_init 0 1) P \<and> th_worker P 0 = W_Done \<and> \<not> th_continue P \<and>
     (th_late P \<or> tp_tasks (th_pool P) = [])"
proof -
  let ?P = "th_init 0 1"
  let ?Q = "?P\<lparr>th_continue := False, th_worker := notify_all (th_worker ?P)\<rparr>"
  let ?R = "?Q\<lparr>th_worker := (th_worker ?Q)(0 := W_Drain)\<rparr>"
  let ?S = "?R\<lparr>th_pool := th_pool ?R, th_worker := (th_worker ?R)(0 := W_Done)\<rparr>"
  have 1: "th_step ?P ?Q" by (rule th_step.stop)
  have 2: "th_step ?Q ?R"
    by (rule th_step.top_stopped) (simp_all add: th_init_def notify_all_def)
  have 3: "th_step ?R ?S"
    by (rule th_step.drained) (simp_all add: th_init_def tp_pop_def tp_init_def)
  have r: "th_step\<^sup>*\<^sup>* ?P ?S" by (rule three_steps [of th_step, OF 1 2 3])
  have e: "th_worker ?S 0 = W_Done" by simp
  show ?thesis
    by (rule exI [of _ ?S], rule conjI [OF r conjI [OF e drained_at_end [OF r _ e]]]) simp
qed

end
