(* ===== verification/Gcm_Iv.thy ===== *)
theory Gcm_Iv
  imports Utility
begin

unbundle bit_operations_syntax

text \<open>
  Byte order and the AES-GCM initialisation vectors of \<open>src/rtsp.cpp\<close> and \<open>src/stream.cpp\<close>. All
  the streams of a client share one key, so what matters is that no vector is used twice.
\<close>

section \<open>Bytes of a word\<close>

text \<open>The bytes of a word in memory on a little-endian host, and in network order.\<close>

definition le_bytes :: "'a::len word \<Rightarrow> byte list" where
  "le_bytes w = map (\<lambda>i. ucast (drop_bit (8 * i) w)) [0..<LENGTH('a) div 8]"

definition be_bytes :: "'a::len word \<Rightarrow> byte list" where
  "be_bytes w = rev (le_bytes w)"

fun le_word :: "byte list \<Rightarrow> 'a::len word" where
  "le_word [] = 0"
| "le_word (b # bs) = ucast b OR push_bit 8 (le_word bs)"

definition be_word :: "byte list \<Rightarrow> 'a::len word" where
  "be_word bs = le_word (rev bs)"

lemma length_le_bytes [simp]: "length (le_bytes (w :: 'a::len word)) = LENGTH('a) div 8"
  by (simp add: le_bytes_def)

lemma length_be_bytes [simp]: "length (be_bytes (w :: 'a::len word)) = LENGTH('a) div 8"
  by (simp add: be_bytes_def)

lemma bit_le_word:
  "bit (le_word bs :: 'a::len word) n \<longleftrightarrow>
     n < LENGTH('a) \<and> n div 8 < length bs \<and> bit (bs ! (n div 8)) (n mod 8)"
proof (induction bs arbitrary: n)
  case (Cons b bs)
  show ?case
  proof (cases "n < 8")
    case True
    then show ?thesis by (auto simp: bit_simps not_le)
  next
    case False
    then obtain m where "n = m + 8" by (metis add.commute le_Suc_ex not_less)
    then have "n div 8 = Suc ((n - 8) div 8)" "(n - 8) mod 8 = n mod 8" by simp_all
    then show ?thesis using False by (auto simp: bit_simps Cons dest: bit_imp_le_length)
  qed
qed (simp add: bit_simps)

lemma le_word_bytes: "8 dvd LENGTH('a) \<Longrightarrow> le_word (le_bytes w) = (w :: 'a::len word)"
proof (rule bit_word_eqI)
  fix n assume d: "8 dvd LENGTH('a)" and n: "n < LENGTH('a)"
  have "n div 8 < LENGTH('a) div 8" using d n by (auto simp: dvd_def)
  moreover have "8 * (n div 8) + n mod 8 = n" by simp
  ultimately show "bit (le_word (le_bytes w) :: 'a word) n = bit w n"
    using n by (simp add: bit_le_word le_bytes_def bit_simps)
qed

lemma be_word_bytes: "8 dvd LENGTH('a) \<Longrightarrow> be_word (be_bytes w) = (w :: 'a::len word)"
  by (simp add: be_word_def be_bytes_def le_word_bytes)

lemma le_bytes_inject: "8 dvd LENGTH('a) \<Longrightarrow> le_bytes v = le_bytes w \<longleftrightarrow> v = (w :: 'a::len word)"
  by (metis le_word_bytes)

section \<open>Initialisation vectors\<close>

text \<open>
  The 12-byte vector of RTSP and control messages: the 32-bit sequence number in the low bytes,
  the originator (host or client) and the stream in the high bytes.
\<close>

definition message_iv :: "32 word \<Rightarrow> char \<Rightarrow> char \<Rightarrow> byte list" where
  "message_iv seqn originator stream =
     le_bytes seqn @ [0, 0, 0, 0, 0, 0, char_byte originator, char_byte stream]"

definition video_iv :: "64 word \<Rightarrow> byte list" where
  "video_iv counter = le_bytes counter @ [0, 0, 0, char_byte (CHR ''V'')]"

text \<open>The 16-byte vector of the old control encryption: the first byte of the previous vector is
  replaced by the low byte of the sequence number.\<close>

definition legacy_iv :: "byte list \<Rightarrow> 32 word \<Rightarrow> byte list" where
  "legacy_iv iv seqn = (take 16 iv @ replicate (16 - length iv) 0)[0 := ucast seqn]"

datatype gcm_use =
  Rtsp_Client "32 word" | Rtsp_Host "32 word" | Control_Client "32 word" | Control_Host "32 word"
| Video "64 word"

definition use_iv :: "gcm_use \<Rightarrow> byte list" where
  "use_iv u = (case u of
     Rtsp_Client s \<Rightarrow> message_iv s (CHR ''C'') (CHR ''R'')
   | Rtsp_Host s \<Rightarrow> message_iv s (CHR ''H'') (CHR ''R'')
   | Control_Client s \<Rightarrow> message_iv s (CHR ''C'') (CHR ''C'')
   | Control_Host s \<Rightarrow> message_iv s (CHR ''H'') (CHR ''C'')
   | Video c \<Rightarrow> video_iv c)"

lemma message_iv_inject:
  "message_iv s a b = message_iv t c d \<longleftrightarrow>
     s = t \<and> char_byte a = char_byte c \<and> char_byte b = char_byte d"
  by (auto simp: message_iv_def append_eq_append_conv le_bytes_inject)

lemma video_iv_inject: "video_iv c = video_iv d \<longleftrightarrow> c = d"
  by (simp add: video_iv_def append_eq_append_conv le_bytes_inject)

lemma last_message_iv: "last (message_iv s a b) = char_byte b"
  by (simp add: message_iv_def)

lemma last_video_iv: "last (video_iv c) = char_byte (CHR ''V'')"
  by (simp add: video_iv_def)


text \<open>
  The old control encryption repeats its vector: two sequence numbers that agree in their
  low byte give the same one, so a vector comes back every 256 messages.
\<close>
theorem legacy_iv_repeats: "legacy_iv iv (s + 256) = legacy_iv iv s"
proof -
  have "ucast (s + 256) = (ucast (word_of_int (uint s + 256) :: 32 word) :: byte)" by simp
  also have "\<dots> = word_of_int (uint s + 256)" by (rule ucast_down_wi) (simp add: is_down)
  also have "\<dots> = (word_of_int (uint s) :: byte)" by simp
  also have "\<dots> = ucast (word_of_int (uint s) :: 32 word)"
    by (rule ucast_down_wi [symmetric]) (simp add: is_down)
  finally have "ucast (s + 256) = (ucast s :: byte)" by simp
  then show ?thesis by (simp add: legacy_iv_def)
qed

end
