(* ===== verification/Slices.thy ===== *)
theory Slices
  imports Utility
begin

text \<open>
  Buffers cut in slices: what the packet and parsing code does with pointers into a buffer.
\<close>

section \<open>Searching\<close>

text \<open>\<open>std::search\<close>: where the first occurrence begins, \<open>None\<close> for the end iterator.\<close>

fun find_sub :: "'a list \<Rightarrow> 'a list \<Rightarrow> nat option" where
  "find_sub needle [] = (if needle = [] then Some 0 else None)"
| "find_sub needle (x # xs) =
     (if take (length needle) (x # xs) = needle then Some 0 else map_option Suc (find_sub needle xs))"

lemma find_sub_Some:
  "find_sub needle xs = Some i \<Longrightarrow>
     i + length needle \<le> length xs \<and> take (length needle) (drop i xs) = needle"
proof (induction needle xs arbitrary: i rule: find_sub.induct)
  case (2 needle x xs)
  show ?case
  proof (cases "take (length needle) (x # xs) = needle")
    case True
    then have "length needle \<le> length (x # xs)" by (metis length_take min.cobounded1)
    then show ?thesis using 2 True by auto
  qed (use 2 in auto)
qed (auto split: if_splits)

lemma find_sub_bound: "find_sub needle xs = Some i \<Longrightarrow> i + length needle \<le> length xs"
  using find_sub_Some by blast

lemma find_sub_first:
  "find_sub needle xs = r \<Longrightarrow> (case r of None \<Rightarrow> True | Some i \<Rightarrow> j < i) \<Longrightarrow>
     j + length needle \<le> length xs \<Longrightarrow> take (length needle) (drop j xs) \<noteq> needle"
proof (induction needle xs arbitrary: r j rule: find_sub.induct)
  case (2 needle x xs)
  show ?case
  proof (cases j)
    case 0
    then show ?thesis using 2 by (auto split: if_splits)
  next
    case (Suc k)
    then show ?thesis using 2 by (auto split: if_splits option.splits)
  qed
qed (auto split: if_splits)

lemma find_sub_append: "\<exists>i. find_sub needle (pre @ needle @ post) = Some i \<and> i \<le> length pre"
proof (induction pre)
  case Nil
  have "take (length needle) (needle @ post) = needle" by simp
  then show ?case by (cases "needle @ post") (auto simp del: append_take_drop_id)
qed auto

section \<open>Writing\<close>

definition write_at :: "nat \<Rightarrow> 'a list \<Rightarrow> 'a list \<Rightarrow> 'a list" where
  "write_at pos bytes buf = take pos buf @ bytes @ drop (pos + length bytes) buf"

lemma length_write_at [simp]: "pos + length bytes \<le> length buf \<Longrightarrow> length (write_at pos bytes buf) = length buf"
  by (simp add: write_at_def)

lemma write_at_append:
  "write_at (length xs + k) bytes (xs @ ys) = xs @ write_at k bytes ys"
  by (simp add: write_at_def add.assoc)

lemma write_at_twice:
  assumes "k + length a + length b \<le> length buf"
  shows "write_at (k + length a) b (write_at k a buf) = write_at k (a @ b) buf"
proof -
  have "k \<le> length buf" using assms by simp
  then show ?thesis by (simp add: write_at_def ac_simps)
qed

section \<open>Slices\<close>

function chunks :: "nat \<Rightarrow> 'a list \<Rightarrow> 'a list list" where
  "chunks n xs = (if n = 0 \<or> xs = [] then [] else take n xs # chunks n (drop n xs))"
  by pat_completeness auto
termination by (relation "measure (\<lambda>(n, xs). length xs)") auto

declare chunks.simps [simp del]

lemma chunks_Nil [simp]: "chunks n [] = []" "chunks 0 xs = []"
  by (simp_all add: chunks.simps)

lemma chunks_step: "0 < n \<Longrightarrow> xs \<noteq> [] \<Longrightarrow> chunks n xs = take n xs # chunks n (drop n xs)"
  by (subst chunks.simps) simp

lemma chunks_eq_Nil [simp]: "0 < n \<Longrightarrow> chunks n xs = [] \<longleftrightarrow> xs = []"
  by (subst chunks.simps) simp

lemma concat_chunks [simp]: "0 < n \<Longrightarrow> concat (chunks n xs) = xs"
proof (induction n xs rule: chunks.induct)
  case (1 n xs)
  then show ?case by (cases "xs = []") (simp_all add: chunks_step)
qed

lemma chunks_append:
  "0 < n \<Longrightarrow> length xs = k * n \<Longrightarrow> chunks n (xs @ ys) = chunks n xs @ chunks n ys"
proof (induction k arbitrary: xs)
  case (Suc k)
  then have l: "n \<le> length xs" "xs \<noteq> []" by auto
  then have "chunks n (drop n xs @ ys) = chunks n (drop n xs) @ chunks n ys"
    using Suc by (intro Suc.IH) auto
  then show ?case using Suc.prems l by (simp add: chunks_step)
qed simp

lemma chunks_single: "xs \<noteq> [] \<Longrightarrow> length xs \<le> n \<Longrightarrow> chunks n xs = [xs]"
  by (cases xs) (simp_all add: chunks_step)

lemma chunks_concat:
  assumes "\<forall>s\<in>set ss. length s = n" "0 < length t" "length t \<le> n"
  shows "chunks n (concat ss @ t) = ss @ [t]"
  using assms
proof (induction ss)
  case (Cons s ss)
  have "length s = 1 * n" "0 < n" using Cons.prems by auto
  then have "chunks n (s @ concat ss @ t) = chunks n s @ chunks n (concat ss @ t)"
    by (intro chunks_append)
  also have "chunks n s = [s]" using \<open>length s = 1 * n\<close> \<open>0 < n\<close> by (intro chunks_single) auto
  finally show ?case using Cons by simp
qed (auto simp: chunks_single)

lemma length_chunks: "0 < n \<Longrightarrow> length (chunks n xs) = (length xs + (n - 1)) div n"
proof (induction n xs rule: chunks.induct)
  case (1 n xs)
  show ?case
  proof (cases "xs = [] \<or> length xs \<le> n")
    case True
    have "(length xs + (n - 1)) div n = 1" if x: "xs \<noteq> []" and le: "length xs \<le> n"
    proof -
      have "0 < length xs" using x by simp
      then have "1 * n \<le> length xs + (n - 1)" by linarith
      moreover have "length xs + (n - 1) < Suc 1 * n" using le 1(2) by simp
      ultimately show ?thesis by (intro div_nat_eqI) auto
    qed
    then show ?thesis using True 1(2) by (cases "xs = []") (auto simp: chunks_single)
  next
    case False
    then have "length xs + (n - 1) = (length xs - n + (n - 1)) + n" by simp
    then have "(length xs + (n - 1)) div n = Suc ((length xs - n + (n - 1)) div n)"
      using 1(2) by (metis div_add_self2 Suc_eq_plus1 not_gr_zero)
    then show ?thesis using 1 False by (simp add: chunks_step)
  qed
qed

lemma length_chunks_round: "0 < n \<Longrightarrow> length (chunks n xs) = length xs div n + (if length xs mod n \<noteq> 0 then 1 else 0)"
proof -
  assume n: "0 < n"
  define q r where "q = length xs div n" and "r = length xs mod n"
  have l: "length xs = q * n + r" "r < n" using n by (simp_all add: q_def r_def)
  have "(q * n + r + (n - 1)) div n = ((r + (n - 1)) + q * n) div n" by (simp only: ac_simps)
  also have "\<dots> = q + (r + (n - 1)) div n" using n by (simp only: div_mult_self1)
  also have "(r + (n - 1)) div n = (if r \<noteq> 0 then 1 else 0)"
    using l(2) n by (auto intro!: div_nat_eqI)
  finally show ?thesis unfolding length_chunks [OF n] l(1) [symmetric]
    using n by (simp add: q_def r_def)
qed

lemma chunks_lengths:
  "0 < n \<Longrightarrow> s \<in> set (butlast (chunks n xs)) \<Longrightarrow> length s = n"
proof (induction n xs rule: chunks.induct)
  case (1 n xs)
  have "xs \<noteq> []" using 1(2,3) by (cases "xs = []") auto
  show ?case
  proof (cases "length xs \<le> n")
    case True
    then show ?thesis using 1(2,3) \<open>xs \<noteq> []\<close> by (simp add: chunks_single)
  next
    case False
    then have "chunks n (drop n xs) \<noteq> []" using 1(2) by simp
    then have "butlast (chunks n xs) = take n xs # butlast (chunks n (drop n xs))"
      using 1(2) \<open>xs \<noteq> []\<close> by (simp add: chunks_step)
    then consider "s = take n xs" | "s \<in> set (butlast (chunks n (drop n xs)))" using 1(3) by auto
    then show ?thesis using 1(1,2) False \<open>xs \<noteq> []\<close> by cases simp_all
  qed
qed

lemma chunks_last:
  assumes "0 < n" "xs \<noteq> []"
  shows "0 < length (last (chunks n xs)) \<and> length (last (chunks n xs)) \<le> n \<and>
    length (last (chunks n xs)) = (if length xs mod n = 0 then n else length xs mod n)"
  using assms
proof (induction n xs rule: chunks.induct)
  case (1 n xs)
  show ?case
  proof (cases "length xs \<le> n")
    case True
    then show ?thesis using 1(2,3) by (cases "length xs = n") (auto simp: chunks_single)
  next
    case False
    then have "drop n xs \<noteq> []" "(length xs - n) mod n = length xs mod n"
      by (simp_all add: le_mod_geq)
    then show ?thesis using 1(1) 1(2,3) by (simp add: chunks_step)
  qed
qed

lemma chunks_length_le: "0 < n \<Longrightarrow> s \<in> set (chunks n xs) \<Longrightarrow> 0 < length s \<and> length s \<le> n"
proof (induction n xs rule: chunks.induct)
  case (1 n xs)
  then show ?case by (cases "xs = []") (auto simp: chunks_step)
qed

lemma nth_chunks: "0 < n \<Longrightarrow> x < length (chunks n xs) \<Longrightarrow> chunks n xs ! x = take n (drop (x * n) xs)"
proof (induction n xs arbitrary: x rule: chunks.induct)
  case (1 n xs)
  then have "xs \<noteq> []" by auto
  then show ?case using 1 by (cases x) (auto simp: chunks_step add.commute)
qed

end
