(* ===== verification/Rtsp.thy ===== *)
theory Rtsp
  imports Gcm_Iv Slices
begin

unbundle bit_operations_syntax

text \<open>
  Receiving RTSP messages (\<open>socket_t\<close> of \<open>src/rtsp.cpp\<close>) and the header of encrypted ones.
  A handler runs when the read the socket waits for completes; \<open>parse\<close> is the library's
  \<open>parseRtspMessage\<close> and \<open>decrypt\<close> the cipher of the session.
\<close>

section \<open>encrypted_rtsp_header_t\<close>

definition ENCRYPTED_MESSAGE_TYPE_BIT :: "32 word" where
  "ENCRYPTED_MESSAGE_TYPE_BIT = 0x80000000"

text \<open>The fields as they are in memory: big-endian words and the tag.\<close>

record encrypted_rtsp_header =
  typeAndLength :: "byte list"
  sequenceNumber :: "byte list"
  header_tag :: "byte list"

definition payload_length :: "encrypted_rtsp_header \<Rightarrow> 32 word" where
  "payload_length h = be_word (typeAndLength h) AND NOT ENCRYPTED_MESSAGE_TYPE_BIT"

definition is_encrypted :: "encrypted_rtsp_header \<Rightarrow> bool" where
  "is_encrypted h \<longleftrightarrow> be_word (typeAndLength h) AND ENCRYPTED_MESSAGE_TYPE_BIT \<noteq> 0"

definition HEADER_SIZE :: nat where "HEADER_SIZE = 24"

text \<open>The part of \<open>respond\<close> that sends an encrypted message: the next counter, header and IV.\<close>

definition respond_encrypted :: "(byte list \<Rightarrow> byte list \<Rightarrow> byte list \<times> byte list) \<Rightarrow> 32 word \<Rightarrow> byte list \<Rightarrow>
    32 word \<times> encrypted_rtsp_header \<times> byte list" where
  "respond_encrypted encrypt rtsp_iv_counter plaintext =
     (let counter = rtsp_iv_counter + 1;
          iv = message_iv counter (CHR ''H'') (CHR ''R'');
          (cipher_tag, ciphertext) = encrypt iv plaintext
      in (counter,
          \<lparr>typeAndLength = be_bytes (ENCRYPTED_MESSAGE_TYPE_BIT + word_of_nat (length plaintext)),
           sequenceNumber = be_bytes counter, header_tag = cipher_tag\<rparr>, ciphertext))"

lemma type_bit_length:
  assumes "n < 2 ^ 31"
  shows "ENCRYPTED_MESSAGE_TYPE_BIT + word_of_nat n = ENCRYPTED_MESSAGE_TYPE_BIT OR word_of_nat n"
    "(word_of_nat n :: 32 word) AND ENCRYPTED_MESSAGE_TYPE_BIT = 0"
proof -
  have bit: "bit ENCRYPTED_MESSAGE_TYPE_BIT k \<longleftrightarrow> k = 31" for k
  proof -
    have e: "ENCRYPTED_MESSAGE_TYPE_BIT = 2 ^ 31" by (simp add: ENCRYPTED_MESSAGE_TYPE_BIT_def)
    show ?thesis unfolding e bit_exp_iff by (auto simp: possible_bit_def)
  qed
  have high: "\<not> bit (word_of_nat n :: 32 word) 31"
    using assms unfolding bit_of_nat_iff by (simp add: bit_iff_odd)
  show z: "(word_of_nat n :: 32 word) AND ENCRYPTED_MESSAGE_TYPE_BIT = 0"
    by (rule bit_word_eqI) (use bit high in \<open>auto simp: bit_simps\<close>)
  show "ENCRYPTED_MESSAGE_TYPE_BIT + word_of_nat n = ENCRYPTED_MESSAGE_TYPE_BIT OR word_of_nat n"
    by (rule disjunctive_add) (use bit high in auto)
qed

text \<open>
  The header of an encrypted response reads back: for a message shorter than \<open>2 ^ 31\<close> bytes
  the header is recognised as encrypted and gives the length of the message and the sequence
  number its IV was built from.
\<close>
theorem encrypted_header_roundtrip:
  assumes "respond_encrypted encrypt counter plaintext = (counter', h, ciphertext)"
    and "length plaintext < 2 ^ 31"
  shows "is_encrypted h \<and> unat (payload_length h) = length plaintext \<and>
    be_word (sequenceNumber h) = counter' \<and> counter' = counter + 1"
proof -
  let ?n = "word_of_nat (length plaintext) :: 32 word"
  have h: "be_word (typeAndLength h) = ENCRYPTED_MESSAGE_TYPE_BIT OR ?n" "counter' = counter + 1"
      "sequenceNumber h = be_bytes counter'"
    using assms(1) type_bit_length(1) [OF assms(2)]
    by (auto simp: respond_encrypted_def Let_def be_word_bytes split: prod.splits)
  have z: "?n AND ENCRYPTED_MESSAGE_TYPE_BIT = 0" by (rule type_bit_length(2) [OF assms(2)])
  have "(ENCRYPTED_MESSAGE_TYPE_BIT OR ?n) AND ENCRYPTED_MESSAGE_TYPE_BIT = ENCRYPTED_MESSAGE_TYPE_BIT"
    by (rule bit_word_eqI) (auto simp: bit_simps)
  then have e: "is_encrypted h"
    unfolding is_encrypted_def h by (simp add: ENCRYPTED_MESSAGE_TYPE_BIT_def)
  have "(ENCRYPTED_MESSAGE_TYPE_BIT OR ?n) AND NOT ENCRYPTED_MESSAGE_TYPE_BIT = ?n AND NOT ENCRYPTED_MESSAGE_TYPE_BIT"
    by (rule bit_word_eqI) (auto simp: bit_simps)
  also have "\<dots> = (?n AND NOT ENCRYPTED_MESSAGE_TYPE_BIT) OR (?n AND ENCRYPTED_MESSAGE_TYPE_BIT)"
    by (simp add: z)
  also have "\<dots> = ?n" by (rule bit_word_eqI) (auto simp: bit_simps)
  finally have "payload_length h = ?n" by (simp add: payload_length_def h)
  then have "unat (payload_length h) = length plaintext"
    using assms(2) by (simp add: unat_of_nat)
  then show ?thesis using e h by (simp add: be_word_bytes)
qed

theorem encrypted_header_roundtrip_witness:
  "\<exists>h. respond_encrypted (\<lambda>iv p. (replicate 16 0, p)) 6 [1, 2, 3] = (7, h, [1, 2, 3]) \<and>
     unat (payload_length h) = 3 \<and> be_word (sequenceNumber h) = (7 :: 32 word)"
proof -
  obtain h where r: "respond_encrypted (\<lambda>iv p. (replicate 16 0, p)) 6 [1, 2, 3] = (7, h, [1, 2, 3])"
    by (simp add: respond_encrypted_def Let_def)
  show ?thesis using encrypted_header_roundtrip [OF r] r by auto
qed

section \<open>socket_t\<close>

text \<open>What the code uses of a parsed message, and what the socket does with one.\<close>

record rtsp_message =
  rq_command :: string
  rq_target :: string
  rq_seqn :: int
  rq_options :: "(string \<times> string) list"
  rq_payload :: string

datatype rtsp_out = Response int | Handle rtsp_message

text \<open>The read the socket waits for.\<close>

datatype pending_read = No_Read | Read_Some | Read_Payload | Read_Header | Read_Message nat

record rtsp_socket =
  sk_buf :: string
  sk_begin :: nat
  sk_crlf :: nat
  sk_open :: bool
  sk_pending :: pending_read
  sk_out :: "rtsp_out list"

definition BUF_SIZE :: nat where "BUF_SIZE = 2048"

definition bad_request :: "rtsp_socket \<Rightarrow> rtsp_socket" where
  "bad_request s = s\<lparr>sk_open := False, sk_pending := No_Read, sk_out := sk_out s @ [Response 400]\<rparr>"

definition close_socket :: "rtsp_socket \<Rightarrow> rtsp_socket" where
  "close_socket s = s\<lparr>sk_open := False, sk_pending := No_Read\<rparr>"

definition handle_data :: "rtsp_message \<Rightarrow> rtsp_socket \<Rightarrow> rtsp_socket" where
  "handle_data req s = s\<lparr>sk_pending := No_Read, sk_out := sk_out s @ [Handle req]\<rparr>"

text \<open>\<open>read\<close> and \<open>read_plaintext_payload\<close>; \<open>cipher\<close> says whether the session is encrypted.\<close>

definition sock_read :: "bool \<Rightarrow> rtsp_socket \<Rightarrow> rtsp_socket" where
  "sock_read cipher s =
     (if sk_begin s = BUF_SIZE \<or> (cipher \<and> sk_begin s + HEADER_SIZE \<ge> BUF_SIZE) then bad_request s
      else s\<lparr>sk_pending := (if cipher then Read_Header else Read_Some)\<rparr>)"

definition read_plaintext_payload :: "rtsp_socket \<Rightarrow> rtsp_socket" where
  "read_plaintext_payload s =
     (if sk_begin s = BUF_SIZE then bad_request s else s\<lparr>sk_pending := Read_Payload\<rparr>)"

text \<open>The bytes a read leaves at a position of the buffer.\<close>

definition receive :: "nat \<Rightarrow> string \<Rightarrow> rtsp_socket \<Rightarrow> rtsp_socket" where
  "receive pos bytes s =
     s\<lparr>sk_buf := take pos (sk_buf s) @ bytes @ drop (pos + length bytes) (sk_buf s)\<rparr>"

definition content_length :: "rtsp_message \<Rightarrow> int" where
  "content_length req =
     (case find (\<lambda>(name, _). name = ''Content-length'') (rq_options req) of
        None \<Rightarrow> 0
      | Some (_, content) \<Rightarrow> to_int32 (from_chars (dropWhile (\<lambda>c. \<not> isdigit c) content)))"

definition handle_plaintext_payload ::
    "(string \<Rightarrow> rtsp_message option) \<Rightarrow> bool \<Rightarrow> nat \<Rightarrow> rtsp_socket \<Rightarrow> rtsp_socket" where
  "handle_plaintext_payload parse ec bytes s =
     (if ec then close_socket s
      else (let e = sk_begin s + bytes
            in case parse (take e (sk_buf s)) of
                 None \<Rightarrow> bad_request s
               | Some req \<Rightarrow>
                   if int e - int (sk_crlf s) \<ge> content_length req
                   then (handle_data req s)\<lparr>sk_begin := e\<rparr>
                   else read_plaintext_payload (s\<lparr>sk_begin := e\<rparr>)))"

definition CRLF_CRLF :: string where
  "CRLF_CRLF = [CHR 0x0D, CHR 0x0A, CHR 0x0D, CHR 0x0A]"

definition handle_read_plaintext ::
    "(string \<Rightarrow> rtsp_message option) \<Rightarrow> bool \<Rightarrow> nat \<Rightarrow> rtsp_socket \<Rightarrow> rtsp_socket" where
  "handle_read_plaintext parse ec bytes s =
     (if ec then close_socket s
      else (let start = nat (max (int (sk_begin s) - 4) (int (sk_begin s)));
                buf_size = bytes + (start - sk_begin s);
                e = start + buf_size
            in case find_sub CRLF_CRLF (take buf_size (drop start (sk_buf s))) of
                 None \<Rightarrow> sock_read False (s\<lparr>sk_begin := e\<rparr>)
               | Some i \<Rightarrow>
                   handle_plaintext_payload parse ec (e - (start + i + 4))
                     (s\<lparr>sk_begin := start + i + 4, sk_crlf := start + i + 4\<rparr>)))"

definition header_at :: "rtsp_socket \<Rightarrow> encrypted_rtsp_header" where
  "header_at s =
     (let bytes = map char_byte (drop (sk_begin s) (sk_buf s))
      in \<lparr>typeAndLength = take 4 bytes, sequenceNumber = take 4 (drop 4 bytes),
          header_tag = take 16 (drop 8 bytes)\<rparr>)"

definition handle_read_encrypted_header :: "bool \<Rightarrow> nat \<Rightarrow> rtsp_socket \<Rightarrow> rtsp_socket" where
  "handle_read_encrypted_header ec bytes s =
     (if ec \<or> bytes < HEADER_SIZE then bad_request s
      else if \<not> is_encrypted (header_at s) then bad_request s
      else if sk_begin s + HEADER_SIZE + unat (payload_length (header_at s)) \<ge> BUF_SIZE then bad_request s
      else s\<lparr>sk_pending := Read_Message (unat (payload_length (header_at s)))\<rparr>)"

definition handle_read_encrypted_message ::
    "(byte list \<Rightarrow> byte list \<Rightarrow> string option) \<Rightarrow> (string \<Rightarrow> rtsp_message option) \<Rightarrow>
     bool \<Rightarrow> nat \<Rightarrow> rtsp_socket \<Rightarrow> rtsp_socket" where
  "handle_read_encrypted_message decrypt parse ec bytes s =
     (let h = header_at s
      in if ec \<or> bytes < unat (payload_length h) then bad_request s
         else (let iv = message_iv (be_word (sequenceNumber h)) (CHR ''C'') (CHR ''R'')
               in case decrypt iv (header_tag h @
                      map char_byte (take bytes (drop (sk_begin s + HEADER_SIZE) (sk_buf s)))) of
                    None \<Rightarrow> bad_request s
                  | Some plaintext \<Rightarrow>
                      (case parse plaintext of
                         None \<Rightarrow> bad_request s
                       | Some req \<Rightarrow> handle_data req s)))"

text \<open>
  The completion of the pending read: the bytes it brought and whether it failed. \<open>async_read\<close>
  brings as many bytes as asked for unless it fails, \<open>async_read_some\<close> at most as many.
\<close>

definition read_at :: "rtsp_socket \<Rightarrow> nat" where
  "read_at s = (case sk_pending s of Read_Message _ \<Rightarrow> sk_begin s + HEADER_SIZE | _ \<Rightarrow> sk_begin s)"

definition read_room :: "rtsp_socket \<Rightarrow> nat" where
  "read_room s = (case sk_pending s of
     No_Read \<Rightarrow> 0 | Read_Some \<Rightarrow> BUF_SIZE - sk_begin s | Read_Payload \<Rightarrow> BUF_SIZE - sk_begin s
   | Read_Header \<Rightarrow> HEADER_SIZE | Read_Message n \<Rightarrow> n)"

definition complete ::
    "(byte list \<Rightarrow> byte list \<Rightarrow> string option) \<Rightarrow> (string \<Rightarrow> rtsp_message option) \<Rightarrow>
     bool \<Rightarrow> string \<Rightarrow> rtsp_socket \<Rightarrow> rtsp_socket" where
  "complete decrypt parse ec bytes s =
     (let s1 = receive (read_at s) bytes s
      in case sk_pending s of
           No_Read \<Rightarrow> s
         | Read_Some \<Rightarrow> handle_read_plaintext parse ec (length bytes) s1
         | Read_Payload \<Rightarrow> handle_plaintext_payload parse ec (length bytes) s1
         | Read_Header \<Rightarrow> handle_read_encrypted_header ec (length bytes) s1
         | Read_Message _ \<Rightarrow> handle_read_encrypted_message decrypt parse ec (length bytes) s1)"

definition accept_socket :: "bool \<Rightarrow> string \<Rightarrow> rtsp_socket" where
  "accept_socket cipher buf =
     sock_read cipher \<lparr>sk_buf = buf, sk_begin = 0, sk_crlf = 0, sk_open = True,
       sk_pending = No_Read, sk_out = []\<rparr>"

inductive sock_reaches ::
    "(byte list \<Rightarrow> byte list \<Rightarrow> string option) \<Rightarrow> (string \<Rightarrow> rtsp_message option) \<Rightarrow> rtsp_socket \<Rightarrow> bool"
  for decrypt parse where
  accepted: "length buf = BUF_SIZE \<Longrightarrow> sock_reaches decrypt parse (accept_socket cipher buf)"
| completed: "sock_reaches decrypt parse s \<Longrightarrow> sk_pending s \<noteq> No_Read \<Longrightarrow> length bytes \<le> read_room s \<Longrightarrow>
    sock_reaches decrypt parse (complete decrypt parse ec bytes s)"

section \<open>Reads stay in the buffer\<close>

definition sock_inv :: "rtsp_socket \<Rightarrow> bool" where
  [inv_defs]: "sock_inv s \<longleftrightarrow> length (sk_buf s) = BUF_SIZE \<and> sk_begin s \<le> BUF_SIZE \<and>
     (case sk_pending s of
        No_Read \<Rightarrow> True
      | Read_Header \<Rightarrow> sk_begin s + HEADER_SIZE < BUF_SIZE
      | Read_Message n \<Rightarrow> sk_begin s + HEADER_SIZE + n < BUF_SIZE
      | _ \<Rightarrow> sk_begin s < BUF_SIZE)"

lemma sock_inv_stopped:
  assumes "length (sk_buf s) = BUF_SIZE" "sk_begin s \<le> BUF_SIZE"
  shows "sock_inv (bad_request s)" "sock_inv (close_socket s)" "sock_inv (handle_data req s)"
  using assms by (simp_all add: sock_inv_def bad_request_def close_socket_def handle_data_def)

lemma sock_inv_read:
  assumes "length (sk_buf s) = BUF_SIZE" "sk_begin s \<le> BUF_SIZE"
  shows "sock_inv (sock_read cipher s)" "sock_inv (read_plaintext_payload s)"
  using assms by (auto simp: sock_inv_def sock_read_def read_plaintext_payload_def bad_request_def)

lemma sock_inv_payload:
  assumes "length (sk_buf s) = BUF_SIZE" "sk_begin s + bytes \<le> BUF_SIZE"
  shows "sock_inv (handle_plaintext_payload parse ec bytes s)"
proof -
  let ?s = "s\<lparr>sk_begin := sk_begin s + bytes\<rparr>"
  have "(handle_data req s)\<lparr>sk_begin := sk_begin s + bytes\<rparr> = handle_data req ?s" for req
    by (simp add: handle_data_def)
  then show ?thesis
    using assms sock_inv_stopped [of s] sock_inv_stopped(3) [of ?s] sock_inv_read(2) [of ?s]
    by (simp add: handle_plaintext_payload_def Let_def split: option.splits)
qed

lemma sock_inv_plaintext:
  assumes "length (sk_buf s) = BUF_SIZE" "sk_begin s + bytes \<le> BUF_SIZE"
  shows "sock_inv (handle_read_plaintext parse ec bytes s)"
proof -
  have b: "nat (max (int (sk_begin s) - 4) (int (sk_begin s))) = sk_begin s" by simp
  show ?thesis
  proof (cases "find_sub CRLF_CRLF (take bytes (drop (sk_begin s) (sk_buf s)))")
    case None
    then show ?thesis
      using assms sock_inv_stopped(2) [of s] sock_inv_read(1) [of "s\<lparr>sk_begin := sk_begin s + bytes\<rparr>"]
      by (simp add: handle_read_plaintext_def b Let_def)
  next
    case (Some i)
    have "length CRLF_CRLF = 4" by (simp add: CRLF_CRLF_def)
    then have "i + 4 \<le> bytes" using find_sub_bound [OF Some] by simp
    then show ?thesis
      using assms Some sock_inv_stopped(2) [of s]
        sock_inv_payload [of "s\<lparr>sk_begin := sk_begin s + i + 4, sk_crlf := sk_begin s + i + 4\<rparr>"]
      by (simp add: handle_read_plaintext_def b Let_def)
  qed
qed

lemma sock_inv_header:
  assumes "sock_inv s"
  shows "sock_inv (handle_read_encrypted_header ec bytes s)"
  using assms sock_inv_stopped [of s]
  by (auto simp: handle_read_encrypted_header_def sock_inv_def)

lemma sock_inv_message:
  assumes "sock_inv s"
  shows "sock_inv (handle_read_encrypted_message decrypt parse ec bytes s)"
proof -
  have l: "length (sk_buf s) = BUF_SIZE" "sk_begin s \<le> BUF_SIZE"
    using assms by (simp_all add: sock_inv_def)
  show ?thesis
    unfolding handle_read_encrypted_message_def Let_def
    by (simp add: sock_inv_stopped [OF l] split: option.splits)
qed

lemma receive_facts [simp]:
  "sk_begin (receive pos bytes s) = sk_begin s" "sk_pending (receive pos bytes s) = sk_pending s"
  "sk_crlf (receive pos bytes s) = sk_crlf s" "sk_out (receive pos bytes s) = sk_out s"
  "sk_open (receive pos bytes s) = sk_open s"
  "pos + length bytes \<le> length (sk_buf s) \<Longrightarrow> length (sk_buf (receive pos bytes s)) = length (sk_buf s)"
  by (simp_all add: receive_def)

lemma sock_inv_complete:
  assumes "sock_inv s" "length bytes \<le> read_room s"
  shows "sock_inv (complete decrypt parse ec bytes s)"
proof -
  have fits: "read_at s + length bytes \<le> BUF_SIZE" if "sk_pending s \<noteq> No_Read"
    using assms that by (auto simp: sock_inv_def read_room_def read_at_def split: pending_read.splits)
  let ?s = "receive (read_at s) bytes s"
  have i: "sock_inv ?s" if "sk_pending s \<noteq> No_Read"
    using assms(1) fits [OF that] by (cases "sk_pending s") (simp_all add: sock_inv_def)
  show ?thesis
  proof (cases "sk_pending s")
    case Read_Some
    then show ?thesis using fits assms(1) sock_inv_plaintext [of ?s]
      by (simp add: complete_def read_at_def sock_inv_def)
  next
    case Read_Payload
    then show ?thesis using fits assms(1) sock_inv_payload [of ?s]
      by (simp add: complete_def read_at_def sock_inv_def)
  qed (use assms i sock_inv_header sock_inv_message in \<open>simp_all add: complete_def Let_def\<close>)
qed

text \<open>
  C6: No read of the RTSP server leaves its 2048-byte buffer: in every reachable state of a
  socket, encrypted or not, whatever the client sends and the library parses, the pending read
  ends within the buffer.
\<close>
theorem reads_in_buffer:
  assumes "sock_reaches decrypt parse s" "sk_pending s \<noteq> No_Read"
  shows "length (sk_buf s) = BUF_SIZE \<and> read_at s + read_room s \<le> BUF_SIZE"
proof -
  have "sock_inv s"
    using assms(1)
  proof (induction rule: sock_reaches.induct)
    case (accepted buf cipher)
    show ?case unfolding accept_socket_def
      by (rule sock_inv_read) (use accepted in \<open>simp_all add: BUF_SIZE_def\<close>)
  next
    case (completed s bytes ec)
    then show ?case by (intro sock_inv_complete)
  qed
  then show ?thesis using assms(2)
    by (auto simp: sock_inv_def read_at_def read_room_def split: pending_read.splits)
qed

theorem reads_in_buffer_witness:
  "sk_pending (accept_socket True (replicate 2048 (CHR ''x''))) = Read_Header \<and>
   read_at (accept_socket True (replicate 2048 (CHR ''x''))) + 24 \<le> 2048"
proof -
  let ?s = "accept_socket True (replicate 2048 (CHR ''x''))"
  have r: "sock_reaches (\<lambda>_ _. None) (\<lambda>_. None) ?s"
    by (rule sock_reaches.accepted) (simp add: BUF_SIZE_def)
  have p: "sk_pending ?s = Read_Header" by (simp add: accept_socket_def sock_read_def BUF_SIZE_def HEADER_SIZE_def)
  show ?thesis using reads_in_buffer [OF r] p by (simp add: read_room_def BUF_SIZE_def HEADER_SIZE_def)
qed

section \<open>Plaintext requests\<close>

lemma accept_plain:
  "accept_socket False buf = \<lparr>sk_buf = buf, sk_begin = 0, sk_crlf = 0, sk_open = True,
     sk_pending = Read_Some, sk_out = []\<rparr>"
  by (simp add: accept_socket_def sock_read_def BUF_SIZE_def)

lemma handle_read_plaintext_eq:
  "handle_read_plaintext parse False bytes s =
     (case find_sub CRLF_CRLF (take bytes (drop (sk_begin s) (sk_buf s))) of
        None \<Rightarrow> sock_read False (s\<lparr>sk_begin := sk_begin s + bytes\<rparr>)
      | Some i \<Rightarrow> handle_plaintext_payload parse False (bytes - (i + 4))
          (s\<lparr>sk_begin := sk_begin s + i + 4, sk_crlf := sk_begin s + i + 4\<rparr>))"
proof -
  have "nat (max (int (sk_begin s) - 4) (int (sk_begin s))) = sk_begin s" by simp
  then show ?thesis
    by (simp add: handle_read_plaintext_def Let_def split: option.splits)
qed

text \<open>
  A plaintext request that arrives in one read, with its header terminator and all of the
  payload its Content-length announces, is handed to the command handlers exactly once, and the
  socket waits for nothing more.
\<close>
theorem whole_request_handled:
  assumes "length buf = BUF_SIZE" "length a < BUF_SIZE" "find_sub CRLF_CRLF a = Some i" "parse a = Some req"
    and "content_length req \<le> int (length a - (i + 4))"
  shows "sk_out (complete decrypt parse False a (accept_socket False buf)) = [Handle req] \<and>
    sk_pending (complete decrypt parse False a (accept_socket False buf)) = No_Read"
proof -
  have i: "i + 4 \<le> length a" using find_sub_bound [OF assms(3)] by (simp add: CRLF_CRLF_def)
  show ?thesis
    using assms i
    by (simp add: complete_def accept_plain receive_def read_at_def handle_read_plaintext_eq
        handle_plaintext_payload_def handle_data_def Let_def of_nat_diff)
qed

theorem whole_request_handled_witness:
  "sk_out (complete (\<lambda>_ _. None)
      (\<lambda>_. Some \<lparr>rq_command = ''OPTIONS'', rq_target = '''', rq_seqn = 1, rq_options = [], rq_payload = ''''\<rparr>)
      False (''OPTIONS'' @ CRLF_CRLF) (accept_socket False (replicate BUF_SIZE (CHR ''x'')))) =
   [Handle \<lparr>rq_command = ''OPTIONS'', rq_target = '''', rq_seqn = 1, rq_options = [], rq_payload = ''''\<rparr>]"
proof -
  have f: "find_sub CRLF_CRLF (''OPTIONS'' @ CRLF_CRLF) = Some 7" by (simp add: CRLF_CRLF_def)
  show ?thesis
    by (rule whole_request_handled [OF _ _ f _, THEN conjunct1])
      (simp_all add: BUF_SIZE_def CRLF_CRLF_def content_length_def)
qed

text \<open>
  The terminator of the header is not seen when two reads share it: the second read is
  searched from where it begins, not from four bytes before, so two reads that have no
  terminator of their own leave the request waiting, even when their concatenation has one.
\<close>
theorem split_terminator_missed:
  assumes "length buf = BUF_SIZE" "length a + length b < BUF_SIZE"
    and "find_sub CRLF_CRLF a = None" "find_sub CRLF_CRLF b = None"
  shows "sk_pending (complete decrypt parse False b (complete decrypt parse False a (accept_socket False buf))) =
      Read_Some \<and>
    take (length (a @ b))
      (sk_buf (complete decrypt parse False b (complete decrypt parse False a (accept_socket False buf)))) = a @ b \<and>
    sk_out (complete decrypt parse False b (complete decrypt parse False a (accept_socket False buf))) = []"
proof -
  have 1: "complete decrypt parse False a (accept_socket False buf) =
      \<lparr>sk_buf = a @ drop (length a) buf, sk_begin = length a, sk_crlf = 0, sk_open = True,
       sk_pending = Read_Some, sk_out = []\<rparr>"
    using assms
    by (simp add: complete_def accept_plain receive_def read_at_def handle_read_plaintext_eq sock_read_def)
  show ?thesis
    unfolding 1 using assms
    by (simp add: complete_def receive_def read_at_def handle_read_plaintext_eq sock_read_def)
qed

theorem split_terminator_missed_witness:
  "find_sub CRLF_CRLF (''OPTIONS'' @ CRLF_CRLF) = Some 7 \<and>
   (\<forall>req. let s = complete (\<lambda>_ _. None) (\<lambda>_. Some req) False [CHR 0x0D, CHR 0x0A]
              (complete (\<lambda>_ _. None) (\<lambda>_. Some req) False (''OPTIONS'' @ [CHR 0x0D, CHR 0x0A])
                 (accept_socket False (replicate BUF_SIZE (CHR ''x''))))
          in sk_pending s = Read_Some \<and> sk_out s = [])"
proof (intro conjI allI)
  show "find_sub CRLF_CRLF (''OPTIONS'' @ CRLF_CRLF) = Some 7" by (simp add: CRLF_CRLF_def)
  fix req
  show "let s = complete (\<lambda>_ _. None) (\<lambda>_. Some req) False [CHR 0x0D, CHR 0x0A]
              (complete (\<lambda>_ _. None) (\<lambda>_. Some req) False (''OPTIONS'' @ [CHR 0x0D, CHR 0x0A])
                 (accept_socket False (replicate BUF_SIZE (CHR ''x''))))
          in sk_pending s = Read_Some \<and> sk_out s = []"
    using split_terminator_missed [of "replicate BUF_SIZE (CHR ''x'')" "''OPTIONS'' @ [CHR 0x0D, CHR 0x0A]"
        "[CHR 0x0D, CHR 0x0A]" "\<lambda>_ _. None" "\<lambda>_. Some req"]
    by (simp add: BUF_SIZE_def CRLF_CRLF_def Let_def)
qed

end
