(* ===== verification/Video_Packets.thy ===== *)
theory Video_Packets
  imports Gcm_Iv Slices
begin

unbundle bit_operations_syntax

text \<open>
  How an encoded video frame becomes UDP packets (\<open>src/stream.cpp\<close>): the frame header, the space
  for the packet headers, the blocks of the error correction, the headers and the encryption of
  each shard. The layout of the packet headers and the Reed-Solomon code are libraries.
\<close>

section \<open>The limelight library\<close>

text \<open>
  The sizes of the library's structures, and the writes into a packet: \<open>put_pic\<close> is what the loop
  over the data packets writes, \<open>put_fec\<close> what the loop over all shards does.
\<close>

record pic_header =
  pic_frameIndex :: "32 word"
  pic_streamPacketIndex :: "32 word"
  pic_multiFecFlags :: byte
  pic_multiFecBlocks :: byte
  pic_sof :: bool
  pic_eof :: bool

record fec_header =
  fh_fecInfo :: "32 word"
  fh_sequenceNumber :: "16 word"
  fh_timestamp :: "32 word"
  fh_multiFecBlocks :: byte
  fh_frameIndex :: "32 word"

record limelight =
  nv_video_packet :: nat
  rtp_packet :: nat
  max_rtp_header :: nat
  put_pic :: "pic_header \<Rightarrow> byte list \<Rightarrow> byte list"
  put_fec :: "fec_header \<Rightarrow> byte list \<Rightarrow> byte list"

definition video_packet_raw :: "limelight \<Rightarrow> nat" where
  "video_packet_raw L = rtp_packet L + 4 + nv_video_packet L"

section \<open>replace and concat_and_insert\<close>

definition replace :: "byte list \<Rightarrow> byte list \<Rightarrow> byte list \<Rightarrow> byte list" where
  "replace original old new =
     (case find_sub old original of
        None \<Rightarrow> original
      | Some next \<Rightarrow>
          take next original @
          (if next = length original then [] else new @ drop (next + length old) original))"

text \<open>
  The loop of \<open>concat_and_insert\<close>: \<open>k\<close> elements are left, \<open>cur\<close> is the rest of the buffer \<open>next\<close>
  points into, and the last slice is as long as what is left.
\<close>

fun insert_loop :: "nat \<Rightarrow> nat \<Rightarrow> nat \<Rightarrow> nat \<Rightarrow> nat \<Rightarrow> byte list \<Rightarrow> byte list \<Rightarrow> byte list \<Rightarrow> byte list" where
  "insert_loop 0 x insert_size slice_size data_size cur data2 result = result"
| "insert_loop (Suc k) x insert_size slice_size data_size cur data2 result =
     (let p = x * (insert_size + slice_size);
          slice = (if k = 0 then data_size - x * slice_size else slice_size)
      in if slice > length cur then
           (let copy_len = length cur;
                result1 = write_at (p + insert_size) cur result;
                result2 = write_at (p + copy_len + insert_size) (take (slice - copy_len) data2) result1
            in insert_loop k (Suc x) insert_size slice_size data_size (drop (slice - copy_len) data2) data2 result2)
         else insert_loop k (Suc x) insert_size slice_size data_size (drop slice cur) data2
                (write_at (p + insert_size) (take slice cur) result))"

definition concat_and_insert :: "nat \<Rightarrow> nat \<Rightarrow> byte list \<Rightarrow> byte list \<Rightarrow> byte list" where
  "concat_and_insert insert_size slice_size data1 data2 =
     (let data_size = length data1 + length data2;
          elements = data_size div slice_size + (if data_size mod slice_size \<noteq> 0 then 1 else 0)
      in insert_loop elements 0 insert_size slice_size data_size data1 data2
           (replicate (elements * insert_size + data_size) 0))"

lemma insert_loop_spec:
  assumes "0 < sl" "rest = cur @ data2 \<or> rest = cur" "k = length (chunks sl rest)"
    and "k \<noteq> 0 \<Longrightarrow> length done = x * (ins + sl) \<and> data_size = x * sl + length rest"
  shows "insert_loop k x ins sl data_size cur data2 (done @ replicate (k * ins + length rest) 0) =
    done @ concat (map (\<lambda>s. replicate ins 0 @ s) (chunks sl rest))"
  using assms
proof (induction k arbitrary: x rest cur "done")
  case 0
  then have "chunks sl rest = []" by simp
  then show ?case using 0(1) by simp
next
  case (Suc k)
  have "rest \<noteq> []" using Suc.prems(1,3) by auto
  then have step: "chunks sl rest = take sl rest # chunks sl (drop sl rest)"
    using Suc.prems(1) by (simp add: chunks_step)
  then have k: "k = length (chunks sl (drop sl rest))" using Suc.prems(3) by simp
  define slice where "slice = (if k = 0 then data_size - x * sl else sl)"
  have k0: "k = 0 \<longleftrightarrow> length rest \<le> sl" using k Suc.prems(1) by simp
  have pre: "length done = x * (ins + sl)" "data_size = x * sl + length rest" using Suc.prems(4) by simp_all
  have slice: "slice = min sl (length rest)" using pre(2) k0 by (auto simp: slice_def)
  have tk: "take slice rest = take sl rest" "drop slice rest = drop sl rest"
    using slice by (auto simp: min_def)
  let ?done = "done @ replicate ins 0 @ take sl rest"
  let ?zeros = "replicate (k * ins + length (drop sl rest)) (0::byte)"
  have sum: "Suc k * ins + length rest = ins + (slice + (k * ins + length (drop sl rest)))"
    using slice by simp
  have wr: "write_at (x * (ins + sl) + ins) (take sl rest)
      (done @ replicate (Suc k * ins + length rest) 0) = ?done @ ?zeros"
  proof -
    have "length (take sl rest) = slice" using slice by simp
    then have "write_at ins (take sl rest) (replicate (ins + (slice + (k * ins + length (drop sl rest)))) 0) =
        replicate ins 0 @ take sl rest @ ?zeros"
      by (simp add: write_at_def del: length_take length_drop)
    then show ?thesis unfolding pre(1) [symmetric] write_at_append sum by simp
  qed
  have rec: "insert_loop k (Suc x) ins sl data_size cur' data2 (?done @ ?zeros) =
      ?done @ concat (map (\<lambda>s. replicate ins 0 @ s) (chunks sl (drop sl rest)))"
    if "drop sl rest = cur' @ data2 \<or> drop sl rest = cur'" for cur'
  proof (rule Suc.IH)
    show "k = length (chunks sl (drop sl rest))" by (rule k)
    show "length ?done = Suc x * (ins + sl) \<and> data_size = Suc x * sl + length (drop sl rest)" if "k \<noteq> 0"
      using that k0 pre by simp
  qed (use that Suc.prems(1) in auto)
  have goal: "?done @ concat (map (\<lambda>s. replicate ins 0 @ s) (chunks sl (drop sl rest))) =
      done @ concat (map (\<lambda>s. replicate ins 0 @ s) (chunks sl rest))"
    by (simp add: step)
  show ?case
  proof (cases "slice > length cur")
    case True
    then have r: "rest = cur @ data2" using Suc.prems(2) slice by auto
    have room: "x * (ins + sl) + ins + length cur + length (take (slice - length cur) data2) \<le>
        length (done @ replicate (Suc k * ins + length rest) (0::byte))"
      using slice unfolding r pre(1) [symmetric] by simp
    have parts: "cur @ take (slice - length cur) data2 = take sl rest"
        "drop (slice - length cur) data2 = drop sl rest"
      using True tk unfolding r by (simp_all add: less_imp_le)
    have w: "write_at (x * (ins + sl) + length cur + ins) (take (slice - length cur) data2)
        (write_at (x * (ins + sl) + ins) cur (done @ replicate (Suc k * ins + length rest) 0)) = ?done @ ?zeros"
      using write_at_twice [OF room] wr parts(1) by (simp only: ac_simps)
    have eq: "insert_loop (Suc k) x ins sl data_size cur data2 res =
        insert_loop k (Suc x) ins sl data_size (drop (slice - length cur) data2) data2
          (write_at (x * (ins + sl) + length cur + ins) (take (slice - length cur) data2)
             (write_at (x * (ins + sl) + ins) cur res))" for res
      using True by (simp only: insert_loop.simps Let_def slice_def [symmetric] if_True)
    have "insert_loop k (Suc x) ins sl data_size (drop sl rest) data2 (?done @ ?zeros) =
        ?done @ concat (map (\<lambda>s. replicate ins 0 @ s) (chunks sl (drop sl rest)))"
      by (rule rec) (rule disjI2, rule refl)
    then show ?thesis unfolding eq w parts(2) by (rule trans) (rule goal)
  next
    case False
    then have parts: "take slice cur = take sl rest" "drop sl rest = drop slice cur @ data2 \<or> drop sl rest = drop slice cur"
      using Suc.prems(2) tk by auto
    have eq: "insert_loop (Suc k) x ins sl data_size cur data2 res =
        insert_loop k (Suc x) ins sl data_size (drop slice cur) data2
          (write_at (x * (ins + sl) + ins) (take slice cur) res)" for res
      using False by (simp only: insert_loop.simps Let_def slice_def [symmetric] if_False)
    show ?thesis unfolding eq parts(1) wr rec [OF parts(2)] by (rule goal)
  qed
qed

lemma concat_and_insert_slices:
  assumes "0 < slice_size"
  shows "concat_and_insert insert_size slice_size data1 data2 =
    concat (map (\<lambda>s. replicate insert_size 0 @ s) (chunks slice_size (data1 @ data2)))"
proof -
  have e: "(length data1 + length data2) div slice_size +
      (if (length data1 + length data2) mod slice_size \<noteq> 0 then 1 else 0) =
      length (chunks slice_size (data1 @ data2))"
    using length_chunks_round [OF assms, of "data1 @ data2"] by simp
  have "insert_loop (length (chunks slice_size (data1 @ data2))) 0 insert_size slice_size
      (length data1 + length data2) data1 data2
      ([] @ replicate (length (chunks slice_size (data1 @ data2)) * insert_size + length (data1 @ data2)) 0) =
    [] @ concat (map (\<lambda>s. replicate insert_size 0 @ s) (chunks slice_size (data1 @ data2)))"
    by (rule insert_loop_spec [OF assms]) simp_all
  then show ?thesis unfolding concat_and_insert_def Let_def e length_append append.left_neutral .
qed

section \<open>fec::encode\<close>

definition size_t :: "nat \<Rightarrow> nat" where "size_t n = n mod 2 ^ 64"

definition DATA_SHARDS_MAX :: nat where "DATA_SHARDS_MAX = 255"

record fec_t =
  fec_data_shards :: nat
  fec_nr_shards :: nat
  fec_percentage :: nat
  fec_shards :: "byte list list"

text \<open>The numbers of data and parity shards and the percentage; \<open>None\<close> is a division by zero.\<close>

definition fec_params :: "nat \<Rightarrow> nat \<Rightarrow> nat \<Rightarrow> nat \<Rightarrow> (nat \<times> nat \<times> nat) option" where
  "fec_params payload_size blocksize fecpercentage minparityshards =
     (if blocksize = 0 then None
      else (let data_shards = payload_size div blocksize + (if payload_size mod blocksize \<noteq> 0 then 1 else 0);
                parity_shards = size_t (data_shards * fecpercentage + 99) div 100
            in if parity_shards < minparityshards \<and> fecpercentage \<noteq> 0 then
                 (if data_shards = 0 then None
                  else Some (data_shards, minparityshards, size_t (100 * minparityshards) div data_shards))
               else Some (data_shards, parity_shards, fecpercentage)))"

text \<open>The data shards: the aligned ones are in the payload, the last one is padded with zeros.\<close>

definition data_shards_of :: "byte list \<Rightarrow> nat \<Rightarrow> byte list list" where
  "data_shards_of payload blocksize =
     (let aligned_data_shards = length payload div blocksize;
          rest = drop (aligned_data_shards * blocksize) payload
      in map (\<lambda>x. take blocksize (drop (x * blocksize) payload)) [0..<aligned_data_shards] @
         (if length payload mod blocksize \<noteq> 0
          then [rest @ replicate (blocksize - min blocksize (length rest)) 0] else []))"

text \<open>\<open>rs\<close> computes the parity shards. The buffer of the padded and the parity shards is as large
  as what is written to it unless its size wraps, which is \<open>None\<close> too.\<close>

definition fec_encode :: "(byte list list \<Rightarrow> nat \<Rightarrow> byte list list) \<Rightarrow>
    byte list \<Rightarrow> nat \<Rightarrow> nat \<Rightarrow> nat \<Rightarrow> fec_t option" where
  "fec_encode rs payload blocksize fecpercentage minparityshards =
     (case fec_params (length payload) blocksize fecpercentage minparityshards of
        None \<Rightarrow> None
      | Some (data_shards, parity_shards, percentage) \<Rightarrow>
          (let parity_shard_offset = (if length payload mod blocksize \<noteq> 0 then 1 else 0);
               buffer = (parity_shard_offset + parity_shards) * blocksize;
               shards = data_shards_of payload blocksize
           in if size_t buffer \<noteq> buffer then None
              else Some \<lparr>fec_data_shards = data_shards, fec_nr_shards = data_shards + parity_shards,
                         fec_percentage = percentage,
                         fec_shards = shards @ (if percentage \<noteq> 0 then rs shards parity_shards else [])\<rparr>))"

section \<open>The blocks of a frame\<close>

definition MAX_FEC_BLOCKS :: nat where "MAX_FEC_BLOCKS = 4"

definition max_data_shards_per_fec_block :: "nat \<Rightarrow> nat" where
  "max_data_shards_per_fec_block fecPercentage = (DATA_SHARDS_MAX * 100) div (100 + fecPercentage)"

text \<open>The number of blocks and the percentage, zero for a frame that needs too many blocks.\<close>

definition fec_plan :: "nat \<Rightarrow> nat \<Rightarrow> nat \<Rightarrow> (nat \<times> nat) option" where
  "fec_plan payload_size blocksize fecPercentage =
     (let max_data_per_fec_block = max_data_shards_per_fec_block fecPercentage * blocksize
      in if max_data_per_fec_block = 0 then None
         else (let needed = (payload_size + (max_data_per_fec_block - 1)) div max_data_per_fec_block
               in Some (if needed > MAX_FEC_BLOCKS then (MAX_FEC_BLOCKS, 0) else (needed, fecPercentage))))"

definition aligned_size :: "nat \<Rightarrow> nat \<Rightarrow> nat \<Rightarrow> nat" where
  "aligned_size payload_size blocks blocksize =
     ((payload_size div blocks + (blocksize - 1)) div blocksize) * blocksize"

definition substr :: "byte list \<Rightarrow> nat \<Rightarrow> nat option \<Rightarrow> byte list option" where
  "substr s pos n =
     (if pos > length s then None
      else Some (case n of None \<Rightarrow> drop pos s | Some n \<Rightarrow> take n (drop pos s)))"

definition fec_blocks :: "byte list \<Rightarrow> nat \<Rightarrow> nat \<Rightarrow> byte list list option" where
  "fec_blocks payload blocks blocksize =
     (let aligned = aligned_size (length payload) blocks blocksize
      in those (map (\<lambda>x. if x = blocks - 1 then substr payload (x * aligned) None
                         else substr payload (x * aligned) (Some aligned)) [0..<blocks]))"

section \<open>The packets of a frame\<close>

definition multi_fec_blocks :: "nat \<Rightarrow> nat \<Rightarrow> byte" where
  "multi_fec_blocks blockIndex blocks =
     push_bit 4 (word_of_nat blockIndex) OR push_bit 6 (word_of_nat (blocks - 1))"

definition fec_info :: "nat \<Rightarrow> nat \<Rightarrow> nat \<Rightarrow> 32 word" where
  "fec_info x data_shards percentage =
     push_bit 12 (word_of_nat x) OR push_bit 22 (word_of_nat data_shards) OR push_bit 4 (word_of_nat percentage)"

record frame_ctx =
  fr_index :: "32 word"
  fr_blocks :: nat
  fr_blocksize :: nat
  fr_percentage :: nat
  fr_min_parity :: nat
  fr_timestamp :: "32 word"
  fr_cipher :: "(byte list \<Rightarrow> byte list \<Rightarrow> byte list \<times> byte list) option"

definition pic_header_of :: "frame_ctx \<Rightarrow> 32 word \<Rightarrow> nat \<Rightarrow> nat \<Rightarrow> nat \<Rightarrow> pic_header" where
  "pic_header_of C lowseq blockIndex packets x =
     \<lparr>pic_frameIndex = fr_index C, pic_streamPacketIndex = push_bit 8 (lowseq + word_of_nat x),
      pic_multiFecFlags = 0x10, pic_multiFecBlocks = multi_fec_blocks blockIndex (fr_blocks C),
      pic_sof = (x = 0), pic_eof = (x = packets - 1)\<rparr>"

definition fec_header_of :: "frame_ctx \<Rightarrow> 32 word \<Rightarrow> nat \<Rightarrow> fec_t \<Rightarrow> nat \<Rightarrow> fec_header" where
  "fec_header_of C lowseq blockIndex fec x =
     \<lparr>fh_fecInfo = fec_info x (fec_data_shards fec) (fec_percentage fec),
      fh_sequenceNumber = ucast (lowseq + word_of_nat x), fh_timestamp = fr_timestamp C,
      fh_multiFecBlocks = multi_fec_blocks blockIndex (fr_blocks C), fh_frameIndex = fr_index C\<rparr>"

record video_packet_enc_prefix =
  px_iv :: "byte list"
  px_frameNumber :: "32 word"
  px_tag :: "byte list"

record video_packet =
  vp_prefix :: "video_packet_enc_prefix option"
  vp_header :: fec_header
  vp_bytes :: "byte list"

fun encrypt_shards :: "frame_ctx \<Rightarrow> 64 word \<Rightarrow> (fec_header \<times> byte list) list \<Rightarrow>
    video_packet list \<times> 64 word" where
  "encrypt_shards C gcm_iv_counter [] = ([], gcm_iv_counter)"
| "encrypt_shards C gcm_iv_counter ((h, shard) # shards) =
     (case fr_cipher C of
        None \<Rightarrow>
          (let (ps, counter) = encrypt_shards C gcm_iv_counter shards
           in (\<lparr>vp_prefix = None, vp_header = h, vp_bytes = shard\<rparr> # ps, counter))
      | Some encrypt \<Rightarrow>
          (let iv = video_iv gcm_iv_counter;
               (tg, ciphertext) = encrypt iv shard;
               (ps, counter) = encrypt_shards C (gcm_iv_counter + 1) shards
           in (\<lparr>vp_prefix = Some \<lparr>px_iv = iv, px_frameNumber = fr_index C, px_tag = tg\<rparr>,
                vp_header = h, vp_bytes = ciphertext\<rparr> # ps, counter)))"

record video_state =
  vs_lowseq :: "32 word"
  vs_gcm_iv_counter :: "64 word"

record sent_block =
  sb_data_shards :: nat
  sb_packets :: "video_packet list"

definition send_block :: "limelight \<Rightarrow> (byte list list \<Rightarrow> nat \<Rightarrow> byte list list) \<Rightarrow> frame_ctx \<Rightarrow>
    nat \<Rightarrow> byte list \<Rightarrow> video_state \<Rightarrow> (sent_block \<times> video_state) option" where
  "send_block L rs C blockIndex current_payload st =
     (let packets = (length current_payload + (fr_blocksize C - 1)) div fr_blocksize C;
          with_pic = concat (map (\<lambda>(x, s). put_pic L (pic_header_of C (vs_lowseq st) blockIndex packets x) s)
            (enumerate 0 (chunks (fr_blocksize C) current_payload)))
      in case fec_encode rs with_pic (fr_blocksize C) (fr_percentage C) (fr_min_parity C) of
           None \<Rightarrow> None
         | Some fec \<Rightarrow>
             (let shards = map (\<lambda>(x, s). let h = fec_header_of C (vs_lowseq st) blockIndex fec x in (h, put_fec L h s))
                    (enumerate 0 (fec_shards fec));
                  (ps, counter) = encrypt_shards C (vs_gcm_iv_counter st) shards
              in Some (\<lparr>sb_data_shards = fec_data_shards fec, sb_packets = ps\<rparr>,
                       \<lparr>vs_lowseq = vs_lowseq st + word_of_nat (fec_nr_shards fec), vs_gcm_iv_counter = counter\<rparr>)))"

fun send_blocks :: "limelight \<Rightarrow> (byte list list \<Rightarrow> nat \<Rightarrow> byte list list) \<Rightarrow> frame_ctx \<Rightarrow>
    nat \<Rightarrow> byte list list \<Rightarrow> video_state \<Rightarrow> (sent_block list \<times> video_state) option" where
  "send_blocks L rs C blockIndex [] st = Some ([], st)"
| "send_blocks L rs C blockIndex (b # bs) st =
     (case send_block L rs C blockIndex b st of
        None \<Rightarrow> None
      | Some (sent, st1) \<Rightarrow>
          (case send_blocks L rs C (Suc blockIndex) bs st1 of
             None \<Rightarrow> None
           | Some (rest, st2) \<Rightarrow> Some (sent # rest, st2)))"

text \<open>An encoded frame, and what the session and the configuration say.\<close>

record encoded_frame =
  ef_data :: "byte list"
  ef_idr :: bool
  ef_after_ref_frame_invalidation :: bool
  ef_replacements :: "(byte list \<times> byte list) list"
  ef_frame_index :: int
  ef_latency_us :: "int option"
  ef_timestamp :: "32 word"

record video_config =
  vc_packetsize :: nat
  vc_minRequiredFecPackets :: int
  vc_fec_percentage :: nat
  vc_cipher :: "(byte list \<Rightarrow> byte list \<Rightarrow> byte list \<times> byte list) option"

definition frame_payload :: "encoded_frame \<Rightarrow> byte list" where
  "frame_payload f =
     (if ef_idr f then foldl (\<lambda>payload (old, new). replace payload old new) (ef_data f) (ef_replacements f)
      else ef_data f)"

definition duration_to_latency :: "int \<Rightarrow> 16 word" where
  "duration_to_latency duration_us = word_of_int (max 0 (min 65535 ((duration_us + 50) div 100)))"

definition last_payload_len :: "nat \<Rightarrow> nat \<Rightarrow> 16 word" where
  "last_payload_len frame_size room = (let l = word_of_nat (frame_size mod room) in if l = 0 then word_of_nat room else l)"

definition frame_header :: "limelight \<Rightarrow> video_config \<Rightarrow> encoded_frame \<Rightarrow> byte list" where
  "frame_header L V f =
     [0x01] @
     le_bytes (case ef_latency_us f of None \<Rightarrow> 0 | Some us \<Rightarrow> duration_to_latency us) @
     [if ef_idr f then 2 else if ef_after_ref_frame_invalidation f then 5 else 1] @
     le_bytes (last_payload_len (length (frame_payload f) + 8) (vc_packetsize V - nv_video_packet L)) @
     [0, 0]"

definition with_header_space :: "limelight \<Rightarrow> video_config \<Rightarrow> encoded_frame \<Rightarrow> byte list" where
  "with_header_space L V f =
     concat_and_insert (video_packet_raw L) (vc_packetsize V + max_rtp_header L - video_packet_raw L)
       (frame_header L V f) (frame_payload f)"

definition frame_context :: "limelight \<Rightarrow> video_config \<Rightarrow> encoded_frame \<Rightarrow> nat \<Rightarrow> nat \<Rightarrow> frame_ctx" where
  "frame_context L V f blocks percentage =
     \<lparr>fr_index = word_of_int (ef_frame_index f), fr_blocks = blocks,
      fr_blocksize = vc_packetsize V + max_rtp_header L, fr_percentage = percentage,
      fr_min_parity = nat (vc_minRequiredFecPackets V mod 2 ^ 64),
      fr_timestamp = ef_timestamp f, fr_cipher = vc_cipher V\<rparr>"

text \<open>
  A frame from the encoder to the packets. A packet size that leaves no room for data divides by
  zero or wraps around; it is \<open>None\<close> here, like the other faults.
\<close>

definition video_frame :: "limelight \<Rightarrow> (byte list list \<Rightarrow> nat \<Rightarrow> byte list list) \<Rightarrow> video_config \<Rightarrow>
    encoded_frame \<Rightarrow> video_state \<Rightarrow> (sent_block list \<times> video_state) option" where
  "video_frame L rs V f st =
     (if vc_packetsize V \<le> nv_video_packet L then None
      else (let blocksize = vc_packetsize V + max_rtp_header L;
                payload = with_header_space L V f
            in case fec_plan (length payload) blocksize (vc_fec_percentage V) of
                 None \<Rightarrow> None
               | Some (blocks, percentage) \<Rightarrow>
                   (case fec_blocks payload blocks blocksize of
                      None \<Rightarrow> None
                    | Some bs \<Rightarrow> send_blocks L rs (frame_context L V f blocks percentage) 0 bs st)))"

section \<open>The batches of a block\<close>

text \<open>
  The loop over the shards sends a batch (first shard and count) when it is full or the block
  ends. \<open>batches n size next x k\<close> is the loop at shard \<open>x\<close> with \<open>k\<close> shards to go.
\<close>

definition send_batch_size :: "nat \<Rightarrow> nat" where
  "send_batch_size blocksize = min 64 (64 * 1024 div blocksize)"

fun batches :: "nat \<Rightarrow> nat \<Rightarrow> nat \<Rightarrow> nat \<Rightarrow> (nat \<times> nat) list" where
  "batches batch_size next_shard_to_send x 0 = []"
| "batches batch_size next_shard_to_send x (Suc k) =
     (if x - next_shard_to_send + 1 \<ge> batch_size \<or> k = 0
      then (next_shard_to_send, x - next_shard_to_send + 1) # batches batch_size (x + 1) (x + 1) k
      else batches batch_size next_shard_to_send (x + 1) k)"

definition block_batches :: "nat \<Rightarrow> nat \<Rightarrow> (nat \<times> nat) list" where
  "block_batches blocksize shards = batches (send_batch_size blocksize) 0 0 shards"

end
