(* ===== verification/Video_Frames.thy ===== *)
theory Video_Frames
  imports Video_Packets
begin

text \<open>
  What a receiver relies on: the data packets of a frame carry the frame, its blocks fit the
  error correction code, and the packets are numbered without a gap.
\<close>

section \<open>The library\<close>

definition limelight_ok :: "limelight \<Rightarrow> bool" where
  [inv_defs]: "limelight_ok L \<longleftrightarrow> max_rtp_header L = rtp_packet L + 4 \<and>
     (\<forall>h s. video_packet_raw L \<le> length s \<longrightarrow> length (put_pic L h s) = length s \<and>
        drop (video_packet_raw L) (put_pic L h s) = drop (video_packet_raw L) s) \<and>
     (\<forall>h s. video_packet_raw L \<le> length s \<longrightarrow> length (put_fec L h s) = length s \<and>
        drop (video_packet_raw L) (put_fec L h s) = drop (video_packet_raw L) s)"

definition rs_ok :: "(byte list list \<Rightarrow> nat \<Rightarrow> byte list list) \<Rightarrow> bool" where
  "rs_ok rs \<longleftrightarrow> (\<forall>ss n. length (rs ss n) = n)"

section \<open>Slices of a frame\<close>

lemma chunks_of_slices:
  assumes "ss \<noteq> []" "\<forall>s\<in>set (butlast ss). length s = n" "0 < length (last ss)" "length (last ss) \<le> n"
  shows "chunks n (concat ss) = ss"
proof -
  have "ss = butlast ss @ [last ss]" using assms(1) by simp
  then have "concat ss = concat (butlast ss) @ last ss" by (metis concat.simps concat_append append_Nil2)
  then show ?thesis using chunks_concat [OF assms(2-4)] assms(1) by simp
qed

text \<open>Slices changed one by one, lengths kept or all grown by the same amount, are slices again.\<close>

lemma chunks_map:
  assumes "0 < n" "\<And>x s. s \<in> set (chunks n xs) \<Longrightarrow> length (f x s) = length s + k"
  shows "chunks (n + k) (concat (map (\<lambda>(x, s). f x s) (enumerate i (chunks n xs)))) =
    map (\<lambda>(x, s). f x s) (enumerate i (chunks n xs))"
proof (cases "xs = []")
  case False
  let ?ss = "map (\<lambda>(x, s). f x s) (enumerate i (chunks n xs))"
  have ne: "chunks n xs \<noteq> []" using assms(1) False by simp
  have snoc: "chunks n xs = butlast (chunks n xs) @ [last (chunks n xs)]" using ne by simp
  have len: "\<forall>s\<in>set (butlast (chunks n xs)). length s = n" using chunks_lengths [OF assms(1)] by blast
  let ?j = "i + length (butlast (chunks n xs))"
  have "enumerate i (chunks n xs) = enumerate i (butlast (chunks n xs) @ [last (chunks n xs)])"
    by (rule arg_cong [OF snoc])
  then have e: "?ss = map (\<lambda>(x, s). f x s) (enumerate i (butlast (chunks n xs))) @ [f ?j (last (chunks n xs))]"
    by (simp add: enumerate_append_eq del: append_butlast_last_id)
  have all: "length (f x s) = n + k" if "s \<in> set (butlast (chunks n xs))" for x s
    using that len assms(2) [of s x] by (simp add: in_set_butlastD)
  show ?thesis
  proof (rule chunks_of_slices)
    show "\<forall>s\<in>set (butlast ?ss). length s = n + k"
      unfolding e using all by (auto simp: in_set_enumerate_eq)
    show "0 < length (last ?ss)" "length (last ?ss) \<le> n + k"
      unfolding e using chunks_last [OF assms(1) False] assms(1) assms(2) [OF last_in_set [OF ne], of ?j] by auto
  qed (use e in auto)
qed simp

lemma chunks_with_headers:
  assumes "0 < room"
  shows "chunks (room + raw) (concat (map (\<lambda>s. replicate raw 0 @ s) (chunks room xs))) =
    map (\<lambda>s. replicate raw (0::byte) @ s) (chunks room xs)"
  using chunks_map [OF assms, of xs "\<lambda>_ s. replicate raw 0 @ s" raw 0]
  by (simp add: split_def map_snd_enumerate flip: map_map [unfolded comp_def])

lemma chunks_blocks:
  assumes "0 < n" "\<forall>b\<in>set bs. n dvd length b"
  shows "chunks n (concat bs @ t) = concat (map (chunks n) bs) @ chunks n t"
  using assms(2)
proof (induction bs)
  case (Cons b bs)
  then obtain k where "length b = k * n" by (metis dvd_def list.set_intros(1) mult.commute)
  then show ?case using Cons chunks_append [OF assms(1), of b k "concat bs @ t"] by simp
qed simp

section \<open>The number and the size of the blocks\<close>

lemma aligned_size_bounds:
  assumes "0 < bs"
  shows "n div k \<le> aligned_size n k bs" "aligned_size n k bs < n div k + bs" "bs dvd aligned_size n k bs"
proof -
  define u v w where "u = n div k" and "v = u + (bs - 1)" and "w = (v div bs) * bs"
  have "v mod bs + w = v" unfolding w_def by (metis mod_div_mult_eq)
  moreover have "v mod bs < bs" using assms by simp
  ultimately have "u \<le> w" "w < u + bs" unfolding v_def using assms by linarith+
  moreover have "aligned_size n k bs = w" by (simp add: aligned_size_def w_def v_def u_def)
  ultimately show "n div k \<le> aligned_size n k bs" "aligned_size n k bs < n div k + bs"
    unfolding u_def by simp_all
  show "bs dvd aligned_size n k bs" by (simp add: aligned_size_def)
qed

text \<open>The offset of the last block is in the payload when the payload is not too short.\<close>

lemma last_block_offset:
  assumes "0 < bs" "0 < n" "n * ((n - 1) * bs) \<le> len" "0 < len"
  shows "(n - 1) * aligned_size len n bs < len"
proof (cases "n = 1")
  case False
  then have n1: "0 < n - 1" using assms(2) by simp
  have u: "(n - 1) * bs \<le> len div n"
    using assms(2,3) by (metis div_le_mono nonzero_mult_div_cancel_left not_gr_zero)
  have "(n - 1) * aligned_size len n bs < (n - 1) * (len div n + bs)"
    using aligned_size_bounds(2) [OF assms(1), of len n] n1 by (intro mult_strict_left_mono)
  also have "\<dots> = (n - 1) * (len div n) + (n - 1) * bs" by (simp add: distrib_left)
  also have "\<dots> \<le> (n - 1) * (len div n) + len div n" using u by simp
  also have "\<dots> = n * (len div n)" using assms(2) by (cases n) simp_all
  also have "\<dots> \<le> len" by (simp add: mult.commute)
  finally show ?thesis .
qed (use assms(4) in simp)

text \<open>No block is larger than what the error correction takes.\<close>

lemma block_sizes:
  assumes "0 < n" "n \<le> Suc bs" "0 < bs" "bs dvd m" "len \<le> n * m" "(n - 1) * aligned_size len n bs \<le> len"
  shows "aligned_size len n bs \<le> m" "len - (n - 1) * aligned_size len n bs \<le> m"
proof -
  let ?a = "aligned_size len n bs" and ?u = "len div n"
  have a: "?u \<le> ?a" "?a < ?u + bs" "bs dvd ?a" using aligned_size_bounds [OF assms(3)] by auto
  have "?u \<le> m" using div_le_mono [OF assms(5), of n] assms(1) by simp
  then have "?a < m + bs" using a(2) by simp
  then show am: "?a \<le> m" using a(3) assms(4) assms(3)
    by (metis add_diff_inverse_nat add_less_cancel_left dvd_diff_nat linorder_not_less nat_dvd_not_less
        nat_less_le zero_less_diff)
  show "len - (n - 1) * ?a \<le> m"
  proof (cases "len \<le> n * ?a")
    case True
    have "n * ?a = (n - 1) * ?a + ?a" using assms(1) by (cases n) simp_all
    then show ?thesis using True am by simp
  next
    case False
    have s: "len = n * ?u + len mod n" by simp
    have r: "len mod n < n" using assms(1) by simp
    have "n * ?a < n * ?u + n" using False s r by linarith
    then have "n * ?a < n * (Suc ?u)" by simp
    then have "?a < Suc ?u" using assms(1) by (metis mult_less_cancel1)
    then have eq: "?a = ?u" using a(1) by simp
    have "?a \<noteq> m"
    proof
      assume "?a = m"
      then have "len \<le> n * ?a" using assms(5) by simp
      then show False using False by simp
    qed
    then have "?a + bs \<le> m" using am a(3) assms(4)
      by (metis dvd_diff_nat dvd_imp_le le_add_diff_inverse nat_add_left_cancel_le nat_less_le zero_less_diff)
    moreover have "len - (n - 1) * ?a = ?a + len mod n"
      using s eq assms(1) by (cases n) simp_all
    ultimately show ?thesis using r assms(2) by linarith
  qed
qed

section \<open>The blocks partition the payload\<close>

lemma those_Some: "those (map f xs) = Some ys \<Longrightarrow> ys = map (\<lambda>x. the (f x)) xs \<and> (\<forall>x\<in>set xs. f x \<noteq> None)"
  by (induction xs arbitrary: ys) (auto split: option.splits)

lemma those_total: "\<forall>x\<in>set xs. f x \<noteq> None \<Longrightarrow> those (map f xs) = Some (map (\<lambda>x. the (f x)) xs)"
  by (induction xs) (auto split: option.splits)

lemma concat_slices: "m * a \<le> length p \<Longrightarrow> concat (map (\<lambda>x. take a (drop (x * a) p)) [0..<m]) = take (m * a) p"
proof (induction m)
  case (Suc m)
  then have "take (Suc m * a) p = take (m * a) p @ take a (drop (m * a) p)"
    by (metis add.commute mult_Suc take_add)
  then show ?case using Suc by simp
qed simp

lemma fec_blocks_Some:
  assumes "fec_blocks p n bs = Some blocks" "0 < n" "0 < bs"
  shows "\<exists>ss t. blocks = ss @ [t] \<and> length blocks = n \<and> concat blocks = p \<and>
    (n - 1) * aligned_size (length p) n bs \<le> length p \<and>
    (\<forall>b\<in>set ss. length b = aligned_size (length p) n bs) \<and>
    length t = length p - (n - 1) * aligned_size (length p) n bs"
proof -
  let ?a = "aligned_size (length p) n bs"
  let ?f = "\<lambda>x. if x = n - 1 then substr p (x * ?a) None else substr p (x * ?a) (Some ?a)"
  have those: "those (map ?f [0..<n]) = Some blocks" using assms(1) by (simp add: fec_blocks_def Let_def)
  have n: "[0..<n] = [0..<n - 1] @ [n - 1]" using assms(2) upt_Suc_append [of 0 "n - 1"] by simp
  have le: "(n - 1) * ?a \<le> length p"
    using those_Some [OF those] assms(2) by (auto simp: substr_def dest!: bspec [of _ _ "n - 1"] split: if_splits)
  have le': "x * ?a \<le> length p" if "x < n" for x
  proof -
    have "x * ?a \<le> (n - 1) * ?a" using that by (intro mult_le_mono1) simp
    then show ?thesis using le by (rule order_trans)
  qed
  have b: "blocks = map (\<lambda>x. take ?a (drop (x * ?a) p)) [0..<n - 1] @ [drop ((n - 1) * ?a) p]"
  proof -
    have "blocks = map (\<lambda>x. the (?f x)) [0..<n]" using those_Some [OF those] by blast
    also have "\<dots> = map (\<lambda>x. the (?f x)) [0..<n - 1] @ [the (?f (n - 1))]" by (subst n) simp
    also have "map (\<lambda>x. the (?f x)) [0..<n - 1] = map (\<lambda>x. take ?a (drop (x * ?a) p)) [0..<n - 1]"
    proof (intro map_cong refl)
      fix x assume "x \<in> set [0..<n - 1]"
      then have "x < n - 1" "x * ?a \<le> length p" using le' [of x] by simp_all
      then show "the (?f x) = take ?a (drop (x * ?a) p)" by (simp add: substr_def)
    qed
    also have "the (?f (n - 1)) = drop ((n - 1) * ?a) p" using le by (simp add: substr_def)
    finally show ?thesis .
  qed
  have c: "concat blocks = p" unfolding b using concat_slices [OF le] by simp
  have l: "\<forall>b\<in>set (map (\<lambda>x. take ?a (drop (x * ?a) p)) [0..<n - 1]). length b = ?a"
  proof
    fix b assume "b \<in> set (map (\<lambda>x. take ?a (drop (x * ?a) p)) [0..<n - 1])"
    then obtain x where x: "x < n - 1" "b = take ?a (drop (x * ?a) p)" by auto
    then have "Suc x * ?a \<le> length p" using le' [of "Suc x"] by simp
    then show "length b = ?a" using x(2) by simp
  qed
  have nb: "length blocks = n" unfolding b using assms(2) by simp
  have lt: "length (drop ((n - 1) * ?a) p) = length p - (n - 1) * ?a" by (rule length_drop)
  from b nb c le l lt show ?thesis by blast
qed

lemma fec_blocks_total:
  assumes "0 < n" "(n - 1) * aligned_size (length p) n bs \<le> length p"
  shows "\<exists>blocks. fec_blocks p n bs = Some blocks"
proof -
  have "x * aligned_size (length p) n bs \<le> length p" if "x < n" for x
  proof -
    have "x * aligned_size (length p) n bs \<le> (n - 1) * aligned_size (length p) n bs"
      using that by (intro mult_le_mono1) simp
    then show ?thesis using assms(2) by (rule order_trans)
  qed
  then have "\<forall>x\<in>set [0..<n]. \<not> length p < x * aligned_size (length p) n bs" by (simp add: not_less)
  then have "\<forall>x\<in>set [0..<n]. (if x = n - 1 then substr p (x * aligned_size (length p) n bs) None
      else substr p (x * aligned_size (length p) n bs) (Some (aligned_size (length p) n bs))) \<noteq> None"
    unfolding substr_def by fastforce
  from those_total [OF this] show ?thesis unfolding fec_blocks_def Let_def by blast
qed

section \<open>The shards of a block\<close>

lemma data_shards_of_chunks:
  assumes "0 < bs"
  shows "data_shards_of p bs = map (\<lambda>s. s @ replicate (bs - length s) 0) (chunks bs p)"
proof -
  let ?q = "length p div bs"
  have len: "length (take (?q * bs) p) = ?q * bs" by (simp add: div_times_less_eq_dividend)
  have split: "chunks bs p = chunks bs (take (?q * bs) p) @ chunks bs (drop (?q * bs) p)"
    using chunks_append [OF assms len, of "drop (?q * bs) p"] by simp
  have lc: "length (chunks bs (take (?q * bs) p)) = ?q"
    using length_chunks_round [OF assms, of "take (?q * bs) p"] len assms by simp
  have full: "chunks bs (take (?q * bs) p) = map (\<lambda>x. take bs (drop (x * bs) p)) [0..<?q]"
  proof (rule nth_equalityI)
    fix x assume "x < length (chunks bs (take (?q * bs) p))"
    then have x: "x < ?q" using lc by simp
    then have "Suc x * bs \<le> ?q * bs" by (intro mult_le_mono1) simp
    then have "take bs (drop (x * bs) (take (?q * bs) p)) = take bs (drop (x * bs) p)"
      by (simp add: drop_take min_def)
    then show "chunks bs (take (?q * bs) p) ! x = map (\<lambda>x. take bs (drop (x * bs) p)) [0..<?q] ! x"
      using nth_chunks [OF assms, of x "take (?q * bs) p"] x lc by simp
  qed (simp add: lc)
  have pad: "map (\<lambda>s. s @ replicate (bs - length s) 0) (map (\<lambda>x. take bs (drop (x * bs) p)) [0..<?q]) =
      map (\<lambda>x. take bs (drop (x * bs) p)) [0..<?q]"
  proof -
    have "bs - length (take bs (drop (x * bs) p)) = 0" if "x < ?q" for x
    proof -
      have "Suc x * bs \<le> ?q * bs" using that by (intro mult_le_mono1) simp
      then have "Suc x * bs \<le> length p" using div_times_less_eq_dividend by (rule order_trans)
      then show ?thesis by simp
    qed
    then show ?thesis by (simp add: comp_def)
  qed
  have rest: "length (drop (?q * bs) p) = length p mod bs" by (simp add: minus_div_mult_eq_mod)
  have "chunks bs (drop (?q * bs) p) = (if length p mod bs \<noteq> 0 then [drop (?q * bs) p] else [])"
    using rest assms chunks_single [of "drop (?q * bs) p" bs]
    by (cases "length p mod bs = 0") (auto simp: less_imp_le)
  then show ?thesis
    unfolding split map_append full pad using rest
    by (auto simp: data_shards_of_def Let_def)
qed

lemma fec_encode_Some:
  assumes "fec_encode rs p bs F m = Some fec" "0 < bs"
  shows "fec_data_shards fec = length (chunks bs p) \<and>
    (\<exists>parity. fec_shards fec = map (\<lambda>s. s @ replicate (bs - length s) 0) (chunks bs p) @ parity)"
  using assms by (auto simp: fec_encode_def fec_params_def data_shards_of_chunks Let_def length_chunks_round
      split: option.splits if_splits)

section \<open>The packets of a block\<close>

lemma encrypt_shards_facts:
  assumes "encrypt_shards C c shards = (ps, c')"
  shows "map vp_header ps = map fst shards"
    "fr_cipher C = None \<Longrightarrow> map vp_bytes ps = map snd shards \<and> c' = c"
    "fr_cipher C = Some e \<Longrightarrow> c' = c + word_of_nat (length shards) \<and>
       map (\<lambda>q. map_option px_iv (vp_prefix q)) ps =
         map (\<lambda>i. Some (video_iv (c + word_of_nat i))) [0..<length shards]"
proof -
  show "map vp_header ps = map fst shards"
    using assms by (induction C c shards arbitrary: ps c' rule: encrypt_shards.induct)
      (auto split: option.splits prod.splits simp: Let_def)
  show "fr_cipher C = None \<Longrightarrow> map vp_bytes ps = map snd shards \<and> c' = c"
    using assms by (induction C c shards arbitrary: ps c' rule: encrypt_shards.induct)
      (auto split: prod.splits simp: Let_def)
  show "c' = c + word_of_nat (length shards) \<and>
       map (\<lambda>q. map_option px_iv (vp_prefix q)) ps =
         map (\<lambda>i. Some (video_iv (c + word_of_nat i))) [0..<length shards]"
    if "fr_cipher C = Some e"
    using assms
  proof (induction shards arbitrary: ps c c')
    case (Cons s shards)
    obtain h b where s: "s = (h, b)" by (cases s)
    obtain tg ct where e: "e (video_iv c) b = (tg, ct)" by (cases "e (video_iv c) b")
    obtain ps1 c1 where r: "encrypt_shards C (c + 1) shards = (ps1, c1)"
      by (cases "encrypt_shards C (c + 1) shards")
    have ps: "ps = \<lparr>vp_prefix = Some \<lparr>px_iv = video_iv c, px_frameNumber = fr_index C, px_tag = tg\<rparr>,
        vp_header = h, vp_bytes = ct\<rparr> # ps1" "c' = c1"
      using Cons.prems that s e r by (simp_all add: Let_def)
    have up: "[0..<length (s # shards)] = 0 # map Suc [0..<length shards]" by (simp add: upt_conv_Cons map_Suc_upt del: upt_Suc)
    show ?case unfolding up using Cons.IH [OF r] ps e s by (simp add: add.assoc)
  qed simp
qed

lemma send_block_Some:
  assumes "send_block L rs C k p st = Some (sb, st')" "0 < fr_blocksize C" "limelight_ok L"
    and "\<forall>s\<in>set (chunks (fr_blocksize C) p). video_packet_raw L \<le> length s"
  shows "\<exists>fec with_pic. fec_encode rs with_pic (fr_blocksize C) (fr_percentage C) (fr_min_parity C) = Some fec \<and>
    chunks (fr_blocksize C) with_pic =
      map (\<lambda>(x, s). put_pic L (pic_header_of C (vs_lowseq st) k (length (chunks (fr_blocksize C) p)) x) s)
        (enumerate 0 (chunks (fr_blocksize C) p)) \<and>
    sb_data_shards sb = fec_data_shards fec \<and>
    encrypt_shards C (vs_gcm_iv_counter st)
      (map (\<lambda>(x, s). let h = fec_header_of C (vs_lowseq st) k fec x in (h, put_fec L h s))
        (enumerate 0 (fec_shards fec))) = (sb_packets sb, vs_gcm_iv_counter st') \<and>
    vs_lowseq st' = vs_lowseq st + word_of_nat (fec_nr_shards fec)"
proof -
  let ?g = "\<lambda>x s. put_pic L (pic_header_of C (vs_lowseq st) k (length (chunks (fr_blocksize C) p)) x) s"
  let ?w = "concat (map (\<lambda>(x, s). ?g x s) (enumerate 0 (chunks (fr_blocksize C) p)))"
  have n: "(length p + (fr_blocksize C - 1)) div fr_blocksize C = length (chunks (fr_blocksize C) p)"
    by (rule length_chunks [OF assms(2), symmetric])
  have "chunks (fr_blocksize C + 0) ?w = map (\<lambda>(x, s). ?g x s) (enumerate 0 (chunks (fr_blocksize C) p))"
    by (rule chunks_map) (use assms in \<open>auto simp: limelight_ok_def\<close>)
  moreover obtain fec where "fec_encode rs ?w (fr_blocksize C) (fr_percentage C) (fr_min_parity C) = Some fec"
    using assms(1) unfolding send_block_def n by (auto simp: Let_def split: option.splits)
  ultimately show ?thesis
    using assms(1) unfolding send_block_def n
    by (intro exI [of _ fec] exI [of _ ?w]) (auto simp: Let_def split: prod.splits)
qed

lemma send_block_bodies:
  assumes "send_block L rs C k p st = Some (sb, st')" "0 < fr_blocksize C" "limelight_ok L"
    and "\<forall>s\<in>set (chunks (fr_blocksize C) p). video_packet_raw L \<le> length s" "fr_cipher C = None"
  shows "map (\<lambda>q. drop (video_packet_raw L) (vp_bytes q)) (take (sb_data_shards sb) (sb_packets sb)) =
    map (\<lambda>s. drop (video_packet_raw L) s @ replicate (fr_blocksize C - length s) 0) (chunks (fr_blocksize C) p)"
proof -
  let ?bs = "fr_blocksize C" and ?raw = "video_packet_raw L"
  obtain fec w where fec: "fec_encode rs w ?bs (fr_percentage C) (fr_min_parity C) = Some fec"
    and w: "chunks ?bs w = map (\<lambda>(x, s). put_pic L (pic_header_of C (vs_lowseq st) k (length (chunks ?bs p)) x) s)
        (enumerate 0 (chunks ?bs p))"
    and d: "sb_data_shards sb = fec_data_shards fec"
    and enc: "encrypt_shards C (vs_gcm_iv_counter st)
      (map (\<lambda>(x, s). let h = fec_header_of C (vs_lowseq st) k fec x in (h, put_fec L h s))
        (enumerate 0 (fec_shards fec))) = (sb_packets sb, vs_gcm_iv_counter st')"
    using send_block_Some [OF assms(1-4)] by blast
  obtain parity where sh: "fec_data_shards fec = length (chunks ?bs w)"
      "fec_shards fec = map (\<lambda>s. s @ replicate (?bs - length s) 0) (chunks ?bs w) @ parity"
    using fec_encode_Some [OF fec assms(2)] by blast
  have len: "length (chunks ?bs w) = length (chunks ?bs p)" by (simp add: w)
  have bytes: "map vp_bytes (sb_packets sb) =
      map (\<lambda>(x, s). put_fec L (fec_header_of C (vs_lowseq st) k fec x) s) (enumerate 0 (fec_shards fec))"
    using encrypt_shards_facts(2) [OF enc assms(5)] by (simp add: comp_def split_def Let_def)
  show ?thesis
  proof (rule nth_equalityI)
    have "length (sb_packets sb) = length (fec_shards fec)" using arg_cong [OF bytes, of length] by simp
    then show l: "length (map (\<lambda>q. drop ?raw (vp_bytes q)) (take (sb_data_shards sb) (sb_packets sb))) =
        length (map (\<lambda>s. drop ?raw s @ replicate (?bs - length s) 0) (chunks ?bs p))"
      using d sh len by simp
    fix i assume "i < length (map (\<lambda>q. drop ?raw (vp_bytes q)) (take (sb_data_shards sb) (sb_packets sb)))"
    then have "i < length (chunks ?bs p)" unfolding l by simp
    then have i: "i < length (chunks ?bs p)" "i < length (sb_packets sb)" "i < length (fec_shards fec)"
      using \<open>length (sb_packets sb) = length (fec_shards fec)\<close> sh len by simp_all
    let ?s = "chunks ?bs p ! i"
    let ?t = "put_pic L (pic_header_of C (vs_lowseq st) k (length (chunks ?bs p)) i) ?s"
    have ok: "?raw \<le> length ?s" using assms(4) i(1) by simp
    have t: "length ?t = length ?s" "drop ?raw ?t = drop ?raw ?s" using assms(3) ok by (auto simp: limelight_ok_def)
    have "fec_shards fec ! i = ?t @ replicate (?bs - length ?s) 0"
      using i len t by (simp add: sh(2) nth_append w nth_enumerate_eq)
    then have "vp_bytes (sb_packets sb ! i) =
        put_fec L (fec_header_of C (vs_lowseq st) k fec i) (?t @ replicate (?bs - length ?s) 0)"
      using arg_cong [OF bytes, of "\<lambda>xs. xs ! i"] i by (simp add: nth_enumerate_eq)
    moreover have "drop ?raw (put_fec L h (?t @ replicate (?bs - length ?s) 0)) =
        drop ?raw ?s @ replicate (?bs - length ?s) 0" for h
      using assms(3) ok t by (simp add: limelight_ok_def)
    ultimately show "map (\<lambda>q. drop ?raw (vp_bytes q)) (take (sb_data_shards sb) (sb_packets sb)) ! i =
        map (\<lambda>s. drop ?raw s @ replicate (?bs - length s) 0) (chunks ?bs p) ! i"
      using i d sh len by simp
  qed
qed

section \<open>The plan of a frame\<close>

lemma ceil_div:
  assumes "0 < (m::nat)"
  shows "n \<le> (n + (m - 1)) div m * m" "0 < n \<Longrightarrow> ((n + (m - 1)) div m - 1) * m < n"
proof -
  define q r where "q = (n + (m - 1)) div m" and "r = (n + (m - 1)) mod m"
  have e: "n + (m - 1) = q * m + r" "r < m" using assms by (simp_all add: q_def r_def)
  then show "n \<le> (n + (m - 1)) div m * m" using assms unfolding q_def [symmetric] by linarith
  show "((n + (m - 1)) div m - 1) * m < n" if n: "0 < n"
  proof (cases q)
    case 0
    then show ?thesis unfolding q_def [symmetric] using n by simp
  next
    case (Suc k)
    then have "n + (m - 1) = m + k * m + r" using e by simp
    then have "k * m < n" using assms by linarith
    then show ?thesis unfolding q_def [symmetric] Suc by simp
  qed
qed

lemma max_data_shards_large: "F \<le> 255 \<Longrightarrow> 71 \<le> max_data_shards_per_fec_block F"
proof -
  assume "F \<le> 255"
  then have "25500 div 355 \<le> 25500 div (100 + F)" by (intro div_le_mono2) simp_all
  then show ?thesis by (simp add: max_data_shards_per_fec_block_def DATA_SHARDS_MAX_def)
qed

lemma fec_plan_Some:
  assumes "fec_plan len bs F = Some (n, F')" "0 < len"
  shows "0 < n" "n \<le> 4" "F' \<noteq> 0 \<Longrightarrow> F' = F \<and> len \<le> n * (max_data_shards_per_fec_block F * bs)"
    "F \<le> 255 \<Longrightarrow> n * ((n - 1) * bs) \<le> len"
proof -
  define D where "D = max_data_shards_per_fec_block F"
  define q where "q = (len + (D * bs - 1)) div (D * bs)"
  have p: "0 < D * bs" "(n, F') = (if q > 4 then (4, 0) else (q, F))"
    using assms(1) by (auto simp: fec_plan_def Let_def D_def q_def MAX_FEC_BLOCKS_def split: if_splits)
  have c: "len \<le> q * (D * bs)" "(q - 1) * (D * bs) < len"
    using ceil_div [OF p(1), of len] assms(2) by (simp_all add: q_def)
  then have q0: "0 < q" using assms(2) by (cases q) simp_all
  show "0 < n" "n \<le> 4" using p(2) q0 by (auto split: if_splits)
  show "F' = F \<and> len \<le> n * (max_data_shards_per_fec_block F * bs)" if "F' \<noteq> 0"
    using p(2) c(1) that by (auto simp: D_def split: if_splits)
  show "n * ((n - 1) * bs) \<le> len" if "F \<le> 255"
  proof -
    have D: "4 \<le> D" using max_data_shards_large [OF that] by (simp add: D_def)
    have le: "n \<le> 4" "n \<le> q" using p(2) by (auto split: if_splits)
    have "n * ((n - 1) * bs) = (n - 1) * (n * bs)" by simp
    also have "\<dots> \<le> (q - 1) * (D * bs)" using le D by (intro mult_le_mono) simp_all
    also have "\<dots> \<le> len" using c(2) by simp
    finally show ?thesis .
  qed
qed

text \<open>The error correction code takes the shards of a block.\<close>

lemma parity_fits:
  assumes "data \<le> max_data_shards_per_fec_block F"
  shows "data + (data * F + 99) div 100 \<le> 255"
proof -
  have "data * (100 + F) \<le> (25500 div (100 + F)) * (100 + F)"
    using assms by (intro mult_le_mono1) (simp add: max_data_shards_per_fec_block_def DATA_SHARDS_MAX_def)
  also have "\<dots> \<le> 25500" by (rule div_times_less_eq_dividend)
  finally have "data * F + 99 \<le> 25500 - 100 * data + 99 \<and> 100 * data \<le> 25500" by (simp add: distrib_left)
  then show ?thesis by linarith
qed

lemma fec_encode_nr:
  assumes "fec_encode rs p bs F m = Some fec" "0 < bs" "rs_ok rs" "m < 2 ^ 32" "length (chunks bs p) * F < 2 ^ 32"
  shows "length (fec_shards fec) = fec_nr_shards fec \<and>
    (fec_nr_shards fec = length (chunks bs p) + (length (chunks bs p) * F + 99) div 100 \<or>
     fec_nr_shards fec = length (chunks bs p) + m)"
proof -
  let ?d = "length (chunks bs p)"
  have s: "size_t (?d * F + 99) = ?d * F + 99" "size_t (100 * m) = 100 * m"
    using assms(4,5) by (simp_all add: size_t_def)
  have d: "length p div bs + (if length p mod bs \<noteq> 0 then 1 else 0) = ?d"
    by (rule length_chunks_round [OF assms(2), symmetric])
  have pct: "(100 * m) div ?d \<noteq> 0" if "(?d * F + 99) div 100 < m" "F \<noteq> 0" "?d \<noteq> 0"
  proof -
    have "?d * F + 99 < 100 * m" using that(1) by linarith
    moreover have "?d \<le> ?d * F" using that(2) by simp
    ultimately have "?d \<le> 100 * m" by linarith
    then show ?thesis using that(3) by (simp add: div_greater_zero_iff)
  qed
  have pars: "fec_params (length p) bs F m =
      (if (?d * F + 99) div 100 < m \<and> F \<noteq> 0 then
         (if ?d = 0 then None else Some (?d, m, (100 * m) div ?d))
       else Some (?d, (?d * F + 99) div 100, F))"
    using assms(2) unfolding fec_params_def Let_def d s by simp
  have sh: "length (data_shards_of p bs) = ?d" by (simp add: data_shards_of_chunks [OF assms(2)])
  show ?thesis
  proof (cases "(?d * F + 99) div 100 < m \<and> F \<noteq> 0")
    case True
    then have "?d \<noteq> 0" using assms(1) pars by (auto simp: fec_encode_def)
    then show ?thesis using assms(1,3) True pars sh pct
      by (auto simp: fec_encode_def Let_def rs_ok_def split: if_splits)
  next
    case False
    have "F = 0 \<Longrightarrow> (?d * F + 99) div 100 = 0" by simp
    then show ?thesis using assms(1,3) False pars sh
      by (auto simp: fec_encode_def Let_def rs_ok_def split: if_splits)
  qed
qed

lemma fec_encode_total:
  assumes "0 < bs" "bs < 2 ^ 32" "m \<le> 255" "length (chunks bs p) * F \<le> 65535" "p \<noteq> []"
  shows "\<exists>fec. fec_encode rs p bs F m = Some fec"
proof -
  let ?d = "length (chunks bs p)"
  have s: "size_t (?d * F + 99) = ?d * F + 99" using assms(4) by (simp add: size_t_def)
  have d: "length p div bs + (if length p mod bs \<noteq> 0 then 1 else 0) = ?d"
    by (rule length_chunks_round [OF assms(1), symmetric])
  have d0: "?d \<noteq> 0" using assms(1,5) by simp
  have pars: "\<exists>parity pct. fec_params (length p) bs F m = Some (?d, parity, pct) \<and> parity \<le> 1000"
    using assms(1,3,4) d0 unfolding fec_params_def Let_def d s by auto
  then obtain parity pct where pp: "fec_params (length p) bs F m = Some (?d, parity, pct)" "parity \<le> 1000" by blast
  have "((if length p mod bs \<noteq> 0 then 1 else 0) + parity) * bs \<le> 1001 * 2 ^ 32"
    using pp(2) assms(2) by (intro mult_le_mono) auto
  then have "size_t (((if length p mod bs \<noteq> 0 then 1 else 0) + parity) * bs) =
      ((if length p mod bs \<noteq> 0 then 1 else 0) + parity) * bs"
    unfolding size_t_def by (intro mod_less) (rule le_less_trans, assumption, simp)
  then show ?thesis using pp(1) by (simp add: fec_encode_def Let_def)
qed

section \<open>A whole frame\<close>

lemma frame_header_length: "length (frame_header L V f) = 8"
  by (simp add: frame_header_def le_bytes_def)

lemma with_header_space_slices:
  assumes "limelight_ok L" "nv_video_packet L < vc_packetsize V"
  shows "chunks (vc_packetsize V + max_rtp_header L) (with_header_space L V f) =
      map (\<lambda>s. replicate (video_packet_raw L) 0 @ s)
        (chunks (vc_packetsize V - nv_video_packet L) (frame_header L V f @ frame_payload f))"
    "with_header_space L V f \<noteq> []"
proof -
  let ?room = "vc_packetsize V - nv_video_packet L"
  have room: "0 < ?room" using assms(2) by simp
  have bs: "vc_packetsize V + max_rtp_header L = ?room + video_packet_raw L"
    using assms by (simp add: limelight_ok_def video_packet_raw_def)
  have w: "with_header_space L V f =
      concat (map (\<lambda>s. replicate (video_packet_raw L) 0 @ s) (chunks ?room (frame_header L V f @ frame_payload f)))"
    unfolding with_header_space_def bs using concat_and_insert_slices [OF room] by simp
  show c: "chunks (vc_packetsize V + max_rtp_header L) (with_header_space L V f) =
      map (\<lambda>s. replicate (video_packet_raw L) 0 @ s) (chunks ?room (frame_header L V f @ frame_payload f))"
    unfolding w bs by (rule chunks_with_headers [OF room])
  have "frame_header L V f \<noteq> []" using frame_header_length [of L V f] by auto
  then have "chunks (vc_packetsize V + max_rtp_header L) (with_header_space L V f) \<noteq> []"
    unfolding c using room by simp
  then show "with_header_space L V f \<noteq> []" by auto
qed

text \<open>What a frame that is sent goes through.\<close>

lemma video_frame_Some:
  assumes "video_frame L rs V f st = Some (sent, st')" "limelight_ok L"
  shows "\<exists>n pct blocks. nv_video_packet L < vc_packetsize V \<and>
    fec_plan (length (with_header_space L V f)) (vc_packetsize V + max_rtp_header L) (vc_fec_percentage V) = Some (n, pct) \<and>
    fec_blocks (with_header_space L V f) n (vc_packetsize V + max_rtp_header L) = Some blocks \<and>
    send_blocks L rs (frame_context L V f n pct) 0 blocks st = Some (sent, st') \<and>
    concat (map (chunks (vc_packetsize V + max_rtp_header L)) blocks) =
      map (\<lambda>s. replicate (video_packet_raw L) 0 @ s)
        (chunks (vc_packetsize V - nv_video_packet L) (frame_header L V f @ frame_payload f))"
proof -
  let ?bs = "vc_packetsize V + max_rtp_header L" and ?p = "with_header_space L V f"
  have nv: "nv_video_packet L < vc_packetsize V"
    using assms(1) by (simp add: video_frame_def split: if_splits)
  then obtain n pct blocks where b: "fec_plan (length ?p) ?bs (vc_fec_percentage V) = Some (n, pct)"
      "fec_blocks ?p n ?bs = Some blocks" "send_blocks L rs (frame_context L V f n pct) 0 blocks st = Some (sent, st')"
    using assms(1) by (auto simp: video_frame_def Let_def split: option.splits)
  have ne: "?p \<noteq> []" by (rule with_header_space_slices(2) [OF assms(2) nv])
  have "0 < length ?p" using ne by simp
  then have n: "0 < n" by (rule fec_plan_Some(1) [OF b(1)])
  obtain ss t where ss: "blocks = ss @ [t]" "concat blocks = ?p" "\<forall>b\<in>set ss. length b = aligned_size (length ?p) n ?bs"
    using fec_blocks_Some [OF b(2) n] nv by auto
  have "chunks ?bs (concat ss @ t) = concat (map (chunks ?bs) ss) @ chunks ?bs t"
    by (rule chunks_blocks) (use ss(3) nv in \<open>auto simp: aligned_size_def\<close>)
  then have "concat (map (chunks ?bs) blocks) = chunks ?bs ?p"
    unfolding ss(2) [symmetric] by (simp add: ss(1))
  then show ?thesis using b nv with_header_space_slices(1) [OF assms(2) nv, of f] by auto
qed

lemma send_blocks_induct:
  assumes "send_blocks L rs C k blocks st = Some (sent, st')"
    and "\<And>b k st sb st'. b \<in> set blocks \<Longrightarrow> send_block L rs C k b st = Some (sb, st') \<Longrightarrow> P b sb"
  shows "list_all2 P blocks sent"
  using assms
proof (induction blocks arbitrary: k st sent)
  case (Cons b bs)
  obtain sb st1 rest st2 where r: "send_block L rs C k b st = Some (sb, st1)"
      "send_blocks L rs C (Suc k) bs st1 = Some (rest, st2)" "sent = sb # rest" "st2 = st'"
    using Cons.prems(1) by (auto split: option.splits)
  then show ?case using Cons.IH [of "Suc k" st1 rest] Cons.prems(2) by simp
qed simp

lemma concat_padded:
  assumes "0 < n" "xs \<noteq> []"
  shows "\<exists>k<n. concat (map (\<lambda>s. s @ replicate (n - length s) 0) (chunks n xs)) = xs @ replicate k 0"
proof -
  have ne: "chunks n xs \<noteq> []" using assms by simp
  have c: "chunks n xs = butlast (chunks n xs) @ [last (chunks n xs)]" using ne by simp
  have "map (\<lambda>s. s @ replicate (n - length s) 0) (butlast (chunks n xs)) = butlast (chunks n xs)"
    by (rule map_idI) (use chunks_lengths [OF assms(1)] in auto)
  moreover have "concat (butlast (chunks n xs)) @ last (chunks n xs) = xs"
    using concat_chunks [OF assms(1), of xs] c by (metis concat.simps concat_append append_Nil2)
  ultimately have "concat (map (\<lambda>s. s @ replicate (n - length s) 0) (butlast (chunks n xs) @ [last (chunks n xs)])) =
      xs @ replicate (n - length (last (chunks n xs))) 0"
    by (simp flip: append_assoc)
  then show ?thesis using c chunks_last [OF assms] assms(1)
    by (metis diff_less)
qed

text \<open>
  C2: The data packets of a frame carry the frame: for every frame that is sent without
  encryption, the bytes after the packet headers of the data packets of its blocks, at most four
  of them, put together are the frame header and the frame, followed by fewer padding zeros than
  one packet holds.
\<close>
theorem frame_content:
  assumes "limelight_ok L" "vc_cipher V = None" "video_frame L rs V f st = Some (sent, st')"
  shows "length sent \<le> 4 \<and> (\<exists>k < vc_packetsize V - nv_video_packet L.
    concat (map (\<lambda>b. concat (map (\<lambda>p. drop (video_packet_raw L) (vp_bytes p))
      (take (sb_data_shards b) (sb_packets b)))) sent) =
    frame_header L V f @ frame_payload f @ replicate k 0)"
proof -
  let ?raw = "video_packet_raw L" and ?room = "vc_packetsize V - nv_video_packet L"
    and ?bs = "vc_packetsize V + max_rtp_header L" and ?d = "frame_header L V f @ frame_payload f"
  obtain n pct blocks where v: "nv_video_packet L < vc_packetsize V"
    "fec_plan (length (with_header_space L V f)) ?bs (vc_fec_percentage V) = Some (n, pct)"
    "fec_blocks (with_header_space L V f) n ?bs = Some blocks"
    "send_blocks L rs (frame_context L V f n pct) 0 blocks st = Some (sent, st')"
    and c: "concat (map (chunks ?bs) blocks) = map (\<lambda>s. replicate ?raw 0 @ s) (chunks ?room ?d)"
    using video_frame_Some [OF assms(3,1)] by blast
  let ?pad = "\<lambda>s. drop ?raw s @ replicate (?bs - length s) 0"
  have C: "fr_blocksize (frame_context L V f n pct) = ?bs" "fr_cipher (frame_context L V f n pct) = None"
    using assms(2) by (simp_all add: frame_context_def)
  have raw: "?raw \<le> length s" if "b \<in> set blocks" "s \<in> set (chunks ?bs b)" for b s
  proof -
    have "s \<in> set (concat (map (chunks ?bs) blocks))" using that by auto
    then show ?thesis unfolding c by auto
  qed
  have l2: "list_all2 (\<lambda>b sb. map (\<lambda>q. drop ?raw (vp_bytes q)) (take (sb_data_shards sb) (sb_packets sb)) =
      map ?pad (chunks ?bs b)) blocks sent"
    by (rule send_blocks_induct [OF v(4)])
      (use send_block_bodies [OF _ _ assms(1)] C raw v(1) in auto)
  then have "map (\<lambda>sb. map (\<lambda>q. drop ?raw (vp_bytes q)) (take (sb_data_shards sb) (sb_packets sb))) sent =
      map (\<lambda>b. map ?pad (chunks ?bs b)) blocks"
    by (induction rule: list_all2_induct) simp_all
  then have "concat (map (\<lambda>b. concat (map (\<lambda>q. drop ?raw (vp_bytes q)) (take (sb_data_shards b) (sb_packets b)))) sent) =
      concat (map (\<lambda>b. concat (map ?pad (chunks ?bs b))) blocks)"
    by (metis (no_types, lifting) map_map comp_def map_eq_conv)
  also have "\<dots> = concat (map ?pad (concat (map (chunks ?bs) blocks)))"
    by (induction blocks) simp_all
  also have "\<dots> = concat (map (\<lambda>s. s @ replicate (?room - length s) 0) (chunks ?room ?d))"
  proof -
    have "?bs - (?raw + length s) = ?room - length s" for s :: "byte list"
      using assms(1) by (simp add: limelight_ok_def video_packet_raw_def)
    then show ?thesis unfolding c by (simp add: comp_def)
  qed
  finally have e: "concat (map (\<lambda>b. concat (map (\<lambda>q. drop ?raw (vp_bytes q)) (take (sb_data_shards b) (sb_packets b)))) sent) =
      concat (map (\<lambda>s. s @ replicate (?room - length s) 0) (chunks ?room ?d))" .
  have "?d \<noteq> []" using frame_header_length [of L V f] by auto
  then have pad: "\<exists>k<?room. concat (map (\<lambda>s. s @ replicate (?room - length s) 0) (chunks ?room ?d)) = ?d @ replicate k 0"
    using v(1) by (intro concat_padded) simp_all
  have pos: "0 < length (with_header_space L V f)"
    using with_header_space_slices(2) [OF assms(1) v(1)] by simp
  have "length blocks = n" "n \<le> 4"
    using fec_blocks_Some [OF v(3) fec_plan_Some(1) [OF v(2) pos]] v(1) fec_plan_Some(2) [OF v(2) pos] by auto
  then have "length sent \<le> 4" using list_all2_lengthD [OF l2] by simp
  then show ?thesis unfolding e using pad by simp
qed

section \<open>Every frame is sent\<close>

lemma block_shards:
  assumes "fec_plan len bs F = Some (n, pct)" "fec_blocks p n bs = Some blocks" "len = length p" "p \<noteq> []" "3 \<le> bs"
    and "pct \<noteq> 0" "b \<in> set blocks"
  shows "length (chunks bs b) \<le> max_data_shards_per_fec_block F"
proof -
  let ?D = "max_data_shards_per_fec_block F"
  have pos: "0 < len" using assms(3,4) by simp
  note plan = fec_plan_Some [OF assms(1) pos]
  have bs: "0 < bs" using assms(5) by simp
  obtain ss t where b: "blocks = ss @ [t]" "(n - 1) * aligned_size len n bs \<le> len"
      "\<forall>b\<in>set ss. length b = aligned_size len n bs" "length t = len - (n - 1) * aligned_size len n bs"
    using fec_blocks_Some [OF assms(2) plan(1) bs] unfolding assms(3) by auto
  have sizes: "aligned_size len n bs \<le> ?D * bs" "len - (n - 1) * aligned_size len n bs \<le> ?D * bs"
    using block_sizes [OF plan(1) _ bs _ _ b(2), of "?D * bs"] plan(2,3) assms(5,6) by auto
  then have l: "length b \<le> ?D * bs" using b assms(7) by auto
  show ?thesis
  proof -
    have "(length b + (bs - 1)) div bs \<le> (?D * bs + (bs - 1)) div bs" using l by (intro div_le_mono) simp
    also have "\<dots> = ?D + (bs - 1) div bs" using bs by (metis add.commute div_mult_self3 less_not_refl)
    also have "(bs - 1) div bs = 0" using bs by simp
    finally show ?thesis using length_chunks [OF bs, of b] by simp
  qed
qed

lemma max_data_shards_times: "max_data_shards_per_fec_block F * F \<le> 25500"
proof -
  have "max_data_shards_per_fec_block F * F \<le> 25500 div (100 + F) * (100 + F)"
    unfolding max_data_shards_per_fec_block_def DATA_SHARDS_MAX_def by (intro mult_le_mono) simp_all
  then show ?thesis using div_times_less_eq_dividend [of 25500 "100 + F"] by (rule order_trans)
qed

text \<open>The blocks of the plan are not empty and have few enough shards.\<close>

lemma plan_blocks:
  assumes "fec_plan (length p) bs F = Some (n, pct)" "fec_blocks p n bs = Some blocks" "p \<noteq> []" "3 \<le> bs" "F \<le> 255"
    and "b \<in> set blocks"
  shows "b \<noteq> []" "length (chunks bs b) * pct \<le> 25500"
proof -
  have pos: "0 < length p" using assms(3) by simp
  note plan = fec_plan_Some [OF assms(1) pos]
  have bs: "0 < bs" using assms(4) by simp
  have off: "(n - 1) * aligned_size (length p) n bs < length p"
    by (rule last_block_offset [OF bs plan(1) plan(4) [OF assms(5)] pos])
  obtain ss t where b: "blocks = ss @ [t]" "\<forall>b\<in>set ss. length b = aligned_size (length p) n bs"
      "length t = length p - (n - 1) * aligned_size (length p) n bs" "length blocks = n"
    using fec_blocks_Some [OF assms(2) plan(1) bs] by blast
  show "b \<noteq> []"
  proof (cases "b = t")
    case False
    then have ss: "b \<in> set ss" using assms(6) b(1) by simp
    then have "1 < n" using b(1,4) by (cases ss) auto
    then have "1 * bs \<le> (n - 1) * bs" by (intro mult_le_mono1) simp
    also have "(n - 1) * bs \<le> length p div n"
      using plan(1) plan(4) [OF assms(5)]
      by (metis div_le_mono nonzero_mult_div_cancel_left not_gr_zero)
    also have "length p div n \<le> aligned_size (length p) n bs" by (rule aligned_size_bounds(1) [OF bs])
    finally have "bs \<le> length b" using b(2) ss by simp
    then show ?thesis using bs by auto
  qed (use off b(3) in auto)
  show "length (chunks bs b) * pct \<le> 25500"
  proof (cases "pct = 0")
    case False
    then have "pct = F" "length (chunks bs b) \<le> max_data_shards_per_fec_block F"
      using plan(3) block_shards [OF assms(1,2) refl assms(3,4) False assms(6)] by simp_all
    then have "length (chunks bs b) * pct \<le> max_data_shards_per_fec_block F * F" by (intro mult_le_mono) simp_all
    then show ?thesis using max_data_shards_times by (rule order_trans)
  qed simp
qed

lemma send_blocks_total:
  assumes "\<And>b k st. b \<in> set blocks \<Longrightarrow> \<exists>r. send_block L rs C k b st = Some r"
  shows "\<exists>sent st'. send_blocks L rs C k blocks st = Some (sent, st')"
  using assms
proof (induction blocks arbitrary: k st)
  case (Cons b bs)
  obtain sb st1 where 1: "send_block L rs C k b st = Some (sb, st1)" using Cons.prems [of b k st] by auto
  obtain sent st' where "send_blocks L rs C (Suc k) bs st1 = Some (sent, st')"
    using Cons.IH [of "Suc k" st1] Cons.prems by auto
  then show ?case using 1 by simp
qed simp

lemma send_block_total:
  assumes "0 < fr_blocksize C" "fr_blocksize C < 2 ^ 32" "fr_min_parity C \<le> 255" "limelight_ok L"
    and "\<forall>s\<in>set (chunks (fr_blocksize C) p). video_packet_raw L \<le> length s" "p \<noteq> []"
    and "length (chunks (fr_blocksize C) p) * fr_percentage C \<le> 65535"
  shows "\<exists>r. send_block L rs C k p st = Some r"
proof -
  define packets where "packets = (length p + (fr_blocksize C - 1)) div fr_blocksize C"
  let ?g = "\<lambda>x s. put_pic L (pic_header_of C (vs_lowseq st) k packets x) s"
  let ?w = "concat (map (\<lambda>(x, s). ?g x s) (enumerate 0 (chunks (fr_blocksize C) p)))"
  have "chunks (fr_blocksize C + 0) ?w = map (\<lambda>(x, s). ?g x s) (enumerate 0 (chunks (fr_blocksize C) p))"
    by (rule chunks_map) (use assms in \<open>auto simp: limelight_ok_def\<close>)
  then have w: "length (chunks (fr_blocksize C) ?w) = length (chunks (fr_blocksize C) p)" by simp
  moreover have "length (chunks (fr_blocksize C) p) \<noteq> 0" using assms(1,6) by simp
  ultimately have "?w \<noteq> []" by (metis chunks_Nil(1) list.size(3))
  then obtain fec where "fec_encode rs ?w (fr_blocksize C) (fr_percentage C) (fr_min_parity C) = Some fec"
    using fec_encode_total [OF assms(1-3), of ?w] assms(7) w by auto
  then show ?thesis unfolding send_block_def Let_def packets_def [symmetric] by (auto split: prod.splits)
qed

lemma video_frame_total:
  assumes "limelight_ok L" "nv_video_packet L < vc_packetsize V" "vc_packetsize V + max_rtp_header L < 2 ^ 32"
    and "vc_fec_percentage V \<le> 255" "0 \<le> vc_minRequiredFecPackets V" "vc_minRequiredFecPackets V \<le> 255"
  shows "\<exists>sent st'. video_frame L rs V f st = Some (sent, st')"
proof -
  let ?bs = "vc_packetsize V + max_rtp_header L" and ?p = "with_header_space L V f"
  have ne: "?p \<noteq> []" by (rule with_header_space_slices(2) [OF assms(1,2)])
  have bs: "3 \<le> ?bs" "0 < ?bs" using assms(1,2) by (simp_all add: limelight_ok_def)
  have "max_data_shards_per_fec_block (vc_fec_percentage V) * ?bs \<noteq> 0"
    using max_data_shards_large [OF assms(4)] bs(2) by simp
  then obtain n pct where plan: "fec_plan (length ?p) ?bs (vc_fec_percentage V) = Some (n, pct)"
    unfolding fec_plan_def Let_def by (metis (lifting) surj_pair)
  have pos: "0 < length ?p" using ne by simp
  note pl = fec_plan_Some [OF plan pos]
  obtain blocks where blocks: "fec_blocks ?p n ?bs = Some blocks"
    using fec_blocks_total [OF pl(1), of ?p ?bs] last_block_offset [OF bs(2) pl(1) pl(4) [OF assms(4)] pos] by auto
  have fec: "fr_min_parity (frame_context L V f n pct) \<le> 255"
    using assms(5,6) by (simp add: frame_context_def)
  obtain ss t where ss: "blocks = ss @ [t]" "concat blocks = ?p" "\<forall>b\<in>set ss. length b = aligned_size (length ?p) n ?bs"
    using fec_blocks_Some [OF blocks pl(1) bs(2)] by auto
  have "chunks ?bs (concat ss @ t) = concat (map (chunks ?bs) ss) @ chunks ?bs t"
    by (rule chunks_blocks) (use ss(3) bs(2) in \<open>auto simp: aligned_size_def\<close>)
  then have c: "concat (map (chunks ?bs) blocks) = chunks ?bs ?p"
    unfolding ss(2) [symmetric] by (simp add: ss(1))
  have raw: "\<forall>s\<in>set (chunks ?bs b). video_packet_raw L \<le> length s" if "b \<in> set blocks" for b
  proof
    fix s assume "s \<in> set (chunks ?bs b)"
    then have "s \<in> set (concat (map (chunks ?bs) blocks))" using that by auto
    then show "video_packet_raw L \<le> length s" unfolding c with_header_space_slices(1) [OF assms(1,2)] by auto
  qed
  have "\<exists>sent st'. send_blocks L rs (frame_context L V f n pct) 0 blocks st = Some (sent, st')"
  proof (rule send_blocks_total)
    fix b k st assume b: "b \<in> set blocks"
    note pb = plan_blocks [OF plan blocks ne bs(1) assms(4) b]
    show "\<exists>r. send_block L rs (frame_context L V f n pct) k b st = Some r"
    proof (rule send_block_total)
      show "length (chunks (fr_blocksize (frame_context L V f n pct)) b) * fr_percentage (frame_context L V f n pct) \<le> 65535"
        using pb(2) by (simp add: frame_context_def)
      show "\<forall>s\<in>set (chunks (fr_blocksize (frame_context L V f n pct)) b). video_packet_raw L \<le> length s"
        using raw [OF b] by (simp add: frame_context_def)
    qed (use fec bs(2) assms(1,3) pb(1) in \<open>simp_all add: frame_context_def\<close>)
  qed
  then show ?thesis using assms(2) plan blocks by (simp add: video_frame_def Let_def)
qed

section \<open>Numbering\<close>

text \<open>The packets of a block: how many there are, and how they are numbered.\<close>

lemma send_block_numbers:
  assumes "send_block L rs C k p st = Some (sb, st')" "0 < fr_blocksize C" "limelight_ok L" "rs_ok rs"
    and "\<forall>s\<in>set (chunks (fr_blocksize C) p). video_packet_raw L \<le> length s"
    and "fr_min_parity C \<le> 255" "length (chunks (fr_blocksize C) p) * fr_percentage C \<le> 65535"
  shows "sb_data_shards sb = length (chunks (fr_blocksize C) p) \<and>
    (length (sb_packets sb) =
       sb_data_shards sb + (sb_data_shards sb * fr_percentage C + 99) div 100 \<or>
     length (sb_packets sb) = sb_data_shards sb + fr_min_parity C) \<and>
    map (\<lambda>q. fh_sequenceNumber (vp_header q)) (sb_packets sb) =
      map (\<lambda>i. ucast (vs_lowseq st + word_of_nat i)) [0..<length (sb_packets sb)] \<and>
    vs_lowseq st' = vs_lowseq st + word_of_nat (length (sb_packets sb)) \<and>
    (fr_cipher C \<noteq> None \<longrightarrow>
       map (\<lambda>q. map_option px_iv (vp_prefix q)) (sb_packets sb) =
         map (\<lambda>i. Some (video_iv (vs_gcm_iv_counter st + word_of_nat i))) [0..<length (sb_packets sb)] \<and>
       vs_gcm_iv_counter st' = vs_gcm_iv_counter st + word_of_nat (length (sb_packets sb)))"
proof -
  let ?bs = "fr_blocksize C"
  let ?hs = "\<lambda>fec. map (\<lambda>(x, s). let h = fec_header_of C (vs_lowseq st) k fec x in (h, put_fec L h s))
        (enumerate 0 (fec_shards fec))"
  obtain fec w where fec: "fec_encode rs w ?bs (fr_percentage C) (fr_min_parity C) = Some fec"
    and w: "chunks ?bs w = map (\<lambda>(x, s). put_pic L (pic_header_of C (vs_lowseq st) k (length (chunks ?bs p)) x) s)
        (enumerate 0 (chunks ?bs p))"
    and d: "sb_data_shards sb = fec_data_shards fec"
    and enc: "encrypt_shards C (vs_gcm_iv_counter st) (?hs fec) = (sb_packets sb, vs_gcm_iv_counter st')"
    and seqn: "vs_lowseq st' = vs_lowseq st + word_of_nat (fec_nr_shards fec)"
    using send_block_Some [OF assms(1,2,3,5)] by blast
  have len: "length (chunks ?bs w) = length (chunks ?bs p)" by (simp add: w)
  have data: "sb_data_shards sb = length (chunks ?bs p)"
    using fec_encode_Some [OF fec assms(2)] d len by simp
  have nr: "length (fec_shards fec) = fec_nr_shards fec"
      "fec_nr_shards fec = sb_data_shards sb + (sb_data_shards sb * fr_percentage C + 99) div 100 \<or>
       fec_nr_shards fec = sb_data_shards sb + fr_min_parity C"
    using fec_encode_nr [OF fec assms(2,4)] assms(6,7) data len by auto
  have hs: "map vp_header (sb_packets sb) = map fst (?hs fec)" by (rule encrypt_shards_facts(1) [OF enc])
  have lp: "length (sb_packets sb) = fec_nr_shards fec" using arg_cong [OF hs, of length] nr(1) by simp
  have "map (\<lambda>q. fh_sequenceNumber (vp_header q)) (sb_packets sb) =
      map (\<lambda>(x, s). ucast (vs_lowseq st + word_of_nat x)) (enumerate 0 (fec_shards fec))"
    using arg_cong [OF hs, of "map fh_sequenceNumber"]
    by (simp add: comp_def split_def Let_def fec_header_of_def)
  also have "\<dots> = map (\<lambda>i. ucast (vs_lowseq st + word_of_nat i)) (map fst (enumerate 0 (fec_shards fec)))"
    by (simp only: map_map comp_def split_def)
  also have "map fst (enumerate 0 (fec_shards fec)) = [0..<length (sb_packets sb)]"
    using nr(1) lp by simp
  finally have seqs: "map (\<lambda>q. fh_sequenceNumber (vp_header q)) (sb_packets sb) =
      map (\<lambda>i. ucast (vs_lowseq st + word_of_nat i)) [0..<length (sb_packets sb)]" .
  have "map (\<lambda>q. map_option px_iv (vp_prefix q)) (sb_packets sb) =
         map (\<lambda>i. Some (video_iv (vs_gcm_iv_counter st + word_of_nat i))) [0..<length (sb_packets sb)] \<and>
       vs_gcm_iv_counter st' = vs_gcm_iv_counter st + word_of_nat (length (sb_packets sb))"
    if "fr_cipher C = Some e" for e
  proof -
    have "length (?hs fec) = length (sb_packets sb)" using nr(1) lp by simp
    then show ?thesis using encrypt_shards_facts(3) [OF enc that] by simp
  qed
  then show ?thesis using data nr lp seqn seqs by auto
qed

lemma map_upt_append: "map f [0..<m] @ map (\<lambda>i. f (m + i)) [0..<n] = map f [0..<m + n]"
  by (rule nth_equalityI) (auto simp: nth_append)

text \<open>The packets of all blocks, numbered through.\<close>

lemma send_blocks_numbers:
  assumes "send_blocks L rs C k blocks st = Some (sent, st')" "0 < fr_blocksize C" "limelight_ok L" "rs_ok rs"
    and "fr_min_parity C \<le> 255"
    and "\<forall>b\<in>set blocks. (\<forall>s\<in>set (chunks (fr_blocksize C) b). video_packet_raw L \<le> length s) \<and>
      length (chunks (fr_blocksize C) b) * fr_percentage C \<le> 65535"
  shows "let ps = concat (map sb_packets sent) in
    map (\<lambda>q. fh_sequenceNumber (vp_header q)) ps =
      map (\<lambda>i. ucast (vs_lowseq st + word_of_nat i)) [0..<length ps] \<and>
    vs_lowseq st' = vs_lowseq st + word_of_nat (length ps) \<and>
    (fr_cipher C \<noteq> None \<longrightarrow>
       map (\<lambda>q. map_option px_iv (vp_prefix q)) ps =
         map (\<lambda>i. Some (video_iv (vs_gcm_iv_counter st + word_of_nat i))) [0..<length ps] \<and>
       vs_gcm_iv_counter st' = vs_gcm_iv_counter st + word_of_nat (length ps))"
  using assms(1,6)
proof (induction blocks arbitrary: k st sent)
  case (Cons b bs)
  obtain sb st1 rest where r: "send_block L rs C k b st = Some (sb, st1)"
      "send_blocks L rs C (Suc k) bs st1 = Some (rest, st')" "sent = sb # rest"
    using Cons.prems(1) by (auto split: option.splits)
  note one = send_block_numbers [OF r(1) assms(2-4) _ assms(5)]
  have IH: "let ps = concat (map sb_packets rest) in
    map (\<lambda>q. fh_sequenceNumber (vp_header q)) ps =
      map (\<lambda>i. ucast (vs_lowseq st1 + word_of_nat i)) [0..<length ps] \<and>
    vs_lowseq st' = vs_lowseq st1 + word_of_nat (length ps) \<and>
    (fr_cipher C \<noteq> None \<longrightarrow>
       map (\<lambda>q. map_option px_iv (vp_prefix q)) ps =
         map (\<lambda>i. Some (video_iv (vs_gcm_iv_counter st1 + word_of_nat i))) [0..<length ps] \<and>
       vs_gcm_iv_counter st' = vs_gcm_iv_counter st1 + word_of_nat (length ps))"
    by (rule Cons.IH [OF r(2)]) (use Cons.prems(2) in simp)
  have w: "word_of_nat (m + i) = (word_of_nat m + word_of_nat i :: 'w::len word)" for m i by simp
  define m ps where "m = length (sb_packets sb)" and "ps = concat (map sb_packets rest)"
  have lo: "map (\<lambda>q. fh_sequenceNumber (vp_header q)) (sb_packets sb) =
      map (\<lambda>i. ucast (vs_lowseq st + word_of_nat i)) [0..<m]" "vs_lowseq st1 = vs_lowseq st + word_of_nat m"
    using one Cons.prems(2) by (auto simp: m_def)
  have seqs: "map (\<lambda>q. fh_sequenceNumber (vp_header q)) (sb_packets sb @ ps) =
      map (\<lambda>i. ucast (vs_lowseq st + word_of_nat i)) [0..<m + length ps]"
    using IH lo map_upt_append [of "\<lambda>i. ucast (vs_lowseq st + word_of_nat i) :: 16 word" m "length ps"]
    by (simp add: Let_def ps_def add.assoc)
  have ivs: "map (\<lambda>q. map_option px_iv (vp_prefix q)) (sb_packets sb @ ps) =
         map (\<lambda>i. Some (video_iv (vs_gcm_iv_counter st + word_of_nat i))) [0..<m + length ps] \<and>
       vs_gcm_iv_counter st' = vs_gcm_iv_counter st + word_of_nat (m + length ps)" if "fr_cipher C \<noteq> None"
  proof -
    have "map (\<lambda>q. map_option px_iv (vp_prefix q)) (sb_packets sb) =
        map (\<lambda>i. Some (video_iv (vs_gcm_iv_counter st + word_of_nat i))) [0..<m]"
      "vs_gcm_iv_counter st1 = vs_gcm_iv_counter st + word_of_nat m"
      using one Cons.prems(2) that by (auto simp: m_def)
    then show ?thesis
      using IH that map_upt_append [of "\<lambda>i. Some (video_iv (vs_gcm_iv_counter st + word_of_nat i))" m "length ps"]
      by (simp add: Let_def ps_def add.assoc)
  qed
  show ?case
    using IH lo(2) seqs ivs by (simp add: Let_def r(3) m_def ps_def add.assoc del: map_append)
qed (simp add: Let_def)

text \<open>What the numbering lemmas need of the blocks of a frame that is sent.\<close>

definition block_ok :: "limelight \<Rightarrow> nat \<Rightarrow> nat \<Rightarrow> byte list \<Rightarrow> bool" where
  [inv_defs]: "block_ok L bs pct b \<longleftrightarrow> (\<forall>s\<in>set (chunks bs b). video_packet_raw L \<le> length s) \<and>
     length (chunks bs b) * pct \<le> 25500 \<and>
     length (chunks bs b) + (length (chunks bs b) * pct + 99) div 100 \<le>
       (if pct = 0 then length (chunks bs b) else 255)"

lemma frame_blocks:
  assumes "video_frame L rs V f st = Some (sent, st')" "limelight_ok L" "vc_fec_percentage V \<le> 255"
  shows "\<exists>n pct blocks. send_blocks L rs (frame_context L V f n pct) 0 blocks st = Some (sent, st') \<and>
    0 < vc_packetsize V + max_rtp_header L \<and>
    (\<forall>b\<in>set blocks. block_ok L (vc_packetsize V + max_rtp_header L) pct b)"
proof -
  let ?bs = "vc_packetsize V + max_rtp_header L" and ?p = "with_header_space L V f"
  obtain n pct blocks where v: "nv_video_packet L < vc_packetsize V"
    "fec_plan (length ?p) ?bs (vc_fec_percentage V) = Some (n, pct)" "fec_blocks ?p n ?bs = Some blocks"
    "send_blocks L rs (frame_context L V f n pct) 0 blocks st = Some (sent, st')"
    and c: "concat (map (chunks ?bs) blocks) = map (\<lambda>s. replicate (video_packet_raw L) 0 @ s)
      (chunks (vc_packetsize V - nv_video_packet L) (frame_header L V f @ frame_payload f))"
    using video_frame_Some [OF assms(1,2)] by blast
  have ne: "?p \<noteq> []" by (rule with_header_space_slices(2) [OF assms(2) v(1)])
  then have pos: "0 < length ?p" by simp
  have bs: "3 \<le> ?bs" using assms(2) v(1) by (simp add: limelight_ok_def)
  have b: "block_ok L ?bs pct b" if "b \<in> set blocks" for b
    unfolding block_ok_def
  proof (intro conjI ballI)
    fix s assume "s \<in> set (chunks ?bs b)"
    then have "s \<in> set (concat (map (chunks ?bs) blocks))" using that by auto
    then show "video_packet_raw L \<le> length s" unfolding c by auto
  next
    show "length (chunks ?bs b) * pct \<le> 25500" by (rule plan_blocks(2) [OF v(2,3) ne bs assms(3) that])
    show "length (chunks ?bs b) + (length (chunks ?bs b) * pct + 99) div 100 \<le>
        (if pct = 0 then length (chunks ?bs b) else 255)"
    proof (cases "pct = 0")
      case False
      have "length (chunks ?bs b) \<le> max_data_shards_per_fec_block pct"
        using block_shards [OF v(2,3) refl ne bs False that] fec_plan_Some(3) [OF v(2) pos False] by simp
      then show ?thesis using parity_fits False by simp
    qed simp
  qed
  show ?thesis using v(4) bs b by (intro exI [of _ n] exI [of _ pct] exI [of _ blocks]) auto
qed


text \<open>
  The packets of a frame are numbered without a gap: the RTP sequence numbers of the packets
  of all blocks count up by one from the number the last frame left, the next frame goes on after
  them, and with encryption so does the counter in the initialisation vectors.
\<close>
theorem frame_numbering:
  assumes "limelight_ok L" "rs_ok rs" "vc_fec_percentage V \<le> 255"
    and "0 \<le> vc_minRequiredFecPackets V" "vc_minRequiredFecPackets V \<le> 255"
    and "video_frame L rs V f st = Some (sent, st')"
  shows "let ps = concat (map sb_packets sent) in
    map (\<lambda>q. fh_sequenceNumber (vp_header q)) ps =
      map (\<lambda>i. ucast (vs_lowseq st + word_of_nat i)) [0..<length ps] \<and>
    vs_lowseq st' = vs_lowseq st + word_of_nat (length ps) \<and>
    (vc_cipher V \<noteq> None \<longrightarrow>
       map (\<lambda>q. map_option px_iv (vp_prefix q)) ps =
         map (\<lambda>i. Some (video_iv (vs_gcm_iv_counter st + word_of_nat i))) [0..<length ps] \<and>
       vs_gcm_iv_counter st' = vs_gcm_iv_counter st + word_of_nat (length ps))"
proof -
  obtain n pct blocks where s: "send_blocks L rs (frame_context L V f n pct) 0 blocks st = Some (sent, st')"
    and bs: "0 < vc_packetsize V + max_rtp_header L"
    and b: "\<forall>b\<in>set blocks. block_ok L (vc_packetsize V + max_rtp_header L) pct b"
    using frame_blocks [OF assms(6,1,3)] by (elim exE conjE) (rule that)
  have C: "fr_blocksize (frame_context L V f n pct) = vc_packetsize V + max_rtp_header L"
      "fr_percentage (frame_context L V f n pct) = pct" "fr_cipher (frame_context L V f n pct) = vc_cipher V"
      "fr_min_parity (frame_context L V f n pct) \<le> 255"
    using assms(4,5) by (simp_all add: frame_context_def)
  show ?thesis
    using send_blocks_numbers [OF s _ assms(1,2) C(4)] bs b unfolding C block_ok_def by fastforce
qed

section \<open>A small library\<close>

definition demo_limelight :: limelight where
  "demo_limelight = \<lparr>nv_video_packet = 2, rtp_packet = 1, max_rtp_header = 5,
     put_pic = (\<lambda>h s. s), put_fec = (\<lambda>h s. ucast (fh_sequenceNumber h) # tl s)\<rparr>"

definition demo_video :: video_config where
  "demo_video = \<lparr>vc_packetsize = 6, vc_minRequiredFecPackets = 2, vc_fec_percentage = 20, vc_cipher = None\<rparr>"

definition demo_frame :: encoded_frame where
  "demo_frame = \<lparr>ef_data = [1, 2, 3, 4, 5, 6, 7], ef_idr = False, ef_after_ref_frame_invalidation = False,
     ef_replacements = [], ef_frame_index = 7, ef_latency_us = None, ef_timestamp = 9\<rparr>"

abbreviation demo_rs :: "byte list list \<Rightarrow> nat \<Rightarrow> byte list list" where
  "demo_rs ss n \<equiv> replicate n []"

lemma demo_ok: "limelight_ok demo_limelight" "rs_ok demo_rs"
  "nv_video_packet demo_limelight < vc_packetsize demo_video"
  "vc_packetsize demo_video + max_rtp_header demo_limelight < 2 ^ 32"
  "vc_fec_percentage demo_video \<le> 255" "0 \<le> vc_minRequiredFecPackets demo_video"
  "vc_minRequiredFecPackets demo_video \<le> 255" "vc_cipher demo_video = None"
proof -
  have "drop 7 (x # tl s) = drop 7 s \<and> length (x # tl s) = length s" if "7 \<le> length s" for x and s :: "byte list"
    using that by (cases s) simp_all
  then show "limelight_ok demo_limelight"
    by (simp add: limelight_ok_def demo_limelight_def video_packet_raw_def)
qed (simp_all add: rs_ok_def demo_limelight_def demo_video_def)


theorem frame_content_witness:
  "\<exists>sent st' k. video_frame demo_limelight demo_rs demo_video demo_frame \<lparr>vs_lowseq = 5, vs_gcm_iv_counter = 3\<rparr> =
     Some (sent, st') \<and> k < 4 \<and>
     concat (map (\<lambda>b. concat (map (\<lambda>p. drop 7 (vp_bytes p)) (take (sb_data_shards b) (sb_packets b)))) sent) =
     frame_header demo_limelight demo_video demo_frame @ [1, 2, 3, 4, 5, 6, 7] @ replicate k 0"
proof -
  obtain sent st' where v: "video_frame demo_limelight demo_rs demo_video demo_frame
      \<lparr>vs_lowseq = 5, vs_gcm_iv_counter = 3\<rparr> = Some (sent, st')"
    using video_frame_total [OF demo_ok(1,3-7)] by blast
  have d: "video_packet_raw demo_limelight = 7" "vc_packetsize demo_video - nv_video_packet demo_limelight = 4"
      "frame_payload demo_frame = [1, 2, 3, 4, 5, 6, 7]"
    by (simp_all add: demo_limelight_def demo_video_def demo_frame_def video_packet_raw_def frame_payload_def)
  show ?thesis using frame_content [OF demo_ok(1,8) v] v unfolding d by blast
qed

theorem frame_numbering_witness:
  "\<exists>sent st'. video_frame demo_limelight demo_rs demo_video demo_frame \<lparr>vs_lowseq = 5, vs_gcm_iv_counter = 3\<rparr> =
     Some (sent, st') \<and>
     vs_lowseq st' = 5 + word_of_nat (length (concat (map sb_packets sent)))"
proof -
  obtain sent st' where v: "video_frame demo_limelight demo_rs demo_video demo_frame
      \<lparr>vs_lowseq = 5, vs_gcm_iv_counter = 3\<rparr> = Some (sent, st')"
    using video_frame_total [OF demo_ok(1,3-7)] by blast
  show ?thesis using frame_numbering [OF demo_ok(1,2,5-7) v] v by (simp add: Let_def)
qed

end
