(* ===== verification/Control.thy ===== *)
theory Control
  imports Gcm_Iv Slices
begin

text \<open>
  The control stream (\<open>control_server_t\<close> and \<open>controlBroadcastThread\<close> of \<open>src/stream.cpp\<close>): the
  sessions and their ENet peers, the messages in both directions and their encryption, and the
  pass of the control thread over the sessions. \<open>None\<close> as a result of handling a message is a
  read or write outside its buffer.
\<close>

section \<open>Message types\<close>

definition packetTypes :: "16 word list" where
  "packetTypes =
     [0x0305, 0x0307, 0x0301, 0x0201, 0x0204, 0x0206, 0x010b, 0x0109, 0x0200, 0x0302, 0x0001, 0x010e,
      0x5500, 0x5501, 0x5502, 0x5503]"

definition IDX_START_A :: "16 word" where "IDX_START_A = packetTypes ! 0"
definition IDX_START_B :: "16 word" where "IDX_START_B = packetTypes ! 1"
definition IDX_INVALIDATE_REF_FRAMES :: "16 word" where "IDX_INVALIDATE_REF_FRAMES = packetTypes ! 2"
definition IDX_LOSS_STATS :: "16 word" where "IDX_LOSS_STATS = packetTypes ! 3"
definition IDX_INPUT_DATA :: "16 word" where "IDX_INPUT_DATA = packetTypes ! 5"
definition IDX_RUMBLE_DATA :: "16 word" where "IDX_RUMBLE_DATA = packetTypes ! 6"
definition IDX_TERMINATION :: "16 word" where "IDX_TERMINATION = packetTypes ! 7"
definition IDX_PERIODIC_PING :: "16 word" where "IDX_PERIODIC_PING = packetTypes ! 8"
definition IDX_REQUEST_IDR_FRAME :: "16 word" where "IDX_REQUEST_IDR_FRAME = packetTypes ! 9"
definition IDX_ENCRYPTED :: "16 word" where "IDX_ENCRYPTED = packetTypes ! 10"
definition IDX_HDR_MODE :: "16 word" where "IDX_HDR_MODE = packetTypes ! 11"
definition IDX_RUMBLE_TRIGGER_DATA :: "16 word" where "IDX_RUMBLE_TRIGGER_DATA = packetTypes ! 12"
definition IDX_SET_MOTION_EVENT :: "16 word" where "IDX_SET_MOTION_EVENT = packetTypes ! 13"
definition IDX_SET_RGB_LED :: "16 word" where "IDX_SET_RGB_LED = packetTypes ! 14"
definition IDX_SET_ADAPTIVE_TRIGGERS :: "16 word" where "IDX_SET_ADAPTIVE_TRIGGERS = packetTypes ! 15"

lemmas packet_type_defs =
  packetTypes_def IDX_START_A_def IDX_START_B_def IDX_INVALIDATE_REF_FRAMES_def IDX_LOSS_STATS_def
  IDX_INPUT_DATA_def IDX_RUMBLE_DATA_def IDX_TERMINATION_def IDX_PERIODIC_PING_def
  IDX_REQUEST_IDR_FRAME_def IDX_ENCRYPTED_def IDX_HDR_MODE_def IDX_RUMBLE_TRIGGER_DATA_def
  IDX_SET_MOTION_EVENT_def IDX_SET_RGB_LED_def IDX_SET_ADAPTIVE_TRIGGERS_def

section \<open>Sessions and the server\<close>

datatype state_e = STOPPED | STOPPING | STARTING | RUNNING

datatype gamepad_feedback_msg =
  Rumble "16 word" "16 word" "16 word"
| Rumble_Triggers "16 word" "16 word" "16 word"
| Set_Motion_Event_State "16 word" "16 word" byte
| Set_Rgb_Led "16 word" byte byte byte
| Set_Adaptive_Triggers "16 word" byte byte byte "byte list" "byte list"

record hdr_info =
  hdr_enabled :: byte
  hdr_metadata :: "byte list"

text \<open>
  The part of \<open>session_t\<close> the control stream works with. \<open>cs_encrypt\<close> and \<open>cs_decrypt\<close> are the
  session's GCM cipher, \<open>cs_input\<close> what was passed on to the input component.
\<close>

record control_session =
  cs_state :: state_e
  cs_peer :: "nat option"
  cs_protocol :: int
  cs_session_id_v1 :: bool
  cs_control_v2 :: bool
  cs_connect_data :: "32 word"
  cs_expected_peer_address :: string
  cs_launch_session_id :: "32 word"
  cs_ping_timeout :: int
  cs_seq :: "32 word"
  cs_incoming_iv :: "byte list"
  cs_outgoing_iv :: "byte list"
  cs_legacy_input_enc_iv :: "byte list"
  cs_encrypt :: "byte list \<Rightarrow> byte list \<Rightarrow> (byte list \<times> byte list) option"
  cs_decrypt :: "byte list \<Rightarrow> byte list \<Rightarrow> byte list option"
  cs_shutdown :: bool
  cs_control_end :: bool
  cs_idr :: bool
  cs_invalidate :: "(64 word \<times> 64 word) option"
  cs_feedback :: "gamepad_feedback_msg list"
  cs_hdr :: "hdr_info option"
  cs_input :: "byte list list"

record control_server =
  sv_session :: "nat \<Rightarrow> control_session"
  sv_sessions :: "nat list"
  sv_peers :: "nat \<Rightarrow> nat option"
  sv_sent :: "(nat \<times> byte list) list"
  sv_disconnected :: "nat list"
  sv_cleared :: "32 word list"

definition upd_session :: "nat \<Rightarrow> (control_session \<Rightarrow> control_session) \<Rightarrow> control_server \<Rightarrow> control_server" where
  "upd_session i f sv = sv\<lparr>sv_session := (sv_session sv)(i := f (sv_session sv i))\<rparr>"

text \<open>
  \<open>session::stop\<close>. It waits while the state is \<open>STARTING\<close>, which no code stores.
\<close>

definition stop_session :: "control_session \<Rightarrow> control_session" where
  "stop_session s = (if cs_state s = RUNNING then s\<lparr>cs_state := STOPPING, cs_shutdown := True\<rparr> else s)"

section \<open>Finding the session of a peer\<close>

definition matches_session :: "control_session \<Rightarrow> 32 word \<Rightarrow> string \<Rightarrow> bool" where
  "matches_session s connect_data peer_addr \<longleftrightarrow>
     cs_peer s = None \<and>
     (if cs_session_id_v1 s then cs_connect_data s = connect_data
      else cs_expected_peer_address s = peer_addr)"

definition get_session :: "nat \<Rightarrow> 32 word \<Rightarrow> string \<Rightarrow> control_server \<Rightarrow> nat option \<times> control_server" where
  "get_session peer connect_data peer_addr sv =
     (case sv_peers sv peer of
        Some i \<Rightarrow> (Some i, sv)
      | None \<Rightarrow>
          (case find (\<lambda>i. matches_session (sv_session sv i) connect_data peer_addr) (sv_sessions sv) of
             None \<Rightarrow> (None, sv)
           | Some i \<Rightarrow>
               (Some i,
                (upd_session i (\<lambda>s. s\<lparr>cs_peer := Some peer\<rparr>) sv)
                  \<lparr>sv_cleared := sv_cleared sv @ [cs_launch_session_id (sv_session sv i)],
                   sv_peers := (sv_peers sv)(peer \<mapsto> i)\<rparr>)))"

section \<open>Encrypting a message\<close>

text \<open>\<open>resize\<close> of an initialisation vector keeps its front.\<close>

definition resize_iv :: "nat \<Rightarrow> byte list \<Rightarrow> byte list" where
  "resize_iv n iv = take n iv @ replicate (n - length iv) 0"

definition control_iv :: "bool \<Rightarrow> byte list \<Rightarrow> 32 word \<Rightarrow> char \<Rightarrow> byte list" where
  "control_iv v2 iv seqn originator =
     (if v2 then (write_at 0 (le_bytes seqn) (resize_iv 12 iv))
                   [10 := char_byte originator, 11 := char_byte (CHR ''C'')]
      else (resize_iv 16 iv)[0 := ucast seqn])"

text \<open>\<open>control_encrypted_t\<close>: type, length and sequence number, then the tag and the ciphertext.\<close>

definition control_packet :: "32 word \<Rightarrow> byte list \<Rightarrow> byte list \<Rightarrow> byte list" where
  "control_packet seqn tg ciphertext =
     (let packet_length = word_of_nat (length ciphertext + 16 + 4) :: 16 word
      in take (unat packet_length + 4)
           (le_bytes (0x0001 :: 16 word) @ le_bytes packet_length @ le_bytes seqn @ tg @ ciphertext))"

definition encode_control :: "byte list \<Rightarrow> control_session \<Rightarrow> byte list \<times> control_session" where
  "encode_control plaintext s =
     (if cs_protocol s \<noteq> 13 then (plaintext, s)
      else (let iv = control_iv (cs_control_v2 s) (cs_outgoing_iv s) (cs_seq s) (CHR ''H'');
                s1 = s\<lparr>cs_seq := cs_seq s + 1, cs_outgoing_iv := iv\<rparr>
            in case cs_encrypt s iv plaintext of
                 None \<Rightarrow> ([], s1)
               | Some (tg, ciphertext) \<Rightarrow>
                   (if ciphertext = [] then [] else control_packet (cs_seq s) tg ciphertext, s1)))"

section \<open>Receiving a message\<close>

definition int32_be :: "byte list \<Rightarrow> int" where
  "int32_be bytes = sint (be_word (take 4 bytes) :: 32 word)"

definition on_invalidate_ref_frames :: "nat \<Rightarrow> byte list \<Rightarrow> control_server \<Rightarrow> control_server option" where
  "on_invalidate_ref_frames i payload sv =
     (if length payload < 16 then None
      else Some (upd_session i
        (\<lambda>s. s\<lparr>cs_invalidate := Some (le_word (take 8 payload), le_word (take 8 (drop 8 payload)))\<rparr>) sv))"

definition on_input_data :: "nat \<Rightarrow> byte list \<Rightarrow> control_server \<Rightarrow> control_server option" where
  "on_input_data i payload sv =
     (let s = sv_session sv i; n = int32_be payload
      in if length payload < 4 \<or> n < 0 \<or> length payload < 4 + nat n then None
         else (case cs_decrypt s (cs_legacy_input_enc_iv s) (take (nat n) (drop 4 payload)) of
                 None \<Rightarrow> Some (upd_session i stop_session sv)
               | Some plaintext \<Rightarrow>
                   (let iv = cs_legacy_input_enc_iv s
                    in if nat n \<ge> 16 + length iv then
                         (if length iv < 16 then None
                          else Some (upd_session i
                            (\<lambda>s. s\<lparr>cs_legacy_input_enc_iv := write_at 0 (drop (length payload - 16) payload) iv,
                                   cs_input := cs_input s @ [plaintext]\<rparr>) sv))
                       else Some (upd_session i (\<lambda>s. s\<lparr>cs_input := cs_input s @ [plaintext]\<rparr>) sv))))"

text \<open>
  The callbacks other than the one for encrypted messages. \<open>IDX_LOSS_STATS\<close> reads four integers
  and logs three of them.
\<close>

definition dispatch :: "16 word \<Rightarrow> nat \<Rightarrow> byte list \<Rightarrow> control_server \<Rightarrow> control_server option" where
  "dispatch t i payload sv =
     (if t = IDX_PERIODIC_PING \<or> t = IDX_START_A \<or> t = IDX_START_B then Some sv
      else if t = IDX_LOSS_STATS then (if length payload < 16 then None else Some sv)
      else if t = IDX_REQUEST_IDR_FRAME then Some (upd_session i (\<lambda>s. s\<lparr>cs_idr := True\<rparr>) sv)
      else if t = IDX_INVALIDATE_REF_FRAMES then on_invalidate_ref_frames i payload sv
      else if t = IDX_INPUT_DATA then on_input_data i payload sv
      else Some sv)"

text \<open>
  The callback for encrypted messages. The payload begins with the rest of
  \<open>control_encrypted_t\<close>: length and sequence number. The inner message is called with
  \<open>reinjected\<close>, and is not encrypted again.
\<close>

definition encrypted_fields :: "byte list \<Rightarrow> (16 word \<times> 32 word \<times> byte list) option" where
  "encrypted_fields payload =
     (if length payload < 6 then None
      else Some (le_word (take 2 payload), le_word (take 4 (drop 2 payload)), drop 6 payload))"

definition on_encrypted :: "nat \<Rightarrow> byte list \<Rightarrow> control_server \<Rightarrow> control_server option" where
  "on_encrypted i payload sv =
     (case encrypted_fields payload of
        None \<Rightarrow> None
      | Some (len, seqn, rest) \<Rightarrow>
          if unat len < 16 + 4 + 4 then Some sv
          else if length rest < unat len - 4 then None
          else
            (let s = sv_session sv i;
                 iv = control_iv (cs_control_v2 s) (cs_incoming_iv s) seqn (CHR ''C'');
                 sv1 = upd_session i (\<lambda>s. s\<lparr>cs_incoming_iv := iv\<rparr>) sv
             in case cs_decrypt s iv (take (unat len - 4) rest) of
                  None \<Rightarrow> Some (upd_session i stop_session sv1)
                | Some plaintext \<Rightarrow>
                    if length plaintext < 4 then None
                    else
                      (let t = le_word (take 2 plaintext)
                       in if t = IDX_ENCRYPTED then Some (upd_session i stop_session sv1)
                          else if t = IDX_INPUT_DATA then
                            Some (upd_session i (\<lambda>s. s\<lparr>cs_input := cs_input s @ [drop 4 plaintext]\<rparr>) sv1)
                          else dispatch t i (drop 4 plaintext) sv1)))"

definition call :: "16 word \<Rightarrow> nat \<Rightarrow> byte list \<Rightarrow> bool \<Rightarrow> control_server \<Rightarrow> control_server option" where
  "call t i payload reinjected sv =
     (if cs_protocol (sv_session sv i) = 13 \<and> \<not> reinjected \<and> t \<noteq> IDX_ENCRYPTED then Some sv
      else if t = IDX_ENCRYPTED then on_encrypted i payload sv
      else dispatch t i payload sv)"

datatype enet_event = Event_Receive "byte list" | Event_Connect | Event_Disconnect

definition iterate :: "int \<Rightarrow> int \<Rightarrow> nat \<Rightarrow> 32 word \<Rightarrow> string \<Rightarrow> enet_event \<Rightarrow>
    control_server \<Rightarrow> control_server option" where
  "iterate now ping_timeout peer connect_data peer_addr event sv =
     (case get_session peer connect_data peer_addr sv of
        (None, sv) \<Rightarrow> Some (sv\<lparr>sv_disconnected := sv_disconnected sv @ [peer]\<rparr>)
      | (Some i, sv) \<Rightarrow>
          (let sv = upd_session i (\<lambda>s. s\<lparr>cs_ping_timeout := now + ping_timeout\<rparr>) sv
           in case event of
                Event_Receive data \<Rightarrow>
                  (if length data < 2 then None
                   else call (le_word (take 2 data)) i (drop 2 data) False sv)
              | Event_Connect \<Rightarrow> Some sv
              | Event_Disconnect \<Rightarrow> Some (upd_session i stop_session sv)))"

section \<open>Messages to the client\<close>

definition control_header_v2 :: "16 word \<Rightarrow> byte list \<Rightarrow> byte list" where
  "control_header_v2 t body = le_bytes t @ le_bytes (word_of_nat (length body) :: 16 word) @ body"

definition feedback_message :: "gamepad_feedback_msg \<Rightarrow> byte list" where
  "feedback_message msg = (case msg of
     Rumble n lowfreq highfreq \<Rightarrow>
       control_header_v2 IDX_RUMBLE_DATA
         (le_bytes (0xC0FFEE :: 32 word) @ le_bytes n @ le_bytes lowfreq @ le_bytes highfreq)
   | Rumble_Triggers n left right \<Rightarrow>
       control_header_v2 IDX_RUMBLE_TRIGGER_DATA (le_bytes n @ le_bytes left @ le_bytes right)
   | Set_Motion_Event_State n report_rate motion_type \<Rightarrow>
       control_header_v2 IDX_SET_MOTION_EVENT (le_bytes n @ le_bytes report_rate @ [motion_type])
   | Set_Rgb_Led n r g b \<Rightarrow> control_header_v2 IDX_SET_RGB_LED (le_bytes n @ [r, g, b])
   | Set_Adaptive_Triggers n event_flags type_left type_right left right \<Rightarrow>
       control_header_v2 IDX_SET_ADAPTIVE_TRIGGERS
         (le_bytes n @ [event_flags, type_left, type_right] @ left @ right))"

definition hdr_message :: "hdr_info \<Rightarrow> byte list" where
  "hdr_message info = control_header_v2 IDX_HDR_MODE (hdr_enabled info # hdr_metadata info)"

definition termination_message :: "byte list" where
  "termination_message = control_header_v2 IDX_TERMINATION (be_bytes (0x80030023 :: 32 word))"

text \<open>\<open>send_feedback_msg\<close>, \<open>send_hdr_mode\<close> and the termination: nothing without a peer.\<close>

definition send_control :: "nat \<Rightarrow> byte list \<Rightarrow> control_server \<Rightarrow> control_server" where
  "send_control i plaintext sv =
     (case cs_peer (sv_session sv i) of
        None \<Rightarrow> sv
      | Some peer \<Rightarrow>
          (let (payload, s) = encode_control plaintext (sv_session sv i)
           in sv\<lparr>sv_session := (sv_session sv)(i := s), sv_sent := sv_sent sv @ [(peer, payload)]\<rparr>))"

fun send_feedback :: "nat \<Rightarrow> gamepad_feedback_msg list \<Rightarrow> control_server \<Rightarrow> control_server" where
  "send_feedback i [] sv = sv"
| "send_feedback i (msg # msgs) sv = send_feedback i msgs (send_control i (feedback_message msg) sv)"

definition drain_feedback :: "nat \<Rightarrow> control_server \<Rightarrow> control_server" where
  "drain_feedback i sv =
     send_feedback i (cs_feedback (sv_session sv i)) (upd_session i (\<lambda>s. s\<lparr>cs_feedback := []\<rparr>) sv)"

definition drain_hdr :: "nat \<Rightarrow> control_server \<Rightarrow> control_server" where
  "drain_hdr i sv =
     (case cs_hdr (sv_session sv i) of
        None \<Rightarrow> sv
      | Some info \<Rightarrow> send_control i (hdr_message info) (upd_session i (\<lambda>s. s\<lparr>cs_hdr := None\<rparr>) sv))"

section \<open>The pass over the sessions\<close>

definition expire :: "int \<Rightarrow> control_session \<Rightarrow> control_session" where
  "expire now s = (if now > cs_ping_timeout s then stop_session s else s)"

definition end_session :: "nat \<Rightarrow> control_server \<Rightarrow> control_server" where
  "end_session i sv =
     (let sv1 = upd_session i (\<lambda>s. s\<lparr>cs_control_end := True\<rparr>) sv
      in sv1\<lparr>sv_sessions := remove1 i (sv_sessions sv1),
             sv_peers := (case cs_peer (sv_session sv i) of None \<Rightarrow> sv_peers sv1 | Some p \<Rightarrow> (sv_peers sv1)(p := None)),
             sv_disconnected := sv_disconnected sv1 @
               (case cs_peer (sv_session sv i) of None \<Rightarrow> [] | Some p \<Rightarrow> [p])\<rparr>)"

definition visit_session :: "int \<Rightarrow> nat \<Rightarrow> control_server \<times> bool \<Rightarrow> control_server \<times> bool" where
  "visit_session now i = (\<lambda>(sv, awaiting).
     let sv1 = upd_session i (expire now) sv; s = sv_session sv1 i
     in if cs_state s = STOPPING then (end_session i sv1, awaiting)
        else if cs_peer s = None then (sv1, True)
        else (drain_hdr i (drain_feedback i sv1), awaiting))"

text \<open>A shutdown that is seen before a session is visited ends the pass: \<open>n\<close> sessions are visited.\<close>

definition control_pass :: "int \<Rightarrow> nat \<Rightarrow> control_server \<Rightarrow> control_server \<times> bool" where
  "control_pass now n sv = fold (visit_session now) (take n (sv_sessions sv)) (sv, False)"

text \<open>The end of the thread: every client is told, every session shut down.\<close>

definition terminate_session :: "nat \<Rightarrow> control_server \<Rightarrow> control_server" where
  "terminate_session i sv =
     upd_session i (\<lambda>s. s\<lparr>cs_shutdown := True, cs_control_end := True\<rparr>) (send_control i termination_message sv)"

definition control_shutdown :: "control_server \<Rightarrow> control_server" where
  "control_shutdown sv = fold terminate_session (sv_sessions sv) sv"

text \<open>\<open>session::start\<close> inserts a new session, which has no peer and is running or about to be.\<close>

definition add_session :: "nat \<Rightarrow> control_session \<Rightarrow> control_server \<Rightarrow> control_server" where
  "add_session i s sv = sv\<lparr>sv_session := (sv_session sv)(i := s), sv_sessions := sv_sessions sv @ [i]\<rparr>"

end
