(* ===== verification/Control_Correct.thy ===== *)
theory Control_Correct
  imports Control
begin

text \<open>
  The control stream keeps its map from peers to sessions, ends the sessions that stop, and takes
  no order from a client that has no key.
\<close>

section \<open>The peer map\<close>

definition server_inv :: "control_server \<Rightarrow> bool" where
  [inv_defs]: "server_inv sv \<longleftrightarrow> distinct (sv_sessions sv) \<and>
     (\<forall>p i. sv_peers sv p = Some i \<longleftrightarrow> i \<in> set (sv_sessions sv) \<and> cs_peer (sv_session sv i) = Some p)"

text \<open>What most steps leave alone.\<close>

definition keeps_peers :: "control_server \<Rightarrow> control_server \<Rightarrow> bool" where
  "keeps_peers sv sv' \<longleftrightarrow> sv_sessions sv' = sv_sessions sv \<and> sv_peers sv' = sv_peers sv \<and>
     (\<forall>i. cs_peer (sv_session sv' i) = cs_peer (sv_session sv i))"

lemma keeps_peers_inv: "keeps_peers sv sv' \<Longrightarrow> server_inv sv \<Longrightarrow> server_inv sv'"
  by (simp add: keeps_peers_def server_inv_def)

lemma keeps_peers_refl [simp, intro]: "keeps_peers sv sv"
  by (simp add: keeps_peers_def)

lemma keeps_peers_trans [trans]: "keeps_peers a b \<Longrightarrow> keeps_peers b c \<Longrightarrow> keeps_peers a c"
  by (simp add: keeps_peers_def)

lemma keeps_peers_upd:
  "(\<And>s. cs_peer (f s) = cs_peer s) \<Longrightarrow> keeps_peers sv sv1 \<Longrightarrow> keeps_peers sv (upd_session i f sv1)"
  by (simp add: keeps_peers_def upd_session_def)

lemma stop_session_frame [simp]:
  "cs_peer (stop_session s) = cs_peer s" "cs_input (stop_session s) = cs_input s"
  "cs_idr (stop_session s) = cs_idr s" "cs_invalidate (stop_session s) = cs_invalidate s"
  "cs_protocol (stop_session s) = cs_protocol s" "cs_control_end (stop_session s) = cs_control_end s"
  by (simp_all add: stop_session_def)

lemma upd_session_simps [simp]:
  "sv_session (upd_session i f sv) j = (if j = i then f (sv_session sv i) else sv_session sv j)"
  "sv_sessions (upd_session i f sv) = sv_sessions sv" "sv_peers (upd_session i f sv) = sv_peers sv"
  "sv_sent (upd_session i f sv) = sv_sent sv" "sv_disconnected (upd_session i f sv) = sv_disconnected sv"
  by (simp_all add: upd_session_def)

lemma dispatch_keeps: "dispatch t i payload sv = Some sv' \<Longrightarrow> keeps_peers sv sv'"
  by (auto simp: dispatch_def on_invalidate_ref_frames_def on_input_data_def Let_def keeps_peers_def
      split: if_splits option.splits)

lemma on_encrypted_keeps: "on_encrypted i payload sv = Some sv' \<Longrightarrow> keeps_peers sv sv'"
proof -
  assume r: "on_encrypted i payload sv = Some sv'"
  have u: "keeps_peers sv (upd_session i (\<lambda>s. s\<lparr>cs_incoming_iv := iv\<rparr>) sv)" for iv
    by (simp add: keeps_peers_upd)
  show ?thesis
    using r unfolding on_encrypted_def
    by (auto simp: Let_def split: option.splits if_splits
        intro: u keeps_peers_trans [OF u dispatch_keeps] intro!: keeps_peers_upd)
qed

lemma call_keeps: "call t i payload reinjected sv = Some sv' \<Longrightarrow> keeps_peers sv sv'"
  using on_encrypted_keeps dispatch_keeps by (auto simp: call_def split: if_splits)

lemma get_session_inv:
  assumes "server_inv sv" "get_session peer connect_data addr sv = (r, sv')"
  shows "server_inv sv'"
proof (cases "sv_peers sv peer")
  case None
  show ?thesis
  proof (cases "find (\<lambda>i. matches_session (sv_session sv i) connect_data addr) (sv_sessions sv)")
    case (Some i)
    then have i: "i \<in> set (sv_sessions sv)" "cs_peer (sv_session sv i) = None"
      by (auto simp: find_Some_iff matches_session_def)
    have e: "sv' = (upd_session i (\<lambda>s. s\<lparr>cs_peer := Some peer\<rparr>) sv)
        \<lparr>sv_cleared := sv_cleared sv @ [cs_launch_session_id (sv_session sv i)],
         sv_peers := (sv_peers sv)(peer \<mapsto> i)\<rparr>"
      using assms(2) None Some by (auto simp: get_session_def)
    have "\<not> (j \<in> set (sv_sessions sv) \<and> cs_peer (sv_session sv j) = Some peer)" for j
      using assms(1) None unfolding server_inv_def by (metis option.distinct(1))
    then show ?thesis using assms(1) i None unfolding e server_inv_def by auto
  qed (use assms None in \<open>simp add: get_session_def\<close>)
qed (use assms in \<open>simp add: get_session_def\<close>)

lemma iterate_inv:
  assumes "server_inv sv" "iterate now timeout peer connect_data addr event sv = Some sv'"
  shows "server_inv sv'"
proof -
  obtain r sv1 where g: "get_session peer connect_data addr sv = (r, sv1)"
    by (cases "get_session peer connect_data addr sv")
  have i1: "server_inv sv1" by (rule get_session_inv [OF assms(1) g])
  show ?thesis
  proof (cases r)
    case None
    then show ?thesis using assms(2) g i1 by (auto simp: iterate_def server_inv_def)
  next
    case (Some i)
    have u: "keeps_peers sv1 (upd_session i (\<lambda>s. s\<lparr>cs_ping_timeout := now + timeout\<rparr>) sv1)"
      by (simp add: keeps_peers_upd)
    have "keeps_peers sv1 sv'"
      using assms(2) unfolding iterate_def g Some
      by (auto simp: Let_def split: enet_event.splits if_splits
          intro: u keeps_peers_trans [OF u call_keeps] intro!: keeps_peers_upd)
    then show ?thesis using i1 by (rule keeps_peers_inv)
  qed
qed

lemma encode_control_frame [simp]:
  "encode_control p s = (b, s') \<Longrightarrow> cs_peer s' = cs_peer s \<and> cs_state s' = cs_state s \<and>
     cs_control_end s' = cs_control_end s \<and> cs_shutdown s' = cs_shutdown s \<and> cs_hdr s' = cs_hdr s"
  by (auto simp: encode_control_def Let_def split: if_splits option.splits)

definition keeps_session :: "control_session \<Rightarrow> control_session \<Rightarrow> bool" where
  "keeps_session s s' \<longleftrightarrow> cs_peer s' = cs_peer s \<and> cs_state s' = cs_state s \<and>
     cs_control_end s' = cs_control_end s \<and> cs_shutdown s' = cs_shutdown s"

text \<open>Sending changes nothing but the sender's counters.\<close>

definition only_sends :: "nat \<Rightarrow> control_server \<Rightarrow> control_server \<Rightarrow> bool" where
  "only_sends i sv sv' \<longleftrightarrow> sv_sessions sv' = sv_sessions sv \<and> sv_peers sv' = sv_peers sv \<and>
     sv_disconnected sv' = sv_disconnected sv \<and>
     keeps_session (sv_session sv i) (sv_session sv' i) \<and> (\<forall>j. j \<noteq> i \<longrightarrow> sv_session sv' j = sv_session sv j)"

lemma only_sends_trans [trans]: "only_sends i a b \<Longrightarrow> only_sends i b c \<Longrightarrow> only_sends i a c"
  by (simp add: only_sends_def keeps_session_def)

lemma send_control_only: "only_sends i sv (send_control i p sv)"
proof (cases "cs_peer (sv_session sv i)")
  case (Some peer)
  obtain b s' where e: "encode_control p (sv_session sv i) = (b, s')"
    by (cases "encode_control p (sv_session sv i)")
  show ?thesis using encode_control_frame [OF e] Some
    by (simp add: send_control_def e only_sends_def keeps_session_def)
qed (simp add: send_control_def only_sends_def keeps_session_def)

lemma send_feedback_only: "only_sends i sv (send_feedback i msgs sv)"
proof (induction msgs arbitrary: sv)
  case (Cons msg msgs)
  show ?case using only_sends_trans [OF send_control_only Cons.IH] by simp
qed (simp add: only_sends_def keeps_session_def)

lemma upd_session_only:
  "(\<And>s. keeps_session s (f s)) \<Longrightarrow> only_sends i sv (upd_session i f sv)"
  by (simp add: only_sends_def)

lemma drain_only: "only_sends i sv (drain_hdr i (drain_feedback i sv))"
proof -
  have f: "only_sends i sv (drain_feedback i sv)"
    unfolding drain_feedback_def
    by (rule only_sends_trans [OF upd_session_only send_feedback_only]) (simp add: keeps_session_def)
  have "only_sends i s (drain_hdr i s)" for s
  proof (cases "cs_hdr (sv_session s i)")
    case (Some info)
    have "only_sends i s (send_control i (hdr_message info) (upd_session i (\<lambda>s. s\<lparr>cs_hdr := None\<rparr>) s))"
      by (rule only_sends_trans [OF upd_session_only send_control_only]) (simp add: keeps_session_def)
    then show ?thesis using Some by (simp add: drain_hdr_def)
  qed (simp add: drain_hdr_def only_sends_def keeps_session_def)
  then show ?thesis using f only_sends_trans by blast
qed

lemma only_sends_keeps: "only_sends i sv sv' \<Longrightarrow> keeps_peers sv sv'"
  unfolding only_sends_def keeps_peers_def keeps_session_def by metis

section \<open>The pass\<close>

lemma end_session_inv: "server_inv sv \<Longrightarrow> i \<in> set (sv_sessions sv) \<Longrightarrow> server_inv (end_session i sv)"
proof -
  assume inv: "server_inv sv" and i: "i \<in> set (sv_sessions sv)"
  have d: "set (remove1 i (sv_sessions sv)) = set (sv_sessions sv) - {i}" "distinct (remove1 i (sv_sessions sv))"
    using inv by (auto simp: server_inv_def)
  show ?thesis
  proof (cases "cs_peer (sv_session sv i)")
    case None
    then have "sv_peers sv p \<noteq> Some i" for p using inv by (auto simp: server_inv_def)
    then show ?thesis using inv d None by (auto simp: server_inv_def end_session_def Let_def)
  next
    case (Some q)
    then have q: "sv_peers sv q = Some i" using inv i by (auto simp: server_inv_def)
    have "cs_peer (sv_session sv j) \<noteq> Some q" if "j \<in> set (sv_sessions sv)" "j \<noteq> i" for j
      using inv q that unfolding server_inv_def by (metis option.inject)
    moreover have "p = q" if "sv_peers sv p = Some i" for p
      using inv Some that by (auto simp: server_inv_def)
    ultimately show ?thesis using inv d Some by (auto simp: server_inv_def end_session_def Let_def)
  qed
qed

lemma expire_frame [simp]: "cs_peer (expire now s) = cs_peer s" "cs_control_end (expire now s) = cs_control_end s"
  by (simp_all add: expire_def)

lemma visit_inv:
  assumes "server_inv sv" "i \<in> set (sv_sessions sv)"
  shows "server_inv (fst (visit_session now i (sv, a)))"
proof -
  have u: "server_inv (upd_session i (expire now) sv)"
    by (rule keeps_peers_inv [OF keeps_peers_upd assms(1)]) auto
  show ?thesis
    using end_session_inv [OF u] u keeps_peers_inv [OF only_sends_keeps [OF drain_only] u] assms(2)
    by (simp add: visit_session_def Let_def)
qed

text \<open>What a visit does to the session it visits, and to the others.\<close>

lemma visit_session_effect:
  assumes "distinct (sv_sessions sv)"
  shows "j \<noteq> i \<Longrightarrow> sv_session (fst (visit_session now i (sv, a))) j = sv_session sv j"
    "j \<noteq> i \<Longrightarrow> j \<in> set (sv_sessions (fst (visit_session now i (sv, a)))) \<longleftrightarrow> j \<in> set (sv_sessions sv)"
    "cs_state (expire now (sv_session sv i)) = STOPPING \<Longrightarrow>
       i \<notin> set (sv_sessions (fst (visit_session now i (sv, a)))) \<and>
       cs_control_end (sv_session (fst (visit_session now i (sv, a))) i)"
    "cs_state (expire now (sv_session sv i)) \<noteq> STOPPING \<Longrightarrow>
       sv_sessions (fst (visit_session now i (sv, a))) = sv_sessions sv \<and>
       cs_state (sv_session (fst (visit_session now i (sv, a))) i) = cs_state (sv_session sv i)"
    "distinct (sv_sessions (fst (visit_session now i (sv, a))))"
proof -
  let ?u = "upd_session i (expire now) sv"
  have o: "only_sends i ?u (drain_hdr i (drain_feedback i ?u))" by (rule drain_only)
  have keep: "cs_state (expire now (sv_session sv i)) \<noteq> STOPPING \<Longrightarrow>
      cs_state (expire now (sv_session sv i)) = cs_state (sv_session sv i)"
    by (auto simp: expire_def stop_session_def split: if_splits)
  show "sv_session (fst (visit_session now i (sv, a))) j = sv_session sv j" if "j \<noteq> i"
    using o that by (auto simp: visit_session_def Let_def end_session_def only_sends_def)
  show "j \<in> set (sv_sessions (fst (visit_session now i (sv, a)))) \<longleftrightarrow> j \<in> set (sv_sessions sv)" if "j \<noteq> i"
    using o that by (auto simp: visit_session_def Let_def end_session_def only_sends_def)
  show "i \<notin> set (sv_sessions (fst (visit_session now i (sv, a)))) \<and>
       cs_control_end (sv_session (fst (visit_session now i (sv, a))) i)"
    if "cs_state (expire now (sv_session sv i)) = STOPPING"
    using assms that by (simp add: visit_session_def Let_def end_session_def)
  show "sv_sessions (fst (visit_session now i (sv, a))) = sv_sessions sv \<and>
       cs_state (sv_session (fst (visit_session now i (sv, a))) i) = cs_state (sv_session sv i)"
    if "cs_state (expire now (sv_session sv i)) \<noteq> STOPPING"
    using o keep that by (auto simp: visit_session_def Let_def only_sends_def keeps_session_def)
  show "distinct (sv_sessions (fst (visit_session now i (sv, a))))"
    using o assms by (auto simp: visit_session_def Let_def end_session_def only_sends_def)
qed

lemma pass_effect:
  assumes "distinct (sv_sessions sv)" "distinct xs" "set xs \<subseteq> set (sv_sessions sv)"
  shows "(j \<notin> set xs \<longrightarrow> sv_session (fst (fold (visit_session now) xs (sv, a))) j = sv_session sv j \<and>
       (j \<in> set (sv_sessions (fst (fold (visit_session now) xs (sv, a)))) \<longleftrightarrow> j \<in> set (sv_sessions sv))) \<and>
    (j \<in> set xs \<longrightarrow>
       (if cs_state (expire now (sv_session sv j)) = STOPPING
        then j \<notin> set (sv_sessions (fst (fold (visit_session now) xs (sv, a)))) \<and>
          cs_control_end (sv_session (fst (fold (visit_session now) xs (sv, a))) j)
        else j \<in> set (sv_sessions (fst (fold (visit_session now) xs (sv, a)))) \<and>
          cs_state (sv_session (fst (fold (visit_session now) xs (sv, a))) j) = cs_state (sv_session sv j)))"
  using assms
proof (induction xs arbitrary: sv a)
  case (Cons i xs)
  obtain sv1 a1 where v: "visit_session now i (sv, a) = (sv1, a1)" by (cases "visit_session now i (sv, a)")
  note e = visit_session_effect [OF Cons.prems(1), where i = i and now = now and a = a, unfolded v fst_conv]
  have d: "distinct (sv_sessions sv1)" by (rule e(5))
  have sub: "set xs \<subseteq> set (sv_sessions sv1)"
  proof
    fix k assume "k \<in> set xs"
    moreover from this have "k \<noteq> i" using Cons.prems(2) by auto
    ultimately show "k \<in> set (sv_sessions sv1)" using e(2) Cons.prems(3) by auto
  qed
  have ih: "(j \<notin> set xs \<longrightarrow> sv_session (fst (fold (visit_session now) xs (sv1, a1))) j = sv_session sv1 j \<and>
       (j \<in> set (sv_sessions (fst (fold (visit_session now) xs (sv1, a1)))) \<longleftrightarrow> j \<in> set (sv_sessions sv1))) \<and>
    (j \<in> set xs \<longrightarrow>
       (if cs_state (expire now (sv_session sv1 j)) = STOPPING
        then j \<notin> set (sv_sessions (fst (fold (visit_session now) xs (sv1, a1)))) \<and>
          cs_control_end (sv_session (fst (fold (visit_session now) xs (sv1, a1))) j)
        else j \<in> set (sv_sessions (fst (fold (visit_session now) xs (sv1, a1)))) \<and>
          cs_state (sv_session (fst (fold (visit_session now) xs (sv1, a1))) j) = cs_state (sv_session sv1 j)))"
    using Cons.IH [OF d _ sub] Cons.prems(2) by simp
  show ?case
  proof (cases "j = i")
    case True
    then show ?thesis using ih e(3,4) v Cons.prems(2,3) by auto
  next
    case False
    then show ?thesis using ih e(1,2) v by simp
  qed
qed simp

section \<open>Reachable states\<close>

inductive control_reaches :: "control_server \<Rightarrow> bool" where
  init: "sv_sessions sv = [] \<Longrightarrow> sv_peers sv = Map.empty \<Longrightarrow> control_reaches sv"
| add: "control_reaches sv \<Longrightarrow> i \<notin> set (sv_sessions sv) \<Longrightarrow> cs_peer s = None \<Longrightarrow>
    control_reaches (add_session i s sv)"
| event: "control_reaches sv \<Longrightarrow> iterate now timeout peer connect_data addr ev sv = Some sv' \<Longrightarrow>
    control_reaches sv'"
| pass: "control_reaches sv \<Longrightarrow> control_reaches (fst (control_pass now n sv))"
| other: "control_reaches sv \<Longrightarrow> (\<And>s. cs_peer (f s) = cs_peer s) \<Longrightarrow> control_reaches (upd_session i f sv)"

lemma fold_visit_inv:
  "server_inv sv \<Longrightarrow> distinct xs \<Longrightarrow> set xs \<subseteq> set (sv_sessions sv) \<Longrightarrow>
     server_inv (fst (fold (visit_session now) xs (sv, a)))"
proof (induction xs arbitrary: sv a)
  case (Cons i xs)
  obtain sv1 a1 where v: "visit_session now i (sv, a) = (sv1, a1)" by (cases "visit_session now i (sv, a)")
  have i: "server_inv sv1" using visit_inv [OF Cons.prems(1), of i now a] Cons.prems(3) v by simp
  have "distinct (sv_sessions sv)" using Cons.prems(1) by (simp add: server_inv_def)
  note e = visit_session_effect [OF this, where i = i and now = now and a = a, unfolded v fst_conv]
  have "set xs \<subseteq> set (sv_sessions sv1)"
  proof
    fix k assume k: "k \<in> set xs"
    then have "k \<noteq> i" using Cons.prems(2) by auto
    then show "k \<in> set (sv_sessions sv1)" using e(2) k Cons.prems(3) by auto
  qed
  then show ?case using Cons.IH [OF i] Cons.prems(2) v by simp
qed simp

lemma server_inv_reachable: "control_reaches sv \<Longrightarrow> server_inv sv"
proof (induction rule: control_reaches.induct)
  case (add sv i s)
  then show ?case by (auto simp: server_inv_def add_session_def)
next
  case (event sv now timeout peer connect_data addr ev sv')
  then show ?case by (blast intro: iterate_inv)
next
  case (pass sv now n)
  then show ?case unfolding control_pass_def
    by (intro fold_visit_inv) (auto simp: server_inv_def intro: in_set_takeD)
next
  case (other sv f i)
  then show ?case by (blast intro: keeps_peers_inv keeps_peers_upd keeps_peers_refl)
qed (simp add: server_inv_def)

text \<open>
  C31: A peer of the control stream has one session, and a session one peer: in every reachable
  state of the server the map from peers to sessions is exactly the relation the sessions' own
  peer pointers give, so no two sessions share a peer and no ended session is found by one.
\<close>
theorem peer_sessions:
  assumes "control_reaches sv"
  shows "(sv_peers sv p = Some i \<longleftrightarrow> i \<in> set (sv_sessions sv) \<and> cs_peer (sv_session sv i) = Some p) \<and>
    (i \<in> set (sv_sessions sv) \<and> j \<in> set (sv_sessions sv) \<and> cs_peer (sv_session sv i) = Some p \<and>
       cs_peer (sv_session sv j) = Some p \<longrightarrow> i = j)"
proof -
  have "server_inv sv" by (rule server_inv_reachable [OF assms])
  then show ?thesis unfolding server_inv_def by (metis option.inject)
qed

text \<open>
  The control thread ends the sessions that stop: a pass that is not cut short by a shutdown
  removes every session that is stopping or has not been heard of in time while running, and
  wakes its join; every other session stays, in the state it had.
\<close>
theorem pass_ends_sessions:
  assumes "control_reaches sv" "length (sv_sessions sv) \<le> n" "i \<in> set (sv_sessions sv)"
    and "sv' = fst (control_pass now n sv)" "s = sv_session sv i"
  shows "(cs_state s = STOPPING \<or> cs_state s = RUNNING \<and> cs_ping_timeout s < now \<longrightarrow>
       i \<notin> set (sv_sessions sv') \<and> cs_control_end (sv_session sv' i)) \<and>
    (\<not> (cs_state s = STOPPING \<or> cs_state s = RUNNING \<and> cs_ping_timeout s < now) \<longrightarrow>
       i \<in> set (sv_sessions sv') \<and> cs_state (sv_session sv' i) = cs_state s)"
proof -
  have d: "distinct (sv_sessions sv)" using server_inv_reachable [OF assms(1)] by (simp add: server_inv_def)
  have sv': "sv' = fst (fold (visit_session now) (sv_sessions sv) (sv, False))"
    using assms(2,4) by (simp add: control_pass_def)
  have st: "cs_state (expire now s) = STOPPING \<longleftrightarrow>
      cs_state s = STOPPING \<or> cs_state s = RUNNING \<and> cs_ping_timeout s < now"
    by (auto simp: expire_def stop_session_def)
  show ?thesis
    using pass_effect [OF d d subset_refl, of i now False] assms(3) unfolding sv' [symmetric] assms(5) [symmetric] st
    by (auto split: if_splits)
qed

section \<open>What a client without the key can do\<close>

text \<open>What a message makes the rest of the program do for a session.\<close>

definition same_orders :: "control_session \<Rightarrow> control_session \<Rightarrow> bool" where
  "same_orders s s' \<longleftrightarrow> cs_input s' = cs_input s \<and> cs_idr s' = cs_idr s \<and> cs_invalidate s' = cs_invalidate s"

lemma get_session_frame:
  assumes "get_session peer connect_data addr sv = (r, sv1)"
  shows "same_orders (sv_session sv j) (sv_session sv1 j) \<and> cs_protocol (sv_session sv1 j) = cs_protocol (sv_session sv j) \<and>
    cs_decrypt (sv_session sv1 j) = cs_decrypt (sv_session sv j) \<and> cs_state (sv_session sv1 j) = cs_state (sv_session sv j)"
  using assms by (auto simp: get_session_def same_orders_def split: option.splits if_splits)

lemma dispatch_other:
  "dispatch t i payload sv = Some sv' \<Longrightarrow> j \<noteq> i \<Longrightarrow> sv_session sv' j = sv_session sv j"
  by (auto simp: dispatch_def on_invalidate_ref_frames_def on_input_data_def Let_def
      split: if_splits option.splits)

lemma call_other:
  "call t i payload reinjected sv = Some sv' \<Longrightarrow> j \<noteq> i \<Longrightarrow> sv_session sv' j = sv_session sv j"
  by (auto simp: call_def on_encrypted_def Let_def dispatch_other split: if_splits option.splits)

text \<open>
  C32: Without the key a client gives no orders: when a session uses the encrypted protocol and
  its cipher rejects whatever arrives, no event on the control stream, for this session or for
  another, passes input on, requests a key frame or invalidates frames for it; at most the
  session is stopped.
\<close>
theorem forged_messages_inert:
  assumes "cs_protocol (sv_session sv j) = 13" "\<And>iv c. cs_decrypt (sv_session sv j) iv c = None"
    and "iterate now timeout peer connect_data addr ev sv = Some sv'"
  shows "same_orders (sv_session sv j) (sv_session sv' j) \<and>
    cs_state (sv_session sv' j) \<in> {cs_state (sv_session sv j), STOPPING}"
proof -
  obtain r sv1 where g: "get_session peer connect_data addr sv = (r, sv1)"
    by (cases "get_session peer connect_data addr sv")
  note f = get_session_frame [OF g, of j]
  show ?thesis
  proof (cases r)
    case None
    then show ?thesis using assms(3) f by (auto simp: iterate_def g)
  next
    case (Some i)
    define sv2 where "sv2 = upd_session i (\<lambda>s. s\<lparr>cs_ping_timeout := now + timeout\<rparr>) sv1"
    have f2: "same_orders (sv_session sv j) (sv_session sv2 j)" "cs_state (sv_session sv2 j) = cs_state (sv_session sv j)"
        "cs_protocol (sv_session sv2 j) = 13" "cs_decrypt (sv_session sv2 j) iv c = None" for iv c
      using f assms(1,2) by (auto simp: sv2_def same_orders_def)
    have enc: "same_orders (sv_session sv2 j) (sv_session sv' j) \<and>
        cs_state (sv_session sv' j) \<in> {cs_state (sv_session sv2 j), STOPPING}"
      if "on_encrypted j payload sv2 = Some sv'" for payload
      using that f2(4) unfolding on_encrypted_def
      by (auto simp: Let_def same_orders_def stop_session_def split: option.splits if_splits)
    have "same_orders (sv_session sv2 j) (sv_session sv' j) \<and>
        cs_state (sv_session sv' j) \<in> {cs_state (sv_session sv2 j), STOPPING}"
    proof (cases ev)
      case (Event_Receive data)
      then have c: "call (le_word (take 2 data)) i (drop 2 data) False sv2 = Some sv'"
        using assms(3) Some by (simp add: iterate_def g Let_def sv2_def [symmetric] split: if_splits)
      show ?thesis
      proof (cases "j = i")
        case True
        then show ?thesis using c enc f2(3) by (auto simp: call_def same_orders_def split: if_splits)
      qed (use call_other [OF c] in \<open>simp add: same_orders_def\<close>)
    next
      case Event_Connect
      then show ?thesis using assms(3) Some by (auto simp: iterate_def g Let_def sv2_def [symmetric] same_orders_def)
    next
      case Event_Disconnect
      then have "sv' = upd_session i stop_session sv2"
        using assms(3) Some by (simp add: iterate_def g Let_def sv2_def [symmetric])
      then show ?thesis by (auto simp: same_orders_def stop_session_def)
    qed
    then show ?thesis using f2(1,2) by (auto simp: same_orders_def)
  qed
qed

section \<open>Messages and vectors\<close>

lemma length_le_words: "length (le_bytes (w :: 16 word)) = 2" "length (le_bytes (v :: 32 word)) = 4"
  by (simp_all add: le_bytes_def)

lemma control_packet_bytes:
  assumes "length tg = 16" "length c + 20 < 2 ^ 16"
  shows "control_packet seqn tg c =
    le_bytes (0x0001 :: 16 word) @ le_bytes (word_of_nat (length c + 20) :: 16 word) @ le_bytes seqn @ tg @ c"
proof -
  have e: "length c + 16 + 4 = length c + 20" by simp
  have "unat (word_of_nat (length c + 20) :: 16 word) = length c + 20"
    unfolding unat_of_nat using assms(2) by simp
  then show ?thesis
    unfolding control_packet_def Let_def e
    by (intro take_all) (simp add: length_le_words assms(1))
qed

text \<open>
  C33: A message the host encrypts has the form it accepts: read like an incoming message, it
  gives the session's sequence number and the tag with the encrypted message, all of it, and the
  counter moves on by one.
\<close>
theorem encode_control_format:
  assumes "cs_protocol s = 13" "encode_control plaintext s = (bytes, s')" "bytes \<noteq> []"
    and "\<And>iv p tg c. cs_encrypt s iv p = Some (tg, c) \<Longrightarrow> length tg = 16 \<and> length c = length p"
    and "length plaintext + 20 < 2 ^ 16"
  shows "take 2 bytes = le_bytes IDX_ENCRYPTED \<and>
    (\<exists>tg c. cs_encrypt s (cs_outgoing_iv s') plaintext = Some (tg, c) \<and>
       encrypted_fields (drop 2 bytes) = Some (word_of_nat (length plaintext + 20), cs_seq s, tg @ c)) \<and>
    cs_seq s' = cs_seq s + 1"
proof -
  let ?iv = "control_iv (cs_control_v2 s) (cs_outgoing_iv s) (cs_seq s) (CHR ''H'')"
  obtain tg c where e: "cs_encrypt s ?iv plaintext = Some (tg, c)" "bytes = control_packet (cs_seq s) tg c"
      "s' = s\<lparr>cs_seq := cs_seq s + 1, cs_outgoing_iv := ?iv\<rparr>"
  proof (cases "cs_encrypt s ?iv plaintext")
    case None
    have "fst (encode_control plaintext s) = []"
      unfolding encode_control_def Let_def using assms(1) None by simp
    then show ?thesis using assms(2,3) by simp
  next
    case (Some r)
    obtain tg c where r: "r = (tg, c)" by (cases r)
    have "encode_control plaintext s = (if c = [] then [] else control_packet (cs_seq s) tg c,
        s\<lparr>cs_seq := cs_seq s + 1, cs_outgoing_iv := ?iv\<rparr>)"
      unfolding encode_control_def Let_def using assms(1) Some r by simp
    then have "bytes = (if c = [] then [] else control_packet (cs_seq s) tg c)"
        "s' = s\<lparr>cs_seq := cs_seq s + 1, cs_outgoing_iv := ?iv\<rparr>"
      using assms(2) by simp_all
    then show ?thesis using that [of tg c] Some r assms(3) by (cases "c = []") simp_all
  qed
  have l: "length tg = 16" "length c = length plaintext" using assms(4) [OF e(1)] by auto
  have b: "bytes = le_bytes (0x0001 :: 16 word) @ le_bytes (word_of_nat (length c + 20) :: 16 word) @
      le_bytes (cs_seq s) @ tg @ c"
    unfolding e(2) by (rule control_packet_bytes) (use l assms(5) in simp_all)
  have "encrypted_fields (drop 2 bytes) = Some (word_of_nat (length c + 20), cs_seq s, tg @ c)"
    unfolding b encrypted_fields_def by (simp add: length_le_words le_word_bytes)
  moreover have "take 2 bytes = le_bytes IDX_ENCRYPTED"
    unfolding b by (simp add: length_le_words packet_type_defs)
  ultimately show ?thesis using e(1,3) l(2) by simp
qed

lemma control_iv_message:
  assumes "iv = [] \<or> (\<exists>t. iv = message_iv t (CHR ''H'') (CHR ''C''))"
  shows "control_iv True iv seqn (CHR ''H'') = message_iv seqn (CHR ''H'') (CHR ''C'')"
proof -
  have le4: "\<exists>a b c d. le_bytes w = [a, b, c, d]" for w :: "32 word"
    unfolding le_bytes_def by (simp add: upt_conv_Cons)
  obtain a b c d where abcd: "le_bytes seqn = [a, b, c, d]" using le4 by blast
  have r: "\<exists>x y. resize_iv 12 iv = [x ! 0, x ! 1, x ! 2, x ! 3, 0, 0, 0, 0, 0, 0, y ! 0, y ! (1::nat)]"
  proof (cases "iv = []")
    case True
    have "resize_iv 12 iv = [0, 0, 0, 0, 0, 0, 0, 0, 0, 0, 0, 0]"
      unfolding True resize_iv_def by (simp add: eval_nat_numeral)
    then show ?thesis by (intro exI [of _ "[0, 0, 0, 0]"] exI [of _ "[0, 0]"]) (simp add: eval_nat_numeral)
  next
    case False
    then obtain t where t: "iv = message_iv t (CHR ''H'') (CHR ''C'')" using assms by blast
    obtain a' b' c' d' where "le_bytes t = [a', b', c', d']" using le4 by blast
    then have "resize_iv 12 iv = [a', b', c', d', 0, 0, 0, 0, 0, 0, char_byte (CHR ''H''), char_byte (CHR ''C'')]"
      unfolding t message_iv_def resize_iv_def by (simp add: eval_nat_numeral)
    then show ?thesis
      by (intro exI [of _ "[a', b', c', d']"] exI [of _ "[char_byte (CHR ''H''), char_byte (CHR ''C'')]"])
        (simp add: eval_nat_numeral)
  qed
  then obtain x y where "resize_iv 12 iv = [x ! 0, x ! 1, x ! 2, x ! 3, 0, 0, 0, 0, 0, 0, y ! 0, y ! (1::nat)]" by blast
  then show ?thesis
    unfolding control_iv_def message_iv_def write_at_def abcd by (simp add: eval_nat_numeral)
qed

text \<open>
  The vectors of the messages the host sends with the current control encryption are those
  numbered by the counter: after any messages, the last vector is the one of the last sequence
  number, so none repeats before the 32-bit counter does.
\<close>
theorem outgoing_ivs:
  assumes "cs_protocol s = 13" "cs_control_v2 s" "cs_outgoing_iv s = []"
  shows "let s' = fold (\<lambda>m s. snd (encode_control m s)) msgs s in
    cs_seq s' = cs_seq s + word_of_nat (length msgs) \<and>
    (msgs \<noteq> [] \<longrightarrow> cs_outgoing_iv s' =
       message_iv (cs_seq s + word_of_nat (length msgs - 1)) (CHR ''H'') (CHR ''C''))"
proof -
  have "cs_protocol s' = 13 \<and> cs_control_v2 s' \<and> cs_seq s' = cs_seq s + word_of_nat (length msgs) \<and>
      (if msgs = [] then cs_outgoing_iv s' = []
       else cs_outgoing_iv s' = message_iv (cs_seq s + word_of_nat (length msgs - 1)) (CHR ''H'') (CHR ''C''))"
    if "s' = fold (\<lambda>m s. snd (encode_control m s)) msgs s" for s'
    using that
  proof (induction msgs arbitrary: s' rule: rev_induct)
    case (snoc m msgs)
    define s1 where "s1 = fold (\<lambda>m s. snd (encode_control m s)) msgs s"
    have s': "s' = snd (encode_control m s1)" using snoc.prems by (simp add: s1_def)
    note ih = snoc.IH [OF s1_def]
    have iv: "control_iv True (cs_outgoing_iv s1) (cs_seq s1) (CHR ''H'') = message_iv (cs_seq s1) (CHR ''H'') (CHR ''C'')"
      using ih by (intro control_iv_message) (auto split: if_splits)
    have "cs_protocol s' = 13 \<and> cs_control_v2 s' \<and> cs_seq s' = cs_seq s1 + 1 \<and>
        cs_outgoing_iv s' = message_iv (cs_seq s1) (CHR ''H'') (CHR ''C'')"
      using ih iv by (auto simp: s' encode_control_def Let_def split: option.splits prod.splits)
    then show ?case using ih by (simp add: add.assoc)
  qed (use assms in simp)
  then show ?thesis by (simp add: Let_def split: if_splits)
qed

section \<open>A small server\<close>

definition demo_control :: control_session where
  "demo_control = \<lparr>cs_state = RUNNING, cs_peer = None, cs_protocol = 13, cs_session_id_v1 = True,
     cs_control_v2 = True, cs_connect_data = 5, cs_expected_peer_address = [], cs_launch_session_id = 1,
     cs_ping_timeout = 10, cs_seq = 0, cs_incoming_iv = [], cs_outgoing_iv = [], cs_legacy_input_enc_iv = [],
     cs_encrypt = (\<lambda>iv p. Some (replicate 16 0, p)), cs_decrypt = (\<lambda>iv c. None), cs_shutdown = False,
     cs_control_end = False, cs_idr = False, cs_invalidate = None, cs_feedback = [], cs_hdr = None, cs_input = []\<rparr>"

definition demo_server :: control_server where
  "demo_server = add_session 1 demo_control
     \<lparr>sv_session = (\<lambda>_. demo_control), sv_sessions = [], sv_peers = Map.empty, sv_sent = [],
      sv_disconnected = [], sv_cleared = []\<rparr>"

lemma demo_server_reaches: "control_reaches demo_server"
  unfolding demo_server_def
  by (rule control_reaches.add [OF control_reaches.init]) (simp_all add: demo_control_def)

definition demo_connected :: control_server where
  "demo_connected = the (iterate 0 10 7 5 [] Event_Connect demo_server)"

lemma demo_connected_eq: "iterate 0 10 7 5 [] Event_Connect demo_server = Some demo_connected"
  by (simp add: demo_connected_def iterate_def get_session_def demo_server_def add_session_def
      matches_session_def demo_control_def Let_def)

theorem peer_sessions_witness: "sv_peers demo_connected 7 = Some 1 \<and> cs_peer (sv_session demo_connected 1) = Some 7"
proof -
  have "control_reaches demo_connected"
    by (rule control_reaches.event [OF demo_server_reaches demo_connected_eq])
  moreover have "sv_peers demo_connected 7 = Some 1"
    by (simp add: demo_connected_def iterate_def get_session_def demo_server_def add_session_def
        matches_session_def demo_control_def Let_def)
  ultimately show ?thesis using peer_sessions [of demo_connected 7 1 1] by simp
qed

theorem pass_ends_sessions_witness: "1 \<notin> set (sv_sessions (fst (control_pass 11 1 demo_server)))"
  using pass_ends_sessions [OF demo_server_reaches, of 1 1 _ 11 demo_control]
  by (simp add: demo_server_def add_session_def demo_control_def)

theorem forged_messages_inert_witness:
  "\<exists>sv'. iterate 0 10 7 5 [] (Event_Receive [1, 0, 24, 0, 0, 0, 0, 0, 1, 2, 3]) demo_server = None \<and>
     iterate 0 10 7 5 [] (Event_Receive [5, 3]) demo_server = Some sv' \<and>
     same_orders (sv_session demo_server 1) (sv_session sv' 1)"
proof -
  have n: "iterate 0 10 7 5 [] (Event_Receive [1, 0, 24, 0, 0, 0, 0, 0, 1, 2, 3]) demo_server = None"
    by (simp add: iterate_def get_session_def demo_server_def add_session_def matches_session_def
        demo_control_def Let_def call_def packet_type_defs on_encrypted_def encrypted_fields_def)
  obtain sv' where s: "iterate 0 10 7 5 [] (Event_Receive [5, 3]) demo_server = Some sv'"
    by (simp add: iterate_def get_session_def demo_server_def add_session_def matches_session_def
        demo_control_def Let_def call_def packet_type_defs)
  have "same_orders (sv_session demo_server 1) (sv_session sv' 1)"
    using forged_messages_inert [OF _ _ s, of 1] by (simp add: demo_server_def add_session_def demo_control_def)
  then show ?thesis using n s by blast
qed

theorem encode_control_format_witness:
  "\<exists>bytes s'. encode_control [1, 2, 3, 4] demo_control = (bytes, s') \<and> cs_seq s' = 1 \<and>
     take 2 bytes = le_bytes IDX_ENCRYPTED"
proof -
  obtain bytes s' where e: "encode_control [1, 2, 3, 4] demo_control = (bytes, s')"
    by (cases "encode_control [1, 2, 3, 4] demo_control")
  have "bytes = control_packet 0 (replicate 16 0) [1, 2, 3, 4]"
    using e unfolding encode_control_def Let_def by (simp add: demo_control_def)
  then have "bytes \<noteq> []" using control_packet_bytes [of "replicate 16 0" "[1, 2, 3, 4]" 0] length_le_words(1) by auto
  then show ?thesis
    using encode_control_format [OF _ e] e by (simp add: demo_control_def)
qed

theorem outgoing_ivs_witness:
  "cs_outgoing_iv (fold (\<lambda>m s. snd (encode_control m s)) [[1], [2]] demo_control) =
     message_iv 1 (CHR ''H'') (CHR ''C'')"
  using outgoing_ivs [of demo_control "[[1], [2]]"] by (simp add: demo_control_def Let_def)

end
