(* ===== verification/Audio.thy ===== *)
theory Audio
  imports Gcm_Iv Slices
begin

text \<open>
  Audio: the stream configurations and the choice of the sink (\<open>src/audio.cpp\<close>) and the packets of
  \<open>audioBroadcastThread\<close> (\<open>src/stream.cpp\<close>). Opus, the sinks of the platform, the CBC cipher and
  the Reed-Solomon code are parameters, and so are the numbers of data and parity shards, which
  the protocol library defines.
\<close>

section \<open>Stream configurations\<close>

definition map_stereo :: "byte list" where "map_stereo = [0, 1]"
definition map_surround51 :: "byte list" where "map_surround51 = [0, 1, 2, 3, 4, 5]"
definition map_surround71 :: "byte list" where "map_surround71 = [0, 1, 2, 3, 4, 5, 6, 7]"
definition MAX_SPEAKERS :: nat where "MAX_SPEAKERS = 8"
definition SAMPLE_RATE :: int where "SAMPLE_RATE = 48000"

record opus_stream_config =
  oc_sampleRate :: int
  oc_channelCount :: int
  oc_streams :: int
  oc_coupledStreams :: int
  oc_mapping :: "byte list"
  oc_bitrate :: int

record stream_params =
  pa_channelCount :: int
  pa_streams :: int
  pa_coupledStreams :: int
  pa_mapping :: "byte list"

definition STEREO :: nat where "STEREO = 0"
definition SURROUND51 :: nat where "SURROUND51 = 2"
definition SURROUND71 :: nat where "SURROUND71 = 4"
definition MAX_STREAM_CONFIG :: nat where "MAX_STREAM_CONFIG = 6"

definition stream_config_of :: "int \<Rightarrow> int \<Rightarrow> int \<Rightarrow> byte list \<Rightarrow> int \<Rightarrow> opus_stream_config" where
  "stream_config_of channelCount streams coupledStreams mapping bitrate =
     \<lparr>oc_sampleRate = SAMPLE_RATE, oc_channelCount = channelCount, oc_streams = streams,
      oc_coupledStreams = coupledStreams, oc_mapping = mapping, oc_bitrate = bitrate\<rparr>"

definition stream_configs :: "opus_stream_config list" where
  "stream_configs =
     [stream_config_of 2 1 1 map_stereo 96000,
      stream_config_of 2 1 1 map_stereo 512000,
      stream_config_of 6 4 2 map_surround51 256000,
      stream_config_of 6 6 0 map_surround51 1536000,
      stream_config_of 8 5 3 map_surround71 450000,
      stream_config_of 8 8 0 map_surround71 2048000]"

definition map_stream :: "int \<Rightarrow> bool \<Rightarrow> nat" where
  "map_stream channels quality =
     (let shift = (if quality then 1 else 0)
      in if channels = 2 then STEREO + shift
         else if channels = 6 then SURROUND51 + shift
         else if channels = 8 then SURROUND71 + shift
         else STEREO)"

definition apply_surround_params :: "stream_params \<Rightarrow> opus_stream_config \<Rightarrow> opus_stream_config" where
  "apply_surround_params params stream =
     stream\<lparr>oc_channelCount := pa_channelCount params, oc_streams := pa_streams params,
            oc_coupledStreams := pa_coupledStreams params, oc_mapping := pa_mapping params\<rparr>"

record audio_config =
  au_packetDuration :: int
  au_channels :: int
  au_mask :: int
  au_customStreamParams :: stream_params
  au_high_quality :: bool
  au_host_audio :: bool
  au_custom_surround_params :: bool
  au_continuous_audio :: bool

definition capture_stream :: "audio_config \<Rightarrow> opus_stream_config" where
  "capture_stream config =
     (let stream = stream_configs ! map_stream (au_channels config) (au_high_quality config)
      in if au_custom_surround_params config
         then apply_surround_params (au_customStreamParams config) stream else stream)"

definition frame_size :: "audio_config \<Rightarrow> int" where
  "frame_size config = au_packetDuration config * oc_sampleRate (capture_stream config) div 1000"

section \<open>The sink\<close>

text \<open>The sinks the platform reports: the host's (empty when there is none) and the virtual ones.\<close>

record sinks =
  sk_host :: string
  sk_null :: "(string \<times> string \<times> string) option"

text \<open>\<open>ac_current\<close> is the platform's default sink, which \<open>set_sink\<close> changes.\<close>

record audio_ctx =
  ac_sink_flag :: bool
  ac_control :: bool
  ac_restore_sink :: bool
  ac_sink :: sinks
  ac_current :: string

definition start_audio_control :: "bool \<Rightarrow> sinks option \<Rightarrow> audio_ctx \<Rightarrow> audio_ctx" where
  "start_audio_control control sink_info ctx =
     (let ctx = ctx\<lparr>ac_sink_flag := False, ac_restore_sink := False\<rparr>
      in if \<not> control then ctx\<lparr>ac_control := False\<rparr>
         else case sink_info of None \<Rightarrow> ctx\<lparr>ac_control := False\<rparr>
              | Some sink \<Rightarrow> ctx\<lparr>ac_control := True, ac_sink := sink\<rparr>)"

definition select_sink :: "string \<Rightarrow> audio_config \<Rightarrow> sinks \<Rightarrow> string" where
  "select_sink config_sink config sk =
     (let sink = (if config_sink \<noteq> [] then config_sink else sk_host sk)
      in case sk_null sk of None \<Rightarrow> sink
         | Some (stereo, surround51, surround71) \<Rightarrow>
             if \<not> au_host_audio config \<or> sink = [] then
               (let n = oc_channelCount (capture_stream config)
                in if n = 2 then stereo else if n = 6 then surround51 else if n = 8 then surround71 else sink)
             else sink)"

text \<open>\<open>set_ok\<close> says whether \<open>set_sink\<close> succeeds; the result is false when the capture gives up.\<close>

definition capture_sink :: "bool \<Rightarrow> string \<Rightarrow> audio_config \<Rightarrow> audio_ctx \<Rightarrow> audio_ctx \<times> bool" where
  "capture_sink set_ok config_sink config ctx =
     (if \<not> ac_control ctx then (ctx, False)
      else let sink = select_sink config_sink config (ac_sink ctx)
      in if ac_sink_flag ctx then (ctx, True)
         else let ctx1 = ctx\<lparr>ac_sink_flag := True, ac_restore_sink := (sk_host (ac_sink ctx) \<noteq> sink)\<rparr>
         in if ac_restore_sink ctx1 then
              (if set_ok then (ctx1\<lparr>ac_current := sink\<rparr>, True) else (ctx1, False))
            else (ctx1, True))"

definition home_sink :: "string \<Rightarrow> audio_ctx \<Rightarrow> string" where
  "home_sink config_sink ctx = (if sk_host (ac_sink ctx) = [] then config_sink else sk_host (ac_sink ctx))"

definition stop_audio_control :: "bool \<Rightarrow> string \<Rightarrow> audio_ctx \<Rightarrow> audio_ctx" where
  "stop_audio_control set_ok config_sink ctx =
     (if \<not> ac_restore_sink ctx then ctx
      else let sink = home_sink config_sink ctx
      in if sink \<noteq> [] \<and> set_ok then ctx\<lparr>ac_current := sink\<rparr> else ctx)"

definition is_audio_ctx_sink_available :: "(string \<Rightarrow> bool) \<Rightarrow> string \<Rightarrow> audio_ctx \<Rightarrow> bool" where
  "is_audio_ctx_sink_available is_sink_available config_sink ctx \<longleftrightarrow>
     ac_control ctx \<and> home_sink config_sink ctx \<noteq> [] \<and> is_sink_available (home_sink config_sink ctx)"

section \<open>Packets\<close>

text \<open>
  The part of \<open>session_t\<close> the broadcast uses. The slots of \<open>shards_p\<close> are buffers of 2048 bytes of
  which a packet overwrites the front; the fields of the FEC header are in network order.
\<close>

record audio_session =
  as_sequenceNumber :: "16 word"
  as_avRiKeyId :: "32 word"
  as_timestamp :: "32 word"
  as_shards :: "byte list list"
  as_baseSequenceNumber :: "byte list"
  as_baseTimestamp :: "byte list"

datatype audio_packet =
  Audio_Data (data_seqn: "byte list") (data_timestamp: "byte list") (data_payload: "byte list")
| Audio_Fec (fec_seqn: "byte list") (fec_baseSequenceNumber: "byte list") (fec_baseTimestamp: "byte list")
    (fec_shardIndex: nat) (fec_payload: "byte list")

definition max_block_size :: nat where "max_block_size = (2048 + 15) div 16 * 16"

definition audio_alloc :: "nat \<Rightarrow> nat \<Rightarrow> byte list \<Rightarrow> audio_session" where
  "audio_alloc data_shards fec_shards iv =
     \<lparr>as_sequenceNumber = 0, as_avRiKeyId = be_word (take 4 iv), as_timestamp = 0,
      as_shards = replicate (data_shards + fec_shards) (replicate max_block_size 0),
      as_baseSequenceNumber = [0, 0], as_baseTimestamp = [0, 0, 0, 0]\<rparr>"

definition audio_iv :: "audio_session \<Rightarrow> byte list" where
  "audio_iv s = be_bytes (as_avRiKeyId s + ucast (as_sequenceNumber s)) @ replicate 12 0"

text \<open>\<open>None\<close> where the cipher fails.\<close>

definition encode_audio ::
  "(byte list \<Rightarrow> byte list \<Rightarrow> byte list option) \<Rightarrow> bool \<Rightarrow> byte list \<Rightarrow> byte list \<Rightarrow> byte list option" where
  "encode_audio cbc encrypted iv plaintext = (if \<not> encrypted then Some plaintext else cbc iv plaintext)"

definition fec_packets :: "nat \<Rightarrow> nat \<Rightarrow> nat \<Rightarrow> 16 word \<Rightarrow> audio_session \<Rightarrow> audio_packet list" where
  "fec_packets data_shards fec_shards bytes sequenceNumber s =
     map (\<lambda>x. Audio_Fec (be_bytes (sequenceNumber + word_of_nat x + 1)) (as_baseSequenceNumber s)
                 (as_baseTimestamp s) x (take bytes (as_shards s ! (data_shards + x)))) [0..<fec_shards]"

text \<open>
  One iteration: \<open>rs\<close> gives the parity shards for the first \<open>bytes\<close> bytes of the data shards.
  \<open>None\<close>: the broadcast stops, or a packet does not fit its slot.
\<close>

definition audio_step ::
  "nat \<Rightarrow> nat \<Rightarrow> (byte list list \<Rightarrow> nat \<Rightarrow> byte list list) \<Rightarrow> (byte list \<Rightarrow> byte list \<Rightarrow> byte list option) \<Rightarrow> bool \<Rightarrow>
    32 word \<Rightarrow> byte list \<Rightarrow> audio_session \<Rightarrow> (audio_session \<times> audio_packet list) option" where
  "audio_step data_shards fec_shards rs cbc encrypted packetDuration packet_data s =
     (case encode_audio cbc encrypted (audio_iv s) packet_data of
        None \<Rightarrow> None
      | Some payload \<Rightarrow>
          if length payload > max_block_size then None
          else let seqn = as_sequenceNumber s; timestamp = as_timestamp s;
                   slot = unat seqn mod data_shards; bytes = length payload;
                   s1 = s\<lparr>as_shards := (as_shards s)[slot := write_at 0 payload (as_shards s ! slot)],
                          as_sequenceNumber := seqn + 1, as_timestamp := timestamp + packetDuration\<rparr>;
                   out = [Audio_Data (be_bytes seqn) (be_bytes timestamp) (take bytes (as_shards s1 ! slot))];
                   s2 = (if unat seqn mod data_shards = 0
                         then s1\<lparr>as_baseSequenceNumber := be_bytes seqn, as_baseTimestamp := be_bytes timestamp\<rparr>
                         else s1)
               in if (unat seqn + 1) mod data_shards = 0 then
                    (let parity = rs (map (take bytes) (take data_shards (as_shards s2))) fec_shards;
                         s3 = s2\<lparr>as_shards := take data_shards (as_shards s2) @
                           map (\<lambda>x. write_at 0 (parity ! x) (as_shards s2 ! (data_shards + x))) [0..<fec_shards]\<rparr>
                     in Some (s3, out @ fec_packets data_shards fec_shards bytes seqn s3))
                  else Some (s2, out))"

fun audio_run ::
  "nat \<Rightarrow> nat \<Rightarrow> (byte list list \<Rightarrow> nat \<Rightarrow> byte list list) \<Rightarrow> (byte list \<Rightarrow> byte list \<Rightarrow> byte list option) \<Rightarrow> bool \<Rightarrow>
    32 word \<Rightarrow> byte list list \<Rightarrow> audio_session \<Rightarrow> (audio_session \<times> audio_packet list) option" where
  "audio_run D F rs cbc encrypted dur [] s = Some (s, [])"
| "audio_run D F rs cbc encrypted dur (p # ps) s =
     (case audio_step D F rs cbc encrypted dur p s of
        None \<Rightarrow> None
      | Some (s1, out) \<Rightarrow>
          map_option (\<lambda>(s2, outs). (s2, out @ outs)) (audio_run D F rs cbc encrypted dur ps s1))"


section \<open>Blocks of packets\<close>

definition shards_ok :: "nat \<Rightarrow> nat \<Rightarrow> audio_session \<Rightarrow> bool" where
  "shards_ok D F s \<longleftrightarrow> length (as_shards s) = D + F \<and> (\<forall>b\<in>set (as_shards s). length b = max_block_size)"

text \<open>The state in the middle of a block that started at \<open>s0\<close>: \<open>k\<close> packets of \<open>n\<close> bytes are in their slots.\<close>

definition in_block :: "nat \<Rightarrow> nat \<Rightarrow> 32 word \<Rightarrow> byte list list \<Rightarrow> nat \<Rightarrow> audio_session \<Rightarrow> nat \<Rightarrow> audio_session \<Rightarrow> bool" where
  "in_block D F dur cs n s0 k s \<longleftrightarrow>
     shards_ok D F s \<and> as_sequenceNumber s = as_sequenceNumber s0 + word_of_nat k \<and>
     as_timestamp s = as_timestamp s0 + word_of_nat k * dur \<and> as_avRiKeyId s = as_avRiKeyId s0 \<and>
     (k \<noteq> 0 \<longrightarrow> as_baseSequenceNumber s = be_bytes (as_sequenceNumber s0) \<and>
                as_baseTimestamp s = be_bytes (as_timestamp s0)) \<and>
     (\<forall>j<k. take n (as_shards s ! j) = cs ! j)"

definition data_packet :: "32 word \<Rightarrow> byte list list \<Rightarrow> audio_session \<Rightarrow> nat \<Rightarrow> audio_packet" where
  "data_packet dur cs s0 j = Audio_Data (be_bytes (as_sequenceNumber s0 + word_of_nat j))
     (be_bytes (as_timestamp s0 + word_of_nat j * dur)) (cs ! j)"

definition parity_packet :: "nat \<Rightarrow> (byte list list \<Rightarrow> nat \<Rightarrow> byte list list) \<Rightarrow> nat \<Rightarrow> byte list list \<Rightarrow>
    audio_session \<Rightarrow> nat \<Rightarrow> audio_packet" where
  "parity_packet D rs F cs s0 x = Audio_Fec (be_bytes (as_sequenceNumber s0 + word_of_nat (D + x)))
     (be_bytes (as_sequenceNumber s0)) (be_bytes (as_timestamp s0)) x (rs cs F ! x)"

definition iv_at :: "audio_session \<Rightarrow> nat \<Rightarrow> byte list" where
  "iv_at s0 j = be_bytes (as_avRiKeyId s0 + ucast (as_sequenceNumber s0 + word_of_nat j)) @ replicate 12 0"

lemma take_write_at: "length bytes = n \<Longrightarrow> take n (write_at 0 bytes buf) = bytes"
  by (simp add: write_at_def)

lemma aligned_room:
  assumes "unat (w :: 16 word) mod D = 0" "D dvd 65536"
  shows "unat w + D \<le> 65536"
proof -
  have "D dvd 65536 - unat w" using assms by (intro dvd_diff_nat) (auto simp: mod_eq_0_iff_dvd)
  moreover have "unat w < 65536" using unsigned_less [of w] by simp
  ultimately have "D \<le> 65536 - unat w" by (intro dvd_imp_le) auto
  then show ?thesis using \<open>unat w < 65536\<close> by linarith
qed

lemma aligned_offset:
  assumes "unat (w :: 16 word) mod D = 0" "D dvd 65536" "j < D"
  shows "unat (w + word_of_nat j) = unat w + j" "unat (w + word_of_nat j) mod D = j"
    "(unat (w + word_of_nat j) + 1) mod D = Suc j mod D"
proof -
  have "unat w + j < 65536" using aligned_room [OF assms(1,2)] assms(3) by linarith
  moreover from this have "unat (word_of_nat j :: 16 word) = j" by (simp add: unat_of_nat)
  ultimately show u: "unat (w + word_of_nat j) = unat w + j" by (simp add: unat_word_ariths)
  have m: "(unat w + k) mod D = k mod D" for k using assms(1) by (metis add_0 mod_add_left_eq)
  show "unat (w + word_of_nat j) mod D = j" using m [of j] assms(3) u by simp
  show "(unat (w + word_of_nat j) + 1) mod D = Suc j mod D" using m [of "Suc j"] u by simp
qed


lemma audio_step_in_block:
  assumes b: "in_block D F dur cs n s0 k s" and k: "k < D" and al: "unat (as_sequenceNumber s0) mod D = 0" "D dvd 65536"
    and enc: "encode_audio cbc encrypted (iv_at s0 k) p = Some (cs ! k)" "length (cs ! k) = n" "n \<le> max_block_size"
    and that: "cs' = map (take n) (take D ((as_shards s)[k := write_at 0 (cs ! k) (as_shards s ! k)]))"
  shows "\<exists>s'. in_block D F dur cs n s0 (Suc k) s' \<and>
    audio_step D F rs cbc encrypted dur p s =
      (if Suc k \<noteq> D then Some (s', [data_packet dur cs s0 k])
       else (let parity = rs cs' F; s3 = s'\<lparr>as_shards := take D (as_shards s') @
                   map (\<lambda>x. write_at 0 (parity ! x) (as_shards s' ! (D + x))) [0..<F]\<rparr>
             in Some (s3, [data_packet dur cs s0 k] @ fec_packets D F n (as_sequenceNumber s) s3)))"
proof -
  have w: "shards_ok D F s" "as_sequenceNumber s = as_sequenceNumber s0 + word_of_nat k"
      "as_timestamp s = as_timestamp s0 + word_of_nat k * dur" "as_avRiKeyId s = as_avRiKeyId s0"
      "k \<noteq> 0 \<Longrightarrow> as_baseSequenceNumber s = be_bytes (as_sequenceNumber s0) \<and>
                as_baseTimestamp s = be_bytes (as_timestamp s0)"
      "\<And>j. j < k \<Longrightarrow> take n (as_shards s ! j) = cs ! j"
    using b by (simp_all add: in_block_def)
  have slot: "unat (as_sequenceNumber s) mod D = k" "(unat (as_sequenceNumber s) + 1) mod D = Suc k mod D"
    using aligned_offset(2,3) [OF al k] by (simp_all add: w(2))
  have len: "length (as_shards s) = D + F" "length (as_shards s ! k) = max_block_size"
    using w(1) k by (simp_all add: shards_ok_def)
  let ?shards = "(as_shards s)[k := write_at 0 (cs ! k) (as_shards s ! k)]"
  define s1 where "s1 = s\<lparr>as_shards := ?shards, as_sequenceNumber := as_sequenceNumber s + 1,
      as_timestamp := as_timestamp s + dur\<rparr>"
  define s' where "s' = (if k = 0 then s1\<lparr>as_baseSequenceNumber := be_bytes (as_sequenceNumber s),
      as_baseTimestamp := be_bytes (as_timestamp s)\<rparr> else s1)"
  have sh: "as_shards s' = ?shards" by (simp add: s'_def s1_def)
  have "\<forall>x\<in>set ?shards. length x = max_block_size"
    using w(1) enc(2,3) len(2) set_update_subset_insert [of "as_shards s" k] unfolding shards_ok_def
    by (metis (no_types, lifting) add_0 insertE length_write_at subsetD)
  then have "shards_ok D F s'" using len(1) by (simp add: shards_ok_def sh)
  moreover have "\<forall>j<Suc k. take n (as_shards s' ! j) = cs ! j"
    using w(6) enc(2) k len(1) by (auto simp: sh less_Suc_eq take_write_at)
  ultimately have "in_block D F dur cs n s0 (Suc k) s'"
    using w(2-5) by (auto simp: in_block_def s'_def s1_def algebra_simps)
  moreover have "audio_step D F rs cbc encrypted dur p s =
      (if Suc k \<noteq> D then Some (s', [data_packet dur cs s0 k])
       else (let parity = rs cs' F; s3 = s'\<lparr>as_shards := take D (as_shards s') @
                   map (\<lambda>x. write_at 0 (parity ! x) (as_shards s' ! (D + x))) [0..<F]\<rparr>
             in Some (s3, [data_packet dur cs s0 k] @ fec_packets D F n (as_sequenceNumber s) s3)))"
  proof -
    have iv: "audio_iv s = iv_at s0 k" by (simp add: audio_iv_def iv_at_def w(2,4))
    have d: "Audio_Data (be_bytes (as_sequenceNumber s)) (be_bytes (as_timestamp s))
        (take n (as_shards s1 ! k)) = data_packet dur cs s0 k"
      using enc(2) k len(1) by (simp add: data_packet_def w(2,3) s1_def take_write_at)
    have m: "Suc k mod D = 0 \<longleftrightarrow> Suc k = D" using k by (metis Suc_lessI mod_less mod_self nat.distinct(1))
    show ?thesis
      unfolding audio_step_def iv enc(1) option.case Let_def slot enc(2) m
        s1_def [symmetric] d
      using enc(3) that by (simp add: s'_def [symmetric] sh)
  qed
  ultimately show ?thesis by blast
qed


text \<open>The parity shards the library computes are as many as asked for, each as long as the data shards.\<close>

definition rs_documented :: "nat \<Rightarrow> (byte list list \<Rightarrow> nat \<Rightarrow> byte list list) \<Rightarrow> bool" where
  "rs_documented n rs \<longleftrightarrow>
     (\<forall>ds F. (\<forall>d\<in>set ds. length d = n) \<longrightarrow> length (rs ds F) = F \<and> (\<forall>q\<in>set (rs ds F). length q = n))"

lemma block_end:
  assumes b: "in_block D F dur cs n s0 D s'" and cs: "length cs = D" "\<forall>c\<in>set cs. length c = n" "n \<le> max_block_size"
    and rs: "rs_documented n rs" and pos: "0 < D" and seqn: "w = as_sequenceNumber s0 + word_of_nat (D - 1)"
    and s3: "s3 = s'\<lparr>as_shards := take D (as_shards s') @
        map (\<lambda>x. write_at 0 (rs cs F ! x) (as_shards s' ! (D + x))) [0..<F]\<rparr>"
  shows "shards_ok D F s3" "fec_packets D F n w s3 = map (parity_packet D rs F cs s0) [0..<F]"
    "as_sequenceNumber s3 = as_sequenceNumber s0 + word_of_nat D"
    "as_timestamp s3 = as_timestamp s0 + word_of_nat D * dur" "as_avRiKeyId s3 = as_avRiKeyId s0"
proof -
  have w: "length (as_shards s') = D + F" "\<forall>b\<in>set (as_shards s'). length b = max_block_size"
    using b by (simp_all add: in_block_def shards_ok_def)
  have par: "length (rs cs F) = F" "\<And>x. x < F \<Longrightarrow> length (rs cs F ! x) = n"
    using rs cs(2) unfolding rs_documented_def by (blast, metis nth_mem)
  have "length (write_at 0 (rs cs F ! x) (as_shards s' ! (D + x))) = max_block_size" if "x < F" for x
    using that par(2) cs(3) w by simp
  moreover have "\<forall>b\<in>set (take D (as_shards s')). length b = max_block_size"
    using w(2) by (meson in_set_takeD)
  ultimately show "shards_ok D F s3" using w(1) by (auto simp: shards_ok_def s3)
  have w1: "w + 1 = as_sequenceNumber s0 + word_of_nat D" using pos by (simp add: seqn of_nat_diff)
  have e: "w + word_of_nat x + 1 = as_sequenceNumber s0 + word_of_nat (D + x)" for x
  proof -
    have "w + word_of_nat x + 1 = (w + 1) + word_of_nat x" by simp
    then show ?thesis unfolding w1 of_nat_add add.assoc .
  qed
  have t: "take n (as_shards s3 ! (D + x)) = rs cs F ! x" if "x < F" for x
    using that par(2) w(1) by (simp add: s3 nth_append take_write_at)
  have base: "as_baseSequenceNumber s3 = be_bytes (as_sequenceNumber s0)" "as_baseTimestamp s3 = be_bytes (as_timestamp s0)"
    using b pos by (simp_all add: in_block_def s3)
  show "fec_packets D F n w s3 = map (parity_packet D rs F cs s0) [0..<F]"
    unfolding fec_packets_def parity_packet_def base e
    by (rule map_cong [OF refl]) (simp only: t set_upt atLeastLessThan_iff)
  show "as_sequenceNumber s3 = as_sequenceNumber s0 + word_of_nat D"
    "as_timestamp s3 = as_timestamp s0 + word_of_nat D * dur" "as_avRiKeyId s3 = as_avRiKeyId s0"
    using b by (simp_all add: in_block_def s3)
qed

lemma audio_block_from:
  assumes "in_block D F dur cs n s0 k s" "k < D" "unat (as_sequenceNumber s0) mod D = 0" "D dvd 65536"
    and "length cs = D" "\<forall>c\<in>set cs. length c = n" "n \<le> max_block_size" "rs_documented n rs"
    and "length ps = D - k" "\<forall>j<D - k. encode_audio cbc encrypted (iv_at s0 (k + j)) (ps ! j) = Some (cs ! (k + j))"
  shows "\<exists>s'. audio_run D F rs cbc encrypted dur ps s =
      Some (s', map (data_packet dur cs s0) [k..<D] @ map (parity_packet D rs F cs s0) [0..<F]) \<and>
    shards_ok D F s' \<and> as_sequenceNumber s' = as_sequenceNumber s0 + word_of_nat D \<and>
    as_timestamp s' = as_timestamp s0 + word_of_nat D * dur \<and> as_avRiKeyId s' = as_avRiKeyId s0"
  using assms
proof (induction ps arbitrary: k s)
  case (Cons p ps)
  have enc: "encode_audio cbc encrypted (iv_at s0 k) p = Some (cs ! k)" "length (cs ! k) = n"
    using Cons.prems(2,5,6,10) by (auto dest: spec [of _ 0])
  let ?cs' = "map (take n) (take D ((as_shards s)[k := write_at 0 (cs ! k) (as_shards s ! k)]))"
  obtain s' where s': "in_block D F dur cs n s0 (Suc k) s'"
    and step: "audio_step D F rs cbc encrypted dur p s =
      (if Suc k \<noteq> D then Some (s', [data_packet dur cs s0 k])
       else (let parity = rs ?cs' F; s3 = s'\<lparr>as_shards := take D (as_shards s') @
                   map (\<lambda>x. write_at 0 (parity ! x) (as_shards s' ! (D + x))) [0..<F]\<rparr>
             in Some (s3, [data_packet dur cs s0 k] @ fec_packets D F n (as_sequenceNumber s) s3)))"
    using audio_step_in_block [OF Cons.prems(1-4) enc Cons.prems(7) refl] by blast
  have rest: "length ps = D - Suc k" using Cons.prems(9) by simp
  show ?case
  proof (cases "Suc k = D")
    case False
    have "encode_audio cbc encrypted (iv_at s0 (Suc k + j)) (ps ! j) = Some (cs ! (Suc k + j))" if "j < D - Suc k" for j
      using Cons.prems(10) that by (auto dest: spec [of _ "Suc j"])
    then obtain s'' where "audio_run D F rs cbc encrypted dur ps s' =
        Some (s'', map (data_packet dur cs s0) [Suc k..<D] @ map (parity_packet D rs F cs s0) [0..<F])"
      "shards_ok D F s''" "as_sequenceNumber s'' = as_sequenceNumber s0 + word_of_nat D"
      "as_timestamp s'' = as_timestamp s0 + word_of_nat D * dur" "as_avRiKeyId s'' = as_avRiKeyId s0"
      using Cons.IH [OF s' _ Cons.prems(3-8) rest] False Cons.prems(2) by auto
    moreover have "[k..<D] = k # [Suc k..<D]" using Cons.prems(2) by (rule upt_conv_Cons)
    ultimately show ?thesis using step False by auto
  next
    case True
    have "?cs' = cs"
    proof (rule nth_equalityI)
      have len: "length (as_shards s) = D + F" using Cons.prems(1) by (simp add: in_block_def shards_ok_def)
      then show "length ?cs' = length cs" using Cons.prems(5) by simp
      show "?cs' ! j = cs ! j" if "j < length ?cs'" for j
      proof (cases "j = k")
        case True
        then show ?thesis using that len Cons.prems(2) enc(2) by (simp add: take_write_at)
      next
        case False
        then have "j < k" using that \<open>Suc k = D\<close> by simp
        then show ?thesis using that False Cons.prems(1) by (simp add: in_block_def)
      qed
    qed
    moreover have "as_sequenceNumber s = as_sequenceNumber s0 + word_of_nat (D - 1)"
      using Cons.prems(1) True by (auto simp: in_block_def)
    moreover have "ps = []" using rest True by simp
    moreover have "map (data_packet dur cs s0) [k..<D] = [data_packet dur cs s0 k]" using True by auto
    ultimately show ?thesis
      using step True block_end [OF s' [unfolded True] Cons.prems(5-8) _ _ refl] Cons.prems(2)
      by (auto simp: Let_def)
  qed
qed simp


section \<open>Sinks over the life of the audio context\<close>

text \<open>Several sessions capture, each with its settings; \<open>fst\<close> says whether its \<open>set_sink\<close> would succeed.\<close>

definition captures :: "string \<Rightarrow> (bool \<times> audio_config) list \<Rightarrow> audio_ctx \<Rightarrow> audio_ctx" where
  "captures config_sink sessions ctx =
     foldl (\<lambda>ctx (ok, config). fst (capture_sink ok config_sink config ctx)) ctx sessions"

lemma captures_simps [simp]:
  "captures cs [] ctx = ctx"
  "captures cs ((ok, config) # sessions) ctx = captures cs sessions (fst (capture_sink ok cs config ctx))"
  by (simp_all add: captures_def)

lemma capture_sink_later: "ac_sink_flag ctx \<Longrightarrow> fst (capture_sink ok cs config ctx) = ctx"
  by (simp add: capture_sink_def Let_def)

lemma captures_later: "ac_sink_flag ctx \<Longrightarrow> captures cs sessions ctx = ctx"
  by (induction sessions) (auto simp: capture_sink_later)

lemma capture_sink_first:
  "ac_control ctx \<Longrightarrow> ac_sink_flag (fst (capture_sink ok cs config ctx))"
  "ac_sink (fst (capture_sink ok cs config ctx)) = ac_sink ctx"
  by (auto simp: capture_sink_def Let_def)

lemma capture_sink_unchanged:
  "\<not> ac_sink_flag ctx \<Longrightarrow> \<not> ac_restore_sink (fst (capture_sink ok cs config ctx)) \<Longrightarrow>
    ac_current (fst (capture_sink ok cs config ctx)) = ac_current ctx"
  by (auto simp: capture_sink_def Let_def)

section \<open>Properties\<close>

text \<open>
  C36: Audio error correction covers the packets it is sent for: from a session whose sequence
  number starts a block, the next packets, as many as a block has data shards and all encoded to
  the same length, are sent with consecutive sequence numbers and timestamps, each encrypted under
  its own initialisation vector, and are followed by the parity packets of exactly those payloads,
  whose header names the first packet of the block and whose sequence numbers go on. The session
  is at the start of a block again, also when the 16-bit sequence number has wrapped around.
\<close>
theorem audio_block:
  assumes "shards_ok D F s" "0 < D" "D dvd 65536" "unat (as_sequenceNumber s) mod D = 0"
    and "length packets = D" "length payloads = D" "\<forall>c\<in>set payloads. length c = n" "n \<le> max_block_size"
    and "\<forall>j<D. encode_audio cbc encrypted (iv_at s j) (packets ! j) = Some (payloads ! j)"
    and "rs_documented n rs"
  shows "\<exists>s'. audio_run D F rs cbc encrypted dur packets s =
      Some (s', map (data_packet dur payloads s) [0..<D] @ map (parity_packet D rs F payloads s) [0..<F]) \<and>
    shards_ok D F s' \<and> as_sequenceNumber s' = as_sequenceNumber s + word_of_nat D \<and>
    unat (as_sequenceNumber s') mod D = 0"
proof -
  have "in_block D F dur payloads n s 0 s" using assms(1) by (simp add: in_block_def)
  from audio_block_from [OF this assms(2) assms(4,3) assms(6-8) assms(10), of packets cbc encrypted] assms(5,9)
  obtain s' where s': "audio_run D F rs cbc encrypted dur packets s =
      Some (s', map (data_packet dur payloads s) [0..<D] @ map (parity_packet D rs F payloads s) [0..<F])"
    "shards_ok D F s'" "as_sequenceNumber s' = as_sequenceNumber s + word_of_nat D"
    by auto
  have "unat (as_sequenceNumber s + word_of_nat D) = (unat (as_sequenceNumber s) + D) mod 65536"
    by (simp add: unat_word_ariths unat_of_nat mod_add_right_eq)
  then have "unat (as_sequenceNumber s + word_of_nat D) mod D = (unat (as_sequenceNumber s) + D) mod D"
    by (simp only: mod_mod_cancel [OF assms(3)])
  then have "unat (as_sequenceNumber s') mod D = 0" using assms(4) s'(3) by simp
  with s' show ?thesis by (intro exI [of _ s'] conjI)
qed

text \<open>
  The host's audio sink comes back: whatever sessions capture and whatever they ask for, only
  the first one may change the default sink, and when the audio context is released the sink is
  the one the host had before.
\<close>
theorem sink_restored:
  assumes "start_audio_control True (Some sk) ctx = ctx0" "sk_host sk \<noteq> []" "ac_current ctx = sk_host sk"
  shows "ac_current (stop_audio_control True cs (captures cs sessions ctx0)) = sk_host sk \<and>
    ac_current (captures cs sessions ctx0) = ac_current (captures cs (take 1 sessions) ctx0)"
proof (cases sessions)
  case Nil
  then show ?thesis using assms by (auto simp: start_audio_control_def stop_audio_control_def)
next
  case (Cons s ss)
  obtain ok config where s: "s = (ok, config)" by (cases s)
  let ?c = "fst (capture_sink ok cs config ctx0)"
  have c0: "ac_control ctx0" "\<not> ac_sink_flag ctx0" "ac_sink ctx0 = sk" "ac_current ctx0 = sk_host sk"
    using assms by (auto simp: start_audio_control_def)
  have "captures cs sessions ctx0 = ?c" "captures cs (take 1 sessions) ctx0 = ?c"
    using c0(1) by (simp_all add: Cons s captures_later capture_sink_first)
  moreover have "ac_current (stop_audio_control True cs ?c) = sk_host sk"
    using capture_sink_unchanged [OF c0(2), of ok cs config] c0(3,4) assms(2)
    by (simp add: stop_audio_control_def home_sink_def capture_sink_first)
  ultimately show ?thesis by simp
qed

section \<open>Concrete runs\<close>

definition demo_audio :: audio_session where
  "demo_audio = (audio_alloc 4 2 (replicate 16 1))\<lparr>as_sequenceNumber := 65532\<rparr>"

definition demo_rs :: "byte list list \<Rightarrow> nat \<Rightarrow> byte list list" where
  "demo_rs ds f = replicate f (if ds = [] then [0, 0] else hd ds)"

theorem audio_block_witness:
  "\<exists>s'. audio_run 4 2 demo_rs (\<lambda>iv p. Some p) True 5 (replicate 4 [7, 8]) demo_audio =
      Some (s', map (data_packet 5 (replicate 4 [7, 8]) demo_audio) [0..<4] @
        map (parity_packet 4 demo_rs 2 (replicate 4 [7, 8]) demo_audio) [0..<2]) \<and>
      as_sequenceNumber s' = 0"
proof -
  have ok: "shards_ok 4 2 demo_audio" "unat (as_sequenceNumber demo_audio) mod 4 = 0"
    by (simp_all add: shards_ok_def demo_audio_def audio_alloc_def max_block_size_def)
  have "rs_documented 2 demo_rs"
    by (auto simp: rs_documented_def demo_rs_def)
  then have "\<exists>s'. audio_run 4 2 demo_rs (\<lambda>iv p. Some p) True 5 (replicate 4 [7, 8]) demo_audio =
      Some (s', map (data_packet 5 (replicate 4 [7, 8]) demo_audio) [0..<4] @
        map (parity_packet 4 demo_rs 2 (replicate 4 [7, 8]) demo_audio) [0..<2]) \<and>
      shards_ok 4 2 s' \<and> as_sequenceNumber s' = as_sequenceNumber demo_audio + word_of_nat 4 \<and>
      unat (as_sequenceNumber s') mod 4 = 0"
    by (intro audio_block [OF ok(1) _ _ ok(2), where n = 2]) (auto simp: encode_audio_def max_block_size_def dvd_def)
  then show ?thesis by (auto simp: demo_audio_def)
qed

theorem sink_restored_witness:
  "ac_current (stop_audio_control True [] (captures [] [(True, \<lparr>au_packetDuration = 5, au_channels = 6, au_mask = 63,
      au_customStreamParams = \<lparr>pa_channelCount = 0, pa_streams = 0, pa_coupledStreams = 0, pa_mapping = []\<rparr>,
      au_high_quality = False, au_host_audio = False, au_custom_surround_params = False, au_continuous_audio = False\<rparr>)]
    (start_audio_control True (Some \<lparr>sk_host = ''speakers'', sk_null = Some (''v2'', ''v6'', ''v8'')\<rparr>)
      \<lparr>ac_sink_flag = True, ac_control = False, ac_restore_sink = True, ac_sink = \<lparr>sk_host = [], sk_null = None\<rparr>,
       ac_current = ''speakers''\<rparr>))) = ''speakers''"
  by (subst sink_restored [OF refl, THEN conjunct1]) simp_all

end
