(* ===== verification/Rtsp_Commands.thy ===== *)
theory Rtsp_Commands
  imports Rtsp Network Audio Control "HOL-Library.Signed_Division"
begin

unbundle bit_operations_syntax

text \<open>
  The commands of the RTSP server (\<open>src/rtsp.cpp\<close>): what a client is offered (\<open>DESCRIBE\<close>), the
  ports (\<open>SETUP\<close>), and how the attributes of \<open>ANNOUNCE\<close> become the configuration of a stream.
  The bits of the encryption flags come from the protocol library and are the record
  \<open>enc_flags\<close>; what the encoder probe found is the record \<open>probe\<close>; \<open>scale_fec\<close> is the division
  in floating point of the bitrate by the share of the error correction.
\<close>

record enc_flags =
  SS_ENC_CONTROL_V2 :: "32 word"
  SS_ENC_VIDEO :: "32 word"
  SS_ENC_AUDIO :: "32 word"

record probe =
  pr_ref_frames_invalidation :: bool
  pr_hevc_mode :: int
  pr_av1_mode :: int

definition ENCRYPTION_MODE_NEVER :: int where "ENCRYPTION_MODE_NEVER = 0"
definition ENCRYPTION_MODE_OPPORTUNISTIC :: int where "ENCRYPTION_MODE_OPPORTUNISTIC = 1"
definition ENCRYPTION_MODE_MANDATORY :: int where "ENCRYPTION_MODE_MANDATORY = 2"

text \<open>The fields of \<open>launch_session_t\<close> the commands use.\<close>

record rtsp_session =
  rs_host_audio :: bool
  rs_surround_params :: string
  rs_continuous_audio :: bool
  rs_av_ping_payload :: string
  rs_control_connect_data :: "32 word"

section \<open>Responses\<close>

record rtsp_response =
  rp_status :: int
  rp_reason :: string
  rp_seqn :: int
  rp_options :: "(string \<times> string) list"
  rp_payload :: string

definition int_string :: "int \<Rightarrow> string" where
  "int_string n = (if n < 0 then CHR ''-'' # nat_string (nat (- n)) else nat_string (nat n))"

text \<open>Decimal digits on the binary integers of HOL, which is quick to evaluate.\<close>

function int_digits :: "int \<Rightarrow> string" where
  "int_digits n = (if n < 10 then [char_of (48 + n)] else int_digits (n div 10) @ [char_of (48 + n mod 10)])"
  by pat_completeness auto
termination
  by (relation "measure nat") auto

declare int_digits.simps [simp del]

lemma int_digits: "0 \<le> n \<Longrightarrow> int_digits n = nat_string (nat n)"
proof (induction n rule: int_digits.induct)
  case (1 n)
  have c: "(char_of (48 + k) :: char) = char_of (48 + nat k)" if "0 \<le> k" for k :: int
  proof -
    have "(char_of (int (48 + nat k)) :: char) = char_of (48 + nat k)"
      unfolding char_of_def by (simp only: bit_of_nat_iff_bit even_of_nat_iff)
    then show ?thesis using that by simp
  qed
  have "nat n < 10 \<longleftrightarrow> n < 10" by linarith
  then show ?case using 1 c [of n] c [of "n mod 10"]
    by (cases "n < 10") (simp_all add: int_digits.simps [of n] nat_string.simps [of "nat n"] nat_div_distrib nat_mod_distrib)
qed

lemma int_string_code [code]:
  "int_string n = (if n < 0 then CHR ''-'' # int_digits (- n) else int_digits n)"
  by (simp add: int_string_def int_digits)

definition respond :: "(string \<times> string) list \<Rightarrow> int \<Rightarrow> string \<Rightarrow> int \<Rightarrow> string \<Rightarrow> rtsp_response" where
  "respond options statuscode status_msg seqn payload =
     \<lparr>rp_status = statuscode, rp_reason = status_msg, rp_seqn = seqn, rp_options = options, rp_payload = payload\<rparr>"

definition seqn_option :: "rtsp_message \<Rightarrow> (string \<times> string) list" where
  "seqn_option req = [(''CSeq'', int_string (rq_seqn req))]"

definition cmd_not_found :: "rtsp_message \<Rightarrow> rtsp_response" where
  "cmd_not_found req = respond [] 404 ''NOT FOUND'' (rq_seqn req) []"

definition cmd_option :: "rtsp_message \<Rightarrow> rtsp_response" where
  "cmd_option req = respond (seqn_option req) 200 ''OK'' (rq_seqn req) []"

definition cmd_play :: "rtsp_message \<Rightarrow> rtsp_response" where
  "cmd_play req = respond (seqn_option req) 200 ''OK'' (rq_seqn req) []"

section \<open>DESCRIBE\<close>

definition endl :: string where "endl = [CHR 0x0A]"

definition encryption_supported :: "enc_flags \<Rightarrow> int \<Rightarrow> 32 word" where
  "encryption_supported E mode =
     (SS_ENC_CONTROL_V2 E OR SS_ENC_AUDIO E) OR (if mode \<noteq> ENCRYPTION_MODE_NEVER then SS_ENC_VIDEO E else 0)"

definition encryption_requested :: "enc_flags \<Rightarrow> int \<Rightarrow> 32 word" where
  "encryption_requested E mode =
     SS_ENC_CONTROL_V2 E OR
     (if mode \<noteq> ENCRYPTION_MODE_NEVER \<and> mode = ENCRYPTION_MODE_MANDATORY then SS_ENC_VIDEO E OR SS_ENC_AUDIO E else 0)"

text \<open>\<open>std::rotate\<close> of the elements from 3 up to \<open>MAX_STREAM_CONFIG\<close>.\<close>

definition rotated_mapping :: "byte list \<Rightarrow> byte list" where
  "rotated_mapping mapping =
     take 3 mapping @ rotate1 (drop 3 (take MAX_STREAM_CONFIG mapping)) @ drop MAX_STREAM_CONFIG mapping"

definition advertised_mapping :: "nat \<Rightarrow> byte list" where
  "advertised_mapping x =
     (let mapping = oc_mapping (stream_configs ! x)
      in if x = SURROUND51 \<or> x = SURROUND71 then rotated_mapping mapping else mapping)"

definition digit_char :: "byte \<Rightarrow> char" where
  "digit_char digit = char_of (unat digit + 48)"

definition surround_line :: "nat \<Rightarrow> string" where
  "surround_line x =
     (let c = stream_configs ! x
      in ''a=fmtp:97 surround-params='' @ int_string (oc_channelCount c) @ int_string (oc_streams c) @
         int_string (oc_coupledStreams c) @ map digit_char (take (nat (oc_channelCount c)) (advertised_mapping x)) @ endl)"

definition describe_payload :: "enc_flags \<Rightarrow> probe \<Rightarrow> 32 word \<Rightarrow> int \<Rightarrow> rtsp_session \<Rightarrow> string" where
  "describe_payload E V capabilities mode session =
     ''a=x-ss-general.featureFlags:'' @ nat_string (unat capabilities) @ endl @
     ''a=x-ss-general.encryptionSupported:'' @ nat_string (unat (encryption_supported E mode)) @ endl @
     ''a=x-ss-general.encryptionRequested:'' @ nat_string (unat (encryption_requested E mode)) @ endl @
     (if pr_ref_frames_invalidation V then ''a=x-nv-video[0].refPicInvalidation:1'' @ endl else []) @
     (if pr_hevc_mode V \<noteq> 1 then ''sprop-parameter-sets=AAAAAU'' @ endl else []) @
     (if pr_av1_mode V \<noteq> 1 then ''a=rtpmap:98 AV1/90000'' @ endl else []) @
     (if rs_surround_params session \<noteq> [] then
        (let own = ''a=fmtp:97 surround-params='' @ rs_surround_params session @ endl in own @ own)
      else []) @
     concat (map surround_line [0..<MAX_STREAM_CONFIG])"

text \<open>\<open>None\<close> where the address of the peer is not understood and the library throws.\<close>

definition cmd_describe ::
  "enc_flags \<Rightarrow> probe \<Rightarrow> 'a asio \<Rightarrow> stream_t \<Rightarrow> 32 word \<Rightarrow> 'a \<Rightarrow> rtsp_session \<Rightarrow> rtsp_message \<Rightarrow> rtsp_response option" where
  "cmd_describe E V io st capabilities remote session req =
     (case encryption_mode_for_address io st remote of
        None \<Rightarrow> None
      | Some mode \<Rightarrow> Some (respond (seqn_option req) 200 ''OK'' (rq_seqn req)
          (describe_payload E V capabilities mode session)))"

section \<open>SETUP\<close>

definition VIDEO_STREAM_PORT :: int where "VIDEO_STREAM_PORT = 9"
definition CONTROL_PORT :: int where "CONTROL_PORT = 10"
definition AUDIO_STREAM_PORT :: int where "AUDIO_STREAM_PORT = 11"

text \<open>\<open>None\<close>: the target has no \<open>=\<close>, and the search for the end starts past the text.\<close>

definition setup_type :: "string \<Rightarrow> string option" where
  "setup_type target =
     (case dropWhile (\<lambda>c. c \<noteq> CHR ''='') target of
        [] \<Rightarrow> None | _ # rest \<Rightarrow> Some (takeWhile (\<lambda>c. c \<noteq> CHR ''/'') rest))"

definition setup_port :: "string \<Rightarrow> int option" where
  "setup_port type =
     (if type = ''audio'' then Some AUDIO_STREAM_PORT
      else if type = ''video'' then Some VIDEO_STREAM_PORT
      else if type = ''control'' then Some CONTROL_PORT else None)"

definition cmd_setup :: "sunshine_t \<Rightarrow> rtsp_session \<Rightarrow> rtsp_message \<Rightarrow> rtsp_response option" where
  "cmd_setup sun session req =
     (case setup_type (rq_target req) of
        None \<Rightarrow> None
      | Some type \<Rightarrow>
          (case setup_port type of
             None \<Rightarrow> Some (cmd_not_found req)
           | Some port \<Rightarrow> Some (respond
               (seqn_option req @
                [(''Session'', ''DEADBEEFCAFE;timeout = 90''),
                 (''Transport'', ''server_port='' @ int_string (map_port sun port)),
                 (if type = ''control''
                  then (''X-SS-Connect-Data'', nat_string (unat (rs_control_connect_data session)))
                  else (''X-SS-Ping-Payload'', rs_av_ping_payload session))])
               200 ''OK'' (rq_seqn req) [])))"

section \<open>ANNOUNCE: the attributes\<close>

definition line_break :: "char \<Rightarrow> bool" where
  "line_break ch \<longleftrightarrow> ch = CHR 0x0A \<or> ch = CHR 0x0D"

text \<open>A line counts only when a line break ends it.\<close>

function announce_lines :: "string \<Rightarrow> string list" where
  "announce_lines payload =
     (case dropWhile (\<lambda>c. \<not> line_break c) payload of
        [] \<Rightarrow> []
      | b # rest \<Rightarrow> takeWhile (\<lambda>c. \<not> line_break c) payload # announce_lines (dropWhile line_break rest))"
  by pat_completeness auto
termination
proof (relation "measure length", goal_cases)
  case (2 payload b rest)
  have "length (dropWhile line_break rest) \<le> length rest" by (rule dropWhile_length_le)
  moreover have "length (b # rest) \<le> length payload"
    unfolding 2(1) [symmetric] by (rule dropWhile_length_le)
  ultimately show ?case by simp
qed simp

declare announce_lines.simps [simp del]

text \<open>An attribute: name and value; \<open>None\<close> where the last character of an empty value is read.\<close>

definition attribute :: "string \<Rightarrow> (string \<times> string) option" where
  "attribute line =
     (let name = takeWhile (\<lambda>c. c \<noteq> CHR '':'') (drop 2 line);
          val = (case dropWhile (\<lambda>c. c \<noteq> CHR '':'') line of [] \<Rightarrow> line | _ # v \<Rightarrow> v)
      in if val = [] then None
         else Some (name, if last val = CHR '' '' then butlast val else val))"

text \<open>\<open>emplace\<close> keeps the first value of a name, \<open>try_emplace\<close> adds a default.\<close>

definition emplace_arg :: "string \<times> string \<Rightarrow> (string \<rightharpoonup> string) \<Rightarrow> (string \<rightharpoonup> string)" where
  "emplace_arg a args = (if args (fst a) = None then args(fst a \<mapsto> snd a) else args)"

fun announce_args :: "string list \<Rightarrow> (string \<rightharpoonup> string) \<Rightarrow> (string \<rightharpoonup> string) option" where
  "announce_args [] args = Some args"
| "announce_args (line # lines) args =
     (if take 2 line = ''a='' then
        (case attribute line of None \<Rightarrow> None | Some a \<Rightarrow> announce_args lines (emplace_arg a args))
      else announce_args lines args)"

definition default_args :: "(string \<times> string) list" where
  "default_args =
     [(''x-nv-video[0].encoderCscMode'', ''0''), (''x-nv-vqos[0].bitStreamFormat'', ''0''),
      (''x-nv-video[0].dynamicRangeMode'', ''0''), (''x-nv-aqos.packetDuration'', ''5''),
      (''x-nv-general.useReliableUdp'', ''1''), (''x-nv-vqos[0].fec.minRequiredFecPackets'', ''0''),
      (''x-nv-general.featureFlags'', ''135''), (''x-ml-general.featureFlags'', ''0''),
      (''x-nv-vqos[0].qosTrafficType'', ''5''), (''x-nv-aqos.qosTrafficType'', ''4''),
      (''x-ml-video.configuredBitrateKbps'', ''0''), (''x-ss-general.encryptionEnabled'', ''0''),
      (''x-ss-video[0].chromaSamplingType'', ''0''), (''x-ss-video[0].intraRefresh'', ''0''),
      (''x-nv-video[0].clientRefreshRateX100'', ''0'')]"

definition with_defaults :: "(string \<rightharpoonup> string) \<Rightarrow> (string \<rightharpoonup> string)" where
  "with_defaults args = fold emplace_arg default_args args"

section \<open>ANNOUNCE: the configuration\<close>

record monitor_config =
  vc_width :: int
  vc_height :: int
  vc_framerate :: int
  vc_framerateX100 :: int
  vc_bitrate :: int
  vc_slicesPerFrame :: int
  vc_numRefFrames :: int
  vc_encoderCscMode :: int
  vc_videoFormat :: int
  vc_dynamicRange :: int
  vc_chromaSamplingType :: int
  vc_enableIntraRefresh :: int

record stream_config =
  sc_audio :: audio_config
  sc_monitor :: monitor_config
  sc_packetsize :: int
  sc_minRequiredFecPackets :: int
  sc_mlFeatureFlags :: int
  sc_controlProtocolType :: int
  sc_audioQosType :: int
  sc_videoQosType :: int
  sc_encryptionFlagsEnabled :: "32 word"

text \<open>The names that \<open>args.at\<close> must find; one that is missing is answered with 400.\<close>

definition required_args :: "string list" where
  "required_args =
     [''x-nv-audio.surround.numChannels'', ''x-nv-audio.surround.channelMask'',
      ''x-nv-audio.surround.AudioQuality'', ''x-nv-video[0].packetSize'',
      ''x-nv-video[0].clientViewportHt'', ''x-nv-video[0].clientViewportWd'', ''x-nv-video[0].maxFPS'',
      ''x-nv-vqos[0].bw.maximumBitrateKbps'', ''x-nv-video[0].videoEncoderSlicesPerFrame'',
      ''x-nv-video[0].maxNumReferenceFrames'']"

definition read_config :: "enc_flags \<Rightarrow> bool \<Rightarrow> (string \<rightharpoonup> string) \<Rightarrow> stream_config" where
  "read_config E host_audio args =
     (let value = (\<lambda>name. from_view (the (args name))); int = (\<lambda>name. to_int32 (value name));
          flags = word_of_int (value ''x-ss-general.encryptionEnabled'')
      in \<lparr>sc_audio = \<lparr>au_packetDuration = int ''x-nv-aqos.packetDuration'',
            au_channels = int ''x-nv-audio.surround.numChannels'',
            au_mask = int ''x-nv-audio.surround.channelMask'',
            au_customStreamParams = \<lparr>pa_channelCount = 0, pa_streams = 0, pa_coupledStreams = 0, pa_mapping = []\<rparr>,
            au_high_quality = (value ''x-nv-audio.surround.AudioQuality'' \<noteq> 0), au_host_audio = host_audio,
            au_custom_surround_params = False, au_continuous_audio = False\<rparr>,
          sc_monitor = \<lparr>vc_width = int ''x-nv-video[0].clientViewportWd'',
            vc_height = int ''x-nv-video[0].clientViewportHt'', vc_framerate = int ''x-nv-video[0].maxFPS'',
            vc_framerateX100 = int ''x-nv-video[0].clientRefreshRateX100'',
            vc_bitrate = int ''x-nv-vqos[0].bw.maximumBitrateKbps'',
            vc_slicesPerFrame = int ''x-nv-video[0].videoEncoderSlicesPerFrame'',
            vc_numRefFrames = int ''x-nv-video[0].maxNumReferenceFrames'',
            vc_encoderCscMode = int ''x-nv-video[0].encoderCscMode'',
            vc_videoFormat = int ''x-nv-vqos[0].bitStreamFormat'',
            vc_dynamicRange = int ''x-nv-video[0].dynamicRangeMode'',
            vc_chromaSamplingType = int ''x-ss-video[0].chromaSamplingType'',
            vc_enableIntraRefresh = int ''x-ss-video[0].intraRefresh''\<rparr>,
          sc_packetsize = int ''x-nv-video[0].packetSize'',
          sc_minRequiredFecPackets = int ''x-nv-vqos[0].fec.minRequiredFecPackets'',
          sc_mlFeatureFlags = int ''x-ml-general.featureFlags'',
          sc_controlProtocolType = int ''x-nv-general.useReliableUdp'',
          sc_audioQosType = int ''x-nv-aqos.qosTrafficType'',
          sc_videoQosType = int ''x-nv-vqos[0].qosTrafficType'',
          sc_encryptionFlagsEnabled =
            (if bit (value ''x-nv-general.featureFlags'') 5 then flags OR SS_ENC_AUDIO E else flags)\<rparr>)"

text \<open>The audio quality of stereo is told by the last \<open>Host\<close> option.\<close>

definition host_quality :: "(string \<times> string) list \<Rightarrow> bool \<Rightarrow> bool" where
  "host_quality options high_quality =
     foldl (\<lambda>q (name, content). if name = ''Host'' then find_sub ''0.0.0.0'' content = None else q)
       high_quality options"

fun read_mapping :: "int \<Rightarrow> string \<Rightarrow> byte list \<times> bool" where
  "read_mapping c [] = ([], True)"
| "read_mapping c (d # ds) =
     (let m = char_byte d - 48
      in if c \<le> uint m then ([m], False) else (let (ms, valid) = read_mapping c ds in (m # ms, valid)))"

text \<open>The parameters of the client's own surround layout, and whether they are valid.\<close>

definition custom_surround :: "string \<Rightarrow> audio_config \<Rightarrow> audio_config" where
  "custom_surround params audio =
     (let c = uint (char_byte (params ! 0) - 48); n = uint (char_byte (params ! 1) - 48);
          m = uint (char_byte (params ! 2) - 48)
      in if (c = 6 \<or> c = 8) \<and> c = au_channels audio \<and> n + m = c \<and> int (length params) = c + 3 then
           (let (mapping, valid) = read_mapping c (take (nat c) (drop 3 params))
            in audio\<lparr>au_customStreamParams := \<lparr>pa_channelCount = c, pa_streams = n, pa_coupledStreams = m,
                       pa_mapping = mapping\<rparr>, au_custom_surround_params := valid\<rparr>)
         else audio\<lparr>au_custom_surround_params := False\<rparr>)"

definition audio_layout :: "rtsp_session \<Rightarrow> (string \<times> string) list \<Rightarrow> audio_config \<Rightarrow> audio_config" where
  "audio_layout session options audio =
     (let audio1 =
        (if au_channels audio = 2 then audio\<lparr>au_high_quality := host_quality options (au_high_quality audio)\<rparr>
         else if length (rs_surround_params session) > 3 then custom_surround (rs_surround_params session) audio
         else audio)
      in if rs_continuous_audio session then audio1\<lparr>au_continuous_audio := True\<rparr> else audio1)"

text \<open>The arithmetic of 64 bits and the division that truncates.\<close>

definition adjusted_bitrate :: "(int \<Rightarrow> int \<Rightarrow> int) \<Rightarrow> int \<Rightarrow> audio_config \<Rightarrow> int \<Rightarrow> int" where
  "adjusted_bitrate scale_fec fec_percentage audio configuredBitrateKbps =
     (let b1 = (if fec_percentage \<le> 80 then scale_fec fec_percentage configuredBitrateKbps else configuredBitrateKbps);
          audioBitrateAdjustment = to_int32 ((if au_high_quality audio then 256 else 96) * au_channels audio);
          b2 = to_int64 (b1 - min audioBitrateAdjustment (b1 sdiv 5))
      in to_int64 (b2 - min 500 (b2 sdiv 10)))"

text \<open>
  The outcome is the response, and the configuration of the stream that was started; \<open>None\<close> is an
  exception of the address library or a read outside the payload. \<open>start_ok\<close> says whether
  \<open>stream::session::start\<close> succeeds.
\<close>

definition cmd_announce ::
  "enc_flags \<Rightarrow> probe \<Rightarrow> (int \<Rightarrow> int \<Rightarrow> int) \<Rightarrow> 'a asio \<Rightarrow> stream_t \<Rightarrow> 'a \<Rightarrow> bool \<Rightarrow> rtsp_session \<Rightarrow>
    rtsp_message \<Rightarrow> (rtsp_response \<times> stream_config option) option" where
  "cmd_announce E V scale_fec io st remote start_ok session req =
     (let answer = (\<lambda>code reason. respond (seqn_option req) code reason (rq_seqn req) [])
      in case announce_args (announce_lines (rq_payload req)) Map.empty of
           None \<Rightarrow> None
         | Some args0 \<Rightarrow>
             let args = with_defaults args0
             in if \<not> list_all (\<lambda>name. args name \<noteq> None) required_args then Some (answer 400 ''BAD REQUEST'', None)
                else let config0 = read_config E (rs_host_audio session) args;
                         configuredBitrateKbps = from_view (the (args ''x-ml-video.configuredBitrateKbps''));
                         audio = audio_layout session (rq_options req) (sc_audio config0);
                         config1 = config0\<lparr>sc_audio := audio\<rparr>;
                         config = (if configuredBitrateKbps \<noteq> 0
                           then config1\<lparr>sc_monitor := (sc_monitor config1)\<lparr>vc_bitrate :=
                             to_int32 (adjusted_bitrate scale_fec (st_fec_percentage st) audio configuredBitrateKbps)\<rparr>\<rparr>
                           else config1)
                in if vc_videoFormat (sc_monitor config) = 1 \<and> pr_hevc_mode V = 1 then Some (answer 400 ''BAD REQUEST'', None)
                   else if vc_videoFormat (sc_monitor config) = 2 \<and> pr_av1_mode V = 1 then Some (answer 400 ''BAD REQUEST'', None)
                   else case encryption_mode_for_address io st remote of
                          None \<Rightarrow> None
                        | Some mode \<Rightarrow>
                            let both = SS_ENC_VIDEO E OR SS_ENC_AUDIO E
                            in if mode = ENCRYPTION_MODE_MANDATORY \<and> sc_encryptionFlagsEnabled config AND both \<noteq> both
                               then Some (answer 403 ''Forbidden'', None)
                               else if \<not> start_ok then Some (answer 500 ''Internal Server Error'', None)
                               else Some (answer 200 ''OK'', Some config))"

section \<open>The command table\<close>

definition handle_msg ::
  "enc_flags \<Rightarrow> probe \<Rightarrow> (int \<Rightarrow> int \<Rightarrow> int) \<Rightarrow> 'a asio \<Rightarrow> sunshine_t \<Rightarrow> stream_t \<Rightarrow> 32 word \<Rightarrow> 'a \<Rightarrow> bool \<Rightarrow>
    rtsp_session \<Rightarrow> rtsp_message \<Rightarrow> (rtsp_response \<times> stream_config option) option" where
  "handle_msg E V scale_fec io sun st capabilities remote start_ok session req =
     (let alone = map_option (\<lambda>r. (r, None))
      in if rq_command req = ''OPTIONS'' then alone (Some (cmd_option req))
         else if rq_command req = ''DESCRIBE'' then alone (cmd_describe E V io st capabilities remote session req)
         else if rq_command req = ''SETUP'' then alone (cmd_setup sun session req)
         else if rq_command req = ''ANNOUNCE'' then cmd_announce E V scale_fec io st remote start_ok session req
         else if rq_command req = ''PLAY'' then alone (Some (cmd_play req))
         else alone (Some (cmd_not_found req)))"

end
