(* ===== verification/Rtsp_Commands_Correct.thy ===== *)
theory Rtsp_Commands_Correct
  imports Rtsp_Commands
begin

unbundle bit_operations_syntax

text \<open>
  What the RTSP commands guarantee: the attributes a client writes are the ones that are read, a
  stream is only started with the encryption the host asks for, its audio layout is one the
  encoder accepts, and its bitrate stays in proportion to the one that was asked for.
\<close>

section \<open>Attributes\<close>

text \<open>An attribute as the client writes it: with a blank before the line break.\<close>

definition sdp_text :: "string \<times> string \<Rightarrow> string" where
  "sdp_text a = ''a='' @ fst a @ '':'' @ snd a @ '' ''"

definition sdp_line :: "string \<times> string \<Rightarrow> string" where
  "sdp_line a = sdp_text a @ [CHR 0x0D, CHR 0x0A]"

definition sdp_attribute :: "string \<times> string \<Rightarrow> bool" where
  "sdp_attribute a \<longleftrightarrow> list_all (\<lambda>c. c \<noteq> CHR '':'' \<and> \<not> line_break c) (fst a) \<and>
     list_all (\<lambda>c. \<not> line_break c) (snd a)"

lemma announce_lines_Nil [simp]: "announce_lines [] = []"
  by (simp add: announce_lines.simps)

lemma announce_lines_line:
  assumes "list_all (\<lambda>c. \<not> line_break c) line" "rest = [] \<or> \<not> line_break (hd rest)"
  shows "announce_lines (line @ CHR 0x0D # CHR 0x0A # rest) = line # announce_lines rest"
proof -
  have t: "takeWhile (\<lambda>c. \<not> line_break c) (line @ CHR 0x0D # CHR 0x0A # rest) = line"
    "dropWhile (\<lambda>c. \<not> line_break c) (line @ CHR 0x0D # CHR 0x0A # rest) = CHR 0x0D # CHR 0x0A # rest"
    using assms(1) by (simp_all add: list_all_iff line_break_def takeWhile_append2 dropWhile_append2)
  have "dropWhile line_break rest = rest" using assms(2) by (cases rest) auto
  then have "dropWhile line_break (CHR 0x0A # rest) = rest" by (simp add: line_break_def)
  then show ?thesis unfolding announce_lines.simps [of "line @ CHR 0x0D # CHR 0x0A # rest"] t by simp
qed

lemma attribute_line:
  assumes "sdp_attribute a"
  shows "attribute (sdp_text a) = Some a"
proof -
  have n: "takeWhile (\<lambda>c. c \<noteq> CHR '':'') (fst a @ '':'' @ snd a @ '' '') = fst a"
    "dropWhile (\<lambda>c. c \<noteq> CHR '':'') (fst a @ '':'' @ snd a @ '' '') = '':'' @ snd a @ '' ''"
    using assms by (simp_all add: sdp_attribute_def list_all_iff takeWhile_append2 dropWhile_append2)
  have "drop 2 (sdp_text a) = fst a @ '':'' @ snd a @ '' ''"
    "dropWhile (\<lambda>c. c \<noteq> CHR '':'') (sdp_text a) = '':'' @ snd a @ '' ''"
    unfolding sdp_text_def by (simp_all add: n(2) [simplified])
  then show ?thesis unfolding attribute_def by (simp add: n(1) [simplified] butlast_append)
qed

lemma sdp_text_plain: "sdp_attribute a \<Longrightarrow> list_all (\<lambda>c. \<not> line_break c) (sdp_text a)"
  by (auto simp: sdp_text_def sdp_attribute_def list_all_iff line_break_def)

lemma announce_lines_sdp:
  "list_all sdp_attribute attrs \<Longrightarrow> announce_lines (concat (map sdp_line attrs)) = map sdp_text attrs"
proof (induction attrs)
  case (Cons a attrs)
  have "concat (map sdp_line attrs) = [] \<or> \<not> line_break (hd (concat (map sdp_line attrs)))"
    by (cases attrs) (auto simp: sdp_line_def sdp_text_def line_break_def)
  moreover have "list_all (\<lambda>c. \<not> line_break c) (sdp_text a)" using Cons.prems by (simp add: sdp_text_plain)
  ultimately have "announce_lines (sdp_text a @ CHR 0x0D # CHR 0x0A # concat (map sdp_line attrs)) =
      sdp_text a # announce_lines (concat (map sdp_line attrs))" by (intro announce_lines_line)
  moreover have "concat (map sdp_line (a # attrs)) = sdp_text a @ CHR 0x0D # CHR 0x0A # concat (map sdp_line attrs)"
    unfolding list.map concat.simps sdp_line_def [of a] by simp
  ultimately show ?case using Cons by simp
qed simp

lemma map_of_emplace: "map_of ds ++ emplace_arg a args = map_of (a # ds) ++ args"
  by (auto simp: emplace_arg_def map_add_def fun_eq_iff split: option.splits)

lemma announce_args_sdp:
  "list_all sdp_attribute attrs \<Longrightarrow> announce_args (map sdp_text attrs) args = Some (map_of attrs ++ args)"
proof (induction attrs arbitrary: args)
  case (Cons a attrs)
  then have "announce_args (map sdp_text (a # attrs)) args = announce_args (map sdp_text attrs) (emplace_arg a args)"
    using attribute_line [of a] by (simp add: sdp_text_def)
  also have "\<dots> = Some (map_of attrs ++ emplace_arg a args)" using Cons by simp
  finally show ?case unfolding map_of_emplace .
qed simp

lemma sdp_payload_args:
  "list_all sdp_attribute attrs \<Longrightarrow>
     announce_args (announce_lines (concat (map sdp_line attrs))) Map.empty = Some (map_of attrs)"
  unfolding announce_lines_sdp by (simp add: announce_lines_sdp announce_args_sdp)

lemma fold_emplace: "fold emplace_arg ds args = map_of ds ++ args"
proof (induction ds arbitrary: args)
  case (Cons a ds)
  have "fold emplace_arg (a # ds) args = map_of ds ++ emplace_arg a args" by (simp add: Cons)
  then show ?case unfolding map_of_emplace .
qed simp

section \<open>What a started stream went through\<close>

lemma announce_started:
  assumes "cmd_announce E V scale_fec io st remote ok session req = Some (r, Some config)"
  shows "rp_status r = 200"
    and "\<exists>args. sc_audio config = audio_layout session (rq_options req)
      (sc_audio (read_config E (rs_host_audio session) args))"
    and "encryption_mode_for_address io st remote = Some ENCRYPTION_MODE_MANDATORY \<Longrightarrow>
      sc_encryptionFlagsEnabled config AND (SS_ENC_VIDEO E OR SS_ENC_AUDIO E) = SS_ENC_VIDEO E OR SS_ENC_AUDIO E"
  using assms
  by (auto simp: cmd_announce_def Let_def respond_def split: option.splits if_splits)

lemma or_and_absorb: "(a OR x) AND x = (x :: 32 word)"
  by (rule bit_word_eqI) (auto simp: bit_and_iff bit_or_iff)

lemma handle_msg_started:
  assumes "handle_msg E V scale_fec io sun st caps remote ok session req = Some (r, Some config)"
  shows "cmd_announce E V scale_fec io st remote ok session req = Some (r, Some config)"
proof (cases "rq_command req = ''ANNOUNCE''")
  case True
  then show ?thesis using assms by (simp add: handle_msg_def Let_def)
next
  case False
  have "map_option (\<lambda>r. (r, None)) x \<noteq> Some (r, Some config)" for x :: "rtsp_response option"
    by (cases x) simp_all
  then show ?thesis using assms False unfolding handle_msg_def Let_def by (simp only: if_False split: if_split_asm)
qed

text \<open>Which stream layouts the encoder takes: as many channels as the mapping names, none out of range.\<close>

definition layout_ok :: "opus_stream_config \<Rightarrow> bool" where
  "layout_ok s \<longleftrightarrow> oc_channelCount s \<in> {2, 6, 8} \<and> int (length (oc_mapping s)) = oc_channelCount s \<and>
     oc_streams s + oc_coupledStreams s = oc_channelCount s \<and>
     (\<forall>m\<in>set (oc_mapping s). uint m < oc_channelCount s)"

lemma stream_configs_ok: "x < MAX_STREAM_CONFIG \<Longrightarrow> layout_ok (stream_configs ! x)"
proof -
  have "list_all layout_ok stream_configs"
    by (simp add: stream_configs_def stream_config_of_def layout_ok_def map_stereo_def map_surround51_def map_surround71_def)
  then show "x < MAX_STREAM_CONFIG \<Longrightarrow> layout_ok (stream_configs ! x)"
    by (simp add: list_all_length MAX_STREAM_CONFIG_def stream_configs_def)
qed

lemma map_stream_bound: "map_stream channels quality < MAX_STREAM_CONFIG"
  by (simp add: map_stream_def Let_def MAX_STREAM_CONFIG_def STEREO_def SURROUND51_def SURROUND71_def)

lemma read_mapping_valid:
  "read_mapping c ds = (ms, True) \<Longrightarrow> length ms = length ds \<and> (\<forall>m\<in>set ms. uint m < c)"
  by (induction c ds arbitrary: ms rule: read_mapping.induct) (auto simp: Let_def split: if_splits prod.splits)

lemma custom_surround_layout:
  assumes "au_custom_surround_params (custom_surround params audio)" "length params > 3"
  shows "layout_ok (apply_surround_params (au_customStreamParams (custom_surround params audio)) stream)"
proof -
  define c n m where "c = uint (char_byte (params ! 0) - 48)" and "n = uint (char_byte (params ! 1) - 48)"
    and "m = uint (char_byte (params ! 2) - 48)"
  note defs = c_def [symmetric] n_def [symmetric] m_def [symmetric]
  obtain ms valid where ms: "read_mapping c (take (nat c) (drop 3 params)) = (ms, valid)"
    by (cases "read_mapping c (take (nat c) (drop 3 params))")
  have cond: "(c = 6 \<or> c = 8) \<and> c = au_channels audio \<and> n + m = c \<and> int (length params) = c + 3"
    using assms(1) unfolding custom_surround_def Let_def defs by (simp split: if_splits)
  have eq: "custom_surround params audio = audio\<lparr>au_customStreamParams :=
      \<lparr>pa_channelCount = c, pa_streams = n, pa_coupledStreams = m, pa_mapping = ms\<rparr>,
      au_custom_surround_params := valid\<rparr>"
    unfolding custom_surround_def Let_def defs by (subst if_P [OF cond]) (simp add: ms)
  then have "valid = True" using assms(1) by simp
  from read_mapping_valid [OF ms [unfolded this]]
  have "length ms = length (take (nat c) (drop 3 params)) \<and> (\<forall>k\<in>set ms. uint k < c)" .
  moreover have "int (length (take (nat c) (drop 3 params))) = c" using cond by auto
  ultimately show ?thesis using cond by (auto simp: layout_ok_def apply_surround_params_def eq)
qed

lemma audio_layout_ok:
  assumes "\<not> au_custom_surround_params audio"
  shows "layout_ok (capture_stream (audio_layout session options audio))"
proof (cases "au_custom_surround_params (audio_layout session options audio)")
  case True
  then have l: "au_channels audio \<noteq> 2" "3 < length (rs_surround_params session)"
      "au_custom_surround_params (custom_surround (rs_surround_params session) audio)"
    using assms by (auto simp: audio_layout_def Let_def split: if_splits)
  have "au_customStreamParams (audio_layout session options audio) =
      au_customStreamParams (custom_surround (rs_surround_params session) audio)"
    using l by (simp add: audio_layout_def Let_def)
  then show ?thesis using True custom_surround_layout [OF l(3,2)] by (simp add: capture_stream_def Let_def)
qed (simp add: capture_stream_def Let_def stream_configs_ok map_stream_bound)

text \<open>A client, and a host that asks for encryption everywhere, for the witnesses.\<close>

definition demo_flags :: enc_flags where
  "demo_flags = \<lparr>SS_ENC_CONTROL_V2 = 1, SS_ENC_VIDEO = 2, SS_ENC_AUDIO = 4\<rparr>"

definition demo_probe :: probe where
  "demo_probe = \<lparr>pr_ref_frames_invalidation = True, pr_hevc_mode = 3, pr_av1_mode = 1\<rparr>"

definition demo_io :: "unit asio" where
  "demo_io = \<lparr>make_address = (\<lambda>s. Some ()), address_string = (\<lambda>a. []), is_v6 = (\<lambda>a. False),
     v4_mapped = (\<lambda>a. None), in_hosts = (\<lambda>range a. False)\<rparr>"

definition demo_stream :: stream_t where
  "demo_stream = (default_stream demo_env)\<lparr>st_lan_encryption_mode := 2, st_wan_encryption_mode := 2\<rparr>"

definition demo_session :: rtsp_session where
  "demo_session = \<lparr>rs_host_audio = False, rs_surround_params = ''642012453'', rs_continuous_audio = True,
     rs_av_ping_payload = ''0123456789ABCDEF'', rs_control_connect_data = 7\<rparr>"

definition demo_attributes :: "(string \<times> string) list" where
  "demo_attributes =
     [(''x-nv-audio.surround.numChannels'', ''6''), (''x-nv-audio.surround.channelMask'', ''63''),
      (''x-nv-audio.surround.AudioQuality'', ''0''), (''x-nv-video[0].packetSize'', ''1024''),
      (''x-nv-video[0].clientViewportHt'', ''1080''), (''x-nv-video[0].clientViewportWd'', ''1920''),
      (''x-nv-video[0].maxFPS'', ''60''), (''x-nv-vqos[0].bw.maximumBitrateKbps'', ''20000''),
      (''x-nv-video[0].videoEncoderSlicesPerFrame'', ''1''), (''x-nv-video[0].maxNumReferenceFrames'', ''1''),
      (''x-ss-general.encryptionEnabled'', ''6'')]"

definition demo_announce :: rtsp_message where
  "demo_announce = \<lparr>rq_command = ''ANNOUNCE'', rq_target = ''streamid=control/13/0'',
     rq_seqn = 5, rq_options = [], rq_payload = concat (map sdp_line demo_attributes)\<rparr>"

lemma demo_mode: "encryption_mode_for_address demo_io demo_stream () = Some ENCRYPTION_MODE_MANDATORY"
  by (simp add: encryption_mode_for_address_def from_address_def demo_io_def demo_stream_def Let_def
      ENCRYPTION_MODE_MANDATORY_def)

definition demo_scale :: "int \<Rightarrow> int \<Rightarrow> int" where
  "demo_scale fec b = b * (100 - fec) div 100"

definition demo_stereo :: audio_config where
  "demo_stereo = \<lparr>au_packetDuration = 5, au_channels = 2, au_mask = 3,
     au_customStreamParams = \<lparr>pa_channelCount = 0, pa_streams = 0, pa_coupledStreams = 0, pa_mapping = []\<rparr>,
     au_high_quality = True, au_host_audio = False, au_custom_surround_params = False, au_continuous_audio = False\<rparr>"

lemma demo_runs_announce:
  "map_option (\<lambda>(r, started). (rp_status r, map_option (\<lambda>c. (sc_controlProtocolType c, au_channels (sc_audio c),
       au_custom_surround_params (sc_audio c))) started))
     (cmd_announce demo_flags demo_probe demo_scale demo_io demo_stream () True
        demo_session demo_announce) = Some (200, Some (1, 6, True))"
  by code_simp

lemma demo_started:
  "\<exists>r config. cmd_announce demo_flags demo_probe demo_scale demo_io demo_stream () True demo_session demo_announce =
     Some (r, Some config) \<and> rp_status r = 200 \<and> sc_controlProtocolType config = 1 \<and>
     au_custom_surround_params (sc_audio config)"
  using demo_runs_announce by (auto split: prod.splits)

section \<open>Properties\<close>

text \<open>
  C35: What the client announces is what the host reads: a payload of attributes, written one to a
  line with a blank before the line break, is taken apart into exactly those names and values,
  the first one counting where a name comes twice, and every other name of the table of defaults
  gets its default.
\<close>
theorem announce_roundtrip:
  assumes "list_all sdp_attribute attrs"
  shows "map_option with_defaults (announce_args (announce_lines (concat (map sdp_line attrs))) Map.empty) =
    Some (map_of default_args ++ map_of attrs)"
  using assms by (simp add: sdp_payload_args with_defaults_def fold_emplace)

theorem announce_roundtrip_witness:
  "map_option with_defaults (announce_args (announce_lines (concat (map sdp_line demo_attributes))) Map.empty) =
   Some (map_of default_args ++ map_of demo_attributes)"
proof -
  have "list_all sdp_attribute demo_attributes" by code_simp
  then show ?thesis by (rule announce_roundtrip)
qed

text \<open>
  C34: Mandatory encryption holds for audio and video: a stream is only started for an address whose
  encryption is mandatory when the client has enabled the encryption of both, which \<open>DESCRIBE\<close>
  asks for; any other client is refused.
\<close>
theorem mandatory_encryption:
  assumes "encryption_mode_for_address io st remote = Some ENCRYPTION_MODE_MANDATORY"
    and "handle_msg E V scale_fec io sun st caps remote ok session req = Some (r, started)"
  shows "(\<forall>config. started = Some config \<longrightarrow> rp_status r = 200 \<and>
      sc_encryptionFlagsEnabled config AND (SS_ENC_VIDEO E OR SS_ENC_AUDIO E) = SS_ENC_VIDEO E OR SS_ENC_AUDIO E) \<and>
    encryption_requested E ENCRYPTION_MODE_MANDATORY AND (SS_ENC_VIDEO E OR SS_ENC_AUDIO E) = SS_ENC_VIDEO E OR SS_ENC_AUDIO E"
proof
  show "encryption_requested E ENCRYPTION_MODE_MANDATORY AND (SS_ENC_VIDEO E OR SS_ENC_AUDIO E) = SS_ENC_VIDEO E OR SS_ENC_AUDIO E"
    by (simp add: encryption_requested_def ENCRYPTION_MODE_MANDATORY_def ENCRYPTION_MODE_NEVER_def or_and_absorb)
  show "\<forall>config. started = Some config \<longrightarrow> rp_status r = 200 \<and>
      sc_encryptionFlagsEnabled config AND (SS_ENC_VIDEO E OR SS_ENC_AUDIO E) = SS_ENC_VIDEO E OR SS_ENC_AUDIO E"
  proof (intro allI impI)
    fix config assume "started = Some config"
    from handle_msg_started [OF assms(2) [unfolded this]]
    show "rp_status r = 200 \<and>
      sc_encryptionFlagsEnabled config AND (SS_ENC_VIDEO E OR SS_ENC_AUDIO E) = SS_ENC_VIDEO E OR SS_ENC_AUDIO E"
      by (intro conjI announce_started(1) announce_started(3) [OF _ assms(1)])
  qed
qed

theorem mandatory_encryption_witness:
  "\<exists>r config. handle_msg demo_flags demo_probe demo_scale demo_io (default_sunshine demo_env) demo_stream 3 () True
       demo_session demo_announce = Some (r, Some config) \<and> rp_status r = 200 \<and>
     sc_encryptionFlagsEnabled config AND (SS_ENC_VIDEO demo_flags OR SS_ENC_AUDIO demo_flags) =
       SS_ENC_VIDEO demo_flags OR SS_ENC_AUDIO demo_flags"
proof -
  obtain r config where "cmd_announce demo_flags demo_probe demo_scale demo_io demo_stream () True demo_session
      demo_announce = Some (r, Some config)" using demo_started by (elim exE conjE) (rule that)
  then have "handle_msg demo_flags demo_probe demo_scale demo_io (default_sunshine demo_env) demo_stream 3 () True
      demo_session demo_announce = Some (r, Some config)" by (simp add: handle_msg_def demo_announce_def)
  then show ?thesis using mandatory_encryption [OF demo_mode] by fastforce
qed



text \<open>
  The bitrate the encoder gets stays in proportion: after the share of the error correction is
  taken off, the deductions for audio and overhead leave at least 72 percent of it, up to rounding
  in the client's favour, and never raise it.
\<close>
theorem bitrate_bounds:
  assumes "0 \<le> b" "b < 2 ^ 62" "0 \<le> scale_fec fec b" "scale_fec fec b \<le> b"
    and "au_channels audio \<in> {2, 6, 8}"
  shows "18 * (if fec \<le> 80 then scale_fec fec b else b) \<le> 25 * adjusted_bitrate scale_fec fec audio b \<and>
    adjusted_bitrate scale_fec fec audio b \<le> (if fec \<le> 80 then scale_fec fec b else b)"
proof -
  define b1 where "b1 = (if fec \<le> 80 then scale_fec fec b else b)"
  define a where "a = to_int32 ((if au_high_quality audio then 256 else 96) * au_channels audio)"
  define b2 where "b2 = b1 - min a (b1 div 5)"
  have b1: "0 \<le> b1" "b1 < 4611686018427387904" using assms by (auto simp: b1_def)
  have a: "0 \<le> a" using assms(5) by (auto simp: a_def to_int32_def)
  have d: "x sdiv 5 = x div 5" "x sdiv 10 = x div 10" if "0 \<le> x" for x :: int
    using that by (simp_all add: signed_divide_int_def sgn_if)
  have b2: "0 \<le> b2" "b2 \<le> b1" "4 * b1 \<le> 5 * b2" using b1 a by (auto simp: b2_def min_def)
  have e: "adjusted_bitrate scale_fec fec audio b = b2 - min 500 (b2 div 10)"
  proof -
    have "to_int64 b2 = b2" "to_int64 (b2 - min 500 (b2 div 10)) = b2 - min 500 (b2 div 10)"
      using b1 b2 by (simp_all add: to_int64_id min_def)
    then show ?thesis using d b1 b2
      by (simp add: adjusted_bitrate_def Let_def b1_def [symmetric] a_def [symmetric] b2_def [symmetric])
  qed
  have "9 * b2 \<le> 10 * (b2 - min 500 (b2 div 10))" "b2 - min 500 (b2 div 10) \<le> b2" using b2 by (auto simp: min_def)
  then show ?thesis using b2 unfolding e b1_def [symmetric] by linarith
qed

theorem bitrate_bounds_witness:
  "18 * demo_scale 20 20000 \<le> 25 * adjusted_bitrate demo_scale 20 demo_stereo 20000 \<and>
   adjusted_bitrate demo_scale 20 demo_stereo 20000 \<le> demo_scale 20 20000"
  using bitrate_bounds [of 20000 demo_scale 20 demo_stereo] by (simp add: demo_scale_def demo_stereo_def)

text \<open>The order a client makes of an advertised mapping: its last channel goes in front of the ones from 3 on.\<close>

definition client_mapping :: "byte list \<Rightarrow> byte list" where
  "client_mapping mapping = take 3 mapping @ last mapping # butlast (drop 3 mapping)"

text \<open>
  The rotation of the normal quality mappings undoes the one of the client, which moves the last
  channel in front of the others from index 3 on, for 5.1; for 7.1 it only moves the first three of
  the five channels, and the client ends up with another order.
\<close>
theorem surround_rotation:
  "client_mapping (advertised_mapping SURROUND51) = map_surround51 \<and>
   client_mapping (advertised_mapping SURROUND71) = [0, 1, 2, 7, 4, 5, 3, 6] \<and>
   map_surround71 \<noteq> [0, 1, 2, 7, 4, 5, 3, 6]"
  by (simp add: client_mapping_def advertised_mapping_def SURROUND51_def SURROUND71_def stream_configs_def
      stream_config_of_def rotated_mapping_def map_surround51_def map_surround71_def MAX_STREAM_CONFIG_def
      numeral_eq_Suc)

text \<open>
  Mandatory encryption does not cover the control stream: a client that enables the encryption
  of video and audio and leaves the control protocol at its default is accepted by a host that
  demands encryption, and every unencrypted control message of its session is handled.
\<close>
theorem mandatory_control_plain:
  "encryption_mode_for_address demo_io demo_stream () = Some ENCRYPTION_MODE_MANDATORY \<and>
   (\<exists>r config. cmd_announce demo_flags demo_probe demo_scale demo_io demo_stream () True demo_session demo_announce =
       Some (r, Some config) \<and> rp_status r = 200 \<and>
     (\<forall>t i payload sv. call t i payload False (upd_session i (\<lambda>s. s\<lparr>cs_protocol := sc_controlProtocolType config\<rparr>) sv) =
       (if t = IDX_ENCRYPTED then on_encrypted i payload else dispatch t i payload)
         (upd_session i (\<lambda>s. s\<lparr>cs_protocol := sc_controlProtocolType config\<rparr>) sv)))"
proof (rule conjI [OF demo_mode])
  obtain r config where c: "cmd_announce demo_flags demo_probe demo_scale demo_io demo_stream () True demo_session
      demo_announce = Some (r, Some config)" "rp_status r = 200" "sc_controlProtocolType config = 1"
    using demo_started by (elim exE conjE) (rule that)
  then show "\<exists>r config. cmd_announce demo_flags demo_probe demo_scale demo_io demo_stream () True demo_session demo_announce =
       Some (r, Some config) \<and> rp_status r = 200 \<and>
     (\<forall>t i payload sv. call t i payload False (upd_session i (\<lambda>s. s\<lparr>cs_protocol := sc_controlProtocolType config\<rparr>) sv) =
       (if t = IDX_ENCRYPTED then on_encrypted i payload else dispatch t i payload)
         (upd_session i (\<lambda>s. s\<lparr>cs_protocol := sc_controlProtocolType config\<rparr>) sv))"
    by (intro exI conjI allI) (assumption, assumption, simp add: call_def upd_session_def)
qed

end
