(* ===== verification/Pairing.thy ===== *)
theory Pairing
  imports Utility Thread_Safe
begin

text \<open>
  Pairing and client authorisation (\<open>src/nvhttp.cpp\<close> and the certificate chain of
  \<open>src/crypto.cpp\<close>): the four phases of the handshake, the clients and the state file, and the
  check of the certificate of an HTTPS client. OpenSSL is the record \<open>crypto\<close>; what the code
  draws at random or reads from outside during a request is the record \<open>nv_env\<close>.
\<close>

section \<open>OpenSSL\<close>

datatype x509_error =
  X509_V_OK
| X509_V_ERR_UNABLE_TO_GET_ISSUER_CERT_LOCALLY
| X509_V_ERR_CERT_NOT_YET_VALID
| X509_V_ERR_CERT_HAS_EXPIRED
| X509_V_ERR_DEPTH_ZERO_SELF_SIGNED_CERT
| X509_V_ERR_INVALID_CA
| X509_V_ERR_OTHER nat

text \<open>
  The ciphers answer with what the output vector holds after the call, whose result code the
  pairing code does not look at. \<open>x509_verify_cert\<close> takes the callback, the certificate a store
  holds (none when it could not be added) and the one to verify.
\<close>

record 'x crypto =
  sha256 :: "byte list \<Rightarrow> byte list"
  load_x509 :: "byte list \<Rightarrow> 'x option"
  x509_pem :: "'x \<Rightarrow> byte list"
  x509_signature :: "'x \<Rightarrow> byte list"
  ecb_encrypt :: "byte list \<Rightarrow> byte list \<Rightarrow> byte list"
  ecb_decrypt :: "byte list \<Rightarrow> byte list \<Rightarrow> byte list"
  sign256 :: "byte list \<Rightarrow> byte list \<Rightarrow> byte list"
  verify256 :: "'x \<Rightarrow> byte list \<Rightarrow> byte list \<Rightarrow> bool"
  x509_verify_cert :: "(bool \<Rightarrow> x509_error \<Rightarrow> bool) \<Rightarrow> 'x option \<Rightarrow> 'x \<Rightarrow> bool \<times> x509_error"

definition gen_aes_key :: "'x crypto \<Rightarrow> byte list \<Rightarrow> string \<Rightarrow> byte list" where
  "gen_aes_key C salt pin = take 16 (sha256 C (salt @ map char_byte pin))"

section \<open>The chain of client certificates\<close>

definition openssl_verify_cb :: "bool \<Rightarrow> x509_error \<Rightarrow> bool" where
  "openssl_verify_cb ok err_code =
     (case err_code of
        X509_V_ERR_UNABLE_TO_GET_ISSUER_CERT_LOCALLY \<Rightarrow> True
      | X509_V_ERR_CERT_NOT_YET_VALID \<Rightarrow> True
      | X509_V_ERR_CERT_HAS_EXPIRED \<Rightarrow> True
      | _ \<Rightarrow> ok)"

text \<open>\<open>None\<close> is the null pointer: the certificate is accepted.\<close>

fun chain_verify_from :: "'x crypto \<Rightarrow> 'x \<Rightarrow> x509_error \<Rightarrow> 'x option list \<Rightarrow> x509_error option" where
  "chain_verify_from C cert err_code [] = Some err_code"
| "chain_verify_from C cert err_code (store # certs) =
     (let (ok, code) = x509_verify_cert C openssl_verify_cb store cert
      in if ok then None
         else if code \<noteq> X509_V_ERR_DEPTH_ZERO_SELF_SIGNED_CERT \<and> code \<noteq> X509_V_ERR_INVALID_CA then Some code
         else chain_verify_from C cert code certs)"

definition chain_verify :: "'x crypto \<Rightarrow> 'x \<Rightarrow> 'x option list \<Rightarrow> x509_error option" where
  "chain_verify C cert certs = chain_verify_from C cert X509_V_OK certs"

section \<open>State\<close>

datatype pair_phase =
  P_NONE | P_GETSERVERCERT | P_CLIENTCHALLENGE | P_SERVERCHALLENGERESP | P_CLIENTPAIRINGSECRET

text \<open>\<open>ps_response\<close> is the connection that waits for the PIN, \<open>ps_salt\<close> the text of the salt.\<close>

record pair_session =
  ps_uniqueID :: string
  ps_cert :: "byte list"
  ps_name :: string
  ps_cipher_key :: "byte list option"
  ps_clienthash :: "byte list"
  ps_serversecret :: "byte list"
  ps_serverchallenge :: "byte list"
  ps_response :: "nat option"
  ps_salt :: string
  ps_last_phase :: pair_phase

record named_cert =
  nc_name :: string
  nc_uuid :: string
  nc_cert :: "byte list"
  nc_enabled :: bool

text \<open>
  The state file, as the entries of the property tree that the code reads and writes: those under
  \<open>root\<close>, in the old format (\<open>devices\<close>) or the new one, and the rest of the file. A node that may
  be missing is an option.
\<close>

record named_node =
  nn_name :: "string option"
  nn_uuid :: "string option"
  nn_cert :: "byte list option"
  nn_enabled :: "bool option"

record state_tree =
  t_uniqueid :: "string option"
  t_devices :: "(string option \<times> byte list list option) list option"
  t_named_devices :: "named_node list option"
  t_other :: "(string \<times> string) list"

datatype state_file = No_File | Unreadable | Tree state_tree

datatype write_result = Written | Refused | Truncated

record nv_conf =
  cf_fresh_state :: bool
  cf_pin_stdin :: bool
  cf_pkey :: "byte list"
  cf_servercert :: "byte list"

text \<open>
  \<open>e_uuid n\<close> is the n-th identifier generated; \<open>e_write\<close> and \<open>e_copy\<close> say how the write of the
  state file and its backup go, and \<open>e_json\<close> what reading the written tree back gives; \<open>e_first\<close>
  is the key at \<open>std::begin\<close> of the unordered map of sessions, which is empty when there is none.
\<close>

record nv_env =
  e_uuid :: "nat \<Rightarrow> string"
  e_copy :: bool
  e_write :: write_result
  e_json :: "state_tree \<Rightarrow> state_file"
  e_serversecret :: "byte list"
  e_serverchallenge :: "byte list"
  e_stdin :: string
  e_connection :: nat
  e_first :: string

record 'x nvhttp =
  map_id_sess :: "string \<rightharpoonup> pair_session"
  named_devices :: "named_cert list"
  cert_chain :: "'x option list"
  add_cert :: "'x queue"
  file_state :: state_file
  file_backup :: state_file
  unique_id :: string

section \<open>Clients and the state file\<close>

definition named_node_of :: "named_cert \<Rightarrow> named_node" where
  "named_node_of d = \<lparr>nn_name = Some (nc_name d), nn_uuid = Some (nc_uuid d),
     nn_cert = Some (nc_cert d), nn_enabled = Some (nc_enabled d)\<rparr>"

definition state_tree_of :: "'x nvhttp \<Rightarrow> (string \<times> string) list \<Rightarrow> state_tree" where
  "state_tree_of s other = \<lparr>t_uniqueid = Some (unique_id s), t_devices = None,
     t_named_devices = Some (map named_node_of (named_devices s)), t_other = other\<rparr>"

definition save_state :: "nv_env \<Rightarrow> 'x nvhttp \<Rightarrow> 'x nvhttp" where
  "save_state env s0 =
     (let s = (if file_state s0 \<noteq> No_File \<and> e_copy env then s0\<lparr>file_backup := file_state s0\<rparr> else s0)
      in if file_state s = Unreadable then s
         else let other = (case file_state s of Tree t \<Rightarrow> t_other t | _ \<Rightarrow> [])
              in case e_write env of
                   Written \<Rightarrow> s\<lparr>file_state := e_json env (state_tree_of s other)\<rparr>
                 | Refused \<Rightarrow> s
                 | Truncated \<Rightarrow> s\<lparr>file_state := Unreadable\<rparr>)"

definition validate_state_file :: "'x nvhttp \<Rightarrow> bool" where
  "validate_state_file s =
     (case file_state s of No_File \<Rightarrow> False | Unreadable \<Rightarrow> False | Tree t \<Rightarrow> t_uniqueid t \<noteq> None)"

text \<open>\<open>None\<close> where the property tree throws for a node that is missing.\<close>

fun import_devices ::
  "(nat \<Rightarrow> string) \<Rightarrow> nat \<Rightarrow> (string option \<times> byte list list option) list \<Rightarrow> named_cert list option" where
  "import_devices uuid n [] = Some []"
| "import_devices uuid n ((uniqID, certs) # ds) =
     (case uniqID of None \<Rightarrow> None
      | Some _ \<Rightarrow>
          let cs = (case certs of None \<Rightarrow> [] | Some cs \<Rightarrow> cs)
          in map_option (\<lambda>rest.
               map (\<lambda>(i, c). \<lparr>nc_name = [], nc_uuid = uuid i, nc_cert = c, nc_enabled = True\<rparr>)
                 (enumerate n cs) @ rest)
               (import_devices uuid (n + length cs) ds))"

definition read_named :: "named_node \<Rightarrow> named_cert option" where
  "read_named el =
     (case (nn_name el, nn_cert el, nn_uuid el) of
        (Some name, Some cert, Some uuid) \<Rightarrow>
          Some \<lparr>nc_name = name, nc_uuid = uuid, nc_cert = cert,
                nc_enabled = (case nn_enabled el of Some b \<Rightarrow> b | None \<Rightarrow> True)\<rparr>
      | _ \<Rightarrow> None)"

text \<open>The second component is false when an exception leaves \<open>load_state\<close>.\<close>

definition load_state :: "'x crypto \<Rightarrow> (nat \<Rightarrow> string) \<Rightarrow> 'x nvhttp \<Rightarrow> 'x nvhttp \<times> bool" where
  "load_state C uuid s =
     (case file_state s of
        No_File \<Rightarrow> (s\<lparr>unique_id := uuid 0\<rparr>, True)
      | Unreadable \<Rightarrow> (s, True)
      | Tree t \<Rightarrow>
          (case t_uniqueid t of
             None \<Rightarrow> (s\<lparr>unique_id := uuid 0\<rparr>, True)
           | Some u \<Rightarrow>
               let s1 = s\<lparr>unique_id := u\<rparr>
               in case (import_devices uuid 0 (case t_devices t of None \<Rightarrow> [] | Some ds \<Rightarrow> ds),
                        those (map read_named (case t_named_devices t of None \<Rightarrow> [] | Some ns \<Rightarrow> ns))) of
                    (Some old, Some named) \<Rightarrow>
                      (s1\<lparr>cert_chain := map (\<lambda>d. load_x509 C (nc_cert d)) (old @ named),
                          named_devices := old @ named\<rparr>, True)
                  | _ \<Rightarrow> (s1, False)))"

definition add_authorized_client ::
  "'x crypto \<Rightarrow> nv_conf \<Rightarrow> nv_env \<Rightarrow> string \<Rightarrow> byte list \<Rightarrow> 'x nvhttp \<Rightarrow> 'x nvhttp \<times> bool" where
  "add_authorized_client C conf env name cert s =
     (let s1 = s\<lparr>named_devices := named_devices s @
            [\<lparr>nc_name = name, nc_uuid = e_uuid env 0, nc_cert = cert, nc_enabled = True\<rparr>]\<rparr>
      in if cf_fresh_state conf then (s1, True)
         else load_state C (\<lambda>n. e_uuid env (Suc n)) (save_state env s1))"

definition unpair_client :: "'x crypto \<Rightarrow> nv_env \<Rightarrow> string \<Rightarrow> 'x nvhttp \<Rightarrow> 'x nvhttp \<times> bool \<times> bool" where
  "unpair_client C env uuid s =
     (let keep = filter (\<lambda>d. nc_uuid d \<noteq> uuid) (named_devices s);
          removed = (length keep \<noteq> length (named_devices s));
          (s1, ok) = load_state C (e_uuid env) (save_state env (s\<lparr>named_devices := keep\<rparr>))
      in (s1, removed, ok))"

fun enable_first :: "string \<Rightarrow> bool \<Rightarrow> named_cert list \<Rightarrow> named_cert list option" where
  "enable_first uuid enabled [] = None"
| "enable_first uuid enabled (d # ds) =
     (if nc_uuid d = uuid then Some (d\<lparr>nc_enabled := enabled\<rparr> # ds)
      else map_option (Cons d) (enable_first uuid enabled ds))"

definition set_client_enabled :: "nv_env \<Rightarrow> string \<Rightarrow> bool \<Rightarrow> 'x nvhttp \<Rightarrow> 'x nvhttp \<times> bool" where
  "set_client_enabled env uuid enabled s =
     (case enable_first uuid enabled (named_devices s) of
        None \<Rightarrow> (s, False)
      | Some ds \<Rightarrow> (save_state env (s\<lparr>named_devices := ds\<rparr>), True))"

definition is_client_enabled :: "byte list \<Rightarrow> 'x nvhttp \<Rightarrow> bool" where
  "is_client_enabled cert_pem s =
     (case find (\<lambda>d. nc_cert d = cert_pem) (named_devices s) of
        Some d \<Rightarrow> nc_enabled d | None \<Rightarrow> True)"

definition erase_all_clients :: "nv_env \<Rightarrow> 'x nvhttp \<Rightarrow> 'x nvhttp" where
  "erase_all_clients env s = save_state env (s\<lparr>named_devices := [], cert_chain := []\<rparr>)"

definition get_all_clients :: "'x nvhttp \<Rightarrow> (string \<times> string \<times> bool) list" where
  "get_all_clients s = map (\<lambda>d. (nc_name d, nc_uuid d, nc_enabled d)) (named_devices s)"

section \<open>The check of an HTTPS client\<close>

definition drain_add_cert :: "'x nvhttp \<Rightarrow> 'x nvhttp" where
  "drain_add_cert s =
     (if queue_peek (add_cert s)
      then s\<lparr>cert_chain := cert_chain s @ map Some (q_queue (add_cert s)),
             add_cert := (add_cert s)\<lparr>q_queue := []\<rparr>\<rparr>
      else s)"

definition verify_client :: "'x crypto \<Rightarrow> 'x option \<Rightarrow> 'x nvhttp \<Rightarrow> 'x nvhttp \<times> bool" where
  "verify_client C peer s =
     (case peer of None \<Rightarrow> (s, False)
      | Some x509 \<Rightarrow>
          let s1 = drain_add_cert s
          in (s1, chain_verify C x509 (cert_chain s1) = None \<and> is_client_enabled (x509_pem C x509) s1))"

section \<open>The phases of the handshake\<close>

record pair_tree =
  pt_paired :: "int option"
  pt_status_code :: "int option"
  pt_status_message :: "string option"
  pt_plaincert :: "string option"
  pt_challengeresponse :: "string option"
  pt_pairingsecret :: "string option"

definition empty_tree :: pair_tree where
  "empty_tree = \<lparr>pt_paired = None, pt_status_code = None, pt_status_message = None,
     pt_plaincert = None, pt_challengeresponse = None, pt_pairingsecret = None\<rparr>"

definition status :: "int \<Rightarrow> pair_tree \<Rightarrow> pair_tree" where
  "status code t = t\<lparr>pt_status_code := Some code\<rparr>"

definition paired :: "int \<Rightarrow> pair_tree \<Rightarrow> pair_tree" where
  "paired b t = t\<lparr>pt_paired := Some b\<rparr>"

text \<open>A session that a handler holds by reference is named by its key \<open>u\<close> in the map.\<close>

definition session :: "'x nvhttp \<Rightarrow> string \<Rightarrow> pair_session" where
  "session s u = the (map_id_sess s u)"

definition upd_sess :: "string \<Rightarrow> (pair_session \<Rightarrow> pair_session) \<Rightarrow> 'x nvhttp \<Rightarrow> 'x nvhttp" where
  "upd_sess u f s = s\<lparr>map_id_sess := (map_id_sess s)(u \<mapsto> f (session s u))\<rparr>"

definition remove_session :: "string \<Rightarrow> 'x nvhttp \<Rightarrow> 'x nvhttp" where
  "remove_session u s = s\<lparr>map_id_sess := (map_id_sess s)(ps_uniqueID (session s u) := None)\<rparr>"

definition fail_pair :: "string \<Rightarrow> string \<Rightarrow> 'x nvhttp \<Rightarrow> 'x nvhttp \<times> pair_tree" where
  "fail_pair u status_msg s =
     (remove_session u s, (status 400 (paired 0 empty_tree))\<lparr>pt_status_message := Some status_msg\<rparr>)"

text \<open>\<open>from_hex\<close> of 32 characters never overflows its array, and \<open>from_hex_vec\<close> never fails.\<close>

definition salt_bytes :: "string \<Rightarrow> byte list" where
  "salt_bytes salt = the (from_hex_bytes 16 (take 32 salt) True)"

definition unhex :: "string \<Rightarrow> byte list" where
  "unhex h = the (from_hex_vec h True)"

definition getservercert :: "'x crypto \<Rightarrow> nv_conf \<Rightarrow> string \<Rightarrow> string \<Rightarrow> 'x nvhttp \<Rightarrow> 'x nvhttp \<times> pair_tree" where
  "getservercert C conf u pin s =
     (if ps_last_phase (session s u) \<noteq> P_NONE then fail_pair u ''Out of order call to getservercert'' s
      else let s1 = upd_sess u (\<lambda>p. p\<lparr>ps_last_phase := P_GETSERVERCERT\<rparr>) s
      in if length (ps_salt (session s1 u)) < 32 then fail_pair u ''Salt too short'' s1
      else (upd_sess u (\<lambda>p. p\<lparr>ps_cipher_key := Some (gen_aes_key C (salt_bytes (ps_salt p)) pin)\<rparr>) s1,
            status 200 ((paired 1 empty_tree)\<lparr>pt_plaincert := Some (hex_vec (cf_servercert conf) True)\<rparr>)))"

definition cert_signature :: "'x crypto \<Rightarrow> byte list \<Rightarrow> byte list" where
  "cert_signature C cert = (case load_x509 C cert of Some x \<Rightarrow> x509_signature C x | None \<Rightarrow> [])"

definition clientchallenge ::
  "'x crypto \<Rightarrow> nv_conf \<Rightarrow> nv_env \<Rightarrow> string \<Rightarrow> byte list \<Rightarrow> 'x nvhttp \<Rightarrow> 'x nvhttp \<times> pair_tree" where
  "clientchallenge C conf env u challenge s =
     (if ps_last_phase (session s u) \<noteq> P_GETSERVERCERT then fail_pair u ''Out of order call to clientchallenge'' s
      else let s1 = upd_sess u (\<lambda>p. p\<lparr>ps_last_phase := P_CLIENTCHALLENGE\<rparr>) s
      in case ps_cipher_key (session s1 u) of
           None \<Rightarrow> fail_pair u ''Cipher key not set'' s1
         | Some key \<Rightarrow>
             let decrypted = ecb_decrypt C key challenge @ cert_signature C (cf_servercert conf) @ e_serversecret env;
                 plaintext = sha256 C decrypted @ e_serverchallenge env
             in (upd_sess u (\<lambda>p. p\<lparr>ps_serversecret := e_serversecret env,
                                   ps_serverchallenge := e_serverchallenge env\<rparr>) s1,
                 status 200 ((paired 1 empty_tree)
                   \<lparr>pt_challengeresponse := Some (hex_vec (ecb_encrypt C key plaintext) True)\<rparr>)))"

definition serverchallengeresp ::
  "'x crypto \<Rightarrow> nv_conf \<Rightarrow> string \<Rightarrow> byte list \<Rightarrow> 'x nvhttp \<Rightarrow> 'x nvhttp \<times> pair_tree" where
  "serverchallengeresp C conf u encrypted_response s =
     (if ps_last_phase (session s u) \<noteq> P_CLIENTCHALLENGE then fail_pair u ''Out of order call to serverchallengeresp'' s
      else let s1 = upd_sess u (\<lambda>p. p\<lparr>ps_last_phase := P_SERVERCHALLENGERESP\<rparr>) s
      in case ps_cipher_key (session s1 u) of
           None \<Rightarrow> fail_pair u ''Cipher key or serversecret not set'' s1
         | Some key \<Rightarrow>
             if ps_serversecret (session s1 u) = [] then fail_pair u ''Cipher key or serversecret not set'' s1
             else let serversecret = ps_serversecret (session s1 u) @
                        sign256 C (cf_pkey conf) (ps_serversecret (session s1 u))
                  in (upd_sess u (\<lambda>p. p\<lparr>ps_clienthash := ecb_decrypt C key encrypted_response\<rparr>) s1,
                      status 200 (paired 1 (empty_tree\<lparr>pt_pairingsecret := Some (hex_vec serversecret True)\<rparr>))))"

text \<open>The second component is false when an exception leaves the handler.\<close>

definition clientpairingsecret ::
  "'x crypto \<Rightarrow> nv_conf \<Rightarrow> nv_env \<Rightarrow> string \<Rightarrow> byte list \<Rightarrow> 'x nvhttp \<Rightarrow> 'x nvhttp \<times> bool \<times> pair_tree" where
  "clientpairingsecret C conf env u client_pairing_secret s =
     (if ps_last_phase (session s u) \<noteq> P_SERVERCHALLENGERESP then
        (let (s1, t) = fail_pair u ''Out of order call to clientpairingsecret'' s in (s1, True, t))
      else let s1 = upd_sess u (\<lambda>p. p\<lparr>ps_last_phase := P_CLIENTPAIRINGSECRET\<rparr>) s; sess = session s1 u
      in if length client_pairing_secret \<le> 16 then
           (let (s2, t) = fail_pair u ''Client pairing secret too short'' s1 in (s2, True, t))
         else let secret = take 16 client_pairing_secret; sign = drop 16 client_pairing_secret
         in case load_x509 C (ps_cert sess) of
              None \<Rightarrow> (let (s2, t) = fail_pair u ''Invalid client certificate'' s1 in (s2, True, t))
            | Some x509 \<Rightarrow>
                let hash = sha256 C (ps_serverchallenge sess @ x509_signature C x509 @ secret)
                in if hash = ps_clienthash sess \<and> verify256 C x509 secret sign then
                     (let s2 = s1\<lparr>add_cert := fst (queue_raise x509 (add_cert s1))\<rparr>;
                          (s3, ok) = add_authorized_client C conf env (ps_name sess) (ps_cert sess) s2
                      in if ok then (remove_session u s3, True, status 200 (paired 1 empty_tree))
                         else (s3, False, paired 1 empty_tree))
                   else (remove_session u s1, True, status 200 (paired 0 empty_tree)))"

section \<open>Requests\<close>

datatype pair_outcome = Reply pair_tree | Deferred | Threw

definition new_session :: "string \<Rightarrow> byte list \<Rightarrow> pair_session" where
  "new_session uniqID cert =
     \<lparr>ps_uniqueID = uniqID, ps_cert = cert, ps_name = [], ps_cipher_key = None, ps_clienthash = [],
      ps_serversecret = [], ps_serverchallenge = [], ps_response = None, ps_salt = [],
      ps_last_phase = P_NONE\<rparr>"

definition emplace_session :: "pair_session \<Rightarrow> 'x nvhttp \<Rightarrow> 'x nvhttp" where
  "emplace_session sess s =
     (if map_id_sess s (ps_uniqueID sess) \<noteq> None then s
      else s\<lparr>map_id_sess := (map_id_sess s)(ps_uniqueID sess \<mapsto> sess)\<rparr>)"

definition pair_getservercert ::
  "'x crypto \<Rightarrow> nv_conf \<Rightarrow> nv_env \<Rightarrow> string \<Rightarrow> (string \<rightharpoonup> string) \<Rightarrow> 'x nvhttp \<Rightarrow> 'x nvhttp \<times> pair_outcome" where
  "pair_getservercert C conf env uniqID args s =
     (case args ''clientcert'' of None \<Rightarrow> (s, Threw)
      | Some clientcert \<Rightarrow>
          let s1 = emplace_session (new_session uniqID (unhex clientcert)) s
          in case args ''salt'' of None \<Rightarrow> (s1, Threw)
             | Some salt \<Rightarrow>
                 let s2 = upd_sess uniqID (\<lambda>p. p\<lparr>ps_salt := salt\<rparr>) s1
                 in if cf_pin_stdin conf then
                      (let (s3, t) = getservercert C conf uniqID (e_stdin env) s2 in (s3, Reply t))
                    else (upd_sess uniqID (\<lambda>p. p\<lparr>ps_response := Some (e_connection env)\<rparr>) s2, Deferred))"

definition pair ::
  "'x crypto \<Rightarrow> nv_conf \<Rightarrow> nv_env \<Rightarrow> (string \<rightharpoonup> string) \<Rightarrow> 'x nvhttp \<Rightarrow> 'x nvhttp \<times> pair_outcome" where
  "pair C conf env args s =
     (case args ''uniqueid'' of
        None \<Rightarrow> (s, Reply ((status 400 empty_tree)\<lparr>pt_status_message := Some ''Missing uniqueid parameter''\<rparr>))
      | Some uniqID \<Rightarrow>
          if args ''phrase'' = Some ''getservercert'' then pair_getservercert C conf env uniqID args s
          else if args ''phrase'' = Some ''pairchallenge'' then (s, Reply (status 200 (paired 1 empty_tree)))
          else if map_id_sess s uniqID = None then
            (s, Reply ((status 400 empty_tree)\<lparr>pt_status_message := Some ''Invalid uniqueid''\<rparr>))
          else (case args ''clientchallenge'' of
             Some h \<Rightarrow> (let (s1, t) = clientchallenge C conf env uniqID (unhex h) s in (s1, Reply t))
           | None \<Rightarrow> (case args ''serverchallengeresp'' of
             Some h \<Rightarrow> (let (s1, t) = serverchallengeresp C conf uniqID (unhex h) s in (s1, Reply t))
           | None \<Rightarrow> (case args ''clientpairingsecret'' of
             Some h \<Rightarrow> (let (s1, ok, t) = clientpairingsecret C conf env uniqID (unhex h) s
                       in (s1, if ok then Reply t else Threw))
           | None \<Rightarrow>
               (s, Reply ((status 404 empty_tree)\<lparr>pt_status_message := Some ''Invalid pairing request''\<rparr>))))))"

text \<open>
  \<open>pin\<close> goes on with its reference to the session after \<open>getservercert\<close>: \<open>Dangling\<close> when that
  has destroyed it. The tree it sends is the third component.
\<close>

datatype pin_outcome = Returned bool "(nat \<times> pair_tree) option" | Dangling

definition pin :: "'x crypto \<Rightarrow> nv_conf \<Rightarrow> nv_env \<Rightarrow> string \<Rightarrow> string \<Rightarrow> 'x nvhttp \<Rightarrow> 'x nvhttp \<times> pin_outcome" where
  "pin C conf env digits name s =
     (if map_id_sess s (e_first env) = None then (s, Returned False None)
      else if length digits \<noteq> 4 then (s, Returned False None)
      else if \<not> list_all isdigit digits then (s, Returned False None)
      else let u = e_first env; (s1, t) = getservercert C conf u digits s
      in if map_id_sess s1 u = None then (s1, Dangling)
         else let s2 = upd_sess u (\<lambda>p. p\<lparr>ps_name := name\<rparr>) s1
         in case ps_response (session s2 u) of
              None \<Rightarrow> (s2, Returned False None)
            | Some response \<Rightarrow>
                (upd_sess u (\<lambda>p. p\<lparr>ps_response := None\<rparr>) s2, Returned True (Some (response, t))))"

section \<open>Runs of the server\<close>

datatype 'x nv_event =
  Pair_Request "string \<rightharpoonup> string"
| Pin_Entry string string
| Tls_Client "'x option"
| Unpair string
| Set_Enabled string bool
| Erase_All

text \<open>\<open>None\<close>: the code reads or writes a session that was destroyed.\<close>

fun nv_step :: "'x crypto \<Rightarrow> nv_conf \<Rightarrow> nv_env \<times> 'x nv_event \<Rightarrow> 'x nvhttp \<Rightarrow> 'x nvhttp option" where
  "nv_step C conf (env, Pair_Request args) s = Some (fst (pair C conf env args s))"
| "nv_step C conf (env, Pin_Entry digits name) s =
     (case pin C conf env digits name s of (s1, Dangling) \<Rightarrow> None | (s1, Returned _ _) \<Rightarrow> Some s1)"
| "nv_step C conf (env, Tls_Client peer) s = Some (fst (verify_client C peer s))"
| "nv_step C conf (env, Unpair uuid) s = Some (fst (unpair_client C env uuid s))"
| "nv_step C conf (env, Set_Enabled uuid b) s = Some (fst (set_client_enabled env uuid b s))"
| "nv_step C conf (env, Erase_All) s = Some (erase_all_clients env s)"

fun nv_run :: "'x crypto \<Rightarrow> nv_conf \<Rightarrow> (nv_env \<times> 'x nv_event) list \<Rightarrow> 'x nvhttp \<Rightarrow> 'x nvhttp option" where
  "nv_run C conf [] s = Some s"
| "nv_run C conf (ev # evs) s = Option.bind (nv_step C conf ev s) (nv_run C conf evs)"

text \<open>A host that was never paired: no state file.\<close>

definition nv_start :: "string \<Rightarrow> 'x nvhttp" where
  "nv_start u = \<lparr>map_id_sess = Map.empty, named_devices = [], cert_chain = [],
     add_cert = queue_init 30, file_state = No_File, file_backup = No_File, unique_id = u\<rparr>"

end
