(* ===== verification/Pairing_Correct.thy ===== *)
theory Pairing_Correct
  imports Pairing
begin

text \<open>
  What pairing guarantees: a client that is admitted went through the handshake with a PIN that was
  entered on the host, an honest client ends up paired, the state file keeps the clients. And where
  it falls short: a PIN for a session that is past its first phase, and clients that are unpaired
  or disabled.
\<close>

section \<open>The handshake, read off the requests\<close>

type_synonym 'x request = "nv_env \<times> 'x nv_event"

text \<open>A PIN for the session \<open>u\<close>: typed at the prompt of the request, or through \<open>pin\<close>.\<close>

fun pin_for :: "nv_conf \<Rightarrow> string \<Rightarrow> string \<Rightarrow> 'x request \<Rightarrow> bool" where
  "pin_for conf u digits (env, Pin_Entry d name) \<longleftrightarrow>
     d = digits \<and> e_first env = u \<and> length d = 4 \<and> list_all isdigit d"
| "pin_for conf u digits (env, Pair_Request args) \<longleftrightarrow>
     cf_pin_stdin conf \<and> e_stdin env = digits \<and> args ''uniqueid'' = Some u"
| "pin_for conf u digits _ \<longleftrightarrow> False"

fun asks :: "string \<Rightarrow> string \<Rightarrow> byte list \<Rightarrow> 'x request \<Rightarrow> bool" where
  "asks u what bytes (env, Pair_Request args) \<longleftrightarrow>
     args ''uniqueid'' = Some u \<and> (\<exists>h. args what = Some h \<and> unhex h = bytes)"
| "asks u what bytes _ \<longleftrightarrow> False"

definition keyed :: "'x crypto \<Rightarrow> nv_conf \<Rightarrow> string \<Rightarrow> 'x request \<Rightarrow> byte list \<Rightarrow> bool" where
  "keyed C conf u e key \<longleftrightarrow> (\<exists>digits salt. pin_for conf u digits e \<and> key = gen_aes_key C salt digits)"

definition challenged :: "string \<Rightarrow> 'x request \<Rightarrow> byte list \<Rightarrow> bool" where
  "challenged u e serverchallenge \<longleftrightarrow>
     (\<exists>c. asks u ''clientchallenge'' c e) \<and> e_serverchallenge (fst e) = serverchallenge"

definition handshake :: "'x crypto \<Rightarrow> nv_conf \<Rightarrow> 'x request list \<Rightarrow> byte list \<Rightarrow> bool" where
  "handshake C conf evs cert \<longleftrightarrow>
     (\<exists>u e1 e2 e3 e4 key challenge response secret sign x.
        subseq [e1, e2, e3, e4] evs \<and> keyed C conf u e1 key \<and> challenged u e2 challenge \<and>
        asks u ''serverchallengeresp'' response e3 \<and> asks u ''clientpairingsecret'' (secret @ sign) e4 \<and>
        length secret = 16 \<and> load_x509 C cert = Some x \<and>
        sha256 C (challenge @ x509_signature C x @ secret) = ecb_decrypt C key response \<and>
        verify256 C x secret sign)"

text \<open>How far a session is, phase by phase.\<close>

definition progress :: "'x crypto \<Rightarrow> nv_conf \<Rightarrow> 'x request list \<Rightarrow> string \<Rightarrow> pair_session \<Rightarrow> bool" where
  "progress C conf evs u p \<longleftrightarrow>
     (case ps_last_phase p of
        P_NONE \<Rightarrow> True
      | P_GETSERVERCERT \<Rightarrow> (\<exists>e1 key. subseq [e1] evs \<and> keyed C conf u e1 key \<and> ps_cipher_key p = Some key)
      | P_CLIENTCHALLENGE \<Rightarrow> (\<exists>e1 e2 key. subseq [e1, e2] evs \<and> keyed C conf u e1 key \<and>
          challenged u e2 (ps_serverchallenge p) \<and> ps_cipher_key p = Some key)
      | P_SERVERCHALLENGERESP \<Rightarrow> (\<exists>e1 e2 e3 key response. subseq [e1, e2, e3] evs \<and> keyed C conf u e1 key \<and>
          challenged u e2 (ps_serverchallenge p) \<and> asks u ''serverchallengeresp'' response e3 \<and>
          ps_clienthash p = ecb_decrypt C key response)
      | P_CLIENTPAIRINGSECRET \<Rightarrow> True)"

lemma progressI:
  "ps_last_phase p = P_GETSERVERCERT \<Longrightarrow> subseq [e1] evs \<Longrightarrow> keyed C conf u e1 key \<Longrightarrow>
    ps_cipher_key p = Some key \<Longrightarrow> progress C conf evs u p"
  "ps_last_phase p = P_CLIENTCHALLENGE \<Longrightarrow> subseq [e1, e2] evs \<Longrightarrow> keyed C conf u e1 key \<Longrightarrow>
    challenged u e2 (ps_serverchallenge p) \<Longrightarrow> ps_cipher_key p = Some key \<Longrightarrow> progress C conf evs u p"
  "ps_last_phase p = P_SERVERCHALLENGERESP \<Longrightarrow> subseq [e1, e2, e3] evs \<Longrightarrow> keyed C conf u e1 key \<Longrightarrow>
    challenged u e2 (ps_serverchallenge p) \<Longrightarrow> asks u ''serverchallengeresp'' response e3 \<Longrightarrow>
    ps_clienthash p = ecb_decrypt C key response \<Longrightarrow> progress C conf evs u p"
  by (simp_all add: progress_def del: split_paired_Ex) blast+

lemma progress_frame [simp]:
  "progress C conf evs u (p\<lparr>ps_salt := salt\<rparr>) = progress C conf evs u p"
  "progress C conf evs u (p\<lparr>ps_response := r\<rparr>) = progress C conf evs u p"
  "progress C conf evs u (p\<lparr>ps_name := name\<rparr>) = progress C conf evs u p"
  by (cases "ps_last_phase p"; simp add: progress_def)+

lemma subseq_more: "subseq xs evs \<Longrightarrow> subseq xs (evs @ [e])"
  by (rule subseq_rev_drop_many)

lemma subseq_extend: "subseq xs evs \<Longrightarrow> subseq (xs @ [e]) (evs @ [e])"
  by (rule list_emb_append_mono) simp_all

lemma handshake_more: "handshake C conf evs cert \<Longrightarrow> handshake C conf (evs @ [e]) cert"
  unfolding handshake_def by (meson subseq_more)

lemma progress_more: "progress C conf evs u p \<Longrightarrow> progress C conf (evs @ [e]) u p"
  unfolding progress_def
  by (cases "ps_last_phase p"; simp only: pair_phase.case simp_thms; blast intro: subseq_more)

lemma handshake_loads: "handshake C conf evs cert \<Longrightarrow> load_x509 C cert \<noteq> None"
  by (auto simp: handshake_def)

section \<open>The invariant of the server\<close>

definition sessions_inv :: "'x crypto \<Rightarrow> nv_conf \<Rightarrow> 'x request list \<Rightarrow> 'x nvhttp \<Rightarrow> bool" where
  "sessions_inv C conf evs s \<longleftrightarrow>
     (\<forall>u p. map_id_sess s u = Some p \<longrightarrow> ps_uniqueID p = u \<and> progress C conf evs u p)"

definition file_of :: "(byte list \<Rightarrow> bool) \<Rightarrow> state_file \<Rightarrow> bool" where
  "file_of P f \<longleftrightarrow>
     (\<forall>t ns n c. f = Tree t \<longrightarrow> t_devices t = None \<and>
        (t_named_devices t = Some ns \<longrightarrow> n \<in> set ns \<longrightarrow> nn_cert n = Some c \<longrightarrow> P c))"

definition clients_inv :: "'x crypto \<Rightarrow> (byte list \<Rightarrow> bool) \<Rightarrow> 'x nvhttp \<Rightarrow> bool" where
  "clients_inv C P s \<longleftrightarrow>
     (\<forall>d\<in>set (named_devices s). P (nc_cert d)) \<and>
     (\<forall>x\<in>set (cert_chain s). \<exists>c. P c \<and> x = load_x509 C c) \<and>
     (\<forall>x\<in>set (q_queue (add_cert s)). \<exists>c. P c \<and> Some x = load_x509 C c) \<and>
     file_of P (file_state s)"

definition json_faithful :: "nv_env \<Rightarrow> bool" where
  "json_faithful env \<longleftrightarrow> (\<forall>t. e_json env t = Tree t \<or> e_json env t = Unreadable)"

lemma clients_inv_mono:
  "(\<And>c. P c \<Longrightarrow> Q c) \<Longrightarrow> clients_inv C P s \<Longrightarrow> clients_inv C Q s"
  unfolding clients_inv_def file_of_def by blast

lemma clients_inv_frame:
  "clients_inv C P s \<Longrightarrow> clients_inv C P (s\<lparr>map_id_sess := m\<rparr>)"
  "clients_inv C P s \<Longrightarrow> clients_inv C P (s\<lparr>unique_id := i\<rparr>)"
  by (simp_all add: clients_inv_def)

lemma file_of_saved:
  assumes "\<forall>d\<in>set (named_devices s). P (nc_cert d)"
  shows "file_of P (Tree (state_tree_of s other))"
  using assms by (auto simp: file_of_def state_tree_of_def named_node_of_def)

lemma save_state_frame:
  "map_id_sess (save_state env s) = map_id_sess s"
  "named_devices (save_state env s) = named_devices s"
  "cert_chain (save_state env s) = cert_chain s"
  "add_cert (save_state env s) = add_cert s"
  "unique_id (save_state env s) = unique_id s"
  by (simp_all add: save_state_def Let_def split: write_result.split)

lemma state_tree_of_backup [simp]: "state_tree_of (s\<lparr>file_backup := f\<rparr>) other = state_tree_of s other"
  by (simp add: state_tree_of_def)

lemma save_state_clients:
  assumes "clients_inv C P s" "json_faithful env"
  shows "clients_inv C P (save_state env s)"
proof -
  have f: "file_of P Unreadable" by (simp add: file_of_def)
  have saved: "file_of P (e_json env (state_tree_of s other))" for other
  proof (cases "e_json env (state_tree_of s other) = Unreadable")
    case False
    then have "e_json env (state_tree_of s other) = Tree (state_tree_of s other)"
      using assms(2) unfolding json_faithful_def by blast
    then show ?thesis using assms(1) by (simp add: file_of_saved clients_inv_def)
  qed (simp add: f)
  have "file_of P (file_state (save_state env s))"
    using assms(1) saved f by (auto simp: save_state_def Let_def clients_inv_def split: write_result.split)
  then show ?thesis using assms(1) by (simp add: clients_inv_def save_state_frame)
qed

lemma read_named_cert: "read_named n = Some d \<Longrightarrow> nn_cert n = Some (nc_cert d)"
  by (auto simp: read_named_def split: option.splits)

lemma those_mem: "those (map f xs) = Some ys \<Longrightarrow> y \<in> set ys \<Longrightarrow> \<exists>x\<in>set xs. f x = Some y"
  by (induction xs arbitrary: ys) (auto split: option.splits)

lemma load_state_frame:
  "map_id_sess (fst (load_state C uuid s)) = map_id_sess s"
  "add_cert (fst (load_state C uuid s)) = add_cert s"
  "file_state (fst (load_state C uuid s)) = file_state s"
  by (simp_all add: load_state_def Let_def split: state_file.split option.split)

lemma load_state_clients:
  assumes "clients_inv C P s"
  shows "clients_inv C P (fst (load_state C uuid s))"
proof -
  have "(\<forall>d\<in>set (named_devices (fst (load_state C uuid s))). P (nc_cert d)) \<and>
      (\<forall>x\<in>set (cert_chain (fst (load_state C uuid s))). \<exists>c. P c \<and> x = load_x509 C c)"
  proof (cases "\<exists>t u old named. file_state s = Tree t \<and> t_uniqueid t = Some u \<and>
      import_devices uuid 0 (case t_devices t of None \<Rightarrow> [] | Some ds \<Rightarrow> ds) = Some old \<and>
      those (map read_named (case t_named_devices t of None \<Rightarrow> [] | Some ns \<Rightarrow> ns)) = Some named")
    case True
    then obtain t u old named where t: "file_state s = Tree t" "t_uniqueid t = Some u"
      and old: "import_devices uuid 0 (case t_devices t of None \<Rightarrow> [] | Some ds \<Rightarrow> ds) = Some old"
      and named: "those (map read_named (case t_named_devices t of None \<Rightarrow> [] | Some ns \<Rightarrow> ns)) = Some named"
      by blast
    have f: "file_of P (Tree t)" using assms t(1) by (simp add: clients_inv_def)
    then have "old = []" using old by (auto simp: file_of_def)
    moreover have "\<forall>d\<in>set named. P (nc_cert d)"
    proof
      fix d assume "d \<in> set named"
      then obtain n where "n \<in> set (case t_named_devices t of None \<Rightarrow> [] | Some ns \<Rightarrow> ns)" "read_named n = Some d"
        using those_mem [OF named] by blast
      then obtain ns where "t_named_devices t = Some ns" "n \<in> set ns" "nn_cert n = Some (nc_cert d)"
        using read_named_cert by (cases "t_named_devices t") auto
      then show "P (nc_cert d)" using f unfolding file_of_def by blast
    qed
    ultimately show ?thesis using t old named by (auto simp: load_state_def Let_def)
  next
    case False
    then have "named_devices (fst (load_state C uuid s)) = named_devices s"
      "cert_chain (fst (load_state C uuid s)) = cert_chain s"
      by (auto simp: load_state_def Let_def split: state_file.split option.split)
    then show ?thesis using assms by (simp add: clients_inv_def)
  qed
  then show ?thesis using assms by (simp add: clients_inv_def load_state_frame)
qed


lemma devices_clients_inv:
  assumes "clients_inv C P s" "\<forall>d\<in>set ds. P (nc_cert d)"
  shows "clients_inv C P (s\<lparr>named_devices := ds\<rparr>)"
  using assms by (simp add: clients_inv_def)

lemma add_authorized_clients:
  assumes "clients_inv C P s" "P cert" "json_faithful env"
  shows "clients_inv C P (fst (add_authorized_client C conf env name cert s))"
proof -
  have "clients_inv C P (s\<lparr>named_devices := named_devices s @
      [\<lparr>nc_name = name, nc_uuid = e_uuid env 0, nc_cert = cert, nc_enabled = True\<rparr>]\<rparr>)"
    using assms by (intro devices_clients_inv) (auto simp: clients_inv_def)
  then show ?thesis
    using assms(3) by (simp add: add_authorized_client_def Let_def save_state_clients load_state_clients)
qed

lemma enable_first_certs: "enable_first u b ds = Some ds' \<Longrightarrow> map nc_cert ds' = map nc_cert ds"
  by (induction ds arbitrary: ds') (auto split: if_splits)

lemma unpair_client_eq:
  "fst (unpair_client C env uuid s) = fst (load_state C (e_uuid env)
     (save_state env (s\<lparr>named_devices := filter (\<lambda>d. nc_uuid d \<noteq> uuid) (named_devices s)\<rparr>)))"
  by (simp add: unpair_client_def Let_def split: prod.split)

lemma unpair_clients:
  assumes "clients_inv C P s" "json_faithful env"
  shows "clients_inv C P (fst (unpair_client C env uuid s))"
  unfolding unpair_client_eq
  by (intro load_state_clients save_state_clients devices_clients_inv assms)
    (use assms(1) in \<open>auto simp: clients_inv_def\<close>)

lemma set_client_enabled_clients:
  assumes "clients_inv C P s" "json_faithful env"
  shows "clients_inv C P (fst (set_client_enabled env uuid b s))"
proof (cases "enable_first uuid b (named_devices s)")
  case (Some ds)
  then have "nc_cert ` set ds = nc_cert ` set (named_devices s)"
    using enable_first_certs [OF Some] by (simp flip: set_map)
  moreover have "\<forall>d\<in>set (named_devices s). P (nc_cert d)" using assms(1) by (simp add: clients_inv_def)
  ultimately have "\<forall>c\<in>nc_cert ` set ds. P c" by simp
  then have "\<forall>d\<in>set ds. P (nc_cert d)" by simp
  then have "clients_inv C P (s\<lparr>named_devices := ds\<rparr>)" by (rule devices_clients_inv [OF assms(1)])
  then show ?thesis using assms(2) by (simp add: set_client_enabled_def Some save_state_clients)
qed (simp add: set_client_enabled_def assms(1))

lemma erase_all_clients_inv:
  "clients_inv C P s \<Longrightarrow> json_faithful env \<Longrightarrow> clients_inv C P (erase_all_clients env s)"
  unfolding erase_all_clients_def by (rule save_state_clients) (auto simp: clients_inv_def)

lemma drain_clients: "clients_inv C P s \<Longrightarrow> clients_inv C P (drain_add_cert s)"
  by (auto simp: drain_add_cert_def clients_inv_def)

lemma verify_client_state: "fst (verify_client C peer s) = (if peer = None then s else drain_add_cert s)"
  by (simp add: verify_client_def Let_def split: option.split)

lemmas client_ops_inv =
  add_authorized_clients unpair_clients set_client_enabled_clients erase_all_clients_inv drain_clients

text \<open>The operations on clients do not touch the sessions of the handshake.\<close>

lemma add_authorized_sessions:
  "map_id_sess (fst (add_authorized_client C conf env name cert s)) = map_id_sess s"
  by (simp add: add_authorized_client_def Let_def load_state_frame save_state_frame)

lemma client_ops_sessions:
  "map_id_sess (fst (unpair_client C env uuid s)) = map_id_sess s"
  "map_id_sess (fst (set_client_enabled env uuid b s)) = map_id_sess s"
  "map_id_sess (erase_all_clients env s) = map_id_sess s"
  "map_id_sess (drain_add_cert s) = map_id_sess s"
  by (simp_all add: unpair_client_eq load_state_frame save_state_frame set_client_enabled_def
      erase_all_clients_def drain_add_cert_def split: option.split)

text \<open>Nor do the first phases touch the clients.\<close>

lemma upd_sess_clients: "clients_inv C P (upd_sess u f s) = clients_inv C P s"
  by (simp add: upd_sess_def clients_inv_def)

lemma remove_session_clients: "clients_inv C P (remove_session u s) = clients_inv C P s"
  by (simp add: remove_session_def clients_inv_def)

lemma fail_pair_state: "fst (fail_pair u m s) = remove_session u s"
  by (simp add: fail_pair_def)

lemma phase_clients:
  "clients_inv C P s \<Longrightarrow> clients_inv C P (fst (getservercert C conf u digits s))"
  "clients_inv C P s \<Longrightarrow> clients_inv C P (fst (clientchallenge C conf env u b s))"
  "clients_inv C P s \<Longrightarrow> clients_inv C P (fst (serverchallengeresp C conf u b s))"
  by (simp_all add: getservercert_def clientchallenge_def serverchallengeresp_def Let_def
      fail_pair_state upd_sess_clients remove_session_clients split: option.split)

section \<open>The steps of the handshake\<close>

lemma session_upd [simp]: "session (upd_sess u f s) u = f (session s u)"
  "map_id_sess (upd_sess u f s) = (map_id_sess s)(u \<mapsto> f (session s u))"
  "add_cert (upd_sess u f s) = add_cert s"
  by (simp_all add: upd_sess_def session_def)

lemma session_at: "map_id_sess s u = Some p \<Longrightarrow> session s u = p"
  by (simp add: session_def)

lemma sessions_inv_more: "sessions_inv C conf evs s \<Longrightarrow> sessions_inv C conf (evs @ [e]) s"
  unfolding sessions_inv_def using progress_more by metis

lemma sessions_inv_cong: "map_id_sess s' = map_id_sess s \<Longrightarrow> sessions_inv C conf evs s' = sessions_inv C conf evs s"
  by (simp add: sessions_inv_def)

lemma sessions_inv_put:
  assumes "sessions_inv C conf evs s" "ps_uniqueID q = u" "progress C conf evs u q"
    and "map_id_sess s' = (map_id_sess s)(u \<mapsto> q)"
  shows "sessions_inv C conf evs s'"
  using assms by (auto simp: sessions_inv_def)

text \<open>A session that a failed request removes was the only one the request had changed.\<close>

lemma sessions_inv_drop:
  assumes "sessions_inv C conf evs s" "ps_uniqueID (session s' u) = u"
    and "\<And>v. v \<noteq> u \<Longrightarrow> map_id_sess s' v = map_id_sess s v"
  shows "sessions_inv C conf evs (remove_session u s')"
  using assms by (auto simp: sessions_inv_def remove_session_def)

lemmas phase_defs = getservercert_def clientchallenge_def serverchallengeresp_def Let_def

lemma own:
  assumes "sessions_inv C conf evs s" "map_id_sess s u = Some p"
  shows "ps_uniqueID p = u" "progress C conf evs u p"
  using assms by (auto simp: sessions_inv_def)

lemma fails_keep:
  assumes "sessions_inv C conf evs s" "map_id_sess s u = Some p"
    and "\<And>q. ps_uniqueID (f q) = ps_uniqueID q"
  shows "sessions_inv C conf (evs @ [e]) (fst (fail_pair u m s))"
    "sessions_inv C conf (evs @ [e]) (fst (fail_pair u m (upd_sess u f s)))"
  using own(1) [OF assms(1,2)] assms(2,3)
  by (auto simp: fail_pair_state session_at intro!: sessions_inv_drop [OF sessions_inv_more [OF assms(1)]])

lemma getservercert_sessions:
  assumes inv: "sessions_inv C conf evs s" and at: "map_id_sess s u = Some p"
    and step: "pin_for conf u digits e"
  shows "sessions_inv C conf (evs @ [e]) (fst (getservercert C conf u digits s))"
proof (cases "ps_last_phase p = P_NONE \<and> \<not> length (ps_salt p) < 32")
  case True
  have "keyed C conf u e (gen_aes_key C (salt_bytes (ps_salt p)) digits)"
    unfolding keyed_def using step by blast
  then have "progress C conf (evs @ [e]) u (p\<lparr>ps_last_phase := P_GETSERVERCERT,
      ps_cipher_key := Some (gen_aes_key C (salt_bytes (ps_salt p)) digits)\<rparr>)"
    by (intro progressI(1) [of _ e]) (simp_all add: subseq_singleton_left)
  note put = sessions_inv_put [OF sessions_inv_more [OF inv] _ this]
  show ?thesis using True own(1) [OF inv at] at by (simp add: phase_defs session_at put)
next
  case False
  then show ?thesis using at by (auto simp: phase_defs session_at fails_keep [OF inv at, of id] fails_keep [OF inv at])
qed

lemma clientchallenge_sessions:
  assumes inv: "sessions_inv C conf evs s" and at: "map_id_sess s u = Some p"
    and step: "asks u ''clientchallenge'' b e"
  shows "sessions_inv C conf (evs @ [e]) (fst (clientchallenge C conf (fst e) u b s))"
proof (cases "ps_last_phase p = P_GETSERVERCERT")
  case True
  then obtain e1 key where k: "subseq [e1] evs" "keyed C conf u e1 key" "ps_cipher_key p = Some key"
    using own(2) [OF inv at] by (auto simp: progress_def)
  have "subseq ([e1] @ [e]) (evs @ [e])" by (rule subseq_extend [OF k(1)])
  moreover have "challenged u e (e_serverchallenge (fst e))" using step by (auto simp: challenged_def)
  ultimately have "progress C conf (evs @ [e]) u (p\<lparr>ps_last_phase := P_CLIENTCHALLENGE,
      ps_serversecret := e_serversecret (fst e), ps_serverchallenge := e_serverchallenge (fst e)\<rparr>)"
    using k by (intro progressI(2) [of _ e1 e _ _ _ _ key]) simp_all
  note put = sessions_inv_put [OF sessions_inv_more [OF inv] _ this]
  show ?thesis using True own(1) [OF inv at] at k(3) by (simp add: phase_defs session_at put)
next
  case False
  then show ?thesis using at fails_keep [OF inv at, of id] by (simp add: phase_defs session_at)
qed

lemma serverchallengeresp_sessions:
  assumes inv: "sessions_inv C conf evs s" and at: "map_id_sess s u = Some p"
    and step: "asks u ''serverchallengeresp'' b e"
  shows "sessions_inv C conf (evs @ [e]) (fst (serverchallengeresp C conf u b s))"
proof (cases "ps_last_phase p = P_CLIENTCHALLENGE")
  case True
  then obtain e1 e2 key where k: "subseq [e1, e2] evs" "keyed C conf u e1 key"
      "challenged u e2 (ps_serverchallenge p)" "ps_cipher_key p = Some key"
    using own(2) [OF inv at] by (auto simp: progress_def)
  have "subseq ([e1, e2] @ [e]) (evs @ [e])" by (rule subseq_extend [OF k(1)])
  then have "progress C conf (evs @ [e]) u (p\<lparr>ps_last_phase := P_SERVERCHALLENGERESP,
      ps_clienthash := ecb_decrypt C key b\<rparr>)"
    using k step by (intro progressI(3) [of _ e1 e2 e _ _ _ _ key b]) simp_all
  note put = sessions_inv_put [OF sessions_inv_more [OF inv] _ this]
  show ?thesis using True own(1) [OF inv at] at k(4)
    by (simp add: phase_defs session_at put fails_keep [OF inv at])
next
  case False
  then show ?thesis using at fails_keep [OF inv at, of id] by (simp add: phase_defs session_at)
qed

lemma raise_queue: "set (q_queue (fst (queue_raise x q))) \<subseteq> insert x (set (q_queue q))"
  by (auto simp: queue_raise_def)

lemma handshake_done:
  assumes "progress C conf evs u p" "ps_last_phase p = P_SERVERCHALLENGERESP"
    and "asks u ''clientpairingsecret'' b e" "16 < length b" "load_x509 C (ps_cert p) = Some x"
    and "sha256 C (ps_serverchallenge p @ x509_signature C x @ take 16 b) = ps_clienthash p"
    and "verify256 C x (take 16 b) (drop 16 b)"
  shows "handshake C conf (evs @ [e]) (ps_cert p)"
proof -
  obtain e1 e2 e3 key response where k: "subseq [e1, e2, e3] evs" "keyed C conf u e1 key"
      "challenged u e2 (ps_serverchallenge p)" "asks u ''serverchallengeresp'' response e3"
      "ps_clienthash p = ecb_decrypt C key response"
    using assms(1,2) by (auto simp: progress_def)
  have "subseq ([e1, e2, e3] @ [e]) (evs @ [e])" by (rule subseq_extend [OF k(1)])
  moreover have "asks u ''clientpairingsecret'' (take 16 b @ drop 16 b) e" using assms(3) by simp
  moreover have "length (take 16 b) = 16" using assms(4) by simp
  moreover have "sha256 C (ps_serverchallenge p @ x509_signature C x @ take 16 b) = ecb_decrypt C key response"
    using assms(6) k(5) by simp
  ultimately show ?thesis unfolding handshake_def append.simps using k(2,3,4) assms(5,7) by metis
qed

definition server_inv :: "'x crypto \<Rightarrow> nv_conf \<Rightarrow> 'x request list \<Rightarrow> 'x nvhttp \<Rightarrow> bool" where
  "server_inv C conf evs s \<longleftrightarrow> sessions_inv C conf evs s \<and> clients_inv C (handshake C conf evs) s"

lemma clientpairingsecret_fails:
  assumes inv: "sessions_inv C conf evs s" "clients_inv C P s" and at: "map_id_sess s u = Some p"
    and "s' = remove_session u s \<or> s' = remove_session u (upd_sess u (\<lambda>p. p\<lparr>ps_last_phase := P_CLIENTPAIRINGSECRET\<rparr>) s)"
  shows "sessions_inv C conf (evs @ [e]) s' \<and> clients_inv C P s'"
proof -
  let ?f = "\<lambda>p. p\<lparr>ps_last_phase := P_CLIENTPAIRINGSECRET\<rparr>"
  have "sessions_inv C conf (evs @ [e]) (remove_session u s)"
    "sessions_inv C conf (evs @ [e]) (remove_session u (upd_sess u ?f s))"
    using fails_keep [OF inv(1) at, of ?f] by (simp_all add: fail_pair_state)
  then show ?thesis using assms(4) inv(2) by (auto simp: remove_session_clients upd_sess_clients)
qed

lemma clientpairingsecret_eq:
  assumes "map_id_sess s u = Some p"
    and "s1 = upd_sess u (\<lambda>p. p\<lparr>ps_last_phase := P_CLIENTPAIRINGSECRET\<rparr>) s"
  shows "fst (clientpairingsecret C conf env u b s) =
    (if ps_last_phase p \<noteq> P_SERVERCHALLENGERESP then remove_session u s
     else if length b \<le> 16 then remove_session u s1
     else case load_x509 C (ps_cert p) of None \<Rightarrow> remove_session u s1
          | Some x \<Rightarrow>
              if sha256 C (ps_serverchallenge p @ x509_signature C x @ take 16 b) = ps_clienthash p \<and>
                 verify256 C x (take 16 b) (drop 16 b)
              then (let r = add_authorized_client C conf env (ps_name p) (ps_cert p)
                              (s1\<lparr>add_cert := fst (queue_raise x (add_cert s))\<rparr>)
                    in if snd r then remove_session u (fst r) else fst r)
              else remove_session u s1)"
  by (cases "load_x509 C (ps_cert p)")
    (simp_all add: clientpairingsecret_def Let_def session_at [OF assms(1)] fail_pair_def assms(2)
      split: prod.split)

lemma clientpairingsecret_inv:
  assumes inv: "sessions_inv C conf evs s" "clients_inv C (handshake C conf evs) s"
    and at: "map_id_sess s u = Some p" and step: "asks u ''clientpairingsecret'' b e"
    and json: "json_faithful (fst e)"
  shows "server_inv C conf (evs @ [e]) (fst (clientpairingsecret C conf (fst e) u b s))"
proof -
  let ?s' = "fst (clientpairingsecret C conf (fst e) u b s)"
  let ?s1 = "upd_sess u (\<lambda>p. p\<lparr>ps_last_phase := P_CLIENTPAIRINGSECRET\<rparr>) s"
  let ?P = "handshake C conf (evs @ [e])"
  have clients: "clients_inv C ?P s" using inv(2) by (rule clients_inv_mono [rotated]) (rule handshake_more)
  show ?thesis
  proof (cases "ps_last_phase p = P_SERVERCHALLENGERESP \<and> \<not> length b \<le> 16 \<and> (\<exists>x. load_x509 C (ps_cert p) = Some x \<and>
      sha256 C (ps_serverchallenge p @ x509_signature C x @ take 16 b) = ps_clienthash p \<and>
      verify256 C x (take 16 b) (drop 16 b))")
    case False
    then have "?s' = remove_session u s \<or> ?s' = remove_session u ?s1"
      unfolding clientpairingsecret_eq [OF at refl] by (cases "load_x509 C (ps_cert p)") (simp, force)
    then show ?thesis using clientpairingsecret_fails [OF inv(1) clients at] by (simp add: server_inv_def)
  next
    case True
    then obtain x where 2: "ps_last_phase p = P_SERVERCHALLENGERESP" "\<not> length b \<le> 16" "load_x509 C (ps_cert p) = Some x"
        "sha256 C (ps_serverchallenge p @ x509_signature C x @ take 16 b) = ps_clienthash p"
        "verify256 C x (take 16 b) (drop 16 b)" by blast
    have completed: "?P (ps_cert p)" by (rule handshake_done [OF own(2) [OF inv(1) at] 2(1) step _ 2(3-5)]) (use 2(2) in simp)
    define s2 where "s2 = ?s1\<lparr>add_cert := fst (queue_raise x (add_cert ?s1))\<rparr>"
    define r where "r = add_authorized_client C conf (fst e) (ps_name p) (ps_cert p) s2"
    have q: "\<forall>y\<in>set (q_queue (add_cert s2)). \<exists>c. ?P c \<and> Some y = load_x509 C c"
    proof
      fix y assume "y \<in> set (q_queue (add_cert s2))"
      then have "y = x \<or> y \<in> set (q_queue (add_cert s))" using raise_queue [of x "add_cert s"] by (auto simp: s2_def)
      then show "\<exists>c. ?P c \<and> Some y = load_x509 C c" using completed 2(3) clients by (auto simp: clients_inv_def)
    qed
    have "clients_inv C ?P ?s1" using clients by (simp add: upd_sess_clients)
    then have "clients_inv C ?P s2" using q by (simp add: s2_def clients_inv_def)
    then have c: "clients_inv C ?P (fst r)" unfolding r_def using completed json by (rule add_authorized_clients)
    have m: "map_id_sess (fst r) = (map_id_sess s)(u \<mapsto> p\<lparr>ps_last_phase := P_CLIENTPAIRINGSECRET\<rparr>)"
      using session_at [OF at] by (simp add: r_def add_authorized_sessions s2_def)
    have s: "sessions_inv C conf (evs @ [e]) (fst r)"
      by (rule sessions_inv_put [OF sessions_inv_more [OF inv(1)] _ _ m])
        (simp_all add: own(1) [OF inv(1) at] progress_def)
    have s': "?s' = (if snd r then remove_session u (fst r) else fst r)"
      using 2 by (simp add: clientpairingsecret_eq [OF at refl] r_def s2_def)
    have "sessions_inv C conf (evs @ [e]) (remove_session u (fst r))"
      using own(1) [OF inv(1) at] by (intro sessions_inv_drop [OF s]) (simp_all add: session_def m)
    then show ?thesis using s c by (simp add: s' server_inv_def remove_session_clients)
  qed
qed

lemma server_inv_next:
  assumes "server_inv C conf evs s" "map_id_sess s' = map_id_sess s" "clients_inv C (handshake C conf evs) s'"
  shows "server_inv C conf (evs @ [e]) s'"
proof -
  have "clients_inv C (handshake C conf (evs @ [e])) s'"
    using assms(3) by (rule clients_inv_mono [rotated]) (rule handshake_more)
  moreover have "sessions_inv C conf (evs @ [e]) s'"
    using assms(1,2) sessions_inv_more sessions_inv_cong by (metis server_inv_def)
  ultimately show ?thesis by (simp add: server_inv_def)
qed

lemma server_inv_more: "server_inv C conf evs s \<Longrightarrow> server_inv C conf (evs @ [e]) s"
  by (rule server_inv_next) (simp_all add: server_inv_def)

lemma server_inv_phase:
  assumes "server_inv C conf evs s" "sessions_inv C conf (evs @ [e]) s'"
    and "clients_inv C (handshake C conf evs) s \<Longrightarrow> clients_inv C (handshake C conf evs) s'"
  shows "server_inv C conf (evs @ [e]) s'"
proof -
  have "clients_inv C (handshake C conf evs) s'" using assms(1,3) by (simp add: server_inv_def)
  then have "clients_inv C (handshake C conf (evs @ [e])) s'" by (rule clients_inv_mono [rotated]) (rule handshake_more)
  then show ?thesis using assms(2) by (simp add: server_inv_def)
qed

lemma fst_case:
  "fst (case x of (a, b) \<Rightarrow> (a, f b)) = fst x"
  "fst (case y of (a, b, c) \<Rightarrow> (a, g b c)) = fst y"
  by (simp_all split: prod.split)

text \<open>A session that is new, or got its salt or its connection, is where it was.\<close>

lemma emplace_sessions:
  assumes "server_inv C conf evs s"
  shows "server_inv C conf evs (emplace_session (new_session u cert) s)"
    "map_id_sess (emplace_session (new_session u cert) s) u \<noteq> None"
  using assms
  by (auto simp: emplace_session_def new_session_def server_inv_def sessions_inv_def progress_def clients_inv_frame)

lemma upd_sess_server:
  assumes "server_inv C conf evs s" "map_id_sess s u \<noteq> None"
    and "\<And>p. progress C conf evs u p \<Longrightarrow> progress C conf evs u (f p)" "\<And>p. ps_uniqueID (f p) = ps_uniqueID p"
  shows "server_inv C conf evs (upd_sess u f s)"
  using assms by (auto simp: server_inv_def sessions_inv_def upd_sess_clients session_def)

lemma pair_getservercert_inv:
  assumes inv: "server_inv C conf evs s" and e: "e = (env, Pair_Request args)" and u: "args ''uniqueid'' = Some u"
  shows "server_inv C conf (evs @ [e]) (fst (pair_getservercert C conf env u args s))"
proof (cases "args ''clientcert''")
  case None
  then show ?thesis using inv by (simp add: pair_getservercert_def server_inv_more)
next
  case cert: (Some h)
  define s1 where "s1 = emplace_session (new_session u (unhex h)) s"
  have s1: "server_inv C conf evs s1" "map_id_sess s1 u \<noteq> None"
    using emplace_sessions [OF inv] by (auto simp: s1_def)
  show ?thesis
  proof (cases "args ''salt''")
    case None
    then show ?thesis using s1(1) cert
      by (simp add: pair_getservercert_def server_inv_more flip: s1_def)
  next
    case (Some salt)
    define s2 where "s2 = upd_sess u (\<lambda>p. p\<lparr>ps_salt := salt\<rparr>) s1"
    have s2: "server_inv C conf evs s2" unfolding s2_def
      using s1 by (rule upd_sess_server) simp_all
    obtain p where p: "map_id_sess s2 u = Some p" by (simp add: s2_def)
    let ?r = "\<lambda>p. p\<lparr>ps_response := Some (e_connection env)\<rparr>"
    have "server_inv C conf evs (upd_sess u ?r s2)"
      using s2 by (rule upd_sess_server) (simp_all add: p)
    then have r: "server_inv C conf (evs @ [e]) (upd_sess u ?r s2)"
      by (rule server_inv_more)
    have "pin_for conf u (e_stdin env) e" if "cf_pin_stdin conf" using e u that by simp
    then have "server_inv C conf (evs @ [e]) (fst (getservercert C conf u (e_stdin env) s2))" if "cf_pin_stdin conf"
      using that s2 by (intro server_inv_phase [OF s2] getservercert_sessions [OF _ p] phase_clients)
        (simp_all add: server_inv_def)
    then show ?thesis using r cert Some
      by (simp add: pair_getservercert_def Let_def fst_case(1) flip: s1_def s2_def)
  qed
qed

lemma pair_inv:
  assumes inv: "server_inv C conf evs s" and e: "e = (env, Pair_Request args)" and json: "json_faithful env"
  shows "server_inv C conf (evs @ [e]) (fst (pair C conf env args s))"
proof -
  have same: "server_inv C conf (evs @ [e]) s" using inv by (rule server_inv_more)
  have parts: "sessions_inv C conf evs s" "clients_inv C (handshake C conf evs) s" using inv by (simp_all add: server_inv_def)
  show ?thesis
  proof (cases "args ''uniqueid''")
    case (Some u)
    note u = this
    show ?thesis
    proof (cases "args ''phrase'' = Some ''getservercert'' \<or> args ''phrase'' = Some ''pairchallenge'' \<or> map_id_sess s u = None")
      case True
      then show ?thesis using same pair_getservercert_inv [OF inv e u] by (auto simp: pair_def u)
    next
      case False
      then obtain p where p: "map_id_sess s u = Some p" by auto
      have 1: "server_inv C conf (evs @ [e]) (fst (clientchallenge C conf env u (unhex h) s))"
        if "args ''clientchallenge'' = Some h" for h
        using clientchallenge_sessions [OF parts(1) p, of "unhex h" e] that u e
        by (intro server_inv_phase [OF inv] phase_clients) auto
      have 2: "server_inv C conf (evs @ [e]) (fst (serverchallengeresp C conf u (unhex h) s))"
        if "args ''serverchallengeresp'' = Some h" for h
        using serverchallengeresp_sessions [OF parts(1) p, of "unhex h" e] that u e
        by (intro server_inv_phase [OF inv] phase_clients) auto
      have 3: "server_inv C conf (evs @ [e]) (fst (clientpairingsecret C conf env u (unhex h) s))"
        if "args ''clientpairingsecret'' = Some h" for h
        using clientpairingsecret_inv [OF parts p, of "unhex h" e] that u e json by simp
      show ?thesis using False same 1 2 3
        by (simp add: pair_def u fst_case split: option.split)
    qed
  qed (simp add: pair_def same)
qed

lemma pin_inv:
  assumes inv: "server_inv C conf evs s" and e: "e = (env, Pin_Entry digits name)"
    and run: "pin C conf env digits name s = (s', Returned b r)"
  shows "server_inv C conf (evs @ [e]) s'"
proof (cases "map_id_sess s (e_first env) = None \<or> length digits \<noteq> 4 \<or> \<not> list_all isdigit digits")
  case True
  then have "s' = s" using run unfolding pin_def by (elim disjE) (simp_all split: if_split_asm)
  then show ?thesis using server_inv_more [OF inv] by simp
next
  case False
  let ?u = "e_first env"
  define s1 where "s1 = fst (getservercert C conf ?u digits s)"
  obtain p where p: "map_id_sess s ?u = Some p" using False by auto
  have "server_inv C conf (evs @ [e]) s1" unfolding s1_def
    using inv False e p
    by (intro server_inv_phase [OF inv] getservercert_sessions [OF _ p] phase_clients) (auto simp: server_inv_def)
  moreover have ne: "map_id_sess s1 ?u \<noteq> None"
    using run False by (auto simp: pin_def s1_def Let_def split: prod.splits if_splits)
  ultimately have s2: "server_inv C conf (evs @ [e]) (upd_sess ?u (\<lambda>p. p\<lparr>ps_name := name\<rparr>) s1)"
    by (rule upd_sess_server) simp_all
  then have "server_inv C conf (evs @ [e])
      (upd_sess ?u (\<lambda>p. p\<lparr>ps_response := None\<rparr>) (upd_sess ?u (\<lambda>p. p\<lparr>ps_name := name\<rparr>) s1))"
    by (rule upd_sess_server) simp_all
  then show ?thesis using run False ne s2
    by (auto simp: pin_def s1_def Let_def split: prod.splits option.splits if_splits)
qed

lemma nv_step_inv:
  assumes inv: "server_inv C conf evs s" and ok: "json_faithful (fst e)" and step: "nv_step C conf e s = Some s'"
  shows "server_inv C conf (evs @ [e]) s'"
proof -
  obtain env ev where e: "e = (env, ev)" by (cases e)
  have json: "json_faithful env" using ok by (simp add: e)
  have c: "clients_inv C (handshake C conf evs) s" using inv by (simp add: server_inv_def)
  show ?thesis
  proof (cases ev)
    case (Pair_Request args)
    then show ?thesis using step e pair_inv [OF inv _ json, of e args] by simp
  next
    case (Pin_Entry d name)
    then obtain b r where "pin C conf env d name s = (s', Returned b r)"
      using step e by (auto split: prod.splits pin_outcome.splits)
    then show ?thesis using pin_inv [OF inv] e Pin_Entry by simp
  next
    case (Tls_Client peer)
    then show ?thesis using step e inv c
      by (auto simp: verify_client_state client_ops_inv client_ops_sessions intro!: server_inv_next [OF inv] split: if_splits)
  next
    case (Unpair x)
    then show ?thesis using step e inv c json
      by (auto simp: client_ops_inv client_ops_sessions intro!: server_inv_next [OF inv])
  next
    case (Set_Enabled x y)
    then show ?thesis using step e inv c json
      by (auto simp: client_ops_inv client_ops_sessions intro!: server_inv_next [OF inv])
  next
    case Erase_All
    then show ?thesis using step e inv c json
      by (auto simp: client_ops_inv client_ops_sessions intro!: server_inv_next [OF inv])
  qed
qed

lemma nv_run_inv:
  "server_inv C conf evs s \<Longrightarrow> \<forall>e\<in>set es. json_faithful (fst e) \<Longrightarrow> nv_run C conf es s = Some s' \<Longrightarrow>
     server_inv C conf (evs @ es) s'"
proof (induction es arbitrary: evs s)
  case (Cons e es)
  then obtain s1 where s1: "nv_step C conf e s = Some s1" "nv_run C conf es s1 = Some s'"
    by (auto split: bind_splits)
  then have "server_inv C conf (evs @ [e]) s1" using nv_step_inv [OF Cons.prems(1)] Cons.prems(2) by simp
  from Cons.IH [OF this] show ?case using s1 Cons.prems(2) by simp
qed simp

lemma nv_start_inv: "server_inv C conf [] (nv_start u)"
  by (simp add: server_inv_def sessions_inv_def clients_inv_def nv_start_def file_of_def queue_init_def)

lemma chain_verify_accepts:
  "chain_verify_from C cert err certs = None \<Longrightarrow>
     \<exists>store\<in>set certs. fst (x509_verify_cert C openssl_verify_cb store cert)"
  by (induction certs arbitrary: err) (auto split: if_splits prod.splits)

section \<open>The state file\<close>

lemma those_map_Some: "(\<And>x. x \<in> set xs \<Longrightarrow> f x = Some (g x)) \<Longrightarrow> those (map f xs) = Some (map g xs)"
  by (induction xs) auto

lemma read_named_of: "read_named (named_node_of d) = Some d"
  by (simp add: read_named_def named_node_of_def)

lemma read_named_nodes: "those (map (read_named \<circ> named_node_of) ds) = Some ds"
  using those_map_Some [of ds "read_named \<circ> named_node_of" id] by (simp add: read_named_of)

lemma load_saved:
  assumes "file_state s = Tree (state_tree_of s' other)"
  shows "load_state C uuid s = (s\<lparr>unique_id := unique_id s', named_devices := named_devices s',
      cert_chain := map (\<lambda>d. load_x509 C (nc_cert d)) (named_devices s')\<rparr>, True)"
  using assms by (simp add: load_state_def state_tree_of_def read_named_nodes Let_def)

lemma saved_file:
  assumes "file_state s \<noteq> Unreadable" "e_write env = Written" "\<And>t. e_json env t = Tree t"
  shows "file_state (save_state env s) =
    Tree (state_tree_of s (case file_state s of Tree t \<Rightarrow> t_other t | _ \<Rightarrow> []))"
  using assms by (simp add: save_state_def Let_def)

lemma authorized_devices:
  assumes "cf_fresh_state conf \<or> file_state s0 \<noteq> Unreadable \<and> e_write env = Written \<and> (\<forall>t. e_json env t = Tree t)"
    and "file_state s = file_state s0"
  shows "snd (add_authorized_client C conf env name cert s)"
    "named_devices (fst (add_authorized_client C conf env name cert s)) = named_devices s @
      [\<lparr>nc_name = name, nc_uuid = e_uuid env 0, nc_cert = cert, nc_enabled = True\<rparr>]"
proof -
  let ?s = "s\<lparr>named_devices := named_devices s @
      [\<lparr>nc_name = name, nc_uuid = e_uuid env 0, nc_cert = cert, nc_enabled = True\<rparr>]\<rparr>"
  have "\<not> cf_fresh_state conf \<Longrightarrow> file_state (save_state env ?s) =
      Tree (state_tree_of ?s (case file_state ?s of Tree t \<Rightarrow> t_other t | _ \<Rightarrow> []))"
    by (rule saved_file) (use assms in auto)
  from load_saved [OF this] show "snd (add_authorized_client C conf env name cert s)"
    "named_devices (fst (add_authorized_client C conf env name cert s)) = named_devices s @
      [\<lparr>nc_name = name, nc_uuid = e_uuid env 0, nc_cert = cert, nc_enabled = True\<rparr>]"
    by (simp_all add: add_authorized_client_def Let_def)
qed

section \<open>An honest client\<close>

text \<open>The four requests of a client that knows the PIN, and the PIN entered after the first.\<close>

definition honest_key :: "'x crypto \<Rightarrow> string \<Rightarrow> string \<Rightarrow> byte list" where
  "honest_key C salt digits = gen_aes_key C (salt_bytes salt) digits"

definition honest_request :: "string \<Rightarrow> string \<Rightarrow> byte list \<Rightarrow> string \<rightharpoonup> string" where
  "honest_request u what bytes = [''uniqueid'' \<mapsto> u, what \<mapsto> hex_vec bytes True]"

definition honest_start :: "string \<Rightarrow> byte list \<Rightarrow> string \<Rightarrow> string \<rightharpoonup> string" where
  "honest_start u cert salt =
     [''uniqueid'' \<mapsto> u, ''phrase'' \<mapsto> ''getservercert'', ''clientcert'' \<mapsto> hex_vec cert True, ''salt'' \<mapsto> salt]"

fun reply :: "pair_outcome \<Rightarrow> pair_tree" where
  "reply (Reply t) = t"
| "reply _ = empty_tree"

text \<open>What the client reads in the challenge response: the server's hash, and the challenge.\<close>

definition honest_open :: "'x crypto \<Rightarrow> byte list \<Rightarrow> pair_tree \<Rightarrow> byte list \<times> byte list" where
  "honest_open C key t =
     (let m = ecb_decrypt C key (unhex (the (pt_challengeresponse t))) in (take 32 m, drop 32 m))"

lemma unhex_hex [simp]: "unhex (hex_vec bs True) = bs"
  by (simp add: unhex_def hex_roundtrip)

section \<open>Properties\<close>

text \<open>
  C1: Whoever is admitted was paired: whatever requests a host receives that started without
  clients, when it admits an HTTPS client, then its certificate verifies against one that was sent
  in a complete handshake: in this order, a PIN was entered for the session, the client asked for
  the server's challenge, sent a response, and a secret such that the hash of the challenge, the
  certificate's signature and the secret is what the response holds under the key made from the
  PIN, and the certificate signs the secret.
\<close>
theorem admitted_after_handshake:
  assumes "nv_run C conf evs (nv_start u) = Some s" "\<forall>e\<in>set evs. json_faithful (fst e)"
    and "snd (verify_client C (Some peer) s)"
  shows "\<exists>cert x. handshake C conf evs cert \<and> load_x509 C cert = Some x \<and>
    fst (x509_verify_cert C openssl_verify_cb (Some x) peer)"
proof -
  have "server_inv C conf evs s" using nv_run_inv [OF nv_start_inv assms(2,1)] by simp
  then have "clients_inv C (handshake C conf evs) (drain_add_cert s)"
    by (simp add: server_inv_def drain_clients)
  moreover have "chain_verify C peer (cert_chain (drain_add_cert s)) = None"
    using assms(3) by (simp add: verify_client_def Let_def)
  then obtain store where "store \<in> set (cert_chain (drain_add_cert s))"
      "fst (x509_verify_cert C openssl_verify_cb store peer)"
    using chain_verify_accepts unfolding chain_verify_def by metis
  ultimately obtain cert where c: "handshake C conf evs cert" "store = load_x509 C cert"
      "fst (x509_verify_cert C openssl_verify_cb store peer)"
    by (auto simp: clients_inv_def)
  then obtain x where "load_x509 C cert = Some x" using handshake_loads by blast
  then show ?thesis using c by (intro exI [of _ cert] exI [of _ x]) simp
qed

text \<open>
  C20: What is saved is loaded: after \<open>save_state\<close> a host that starts again has the same clients,
  each with its name, identifier, certificate and whether it is enabled, the same identity, and a
  chain of exactly the clients' certificates; what other parts of the program keep in the file
  stays there.
\<close>
theorem state_file_roundtrip:
  assumes "file_state s \<noteq> Unreadable" "e_write env = Written" "\<And>t. e_json env t = Tree t"
    and "file_state s' = file_state (save_state env s)"
  shows "\<exists>r. load_state C uuid s' = (r, True) \<and> named_devices r = named_devices s \<and> unique_id r = unique_id s \<and>
    cert_chain r = map (\<lambda>d. load_x509 C (nc_cert d)) (named_devices s) \<and>
    (\<forall>t. file_state s = Tree t \<longrightarrow> (\<exists>t'. file_state r = Tree t' \<and> t_other t' = t_other t))"
proof -
  let ?other = "case file_state s of Tree t \<Rightarrow> t_other t | _ \<Rightarrow> []"
  have f: "file_state s' = Tree (state_tree_of s ?other)" using saved_file [OF assms(1-3)] assms(4) by simp
  then have "file_state (fst (load_state C uuid s')) = Tree (state_tree_of s ?other)"
    by (simp add: load_state_frame)
  moreover have "t_other (state_tree_of s ?other) = ?other" by (simp add: state_tree_of_def)
  ultimately show ?thesis using load_saved [OF f, of C uuid] by auto
qed

text \<open>
  C18: A PIN for a session that is no longer waiting for one is a use after free: \<open>pin\<close> takes the
  first session of the map, and when that has passed its first phase already, or its salt is too
  short, \<open>getservercert\<close> erases it from the map and \<open>pin\<close> then writes the client's name to it.
  In every other case the session is alive.
\<close>
theorem pin_use_after_free:
  assumes "map_id_sess s (e_first env) = Some p" "ps_uniqueID p = e_first env"
    and "length digits = 4" "list_all isdigit digits"
  shows "snd (pin C conf env digits name s) = Dangling \<longleftrightarrow>
    ps_last_phase p \<noteq> P_NONE \<or> length (ps_salt p) < 32"
proof -
  show ?thesis using assms
    by (auto simp: pin_def Let_def getservercert_def fail_pair_def remove_session_def session_at
        split: prod.split option.split)
qed

text \<open>
  C4: An honest client is paired: a client that knows the PIN, and whose four requests follow each
  other, gets the server's hash of its own challenge and the server's secret, and ends up among the
  clients under the name given with the PIN, with the session gone.
\<close>
theorem honest_client_paired:
  assumes dec: "\<And>k m. length m mod 16 = 0 \<Longrightarrow> ecb_decrypt C k (ecb_encrypt C k m) = m"
    and sha: "\<And>m. length (sha256 C m) = 32"
    and cert: "load_x509 C cert = Some x" "verify256 C x secret sign" "length secret = 16" "sign \<noteq> []"
    and new: "map_id_sess s u = None" "\<not> cf_pin_stdin conf" "32 \<le> length salt"
    and digits: "length digits = 4" "list_all isdigit digits" "e_first env2 = u"
    and drawn: "length (e_serversecret env3) = 16" "length (e_serverchallenge env3) = 16" "length c mod 16 = 0"
    and key: "key = honest_key C salt digits"
    and r1: "r1 = pair C conf env1 (honest_start u cert salt) s"
    and r2: "r2 = pin C conf env2 digits name (fst r1)"
    and r3: "r3 = pair C conf env3 (honest_request u ''clientchallenge'' (ecb_encrypt C key c)) (fst r2)"
    and opened: "(hash, challenge) = honest_open C key (reply (snd r3))"
    and r4: "r4 = pair C conf env4 (honest_request u ''serverchallengeresp''
        (ecb_encrypt C key (sha256 C (challenge @ x509_signature C x @ secret)))) (fst r3)"
    and r5: "r5 = pair C conf env5 (honest_request u ''clientpairingsecret'' (secret @ sign)) (fst r4)"
    and saved: "cf_fresh_state conf \<or>
        file_state s \<noteq> Unreadable \<and> e_write env5 = Written \<and> (\<forall>t. e_json env5 t = Tree t)"
    and reveal: "reveal = unhex (the (pt_pairingsecret (reply (snd r4))))"
  shows "hash = sha256 C (c @ cert_signature C (cf_servercert conf) @ take 16 reveal) \<and>
    drop 16 reveal = sign256 C (cf_pkey conf) (take 16 reveal) \<and>
    snd r5 = Reply (status 200 (paired 1 empty_tree)) \<and> map_id_sess (fst r5) = map_id_sess s \<and>
    named_devices (fst r5) = named_devices s @
      [\<lparr>nc_name = name, nc_uuid = e_uuid env5 0, nc_cert = cert, nc_enabled = True\<rparr>]"
proof -
  define at where "at = (\<lambda>p. s\<lparr>map_id_sess := (map_id_sess s)(u \<mapsto> p)\<rparr>)"
  have at: "upd_sess u f (at p) = at (f p)" "session (at p) u = p" "map_id_sess (at p) u = Some p"
    "add_cert (at p) = add_cert s" for f p
    by (simp_all add: at_def upd_sess_def session_def)
  define p1 where "p1 = (new_session u cert)\<lparr>ps_salt := salt, ps_response := Some (e_connection env1)\<rparr>"
  have "emplace_session (new_session u cert) s = at (new_session u cert)"
    using new(1) by (simp add: emplace_session_def new_session_def at_def)
  then have 1: "fst r1 = at p1"
    using new(2) by (simp add: r1 pair_def honest_start_def pair_getservercert_def Let_def at p1_def)
  define p2 where "p2 = p1\<lparr>ps_last_phase := P_GETSERVERCERT, ps_cipher_key := Some key, ps_name := name, ps_response := None\<rparr>"
  have g: "ps_last_phase p1 = P_NONE" "\<not> length (ps_salt p1) < 32" "ps_salt p1 = salt"
    using new(3) by (simp_all add: p1_def new_session_def)
  have 2: "fst r2 = at p2"
    using digits g by (simp add: r2 1 pin_def getservercert_def Let_def at p2_def key honest_key_def p1_def)
  let ?hash = "sha256 C (c @ cert_signature C (cf_servercert conf) @ e_serversecret env3)"
  define p3 where "p3 = p2\<lparr>ps_last_phase := P_CLIENTCHALLENGE, ps_serversecret := e_serversecret env3,
      ps_serverchallenge := e_serverchallenge env3\<rparr>"
  have k2: "ps_last_phase p2 = P_GETSERVERCERT" "ps_cipher_key p2 = Some key" by (simp_all add: p2_def)
  have "fst r3 = at p3 \<and> pt_challengeresponse (reply (snd r3)) = Some (hex_vec (ecb_encrypt C key (?hash @ e_serverchallenge env3)) True)"
    using k2 dec [OF drawn(3), of key]
    by (simp add: r3 2 pair_def honest_request_def clientchallenge_def Let_def at p3_def status_def paired_def)
  then have 3: "fst r3 = at p3" and t3: "pt_challengeresponse (reply (snd r3)) = Some (hex_vec (ecb_encrypt C key (?hash @ e_serverchallenge env3)) True)"
    by simp_all
  have "honest_open C key (reply (snd r3)) = (?hash, e_serverchallenge env3)"
    using drawn(2) sha by (simp add: honest_open_def t3 dec)
  then have o: "hash = ?hash" "challenge = e_serverchallenge env3" using opened by simp_all
  let ?answer = "sha256 C (challenge @ x509_signature C x @ secret)"
  define p4 where "p4 = p3\<lparr>ps_last_phase := P_SERVERCHALLENGERESP, ps_clienthash := ?answer\<rparr>"
  have k3: "ps_last_phase p3 = P_CLIENTCHALLENGE" "ps_cipher_key p3 = Some key" "ps_serversecret p3 = e_serversecret env3"
    "e_serversecret env3 \<noteq> []"
    using drawn(1) by (auto simp: p3_def p2_def)
  have "ecb_decrypt C key (ecb_encrypt C key ?answer) = ?answer" using sha by (intro dec) simp
  then have "fst r4 = at p4 \<and> pt_pairingsecret (reply (snd r4)) =
      Some (hex_vec (e_serversecret env3 @ sign256 C (cf_pkey conf) (e_serversecret env3)) True)"
    using k3 by (simp add: r4 3 pair_def honest_request_def serverchallengeresp_def Let_def at p4_def status_def paired_def)
  then have 4: "fst r4 = at p4" and t4: "reveal = e_serversecret env3 @ sign256 C (cf_pkey conf) (e_serversecret env3)"
    using reveal by simp_all
  have server: "hash = sha256 C (c @ cert_signature C (cf_servercert conf) @ take 16 reveal) \<and>
      drop 16 reveal = sign256 C (cf_pkey conf) (take 16 reveal)"
    using drawn(1) by (simp add: t4 o(1))
  define q where "q = p4\<lparr>ps_last_phase := P_CLIENTPAIRINGSECRET\<rparr>"
  define s5 where "s5 = (at q)\<lparr>add_cert := fst (queue_raise x (add_cert s))\<rparr>"
  define r where "r = add_authorized_client C conf env5 name cert s5"
  have k4: "ps_last_phase p4 = P_SERVERCHALLENGERESP" "ps_cert p4 = cert" "ps_name p4 = name" "ps_uniqueID p4 = u"
    "ps_clienthash p4 = ?answer" "ps_serverchallenge p4 = challenge"
    by (simp_all add: p4_def p3_def p2_def p1_def new_session_def o(2))
  let ?devices = "named_devices s @ [\<lparr>nc_name = name, nc_uuid = e_uuid env5 0, nc_cert = cert, nc_enabled = True\<rparr>]"
  have r: "snd r" "named_devices (fst r) = ?devices"
    "map_id_sess (fst r) = (map_id_sess s)(u \<mapsto> q)"
    using authorized_devices [OF saved, of s5] by (simp_all add: r_def s5_def at_def add_authorized_sessions)
  have kq: "ps_cert q = cert" "ps_name q = name" "ps_clienthash q = ?answer" "ps_serverchallenge q = challenge"
    by (simp_all add: q_def k4)
  have "clientpairingsecret C conf env5 u (secret @ sign) (at p4) =
      (remove_session u (fst r), True, status 200 (paired 1 empty_tree))"
    using cert k4(1) kq r(1)
    by (auto simp: clientpairingsecret_def Let_def at k4(4) r_def s5_def q_def [symmetric] split: prod.split)
  then have "fst r5 = remove_session u (fst r)" "snd r5 = Reply (status 200 (paired 1 empty_tree))"
    by (simp_all add: r5 4 pair_def honest_request_def at)
  moreover have "map_id_sess (remove_session u (fst r)) = map_id_sess s"
    using new(1) k4(4) by (auto simp: remove_session_def session_def r(3) q_def)
  ultimately show ?thesis using server r(2) by (simp add: remove_session_def)
qed

text \<open>
  C19: A client that is unpaired can still get in: \<open>clientpairingsecret\<close> also queues its
  certificate, and the queue is only emptied by the next HTTPS connection. When the only client is
  unpaired before that, no client is left in the list, yet the next connection with its certificate
  is admitted.
\<close>
theorem unpaired_client_admitted:
  assumes "named_devices s = [d]" "load_x509 C (nc_cert d) = Some x"
    and "q_continue (add_cert s)" "q_queue (add_cert s) = [x]"
    and "fst (x509_verify_cert C openssl_verify_cb (Some x) x)"
    and "file_state s \<noteq> Unreadable" "e_write env = Written" "\<And>t. e_json env t = Tree t"
    and "unpair_client C env (nc_uuid d) s = (s', removed, ok)"
  shows "removed \<and> get_all_clients s' = [] \<and> snd (verify_client C (Some x) s')"
proof -
  let ?s = "s\<lparr>named_devices := []\<rparr>"
  have f: "file_state (save_state env ?s) =
      Tree (state_tree_of ?s (case file_state ?s of Tree t \<Rightarrow> t_other t | _ \<Rightarrow> []))"
    by (rule saved_file) (use assms(6-8) in auto)
  have s': "named_devices s' = []" "cert_chain s' = []" "add_cert s' = add_cert s" "removed"
    using assms(1,9) load_saved [OF f, of C "e_uuid env"]
    by (auto simp: unpair_client_def Let_def save_state_frame split: prod.splits)
  obtain code where "x509_verify_cert C openssl_verify_cb (Some x) x = (True, code)"
    using assms(5) by (cases "x509_verify_cert C openssl_verify_cb (Some x) x") auto
  with s' show ?thesis using assms(3,4)
    by (simp add: get_all_clients_def verify_client_def Let_def drain_add_cert_def queue_peek_def
        chain_verify_def is_client_enabled_def)
qed

text \<open>
  Disabling a client works by text: \<open>set_client_enabled\<close> marks the client, and a connection is
  refused when the text the client sent at pairing is, byte for byte, the PEM form of its
  certificate; a client that sent the same certificate with any other text is not found, and
  stays admitted.
\<close>
theorem disabled_by_text:
  assumes "named_devices s = [d]" "load_x509 C (nc_cert d) = Some x" "cert_chain s = [Some x]"
    and "q_queue (add_cert s) = []" "fst (x509_verify_cert C openssl_verify_cb (Some x) x)"
    and "set_client_enabled env (nc_uuid d) False s = (s', found)"
  shows "found \<and> (snd (verify_client C (Some x) s') \<longleftrightarrow> nc_cert d \<noteq> x509_pem C x)"
proof -
  have "found" "s' = save_state env (s\<lparr>named_devices := [d\<lparr>nc_enabled := False\<rparr>]\<rparr>)"
    using assms(1,6) by (auto simp: set_client_enabled_def)
  then show ?thesis using assms(3-5)
    by (auto simp: verify_client_def Let_def drain_add_cert_def queue_peek_def save_state_frame
        chain_verify_def is_client_enabled_def split: prod.splits)
qed

section \<open>Concrete runs\<close>

text \<open>A toy of OpenSSL: no encryption, the identity as hash, a certificate is its own text.\<close>

definition demo_crypto :: "byte list crypto" where
  "demo_crypto = \<lparr>sha256 = (\<lambda>m. take 32 (m @ replicate 32 0)), load_x509 = (\<lambda>c. if c = [] then None else Some c),
     x509_pem = (\<lambda>x. x), x509_signature = (\<lambda>x. x), ecb_encrypt = (\<lambda>k m. m), ecb_decrypt = (\<lambda>k m. m),
     sign256 = (\<lambda>k m. m), verify256 = (\<lambda>x m sg. sg = m), x509_verify_cert =
       (\<lambda>cb store c. (store = Some c, if store = Some c then X509_V_OK else X509_V_ERR_DEPTH_ZERO_SELF_SIGNED_CERT))\<rparr>"

definition demo_conf :: nv_conf where
  "demo_conf = \<lparr>cf_fresh_state = False, cf_pin_stdin = False, cf_pkey = [1], cf_servercert = [2]\<rparr>"

definition demo_nv_env :: nv_env where
  "demo_nv_env = \<lparr>e_uuid = (\<lambda>n. replicate (Suc n) (CHR ''u'')), e_copy = True, e_write = Written, e_json = Tree,
     e_serversecret = replicate 16 3, e_serverchallenge = replicate 16 4, e_stdin = [], e_connection = 0,
     e_first = ''c''\<rparr>"

definition demo_requests :: "(nv_env \<times> byte list nv_event) list" where
  "demo_requests = map (Pair demo_nv_env)
     [Pair_Request (honest_start ''c'' [7] (replicate 32 (CHR ''0''))),
      Pin_Entry ''1234'' ''laptop'',
      Pair_Request (honest_request ''c'' ''clientchallenge'' (replicate 16 5)),
      Pair_Request (honest_request ''c'' ''serverchallengeresp'' (replicate 16 4 @ [7] @ replicate 15 6)),
      Pair_Request (honest_request ''c'' ''clientpairingsecret'' (replicate 32 6))]"

lemmas demo_defs = demo_crypto_def demo_conf_def demo_nv_env_def demo_requests_def

lemma demo_run:
  "case nv_run demo_crypto demo_conf demo_requests (nv_start []) of None \<Rightarrow> False
   | Some s \<Rightarrow> snd (verify_client demo_crypto (Some [7]) s)"
  by code_simp

lemma demo_faithful: "\<forall>e\<in>set demo_requests. json_faithful (fst e)"
  by (simp add: demo_requests_def json_faithful_def demo_nv_env_def)

theorem admitted_after_handshake_witness:
  "\<exists>cert x. handshake demo_crypto demo_conf demo_requests cert \<and> load_x509 demo_crypto cert = Some x \<and>
    fst (x509_verify_cert demo_crypto openssl_verify_cb (Some x) [7])"
proof -
  obtain s where s: "nv_run demo_crypto demo_conf demo_requests (nv_start []) = Some s"
      "snd (verify_client demo_crypto (Some [7]) s)"
    using demo_run by (auto split: option.splits)
  show ?thesis by (rule admitted_after_handshake [OF s(1) demo_faithful s(2)])
qed

text \<open>The host after that run, and after the first HTTPS connection.\<close>

definition demo_device :: named_cert where
  "demo_device = \<lparr>nc_name = ''laptop'', nc_uuid = ''u'', nc_cert = [7], nc_enabled = True\<rparr>"

definition demo_paired :: "byte list nvhttp" where
  "demo_paired = (nv_start [])\<lparr>named_devices := [demo_device],
     add_cert := fst (queue_raise [7] (queue_init 30)), cert_chain := [Some [7]]\<rparr>"

theorem state_file_roundtrip_witness:
  "named_devices (fst (load_state demo_crypto (\<lambda>n. []) (save_state demo_nv_env demo_paired))) = [demo_device]"
proof -
  have "file_state demo_paired \<noteq> Unreadable" "e_write demo_nv_env = Written" "\<And>t. e_json demo_nv_env t = Tree t"
    by (simp_all add: demo_paired_def nv_start_def demo_nv_env_def)
  from state_file_roundtrip [OF this refl, of demo_crypto "\<lambda>n. []"] show ?thesis
    by (auto simp: demo_paired_def)
qed

theorem pin_use_after_free_witness:
  "snd (pin demo_crypto demo_conf demo_nv_env ''1234'' ''laptop''
     (emplace_session (new_session ''c'' [7]) demo_paired)) = Dangling"
proof -
  let ?s = "emplace_session (new_session ''c'' [7]) demo_paired"
  have "map_id_sess ?s (e_first demo_nv_env) = Some (new_session ''c'' [7])"
    by (simp add: emplace_session_def new_session_def demo_paired_def nv_start_def demo_nv_env_def)
  from pin_use_after_free [OF this, of "''1234''" demo_crypto demo_conf "''laptop''"] show ?thesis
    by (simp add: new_session_def demo_nv_env_def isdigit_def of_char_def)
qed

theorem unpaired_client_admitted_witness:
  "snd (verify_client demo_crypto (Some [7]) (fst (unpair_client demo_crypto demo_nv_env ''u'' demo_paired)))"
proof -
  obtain s' removed ok where u: "unpair_client demo_crypto demo_nv_env (nc_uuid demo_device) demo_paired = (s', removed, ok)"
    by (metis prod_cases3)
  have "snd (verify_client demo_crypto (Some [7]) s')"
    using unpaired_client_admitted [OF _ _ _ _ _ _ _ _ u, of "[7]"]
    by (simp add: demo_paired_def demo_device_def nv_start_def demo_nv_env_def demo_crypto_def queue_raise_def queue_init_def)
  then show ?thesis using u by (simp add: demo_device_def)
qed

theorem disabled_by_text_witness:
  "\<not> snd (verify_client demo_crypto (Some [7])
     (fst (set_client_enabled demo_nv_env ''u'' False (demo_paired\<lparr>add_cert := queue_init 30\<rparr>))))"
proof -
  obtain s' found where u: "set_client_enabled demo_nv_env (nc_uuid demo_device) False
      (demo_paired\<lparr>add_cert := queue_init 30\<rparr>) = (s', found)"
    by (metis prod.exhaust)
  have "\<not> snd (verify_client demo_crypto (Some [7]) s')"
    using disabled_by_text [OF _ _ _ _ _ u, of demo_crypto "[7]"]
    by (simp add: demo_paired_def demo_device_def demo_crypto_def queue_init_def)
  then show ?thesis using u by (simp add: demo_device_def)
qed

definition demo_key :: "byte list" where
  "demo_key = honest_key demo_crypto (replicate 32 (CHR ''0'')) ''1234''"

definition demo_r1 :: "byte list nvhttp \<times> pair_outcome" where
  "demo_r1 = pair demo_crypto demo_conf demo_nv_env (honest_start ''c'' [7] (replicate 32 (CHR ''0''))) (nv_start [])"

definition demo_r2 :: "byte list nvhttp \<times> pin_outcome" where
  "demo_r2 = pin demo_crypto demo_conf demo_nv_env ''1234'' ''laptop'' (fst demo_r1)"

definition demo_r3 :: "byte list nvhttp \<times> pair_outcome" where
  "demo_r3 = pair demo_crypto demo_conf demo_nv_env
     (honest_request ''c'' ''clientchallenge'' (ecb_encrypt demo_crypto demo_key (replicate 16 5))) (fst demo_r2)"

definition demo_opened :: "byte list \<times> byte list" where
  "demo_opened = honest_open demo_crypto demo_key (reply (snd demo_r3))"

definition demo_r4 :: "byte list nvhttp \<times> pair_outcome" where
  "demo_r4 = pair demo_crypto demo_conf demo_nv_env (honest_request ''c'' ''serverchallengeresp''
     (ecb_encrypt demo_crypto demo_key (sha256 demo_crypto
        (snd demo_opened @ x509_signature demo_crypto [7] @ replicate 16 6)))) (fst demo_r3)"

definition demo_r5 :: "byte list nvhttp \<times> pair_outcome" where
  "demo_r5 = pair demo_crypto demo_conf demo_nv_env
     (honest_request ''c'' ''clientpairingsecret'' (replicate 16 6 @ replicate 16 6)) (fst demo_r4)"

theorem honest_client_paired_witness: "named_devices (fst demo_r5) = [demo_device]"
proof -
  have opened: "(fst demo_opened, snd demo_opened) = honest_open demo_crypto demo_key (reply (snd demo_r3))"
    by (simp add: demo_opened_def)
  show ?thesis
    using honest_client_paired [OF _ _ _ _ _ _ _ _ _ _ _ _ _ _ _ demo_key_def demo_r1_def demo_r2_def demo_r3_def
        opened demo_r4_def demo_r5_def _ refl]
    by (simp add: demo_crypto_def demo_conf_def demo_nv_env_def demo_device_def nv_start_def isdigit_def of_char_def)
qed

end
