(* ===== verification/Input.thy ===== *)
theory Input
  imports Task_Pool Config_State "HOL-Library.Signed_Division" "HOL-Library.AList"
begin

unbundle bit_operations_syntax

text \<open>
  The input of the clients (\<open>src/input.cpp\<close>): messages wait in a queue per client, a worker takes one,
  merges it with later ones that it supersedes, and passes it to the platform. A message is the
  packet its bytes are read as. The calls into the platform are recorded in the order they are made.
  The constants of the protocol library are the record \<open>limelight\<close>, the arithmetic of \<open>float\<close> the
  record \<open>fpu\<close> on the 32 bits of a value.
\<close>

section \<open>Protocol\<close>

type_synonym f32 = "32 word"

record limelight =
  BUTTON_LEFT :: "8 word"
  BUTTON_RIGHT :: "8 word"
  MODIFIER_SHIFT :: "8 word"
  MODIFIER_CTRL :: "8 word"
  MODIFIER_ALT :: "8 word"
  LI_TOUCH_EVENT_HOVER :: "8 word"
  LI_TOUCH_EVENT_MOVE :: "8 word"
  LI_ROT_UNKNOWN :: "16 word"

record keyboard_packet =
  kb_release :: bool
  kb_keyCode :: "16 word"
  kb_modifiers :: "8 word"
  kb_flags :: "8 word"

record multi_controller_packet =
  mc_controllerNumber :: "16 word"
  mc_activeGamepadMask :: "16 word"
  mc_buttonFlags :: "16 word"
  mc_buttonFlags2 :: "16 word"
  mc_leftTrigger :: "8 word"
  mc_rightTrigger :: "8 word"
  mc_leftStickX :: "16 word"
  mc_leftStickY :: "16 word"
  mc_rightStickX :: "16 word"
  mc_rightStickY :: "16 word"

record touch_packet =
  to_eventType :: "8 word"
  to_rotation :: "16 word"
  to_pointerId :: "32 word"
  to_x :: f32
  to_y :: f32
  to_pressureOrDistance :: f32
  to_contactAreaMajor :: f32
  to_contactAreaMinor :: f32

record pen_packet =
  pe_eventType :: "8 word"
  pe_toolType :: "8 word"
  pe_penButtons :: "8 word"
  pe_x :: f32
  pe_y :: f32
  pe_pressureOrDistance :: f32
  pe_rotation :: "16 word"
  pe_tilt :: "8 word"
  pe_contactAreaMajor :: f32
  pe_contactAreaMinor :: f32

record controller_touch_packet =
  ct_controllerNumber :: "8 word"
  ct_eventType :: "8 word"
  ct_pointerId :: "32 word"
  ct_x :: f32
  ct_y :: f32
  ct_pressure :: f32

record controller_motion_packet =
  cm_controllerNumber :: "8 word"
  cm_motionType :: "8 word"
  cm_x :: f32
  cm_y :: f32
  cm_z :: f32

datatype packet =
  Mouse_Move_Rel "16 word" "16 word"
| Mouse_Move_Abs "16 word" "16 word" "16 word" "16 word"
| Mouse_Button bool "8 word"
| Scroll "16 word"
| HScroll "16 word"
| Keyboard keyboard_packet
| Utf8_Text "8 word list"
| Multi_Controller multi_controller_packet
| Touch touch_packet
| Pen pen_packet
| Controller_Arrival "8 word" "8 word" "16 word" "32 word"
| Controller_Touch controller_touch_packet
| Controller_Motion controller_motion_packet
| Controller_Battery "8 word" "8 word" "8 word"
| Unknown_Magic "32 word"

section \<open>Platform\<close>

record gamepad_state =
  gs_buttonFlags :: "32 word"
  gs_lt :: "8 word"
  gs_rt :: "8 word"
  gs_lsX :: "16 word"
  gs_lsY :: "16 word"
  gs_rsX :: "16 word"
  gs_rsY :: "16 word"

definition no_gamepad_state :: gamepad_state where
  "no_gamepad_state = \<lparr>gs_buttonFlags = 0, gs_lt = 0, gs_rt = 0, gs_lsX = 0, gs_lsY = 0, gs_rsX = 0, gs_rsY = 0\<rparr>"

record abs_port =
  ap_offset_x :: int
  ap_offset_y :: int
  ap_width :: int
  ap_height :: int

record touch_input =
  ti_eventType :: "8 word"
  ti_rotation :: "16 word"
  ti_pointerId :: "32 word"
  ti_x :: f32
  ti_y :: f32
  ti_pressureOrDistance :: f32
  ti_contactAreaMajor :: f32
  ti_contactAreaMinor :: f32

record pen_input =
  pi_eventType :: "8 word"
  pi_toolType :: "8 word"
  pi_penButtons :: "8 word"
  pi_tilt :: "8 word"
  pi_rotation :: "16 word"
  pi_x :: f32
  pi_y :: f32
  pi_pressureOrDistance :: f32
  pi_contactAreaMajor :: f32
  pi_contactAreaMinor :: f32

text \<open>The calls. A gamepad is named by its global index, a touch by the client it comes from.\<close>

datatype platf_event =
  P_Move_Mouse "16 word" "16 word"
| P_Abs_Mouse abs_port f32 f32
| P_Button_Mouse "8 word" bool
| P_Scroll int
| P_HScroll int
| P_Keyboard_Update "16 word" bool "8 word"
| P_Unicode "8 word list"
| P_Alloc_Gamepad int "8 word" "8 word" "16 word" "32 word"
| P_Free_Gamepad int
| P_Gamepad_Update int gamepad_state
| P_Gamepad_Touch int "8 word" "8 word" "32 word" f32 f32 f32
| P_Gamepad_Motion int "8 word" "8 word" f32 f32 f32
| P_Gamepad_Battery int "8 word" "8 word" "8 word"
| P_Touch_Update nat abs_port touch_input
| P_Pen_Update nat abs_port pen_input

definition BACK :: "32 word" where "BACK = 0x0020"
definition HOME :: "32 word" where "HOME = 0x0400"
definition MAX_GAMEPADS :: nat where "MAX_GAMEPADS = 16"

section \<open>State\<close>

datatype button_state_e = B_NONE | B_DOWN | B_UP

record gamepad =
  gp_state :: gamepad_state
  gp_back_timeout_id :: "nat option"
  gp_id :: int
  gp_back_button_state :: button_state_e

definition new_gamepad :: gamepad where
  "new_gamepad = \<lparr>gp_state = no_gamepad_state, gp_back_timeout_id = None, gp_id = - 1, gp_back_button_state = B_NONE\<rparr>"

record touch_port =
  tp_offset_x :: int
  tp_offset_y :: int
  tp_width :: int
  tp_height :: int
  tp_env_width :: int
  tp_env_height :: int
  tp_client_offsetX :: f32
  tp_client_offsetY :: f32
  tp_scalar_inv :: f32
  tp_scalar_tpcoords :: f32
  tp_env_logical_width :: int
  tp_env_logical_height :: int

definition touch_port_valid :: "touch_port \<Rightarrow> bool" where
  "touch_port_valid t \<longleftrightarrow> tp_width t \<noteq> 0 \<and> tp_height t \<noteq> 0 \<and> tp_env_width t \<noteq> 0 \<and> tp_env_height t \<noteq> 0"

text \<open>\<open>mouse_left_button_timeout\<close>: a null pointer, the address 1, or the task of a delayed release.\<close>

datatype left_timeout = Enable_Left_Delay | Disable_Left_Delay | Left_Task nat

record input_ctx =
  ic_shortcutFlags :: "32 word"
  ic_gamepads :: "gamepad list"
  ic_touch_port_event :: "touch_port option"
  ic_left_timeout :: left_timeout
  ic_touch_port :: touch_port
  ic_vscroll :: int
  ic_hscroll :: int
  ic_queue :: "packet list"

type_synonym key_press_id = "32 word"

datatype input_task =
  Next_Message nat
| Reset_Task
| Release_Left nat
| Repeat_Key "16 word" "8 word" "8 word"
| Press_Home nat nat
| Free_Gamepad_Task int
| Wiggle

text \<open>
  The state the clients share. \<open>key_press\<close> is the table in the order its keys were first used;
  the code leaves that order open. A task is its number in the pool.
\<close>

record input_world =
  iw_ctx :: "nat \<Rightarrow> input_ctx"
  iw_key_press :: "(key_press_id \<times> bool) list"
  iw_mouse_press :: "bool list"
  iw_repeat_id :: "nat option"
  iw_gamepadMask :: "bool list"
  iw_tries :: nat
  iw_pool :: task_pool
  iw_task :: "nat \<Rightarrow> input_task"
  iw_next :: nat
  iw_display_cursor :: bool
  iw_switch_display :: "int option"
  iw_events :: "platf_event list"

text \<open>Which tries to plug in a gamepad the platform refuses, and the length of a repeat period.\<close>

record input_env =
  ie_alloc_fails :: "nat \<Rightarrow> bool"
  ie_period :: "cdouble \<Rightarrow> int"

definition ms :: "int \<Rightarrow> int" where "ms n = n * 1000000"

definition upd_ctx :: "nat \<Rightarrow> (input_ctx \<Rightarrow> input_ctx) \<Rightarrow> input_world \<Rightarrow> input_world" where
  "upd_ctx i f w = w\<lparr>iw_ctx := (iw_ctx w)(i := f (iw_ctx w i))\<rparr>"

definition emit :: "platf_event \<Rightarrow> input_world \<Rightarrow> input_world" where
  "emit e w = w\<lparr>iw_events := iw_events w @ [e]\<rparr>"

definition push_task :: "input_task \<Rightarrow> input_world \<Rightarrow> input_world" where
  "push_task t w = w\<lparr>iw_pool := tp_push (iw_next w) (iw_pool w), iw_task := (iw_task w)(iw_next w := t),
     iw_next := Suc (iw_next w)\<rparr>"

definition push_delayed :: "int \<Rightarrow> input_task \<Rightarrow> input_world \<Rightarrow> input_world \<times> nat" where
  "push_delayed time t w =
     (w\<lparr>iw_pool := tp_push_delayed (time, Some (iw_next w)) (iw_pool w), iw_task := (iw_task w)(iw_next w := t),
        iw_next := Suc (iw_next w)\<rparr>, iw_next w)"

definition cancel_task :: "nat \<Rightarrow> input_world \<Rightarrow> input_world" where
  "cancel_task k w = w\<lparr>iw_pool := fst (tp_cancel k (iw_pool w))\<rparr>"

end
