(* ===== verification/Input_Handlers.thy ===== *)
theory Input_Handlers
  imports Input
begin

unbundle bit_operations_syntax

text \<open>
  What the host does with each message of a client (the \<open>passthrough\<close> functions of
  \<open>src/input.cpp\<close>), with the tasks that come later: the delayed release of the left button, the
  repetition of a key, the emulated home button, and the reset at the end of a session.
\<close>

section \<open>Mouse\<close>

definition passthrough_rel :: "input_t \<Rightarrow> nat \<Rightarrow> 16 word \<Rightarrow> 16 word \<Rightarrow> input_world \<Rightarrow> input_world" where
  "passthrough_rel cfg i deltaX deltaY w =
     (if \<not> in_mouse cfg then w
      else emit (P_Move_Mouse deltaX deltaY) (upd_ctx i (\<lambda>c. c\<lparr>ic_left_timeout := Disable_Left_Delay\<rparr>) w))"

record fpu =
  f_add :: "f32 \<Rightarrow> f32 \<Rightarrow> f32"
  f_sub :: "f32 \<Rightarrow> f32 \<Rightarrow> f32"
  f_mul :: "f32 \<Rightarrow> f32 \<Rightarrow> f32"
  f_div :: "f32 \<Rightarrow> f32 \<Rightarrow> f32"
  f_less :: "f32 \<Rightarrow> f32 \<Rightarrow> bool"
  f_le :: "f32 \<Rightarrow> f32 \<Rightarrow> bool"
  f_int :: "int \<Rightarrow> f32"
  f_trunc :: "f32 \<Rightarrow> int"
  f_cos :: "f32 \<Rightarrow> f32"
  f_sin :: "f32 \<Rightarrow> f32"
  f_norm :: "f32 \<Rightarrow> f32 \<Rightarrow> f32"
  f_radians :: "16 word \<Rightarrow> f32"
  f_quarter_pi :: f32
  f_plus_half_pi :: "f32 \<Rightarrow> f32"

definition f_clamp :: "fpu \<Rightarrow> f32 \<Rightarrow> f32 \<Rightarrow> f32 \<Rightarrow> f32" where
  "f_clamp F v lo hi = (if f_less F v lo then lo else if f_less F hi v then hi else v)"

text \<open>\<open>client_to_touchport\<close>: the context may take over a new touch port.\<close>

definition take_touch_port :: "input_ctx \<Rightarrow> input_ctx" where
  "take_touch_port c =
     (case ic_touch_port_event c of None \<Rightarrow> c | Some t \<Rightarrow> c\<lparr>ic_touch_port := t, ic_touch_port_event := None\<rparr>)"

definition to_touchport :: "fpu \<Rightarrow> touch_port \<Rightarrow> f32 \<times> f32 \<Rightarrow> f32 \<times> f32 \<Rightarrow> f32 \<times> f32" where
  "to_touchport F t val sz =
     (let scalarX = f_div F (f_int F (tp_width t)) (fst sz);
          scalarY = f_div F (f_int F (tp_height t)) (snd sz);
          x = f_mul F (f_clamp F (fst val) (f_int F 0) (fst sz)) scalarX;
          y = f_mul F (f_clamp F (snd val) (f_int F 0) (snd sz)) scalarY;
          offsetX = tp_client_offsetX t; offsetY = tp_client_offsetY t;
          x = f_clamp F x offsetX (f_sub F (f_mul F (fst sz) scalarX) offsetX);
          y = f_clamp F y offsetY (f_sub F (f_mul F (snd sz) scalarY) offsetY);
          x = f_mul F (f_sub F x offsetX) (tp_scalar_inv t);
          y = f_mul F (f_sub F y offsetY) (tp_scalar_inv t);
          s = tp_scalar_tpcoords t
      in (f_div F (f_add F x (f_mul F (f_int F (tp_offset_x t)) s)) s,
          f_div F (f_add F y (f_mul F (f_int F (tp_offset_y t)) s)) s))"

definition client_to_touchport :: "fpu \<Rightarrow> f32 \<times> f32 \<Rightarrow> f32 \<times> f32 \<Rightarrow> input_ctx \<Rightarrow> (f32 \<times> f32) option" where
  "client_to_touchport F val sz c =
     (if \<not> touch_port_valid (ic_touch_port c) then None else Some (to_touchport F (ic_touch_port c) val sz))"

definition multiply_polar_by_cartesian_scalar :: "fpu \<Rightarrow> f32 \<Rightarrow> f32 \<Rightarrow> f32 \<times> f32 \<Rightarrow> f32" where
  "multiply_polar_by_cartesian_scalar F r angle scalar =
     f_norm F (f_mul F (f_mul F r (f_cos F angle)) (fst scalar)) (f_mul F (f_mul F r (f_sin F angle)) (snd scalar))"

definition scale_client_contact_area ::
  "limelight \<Rightarrow> fpu \<Rightarrow> f32 \<times> f32 \<Rightarrow> 16 word \<Rightarrow> f32 \<times> f32 \<Rightarrow> f32 \<times> f32" where
  "scale_client_contact_area L F val rotation scalar =
     (let angle = (if rotation = LI_ROT_UNKNOWN L then f_quarter_pi F else f_radians F rotation);
          major = fst val;
          minor = (if snd val \<noteq> f_int F 0 then snd val else fst val)
      in (multiply_polar_by_cartesian_scalar F major angle scalar,
          multiply_polar_by_cartesian_scalar F minor (f_plus_half_pi F angle) scalar))"

definition passthrough_abs ::
  "input_t \<Rightarrow> fpu \<Rightarrow> nat \<Rightarrow> 16 word \<Rightarrow> 16 word \<Rightarrow> 16 word \<Rightarrow> 16 word \<Rightarrow> input_world \<Rightarrow> input_world" where
  "passthrough_abs cfg F i x y width height w =
     (if \<not> in_mouse cfg then w
      else
        let w1 = upd_ctx i (\<lambda>c. if ic_left_timeout c = Disable_Left_Delay then c\<lparr>ic_left_timeout := Enable_Left_Delay\<rparr> else c) w
        in if width = 0 \<or> height = 0 then w1
           else
             let w2 = upd_ctx i take_touch_port w1; t = ic_touch_port (iw_ctx w2 i)
             in case client_to_touchport F (f_int F (sint x), f_int F (sint y)) (f_int F (sint width), f_int F (sint height))
                       (iw_ctx w2 i) of
                  None \<Rightarrow> w2
                | Some (px, py) \<Rightarrow>
                    let logical = tp_env_logical_width t \<noteq> 0 \<and> tp_env_logical_height t \<noteq> 0
                    in emit (P_Abs_Mouse \<lparr>ap_offset_x = tp_offset_x t, ap_offset_y = tp_offset_y t,
                         ap_width = (if logical then tp_env_logical_width t else tp_env_width t),
                         ap_height = (if logical then tp_env_logical_height t else tp_env_height t)\<rparr> px py) w2)"

text \<open>The comparison with \<open>DISABLE_LEFT_BUTTON_DELAY\<close>: the address of a task is larger.\<close>

definition delayed :: "left_timeout \<Rightarrow> bool" where
  "delayed t = (case t of Left_Task _ \<Rightarrow> True | _ \<Rightarrow> False)"

text \<open>A button that is known keeps its state in \<open>mouse_press\<close>; the others are passed on as they come.\<close>

definition passthrough_button ::
  "input_t \<Rightarrow> limelight \<Rightarrow> int \<Rightarrow> nat \<Rightarrow> bool \<Rightarrow> 8 word \<Rightarrow> input_world \<Rightarrow> input_world" where
  "passthrough_button cfg L now i release button w =
     (let b = unat button; known = 0 < b \<and> b < length (iw_mouse_press w)
      in if \<not> in_mouse cfg then w
         else if known \<and> iw_mouse_press w ! b \<noteq> release then w
         else
           let w1 = (if known then w\<lparr>iw_mouse_press := (iw_mouse_press w)[b := \<not> release]\<rparr> else w);
               timeout = ic_left_timeout (iw_ctx w1 i)
           in if button = BUTTON_LEFT L \<and> release \<and> timeout = Enable_Left_Delay then
                (let (w2, k) = push_delayed (now + ms 10) (Release_Left i) w1
                 in upd_ctx i (\<lambda>c. c\<lparr>ic_left_timeout := Left_Task k\<rparr>) w2)
              else if button = BUTTON_RIGHT L \<and> \<not> release \<and> delayed timeout then
                (let w2 = emit (P_Button_Mouse button True) (emit (P_Button_Mouse button False) w1)
                 in w2\<lparr>iw_mouse_press := (iw_mouse_press w2)[unat button := False]\<rparr>)
              else emit (P_Button_Mouse button release) w1)"

text \<open>The task behind \<open>Left_Task\<close>.\<close>

definition release_left :: "limelight \<Rightarrow> nat \<Rightarrow> input_world \<Rightarrow> input_world" where
  "release_left L i w =
     (let b = unat (BUTTON_LEFT L)
      in if iw_mouse_press w ! b then w
         else let w1 = emit (P_Button_Mouse (BUTTON_LEFT L) True) w
              in upd_ctx i (\<lambda>c. c\<lparr>ic_left_timeout := Enable_Left_Delay\<rparr>)
                   (w1\<lparr>iw_mouse_press := (iw_mouse_press w1)[b := False]\<rparr>))"

definition WHEEL_DELTA :: int where "WHEEL_DELTA = 120"

text \<open>Full ticks are sent, the rest is kept.\<close>

definition scroll_step :: "int \<Rightarrow> 16 word \<Rightarrow> int \<times> int" where
  "scroll_step acc amount =
     (let acc1 = to_int32 (acc + sint amount); full_ticks = acc1 sdiv WHEEL_DELTA
      in if full_ticks \<noteq> 0 then (to_int32 (acc1 - full_ticks * WHEEL_DELTA), full_ticks * WHEEL_DELTA) else (acc1, 0))"

definition passthrough_scroll :: "input_t \<Rightarrow> nat \<Rightarrow> 16 word \<Rightarrow> input_world \<Rightarrow> input_world" where
  "passthrough_scroll cfg i amount w =
     (if \<not> in_mouse cfg then w
      else if in_high_resolution_scrolling cfg then emit (P_Scroll (sint amount)) w
      else let (acc, d) = scroll_step (ic_vscroll (iw_ctx w i)) amount;
               w1 = upd_ctx i (\<lambda>c. c\<lparr>ic_vscroll := acc\<rparr>) w
           in if d \<noteq> 0 then emit (P_Scroll d) w1 else w1)"

definition passthrough_hscroll :: "input_t \<Rightarrow> nat \<Rightarrow> 16 word \<Rightarrow> input_world \<Rightarrow> input_world" where
  "passthrough_hscroll cfg i amount w =
     (if \<not> in_mouse cfg then w
      else if in_high_resolution_scrolling cfg then emit (P_HScroll (sint amount)) w
      else let (acc, d) = scroll_step (ic_hscroll (iw_ctx w i)) amount;
               w1 = upd_ctx i (\<lambda>c. c\<lparr>ic_hscroll := acc\<rparr>) w
           in if d \<noteq> 0 then emit (P_HScroll d) w1 else w1)"

section \<open>Keyboard\<close>

definition VKEY_SHIFT :: "16 word" where "VKEY_SHIFT = 0x10"
definition VKEY_LSHIFT :: "16 word" where "VKEY_LSHIFT = 0xA0"
definition VKEY_RSHIFT :: "16 word" where "VKEY_RSHIFT = 0xA1"
definition VKEY_CONTROL :: "16 word" where "VKEY_CONTROL = 0x11"
definition VKEY_LCONTROL :: "16 word" where "VKEY_LCONTROL = 0xA2"
definition VKEY_RCONTROL :: "16 word" where "VKEY_RCONTROL = 0xA3"
definition VKEY_MENU :: "16 word" where "VKEY_MENU = 0x12"
definition VKEY_LMENU :: "16 word" where "VKEY_LMENU = 0xA4"
definition VKEY_RMENU :: "16 word" where "VKEY_RMENU = 0xA5"

definition CTRL :: "32 word" where "CTRL = 0x1"
definition ALT :: "32 word" where "ALT = 0x2"
definition SHIFT :: "32 word" where "SHIFT = 0x4"
definition SHORTCUT :: "32 word" where "SHORTCUT = CTRL OR ALT OR SHIFT"

definition make_kpid :: "16 word \<Rightarrow> 8 word \<Rightarrow> key_press_id" where
  "make_kpid vk flags = push_bit 8 (ucast vk) OR ucast flags"

definition vk_from_kpid :: "key_press_id \<Rightarrow> 16 word" where
  "vk_from_kpid kpid = ucast (drop_bit 8 kpid)"

definition flags_from_kpid :: "key_press_id \<Rightarrow> 8 word" where
  "flags_from_kpid kpid = ucast (kpid AND 0xFF)"

definition map_keycode :: "input_t \<Rightarrow> 16 word \<Rightarrow> 16 word" where
  "map_keycode cfg keycode =
     (case in_keybindings cfg (sint keycode) of Some k \<Rightarrow> word_of_int k | None \<Rightarrow> keycode)"

definition update_flag :: "bool \<Rightarrow> 32 word \<Rightarrow> 32 word \<Rightarrow> 32 word" where
  "update_flag release f flags = (if release then flags AND NOT f else flags OR f)"

definition update_shortcutFlags :: "16 word \<Rightarrow> bool \<Rightarrow> 32 word \<Rightarrow> 32 word" where
  "update_shortcutFlags keyCode release flags =
     (if keyCode \<in> {VKEY_SHIFT, VKEY_LSHIFT, VKEY_RSHIFT} then update_flag release SHIFT flags
      else if keyCode \<in> {VKEY_CONTROL, VKEY_LCONTROL, VKEY_RCONTROL} then update_flag release CTRL flags
      else if keyCode \<in> {VKEY_MENU, VKEY_LMENU, VKEY_RMENU} then update_flag release ALT flags
      else flags)"

definition is_modifier :: "16 word \<Rightarrow> bool" where
  "is_modifier keyCode \<longleftrightarrow> keyCode \<in> {VKEY_SHIFT, VKEY_LSHIFT, VKEY_RSHIFT, VKEY_CONTROL, VKEY_LCONTROL,
     VKEY_RCONTROL, VKEY_MENU, VKEY_LMENU, VKEY_RMENU}"

definition VK_F1 :: int where "VK_F1 = 0x70"
definition VK_F13 :: int where "VK_F13 = 0x7C"

definition apply_shortcut :: "16 word \<Rightarrow> input_world \<Rightarrow> input_world option" where
  "apply_shortcut keyCode w =
     (if VK_F1 \<le> sint keyCode \<and> sint keyCode \<le> VK_F13 then Some (w\<lparr>iw_switch_display := Some (sint keyCode - VK_F1)\<rparr>)
      else if keyCode = 0x4E then Some (w\<lparr>iw_display_cursor := \<not> iw_display_cursor w\<rparr>)
      else None)"

definition modifier_events :: "limelight \<Rightarrow> bool \<Rightarrow> 8 word \<Rightarrow> 8 word \<Rightarrow> platf_event list" where
  "modifier_events L release flags synthetic_modifiers =
     (if synthetic_modifiers AND MODIFIER_SHIFT L \<noteq> 0 then [P_Keyboard_Update VKEY_SHIFT release flags] else []) @
     (if synthetic_modifiers AND MODIFIER_CTRL L \<noteq> 0 then [P_Keyboard_Update VKEY_CONTROL release flags] else []) @
     (if synthetic_modifiers AND MODIFIER_ALT L \<noteq> 0 then [P_Keyboard_Update VKEY_MENU release flags] else [])"

definition key_events :: "input_t \<Rightarrow> limelight \<Rightarrow> 16 word \<Rightarrow> bool \<Rightarrow> 8 word \<Rightarrow> 8 word \<Rightarrow> platf_event list" where
  "key_events cfg L key_code release flags synthetic_modifiers =
     (if \<not> release then modifier_events L False flags synthetic_modifiers else []) @
     [P_Keyboard_Update (map_keycode cfg key_code) release flags] @
     (if \<not> release then modifier_events L True flags synthetic_modifiers else [])"

definition send_key_and_modifiers ::
  "input_t \<Rightarrow> limelight \<Rightarrow> 16 word \<Rightarrow> bool \<Rightarrow> 8 word \<Rightarrow> 8 word \<Rightarrow> input_world \<Rightarrow> input_world" where
  "send_key_and_modifiers cfg L key_code release flags synthetic_modifiers w =
     fold emit (key_events cfg L key_code release flags synthetic_modifiers) w"

text \<open>\<open>operator[]\<close> of the table: a key that is not there is added and not pressed.\<close>

definition key_down :: "key_press_id \<Rightarrow> input_world \<Rightarrow> bool" where
  "key_down k w \<longleftrightarrow> map_of (iw_key_press w) k = Some True"

definition set_key :: "key_press_id \<Rightarrow> bool \<Rightarrow> input_world \<Rightarrow> input_world" where
  "set_key k b w = w\<lparr>iw_key_press := AList.update k b (iw_key_press w)\<rparr>"

definition touch_key :: "key_press_id \<Rightarrow> input_world \<Rightarrow> input_world" where
  "touch_key k w = (if map_of (iw_key_press w) k = None then set_key k False w else w)"

definition repeat_key ::
  "input_t \<Rightarrow> limelight \<Rightarrow> input_env \<Rightarrow> int \<Rightarrow> 16 word \<Rightarrow> 8 word \<Rightarrow> 8 word \<Rightarrow> input_world \<Rightarrow> input_world" where
  "repeat_key cfg L env now key_code flags synthetic_modifiers w =
     (let w = touch_key (make_kpid key_code flags) w
      in if \<not> key_down (make_kpid key_code flags) w then w\<lparr>iw_repeat_id := None\<rparr>
         else
           let w1 = send_key_and_modifiers cfg L key_code False flags synthetic_modifiers w;
               (w2, k) = push_delayed (now + ie_period env (in_key_repeat_period cfg))
                           (Repeat_Key key_code flags synthetic_modifiers) w1
           in w2\<lparr>iw_repeat_id := Some k\<rparr>)"

definition synthetic_modifiers_of :: "limelight \<Rightarrow> 32 word \<Rightarrow> bool \<Rightarrow> 16 word \<Rightarrow> 8 word \<Rightarrow> 8 word" where
  "synthetic_modifiers_of L shortcutFlags release keyCode modifiers =
     (let want = (\<lambda>f m. if shortcutFlags AND f = 0 \<and> modifiers AND m \<noteq> 0 then m else 0)
      in if \<not> release \<and> \<not> is_modifier keyCode then
           want SHIFT (MODIFIER_SHIFT L) OR want CTRL (MODIFIER_CTRL L) OR want ALT (MODIFIER_ALT L)
         else 0)"

definition arm_repeat ::
  "input_t \<Rightarrow> int \<Rightarrow> 16 word \<Rightarrow> 8 word \<Rightarrow> 8 word \<Rightarrow> input_world \<Rightarrow> input_world" where
  "arm_repeat cfg now keyCode flags synthetic_modifiers w =
     (let w1 = (case iw_repeat_id w of Some k \<Rightarrow> cancel_task k w | None \<Rightarrow> w)
      in if in_key_repeat_delay cfg > 0 then
           (let (w2, k) = push_delayed (now + ms (in_key_repeat_delay cfg))
                            (Repeat_Key keyCode flags synthetic_modifiers) w1
            in w2\<lparr>iw_repeat_id := Some k\<rparr>)
         else w1)"

definition passthrough_keyboard ::
  "input_t \<Rightarrow> limelight \<Rightarrow> int \<Rightarrow> nat \<Rightarrow> keyboard_packet \<Rightarrow> input_world \<Rightarrow> input_world" where
  "passthrough_keyboard cfg L now i packet w =
     (let release = kb_release packet; keyCode = kb_keyCode packet AND 0x00FF; flags = kb_flags packet;
          synthetic = synthetic_modifiers_of L (ic_shortcutFlags (iw_ctx w i)) release keyCode (kb_modifiers packet);
          kpid = make_kpid keyCode flags;
          pass = (\<lambda>w. upd_ctx i (\<lambda>c. c\<lparr>ic_shortcutFlags :=
                        update_shortcutFlags (map_keycode cfg keyCode) release (ic_shortcutFlags c)\<rparr>)
                      (send_key_and_modifiers cfg L keyCode release flags synthetic (set_key kpid (\<not> release) w)))
      in if \<not> in_keyboard cfg then w
         else
           let w0 = touch_key kpid w
           in if \<not> key_down kpid w0 then
                if release then w0
                else
                  case (if ic_shortcutFlags (iw_ctx w0 i) = SHORTCUT then apply_shortcut keyCode w0 else None) of
                    Some w1 \<Rightarrow> w1
                  | None \<Rightarrow> pass (arm_repeat cfg now keyCode flags synthetic w0)
              else if \<not> release then w0
              else pass w0)"

definition passthrough_unicode :: "input_t \<Rightarrow> 8 word list \<Rightarrow> input_world \<Rightarrow> input_world" where
  "passthrough_unicode cfg text w = (if \<not> in_keyboard cfg then w else emit (P_Unicode text) w)"

section \<open>The end of a session\<close>

text \<open>\<open>reset\<close> cancels the repetition and the delayed release, then a task releases what is pressed.\<close>

definition reset :: "nat \<Rightarrow> input_world \<Rightarrow> input_world" where
  "reset i w =
     (let w1 = (case iw_repeat_id w of Some k \<Rightarrow> cancel_task k w | None \<Rightarrow> w);
          w2 = (case ic_left_timeout (iw_ctx w1 i) of Left_Task k \<Rightarrow> cancel_task k w1 | _ \<Rightarrow> w1)
      in push_task Reset_Task w2)"

definition release_button :: "nat \<Rightarrow> input_world \<Rightarrow> input_world" where
  "release_button x w =
     (if iw_mouse_press w ! x then
        (let w1 = emit (P_Button_Mouse (word_of_nat x) True) w
         in w1\<lparr>iw_mouse_press := (iw_mouse_press w1)[x := False]\<rparr>)
      else w)"

definition release_key :: "key_press_id \<times> bool \<Rightarrow> input_world \<Rightarrow> input_world" where
  "release_key kp w =
     (if \<not> snd kp then w
      else set_key (fst kp) False
             (emit (P_Keyboard_Update (vk_from_kpid (fst kp) AND 0x00FF) True (flags_from_kpid (fst kp))) w))"

definition reset_task :: "input_world \<Rightarrow> input_world" where
  "reset_task w =
     (let w1 = fold release_button [0..<length (iw_mouse_press w)] w
      in fold release_key (iw_key_press w1) w1)"

end
