(* ===== verification/Input_Dispatch.thy ===== *)
theory Input_Dispatch
  imports Input_Handlers
begin

unbundle bit_operations_syntax

text \<open>
  Gamepads, touch and pen of \<open>src/input.cpp\<close>, the batching of messages, the worker that takes the
  next message, and the tasks the pool runs.
\<close>

section \<open>Gamepads\<close>

text \<open>\<open>alloc_id\<close>: the first free place of the mask.\<close>

fun first_free :: "bool list \<Rightarrow> nat option" where
  "first_free [] = None"
| "first_free (b # bs) = (if b then map_option Suc (first_free bs) else Some 0)"

definition alloc_id :: "bool list \<Rightarrow> (nat \<times> bool list) option" where
  "alloc_id gamepad_mask =
     (case first_free gamepad_mask of None \<Rightarrow> None | Some x \<Rightarrow> Some (x, gamepad_mask[x := True]))"

definition free_id :: "bool list \<Rightarrow> int \<Rightarrow> bool list" where
  "free_id gamepad_mask x = gamepad_mask[nat x := False]"

definition free_gamepad :: "int \<Rightarrow> input_world \<Rightarrow> input_world" where
  "free_gamepad x w =
     (let w1 = emit (P_Free_Gamepad x) (emit (P_Gamepad_Update x no_gamepad_state) w)
      in w1\<lparr>iw_gamepadMask := free_id (iw_gamepadMask w1) x\<rparr>)"

definition upd_gamepad :: "nat \<Rightarrow> nat \<Rightarrow> (gamepad \<Rightarrow> gamepad) \<Rightarrow> input_world \<Rightarrow> input_world" where
  "upd_gamepad i n f w = upd_ctx i (\<lambda>c. c\<lparr>ic_gamepads := (ic_gamepads c)[n := f (ic_gamepads c ! n)]\<rparr>) w"

definition gamepad_at :: "nat \<Rightarrow> nat \<Rightarrow> input_world \<Rightarrow> gamepad" where
  "gamepad_at i n w = ic_gamepads (iw_ctx w i) ! n"

text \<open>Whether the gamepad is there afterwards: a place may be missing, or the platform may refuse.\<close>

definition alloc_gamepad ::
  "input_env \<Rightarrow> nat \<Rightarrow> nat \<Rightarrow> 8 word \<Rightarrow> 8 word \<Rightarrow> 16 word \<Rightarrow> 32 word \<Rightarrow> input_world \<Rightarrow> input_world \<times> bool" where
  "alloc_gamepad env i n clientRelativeIndex type capabilities buttons w =
     (case alloc_id (iw_gamepadMask w) of
        None \<Rightarrow> (w, False)
      | Some (x, gm) \<Rightarrow>
          let w1 = emit (P_Alloc_Gamepad (int x) clientRelativeIndex type capabilities buttons)
                     (w\<lparr>iw_gamepadMask := gm, iw_tries := Suc (iw_tries w)\<rparr>)
          in if ie_alloc_fails env (iw_tries w) then (w1\<lparr>iw_gamepadMask := free_id (iw_gamepadMask w1) (int x)\<rparr>, False)
             else (upd_gamepad i n (\<lambda>g. g\<lparr>gp_id := int x\<rparr>) w1, True))"

definition passthrough_arrival ::
  "input_t \<Rightarrow> input_env \<Rightarrow> nat \<Rightarrow> 8 word \<Rightarrow> 8 word \<Rightarrow> 16 word \<Rightarrow> 32 word \<Rightarrow> input_world \<Rightarrow> input_world" where
  "passthrough_arrival cfg env i controllerNumber type capabilities buttons w =
     (let n = unat controllerNumber
      in if \<not> in_controller cfg then w
         else if n \<ge> length (ic_gamepads (iw_ctx w i)) then w
         else if gp_id (gamepad_at i n w) \<ge> 0 then w
         else fst (alloc_gamepad env i n controllerNumber type capabilities buttons w))"

text \<open>Messages to a gamepad that is there.\<close>

definition to_gamepad :: "input_t \<Rightarrow> nat \<Rightarrow> 8 word \<Rightarrow> (int \<Rightarrow> platf_event) \<Rightarrow> input_world \<Rightarrow> input_world" where
  "to_gamepad cfg i controllerNumber e w =
     (let n = unat controllerNumber
      in if \<not> in_controller cfg then w
         else if n \<ge> length (ic_gamepads (iw_ctx w i)) then w
         else if gp_id (gamepad_at i n w) < 0 then w
         else emit (e (gp_id (gamepad_at i n w))) w)"

definition from_clamped_netfloat :: "fpu \<Rightarrow> f32 \<Rightarrow> f32" where
  "from_clamped_netfloat F f = f_clamp F f (f_int F 0) (f_int F 1)"

definition passthrough_controller_touch ::
  "input_t \<Rightarrow> fpu \<Rightarrow> nat \<Rightarrow> controller_touch_packet \<Rightarrow> input_world \<Rightarrow> input_world" where
  "passthrough_controller_touch cfg F i p w =
     to_gamepad cfg i (ct_controllerNumber p)
       (\<lambda>x. P_Gamepad_Touch x (ct_controllerNumber p) (ct_eventType p) (ct_pointerId p)
              (from_clamped_netfloat F (ct_x p)) (from_clamped_netfloat F (ct_y p)) (from_clamped_netfloat F (ct_pressure p))) w"

definition passthrough_controller_motion ::
  "input_t \<Rightarrow> nat \<Rightarrow> controller_motion_packet \<Rightarrow> input_world \<Rightarrow> input_world" where
  "passthrough_controller_motion cfg i p w =
     to_gamepad cfg i (cm_controllerNumber p)
       (\<lambda>x. P_Gamepad_Motion x (cm_controllerNumber p) (cm_motionType p) (cm_x p) (cm_y p) (cm_z p)) w"

definition passthrough_controller_battery ::
  "input_t \<Rightarrow> nat \<Rightarrow> 8 word \<Rightarrow> 8 word \<Rightarrow> 8 word \<Rightarrow> input_world \<Rightarrow> input_world" where
  "passthrough_controller_battery cfg i controllerNumber state percentage w =
     to_gamepad cfg i controllerNumber (\<lambda>x. P_Gamepad_Battery x controllerNumber state percentage) w"

definition packet_gamepad_state :: "multi_controller_packet \<Rightarrow> gamepad_state" where
  "packet_gamepad_state p =
     \<lparr>gs_buttonFlags = ucast (mc_buttonFlags p) OR push_bit 16 (ucast (mc_buttonFlags2 p)),
      gs_lt = mc_leftTrigger p, gs_rt = mc_rightTrigger p, gs_lsX = mc_leftStickX p, gs_lsY = mc_leftStickY p,
      gs_rsX = mc_rightStickX p, gs_rsY = mc_rightStickY p\<rparr>"

definition pressed :: "32 word \<Rightarrow> 32 word \<Rightarrow> bool" where
  "pressed button flags \<longleftrightarrow> button AND flags \<noteq> 0"

text \<open>The back button is forced up or down until the client agrees.\<close>

definition force_back :: "button_state_e \<Rightarrow> 32 word \<Rightarrow> button_state_e \<times> 32 word" where
  "force_back b flags =
     (case b of
        B_UP \<Rightarrow> (if \<not> pressed BACK flags then B_NONE else B_UP, flags AND NOT BACK)
      | B_DOWN \<Rightarrow> (if pressed BACK flags then B_NONE else B_DOWN, flags OR BACK)
      | B_NONE \<Rightarrow> (B_NONE, flags))"

definition home_timer ::
  "input_t \<Rightarrow> int \<Rightarrow> nat \<Rightarrow> nat \<Rightarrow> 32 word \<Rightarrow> 32 word \<Rightarrow> input_world \<Rightarrow> input_world" where
  "home_timer cfg now i n old_flags new_flags w =
     (if \<not> pressed BACK (old_flags XOR new_flags) then w
      else if pressed BACK new_flags then
        (if in_back_button_timeout cfg \<ge> 0 then
           (let (w1, k) = push_delayed (now + ms (in_back_button_timeout cfg)) (Press_Home i n) w
            in upd_gamepad i n (\<lambda>g. g\<lparr>gp_back_timeout_id := Some k\<rparr>) w1)
         else w)
      else (case gp_back_timeout_id (gamepad_at i n w) of
              None \<Rightarrow> w
            | Some k \<Rightarrow> upd_gamepad i n (\<lambda>g. g\<lparr>gp_back_timeout_id := None\<rparr>) (cancel_task k w)))"

definition update_gamepad ::
  "input_t \<Rightarrow> int \<Rightarrow> nat \<Rightarrow> nat \<Rightarrow> gamepad_state \<Rightarrow> input_world \<Rightarrow> input_world" where
  "update_gamepad cfg now i n state w =
     (let g = gamepad_at i n w;
          (forced, flags) = force_back (gp_back_button_state g) (gs_buttonFlags state);
          state1 = state\<lparr>gs_buttonFlags := flags\<rparr>;
          w1 = upd_gamepad i n (\<lambda>g. g\<lparr>gp_back_button_state := forced\<rparr>) w;
          w2 = home_timer cfg now i n (gs_buttonFlags (gp_state g)) flags w1;
          w3 = emit (P_Gamepad_Update (gp_id g) state1) w2
      in upd_gamepad i n (\<lambda>g. g\<lparr>gp_state := state1\<rparr>) w3)"

definition passthrough_multi ::
  "input_t \<Rightarrow> input_env \<Rightarrow> int \<Rightarrow> nat \<Rightarrow> multi_controller_packet \<Rightarrow> input_world \<Rightarrow> input_world" where
  "passthrough_multi cfg env now i p w =
     (let c = sint (mc_controllerNumber p); n = nat c
      in if \<not> in_controller cfg then w
         else if c < 0 \<or> n \<ge> length (ic_gamepads (iw_ctx w i)) then w
         else
           let active = bit (mc_activeGamepadMask p) n; x = gp_id (gamepad_at i n w)
           in if active \<and> x < 0 then
                (let (w1, there) = alloc_gamepad env i n (ucast (mc_controllerNumber p)) 0 0 0 w
                 in if there then update_gamepad cfg now i n (packet_gamepad_state p) w1 else w1)
              else if \<not> active \<and> x \<ge> 0 then upd_gamepad i n (\<lambda>g. g\<lparr>gp_id := - 1\<rparr>) (free_gamepad x w)
              else if x < 0 then w
              else update_gamepad cfg now i n (packet_gamepad_state p) w)"

text \<open>The task of the emulated home button.\<close>

definition press_home :: "nat \<Rightarrow> nat \<Rightarrow> input_world \<Rightarrow> input_world" where
  "press_home i n w =
     (let g = gamepad_at i n w; x = gp_id g; s = gp_state g;
          up = s\<lparr>gs_buttonFlags := gs_buttonFlags s AND NOT BACK\<rparr>;
          home = up\<lparr>gs_buttonFlags := gs_buttonFlags up OR HOME\<rparr>;
          done' = home\<lparr>gs_buttonFlags := gs_buttonFlags home AND NOT HOME\<rparr>;
          w1 = fold emit [P_Gamepad_Update x up, P_Gamepad_Update x home, P_Gamepad_Update x done'] w
      in upd_gamepad i n (\<lambda>g. g\<lparr>gp_state := done', gp_back_button_state := B_UP, gp_back_timeout_id := None\<rparr>) w1)"

section \<open>Touch and pen\<close>

definition logical_dims :: "fpu \<Rightarrow> touch_port \<Rightarrow> f32 \<times> f32" where
  "logical_dims F t =
     (f_div F (f_mul F (f_int F (tp_width t)) (tp_scalar_inv t)) (tp_scalar_tpcoords t),
      f_div F (f_mul F (f_int F (tp_height t)) (tp_scalar_inv t)) (tp_scalar_tpcoords t))"

definition monitor_touch_port :: "fpu \<Rightarrow> touch_port \<Rightarrow> f32 \<times> f32 \<Rightarrow> (abs_port \<times> f32 \<times> f32) option" where
  "monitor_touch_port F t coords =
     (let (lw, lh) = logical_dims F t
      in if f_le F lw (f_int F 0) \<or> f_le F lh (f_int F 0) then None
         else Some (\<lparr>ap_offset_x = tp_offset_x t, ap_offset_y = tp_offset_y t, ap_width = f_trunc F lw,
                      ap_height = f_trunc F lh\<rparr>,
                    f_div F (f_sub F (fst coords) (f_int F (tp_offset_x t))) lw,
                    f_div F (f_sub F (snd coords) (f_int F (tp_offset_y t))) lh))"

definition full_scale :: "fpu \<Rightarrow> f32" where "full_scale F = f_int F 65535"

definition scaled :: "fpu \<Rightarrow> f32 \<Rightarrow> f32" where
  "scaled F f = f_mul F (from_clamped_netfloat F f) (full_scale F)"

text \<open>The part touch and pen have in common: coordinates, rotation and contact area.\<close>

definition touch_geometry ::
  "limelight \<Rightarrow> fpu \<Rightarrow> input_ctx \<Rightarrow> f32 \<times> f32 \<Rightarrow> 16 word \<Rightarrow> f32 \<times> f32 \<Rightarrow>
    (abs_port \<times> (f32 \<times> f32) \<times> 16 word \<times> (f32 \<times> f32)) option" where
  "touch_geometry L F c xy rotation contact =
     (case client_to_touchport F (scaled F (fst xy), scaled F (snd xy)) (full_scale F, full_scale F) c of
        None \<Rightarrow> None
      | Some coords \<Rightarrow>
          (case monitor_touch_port F (ic_touch_port c) coords of
             None \<Rightarrow> None
           | Some (port, px, py) \<Rightarrow>
               let rot = (if rotation \<noteq> LI_ROT_UNKNOWN L then rotation mod 360 else rotation)
               in Some (port, (px, py), rot,
                    scale_client_contact_area L F (scaled F (fst contact), scaled F (snd contact)) rot
                      (f_div F (f_int F (ap_width port)) (full_scale F), f_div F (f_int F (ap_height port)) (full_scale F)))))"

definition passthrough_touch :: "input_t \<Rightarrow> limelight \<Rightarrow> fpu \<Rightarrow> nat \<Rightarrow> touch_packet \<Rightarrow> input_world \<Rightarrow> input_world" where
  "passthrough_touch cfg L F i p w =
     (if \<not> in_mouse cfg then w
      else
        let w1 = upd_ctx i take_touch_port w
        in case touch_geometry L F (iw_ctx w1 i) (to_x p, to_y p) (to_rotation p)
                  (to_contactAreaMajor p, to_contactAreaMinor p) of
             None \<Rightarrow> w1
           | Some (port, (px, py), rot, (major, minor)) \<Rightarrow>
               emit (P_Touch_Update i port
                 \<lparr>ti_eventType = to_eventType p, ti_rotation = rot, ti_pointerId = to_pointerId p, ti_x = px, ti_y = py,
                  ti_pressureOrDistance = from_clamped_netfloat F (to_pressureOrDistance p),
                  ti_contactAreaMajor = major, ti_contactAreaMinor = minor\<rparr>) w1)"

definition passthrough_pen :: "input_t \<Rightarrow> limelight \<Rightarrow> fpu \<Rightarrow> nat \<Rightarrow> pen_packet \<Rightarrow> input_world \<Rightarrow> input_world" where
  "passthrough_pen cfg L F i p w =
     (if \<not> in_mouse cfg then w
      else
        let w1 = upd_ctx i take_touch_port w
        in case touch_geometry L F (iw_ctx w1 i) (pe_x p, pe_y p) (pe_rotation p)
                  (pe_contactAreaMajor p, pe_contactAreaMinor p) of
             None \<Rightarrow> w1
           | Some (port, (px, py), rot, (major, minor)) \<Rightarrow>
               emit (P_Pen_Update i port
                 \<lparr>pi_eventType = pe_eventType p, pi_toolType = pe_toolType p, pi_penButtons = pe_penButtons p,
                  pi_tilt = pe_tilt p, pi_rotation = rot, pi_x = px, pi_y = py,
                  pi_pressureOrDistance = from_clamped_netfloat F (pe_pressureOrDistance p),
                  pi_contactAreaMajor = major, pi_contactAreaMinor = minor\<rparr>) w1)"

section \<open>Batching\<close>

datatype batch_result = Batched packet | Not_Batchable | Terminate_Batch

text \<open>\<open>__builtin_add_overflow\<close> on 16 bits: whether the sum overflows, and the sum that wraps.\<close>

definition add_overflow :: "16 word \<Rightarrow> 16 word \<Rightarrow> bool \<times> 16 word" where
  "add_overflow a b = (sint a + sint b \<noteq> sint (a + b), a + b)"

definition move_or_hover :: "limelight \<Rightarrow> 8 word \<Rightarrow> bool" where
  "move_or_hover L t \<longleftrightarrow> t = LI_TOUCH_EVENT_MOVE L \<or> t = LI_TOUCH_EVENT_HOVER L"

definition batch_rel :: "16 word \<Rightarrow> 16 word \<Rightarrow> 16 word \<Rightarrow> 16 word \<Rightarrow> batch_result" where
  "batch_rel dx dy sx sy =
     (if \<not> fst (add_overflow dx sx) then Terminate_Batch
      else if \<not> fst (add_overflow dy sy) then Terminate_Batch
      else Batched (Mouse_Move_Rel (snd (add_overflow dx sx)) (snd (add_overflow dy sy))))"

definition batch_amount :: "(16 word \<Rightarrow> packet) \<Rightarrow> 16 word \<Rightarrow> 16 word \<Rightarrow> batch_result" where
  "batch_amount mk d s =
     (if \<not> fst (add_overflow d s) then Terminate_Batch else Batched (mk (snd (add_overflow d s))))"

definition batch_multi :: "multi_controller_packet \<Rightarrow> multi_controller_packet \<Rightarrow> batch_result" where
  "batch_multi d s =
     (if mc_activeGamepadMask d \<noteq> mc_activeGamepadMask s then Terminate_Batch
      else if mc_controllerNumber d \<noteq> mc_controllerNumber s then Not_Batchable
      else if mc_buttonFlags d \<noteq> mc_buttonFlags s \<or> mc_buttonFlags2 d \<noteq> mc_buttonFlags2 s then Terminate_Batch
      else Batched (Multi_Controller s))"

definition batch_touch :: "limelight \<Rightarrow> touch_packet \<Rightarrow> touch_packet \<Rightarrow> batch_result" where
  "batch_touch L d s =
     (if \<not> move_or_hover L (to_eventType d) then Terminate_Batch
      else if \<not> move_or_hover L (to_eventType s) then Terminate_Batch
      else if to_pointerId d \<noteq> to_pointerId s then Not_Batchable
      else if to_eventType d \<noteq> to_eventType s then Terminate_Batch
      else Batched (Touch s))"

definition batch_pen :: "limelight \<Rightarrow> pen_packet \<Rightarrow> pen_packet \<Rightarrow> batch_result" where
  "batch_pen L d s =
     (if \<not> move_or_hover L (pe_eventType d) then Terminate_Batch
      else if pe_eventType d \<noteq> pe_eventType s then Terminate_Batch
      else if pe_penButtons d \<noteq> pe_penButtons s then Terminate_Batch
      else if pe_toolType d \<noteq> pe_toolType s then Terminate_Batch
      else Batched (Pen s))"

definition batch_controller_touch ::
  "limelight \<Rightarrow> controller_touch_packet \<Rightarrow> controller_touch_packet \<Rightarrow> batch_result" where
  "batch_controller_touch L d s =
     (if \<not> move_or_hover L (ct_eventType d) then Terminate_Batch
      else if ct_controllerNumber d \<noteq> ct_controllerNumber s then Not_Batchable
      else if \<not> move_or_hover L (ct_eventType s) then Terminate_Batch
      else if ct_pointerId d \<noteq> ct_pointerId s then Not_Batchable
      else if ct_eventType d \<noteq> ct_eventType s then Terminate_Batch
      else Batched (Controller_Touch s))"

definition batch_controller_motion ::
  "controller_motion_packet \<Rightarrow> controller_motion_packet \<Rightarrow> batch_result" where
  "batch_controller_motion d s =
     (if cm_controllerNumber d \<noteq> cm_controllerNumber s then Not_Batchable
      else if cm_motionType d \<noteq> cm_motionType s then Not_Batchable
      else Batched (Controller_Motion s))"

text \<open>Packets of different types, and those of the other types, end the batch.\<close>

definition batch :: "limelight \<Rightarrow> packet \<Rightarrow> packet \<Rightarrow> batch_result" where
  "batch L dest src =
     (case (dest, src) of
        (Mouse_Move_Rel dx dy, Mouse_Move_Rel sx sy) \<Rightarrow> batch_rel dx dy sx sy
      | (Mouse_Move_Abs _ _ dw dh, Mouse_Move_Abs sx sy sw sh) \<Rightarrow>
          if dw \<noteq> sw \<or> dh \<noteq> sh then Terminate_Batch else Batched (Mouse_Move_Abs sx sy sw sh)
      | (Scroll d, Scroll s) \<Rightarrow> batch_amount Scroll d s
      | (HScroll d, HScroll s) \<Rightarrow> batch_amount HScroll d s
      | (Multi_Controller d, Multi_Controller s) \<Rightarrow> batch_multi d s
      | (Touch d, Touch s) \<Rightarrow> batch_touch L d s
      | (Pen d, Pen s) \<Rightarrow> batch_pen L d s
      | (Controller_Touch d, Controller_Touch s) \<Rightarrow> batch_controller_touch L d s
      | (Controller_Motion d, Controller_Motion s) \<Rightarrow> batch_controller_motion d s
      | _ \<Rightarrow> Terminate_Batch)"

text \<open>The pass over the queue: the packet to send and the packets that stay.\<close>

fun batch_queue :: "limelight \<Rightarrow> packet \<Rightarrow> packet list \<Rightarrow> packet \<times> packet list" where
  "batch_queue L p [] = (p, [])"
| "batch_queue L p (q # qs) =
     (case batch L p q of
        Terminate_Batch \<Rightarrow> (p, q # qs)
      | Batched p' \<Rightarrow> batch_queue L p' qs
      | Not_Batchable \<Rightarrow> (let (p', qs') = batch_queue L p qs in (p', q # qs')))"

section \<open>The worker\<close>

definition passthrough ::
  "input_t \<Rightarrow> limelight \<Rightarrow> fpu \<Rightarrow> input_env \<Rightarrow> int \<Rightarrow> nat \<Rightarrow> packet \<Rightarrow> input_world \<Rightarrow> input_world" where
  "passthrough cfg L F env now i p =
     (case p of
        Mouse_Move_Rel x y \<Rightarrow> passthrough_rel cfg i x y
      | Mouse_Move_Abs x y width height \<Rightarrow> passthrough_abs cfg F i x y width height
      | Mouse_Button release button \<Rightarrow> passthrough_button cfg L now i release button
      | Scroll amount \<Rightarrow> passthrough_scroll cfg i amount
      | HScroll amount \<Rightarrow> passthrough_hscroll cfg i amount
      | Keyboard packet \<Rightarrow> passthrough_keyboard cfg L now i packet
      | Utf8_Text text \<Rightarrow> passthrough_unicode cfg text
      | Multi_Controller packet \<Rightarrow> passthrough_multi cfg env now i packet
      | Touch packet \<Rightarrow> passthrough_touch cfg L F i packet
      | Pen packet \<Rightarrow> passthrough_pen cfg L F i packet
      | Controller_Arrival n type capabilities buttons \<Rightarrow> passthrough_arrival cfg env i n type capabilities buttons
      | Controller_Touch packet \<Rightarrow> passthrough_controller_touch cfg F i packet
      | Controller_Motion packet \<Rightarrow> passthrough_controller_motion cfg i packet
      | Controller_Battery n state percentage \<Rightarrow> passthrough_controller_battery cfg i n state percentage
      | Unknown_Magic _ \<Rightarrow> (\<lambda>w. w))"

definition passthrough_next_message ::
  "input_t \<Rightarrow> limelight \<Rightarrow> fpu \<Rightarrow> input_env \<Rightarrow> int \<Rightarrow> nat \<Rightarrow> input_world \<Rightarrow> input_world" where
  "passthrough_next_message cfg L F env now i w =
     (case ic_queue (iw_ctx w i) of
        [] \<Rightarrow> w
      | entry # rest \<Rightarrow>
          let (payload, queue) = batch_queue L entry rest
          in passthrough cfg L F env now i payload (upd_ctx i (\<lambda>c. c\<lparr>ic_queue := queue\<rparr>) w))"

text \<open>The control stream's side: the message is queued, a task is pushed.\<close>

definition queue_message :: "nat \<Rightarrow> packet \<Rightarrow> input_world \<Rightarrow> input_world" where
  "queue_message i p w = push_task (Next_Message i) (upd_ctx i (\<lambda>c. c\<lparr>ic_queue := ic_queue c @ [p]\<rparr>) w)"

definition run_task ::
  "input_t \<Rightarrow> limelight \<Rightarrow> fpu \<Rightarrow> input_env \<Rightarrow> int \<Rightarrow> input_task \<Rightarrow> input_world \<Rightarrow> input_world" where
  "run_task cfg L F env now t =
     (case t of
        Next_Message i \<Rightarrow> passthrough_next_message cfg L F env now i
      | Reset_Task \<Rightarrow> reset_task
      | Release_Left i \<Rightarrow> release_left L i
      | Repeat_Key vk flags synthetic \<Rightarrow> repeat_key cfg L env now vk flags synthetic
      | Press_Home i n \<Rightarrow> press_home i n
      | Free_Gamepad_Task x \<Rightarrow> free_gamepad x
      | Wiggle \<Rightarrow> fold emit [P_Move_Mouse 1 1, P_Move_Mouse (- 1) (- 1)])"

text \<open>One task of the pool, at a time; nothing when none is due.\<close>

definition work ::
  "input_t \<Rightarrow> limelight \<Rightarrow> fpu \<Rightarrow> input_env \<Rightarrow> int \<Rightarrow> input_world \<Rightarrow> input_world" where
  "work cfg L F env now w =
     (let (pool, task) = tp_pop now (iw_pool w); w1 = w\<lparr>iw_pool := pool\<rparr>
      in case task of Some (Some k) \<Rightarrow> run_task cfg L F env now (iw_task w k) w1 | _ \<Rightarrow> w1)"

definition new_input :: "touch_port \<Rightarrow> input_ctx" where
  "new_input port = \<lparr>ic_shortcutFlags = 0, ic_gamepads = replicate MAX_GAMEPADS new_gamepad,
     ic_touch_port_event = None, ic_left_timeout = Enable_Left_Delay, ic_touch_port = port, ic_vscroll = 0,
     ic_hscroll = 0, ic_queue = []\<rparr>"

definition zero_touch_port :: "fpu \<Rightarrow> touch_port" where
  "zero_touch_port F = \<lparr>tp_offset_x = 0, tp_offset_y = 0, tp_width = 0, tp_height = 0, tp_env_width = 0,
     tp_env_height = 0, tp_client_offsetX = f_int F 1, tp_client_offsetY = f_int F 1, tp_scalar_inv = f_int F 0,
     tp_scalar_tpcoords = f_int F 0, tp_env_logical_width = 0, tp_env_logical_height = 0\<rparr>"

text \<open>\<open>alloc\<close>, and the destructor of a client's gamepads.\<close>

definition alloc_input :: "fpu \<Rightarrow> int \<Rightarrow> nat \<Rightarrow> input_world \<Rightarrow> input_world" where
  "alloc_input F now i w = fst (push_delayed (now + ms 100) Wiggle (upd_ctx i (\<lambda>_. new_input (zero_touch_port F)) w))"

definition free_input :: "nat \<Rightarrow> input_world \<Rightarrow> input_world" where
  "free_input i w =
     fold (\<lambda>g w. if gp_id g \<ge> 0 then push_task (Free_Gamepad_Task (gp_id g)) w else w) (ic_gamepads (iw_ctx w i)) w"

definition probe_gamepads :: "(string \<times> bool) list \<Rightarrow> bool" where
  "probe_gamepads found = list_all (\<lambda>(name, enabled). \<not> (enabled \<and> name \<noteq> ''auto'')) found"

end
