(* ===== verification/Input_Correct.thy ===== *)
theory Input_Correct
  imports Input_Dispatch
begin

unbundle bit_operations_syntax

text \<open>
  What the input of \<open>src/input.cpp\<close> guarantees, and where it does not: scrolling keeps its sum, no key
  stays pressed after a session when no key is remapped, and runs in which a button or a key stays
  pressed, a gamepad that is gone is updated, or movements are merged only when their sum overflows.
\<close>

section \<open>Merged movements\<close>

lemma sint16_range: "- 32768 \<le> sint (a :: 16 word) \<and> sint a < 32768"
  using sint_range_size [of a] by (simp add: word_size)

lemma mod_65536_near:
  fixes x :: int
  assumes "- 32768 \<le> x" "x < 98304"
  shows "x mod 65536 = x \<or> x mod 65536 = x - 65536 \<or> x mod 65536 = x + 65536"
proof -
  consider "x < 0" | "0 \<le> x" "x < 65536" | "65536 \<le> x" by linarith
  then show ?thesis
  proof cases
    case 1
    then have "(x + 65536) mod 65536 = x + 65536" using assms by (intro mod_pos_pos_trivial) auto
    then show ?thesis by simp
  next
    case 3
    then have "(x - 65536) mod 65536 = x - 65536" using assms by (intro mod_pos_pos_trivial) auto
    then show ?thesis by (simp add: minus_mod_self2)
  qed simp
qed

lemma sint_add_wraps:
  fixes a b :: "16 word"
  shows "sint (a + b) = sint a + sint b \<or> sint (a + b) = sint a + sint b - 65536 \<or> sint (a + b) = sint a + sint b + 65536"
proof -
  have e: "sint (a + b) = (sint a + sint b + 32768) mod 65536 - 32768"
    by (simp add: sint_word_ariths signed_take_bit_eq_take_bit_shift take_bit_eq_mod)
  have "- 32768 \<le> sint a + sint b + 32768" "sint a + sint b + 32768 < 98304"
    using sint16_range [of a] sint16_range [of b] by auto
  from mod_65536_near [OF this] show ?thesis unfolding e by linarith
qed

lemma add_overflow_off:
  assumes "fst (add_overflow a b)"
  shows "\<bar>sint (snd (add_overflow a b)) - (sint a + sint b)\<bar> = 65536"
  using assms sint_add_wraps [of a b] by (auto simp: add_overflow_def)

lemma add_overflow_in_range:
  assumes "- 32768 \<le> sint a + sint b" "sint a + sint b < 32768"
  shows "\<not> fst (add_overflow a b)"
  using assms sint_add_wraps [of a b] sint16_range [of "a + b"] by (auto simp: add_overflow_def)

text \<open>
  Relative movements are merged in the wrong case: two of them whose sum fits in 16 bits are sent
  one by one, and when two are merged, both sums have overflowed and the movement the platform gets
  is off by 65536 in each direction.
\<close>
theorem rel_merge_inverted:
  "(sint dx + sint sx \<in> {- 32768..<32768} \<longrightarrow> batch L (Mouse_Move_Rel dx dy) (Mouse_Move_Rel sx sy) = Terminate_Batch) \<and>
   (\<forall>p. batch L (Mouse_Move_Rel dx dy) (Mouse_Move_Rel sx sy) = Batched p \<longrightarrow>
     (\<exists>x y. p = Mouse_Move_Rel x y \<and> \<bar>sint x - (sint dx + sint sx)\<bar> = 65536 \<and> \<bar>sint y - (sint dy + sint sy)\<bar> = 65536))"
  using add_overflow_in_range [of dx sx] by (auto simp: batch_def batch_rel_def add_overflow_off)

theorem rel_merge_inverted_witness:
  "\<forall>L. batch L (Mouse_Move_Rel 3 4) (Mouse_Move_Rel 5 6) = Terminate_Batch \<and>
   batch L (Mouse_Move_Rel 20000 20000) (Mouse_Move_Rel 20000 20000) = Batched (Mouse_Move_Rel 40000 40000) \<and>
   \<bar>sint (40000 :: 16 word) - (sint (20000 :: 16 word) + sint (20000 :: 16 word))\<bar> = 65536"
proof
  show "batch L (Mouse_Move_Rel 3 4) (Mouse_Move_Rel 5 6) = Terminate_Batch \<and>
     batch L (Mouse_Move_Rel 20000 20000) (Mouse_Move_Rel 20000 20000) = Batched (Mouse_Move_Rel 40000 40000) \<and>
     \<bar>sint (40000 :: 16 word) - (sint (20000 :: 16 word) + sint (20000 :: 16 word))\<bar> = 65536" for L
    using rel_merge_inverted [of 3 5 L 4 6] rel_merge_inverted [of 20000 20000 L 20000 20000]
    by (simp add: batch_def batch_rel_def add_overflow_def)
qed

section \<open>Scrolling\<close>

lemma scroll_step_keeps:
  assumes "\<bar>acc\<bar> < WHEEL_DELTA"
  shows "fst (scroll_step acc a) + snd (scroll_step acc a) = acc + sint a \<and>
    \<bar>fst (scroll_step acc a)\<bar> < WHEEL_DELTA \<and> WHEEL_DELTA dvd snd (scroll_step acc a)"
proof -
  define x where "x = acc + sint a"
  have x: "- 40000 < x" "x < 40000" using assms sint16_range [of a] by (auto simp: x_def WHEEL_DELTA_def)
  have t: "to_int32 x = x" using x by (simp add: to_int32_id INT_MIN_def INT_MAX_def)
  define q where "q = x sdiv WHEEL_DELTA"
  have q: "\<bar>x - q * WHEEL_DELTA\<bar> < WHEEL_DELTA"
  proof -
    have "0 \<le> \<bar>x\<bar> mod 120" "\<bar>x\<bar> mod 120 < 120" "\<bar>x\<bar> = 120 * (\<bar>x\<bar> div 120) + \<bar>x\<bar> mod 120" by simp_all
    then show ?thesis by (auto simp: q_def signed_divide_int_def WHEEL_DELTA_def sgn_if abs_if split: if_splits)
  qed
  then have r: "to_int32 (x - q * WHEEL_DELTA) = x - q * WHEEL_DELTA"
    by (simp add: to_int32_id INT_MIN_def INT_MAX_def WHEEL_DELTA_def)
  have "scroll_step acc a = (if q \<noteq> 0 then (x - q * WHEEL_DELTA, q * WHEEL_DELTA) else (x, 0))"
    unfolding scroll_step_def Let_def x_def [symmetric] t q_def [symmetric] r ..
  then show ?thesis using q by (auto simp: x_def)
qed

definition scrolled :: "platf_event list \<Rightarrow> int" where
  "scrolled es = sum_list (map (\<lambda>e. case e of P_Scroll d \<Rightarrow> d | _ \<Rightarrow> 0) es)"

lemma scrolled_append [simp]: "scrolled (es @ fs) = scrolled es + scrolled fs"
  by (simp add: scrolled_def)

lemma scrolled_one [simp]: "scrolled [P_Scroll d] = d"
  by (simp add: scrolled_def)

lemma passthrough_scroll_keeps:
  assumes "in_mouse cfg" "\<not> in_high_resolution_scrolling cfg" "\<bar>ic_vscroll (iw_ctx w i)\<bar> < WHEEL_DELTA"
  shows "scrolled (iw_events (passthrough_scroll cfg i a w)) + ic_vscroll (iw_ctx (passthrough_scroll cfg i a w) i) =
      scrolled (iw_events w) + ic_vscroll (iw_ctx w i) + sint a"
    and "\<bar>ic_vscroll (iw_ctx (passthrough_scroll cfg i a w) i)\<bar> < WHEEL_DELTA"
    and "\<exists>es. iw_events (passthrough_scroll cfg i a w) = iw_events w @ es \<and> (\<forall>e\<in>set es. \<exists>d. e = P_Scroll d \<and> d \<noteq> 0 \<and> WHEEL_DELTA dvd d)"
proof -
  obtain acc d where s: "scroll_step (ic_vscroll (iw_ctx w i)) a = (acc, d)" by (cases "scroll_step (ic_vscroll (iw_ctx w i)) a")
  have k: "acc + d = ic_vscroll (iw_ctx w i) + sint a" "\<bar>acc\<bar> < WHEEL_DELTA" "WHEEL_DELTA dvd d"
    using scroll_step_keeps [OF assms(3), of a] unfolding s by simp_all
  have e: "passthrough_scroll cfg i a w =
      (if d \<noteq> 0 then emit (P_Scroll d) (upd_ctx i (\<lambda>c. c\<lparr>ic_vscroll := acc\<rparr>) w) else upd_ctx i (\<lambda>c. c\<lparr>ic_vscroll := acc\<rparr>) w)"
    using assms(1,2) by (simp add: passthrough_scroll_def s)
  show "scrolled (iw_events (passthrough_scroll cfg i a w)) + ic_vscroll (iw_ctx (passthrough_scroll cfg i a w) i) =
      scrolled (iw_events w) + ic_vscroll (iw_ctx w i) + sint a"
    using k(1) unfolding e by (simp add: emit_def upd_ctx_def)
  show "\<bar>ic_vscroll (iw_ctx (passthrough_scroll cfg i a w) i)\<bar> < WHEEL_DELTA"
    using k(2) unfolding e by (simp add: emit_def upd_ctx_def)
  show "\<exists>es. iw_events (passthrough_scroll cfg i a w) = iw_events w @ es \<and> (\<forall>e\<in>set es. \<exists>d. e = P_Scroll d \<and> d \<noteq> 0 \<and> WHEEL_DELTA dvd d)"
    using k(3) unfolding e by (auto simp: emit_def upd_ctx_def intro!: exI [of _ "if d \<noteq> 0 then [P_Scroll d] else []"])
qed

text \<open>
  Scrolling in whole ticks loses nothing: after any movements of the wheel the amounts that were
  sent and the rest that is kept add up to what the client sent, the rest is less than one tick,
  and every amount that was sent is a whole number of ticks.
\<close>
theorem scroll_conserved:
  assumes "in_mouse cfg" "\<not> in_high_resolution_scrolling cfg" "\<bar>ic_vscroll (iw_ctx w i)\<bar> < WHEEL_DELTA"
  shows "scrolled (iw_events (fold (passthrough_scroll cfg i) amounts w)) +
      ic_vscroll (iw_ctx (fold (passthrough_scroll cfg i) amounts w) i) =
      scrolled (iw_events w) + ic_vscroll (iw_ctx w i) + sum_list (map sint amounts) \<and>
    \<bar>ic_vscroll (iw_ctx (fold (passthrough_scroll cfg i) amounts w) i)\<bar> < WHEEL_DELTA \<and>
    (\<exists>es. iw_events (fold (passthrough_scroll cfg i) amounts w) = iw_events w @ es \<and>
      (\<forall>e\<in>set es. \<exists>d. e = P_Scroll d \<and> d \<noteq> 0 \<and> WHEEL_DELTA dvd d))"
  using assms(3)
proof (induction amounts arbitrary: w)
  case (Cons a amounts)
  note k = passthrough_scroll_keeps [OF assms(1,2) Cons.prems, of a]
  obtain es where es: "iw_events (passthrough_scroll cfg i a w) = iw_events w @ es"
      "\<forall>e\<in>set es. \<exists>d. e = P_Scroll d \<and> d \<noteq> 0 \<and> WHEEL_DELTA dvd d" using k(3) by (elim exE conjE) (rule that)
  from Cons.IH [OF k(2)] obtain fs where fs:
      "iw_events (fold (passthrough_scroll cfg i) amounts (passthrough_scroll cfg i a w)) = iw_events (passthrough_scroll cfg i a w) @ fs"
      "\<forall>e\<in>set fs. \<exists>d. e = P_Scroll d \<and> d \<noteq> 0 \<and> WHEEL_DELTA dvd d" by (elim exE conjE) (rule that)
  have "\<exists>gs. iw_events (fold (passthrough_scroll cfg i) (a # amounts) w) = iw_events w @ gs \<and>
      (\<forall>e\<in>set gs. \<exists>d. e = P_Scroll d \<and> d \<noteq> 0 \<and> WHEEL_DELTA dvd d)"
    using es fs by (intro exI [of _ "es @ fs"]) auto
  then show ?case using Cons.IH [OF k(2)] k(1) by simp
qed auto

end
