(* ===== verification/Input_Held.thy ===== *)
theory Input_Held
  imports Input_Correct
begin

unbundle bit_operations_syntax

text \<open>
  Which keys and buttons the platform holds down, as the calls made so far say, and the invariant that
  the tables of \<open>src/input.cpp\<close> know them. It is kept by every step of the worker and the control
  stream, and makes the reset at the end of a session complete.
\<close>

section \<open>What is held\<close>

definition hold_key :: "platf_event \<Rightarrow> 16 word set \<Rightarrow> 16 word set" where
  "hold_key e h = (case e of P_Keyboard_Update k release _ \<Rightarrow> if release then h - {k} else insert k h | _ \<Rightarrow> h)"

definition held_keys :: "platf_event list \<Rightarrow> 16 word set" where
  "held_keys es = fold hold_key es {}"

definition hold_button :: "platf_event \<Rightarrow> 8 word set \<Rightarrow> 8 word set" where
  "hold_button e h = (case e of P_Button_Mouse b release \<Rightarrow> if release then h - {b} else insert b h | _ \<Rightarrow> h)"

definition held_buttons :: "platf_event list \<Rightarrow> 8 word set" where
  "held_buttons es = fold hold_button es {}"

lemma held_append [simp]:
  "held_keys (es @ [e]) = hold_key e (held_keys es)" "held_buttons (es @ [e]) = hold_button e (held_buttons es)"
  "held_keys [] = {}" "held_buttons [] = {}"
  by (simp_all add: held_keys_def held_buttons_def)

definition hid :: "input_world \<Rightarrow> (16 word set \<times> 8 word set) \<times> (key_press_id \<times> bool) list \<times> bool list" where
  "hid w = ((held_keys (iw_events w), held_buttons (iw_events w)), iw_key_press w, iw_mouse_press w)"

definition hid_event :: "platf_event \<Rightarrow> bool" where
  "hid_event e = (case e of P_Keyboard_Update _ _ _ \<Rightarrow> True | P_Button_Mouse _ _ \<Rightarrow> True | _ \<Rightarrow> False)"

lemma hid_emit [frame_simps]: "\<not> hid_event e \<Longrightarrow> hid (emit e w) = hid w"
  by (cases e) (simp_all add: hid_def emit_def hid_event_def hold_key_def hold_button_def)

lemma hid_event_simps [simp]:
  "\<not> hid_event (P_Move_Mouse a b)" "\<not> hid_event (P_Abs_Mouse c d f)" "\<not> hid_event (P_Scroll n)"
  "\<not> hid_event (P_HScroll n)" "\<not> hid_event (P_Unicode t)" "\<not> hid_event (P_Alloc_Gamepad n g h i j)"
  "\<not> hid_event (P_Free_Gamepad n)" "\<not> hid_event (P_Gamepad_Update n s)" "\<not> hid_event (P_Gamepad_Touch n g h p d f q)"
  "\<not> hid_event (P_Gamepad_Motion n g h d f q)" "\<not> hid_event (P_Gamepad_Battery n g h g')"
  "\<not> hid_event (P_Touch_Update m c ti)" "\<not> hid_event (P_Pen_Update m c pe)"
  by (simp_all add: hid_event_def)

lemma hid_frame [frame_simps]:
  "hid (upd_ctx i f w) = hid w" "hid (push_task t w) = hid w" "hid (cancel_task k w) = hid w"
  "hid (fst (push_delayed time t w)) = hid w" "hid (upd_gamepad i n g w) = hid w"
  "hid (w\<lparr>iw_gamepadMask := m\<rparr>) = hid w" "hid (w\<lparr>iw_tries := tr\<rparr>) = hid w" "hid (w\<lparr>iw_repeat_id := r\<rparr>) = hid w" "hid (w\<lparr>iw_pool := p\<rparr>) = hid w"
  "hid (w\<lparr>iw_switch_display := s\<rparr>) = hid w" "hid (w\<lparr>iw_display_cursor := d\<rparr>) = hid w"
  by (simp_all add: hid_def upd_ctx_def push_task_def cancel_task_def push_delayed_def upd_gamepad_def)

text \<open>The messages that are no keys and no buttons.\<close>

lemma hid_mouse [frame_simps]:
  "hid (passthrough_rel cfg i x y w) = hid w" "hid (passthrough_abs cfg F i x y wi he w) = hid w"
  "hid (passthrough_scroll cfg i a w) = hid w" "hid (passthrough_hscroll cfg i a w) = hid w"
  "hid (passthrough_unicode cfg t w) = hid w"
  by (simp_all add: passthrough_rel_def passthrough_abs_def passthrough_scroll_def passthrough_hscroll_def
      passthrough_unicode_def Let_def frame_simps split: option.split prod.split)

lemma hid_free_gamepad [frame_simps]: "hid (free_gamepad x w) = hid w"
  by (simp add: free_gamepad_def Let_def frame_simps)

lemma hid_alloc_gamepad [frame_simps]: "hid (fst (alloc_gamepad env i n r t c b w)) = hid w"
  by (simp add: alloc_gamepad_def Let_def frame_simps split: option.split prod.split)

lemma hid_home_timer [frame_simps]: "hid (home_timer cfg now i n old new w) = hid w"
proof -
  have "hid (case push_delayed t p w of (w1, k) \<Rightarrow> upd_gamepad i n (f k) w1) = hid w" for t p f
    using hid_frame(4) [of t p w] by (cases "push_delayed t p w") (simp add: frame_simps)
  then show ?thesis by (simp add: home_timer_def frame_simps split: option.splits)
qed

lemma hid_update_gamepad [frame_simps]: "hid (update_gamepad cfg now i n s w) = hid w"
  by (simp add: update_gamepad_def Let_def frame_simps split: prod.splits)

lemma hid_to_gamepad [frame_simps]: "(\<And>x. \<not> hid_event (e x)) \<Longrightarrow> hid (to_gamepad cfg i c e w) = hid w"
  by (simp add: to_gamepad_def Let_def frame_simps)

lemma hid_gamepads [frame_simps]:
  "hid (passthrough_arrival cfg env i c t ca b w) = hid w" "hid (passthrough_multi cfg env now i p w) = hid w"
  "hid (passthrough_controller_touch cfg F i ct w) = hid w" "hid (passthrough_controller_motion cfg i cm w) = hid w"
  "hid (passthrough_controller_battery cfg i c s pc w) = hid w" "hid (press_home i n w) = hid w"
  by (auto simp: passthrough_arrival_def passthrough_multi_def passthrough_controller_touch_def
      passthrough_controller_motion_def passthrough_controller_battery_def press_home_def Let_def frame_simps
      split_beta)

lemma hid_touch [frame_simps]:
  "hid (passthrough_touch cfg L F i p w) = hid w" "hid (passthrough_pen cfg L F i q w) = hid w"
  by (simp_all add: passthrough_touch_def passthrough_pen_def Let_def frame_simps split: option.split prod.split)

section \<open>Tasks and queues\<close>

text \<open>Every repeated key has a code below 256, every queued button is one the table has a place for.\<close>

definition task_ok :: "input_task \<Rightarrow> bool" where
  "task_ok t = (case t of Repeat_Key k _ _ \<Rightarrow> k AND 0xFF = k | _ \<Rightarrow> True)"

definition packet_ok :: "packet \<Rightarrow> bool" where
  "packet_ok p = (case p of Mouse_Button _ b \<Rightarrow> 0 < unat b \<and> unat b < 5 | _ \<Rightarrow> True)"

definition waiting_ok :: "input_world \<Rightarrow> bool" where
  "waiting_ok w \<longleftrightarrow> (\<forall>n. task_ok (iw_task w n)) \<and> (\<forall>i. \<forall>p\<in>set (ic_queue (iw_ctx w i)). packet_ok p)"

lemma task_ok_simps [simp]:
  "task_ok (Next_Message i)" "task_ok Reset_Task" "task_ok (Release_Left i)" "task_ok (Press_Home i n)"
  "task_ok (Free_Gamepad_Task x)" "task_ok Wiggle" "task_ok (Repeat_Key k f m) \<longleftrightarrow> k AND 0xFF = k"
  by (simp_all add: task_ok_def)

lemma waiting_ok_frame [frame_simps]:
  "waiting_ok (emit e w) = waiting_ok w" "waiting_ok (cancel_task k w) = waiting_ok w"
  "waiting_ok (w\<lparr>iw_gamepadMask := m\<rparr>) = waiting_ok w" "waiting_ok (w\<lparr>iw_tries := tr\<rparr>) = waiting_ok w"
  "waiting_ok (w\<lparr>iw_repeat_id := r\<rparr>) = waiting_ok w"
  "waiting_ok (w\<lparr>iw_pool := p\<rparr>) = waiting_ok w" "waiting_ok (w\<lparr>iw_switch_display := s\<rparr>) = waiting_ok w"
  "waiting_ok (w\<lparr>iw_display_cursor := d\<rparr>) = waiting_ok w" "waiting_ok (w\<lparr>iw_mouse_press := mp\<rparr>) = waiting_ok w"
  "waiting_ok (set_key kp b w) = waiting_ok w" "waiting_ok (touch_key kp w) = waiting_ok w"
  by (simp_all add: waiting_ok_def emit_def cancel_task_def set_key_def touch_key_def)

lemma waiting_ok_upd [frame_simps]:
  "(\<And>c. ic_queue (f c) = ic_queue c) \<Longrightarrow> waiting_ok (upd_ctx i f w) = waiting_ok w"
  "waiting_ok (upd_gamepad i n g w) = waiting_ok w"
  by (auto simp: waiting_ok_def upd_ctx_def upd_gamepad_def split: if_splits)

lemma waiting_ok_push:
  "waiting_ok w \<Longrightarrow> task_ok t \<Longrightarrow> waiting_ok (push_task t w)"
  "waiting_ok w \<Longrightarrow> task_ok t \<Longrightarrow> waiting_ok (fst (push_delayed time t w))"
  by (auto simp: waiting_ok_def push_task_def push_delayed_def)

lemma waiting_ok_push_delayed: "push_delayed time t w = (w', k) \<Longrightarrow> waiting_ok w \<Longrightarrow> task_ok t \<Longrightarrow> waiting_ok w'"
  using waiting_ok_push(2) [of w t time] by simp

lemma hid_push_delayed: "push_delayed time t w = (w', k) \<Longrightarrow> hid w' = hid w"
  using hid_frame(4) [of time t w] by simp

lemma waiting_ok_events [frame_simps]: "waiting_ok (fold emit es w) = waiting_ok w"
  by (induction es arbitrary: w) (simp_all add: frame_simps)

lemma take_touch_port_queue [simp]: "ic_queue (take_touch_port c) = ic_queue c"
  by (simp add: take_touch_port_def split: option.split)

lemma waiting_ok_mouse:
  "waiting_ok (passthrough_rel cfg i x y w) = waiting_ok w"
  "waiting_ok (passthrough_abs cfg F i x y wi he w) = waiting_ok w"
  "waiting_ok (passthrough_scroll cfg i a w) = waiting_ok w"
  "waiting_ok (passthrough_hscroll cfg i a w) = waiting_ok w"
  "waiting_ok (passthrough_unicode cfg t w) = waiting_ok w"
  "waiting_ok (passthrough_touch cfg L F i p w) = waiting_ok w"
  "waiting_ok (passthrough_pen cfg L F i q w) = waiting_ok w"
  by (simp_all add: passthrough_rel_def passthrough_abs_def passthrough_scroll_def passthrough_hscroll_def
      passthrough_unicode_def passthrough_touch_def passthrough_pen_def Let_def frame_simps split: option.split prod.split)

lemma waiting_ok_home_timer: "waiting_ok w \<Longrightarrow> waiting_ok (home_timer cfg now i n old new w)"
  by (auto simp: home_timer_def Let_def frame_simps waiting_ok_push_delayed split: option.split prod.split)

lemma waiting_ok_update_gamepad: "waiting_ok w \<Longrightarrow> waiting_ok (update_gamepad cfg now i n s w)"
  by (simp add: update_gamepad_def Let_def frame_simps waiting_ok_home_timer split: prod.splits)

lemma waiting_ok_alloc_gamepad [frame_simps]: "waiting_ok (fst (alloc_gamepad env i n r t c b w)) = waiting_ok w"
  by (simp add: alloc_gamepad_def Let_def frame_simps split: option.split prod.split)

lemma waiting_ok_free_gamepad [frame_simps]: "waiting_ok (free_gamepad x w) = waiting_ok w"
  by (simp add: free_gamepad_def Let_def frame_simps)

lemma waiting_ok_gamepads:
  assumes "waiting_ok w"
  shows "waiting_ok (passthrough_arrival cfg env i c t ca b w)" "waiting_ok (passthrough_multi cfg env now i p w)"
    "waiting_ok (passthrough_controller_touch cfg F i ct w)" "waiting_ok (passthrough_controller_motion cfg i cm w)"
    "waiting_ok (passthrough_controller_battery cfg i c s pc w)" "waiting_ok (press_home i n w)"
  using assms
  by (auto simp: passthrough_arrival_def passthrough_multi_def passthrough_controller_touch_def
      passthrough_controller_motion_def passthrough_controller_battery_def press_home_def to_gamepad_def Let_def
      frame_simps waiting_ok_update_gamepad split_beta)

section \<open>The tables know what is held\<close>

definition known :: "limelight \<Rightarrow> input_world \<Rightarrow> bool" where
  "known L w \<longleftrightarrow> length (iw_mouse_press w) = 5 \<and>
     (\<forall>vk\<in>held_keys (iw_events w). \<exists>kp. key_down kp w \<and> vk_from_kpid kp AND 0xFF = vk) \<and>
     (\<forall>b\<in>held_buttons (iw_events w). b = BUTTON_LEFT L \<or> (0 < unat b \<and> unat b < 5 \<and> iw_mouse_press w ! unat b))"

lemma known_cong: "hid w' = hid w \<Longrightarrow> known L w' = known L w"
  by (auto simp: known_def hid_def key_down_def)

lemma vk_make_kpid: "vk_from_kpid (make_kpid vk flags) = vk"
  unfolding vk_from_kpid_def make_kpid_def
  by (rule bit_word_eqI) (auto simp: bit_simps dest: bit_imp_le_length)

lemma make_kpid_eqD: "make_kpid vk f = make_kpid vk' f' \<Longrightarrow> vk = vk'"
  by (metis vk_make_kpid)

lemma fold_emit_events [simp]: "iw_events (fold emit es w) = iw_events w @ es"
  by (induction es arbitrary: w) (simp_all add: emit_def)

lemma fold_emit_tables [simp]:
  "iw_key_press (fold emit es w) = iw_key_press w" "iw_mouse_press (fold emit es w) = iw_mouse_press w"
  by (induction es arbitrary: w) (simp_all add: emit_def)

lemma held_keys_fold: "held_keys (es @ fs) = fold hold_key fs (held_keys es)"
  by (simp add: held_keys_def)

lemma held_buttons_fold: "held_buttons (es @ fs) = fold hold_button fs (held_buttons es)"
  by (simp add: held_buttons_def)

lemma key_events_hold:
  "fold hold_key (key_events cfg L k release f m) h \<subseteq>
     (if release then h - {map_keycode cfg k} else insert (map_keycode cfg k) h)"
  by (auto simp: key_events_def modifier_events_def hold_key_def)

lemma key_events_buttons: "fold hold_button (key_events cfg L k release f m) h = h"
  by (simp add: key_events_def modifier_events_def hold_button_def)

lemma send_key_held:
  "held_keys (iw_events (send_key_and_modifiers cfg L k release f m w)) \<subseteq>
     (if release then held_keys (iw_events w) - {map_keycode cfg k} else insert (map_keycode cfg k) (held_keys (iw_events w)))"
  "held_buttons (iw_events (send_key_and_modifiers cfg L k release f m w)) = held_buttons (iw_events w)"
  by (simp_all add: send_key_and_modifiers_def held_keys_fold held_buttons_fold key_events_hold key_events_buttons
      split del: if_split)

lemma send_key_tables [simp]:
  "iw_key_press (send_key_and_modifiers cfg L k release f m w) = iw_key_press w"
  "iw_mouse_press (send_key_and_modifiers cfg L k release f m w) = iw_mouse_press w"
  by (simp_all add: send_key_and_modifiers_def)

lemma key_down_set [simp]: "key_down k' (set_key k b w) \<longleftrightarrow> (if k' = k then b else key_down k' w)"
  by (simp add: key_down_def set_key_def update_conv')

lemma set_key_frame [simp]:
  "iw_events (set_key k b w) = iw_events w" "iw_mouse_press (set_key k b w) = iw_mouse_press w"
  by (simp_all add: set_key_def)

lemma touch_key_frame [simp]:
  "key_down k' (touch_key k w) = key_down k' w" "iw_events (touch_key k w) = iw_events w"
  "iw_mouse_press (touch_key k w) = iw_mouse_press w"
  by (auto simp: touch_key_def key_down_def set_key_def update_conv')

lemma known_touch_key: "known L w \<Longrightarrow> known L (touch_key k w)"
  by (simp add: known_def)

lemma known_press_key:
  assumes "known L w" "map_keycode cfg k = k" "k AND 0xFF = k" "key_down (make_kpid k f) w"
  shows "known L (send_key_and_modifiers cfg L k False f m w)"
proof -
  have kd: "key_down kp (send_key_and_modifiers cfg L k False f m w) = key_down kp w" for kp by (simp add: key_down_def)
  have "\<exists>kp. key_down kp w \<and> vk_from_kpid kp AND 0xFF = vk" if "vk \<in> insert k (held_keys (iw_events w))" for vk
  proof (cases "vk = k")
    case True
    then show ?thesis using assms(3,4) by (intro exI [of _ "make_kpid k f"]) (simp add: vk_make_kpid)
  next
    case False
    then show ?thesis using that assms(1) by (simp add: known_def)
  qed
  moreover have "held_keys (iw_events (send_key_and_modifiers cfg L k False f m w)) \<subseteq> insert k (held_keys (iw_events w))"
    using send_key_held(1) [of cfg L k False f m w] assms(2) by simp
  ultimately have "\<forall>vk\<in>held_keys (iw_events (send_key_and_modifiers cfg L k False f m w)).
      \<exists>kp. key_down kp w \<and> vk_from_kpid kp AND 0xFF = vk" by blast
  then show ?thesis using assms(1) by (simp add: known_def kd send_key_held(2))
qed

lemma known_release_key:
  assumes "known L w" "map_keycode cfg k = k" "k AND 0xFF = k"
  shows "known L (send_key_and_modifiers cfg L k True f m (set_key (make_kpid k f) False w))"
proof -
  let ?w = "send_key_and_modifiers cfg L k True f m (set_key (make_kpid k f) False w)"
  have kd: "key_down kp ?w \<longleftrightarrow> kp \<noteq> make_kpid k f \<and> key_down kp w" for kp
    using key_down_set [of kp "make_kpid k f" False w] by (simp add: key_down_def)
  have sub: "held_keys (iw_events ?w) \<subseteq> held_keys (iw_events w) - {k}"
    using send_key_held(1) [of cfg L k True f m "set_key (make_kpid k f) False w"] assms(2) by simp
  have "\<exists>kp. key_down kp ?w \<and> vk_from_kpid kp AND 0xFF = vk" if "vk \<in> held_keys (iw_events ?w)" for vk
  proof -
    have vk: "vk \<in> held_keys (iw_events w)" "vk \<noteq> k" using that sub by auto
    then obtain kp where kp: "key_down kp w" "vk_from_kpid kp AND 0xFF = vk" using assms(1) by (auto simp: known_def)
    then have "kp \<noteq> make_kpid k f" using vk(2) assms(3) by (auto simp: vk_make_kpid)
    then show ?thesis using kp kd by blast
  qed
  then show ?thesis using assms(1) by (simp add: known_def send_key_held(2))
qed

definition no_remap :: "input_t \<Rightarrow> bool" where
  "no_remap cfg \<longleftrightarrow> in_keybindings cfg = Map.empty"

lemma map_keycode_plain: "no_remap cfg \<Longrightarrow> map_keycode cfg k = k"
  by (simp add: no_remap_def map_keycode_def)

lemma and_ff_idem: "(k AND 0xFF) AND 0xFF = (k AND 0xFF :: 16 word)"
  by (simp add: and.assoc)

lemma arm_repeat_frame:
  assumes "k AND 0xFF = k"
  shows "hid (arm_repeat cfg now k f m w) = hid w" "waiting_ok w \<Longrightarrow> waiting_ok (arm_repeat cfg now k f m w)"
    "ic_shortcutFlags (iw_ctx (arm_repeat cfg now k f m w) i) = ic_shortcutFlags (iw_ctx w i)"
proof -
  define w1 where "w1 = (case iw_repeat_id w of Some k \<Rightarrow> cancel_task k w | None \<Rightarrow> w)"
  obtain w2 n where p: "push_delayed (now + ms (in_key_repeat_delay cfg)) (Repeat_Key k f m) w1 = (w2, n)"
    by (cases "push_delayed (now + ms (in_key_repeat_delay cfg)) (Repeat_Key k f m) w1")
  have e: "arm_repeat cfg now k f m w = (if in_key_repeat_delay cfg > 0 then w2\<lparr>iw_repeat_id := Some n\<rparr> else w1)"
    unfolding arm_repeat_def w1_def [symmetric] Let_def p by simp
  have w1: "hid w1 = hid w" "waiting_ok w1 = waiting_ok w" "iw_ctx w1 = iw_ctx w"
    by (simp_all add: w1_def frame_simps cancel_task_def split: option.split)
  have w2: "iw_ctx w2 = iw_ctx w1" using p by (auto simp: push_delayed_def)
  show "hid (arm_repeat cfg now k f m w) = hid w" using w1 hid_push_delayed [OF p] by (simp add: e frame_simps)
  show "waiting_ok w \<Longrightarrow> waiting_ok (arm_repeat cfg now k f m w)"
    using w1 waiting_ok_push_delayed [OF p] assms by (simp add: e frame_simps)
  show "ic_shortcutFlags (iw_ctx (arm_repeat cfg now k f m w) i) = ic_shortcutFlags (iw_ctx w i)"
    using w1 w2 by (simp add: e)
qed

lemma key_down_cong: "hid w' = hid w \<Longrightarrow> key_down k w' = key_down k w"
  by (simp add: hid_def key_down_def)

lemma hid_shortcut: "apply_shortcut k w = Some w' \<Longrightarrow> hid w' = hid w \<and> waiting_ok w' = waiting_ok w"
  by (auto simp: apply_shortcut_def frame_simps split: if_splits)

lemma known_set_down: "known L w \<Longrightarrow> known L (set_key k True w)"
  by (auto simp: known_def)

lemma known_keyboard:
  assumes "known L w" "waiting_ok w" "no_remap cfg"
  shows "known L (passthrough_keyboard cfg L now i p w) \<and> waiting_ok (passthrough_keyboard cfg L now i p w)"
proof (cases "in_keyboard cfg")
  case True
  define k f r m where "k = kb_keyCode p AND 0xFF" and "f = kb_flags p" and "r = kb_release p"
    and "m = synthetic_modifiers_of L (ic_shortcutFlags (iw_ctx w i)) r k (kb_modifiers p)"
  define w0 where "w0 = touch_key (make_kpid k f) w"
  define pass where "pass = (\<lambda>w. upd_ctx i (\<lambda>c. c\<lparr>ic_shortcutFlags :=
                        update_shortcutFlags (map_keycode cfg k) r (ic_shortcutFlags c)\<rparr>)
                      (send_key_and_modifiers cfg L k r f m (set_key (make_kpid k f) (\<not> r) w)))"
  note d = k_def [symmetric] f_def [symmetric] r_def [symmetric] m_def [symmetric] w0_def [symmetric]
  have e: "passthrough_keyboard cfg L now i p w =
      (if \<not> key_down (make_kpid k f) w0 then
         if r then w0
         else case (if ic_shortcutFlags (iw_ctx w0 i) = SHORTCUT then apply_shortcut k w0 else None) of
                Some w1 \<Rightarrow> w1 | None \<Rightarrow> pass (arm_repeat cfg now k f m w0)
       else if \<not> r then w0 else pass w0)"
    using True unfolding passthrough_keyboard_def Let_def d pass_def by simp
  have kf: "k AND 0xFF = k" by (simp add: k_def and_ff_idem)
  have w0: "known L w0" "waiting_ok w0" using assms by (simp_all add: w0_def known_touch_key frame_simps)
  have ok: "waiting_ok (pass v) = waiting_ok v" for v
    by (simp add: pass_def frame_simps send_key_and_modifiers_def)
  have hp: "hid (pass v) = hid (send_key_and_modifiers cfg L k r f m (set_key (make_kpid k f) (\<not> r) v))" for v
    by (simp add: pass_def frame_simps)
  have press: "known L (pass v)" if "known L v" for v
  proof (cases r)
    case True
    then show ?thesis using known_release_key [OF that map_keycode_plain [OF assms(3)] kf] known_cong [OF hp] by simp
  next
    case False
    have "known L (send_key_and_modifiers cfg L k False f m (set_key (make_kpid k f) True v))"
      by (rule known_press_key) (simp_all add: known_set_down that map_keycode_plain assms(3) kf)
    then show ?thesis using False known_cong [OF hp] by simp
  qed
  have arm: "known L (arm_repeat cfg now k f m w0)" "waiting_ok (arm_repeat cfg now k f m w0)"
    using w0 known_cong [OF arm_repeat_frame(1) [OF kf]] arm_repeat_frame(2) [OF kf] by simp_all
  show ?thesis
  proof (cases "if ic_shortcutFlags (iw_ctx w0 i) = SHORTCUT then apply_shortcut k w0 else None")
    case None
    then show ?thesis unfolding e using w0 arm press ok by simp
  next
    case (Some w1)
    then have "hid w1 = hid w0 \<and> waiting_ok w1 = waiting_ok w0" by (intro hid_shortcut) (simp split: if_splits)
    then show ?thesis unfolding e using Some w0 press ok known_cong [of w1 w0] by simp
  qed
qed (simp add: passthrough_keyboard_def Let_def assms)

lemma known_repeat:
  assumes "known L w" "waiting_ok w" "no_remap cfg" "k AND 0xFF = k"
  shows "known L (repeat_key cfg L env now k f m w) \<and> waiting_ok (repeat_key cfg L env now k f m w)"
proof -
  define w0 where "w0 = touch_key (make_kpid k f) w"
  define w1 where "w1 = send_key_and_modifiers cfg L k False f m w0"
  obtain w2 n where p: "push_delayed (now + ie_period env (in_key_repeat_period cfg)) (Repeat_Key k f m) w1 = (w2, n)"
    by (cases "push_delayed (now + ie_period env (in_key_repeat_period cfg)) (Repeat_Key k f m) w1")
  have e: "repeat_key cfg L env now k f m w =
      (if \<not> key_down (make_kpid k f) w0 then w0\<lparr>iw_repeat_id := None\<rparr> else w2\<lparr>iw_repeat_id := Some n\<rparr>)"
    unfolding repeat_key_def w0_def [symmetric] Let_def w1_def [symmetric] p by simp
  have w0: "known L w0" "waiting_ok w0" using assms by (simp_all add: w0_def known_touch_key frame_simps)
  show ?thesis
  proof (cases "key_down (make_kpid k f) w0")
    case True
    have "known L w1" unfolding w1_def by (rule known_press_key) (simp_all add: w0 True assms map_keycode_plain)
    moreover have "waiting_ok w1" using w0 by (simp add: w1_def send_key_and_modifiers_def frame_simps)
    ultimately show ?thesis unfolding e
      using True known_cong [OF hid_push_delayed [OF p]] waiting_ok_push_delayed [OF p] assms(4) known_cong [of "w2\<lparr>iw_repeat_id := Some n\<rparr>" w2]
      by (simp add: frame_simps)
  next
    case False
    then show ?thesis unfolding e using w0 known_cong [of "w0\<lparr>iw_repeat_id := None\<rparr>" w0] by (simp add: frame_simps)
  qed
qed

text \<open>Buttons.\<close>

lemma known_release_button:
  assumes "known L w" "length mp = 5" "\<And>c. c \<noteq> b \<Longrightarrow> iw_mouse_press w ! unat c \<Longrightarrow> mp ! unat c"
  shows "known L ((emit (P_Button_Mouse b True) w)\<lparr>iw_mouse_press := mp\<rparr>)"
  using assms by (auto simp: known_def emit_def hold_key_def hold_button_def key_down_def)

lemma known_press_button:
  assumes "known L w" "0 < unat b" "unat b < 5" "length mp = 5" "mp ! unat b"
    "\<And>c. c \<noteq> b \<Longrightarrow> iw_mouse_press w ! unat c \<Longrightarrow> mp ! unat c"
  shows "known L ((emit (P_Button_Mouse b False) w)\<lparr>iw_mouse_press := mp\<rparr>)"
proof -
  have "c = BUTTON_LEFT L \<or> (0 < unat c \<and> unat c < 5 \<and> mp ! unat c)" if "c \<in> insert b (held_buttons (iw_events w))" for c
    using that assms by (cases "c = b") (auto simp: known_def)
  then show ?thesis using assms(1,4) by (simp add: known_def emit_def hold_key_def hold_button_def key_down_def)
qed

lemma unat_inject8: "unat (b :: 8 word) = unat c \<longleftrightarrow> b = c"
  by (simp add: word_unat_eq_iff)

lemma known_left: "known L w \<Longrightarrow> known L (w\<lparr>iw_mouse_press := (iw_mouse_press w)[unat (BUTTON_LEFT L) := b]\<rparr>)"
  by (auto simp: known_def key_down_def nth_list_update unat_inject8)

lemma known_button:
  assumes "known L w" "packet_ok (Mouse_Button r b)"
  shows "known L (passthrough_button cfg L now i r b w)"
proof -
  have b: "0 < unat b" "unat b < 5" using assms(2) by (simp_all add: packet_ok_def)
  have len: "length (iw_mouse_press w) = 5" using assms(1) by (simp add: known_def)
  define w1 where "w1 = w\<lparr>iw_mouse_press := (iw_mouse_press w)[unat b := \<not> r]\<rparr>"
  define delay where "delay \<longleftrightarrow> b = BUTTON_LEFT L \<and> r \<and> ic_left_timeout (iw_ctx w1 i) = Enable_Left_Delay"
  define click where "click \<longleftrightarrow> b = BUTTON_RIGHT L \<and> \<not> r \<and> delayed (ic_left_timeout (iw_ctx w1 i))"
  obtain w2 k where p: "push_delayed (now + ms 10) (Release_Left i) w1 = (w2, k)"
    by (cases "push_delayed (now + ms 10) (Release_Left i) w1")
  define w3 where "w3 = emit (P_Button_Mouse b True) (emit (P_Button_Mouse b False) w1)"
  have e: "passthrough_button cfg L now i r b w =
      (if \<not> in_mouse cfg \<or> iw_mouse_press w ! unat b \<noteq> r then w
       else if delay then upd_ctx i (\<lambda>c. c\<lparr>ic_left_timeout := Left_Task k\<rparr>) w2
       else if click then w3\<lparr>iw_mouse_press := (iw_mouse_press w3)[unat b := False]\<rparr>
       else emit (P_Button_Mouse b r) w1)"
    using b len by (auto simp: passthrough_button_def Let_def w1_def [symmetric] delay_def click_def p w3_def)
  have emits: "known L (emit (P_Button_Mouse b r) w1)"
  proof (cases r)
    case True
    have "emit (P_Button_Mouse b True) w1 = (emit (P_Button_Mouse b True) w)\<lparr>iw_mouse_press := (iw_mouse_press w)[unat b := False]\<rparr>"
      by (simp add: w1_def True emit_def)
    then show ?thesis
      using known_release_button [OF assms(1), of "(iw_mouse_press w)[unat b := False]" b] len True
      by (simp add: nth_list_update unat_inject8)
  next
    case False
    have "emit (P_Button_Mouse b False) w1 = (emit (P_Button_Mouse b False) w)\<lparr>iw_mouse_press := (iw_mouse_press w)[unat b := True]\<rparr>"
      by (simp add: w1_def False emit_def)
    then show ?thesis
      using known_press_button [OF assms(1) b, of "(iw_mouse_press w)[unat b := True]"] len b False
      by (simp add: nth_list_update unat_inject8)
  qed
  have "known L (upd_ctx i (\<lambda>c. c\<lparr>ic_left_timeout := Left_Task k\<rparr>) w2)" if delay
  proof -
    have "known L w1" using that known_left [OF assms(1), of False] by (simp add: w1_def delay_def)
    then show ?thesis using known_cong [OF hid_push_delayed [OF p]] known_cong [OF hid_frame(1)] by blast
  qed
  moreover have "known L (w3\<lparr>iw_mouse_press := (iw_mouse_press w3)[unat b := False]\<rparr>)" if click
  proof -
    have 1: "known L (emit (P_Button_Mouse b False) w1)" using emits that by (simp add: click_def)
    have "known L (w3\<lparr>iw_mouse_press := mp\<rparr>)"
      if "length mp = 5" "\<And>c. c \<noteq> b \<Longrightarrow> iw_mouse_press w1 ! unat c \<Longrightarrow> mp ! unat c" for mp
      unfolding w3_def by (rule known_release_button [OF 1]) (use that in \<open>auto simp: emit_def\<close>)
    then show ?thesis using len by (simp add: w3_def w1_def emit_def nth_list_update unat_inject8)
  qed
  ultimately show ?thesis unfolding e using assms(1) emits by simp
qed

lemma known_release_left: "known L w \<Longrightarrow> known L (release_left L i w)"
proof -
  assume k: "known L w"
  let ?b = "BUTTON_LEFT L"
  have "known L ((emit (P_Button_Mouse ?b True) w)\<lparr>iw_mouse_press := (iw_mouse_press w)[unat ?b := False]\<rparr>)"
    by (rule known_release_button [OF k]) (use k in \<open>auto simp: known_def nth_list_update unat_inject8\<close>)
  then show ?thesis using k known_cong [OF hid_frame(1)]
    by (simp add: release_left_def Let_def emit_def)
qed

section \<open>Reset\<close>

lemma release_button_simps:
  "iw_key_press (release_button x w) = iw_key_press w" "length (iw_mouse_press (release_button x w)) = length (iw_mouse_press w)"
  "held_keys (iw_events (release_button x w)) = held_keys (iw_events w)"
  "held_buttons (iw_events (release_button x w)) =
     (if iw_mouse_press w ! x then held_buttons (iw_events w) - {word_of_nat x} else held_buttons (iw_events w))"
  "x < length (iw_mouse_press w) \<Longrightarrow>
     iw_mouse_press (release_button x w) ! y = (if y = x then False else iw_mouse_press w ! y)"
  by (auto simp: release_button_def emit_def hold_key_def hold_button_def nth_list_update)

lemma release_buttons:
  assumes "n \<le> length (iw_mouse_press w)"
  shows "iw_key_press (fold release_button [0..<n] w) = iw_key_press w \<and>
    held_keys (iw_events (fold release_button [0..<n] w)) = held_keys (iw_events w) \<and>
    length (iw_mouse_press (fold release_button [0..<n] w)) = length (iw_mouse_press w) \<and>
    (\<forall>y. iw_mouse_press (fold release_button [0..<n] w) ! y \<longleftrightarrow> iw_mouse_press w ! y \<and> n \<le> y) \<and>
    held_buttons (iw_events (fold release_button [0..<n] w)) =
      held_buttons (iw_events w) - {word_of_nat x | x. x < n \<and> iw_mouse_press w ! x}"
  using assms
proof (induction n)
  case (Suc n)
  then show ?case by (auto simp: release_button_simps less_Suc_eq)
qed simp

lemma release_key_simps:
  "held_buttons (iw_events (release_key kp w)) = held_buttons (iw_events w)"
  "held_keys (iw_events (release_key kp w)) =
     (if snd kp then held_keys (iw_events w) - {vk_from_kpid (fst kp) AND 0xFF} else held_keys (iw_events w))"
  "iw_mouse_press (release_key kp w) = iw_mouse_press w"
  "key_down k (release_key kp w) = (if snd kp \<and> k = fst kp then False else key_down k w)"
  "waiting_ok (release_key kp w) = waiting_ok w"
  by (auto simp: release_key_def emit_def hold_key_def hold_button_def key_down_def set_key_def update_conv' waiting_ok_def)

lemma release_keys:
  "held_buttons (iw_events (fold release_key tab w)) = held_buttons (iw_events w) \<and>
   held_keys (iw_events (fold release_key tab w)) =
     held_keys (iw_events w) - {vk_from_kpid kp AND 0xFF | kp. (kp, True) \<in> set tab} \<and>
   iw_mouse_press (fold release_key tab w) = iw_mouse_press w \<and>
   (\<forall>k. key_down k (fold release_key tab w) \<longleftrightarrow> key_down k w \<and> (k, True) \<notin> set tab) \<and>
   waiting_ok (fold release_key tab w) = waiting_ok w"
proof (induction tab arbitrary: w)
  case (Cons kp tab)
  show ?case by (cases kp) (auto simp: Cons release_key_simps)
qed simp

lemma waiting_ok_release_buttons [simp]: "waiting_ok (fold release_button xs w) = waiting_ok w"
proof (induction xs arbitrary: w)
  case (Cons x xs)
  have "waiting_ok (release_button x w) = waiting_ok w" by (simp add: release_button_def Let_def frame_simps)
  then show ?case using Cons by simp
qed simp

lemma reset_task_held:
  assumes "known L w"
  shows "held_keys (iw_events (reset_task w)) = {}" "held_buttons (iw_events (reset_task w)) \<subseteq> {BUTTON_LEFT L}"
    "length (iw_mouse_press (reset_task w)) = 5"
proof -
  define w1 where "w1 = fold release_button [0..<length (iw_mouse_press w)] w"
  have len: "length (iw_mouse_press w) = 5" using assms by (simp add: known_def)
  have e: "reset_task w = fold release_key (iw_key_press w1) w1" by (simp add: reset_task_def w1_def Let_def)
  have b: "iw_key_press w1 = iw_key_press w" "held_keys (iw_events w1) = held_keys (iw_events w)" "length (iw_mouse_press w1) = 5"
      "held_buttons (iw_events w1) = held_buttons (iw_events w) - {word_of_nat x | x. x < 5 \<and> iw_mouse_press w ! x}"
    using release_buttons [of 5 w] len by (simp_all add: w1_def)
  note r = release_keys [of "iw_key_press w1" w1]
  have "vk \<notin> held_keys (iw_events w) - {vk_from_kpid kp AND 0xFF | kp. (kp, True) \<in> set (iw_key_press w)}" for vk
  proof
    assume vk: "vk \<in> held_keys (iw_events w) - {vk_from_kpid kp AND 0xFF | kp. (kp, True) \<in> set (iw_key_press w)}"
    then have "vk \<in> held_keys (iw_events w)" by simp
    then obtain kp where "key_down kp w \<and> vk_from_kpid kp AND 0xFF = vk" using assms unfolding known_def by blast
    then show False using vk by (auto simp: key_down_def dest: map_of_SomeD)
  qed
  then show "held_keys (iw_events (reset_task w)) = {}" using r b by (auto simp: e)
  have "c = BUTTON_LEFT L" if "c \<in> held_buttons (iw_events w1)" for c
  proof (rule ccontr)
    assume "c \<noteq> BUTTON_LEFT L"
    then have "unat c < 5 \<and> iw_mouse_press w ! unat c" using that assms b(4) by (auto simp: known_def)
    then have "c \<in> {word_of_nat x | x. x < 5 \<and> iw_mouse_press w ! x}" by (intro CollectI exI [of _ "unat c"]) simp
    then show False using that b(4) by simp
  qed
  then show "held_buttons (iw_events (reset_task w)) \<subseteq> {BUTTON_LEFT L}" using r by (auto simp: e)
  show "length (iw_mouse_press (reset_task w)) = 5" using r b by (simp add: e)
qed

lemma known_reset_task: "known L w \<Longrightarrow> known L (reset_task w)"
  using reset_task_held [of L w] unfolding known_def by blast

section \<open>Every step\<close>

lemmas batch_defs = batch_def batch_rel_def batch_amount_def batch_multi_def batch_touch_def batch_pen_def
  batch_controller_touch_def batch_controller_motion_def

lemma batch_packet_ok: "batch L p q = Batched p' \<Longrightarrow> packet_ok p'"
  by (cases p; cases q) (auto simp: batch_defs packet_ok_def split: if_splits)

lemma batch_queue_packet_ok:
  "batch_queue L p qs = (p', qs') \<Longrightarrow> packet_ok p \<Longrightarrow> \<forall>q\<in>set qs. packet_ok q \<Longrightarrow>
     packet_ok p' \<and> (\<forall>q\<in>set qs'. packet_ok q)"
proof (induction L p qs arbitrary: p' qs' rule: batch_queue.induct)
  case (2 L p q qs)
  show ?case
  proof (cases "batch L p q")
    case (Batched r)
    then have "batch_queue L r qs = (p', qs')" using 2(3) by simp
    from 2(1) [OF Batched this batch_packet_ok [OF Batched]] show ?thesis using 2(5) by simp
  next
    case Not_Batchable
    obtain r rs where r: "batch_queue L p qs = (r, rs)" by (cases "batch_queue L p qs")
    then have "p' = r" "qs' = q # rs" using Not_Batchable 2(3) by simp_all
    then show ?thesis using 2(2) [OF Not_Batchable r 2(4)] 2(5) by simp
  next
    case Terminate_Batch
    then show ?thesis using 2(3-5) by simp
  qed
qed simp

definition held_inv :: "limelight \<Rightarrow> input_world \<Rightarrow> bool" where
  [inv_defs]: "held_inv L w \<longleftrightarrow> known L w \<and> waiting_ok w"

lemma held_inv_frame: "hid w' = hid w \<Longrightarrow> waiting_ok w' \<Longrightarrow> held_inv L w \<Longrightarrow> held_inv L w'"
  using known_cong [of w' w L] by (simp add: held_inv_def)

lemma waiting_ok_button: "waiting_ok w \<Longrightarrow> waiting_ok (passthrough_button cfg L now i r b w)"
  by (auto simp: passthrough_button_def Let_def frame_simps waiting_ok_push_delayed split: prod.splits)

lemma held_inv_passthrough:
  assumes "held_inv L w" "packet_ok p" "no_remap cfg"
  shows "held_inv L (passthrough cfg L F env now i p w)"
proof -
  have w: "known L w" "waiting_ok w" using assms(1) by (simp_all add: held_inv_def)
  have f: "held_inv L w'" if "hid w' = hid w" "waiting_ok w'" for w' using held_inv_frame [OF that assms(1)] .
  show ?thesis
  proof (cases p)
    case (Mouse_Button r b)
    then show ?thesis using known_button [OF w(1)] waiting_ok_button [OF w(2)] assms(2) by (simp add: passthrough_def held_inv_def)
  next
    case (Keyboard packet)
    then show ?thesis using known_keyboard [OF w assms(3)] by (simp add: passthrough_def held_inv_def)
  qed (simp_all add: passthrough_def f frame_simps waiting_ok_mouse waiting_ok_gamepads w(2) assms(1))
qed

lemma held_inv_next_message:
  assumes "held_inv L w" "no_remap cfg"
  shows "held_inv L (passthrough_next_message cfg L F env now i w)"
proof (cases "ic_queue (iw_ctx w i)")
  case (Cons entry rest)
  obtain p qs where b: "batch_queue L entry rest = (p, qs)" by (cases "batch_queue L entry rest")
  have "\<forall>q\<in>set (entry # rest). packet_ok q" using assms(1) Cons by (simp add: held_inv_def waiting_ok_def flip: Cons)
  then have ok: "packet_ok p" "\<forall>q\<in>set qs. packet_ok q" using batch_queue_packet_ok [OF b] by auto
  let ?w = "upd_ctx i (\<lambda>c. c\<lparr>ic_queue := qs\<rparr>) w"
  have "waiting_ok ?w" using assms(1) ok(2) by (auto simp: held_inv_def waiting_ok_def upd_ctx_def)
  then have "held_inv L ?w" using assms(1) held_inv_frame [of ?w w] by (simp add: frame_simps)
  then show ?thesis using held_inv_passthrough [OF _ ok(1) assms(2)] by (simp add: passthrough_next_message_def Cons b)
qed (simp add: passthrough_next_message_def assms(1))

lemma held_inv_run_task:
  assumes "held_inv L w" "task_ok t" "no_remap cfg"
  shows "held_inv L (run_task cfg L F env now t w)"
proof -
  have w: "known L w" "waiting_ok w" using assms(1) by (simp_all add: held_inv_def)
  have f: "held_inv L w'" if "hid w' = hid w" "waiting_ok w'" for w' using held_inv_frame [OF that assms(1)] .
  show ?thesis
  proof (cases t)
    case (Next_Message i)
    then show ?thesis using held_inv_next_message [OF assms(1,3)] by (simp add: run_task_def)
  next
    case Reset_Task
    then show ?thesis using known_reset_task [OF w(1)] w(2) release_keys by (simp add: run_task_def held_inv_def reset_task_def Let_def)
  next
    case (Release_Left i)
    then show ?thesis using known_release_left [OF w(1)] w(2) by (simp add: run_task_def held_inv_def release_left_def Let_def frame_simps)
  next
    case (Repeat_Key k fl m)
    then show ?thesis using known_repeat [OF w assms(3)] assms(2) by (simp add: run_task_def held_inv_def)
  qed (simp_all add: run_task_def f frame_simps waiting_ok_gamepads w(2))
qed

inductive input_step :: "input_t \<Rightarrow> limelight \<Rightarrow> fpu \<Rightarrow> input_env \<Rightarrow> input_world \<Rightarrow> input_world \<Rightarrow> bool"
  for cfg L F env where
  Step_Message: "packet_ok p \<Longrightarrow> input_step cfg L F env w (queue_message i p w)"
| Step_Work: "input_step cfg L F env w (work cfg L F env now w)"
| Step_Reset: "input_step cfg L F env w (reset i w)"
| Step_Alloc: "input_step cfg L F env w (alloc_input F now i w)"
| Step_Free: "input_step cfg L F env w (free_input i w)"

lemma free_pads_frame:
  fixes free
  defines "free \<equiv> \<lambda>g w. if gp_id g \<ge> 0 then push_task (Free_Gamepad_Task (gp_id g)) w else w"
  shows "hid (fold free gs w) = hid w \<and> (waiting_ok w \<longrightarrow> waiting_ok (fold free gs w))"
proof (induction gs arbitrary: w)
  case (Cons g gs)
  have "hid (free g w) = hid w" "waiting_ok w \<Longrightarrow> waiting_ok (free g w)"
    by (simp_all add: free_def frame_simps waiting_ok_push)
  then show ?case using Cons [of "free g w"] by auto
qed simp

lemma free_input_frame: "hid (free_input i w) = hid w" "waiting_ok w \<Longrightarrow> waiting_ok (free_input i w)"
  unfolding free_input_def using free_pads_frame by blast+

lemma reset_frame: "hid (reset i w) = hid w" "waiting_ok w \<Longrightarrow> waiting_ok (reset i w)"
  by (auto simp: reset_def Let_def frame_simps intro!: waiting_ok_push(1) split: option.splits left_timeout.splits)

lemma held_inv_step:
  assumes "input_step cfg L F env w w'" "held_inv L w" "no_remap cfg"
  shows "held_inv L w'"
  using assms(1)
proof cases
  case (Step_Message p i)
  have "waiting_ok (upd_ctx i (\<lambda>c. c\<lparr>ic_queue := ic_queue c @ [p]\<rparr>) w)"
    using assms(2) Step_Message(2) by (auto simp: held_inv_def waiting_ok_def upd_ctx_def)
  then show ?thesis using assms(2) unfolding Step_Message(1) queue_message_def
    by (intro held_inv_frame [OF _ _ assms(2)]) (simp_all add: frame_simps waiting_ok_push(1))
next
  case (Step_Work now)
  obtain pool task where p: "tp_pop now (iw_pool w) = (pool, task)" by (cases "tp_pop now (iw_pool w)")
  have w1: "held_inv L (w\<lparr>iw_pool := pool\<rparr>)"
    using assms(2) by (intro held_inv_frame [OF _ _ assms(2)]) (simp_all add: frame_simps held_inv_def)
  have "task_ok (iw_task w k)" for k using assms(2) by (simp add: held_inv_def waiting_ok_def)
  then show ?thesis using w1 held_inv_run_task [OF w1 _ assms(3)]
    by (simp add: Step_Work work_def p Let_def split: option.split)
next
  case (Step_Reset i)
  then show ?thesis using assms(2) by (intro held_inv_frame [OF _ _ assms(2)]) (simp_all add: reset_frame held_inv_def)
next
  case (Step_Alloc now i)
  have "waiting_ok (upd_ctx i (\<lambda>_. new_input (zero_touch_port F)) w)"
    using assms(2) by (auto simp: held_inv_def waiting_ok_def upd_ctx_def new_input_def)
  then show ?thesis using assms(2) unfolding Step_Alloc alloc_input_def
    by (intro held_inv_frame [OF _ _ assms(2)]) (simp_all add: frame_simps waiting_ok_push(2))
next
  case (Step_Free i)
  then show ?thesis using assms(2) by (intro held_inv_frame [OF _ _ assms(2)]) (simp_all add: free_input_frame held_inv_def)
qed

text \<open>The state at the start of the program.\<close>

definition start_world :: "fpu \<Rightarrow> input_world" where
  "start_world F = \<lparr>iw_ctx = (\<lambda>_. new_input (zero_touch_port F)), iw_key_press = [], iw_mouse_press = replicate 5 False,
     iw_repeat_id = None, iw_gamepadMask = replicate MAX_GAMEPADS False, iw_tries = 0, iw_pool = tp_init, iw_task = (\<lambda>_. Wiggle),
     iw_next = 0, iw_display_cursor = True, iw_switch_display = None, iw_events = []\<rparr>"

lemma held_inv_start: "held_inv L (start_world F)"
  by (simp add: held_inv_def known_def waiting_ok_def start_world_def new_input_def)

lemma held_inv_reachable:
  "(input_step cfg L F env)\<^sup>*\<^sup>* (start_world F) w \<Longrightarrow> no_remap cfg \<Longrightarrow> held_inv L w"
  by (induction rule: rtranclp_induct) (auto simp: held_inv_start intro: held_inv_step)


end
