(* ===== verification/Input_Runs.thy ===== *)
theory Input_Runs
  imports Input_Held
begin

unbundle bit_operations_syntax

text \<open>
  Runs of the input of \<open>src/input.cpp\<close> on concrete packets: a session whose reset is complete, and the
  ones in which something stays pressed or a gamepad that is gone is updated.
\<close>

definition demo_limelight :: limelight where
  "demo_limelight = \<lparr>BUTTON_LEFT = 1, BUTTON_RIGHT = 3, MODIFIER_SHIFT = 1, MODIFIER_CTRL = 2, MODIFIER_ALT = 4,
     LI_TOUCH_EVENT_HOVER = 0, LI_TOUCH_EVENT_MOVE = 3, LI_ROT_UNKNOWN = 0xFFFF\<rparr>"

definition demo_fpu :: fpu where
  "demo_fpu = \<lparr>f_add = (+), f_sub = (-), f_mul = (*), f_div = (\<lambda>a b. a div b), f_less = (<), f_le = (\<le>),
     f_int = word_of_int, f_trunc = uint, f_cos = id, f_sin = id, f_norm = (\<lambda>a b. a + b), f_radians = ucast,
     f_quarter_pi = 1, f_plus_half_pi = id\<rparr>"

definition demo_input :: input_t where
  "demo_input = \<lparr>in_keybindings = Map.empty, in_back_button_timeout = 500, in_key_repeat_delay = 500,
     in_key_repeat_period = Fin (10 / 249), in_gamepad = [], in_ds4_back_as_touchpad_click = True, in_motion_as_ds4 = True,
     in_touchpad_as_ds4 = True, in_ds5_inputtino_randomize_mac = True, in_keyboard = True, in_mouse = True,
     in_controller = True, in_always_send_scancodes = True, in_high_resolution_scrolling = True,
     in_native_pen_touch = True\<rparr>"

definition demo_input_env :: input_env where
  "demo_input_env = \<lparr>ie_alloc_fails = (\<lambda>_. False), ie_period = (\<lambda>_. 40000000)\<rparr>"

definition demo_key :: "bool \<Rightarrow> 16 word \<Rightarrow> packet" where
  "demo_key release k = Keyboard \<lparr>kb_release = release, kb_keyCode = k, kb_modifiers = 0, kb_flags = 0\<rparr>"

text \<open>The control stream queues a packet, the worker takes it.\<close>

definition receive :: "input_t \<Rightarrow> int \<Rightarrow> packet \<Rightarrow> input_world \<Rightarrow> input_world" where
  "receive cfg now p w = work cfg demo_limelight demo_fpu demo_input_env now (queue_message 0 p w)"

lemma receive_steps:
  "packet_ok p \<Longrightarrow> (input_step cfg demo_limelight demo_fpu demo_input_env)\<^sup>*\<^sup>* w (receive cfg now p w)"
  unfolding receive_def by (rule two_steps) (rule Step_Message, assumption, rule Step_Work)


theorem scroll_conserved_witness:
  "\<exists>w cfg. scrolled (iw_events (fold (passthrough_scroll cfg 0) [100, 100] w)) +
      ic_vscroll (iw_ctx (fold (passthrough_scroll cfg 0) [100, 100] w) 0) = scrolled (iw_events w) + ic_vscroll (iw_ctx w 0) + 200"
proof (intro exI)
  let ?w = "start_world demo_fpu" and ?cfg = "demo_input\<lparr>in_high_resolution_scrolling := False\<rparr>"
  show "scrolled (iw_events (fold (passthrough_scroll ?cfg 0) [100, 100] ?w)) +
      ic_vscroll (iw_ctx (fold (passthrough_scroll ?cfg 0) [100, 100] ?w) 0) = scrolled (iw_events ?w) + ic_vscroll (iw_ctx ?w 0) + 200"
    using scroll_conserved [of ?cfg ?w 0 "[100, 100]"]
    by (simp add: demo_input_def start_world_def new_input_def WHEEL_DELTA_def)
qed

section \<open>What stays behind\<close>

text \<open>
  A reset loses the delayed release of the left button: when the button goes up after absolute
  movements, its release waits for ten milliseconds, and a session that ends in between cancels it
  without releasing the button itself. The platform holds the button for good: nothing is left in
  the pool.
\<close>
theorem left_button_stuck:
  "let w1 = receive demo_input 0 (Mouse_Button True 1) (receive demo_input 0 (Mouse_Button False 1) (start_world demo_fpu));
       w2 = work demo_input demo_limelight demo_fpu demo_input_env 5000000 (reset 0 w1)
   in iw_events w2 = [P_Button_Mouse 1 False] \<and> tp_tasks (iw_pool w2) = [] \<and> tp_timer_tasks (iw_pool w2) = []"
  by code_simp

text \<open>
  A reset releases the key of the client and not the one it was mapped to: with the right Alt key
  mapped to the Windows key, as an option of the configuration does, a session that ends while it
  is down leaves the Windows key pressed.
\<close>
theorem mapped_key_stuck:
  "let cfg = demo_input\<lparr>in_keybindings := [0xA5 \<mapsto> 0x5B]\<rparr>;
       w = receive cfg 0 (demo_key False 0xA5) (start_world demo_fpu)
   in iw_events (reset_task w) = [P_Keyboard_Update 0x5B False 0, P_Keyboard_Update 0xA5 True 0] \<and>
      held_keys (iw_events (reset_task w)) = {0x5B}"
proof -
  have e: "iw_events (reset_task (receive (demo_input\<lparr>in_keybindings := [0xA5 \<mapsto> 0x5B]\<rparr>) 0 (demo_key False 0xA5)
      (start_world demo_fpu))) = [P_Keyboard_Update 0x5B False 0, P_Keyboard_Update 0xA5 True 0]" by code_simp
  then show ?thesis unfolding Let_def by (simp add: held_keys_def hold_key_def)
qed

definition demo_controller :: "16 word \<Rightarrow> 16 word \<Rightarrow> packet" where
  "demo_controller gm buttons = Multi_Controller \<lparr>mc_controllerNumber = 0, mc_activeGamepadMask = gm, mc_buttonFlags = buttons,
     mc_buttonFlags2 = 0, mc_leftTrigger = 0, mc_rightTrigger = 0, mc_leftStickX = 0, mc_leftStickY = 0,
     mc_rightStickX = 0, mc_rightStickY = 0\<rparr>"

text \<open>
  A gamepad that is unplugged while its back button is held keeps its timer: when the time is up,
  the emulated home button is pressed on gamepad number minus one, three updates with an index the
  platform's table does not have.
\<close>
theorem home_after_unplug:
  "let w1 = receive demo_input 0 (demo_controller 0 0x20) (receive demo_input 0 (demo_controller 1 0x20) (start_world demo_fpu));
       w2 = work demo_input demo_limelight demo_fpu demo_input_env 500000000 w1
   in gp_id (gamepad_at 0 0 w1) = - 1 \<and>
      (\<exists>s. iw_events w2 = iw_events w1 @
        [P_Gamepad_Update (- 1) s, P_Gamepad_Update (- 1) (s\<lparr>gs_buttonFlags := HOME\<rparr>), P_Gamepad_Update (- 1) s])"
proof -
  let ?w1 = "receive demo_input 0 (demo_controller 0 0x20) (receive demo_input 0 (demo_controller 1 0x20) (start_world demo_fpu))"
  have 1: "gp_id (gamepad_at 0 0 ?w1) = - 1" by code_simp
  have "iw_events (work demo_input demo_limelight demo_fpu demo_input_env 500000000 ?w1) = iw_events ?w1 @
        [P_Gamepad_Update (- 1) no_gamepad_state, P_Gamepad_Update (- 1) (no_gamepad_state\<lparr>gs_buttonFlags := HOME\<rparr>),
         P_Gamepad_Update (- 1) no_gamepad_state]" by code_simp
  then show ?thesis unfolding Let_def using 1 by blast
qed

end
