(* ===== verification/Input_Batching.thy ===== *)
theory Input_Batching
  imports Input_Runs
begin

unbundle bit_operations_syntax

text \<open>
  The batching of \<open>passthrough_next_message\<close> in \<open>src/input.cpp\<close> against sending every message: the
  calls into the platform differ only in those that the next call supersedes at once, and in the
  order of calls to different devices.
\<close>

section \<open>When two runs of calls amount to the same\<close>

text \<open>\<open>e'\<close> makes a call \<open>e\<close> right before it superfluous: it sets the same state of the same device.\<close>

definition supersedes :: "limelight \<Rightarrow> platf_event \<Rightarrow> platf_event \<Rightarrow> bool" where
  "supersedes L e' e =
     (case (e, e') of
        (P_Abs_Mouse _ _ _, P_Abs_Mouse _ _ _) \<Rightarrow> True
      | (P_Gamepad_Update x s, P_Gamepad_Update y s') \<Rightarrow> x = y \<and> gs_buttonFlags s = gs_buttonFlags s'
      | (P_Gamepad_Touch x _ t k _ _ _, P_Gamepad_Touch y _ t' k' _ _ _) \<Rightarrow> x = y \<and> t = t' \<and> k = k' \<and> move_or_hover L t
      | (P_Gamepad_Motion x _ t _ _ _, P_Gamepad_Motion y _ t' _ _ _) \<Rightarrow> x = y \<and> t = t'
      | (P_Touch_Update i _ t, P_Touch_Update j _ t') \<Rightarrow>
          i = j \<and> ti_pointerId t = ti_pointerId t' \<and> ti_eventType t = ti_eventType t' \<and> move_or_hover L (ti_eventType t)
      | (P_Pen_Update i _ t, P_Pen_Update j _ t') \<Rightarrow>
          i = j \<and> pi_eventType t = pi_eventType t' \<and> pi_penButtons t = pi_penButtons t' \<and> pi_toolType t = pi_toolType t' \<and>
          move_or_hover L (pi_eventType t)
      | _ \<Rightarrow> False)"

definition pad_of :: "platf_event \<Rightarrow> int option" where
  "pad_of e = (case e of P_Gamepad_Update x _ \<Rightarrow> Some x | P_Gamepad_Touch x _ _ _ _ _ _ \<Rightarrow> Some x
     | P_Gamepad_Motion x _ _ _ _ _ \<Rightarrow> Some x | _ \<Rightarrow> None)"

text \<open>Calls whose order does not matter: to different gamepads, sensors, or moving pointers.\<close>

definition independent :: "limelight \<Rightarrow> platf_event \<Rightarrow> platf_event \<Rightarrow> bool" where
  "independent L e e' \<longleftrightarrow>
     (\<exists>x\<in>set_option (pad_of e). \<exists>y\<in>set_option (pad_of e'). x \<noteq> y) \<or>
     (case (e, e') of
        (P_Gamepad_Touch _ _ t k _ _ _, P_Gamepad_Touch _ _ t' k' _ _ _) \<Rightarrow> k \<noteq> k' \<and> move_or_hover L t \<and> move_or_hover L t'
      | (P_Gamepad_Motion _ _ t _ _ _, P_Gamepad_Motion _ _ t' _ _ _) \<Rightarrow> t \<noteq> t'
      | (P_Touch_Update _ _ t, P_Touch_Update _ _ t') \<Rightarrow>
          ti_pointerId t \<noteq> ti_pointerId t' \<and> move_or_hover L (ti_eventType t) \<and> move_or_hover L (ti_eventType t')
      | _ \<Rightarrow> False)"

inductive same_calls :: "limelight \<Rightarrow> platf_event list \<Rightarrow> platf_event list \<Rightarrow> bool" for L where
  Same: "same_calls L es es"
| Sym: "same_calls L es fs \<Longrightarrow> same_calls L fs es"
| Trans: "same_calls L es fs \<Longrightarrow> same_calls L fs gs \<Longrightarrow> same_calls L es gs"
| Drop: "supersedes L e' e \<Longrightarrow> same_calls L (es @ e # e' # fs) (es @ e' # fs)"
| Swap: "independent L e e' \<Longrightarrow> same_calls L (es @ e # e' # fs) (es @ e' # e # fs)"

lemma same_calls_append: "same_calls L es fs \<Longrightarrow> same_calls L (es @ gs) (fs @ gs)"
proof (induction rule: same_calls.induct)
  case (Drop e' e es fs)
  then show ?case using same_calls.Drop [of L e' e es "fs @ gs"] by simp
next
  case (Swap e e' es fs)
  then show ?case using same_calls.Swap [of L e e' es "fs @ gs"] by simp
qed (auto intro: same_calls.intros)

text \<open>Everything but the calls is equal.\<close>

definition quietly :: "input_world \<Rightarrow> input_world" where
  "quietly w = w\<lparr>iw_events := []\<rparr>"

definition same_world :: "limelight \<Rightarrow> input_world \<Rightarrow> input_world \<Rightarrow> bool" where
  "same_world L w w' \<longleftrightarrow> quietly w = quietly w' \<and> same_calls L (iw_events w) (iw_events w')"

lemma same_world_refl [simp]: "same_world L w w"
  by (simp add: same_world_def Same)

lemma same_world_trans: "same_world L u v \<Longrightarrow> same_world L v w \<Longrightarrow> same_world L u w"
  by (auto simp: same_world_def intro: Trans)

section \<open>The contract of batching\<close>

text \<open>
  What makes a batched packet as good as the two it stands for, whatever the packets and the
  platform are: \<open>step\<close> passes a packet on, \<open>equ\<close> is what an observer cannot tell apart, \<open>fit\<close> says in
  which states a packet may be batched.
\<close>

locale batched_input =
  fixes L :: limelight
    and step :: "packet \<Rightarrow> 's \<Rightarrow> 's"
    and equ :: "'s \<Rightarrow> 's \<Rightarrow> bool"
    and fit :: "packet \<Rightarrow> 's \<Rightarrow> bool"
  assumes equ_refl: "equ s s"
    and equ_trans: "equ s t \<Longrightarrow> equ t u \<Longrightarrow> equ s u"
    and step_equ: "equ s t \<Longrightarrow> equ (step p s) (step p t)"
    and absorb: "fit p s \<Longrightarrow> batch L p q = Batched p' \<Longrightarrow> equ (step p' s) (step q (step p s))"
    and commute: "fit p s \<Longrightarrow> batch L p q = Not_Batchable \<Longrightarrow>
      equ (step q (step p s)) (step p (step q s)) \<and> equ (step p (step q s)) (step q (step p s))"
    and fit_batched: "fit p s \<Longrightarrow> batch L p q = Batched p' \<Longrightarrow> fit p' s"
    and fit_step: "fit p s \<Longrightarrow> batch L p q = Not_Batchable \<Longrightarrow> fit p (step q s)"
    and same_partner: "batch L p q = Batched p' \<Longrightarrow> batch L p' r = Not_Batchable \<longleftrightarrow> batch L p r = Not_Batchable"
begin

lemma fold_equ: "equ s t \<Longrightarrow> equ (fold step ps s) (fold step ps t)"
  by (induction ps arbitrary: s t) (auto intro: step_equ)

lemma batch_queue_partner:
  "batch_queue L p qs = (p', qs') \<Longrightarrow> batch L p' r = Not_Batchable \<longleftrightarrow> batch L p r = Not_Batchable"
proof (induction qs arbitrary: p p' qs')
  case (Cons q qs)
  show ?case
  proof (cases "batch L p q")
    case (Batched x)
    then have "batch_queue L x qs = (p', qs')" using Cons.prems by simp
    from Cons.IH [OF this] show ?thesis using same_partner [OF Batched, of r] by simp
  next
    case Not_Batchable
    then show ?thesis using Cons by (auto split: prod.splits)
  next
    case Terminate_Batch
    then show ?thesis using Cons by simp
  qed
qed simp

lemma batch_queue_fit: "batch_queue L p qs = (p', qs') \<Longrightarrow> fit p s \<Longrightarrow> fit p' s"
proof (induction qs arbitrary: p p' qs')
  case (Cons q qs)
  show ?case
  proof (cases "batch L p q")
    case (Batched x)
    then have "batch_queue L x qs = (p', qs')" using Cons.prems by simp
    from Cons.IH [OF this] show ?thesis using fit_batched [OF Cons.prems(2) Batched] by simp
  next
    case Not_Batchable
    then show ?thesis using Cons by (auto split: prod.splits)
  next
    case Terminate_Batch
    then show ?thesis using Cons by simp
  qed
qed simp

lemma batch_queue_equ:
  "batch_queue L p qs = (p', qs') \<Longrightarrow> fit p s \<Longrightarrow> equ (fold step (p' # qs') s) (fold step (p # qs) s)"
proof (induction qs arbitrary: p p' qs' s)
  case Nil
  then show ?case by (simp add: equ_refl)
next
  case (Cons q qs)
  show ?case
  proof (cases "batch L p q")
    case (Batched x)
    then have "batch_queue L x qs = (p', qs')" using Cons.prems by simp
    from Cons.IH [OF this fit_batched [OF Cons.prems(2) Batched]]
    have "equ (fold step (p' # qs') s) (fold step qs (step x s))" by simp
    also have "equ (fold step qs (step x s)) (fold step qs (step q (step p s)))"
      by (rule fold_equ) (rule absorb [OF Cons.prems(2) Batched])
    finally (equ_trans) show ?thesis by simp
  next
    case Not_Batchable
    obtain r rs where b: "batch_queue L p qs = (r, rs)" by (cases "batch_queue L p qs")
    then have e: "p' = r" "qs' = q # rs" using Cons.prems(1) Not_Batchable by simp_all
    have r: "fit r s" "batch L r q = Not_Batchable"
      using batch_queue_fit [OF b Cons.prems(2)] batch_queue_partner [OF b, of q] Not_Batchable by simp_all
    have "equ (fold step rs (step q (step r s))) (fold step rs (step r (step q s)))"
      by (rule fold_equ) (use commute [OF r] in simp)
    also have "equ (fold step rs (step r (step q s))) (fold step qs (step p (step q s)))"
      using Cons.IH [OF b fit_step [OF Cons.prems(2) Not_Batchable]] by simp
    also (equ_trans) have "equ (fold step qs (step p (step q s))) (fold step qs (step q (step p s)))"
      by (rule fold_equ) (use commute [OF Cons.prems(2) Not_Batchable] in simp)
    finally (equ_trans) show ?thesis by (simp add: e)
  next
    case Terminate_Batch
    then show ?thesis using Cons.prems by (simp add: equ_refl)
  qed
qed

end

section \<open>What the handlers do not look at\<close>

text \<open>
  A change \<open>h\<close> of the world that no handler sees: what they read is the same, and it does not matter
  whether it is made before or after what they write.
\<close>

definition keeps_queue :: "(input_ctx \<Rightarrow> input_ctx) \<Rightarrow> bool" where
  "keeps_queue f \<longleftrightarrow> (\<forall>c qs. f (c\<lparr>ic_queue := qs\<rparr>) = (f c)\<lparr>ic_queue := qs\<rparr>)"

locale unseen =
  fixes h :: "input_world \<Rightarrow> input_world"
  assumes reads:
    "iw_key_press (h w) = iw_key_press w" "iw_mouse_press (h w) = iw_mouse_press w"
    "iw_repeat_id (h w) = iw_repeat_id w" "iw_gamepadMask (h w) = iw_gamepadMask w"
    "iw_tries (h w) = iw_tries w" "iw_display_cursor (h w) = iw_display_cursor w"
    and ctx_reads:
    "ic_shortcutFlags (iw_ctx (h w) i) = ic_shortcutFlags (iw_ctx w i)"
    "ic_gamepads (iw_ctx (h w) i) = ic_gamepads (iw_ctx w i)"
    "ic_left_timeout (iw_ctx (h w) i) = ic_left_timeout (iw_ctx w i)"
    "ic_touch_port (iw_ctx (h w) i) = ic_touch_port (iw_ctx w i)"
    "ic_vscroll (iw_ctx (h w) i) = ic_vscroll (iw_ctx w i)"
    "ic_hscroll (iw_ctx (h w) i) = ic_hscroll (iw_ctx w i)"
    and writes:
    "(h w)\<lparr>iw_mouse_press := mp\<rparr> = h (w\<lparr>iw_mouse_press := mp\<rparr>)"
    "(h w)\<lparr>iw_key_press := kp\<rparr> = h (w\<lparr>iw_key_press := kp\<rparr>)"
    "(h w)\<lparr>iw_repeat_id := r\<rparr> = h (w\<lparr>iw_repeat_id := r\<rparr>)"
    "(h w)\<lparr>iw_gamepadMask := m\<rparr> = h (w\<lparr>iw_gamepadMask := m\<rparr>)"
    "(h w)\<lparr>iw_tries := tr\<rparr> = h (w\<lparr>iw_tries := tr\<rparr>)"
    "(h w)\<lparr>iw_switch_display := sd\<rparr> = h (w\<lparr>iw_switch_display := sd\<rparr>)"
    "(h w)\<lparr>iw_display_cursor := dc\<rparr> = h (w\<lparr>iw_display_cursor := dc\<rparr>)"
    and steps:
    "emit e (h w) = h (emit e w)" "cancel_task k (h w) = h (cancel_task k w)"
    "push_delayed t tk (h w) = (h (fst (push_delayed t tk w)), snd (push_delayed t tk w))"
    and upd_ctx: "keeps_queue f \<Longrightarrow> upd_ctx i f (h w) = h (upd_ctx i f w)"
begin

lemmas at_once = reads ctx_reads writes steps upd_ctx keeps_queue_def split_beta Let_def

lemma ifs: "(if b then h w else h w') = h (if b then w else w')" by simp

lemma gamepads: "upd_gamepad i n g (h w) = h (upd_gamepad i n g w)" "gamepad_at i n (h w) = gamepad_at i n w"
  unfolding upd_gamepad_def gamepad_at_def by (simp_all add: at_once)

lemma emits: "fold emit fs (h w) = h (fold emit fs w)"
  by (induction fs arbitrary: w) (simp_all add: steps)

lemma keys: "set_key kp b (h w) = h (set_key kp b w)" "key_down kp (h w) = key_down kp w"
    "touch_key kp (h w) = h (touch_key kp w)"
  by (simp_all add: set_key_def key_down_def touch_key_def at_once)

lemma arm: "arm_repeat cfg now k f m (h w) = h (arm_repeat cfg now k f m w)"
  by (simp add: arm_repeat_def at_once split: option.split)

lemma shortcut: "apply_shortcut k (h w) = map_option h (apply_shortcut k w)"
  by (simp add: apply_shortcut_def at_once)

lemma keyboard: "passthrough_keyboard cfg L now i p (h w) = h (passthrough_keyboard cfg L now i p w)"
proof -
  have "(case map_option h x of None \<Rightarrow> h u | Some v \<Rightarrow> v) = h (case x of None \<Rightarrow> u | Some v \<Rightarrow> v)" for x u
    by (cases x) simp_all
  then show ?thesis
    by (simp add: passthrough_keyboard_def shortcut keys arm emits send_key_and_modifiers_def at_once split: option.split)
qed

lemma take: "keeps_queue take_touch_port"
  by (simp add: keeps_queue_def take_touch_port_def split: option.split)

lemma geometry:
  "client_to_touchport F v z (iw_ctx (h w) i) = client_to_touchport F v z (iw_ctx w i)"
  "touch_geometry L F (iw_ctx (h w) i) xy r c = touch_geometry L F (iw_ctx w i) xy r c"
  by (simp_all add: touch_geometry_def client_to_touchport_def ctx_reads)

lemma mouse:
  "passthrough_rel cfg i x y (h w) = h (passthrough_rel cfg i x y w)"
  "passthrough_abs cfg F i x y wi he (h w) = h (passthrough_abs cfg F i x y wi he w)"
  "passthrough_scroll cfg i a (h w) = h (passthrough_scroll cfg i a w)"
  "passthrough_hscroll cfg i a (h w) = h (passthrough_hscroll cfg i a w)"
  "passthrough_unicode cfg t (h w) = h (passthrough_unicode cfg t w)"
  by (simp_all add: passthrough_rel_def passthrough_abs_def passthrough_scroll_def passthrough_hscroll_def
      passthrough_unicode_def geometry upd_ctx [OF take] at_once split: option.split)

lemma button: "passthrough_button cfg L now i r b (h w) = h (passthrough_button cfg L now i r b w)"
proof -
  define known where "known \<longleftrightarrow> 0 < unat b \<and> unat b < length (iw_mouse_press w)"
  define rest where "rest = (\<lambda>w1.
      if b = BUTTON_LEFT L \<and> r \<and> ic_left_timeout (iw_ctx w1 i) = Enable_Left_Delay then
        (case push_delayed (now + ms 10) (Release_Left i) w1 of
           (w2, k) \<Rightarrow> upd_ctx i (\<lambda>c. c\<lparr>ic_left_timeout := Left_Task k\<rparr>) w2)
      else if b = BUTTON_RIGHT L \<and> \<not> r \<and> delayed (ic_left_timeout (iw_ctx w1 i)) then
        (emit (P_Button_Mouse b True) (emit (P_Button_Mouse b False) w1))
          \<lparr>iw_mouse_press := (iw_mouse_press (emit (P_Button_Mouse b True) (emit (P_Button_Mouse b False) w1)))[unat b := False]\<rparr>
      else emit (P_Button_Mouse b r) w1)"
  have r: "rest (h v) = h (rest v)" for v by (simp add: rest_def at_once)
  have e: "passthrough_button cfg L now i r b v =
      (if \<not> in_mouse cfg then v else if known \<and> iw_mouse_press v ! unat b \<noteq> r then v
       else rest (if known then v\<lparr>iw_mouse_press := (iw_mouse_press v)[unat b := \<not> r]\<rparr> else v))"
    if "length (iw_mouse_press v) = length (iw_mouse_press w)" for v
    unfolding passthrough_button_def Let_def rest_def known_def that ..
  show ?thesis unfolding e [of w, OF refl] e [of "h w", simplified reads, OF refl] by (simp add: r reads writes)
qed

lemma alloc: "alloc_gamepad env i n r t c b (h w) =
    (h (fst (alloc_gamepad env i n r t c b w)), snd (alloc_gamepad env i n r t c b w))"
  by (simp add: alloc_gamepad_def gamepads at_once split: option.split)

lemma pads:
  "free_gamepad x (h w) = h (free_gamepad x w)"
  "home_timer cfg now i n old new (h w) = h (home_timer cfg now i n old new w)"
  "to_gamepad cfg i c e (h w) = h (to_gamepad cfg i c e w)"
  by (simp_all add: free_gamepad_def home_timer_def to_gamepad_def gamepads at_once split: option.split)

lemma update: "update_gamepad cfg now i n s (h w) = h (update_gamepad cfg now i n s w)"
  by (simp add: update_gamepad_def pads gamepads at_once)

lemma passthrough: "passthrough cfg L F env now i p (h w) = h (passthrough cfg L F env now i p w)"
proof -
  have "passthrough_multi cfg env now i m (h w) = h (passthrough_multi cfg env now i m w)" for m
    by (simp add: passthrough_multi_def alloc update pads gamepads at_once)
  moreover have "passthrough_touch cfg L F i t (h w) = h (passthrough_touch cfg L F i t w)" for t
    by (simp add: passthrough_touch_def upd_ctx [OF take] geometry steps split_beta Let_def split: option.split)
  moreover have "passthrough_pen cfg L F i t (h w) = h (passthrough_pen cfg L F i t w)" for t
    by (simp add: passthrough_pen_def upd_ctx [OF take] geometry steps split_beta Let_def split: option.split)
  moreover have "passthrough_arrival cfg env i n t c b (h w) = h (passthrough_arrival cfg env i n t c b w)" for n t c b
    by (simp add: passthrough_arrival_def alloc gamepads at_once)
  ultimately show ?thesis
    by (simp add: passthrough_def passthrough_controller_touch_def mouse button keyboard pads
        passthrough_controller_motion_def passthrough_controller_battery_def split: packet.split)
qed

lemma passthrough_all: "fold (passthrough cfg L F env now i) ps (h w) = h (fold (passthrough cfg L F env now i) ps w)"
  by (induction ps arbitrary: w) (simp_all add: passthrough)

end

text \<open>The calls made so far, and the messages that wait.\<close>

definition after_calls :: "platf_event list \<Rightarrow> input_world \<Rightarrow> input_world" where
  "after_calls es w = w\<lparr>iw_events := es @ iw_events w\<rparr>"

definition requeue :: "nat \<Rightarrow> packet list \<Rightarrow> input_world \<Rightarrow> input_world" where
  "requeue i qs = upd_ctx i (\<lambda>c. c\<lparr>ic_queue := qs\<rparr>)"

interpretation calls: unseen "after_calls es"
  by unfold_locales
    (simp_all add: after_calls_def emit_def upd_ctx_def cancel_task_def push_delayed_def)

lemma requeue_upd_ctx: "keeps_queue f \<Longrightarrow> upd_ctx j f (requeue i qs w) = requeue i qs (upd_ctx j f w)"
  by (cases "i = j") (simp_all add: requeue_def upd_ctx_def keeps_queue_def fun_upd_twist [of i j])

interpretation waiting: unseen "requeue i qs"
proof
  show "keeps_queue f \<Longrightarrow> upd_ctx j f (requeue i qs w) = requeue i qs (upd_ctx j f w)" for f j w
    by (rule requeue_upd_ctx)
qed (simp_all add: requeue_def emit_def upd_ctx_def cancel_task_def push_delayed_def)

lemma after_calls_quietly: "after_calls (iw_events w) (quietly w) = w"
  by (simp add: after_calls_def quietly_def)

lemma passthrough_same_world:
  assumes "same_world L w w'"
  shows "same_world L (passthrough cfg L F env now i p w) (passthrough cfg L F env now i p w')"
proof -
  let ?v = "passthrough cfg L F env now i p (quietly w)"
  have e: "passthrough cfg L F env now i p w = after_calls (iw_events w) ?v"
    "passthrough cfg L F env now i p w' = after_calls (iw_events w') ?v"
    using calls.passthrough [of cfg L F env now i p "iw_events w" "quietly w"] assms
      calls.passthrough [of cfg L F env now i p "iw_events w'" "quietly w'"]
    by (simp_all add: after_calls_quietly same_world_def)
  show ?thesis using assms same_calls_append
    by (simp add: e same_world_def after_calls_def quietly_def)
qed

section \<open>Packets that set a state\<close>

text \<open>
  Such a packet changes the context of its client by \<open>h\<close> and makes the calls \<open>ev\<close> of the context it
  leaves behind.
\<close>

definition act :: "nat \<Rightarrow> (input_ctx \<Rightarrow> input_ctx) \<Rightarrow> (input_ctx \<Rightarrow> platf_event list) \<Rightarrow> input_world \<Rightarrow> input_world" where
  "act i h ev w = fold emit (ev (h (iw_ctx w i))) (upd_ctx i h w)"

lemma fold_emit_ctx [simp]: "iw_ctx (fold emit es w) = iw_ctx w"
  by (induction es arbitrary: w) (simp_all add: emit_def)

lemma upd_ctx_emit [simp]: "upd_ctx i h (fold emit es w) = fold emit es (upd_ctx i h w)"
proof (induction es arbitrary: w)
  case (Cons e es)
  have "upd_ctx i h (emit e w) = emit e (upd_ctx i h w)" by (simp add: upd_ctx_def emit_def)
  then show ?case using Cons by simp
qed simp

lemma upd_ctx_twice: "upd_ctx i h (upd_ctx i g w) = upd_ctx i (\<lambda>c. h (g c)) w"
  by (simp add: upd_ctx_def)

lemma upd_ctx_at [simp]: "iw_ctx (upd_ctx i h w) i = h (iw_ctx w i)"
  by (simp add: upd_ctx_def)

lemma upd_ctx_cong: "h (iw_ctx w i) = g (iw_ctx w i) \<Longrightarrow> upd_ctx i h w = upd_ctx i g w"
  by (simp add: upd_ctx_def)

lemma upd_ctx_id [simp]: "upd_ctx i (\<lambda>c. c) w = w"
  by (simp add: upd_ctx_def)

lemma act_ctx [simp]: "iw_ctx (act i h ev w) i = h (iw_ctx w i)"
  by (simp add: act_def)

lemma act_act:
  "act i h ev (act i g fv w) =
     fold emit (fv (g (iw_ctx w i)) @ ev (h (g (iw_ctx w i)))) (upd_ctx i (\<lambda>c. h (g c)) w)"
  by (simp add: act_def upd_ctx_twice)

lemma quietly_fold [simp]: "quietly (fold emit es w) = quietly w"
  by (induction es arbitrary: w) (simp_all add: quietly_def emit_def)

lemma upd_ctx_events [simp]: "iw_events (upd_ctx i h w) = iw_events w"
  by (simp add: upd_ctx_def)

lemma act_absorb:
  assumes "h (g (iw_ctx w i)) = h (iw_ctx w i)" "ev (h (iw_ctx w i)) = es" "fv (g (iw_ctx w i)) = fs"
    and "fs = [] \<or> (\<exists>e e'. fs = [e] \<and> es = [e'] \<and> supersedes L e' e)"
  shows "same_world L (act i h ev w) (act i h ev (act i g fv w))"
proof -
  have u: "upd_ctx i (\<lambda>c. h (g c)) w = upd_ctx i h w" by (rule upd_ctx_cong) (rule assms(1))
  have "same_calls L (iw_events w @ es) (iw_events w @ fs @ es)"
    using assms(4) Drop [of L _ _ "iw_events w" "[]"] by (auto intro: Same Sym)
  then show ?thesis unfolding act_act unfolding act_def u assms(1-3) by (simp add: same_world_def)
qed

lemma act_commute:
  assumes "h (g (iw_ctx w i)) = g (h (iw_ctx w i))" "ev (h (g (iw_ctx w i))) = ev (h (iw_ctx w i))"
    "fv (g (h (iw_ctx w i))) = fv (g (iw_ctx w i))"
    and "\<forall>e\<in>set (fv (g (iw_ctx w i))). \<forall>e'\<in>set (ev (h (iw_ctx w i))). independent L e e'"
    and "length (fv (g (iw_ctx w i))) \<le> 1" "length (ev (h (iw_ctx w i))) \<le> 1"
  shows "same_world L (act i h ev (act i g fv w)) (act i g fv (act i h ev w))"
proof -
  define es fs where "es = ev (h (iw_ctx w i))" and "fs = fv (g (iw_ctx w i))"
  have u: "upd_ctx i (\<lambda>c. h (g c)) w = upd_ctx i (\<lambda>c. g (h c)) w" by (rule upd_ctx_cong) (rule assms(1))
  have "same_calls L (iw_events w @ fs @ es) (iw_events w @ es @ fs)"
  proof (cases "fs = [] \<or> es = []")
    case True
    then show ?thesis by (auto intro: Same)
  next
    case False
    then obtain e e' where "fs = [e]" "es = [e']" using assms(5,6) unfolding es_def fs_def
      by (metis One_nat_def le_Suc_eq le_zero_eq length_0_conv length_Suc_conv)
    then show ?thesis using Swap [of L e e' "iw_events w" "[]"] assms(4) by (simp add: es_def fs_def)
  qed
  then show ?thesis unfolding act_act u assms(2,3) es_def [symmetric] fs_def [symmetric] by (simp add: same_world_def)
qed

text \<open>The forms.\<close>

definition enable_left :: "input_ctx \<Rightarrow> input_ctx" where
  "enable_left = (\<lambda>c. if ic_left_timeout c = Disable_Left_Delay then c\<lparr>ic_left_timeout := Enable_Left_Delay\<rparr> else c)"

definition abs_ctx :: "input_t \<Rightarrow> 16 word \<Rightarrow> 16 word \<Rightarrow> input_ctx \<Rightarrow> input_ctx" where
  "abs_ctx cfg width height c =
     (if \<not> in_mouse cfg then c
      else if width = 0 \<or> height = 0 then enable_left c else take_touch_port (enable_left c))"

definition abs_events ::
  "input_t \<Rightarrow> fpu \<Rightarrow> 16 word \<Rightarrow> 16 word \<Rightarrow> 16 word \<Rightarrow> 16 word \<Rightarrow> input_ctx \<Rightarrow> platf_event list" where
  "abs_events cfg F x y width height c =
     (if \<not> in_mouse cfg \<or> width = 0 \<or> height = 0 then []
      else case client_to_touchport F (f_int F (sint x), f_int F (sint y)) (f_int F (sint width), f_int F (sint height)) c of
             None \<Rightarrow> []
           | Some (px, py) \<Rightarrow>
               let t = ic_touch_port c; logical = tp_env_logical_width t \<noteq> 0 \<and> tp_env_logical_height t \<noteq> 0
               in [P_Abs_Mouse \<lparr>ap_offset_x = tp_offset_x t, ap_offset_y = tp_offset_y t,
                     ap_width = (if logical then tp_env_logical_width t else tp_env_width t),
                     ap_height = (if logical then tp_env_logical_height t else tp_env_height t)\<rparr> px py])"

lemma abs_ctx_eq:
  "\<not> in_mouse cfg \<Longrightarrow> abs_ctx cfg wi he = (\<lambda>c. c)"
  "in_mouse cfg \<Longrightarrow> wi = 0 \<or> he = 0 \<Longrightarrow> abs_ctx cfg wi he = enable_left"
  "in_mouse cfg \<Longrightarrow> wi \<noteq> 0 \<Longrightarrow> he \<noteq> 0 \<Longrightarrow> abs_ctx cfg wi he = (\<lambda>c. take_touch_port (enable_left c))"
  by (auto simp: abs_ctx_def fun_eq_iff)

lemma abs_act: "passthrough_abs cfg F i x y wi he w = act i (abs_ctx cfg wi he) (abs_events cfg F x y wi he) w"
proof (cases "in_mouse cfg \<and> wi \<noteq> 0 \<and> he \<noteq> 0")
  case True
  then show ?thesis
    by (auto simp: passthrough_abs_def act_def abs_ctx_eq abs_events_def Let_def upd_ctx_twice simp flip: enable_left_def split: option.split)
next
  case False
  then show ?thesis
    by (cases "in_mouse cfg") (auto simp: passthrough_abs_def act_def abs_ctx_eq abs_events_def Let_def simp flip: enable_left_def)
qed

definition touch_ctx :: "input_t \<Rightarrow> input_ctx \<Rightarrow> input_ctx" where
  "touch_ctx cfg c = (if \<not> in_mouse cfg then c else take_touch_port c)"

lemma touch_ctx_eq: "\<not> in_mouse cfg \<Longrightarrow> touch_ctx cfg = (\<lambda>c. c)" "in_mouse cfg \<Longrightarrow> touch_ctx cfg = take_touch_port"
  by (simp_all add: touch_ctx_def fun_eq_iff)

definition touch_events :: "input_t \<Rightarrow> limelight \<Rightarrow> fpu \<Rightarrow> nat \<Rightarrow> touch_packet \<Rightarrow> input_ctx \<Rightarrow> platf_event list" where
  "touch_events cfg L F i p c =
     (if \<not> in_mouse cfg then []
      else case touch_geometry L F c (to_x p, to_y p) (to_rotation p) (to_contactAreaMajor p, to_contactAreaMinor p) of
             None \<Rightarrow> []
           | Some (port, (px, py), rot, (major, minor)) \<Rightarrow>
               [P_Touch_Update i port
                 \<lparr>ti_eventType = to_eventType p, ti_rotation = rot, ti_pointerId = to_pointerId p, ti_x = px, ti_y = py,
                  ti_pressureOrDistance = from_clamped_netfloat F (to_pressureOrDistance p),
                  ti_contactAreaMajor = major, ti_contactAreaMinor = minor\<rparr>])"

definition pen_events :: "input_t \<Rightarrow> limelight \<Rightarrow> fpu \<Rightarrow> nat \<Rightarrow> pen_packet \<Rightarrow> input_ctx \<Rightarrow> platf_event list" where
  "pen_events cfg L F i p c =
     (if \<not> in_mouse cfg then []
      else case touch_geometry L F c (pe_x p, pe_y p) (pe_rotation p) (pe_contactAreaMajor p, pe_contactAreaMinor p) of
             None \<Rightarrow> []
           | Some (port, (px, py), rot, (major, minor)) \<Rightarrow>
               [P_Pen_Update i port
                 \<lparr>pi_eventType = pe_eventType p, pi_toolType = pe_toolType p, pi_penButtons = pe_penButtons p,
                  pi_tilt = pe_tilt p, pi_rotation = rot, pi_x = px, pi_y = py,
                  pi_pressureOrDistance = from_clamped_netfloat F (pe_pressureOrDistance p),
                  pi_contactAreaMajor = major, pi_contactAreaMinor = minor\<rparr>])"

lemma touch_act: "passthrough_touch cfg L F i p w = act i (touch_ctx cfg) (touch_events cfg L F i p) w"
  by (cases "in_mouse cfg") (auto simp: passthrough_touch_def act_def touch_ctx_eq touch_events_def Let_def split: option.split)

lemma pen_act: "passthrough_pen cfg L F i p w = act i (touch_ctx cfg) (pen_events cfg L F i p) w"
  by (cases "in_mouse cfg") (auto simp: passthrough_pen_def act_def touch_ctx_eq pen_events_def Let_def split: option.split)

definition pad_events :: "input_t \<Rightarrow> 8 word \<Rightarrow> (int \<Rightarrow> platf_event) \<Rightarrow> input_ctx \<Rightarrow> platf_event list" where
  "pad_events cfg controllerNumber e c =
     (let n = unat controllerNumber
      in if \<not> in_controller cfg \<or> n \<ge> length (ic_gamepads c) \<or> gp_id (ic_gamepads c ! n) < 0 then []
         else [e (gp_id (ic_gamepads c ! n))])"

lemma pad_act: "to_gamepad cfg i controllerNumber e w = act i (\<lambda>c. c) (pad_events cfg controllerNumber e) w"
  by (simp add: to_gamepad_def act_def pad_events_def Let_def gamepad_at_def)

definition multi_pad :: "multi_controller_packet \<Rightarrow> gamepad \<Rightarrow> gamepad" where
  "multi_pad p g =
     (let (forced, flags) = force_back (gp_back_button_state g) (gs_buttonFlags (packet_gamepad_state p))
      in g\<lparr>gp_back_button_state := forced, gp_state := (packet_gamepad_state p)\<lparr>gs_buttonFlags := flags\<rparr>\<rparr>)"

definition multi_there :: "input_t \<Rightarrow> multi_controller_packet \<Rightarrow> input_ctx \<Rightarrow> bool" where
  "multi_there cfg p c \<longleftrightarrow> in_controller cfg \<and> 0 \<le> sint (mc_controllerNumber p) \<and>
     nat (sint (mc_controllerNumber p)) < length (ic_gamepads c) \<and>
     0 \<le> gp_id (ic_gamepads c ! nat (sint (mc_controllerNumber p)))"

definition multi_ctx :: "input_t \<Rightarrow> multi_controller_packet \<Rightarrow> input_ctx \<Rightarrow> input_ctx" where
  "multi_ctx cfg p c =
     (let n = nat (sint (mc_controllerNumber p))
      in if multi_there cfg p c then c\<lparr>ic_gamepads := (ic_gamepads c)[n := multi_pad p (ic_gamepads c ! n)]\<rparr> else c)"

definition multi_events :: "input_t \<Rightarrow> multi_controller_packet \<Rightarrow> input_ctx \<Rightarrow> platf_event list" where
  "multi_events cfg p c =
     (let g = ic_gamepads c ! nat (sint (mc_controllerNumber p))
      in if multi_there cfg p c then [P_Gamepad_Update (gp_id g) (gp_state g)] else [])"

text \<open>The gamepads of a client when no home button is emulated and the ids are its own.\<close>

definition calm :: "input_t \<Rightarrow> input_ctx \<Rightarrow> bool" where
  "calm cfg c \<longleftrightarrow> in_back_button_timeout cfg < 0 \<and> (\<forall>g\<in>set (ic_gamepads c). gp_back_timeout_id g = None) \<and>
     (\<forall>n<length (ic_gamepads c). \<forall>m<length (ic_gamepads c). n \<noteq> m \<longrightarrow> 0 \<le> gp_id (ic_gamepads c ! n) \<longrightarrow>
        gp_id (ic_gamepads c ! n) \<noteq> gp_id (ic_gamepads c ! m))"

definition plugged :: "16 word \<Rightarrow> input_ctx \<Rightarrow> bool" where
  "plugged gm c \<longleftrightarrow> (\<forall>n<length (ic_gamepads c). bit gm n \<longleftrightarrow> 0 \<le> gp_id (ic_gamepads c ! n))"

lemma multi_pad_simps [simp]: "gp_id (multi_pad p g) = gp_id g" "gp_back_timeout_id (multi_pad p g) = gp_back_timeout_id g"
  by (simp_all add: multi_pad_def split: prod.split)

lemma home_timer_calm:
  assumes "in_back_button_timeout cfg < 0" "gp_back_timeout_id (gamepad_at i n w) = None"
  shows "home_timer cfg now i n old new w = w"
  using assms by (simp add: home_timer_def)

lemma upd_gamepad_ctx: "upd_gamepad i n f (upd_gamepad i n g w) = upd_gamepad i n (\<lambda>x. f (g x)) w" if "n < length (ic_gamepads (iw_ctx w i))"
  using that by (simp add: upd_gamepad_def upd_ctx_def)

lemma multi_act:
  assumes "calm cfg (iw_ctx w i)" "plugged (mc_activeGamepadMask p) (iw_ctx w i)"
  shows "passthrough_multi cfg env now i p w = act i (multi_ctx cfg p) (multi_events cfg p) w"
proof (cases "multi_there cfg p (iw_ctx w i)")
  case True
  define n where "n = nat (sint (mc_controllerNumber p))"
  define g where "g = ic_gamepads (iw_ctx w i) ! n"
  have n: "in_controller cfg" "0 \<le> sint (mc_controllerNumber p)" "n < length (ic_gamepads (iw_ctx w i))" "0 \<le> gp_id g"
    using True by (simp_all add: multi_there_def n_def g_def)
  have b: "bit (mc_activeGamepadMask p) n" using assms(2) n(3,4) by (simp add: plugged_def g_def)
  obtain forced flags where f: "force_back (gp_back_button_state g) (gs_buttonFlags (packet_gamepad_state p)) = (forced, flags)"
    by (cases "force_back (gp_back_button_state g) (gs_buttonFlags (packet_gamepad_state p))")
  let ?w = "upd_gamepad i n (\<lambda>g. g\<lparr>gp_back_button_state := forced\<rparr>) w"
  have "gp_back_timeout_id g = None" using assms(1) n(3) by (simp add: calm_def g_def)
  then have t: "home_timer cfg now i n old new ?w = ?w" for old new
    using assms(1) n(3) by (intro home_timer_calm) (simp_all add: calm_def gamepad_at_def upd_gamepad_def upd_ctx_def g_def)
  have "passthrough_multi cfg env now i p w = update_gamepad cfg now i n (packet_gamepad_state p) w"
    using n b by (simp add: passthrough_multi_def Let_def gamepad_at_def flip: n_def g_def)
  also have "\<dots> = act i (multi_ctx cfg p) (multi_events cfg p) w"
  proof -
    have th: "multi_there cfg p (multi_ctx cfg p (iw_ctx w i))"
      using True by (simp add: multi_there_def multi_ctx_def Let_def)
    show ?thesis using n f t True th
      by (simp add: update_gamepad_def Let_def gamepad_at_def act_def multi_events_def multi_ctx_def emit_def upd_gamepad_def
          upd_ctx_def multi_pad_def flip: n_def g_def)
  qed
  finally show ?thesis .
next
  case False
  have "passthrough_multi cfg env now i p w = w"
    using False assms(2) by (auto simp: passthrough_multi_def Let_def multi_there_def gamepad_at_def plugged_def not_le)
  then show ?thesis using False by (simp add: act_def multi_ctx_def multi_events_def Let_def upd_ctx_def)
qed


section \<open>Every batched packet is one of these forms\<close>

lemma take_touch_port_twice [simp]: "take_touch_port (take_touch_port c) = take_touch_port c"
  by (simp add: take_touch_port_def split: option.split)

lemma enable_left_twice [simp]: "enable_left (enable_left c) = enable_left c"
  by (simp add: enable_left_def)

lemma enable_take: "enable_left (take_touch_port c) = take_touch_port (enable_left c)"
  by (simp add: enable_left_def take_touch_port_def split: option.split)

lemma abs_ctx_twice [simp]: "abs_ctx cfg wi he (abs_ctx cfg wi he c) = abs_ctx cfg wi he c"
  by (simp add: abs_ctx_def enable_take)

lemma touch_ctx_twice [simp]: "touch_ctx cfg (touch_ctx cfg c) = touch_ctx cfg c"
  by (simp add: touch_ctx_def)

lemma supersedes_abs: "supersedes L (P_Abs_Mouse a b c) (P_Abs_Mouse d e f)"
  by (simp add: supersedes_def)

lemma batch_cases:
  assumes "batch L p q = r"
  obtains (Rel) dx dy sx sy where "p = Mouse_Move_Rel dx dy" "q = Mouse_Move_Rel sx sy" "batch_rel dx dy sx sy = r"
  | (Abs) dx dy sx sy wi he where "p = Mouse_Move_Abs dx dy wi he" "q = Mouse_Move_Abs sx sy wi he"
      "r = Batched (Mouse_Move_Abs sx sy wi he)"
  | (S) d s where "p = Scroll d" "q = Scroll s" "batch_amount Scroll d s = r"
  | (H) d s where "p = HScroll d" "q = HScroll s" "batch_amount HScroll d s = r"
  | (Multi) d s where "p = Multi_Controller d" "q = Multi_Controller s" "batch_multi d s = r"
  | (T) d s where "p = Touch d" "q = Touch s" "batch_touch L d s = r"
  | (P) d s where "p = Pen d" "q = Pen s" "batch_pen L d s = r"
  | (CT) d s where "p = Controller_Touch d" "q = Controller_Touch s" "batch_controller_touch L d s = r"
  | (CM) d s where "p = Controller_Motion d" "q = Controller_Motion s" "batch_controller_motion d s = r"
  | (End) "r = Terminate_Batch"
proof (cases "r = Terminate_Batch")
  case True
  then show thesis by (rule End)
next
  case False
  note r = this assms
  show thesis
  proof (cases p)
    case p: (Mouse_Move_Rel dx dy)
    then obtain sx sy where "q = Mouse_Move_Rel sx sy" using r by (cases q) (simp_all add: batch_def)
    then show thesis using p Rel r by (simp add: batch_def split: if_splits)
  next
    case p: (Mouse_Move_Abs dx dy wi he)
    then obtain sx sy sw sh where "q = Mouse_Move_Abs sx sy sw sh" using r by (cases q) (simp_all add: batch_def)
    then show thesis using p Abs r by (simp add: batch_def split: if_splits)
  next
    case p: (Scroll d)
    then obtain s where "q = Scroll s" using r by (cases q) (simp_all add: batch_def)
    then show thesis using p S r by (simp add: batch_def split: if_splits)
  next
    case p: (HScroll d)
    then obtain s where "q = HScroll s" using r by (cases q) (simp_all add: batch_def)
    then show thesis using p H r by (simp add: batch_def split: if_splits)
  next
    case p: (Multi_Controller d)
    then obtain s where "q = Multi_Controller s" using r by (cases q) (simp_all add: batch_def)
    then show thesis using p Multi r by (simp add: batch_def split: if_splits)
  next
    case p: (Touch d)
    then obtain s where "q = Touch s" using r by (cases q) (simp_all add: batch_def)
    then show thesis using p T r by (simp add: batch_def split: if_splits)
  next
    case p: (Pen d)
    then obtain s where "q = Pen s" using r by (cases q) (simp_all add: batch_def)
    then show thesis using p P r by (simp add: batch_def split: if_splits)
  next
    case p: (Controller_Touch d)
    then obtain s where "q = Controller_Touch s" using r by (cases q) (simp_all add: batch_def)
    then show thesis using p CT r by (simp add: batch_def split: if_splits)
  next
    case p: (Controller_Motion d)
    then obtain s where "q = Controller_Motion s" using r by (cases q) (simp_all add: batch_def)
    then show thesis using p CM r by (simp add: batch_def split: if_splits)
  qed (use r in \<open>simp_all add: batch_def\<close>)
qed

definition fit :: "input_t \<Rightarrow> nat \<Rightarrow> packet \<Rightarrow> input_world \<Rightarrow> bool" where
  "fit cfg i p w \<longleftrightarrow> calm cfg (iw_ctx w i) \<and>
     (case p of Mouse_Move_Rel _ _ \<Rightarrow> False | Scroll _ \<Rightarrow> False | HScroll _ \<Rightarrow> False
      | Multi_Controller m \<Rightarrow> plugged (mc_activeGamepadMask m) (iw_ctx w i) | _ \<Rightarrow> True)"

text \<open>Gamepads.\<close>

lemma multi_there_ctx [simp]:
  "multi_there cfg p (multi_ctx cfg q c) = multi_there cfg p c"
  by (auto simp: multi_there_def multi_ctx_def Let_def nth_list_update)

lemma pressed_BACK: "pressed BACK flags \<longleftrightarrow> bit flags 5"
proof -
  have b: "BACK = 2 ^ 5" by (simp add: BACK_def)
  show ?thesis unfolding pressed_def b and.commute [of "2 ^ 5"] by (simp only: and_exp_eq_0_iff_not_bit not_not)
qed

lemma BACK_released: "\<not> pressed BACK flags \<Longrightarrow> flags AND NOT BACK = flags"
  and BACK_held: "pressed BACK flags \<Longrightarrow> flags OR BACK = flags"
proof -
  have "bit BACK k \<longleftrightarrow> k = 5" for k by (auto simp: BACK_def bit_exp_iff [of 5 k, simplified])
  then show "\<not> pressed BACK flags \<Longrightarrow> flags AND NOT BACK = flags" "pressed BACK flags \<Longrightarrow> flags OR BACK = flags"
    unfolding pressed_BACK by (intro bit_word_eqI; auto simp: bit_simps)+
qed

lemma force_back_twice:
  "force_back (fst (force_back b flags)) flags = force_back b flags"
  by (auto simp: force_back_def BACK_released BACK_held split: button_state_e.split)


lemma multi_pad_absorb:
  assumes "gs_buttonFlags (packet_gamepad_state d) = gs_buttonFlags (packet_gamepad_state s)"
  shows "multi_pad s (multi_pad d g) = multi_pad s g"
    and "gs_buttonFlags (gp_state (multi_pad d g)) = gs_buttonFlags (gp_state (multi_pad s g))"
  using force_back_twice [of "gp_back_button_state g" "gs_buttonFlags (packet_gamepad_state s)"] assms
  by (auto simp: multi_pad_def split: prod.splits)

lemma multi_absorb:
  assumes "batch_multi d s = Batched q"
  shows "same_world L (act i (multi_ctx cfg s) (multi_events cfg s) w)
    (act i (multi_ctx cfg s) (multi_events cfg s) (act i (multi_ctx cfg d) (multi_events cfg d) w))"
proof -
  have n: "mc_controllerNumber d = mc_controllerNumber s"
    and f: "gs_buttonFlags (packet_gamepad_state d) = gs_buttonFlags (packet_gamepad_state s)"
    using assms by (auto simp: batch_multi_def packet_gamepad_state_def split: if_splits)
  have t: "multi_there cfg d = multi_there cfg s" by (simp add: fun_eq_iff multi_there_def n)
  let ?c = "iw_ctx w i"
  show ?thesis
  proof (rule act_absorb [OF _ refl refl])
    show "multi_ctx cfg s (multi_ctx cfg d ?c) = multi_ctx cfg s ?c"
      by (auto simp: multi_ctx_def [of _ d] multi_ctx_def [of _ s] Let_def t n multi_pad_absorb [OF f] multi_there_def
          nth_list_update)
    show "multi_events cfg d (multi_ctx cfg d ?c) = [] \<or>
        (\<exists>e e'. multi_events cfg d (multi_ctx cfg d ?c) = [e] \<and>
           multi_events cfg s (multi_ctx cfg s ?c) = [e'] \<and> supersedes L e' e)"
      using multi_pad_absorb(2) [OF f]
      by (auto simp: multi_events_def multi_ctx_def Let_def t n multi_there_def nth_list_update supersedes_def)
  qed
qed


lemma calm_ids:
  assumes "calm cfg c" "n < length (ic_gamepads c)" "m < length (ic_gamepads c)" "n \<noteq> m" "0 \<le> gp_id (ic_gamepads c ! n)"
  shows "gp_id (ic_gamepads c ! n) \<noteq> gp_id (ic_gamepads c ! m)"
  using assms by (auto simp: calm_def)

lemma multi_ctx_on:
  "multi_there cfg p c \<Longrightarrow> multi_ctx cfg p c =
     c\<lparr>ic_gamepads := (ic_gamepads c)[nat (sint (mc_controllerNumber p)) :=
        multi_pad p (ic_gamepads c ! nat (sint (mc_controllerNumber p)))]\<rparr>"
  "\<not> multi_there cfg p c \<Longrightarrow> multi_ctx cfg p c = c"
  by (simp_all add: multi_ctx_def Let_def)

lemma multi_ctx_swap:
  assumes "nat (sint (mc_controllerNumber d)) \<noteq> nat (sint (mc_controllerNumber s))"
  shows "multi_ctx cfg s (multi_ctx cfg d c) = multi_ctx cfg d (multi_ctx cfg s c)"
proof (cases "multi_there cfg d c \<and> multi_there cfg s c")
  case True
  then have t: "multi_there cfg d c" "multi_there cfg s c" "multi_there cfg s (multi_ctx cfg d c)"
    "multi_there cfg d (multi_ctx cfg s c)" by simp_all
  note sd = multi_ctx_on(1) [OF t(3)] and ds = multi_ctx_on(1) [OF t(4)]
  show ?thesis unfolding sd ds
    using assms by (simp add: multi_ctx_on(1) [OF t(1)] multi_ctx_on(1) [OF t(2)] list_update_swap)
next
  case False
  then show ?thesis by (auto simp: multi_ctx_on)
qed

lemma multi_events_swap:
  assumes "nat (sint (mc_controllerNumber d)) \<noteq> nat (sint (mc_controllerNumber s))"
  shows "multi_events cfg s (multi_ctx cfg d c) = multi_events cfg s c"
  using assms by (cases "multi_there cfg d c") (simp_all add: multi_events_def multi_ctx_on multi_there_def Let_def)

lemma multi_pads_other:
  assumes "nat (sint (mc_controllerNumber d)) \<noteq> n"
  shows "ic_gamepads (multi_ctx cfg d c) ! n = ic_gamepads c ! n"
  using assms by (cases "multi_there cfg d c") (simp_all add: multi_ctx_on)

lemma multi_events_there:
  "multi_events cfg p (multi_ctx cfg p c) =
     (if multi_there cfg p c
      then [P_Gamepad_Update (gp_id (ic_gamepads c ! nat (sint (mc_controllerNumber p))))
              (gp_state (multi_pad p (ic_gamepads c ! nat (sint (mc_controllerNumber p)))))]
      else [])"
  by (auto simp: multi_events_def multi_ctx_on Let_def) (auto simp: multi_there_def)

lemma multi_commute:
  assumes "calm cfg (iw_ctx w i)" "mc_controllerNumber d \<noteq> mc_controllerNumber s"
  shows "same_world L (act i (multi_ctx cfg s) (multi_events cfg s) (act i (multi_ctx cfg d) (multi_events cfg d) w))
    (act i (multi_ctx cfg d) (multi_events cfg d) (act i (multi_ctx cfg s) (multi_events cfg s) w))"
proof -
  let ?c = "iw_ctx w i"
  let ?n = "nat (sint (mc_controllerNumber d))" and ?m = "nat (sint (mc_controllerNumber s))"
  have diff: "sint (mc_controllerNumber d) \<noteq> sint (mc_controllerNumber s)" using assms(2) signed_word_eqI by blast
  show ?thesis
  proof (cases "multi_there cfg d ?c \<and> multi_there cfg s ?c")
    case True
    then have nm: "?n \<noteq> ?m" and l: "?n < length (ic_gamepads ?c)" "?m < length (ic_gamepads ?c)" "0 \<le> gp_id (ic_gamepads ?c ! ?n)"
      using diff by (simp_all add: multi_there_def eq_nat_nat_iff)
    show ?thesis
    proof (rule act_commute)
      show "\<forall>e\<in>set (multi_events cfg d (multi_ctx cfg d ?c)). \<forall>e'\<in>set (multi_events cfg s (multi_ctx cfg s ?c)).
          independent L e e'"
        using calm_ids [OF assms(1) l(1,2) nm l(3)] by (simp add: multi_events_there independent_def pad_of_def)
    qed (simp_all add: multi_ctx_swap multi_events_swap multi_events_there multi_pads_other nm nm [symmetric])
  next
    case False
    have off: "act i (multi_ctx cfg p) (multi_events cfg p) v = v" if "\<not> multi_there cfg p (iw_ctx v i)" for p v
      using that by (simp add: act_def multi_ctx_on multi_events_def Let_def upd_ctx_def)
    from False show ?thesis by (auto simp: off)
  qed
qed

text \<open>Touch, and what goes to a gamepad that is there.\<close>

lemma touch_commute:
  assumes "batch_touch L d s = Not_Batchable"
  shows "same_world L (act i (touch_ctx cfg) (touch_events cfg L F i s) (act i (touch_ctx cfg) (touch_events cfg L F i d) w))
    (act i (touch_ctx cfg) (touch_events cfg L F i d) (act i (touch_ctx cfg) (touch_events cfg L F i s) w))"
  using assms
  by (intro act_commute) (auto simp: touch_events_def batch_touch_def independent_def split: if_splits option.splits)

text \<open>Whether there is a geometry depends on the touch port only.\<close>

lemma geometry_None: "touch_geometry L F c xy r ct = None \<longleftrightarrow> touch_geometry L F c xy' r' ct' = None"
  by (simp add: touch_geometry_def client_to_touchport_def monitor_touch_port_def Let_def split_beta)

lemma touch_absorb:
  assumes "batch_touch L d s = Batched q"
  shows "same_world L (act i (touch_ctx cfg) (touch_events cfg L F i s) w)
    (act i (touch_ctx cfg) (touch_events cfg L F i s) (act i (touch_ctx cfg) (touch_events cfg L F i d) w))"
proof -
  have b: "move_or_hover L (to_eventType d)" "to_pointerId d = to_pointerId s" "to_eventType d = to_eventType s"
    using assms by (auto simp: batch_touch_def split: if_splits)
  let ?c = "touch_ctx cfg (iw_ctx w i)"
  have "touch_geometry L F ?c (to_x d, to_y d) (to_rotation d) (to_contactAreaMajor d, to_contactAreaMinor d) = None \<longleftrightarrow>
      touch_geometry L F ?c (to_x s, to_y s) (to_rotation s) (to_contactAreaMajor s, to_contactAreaMinor s) = None"
    by (rule geometry_None)
  then show ?thesis using b
    by (intro act_absorb [OF _ refl refl])
      (auto simp: touch_events_def supersedes_def split: option.split)
qed

lemma pen_absorb:
  assumes "batch_pen L d s = Batched q"
  shows "same_world L (act i (touch_ctx cfg) (pen_events cfg L F i s) w)
    (act i (touch_ctx cfg) (pen_events cfg L F i s) (act i (touch_ctx cfg) (pen_events cfg L F i d) w))"
proof -
  have b: "move_or_hover L (pe_eventType d)" "pe_eventType d = pe_eventType s" "pe_penButtons d = pe_penButtons s"
    "pe_toolType d = pe_toolType s"
    using assms by (auto simp: batch_pen_def split: if_splits)
  let ?c = "touch_ctx cfg (iw_ctx w i)"
  have "touch_geometry L F ?c (pe_x d, pe_y d) (pe_rotation d) (pe_contactAreaMajor d, pe_contactAreaMinor d) = None \<longleftrightarrow>
      touch_geometry L F ?c (pe_x s, pe_y s) (pe_rotation s) (pe_contactAreaMajor s, pe_contactAreaMinor s) = None"
    by (rule geometry_None)
  then show ?thesis using b
    by (intro act_absorb [OF _ refl refl])
      (auto simp: pen_events_def supersedes_def split: option.split)
qed

lemma abs_absorb:
  "same_world L (act i (abs_ctx cfg wi he) (abs_events cfg F sx sy wi he) w)
    (act i (abs_ctx cfg wi he) (abs_events cfg F sx sy wi he) (act i (abs_ctx cfg wi he) (abs_events cfg F dx dy wi he) w))"
  by (intro act_absorb [OF _ refl refl])
    (auto simp: abs_events_def client_to_touchport_def supersedes_def Let_def split_beta split: if_splits)

lemma pad_absorb:
  assumes "\<And>x. supersedes L (e' x) (e x)"
  shows "same_world L (act i (\<lambda>c. c) (pad_events cfg n e') w)
    (act i (\<lambda>c. c) (pad_events cfg n e') (act i (\<lambda>c. c) (pad_events cfg n e) w))"
  using assms by (intro act_absorb [OF _ refl refl]) (auto simp: pad_events_def Let_def)

lemma pad_commute:
  assumes "calm cfg (iw_ctx w i)" "n = m \<Longrightarrow> (\<And>x. independent L (e x) (e' x))"
    and "\<And>x. pad_of (e x) = Some x" "\<And>x. pad_of (e' x) = Some x"
  shows "same_world L (act i (\<lambda>c. c) (pad_events cfg m e') (act i (\<lambda>c. c) (pad_events cfg n e) w))
    (act i (\<lambda>c. c) (pad_events cfg n e) (act i (\<lambda>c. c) (pad_events cfg m e') w))"
proof (rule act_commute)
  let ?c = "iw_ctx w i"
  have "independent L (e x) (e' y)" if "x \<noteq> y" for x y
    using that assms(3,4) by (simp add: independent_def)
  then show "\<forall>f\<in>set (pad_events cfg n e ?c). \<forall>f'\<in>set (pad_events cfg m e' ?c). independent L f f'"
    using assms(2) calm_ids [OF assms(1), of "unat n" "unat m"]
    by (cases "n = m") (auto simp: pad_events_def Let_def word_unat_eq_iff [of n m])
qed (simp_all add: pad_events_def Let_def)

section \<open>The contract holds\<close>

lemma same_calls_sym_iff: "same_world L u v \<Longrightarrow> same_world L v u"
  by (auto simp: same_world_def intro: Sym)

lemma passthrough_act:
  "passthrough cfg L F env now i (Mouse_Move_Abs x y wi he) w = act i (abs_ctx cfg wi he) (abs_events cfg F x y wi he) w"
  "passthrough cfg L F env now i (Touch t) w = act i (touch_ctx cfg) (touch_events cfg L F i t) w"
  "passthrough cfg L F env now i (Pen r) w = act i (touch_ctx cfg) (pen_events cfg L F i r) w"
  "passthrough cfg L F env now i (Controller_Touch c) w = act i (\<lambda>c. c) (pad_events cfg (ct_controllerNumber c)
     (\<lambda>x. P_Gamepad_Touch x (ct_controllerNumber c) (ct_eventType c) (ct_pointerId c)
        (from_clamped_netfloat F (ct_x c)) (from_clamped_netfloat F (ct_y c)) (from_clamped_netfloat F (ct_pressure c)))) w"
  "passthrough cfg L F env now i (Controller_Motion m) w = act i (\<lambda>c. c) (pad_events cfg (cm_controllerNumber m)
     (\<lambda>x. P_Gamepad_Motion x (cm_controllerNumber m) (cm_motionType m) (cm_x m) (cm_y m) (cm_z m))) w"
  by (simp_all add: passthrough_def abs_act touch_act pen_act pad_act passthrough_controller_touch_def
      passthrough_controller_motion_def)


lemma multi_fit:
  "fit cfg i (Multi_Controller d) w \<Longrightarrow>
   passthrough cfg L F env now i (Multi_Controller d) w = act i (multi_ctx cfg d) (multi_events cfg d) w"
  by (simp add: fit_def passthrough_def multi_act)

lemma multi_keeps [simp]: "calm cfg (multi_ctx cfg' d c) = calm cfg c" "plugged gm (multi_ctx cfg' d c) = plugged gm c"
proof -
  let ?n = "nat (sint (mc_controllerNumber d))"
  have id: "gp_id (ic_gamepads (multi_ctx cfg' d c) ! k) = gp_id (ic_gamepads c ! k)" for k
    by (cases "k = ?n") (auto simp: multi_ctx_def Let_def multi_there_def)
  have to: "gp_back_timeout_id (ic_gamepads (multi_ctx cfg' d c) ! k) = gp_back_timeout_id (ic_gamepads c ! k)" for k
    by (cases "k = ?n") (auto simp: multi_ctx_def Let_def multi_there_def)
  have len: "length (ic_gamepads (multi_ctx cfg' d c)) = length (ic_gamepads c)"
    by (simp add: multi_ctx_def Let_def)
  show "calm cfg (multi_ctx cfg' d c) = calm cfg c" "plugged gm (multi_ctx cfg' d c) = plugged gm c"
    by (simp_all add: calm_def plugged_def id to len all_set_conv_all_nth)
qed

lemma touch_keeps [simp]: "calm cfg (touch_ctx cfg' c) = calm cfg c"
  by (simp add: calm_def touch_ctx_def take_touch_port_def split: option.split)

lemma fit_Batched: "fit cfg i p w \<Longrightarrow> batch L p q = Batched p' \<Longrightarrow> fit cfg i p' w \<and> p' = q"
  by (erule batch_cases)
    (auto simp: fit_def batch_rel_def batch_amount_def batch_multi_def batch_touch_def batch_pen_def
      batch_controller_touch_def batch_controller_motion_def split: if_splits)

lemma fit_unbatched:
  assumes "fit cfg i p w" "batch L p q = Not_Batchable"
  shows "fit cfg i p (passthrough cfg L F env now i q w)"
  using assms(2)
proof (cases rule: batch_cases)
  case (Multi d s)
  then have "fit cfg i (Multi_Controller s) w" using assms(1) by (auto simp: fit_def batch_multi_def split: if_splits)
  then show ?thesis using assms(1) by (simp add: Multi multi_fit fit_def)
qed (use assms(1) in \<open>auto simp: fit_def passthrough_act batch_rel_def batch_amount_def batch_pen_def split: if_splits\<close>)

lemma absorb_passthrough:
  assumes "fit cfg i p w" "batch L p q = Batched p'"
  shows "same_world L (passthrough cfg L F env now i p' w)
    (passthrough cfg L F env now i q (passthrough cfg L F env now i p w))"
proof -
  have e: "p' = q" and f: "fit cfg i q w" using fit_Batched [OF assms] by auto
  from assms(2) show ?thesis
  proof (cases rule: batch_cases)
    case (Multi d s)
    have "fit cfg i q (passthrough cfg L F env now i p w)"
      using assms(1) f by (simp add: Multi multi_fit) (simp add: fit_def)
    then show ?thesis using assms(1) f multi_absorb [OF Multi(3)] by (simp add: e Multi multi_fit)
  next
    case (T d s)
    then show ?thesis using touch_absorb by (simp add: e passthrough_act)
  next
    case (P d s)
    then show ?thesis using pen_absorb by (simp add: e passthrough_act)
  next
    case (CT d s)
    then show ?thesis by (auto simp: e passthrough_act batch_controller_touch_def supersedes_def split: if_splits intro!: pad_absorb)
  next
    case (CM d s)
    then show ?thesis by (auto simp: e passthrough_act batch_controller_motion_def supersedes_def split: if_splits intro!: pad_absorb)
  qed (use assms(1) abs_absorb in \<open>simp_all add: e passthrough_act fit_def\<close>)
qed

lemma commute_passthrough:
  assumes "fit cfg i p w" "batch L p q = Not_Batchable"
  shows "same_world L (passthrough cfg L F env now i q (passthrough cfg L F env now i p w))
    (passthrough cfg L F env now i p (passthrough cfg L F env now i q w))"
  using assms(2)
proof (cases rule: batch_cases)
  case (Multi d s)
  then have f: "fit cfg i (Multi_Controller s) w" and n: "mc_controllerNumber d \<noteq> mc_controllerNumber s"
    using assms(1) by (auto simp: fit_def batch_multi_def split: if_splits)
  have "fit cfg i q (passthrough cfg L F env now i p w)"
    using assms(1) f by (simp add: Multi multi_fit) (simp add: fit_def)
  then show ?thesis
    using assms(1) f multi_commute [OF _ n] fit_unbatched [OF assms] by (simp add: Multi multi_fit) (simp add: fit_def)
next
  case (T d s)
  then show ?thesis using touch_commute by (simp add: passthrough_act)
next
  case (CT d s)
  have "calm cfg (iw_ctx w i)" using assms(1) by (simp add: fit_def)
  then show ?thesis using CT
    by (auto simp: passthrough_act batch_controller_touch_def independent_def pad_of_def split: if_splits intro!: pad_commute)
next
  case (CM d s)
  have "calm cfg (iw_ctx w i)" using assms(1) by (simp add: fit_def)
  then show ?thesis using CM
    by (auto simp: passthrough_act batch_controller_motion_def independent_def pad_of_def split: if_splits intro!: pad_commute)
qed (simp_all add: batch_rel_def batch_amount_def batch_pen_def split: if_splits)


lemma partner_batched:
  "batch L p q = Batched p' \<Longrightarrow> batch L p' r = Not_Batchable \<longleftrightarrow> batch L p r = Not_Batchable"
  by (erule batch_cases; cases r)
    (auto simp: batch_def batch_rel_def batch_amount_def batch_multi_def batch_touch_def batch_pen_def
      batch_controller_touch_def batch_controller_motion_def split: if_splits)

interpretation batching: batched_input L "passthrough cfg L F env now i" "same_world L" "fit cfg i"
proof
  fix p q p' s t u
  show "same_world L s s" by simp
  show "same_world L s t \<Longrightarrow> same_world L t u \<Longrightarrow> same_world L s u" by (rule same_world_trans)
  show "same_world L s t \<Longrightarrow> same_world L (passthrough cfg L F env now i p s) (passthrough cfg L F env now i p t)"
    by (rule passthrough_same_world)
  show "fit cfg i p s \<Longrightarrow> batch L p q = Batched p' \<Longrightarrow> same_world L (passthrough cfg L F env now i p' s)
      (passthrough cfg L F env now i q (passthrough cfg L F env now i p s))"
    by (rule absorb_passthrough)
  show "fit cfg i p s \<Longrightarrow> batch L p q = Not_Batchable \<Longrightarrow>
      same_world L (passthrough cfg L F env now i q (passthrough cfg L F env now i p s))
        (passthrough cfg L F env now i p (passthrough cfg L F env now i q s)) \<and>
      same_world L (passthrough cfg L F env now i p (passthrough cfg L F env now i q s))
        (passthrough cfg L F env now i q (passthrough cfg L F env now i p s))"
    using commute_passthrough same_calls_sym_iff by blast
  show "fit cfg i p s \<Longrightarrow> batch L p q = Batched p' \<Longrightarrow> fit cfg i p' s" using fit_Batched by blast
  show "fit cfg i p s \<Longrightarrow> batch L p q = Not_Batchable \<Longrightarrow> fit cfg i p (passthrough cfg L F env now i q s)"
    by (rule fit_unbatched)
  show "batch L p q = Batched p' \<Longrightarrow> batch L p' r = Not_Batchable \<longleftrightarrow> batch L p r = Not_Batchable" for r
    by (rule partner_batched)
qed



definition demo_stick :: "16 word \<Rightarrow> multi_controller_packet" where
  "demo_stick x = \<lparr>mc_controllerNumber = 0, mc_activeGamepadMask = 1, mc_buttonFlags = 0, mc_buttonFlags2 = 0,
     mc_leftTrigger = 0, mc_rightTrigger = 0, mc_leftStickX = x, mc_leftStickY = 0, mc_rightStickX = 0, mc_rightStickY = 0\<rparr>"


end
