(* ===== verification/Env_Text.thy ===== *)
theory Env_Text
  imports Prelude
begin

text \<open>
  The text of the applications file (\<open>find_match\<close> and \<open>parse_env_val\<close> of \<open>src/process.cpp\<close>):
  \<open>$(NAME)\<close> stands for a variable of the environment, \<open>$$\<close> for a dollar sign. A position in the text
  is the list of the characters from there on; \<open>None\<close> is the exception for a missing bracket.
\<close>

type_synonym env_vars = "string \<Rightarrow> string option"

text \<open>\<open>operator[]\<close> and \<open>to_string\<close>: a variable that is not set is empty.\<close>

definition env_value :: "env_vars \<Rightarrow> string \<Rightarrow> string" where
  "env_value env name = (case env name of None \<Rightarrow> [] | Some v \<Rightarrow> v)"

definition bracket :: "char \<Rightarrow> int" where
  "bracket c = (if c = CHR ''('' then 1 else if c = CHR '')'' then - 1 else 0)"

text \<open>The loop reads the character before it compares with the end; there the string is terminated.\<close>

fun find_match :: "int \<Rightarrow> string \<Rightarrow> string option" where
  "find_match stack [] = None"
| "find_match stack (c # s) =
     (if stack + bracket c = 0 then Some (c # s) else find_match (stack + bracket c) s)"

lemma find_match_length: "find_match n s = Some r \<Longrightarrow> length r \<le> length s \<and> r \<noteq> []"
  by (induction n s rule: find_match.induct) (auto split: if_splits)

definition dollar :: char where "dollar = CHR ''$''"

text \<open>\<open>written\<close> is the text from \<open>pos\<close> up to the place where the search for the next dollar starts.\<close>

function parse_env_from :: "env_vars \<Rightarrow> string \<Rightarrow> string \<Rightarrow> string option" where
  "parse_env_from env written s =
     (let plain = written @ takeWhile (\<lambda>c. c \<noteq> dollar) s
      in case dropWhile (\<lambda>c. c \<noteq> dollar) s of
           [] \<Rightarrow> Some plain
         | [_] \<Rightarrow> Some (plain @ [dollar])
         | _ # c # s' \<Rightarrow>
             if c = CHR ''('' then
               (case find_match 0 (c # s') of
                  None \<Rightarrow> None
                | Some close \<Rightarrow>
                    let var_name = take (length s' - length close) s'
                    in map_option (\<lambda>t. plain @ env_value env var_name @ t) (parse_env_from env [] (tl close)))
             else if c = dollar then map_option (\<lambda>t. plain @ [dollar] @ t) (parse_env_from env [] s')
             else parse_env_from env (plain @ [dollar]) (c # s'))"
  by pat_completeness auto
termination
proof (relation "measure (\<lambda>(env, written, s). length s)", goal_cases)
  case 1
  show ?case by simp
next
  case (2 env written s plain x21 x22 x21a x22a x2)
  then have l: "length x2 \<le> Suc (length x22a)" "x2 \<noteq> []" using find_match_length [of 0 "x21a # x22a" x2] by auto
  have "length (dropWhile (\<lambda>c. c \<noteq> dollar) s) \<le> length s" by (rule length_dropWhile_le)
  then show ?case using 2 l by (cases x2) auto
next
  case (3 env written s plain x21 x22 x21a x22a)
  have "length (dropWhile (\<lambda>c. c \<noteq> dollar) s) \<le> length s" by (rule length_dropWhile_le)
  then show ?case using 3 by auto
next
  case (4 env written s plain x21 x22 x21a x22a)
  have "length (dropWhile (\<lambda>c. c \<noteq> dollar) s) \<le> length s" by (rule length_dropWhile_le)
  then show ?case using 4 by auto
qed

declare parse_env_from.simps [simp del]

definition parse_env_val :: "env_vars \<Rightarrow> string \<Rightarrow> string option" where
  "parse_env_val env val_raw = parse_env_from env [] val_raw"

section \<open>What the text means\<close>

text \<open>The text that stands for \<open>t\<close>: every dollar sign doubled.\<close>

definition env_escape :: "string \<Rightarrow> string" where
  "env_escape t = concat (map (\<lambda>c. if c = dollar then [dollar, dollar] else [c]) t)"

lemma env_escape_simps [simp]:
  "env_escape [] = []" "env_escape (c # t) = (if c = dollar then [dollar, dollar] else [c]) @ env_escape t"
  by (simp_all add: env_escape_def)

lemma parse_plain: "c \<noteq> dollar \<Longrightarrow> parse_env_from env w (c # s) = parse_env_from env (w @ [c]) s"
  by (simp add: parse_env_from.simps [of env w] parse_env_from.simps [of env "w @ [c]"])

lemma parse_written: "parse_env_from env w s = map_option (\<lambda>t. w @ t) (parse_env_from env [] s)"
proof (induction "length s" arbitrary: w s rule: less_induct)
  case less
  have d: "length (dropWhile (\<lambda>c. c \<noteq> dollar) s) \<le> length s" by (rule length_dropWhile_le)
  show ?case
  proof (cases "dropWhile (\<lambda>c. c \<noteq> dollar) s")
    case Nil
    show ?thesis unfolding parse_env_from.simps [of env w s] parse_env_from.simps [of env "[]" s] Let_def Nil by simp
  next
    case (Cons x xs)
    note x = Cons
    show ?thesis
    proof (cases xs)
      case Nil
      show ?thesis unfolding parse_env_from.simps [of env w s] parse_env_from.simps [of env "[]" s] Let_def x Nil by simp
    next
      case (Cons c s')
      with x have e: "dropWhile (\<lambda>c. c \<noteq> dollar) s = x # c # s'" by simp
      then have "length (c # s') < length s" using d by simp
      note ih = less [OF this]
      show ?thesis
        unfolding parse_env_from.simps [of env w s] parse_env_from.simps [of env "[]" s] Let_def e
        using ih [of "w @ takeWhile (\<lambda>c. c \<noteq> dollar) s @ [dollar]"] ih [of "takeWhile (\<lambda>c. c \<noteq> dollar) s @ [dollar]"]
        by (cases "parse_env_from env [] (c # s')")
          (auto simp: option.map_comp comp_def Let_def simp del: find_match.simps split: option.split)
    qed
  qed
qed

lemma parse_escaped: "parse_env_from env w (env_escape a @ b) = map_option (\<lambda>t. w @ a @ t) (parse_env_from env [] b)"
proof (induction a arbitrary: w)
  case Nil
  show ?case by (simp add: parse_written [of env w])
next
  case (Cons c a)
  show ?case
  proof (cases "c = dollar")
    case True
    have "parse_env_from env w (dollar # dollar # env_escape a @ b) =
        map_option (\<lambda>t. w @ [dollar] @ t) (parse_env_from env [] (env_escape a @ b))"
      by (subst parse_env_from.simps) (simp add: Let_def dollar_def)
    then show ?thesis using True Cons [of "[]"] by (simp add: option.map_comp comp_def)
  next
    case False
    then show ?thesis using Cons [of "w @ [c]"] by (simp add: parse_plain)
  qed
qed

text \<open>
  Every text can be written in the applications file: when its dollar signs are doubled, the
  host reads it back as it was, whatever the environment holds.
\<close>
theorem env_escape_roundtrip: "parse_env_val env (env_escape t) = Some t"
  using parse_escaped [of env "[]" t "[]"] by (simp add: parse_env_val_def parse_env_from.simps [of env "[]" "[]"])

text \<open>Names with matching brackets: the nesting never falls below zero and ends at zero.\<close>

fun balanced :: "int \<Rightarrow> string \<Rightarrow> bool" where
  "balanced n [] \<longleftrightarrow> n = 0"
| "balanced n (c # s) \<longleftrightarrow> 0 \<le> n + bracket c \<and> balanced (n + bracket c) s"

lemma find_match_balanced:
  "balanced n s \<Longrightarrow> 0 \<le> n \<Longrightarrow> find_match (n + 1) (s @ CHR '')'' # rest) = Some (CHR '')'' # rest)"
proof (induction n s rule: balanced.induct)
  case (2 n c s)
  then have "find_match (n + bracket c + 1) (s @ CHR '')'' # rest) = Some (CHR '')'' # rest)" by simp
  then have "find_match (n + 1 + bracket c) (s @ CHR '')'' # rest) = Some (CHR '')'' # rest)"
    by (simp only: add.assoc add.commute [of "bracket c" 1])
  moreover have "n + 1 + bracket c \<noteq> 0" using 2(2) by simp
  ultimately show ?case by simp
qed (simp add: bracket_def)

text \<open>
  A reference to a variable is replaced by its value, an unset one by nothing, and the text
  around it is read on its own: the value is not expanded again, and brackets in the name are
  matched.
\<close>
theorem env_expand:
  assumes "balanced 0 name"
  shows "parse_env_val env (env_escape a @ ''$('' @ name @ '')'' @ b) =
    map_option (\<lambda>t. a @ env_value env name @ t) (parse_env_val env b)"
proof -
  have f: "find_match 0 (CHR ''('' # name @ CHR '')'' # b) = Some (CHR '')'' # b)"
    using find_match_balanced [OF assms, of b] by (simp add: bracket_def)
  have "parse_env_from env [] (dollar # CHR ''('' # name @ CHR '')'' # b) =
      map_option (\<lambda>t. env_value env name @ t) (parse_env_from env [] b)"
    by (subst parse_env_from.simps) (simp add: Let_def f dollar_def del: find_match.simps)
  then show ?thesis using parse_escaped [of env "[]" a "dollar # CHR ''('' # name @ CHR '')'' # b"]
    by (simp add: parse_env_val_def option.map_comp comp_def dollar_def)
qed

theorem env_expand_witness:
  "parse_env_val [''HOME'' \<mapsto> ''/root''] ''cd $(HOME)/a$$b'' = Some ''cd /root/a$b''"
proof -
  have b: "balanced 0 ''HOME''" by (simp add: bracket_def)
  have "parse_env_val [''HOME'' \<mapsto> ''/root''] ''/a$$b'' = Some ''/a$b''"
    using env_escape_roundtrip [of "[''HOME'' \<mapsto> ''/root'']" "''/a$b''"] by (simp add: dollar_def)
  then show ?thesis using env_expand [OF b, of "[''HOME'' \<mapsto> ''/root'']" "''cd ''" "''/a$$b''"]
    by (simp add: dollar_def env_value_def)
qed

end
