(* ===== verification/Process.thy ===== *)
theory Process
  imports Env_Text Rtsp_Commands
begin

text \<open>
  The applications a client can start (\<open>src/process.cpp\<close>): preparation commands with their undo
  commands, detached commands, the command itself and its process group. The operating system is
  the record \<open>host_os\<close>: it answers the n-th command that is started and each look at a process or a
  group; what the host asks of it is recorded in the order it is asked.
\<close>

section \<open>Applications\<close>

record app_ctx =
  ac_prep_cmds :: "prep_cmd_t list"
  ac_detached :: "string list"
  ac_name :: string
  ac_cmd :: string
  ac_working_dir :: string
  ac_output :: string
  ac_image_path :: string
  ac_id :: string
  ac_elevated :: bool
  ac_auto_detach :: bool
  ac_wait_all :: bool
  ac_exit_timeout :: int

definition no_app :: app_ctx where
  "no_app = \<lparr>ac_prep_cmds = [], ac_detached = [], ac_name = [], ac_cmd = [], ac_working_dir = [], ac_output = [],
     ac_image_path = [], ac_id = [], ac_elevated = False, ac_auto_detach = False, ac_wait_all = False,
     ac_exit_timeout = 0\<rparr>"

record launch_session =
  ls_id :: "32 word"
  ls_gcm_key :: "byte list"
  ls_iv :: "byte list"
  ls_av_ping_payload :: string
  ls_control_connect_data :: "32 word"
  ls_host_audio :: bool
  ls_unique_id :: string
  ls_width :: int
  ls_height :: int
  ls_fps :: int
  ls_gcmap :: int
  ls_appid :: int
  ls_surround_info :: int
  ls_surround_params :: string
  ls_continuous_audio :: bool
  ls_enable_hdr :: bool
  ls_enable_sops :: bool
  ls_rtsp_cipher :: "byte list option"
  ls_rtsp_url_scheme :: string

section \<open>The operating system\<close>

datatype run_error = Permission_Denied | Other_Error

text \<open>Why a command is run: the number is its place in the list of preparation commands.\<close>

datatype run_for = For_Prep nat | For_Undo nat | For_Detached | For_App

record host_os =
  os_start_error :: "nat \<Rightarrow> run_error option"
  os_wait_error :: "nat \<Rightarrow> bool"
  os_exit_code :: "nat \<Rightarrow> int"
  os_group_running :: "nat \<Rightarrow> nat \<Rightarrow> bool"
  os_request_exit :: "nat \<Rightarrow> nat \<Rightarrow> bool"
  os_child_running :: "nat \<Rightarrow> nat \<Rightarrow> bool"
  os_native_exit :: "nat \<Rightarrow> nat \<Rightarrow> int"
  os_fopen :: "string \<Rightarrow> bool"
  os_split_unix :: "string \<Rightarrow> string list option"
  os_search_path :: "string \<Rightarrow> string"
  os_is_absolute :: "string \<Rightarrow> bool"
  os_parent_path :: "string \<Rightarrow> string"

datatype proc_event =
  E_Run run_for bool string string "string option"
| E_Request_Exit nat
| E_Sleep
| E_Group_Terminate nat
| E_Revert_Display

text \<open>
  A child and its group carry the number of the command that started them. \<open>pr_prep_it\<close> is the
  distance of the iterator from the first preparation command; \<open>pr_looks\<close> counts the looks at
  processes, \<open>pr_runs\<close> the commands.
\<close>

record proc_t =
  pr_app_id :: int
  pr_env :: env_vars
  pr_apps :: "app_ctx list"
  pr_app :: app_ctx
  pr_launch_time :: int
  pr_placebo :: bool
  pr_process :: "nat option"
  pr_group :: "nat option"
  pr_pipe :: "string option"
  pr_prep_it :: nat
  pr_looks :: nat
  pr_runs :: nat
  pr_events :: "proc_event list"

definition happen :: "proc_event \<Rightarrow> proc_t \<Rightarrow> proc_t" where
  "happen e p = p\<lparr>pr_events := pr_events p @ [e]\<rparr>"

definition look :: "(nat \<Rightarrow> 'a) \<Rightarrow> proc_t \<Rightarrow> 'a \<times> proc_t" where
  "look f p = (f (pr_looks p), p\<lparr>pr_looks := Suc (pr_looks p)\<rparr>)"

section \<open>Ending the processes\<close>

text \<open>The loop that waits: at most one second for each second of the timeout.\<close>

primrec wait_exit :: "host_os \<Rightarrow> nat \<Rightarrow> nat \<Rightarrow> proc_t \<Rightarrow> proc_t" where
  "wait_exit os g 0 p = snd (look (os_group_running os g) p)"
| "wait_exit os g (Suc n) p =
     (let (alive, p1) = look (os_group_running os g) p
      in if alive then wait_exit os g n (happen E_Sleep p1) else p1)"

definition request_exit :: "host_os \<Rightarrow> nat \<Rightarrow> int \<Rightarrow> proc_t \<Rightarrow> proc_t" where
  "request_exit os g exit_timeout p =
     (if exit_timeout > 0 then
        (let (asked, p1) = look (os_request_exit os g) (happen (E_Request_Exit g) p)
         in if asked then wait_exit os g (nat exit_timeout) p1 else p1)
      else p)"

definition terminate_process_group :: "host_os \<Rightarrow> int \<Rightarrow> proc_t \<Rightarrow> proc_t" where
  "terminate_process_group os exit_timeout p =
     (case pr_group p of
        None \<Rightarrow> p
      | Some g \<Rightarrow>
          (let (alive, p1) = look (os_group_running os g) p
           in if alive then happen (E_Group_Terminate g) (request_exit os g exit_timeout p1) else p1))"

section \<open>Running a command\<close>

text \<open>\<open>find\<close> of \<open>://\<close>.\<close>

fun is_url :: "string \<Rightarrow> bool" where
  "is_url [] = False"
| "is_url (c # s) = (take 3 (c # s) = ''://'' \<or> is_url s)"

definition find_working_directory :: "host_os \<Rightarrow> string \<Rightarrow> string" where
  "find_working_directory os cmd =
     (case os_split_unix os cmd of
        None \<Rightarrow> []
      | Some [] \<Rightarrow> []
      | Some (target # _) \<Rightarrow>
          if is_url target then []
          else if os_is_absolute os target then os_parent_path os target
          else if os_search_path os target = [] then []
          else os_parent_path os (os_search_path os target))"

definition working_dir :: "host_os \<Rightarrow> string \<Rightarrow> proc_t \<Rightarrow> string" where
  "working_dir os cmd p =
     (if ac_working_dir (pr_app p) = [] then find_working_directory os cmd else ac_working_dir (pr_app p))"

text \<open>\<open>platf::run_command\<close>: the number of the command and the error of starting it.\<close>

definition run_command ::
  "host_os \<Rightarrow> run_for \<Rightarrow> bool \<Rightarrow> string \<Rightarrow> proc_t \<Rightarrow> (nat \<times> run_error option) \<times> proc_t" where
  "run_command os why elev cmd p =
     ((pr_runs p, os_start_error os (pr_runs p)),
      (happen (E_Run why elev cmd (working_dir os cmd p) (pr_pipe p)) p)\<lparr>pr_runs := Suc (pr_runs p)\<rparr>)"

section \<open>Ending an application\<close>

definition undo_one :: "host_os \<Rightarrow> nat \<Rightarrow> proc_t \<Rightarrow> proc_t" where
  "undo_one os k p =
     (let cmd = ac_prep_cmds (pr_app p) ! k
      in if undo_cmd cmd = [] then p else snd (run_command os (For_Undo k) (elevated cmd) (undo_cmd cmd) p))"

primrec undo_from :: "host_os \<Rightarrow> nat \<Rightarrow> proc_t \<Rightarrow> proc_t" where
  "undo_from os 0 p = p\<lparr>pr_prep_it := 0\<rparr>"
| "undo_from os (Suc k) p = undo_from os k (undo_one os k p)"

definition terminate :: "host_os \<Rightarrow> proc_t \<Rightarrow> proc_t" where
  "terminate os p =
     (let p1 = terminate_process_group os (ac_exit_timeout (pr_app p)) (p\<lparr>pr_placebo := False\<rparr>);
          p2 = p1\<lparr>pr_process := None, pr_group := None\<rparr>;
          p3 = (undo_from os (pr_prep_it p2) p2)\<lparr>pr_pipe := None\<rparr>;
          has_run = pr_app_id p3 > 0;
          p4 = (if ac_name (pr_app p3) \<noteq> [] \<and> has_run then happen E_Revert_Display p3 else p3)
      in p4\<lparr>pr_app_id := - 1\<rparr>)"

section \<open>Starting an application\<close>

definition bool_text :: "bool \<Rightarrow> string" where
  "bool_text b = (if b then ''true'' else ''false'')"

definition audio_configuration :: "int \<Rightarrow> string option" where
  "audio_configuration channelCount =
     (if channelCount = 2 then Some ''2.0'' else if channelCount = 6 then Some ''5.1''
      else if channelCount = 8 then Some ''7.1'' else None)"

definition stream_env :: "int \<Rightarrow> app_ctx \<Rightarrow> launch_session \<Rightarrow> env_vars \<Rightarrow> env_vars" where
  "stream_env app_id app s env =
     (let env1 = env(''SUNSHINE_APP_ID'' \<mapsto> int_string app_id, ''SUNSHINE_APP_NAME'' \<mapsto> ac_name app,
            ''SUNSHINE_CLIENT_WIDTH'' \<mapsto> int_string (ls_width s), ''SUNSHINE_CLIENT_HEIGHT'' \<mapsto> int_string (ls_height s),
            ''SUNSHINE_CLIENT_FPS'' \<mapsto> int_string (ls_fps s), ''SUNSHINE_CLIENT_HDR'' \<mapsto> bool_text (ls_enable_hdr s),
            ''SUNSHINE_CLIENT_GCMAP'' \<mapsto> int_string (ls_gcmap s),
            ''SUNSHINE_CLIENT_HOST_AUDIO'' \<mapsto> bool_text (ls_host_audio s),
            ''SUNSHINE_CLIENT_ENABLE_SOPS'' \<mapsto> bool_text (ls_enable_sops s));
          env2 = (case audio_configuration (ls_surround_info s mod 65536) of
                    None \<Rightarrow> env1 | Some t \<Rightarrow> env1(''SUNSHINE_CLIENT_AUDIO_CONFIGURATION'' \<mapsto> t))
      in env2(''SUNSHINE_CLIENT_AUDIO_SURROUND_PARAMS'' \<mapsto> ls_surround_params s))"

definition open_pipe :: "host_os \<Rightarrow> proc_t \<Rightarrow> proc_t" where
  "open_pipe os p =
     (let file = ac_output (pr_app p)
      in if file \<noteq> [] \<and> file \<noteq> ''null'' then p\<lparr>pr_pipe := (if os_fopen os file then Some file else None)\<rparr> else p)"

text \<open>The preparation commands: whether all went well, and the iterator where it stopped.\<close>

fun run_prep :: "host_os \<Rightarrow> prep_cmd_t list \<Rightarrow> proc_t \<Rightarrow> bool \<times> proc_t" where
  "run_prep os [] p = (True, p)"
| "run_prep os (cmd # cmds) p =
     (if do_cmd cmd = [] then run_prep os cmds (p\<lparr>pr_prep_it := Suc (pr_prep_it p)\<rparr>)
      else
        (let ((n, ec), p1) = run_command os (For_Prep (pr_prep_it p)) (elevated cmd) (do_cmd cmd) p
         in if ec \<noteq> None \<and> \<not> (ac_cmd (pr_app p1) = [] \<and> ec = Some Permission_Denied) then (False, p1)
            else if os_wait_error os n then (False, p1)
            else if os_exit_code os n \<noteq> 0 then (False, p1)
            else run_prep os cmds (p1\<lparr>pr_prep_it := Suc (pr_prep_it p1)\<rparr>)))"

definition run_detached :: "host_os \<Rightarrow> string list \<Rightarrow> proc_t \<Rightarrow> proc_t" where
  "run_detached os cmds p =
     fold (\<lambda>cmd p. snd (run_command os For_Detached (ac_elevated (pr_app p)) cmd p)) cmds p"

text \<open>The command of the application; without one, the desktop counts as running.\<close>

definition run_app :: "host_os \<Rightarrow> proc_t \<Rightarrow> bool \<times> proc_t" where
  "run_app os p =
     (if ac_cmd (pr_app p) = [] then (True, p\<lparr>pr_placebo := True\<rparr>)
      else
        (let ((n, ec), p1) = run_command os For_App (ac_elevated (pr_app p)) (ac_cmd (pr_app p)) p
         in if ec = None then (True, p1\<lparr>pr_process := Some n, pr_group := Some n\<rparr>)
            else (False, p1\<lparr>pr_process := None\<rparr>)))"

definition execute :: "host_os \<Rightarrow> int \<Rightarrow> int \<Rightarrow> launch_session \<Rightarrow> proc_t \<Rightarrow> int \<times> proc_t" where
  "execute os now app_id session p =
     (let p0 = terminate os p
      in case find (\<lambda>a. ac_id a = int_string app_id) (pr_apps p0) of
           None \<Rightarrow> (404, p0)
         | Some app \<Rightarrow>
             let p1 = open_pipe os (p0\<lparr>pr_app_id := app_id, pr_app := app, pr_prep_it := 0,
                                      pr_env := stream_env app_id app session (pr_env p0)\<rparr>);
                 (ok, p2) = run_prep os (ac_prep_cmds app) p1
             in if \<not> ok then (- 1, terminate os p2)
                else
                  let (ok', p3) = run_app os (run_detached os (ac_detached app) p2)
                  in if \<not> ok' then (- 1, terminate os p3) else (0, p3\<lparr>pr_launch_time := now\<rparr>))"

section \<open>Is it running?\<close>

text \<open>A default \<open>child\<close> does not run and its exit code is the one of a process that still runs.\<close>

definition running :: "host_os \<Rightarrow> int \<Rightarrow> proc_t \<Rightarrow> int \<times> proc_t" where
  "running os now p =
     (if pr_placebo p then (pr_app_id p, p)
      else
        let (group_alive, p1) = (case pr_group p of
              Some g \<Rightarrow> if ac_wait_all (pr_app p) then look (os_group_running os g) p else (False, p)
            | None \<Rightarrow> (False, p))
        in if group_alive then (pr_app_id p1, p1)
           else case pr_process p1 of
                  None \<Rightarrow> (0, p1)
                | Some n \<Rightarrow>
                    let (child_alive, p2) = look (os_child_running os n) p1
                    in if child_alive then (pr_app_id p2, p2)
                       else if ac_auto_detach (pr_app p2) \<and> os_native_exit os n (pr_looks p2) = 0 \<and>
                               now - pr_launch_time p2 < 5000000000 then (pr_app_id p2, p2\<lparr>pr_placebo := True\<rparr>)
                       else (0, terminate os p2))"

text \<open>A new object, and \<open>refresh\<close>: the object is replaced, whatever it was doing.\<close>

definition new_proc :: "env_vars \<Rightarrow> app_ctx list \<Rightarrow> proc_t" where
  "new_proc env apps = \<lparr>pr_app_id = 0, pr_env = env, pr_apps = apps, pr_app = no_app, pr_launch_time = 0,
     pr_placebo = False, pr_process = None, pr_group = None, pr_pipe = None, pr_prep_it = 0, pr_looks = 0, pr_runs = 0,
     pr_events = []\<rparr>"

definition refresh :: "(env_vars \<times> app_ctx list) option \<Rightarrow> proc_t \<Rightarrow> proc_t" where
  "refresh parsed p =
     (case parsed of
        None \<Rightarrow> p
      | Some (env, apps) \<Rightarrow>
          (new_proc env apps)\<lparr>pr_looks := pr_looks p, pr_runs := pr_runs p, pr_events := pr_events p\<rparr>)"

end
