(* ===== verification/Process_Apps.thy ===== *)
theory Process_Apps
  imports Process
begin

text \<open>
  The applications file (\<open>proc::parse\<close>, the identifiers and the image paths of \<open>src/process.cpp\<close>).
  The file is the tree the JSON reader makes of it; the checksums and the file system are the record
  \<open>app_files\<close>.
\<close>

record app_files =
  af_crc32 :: "string \<Rightarrow> 32 word"
  af_sha256 :: "string \<Rightarrow> string option"
  af_exists :: "string \<Rightarrow> bool"
  af_content :: "string \<Rightarrow> byte list option"
  af_assets_dir :: string

section \<open>Images\<close>

definition DEFAULT_APP_IMAGE_PATH :: "app_files \<Rightarrow> string" where
  "DEFAULT_APP_IMAGE_PATH fs = af_assets_dir fs @ ''/box.png''"

definition PNG_SIGNATURE :: "byte list" where
  "PNG_SIGNATURE = [0x89, 0x50, 0x4E, 0x47, 0x0D, 0x0A, 0x1A, 0x0A]"

definition check_valid_png :: "app_files \<Rightarrow> string \<Rightarrow> bool" where
  "check_valid_png fs path =
     (case af_content fs path of
        None \<Rightarrow> False
      | Some file \<Rightarrow> let header = take 8 file in length header = 8 \<and> header = PNG_SIGNATURE)"

text \<open>\<open>extension\<close> and \<open>operator/\<close> of \<open>std::filesystem::path\<close>.\<close>

definition path_filename :: "string \<Rightarrow> string" where
  "path_filename path = rev (takeWhile (\<lambda>c. c \<noteq> CHR ''/'') (rev path))"

definition path_extension :: "string \<Rightarrow> string" where
  "path_extension path =
     (let name = path_filename path; tail = rev (takeWhile (\<lambda>c. c \<noteq> CHR ''.'') (rev name))
      in if name = ''.'' \<or> name = ''..'' \<or> length name \<le> length tail + 1 then [] else CHR ''.'' # tail)"

definition to_lower :: "char \<Rightarrow> char" where
  "to_lower c = (let n = of_char c :: nat in if 65 \<le> n \<and> n \<le> 90 then char_of (n + 32) else c)"

text \<open>On the bits of the character, which is quick to evaluate.\<close>

lemma to_lower_code [code]:
  "to_lower (Char b0 b1 b2 b3 b4 b5 b6 b7) =
     (if \<not> b7 \<and> b6 \<and> \<not> b5 \<and> (b0 \<or> b1 \<or> b2 \<or> b3 \<or> b4) \<and> \<not> (b4 \<and> b3 \<and> (b2 \<or> b1 \<and> b0))
      then Char b0 b1 b2 b3 b4 True b6 b7 else Char b0 b1 b2 b3 b4 b5 b6 b7)"
  by (cases b0; cases b1; cases b2; cases b3; cases b4; cases b5; cases b6; cases b7;
      simp add: to_lower_def Let_def char_of_def bit_0)

definition validate_app_image_path :: "app_files \<Rightarrow> string \<Rightarrow> string" where
  "validate_app_image_path fs app_image_path =
     (if app_image_path = [] then DEFAULT_APP_IMAGE_PATH fs
      else if map to_lower (path_extension app_image_path) \<noteq> ''.png'' then DEFAULT_APP_IMAGE_PATH fs
      else
        let full_image_path = path_join (af_assets_dir fs) app_image_path
        in if af_exists fs full_image_path then
             (if check_valid_png fs full_image_path then full_image_path else DEFAULT_APP_IMAGE_PATH fs)
           else if app_image_path = ''./assets/steam.png'' then af_assets_dir fs @ ''/steam.png''
           else if \<not> af_exists fs app_image_path then DEFAULT_APP_IMAGE_PATH fs
           else if \<not> check_valid_png fs app_image_path then DEFAULT_APP_IMAGE_PATH fs
           else app_image_path)"

definition get_app_image :: "app_files \<Rightarrow> int \<Rightarrow> proc_t \<Rightarrow> string" where
  "get_app_image fs app_id p =
     validate_app_image_path fs
       (case find (\<lambda>a. ac_id a = int_string app_id) (pr_apps p) of None \<Rightarrow> [] | Some app \<Rightarrow> ac_image_path app)"

section \<open>Identifiers\<close>

definition app_hash_input :: "app_files \<Rightarrow> string \<Rightarrow> string \<Rightarrow> string" where
  "app_hash_input fs app_name app_image_path =
     (let file_path = validate_app_image_path fs app_image_path
      in app_name @
         (if file_path \<noteq> DEFAULT_APP_IMAGE_PATH fs then
            (case af_sha256 fs file_path of Some file_hash \<Rightarrow> file_hash | None \<Rightarrow> file_path)
          else []))"

text \<open>\<open>abs\<close> of the checksum as a 32 bit integer; its lowest value stays as it is.\<close>

definition app_id_of :: "app_files \<Rightarrow> string \<Rightarrow> string" where
  "app_id_of fs input = int_string (to_int32 \<bar>sint (af_crc32 fs input)\<bar>)"

definition calculate_app_id :: "app_files \<Rightarrow> string \<Rightarrow> string \<Rightarrow> int \<Rightarrow> string \<times> string" where
  "calculate_app_id fs app_name app_image_path index =
     (let input_no_index = app_hash_input fs app_name app_image_path
      in (app_id_of fs input_no_index, app_id_of fs (input_no_index @ int_string index)))"

section \<open>Reading the file\<close>

record prep_node =
  pn_do :: "string option"
  pn_undo :: "string option"
  pn_elevated :: "bool option"

record app_node =
  an_prep_cmd :: "prep_node list option"
  an_detached :: "string list option"
  an_exclude_global_prep_cmd :: "bool option"
  an_output :: "string option"
  an_name :: "string option"
  an_cmd :: "string option"
  an_image_path :: "string option"
  an_working_dir :: "string option"
  an_elevated :: "bool option"
  an_auto_detach :: "bool option"
  an_wait_all :: "bool option"
  an_exit_timeout :: "int option"

record apps_tree =
  at_env :: "(string \<times> string) list"
  at_apps :: "app_node list"

definition or_else :: "'a option \<Rightarrow> 'a \<Rightarrow> 'a" where
  "or_else x d = (case x of None \<Rightarrow> d | Some v \<Rightarrow> v)"

text \<open>A text that may be missing; \<open>None\<close> is the exception of the expansion.\<close>

definition expand_opt :: "env_vars \<Rightarrow> string option \<Rightarrow> string option" where
  "expand_opt env x = (case x of None \<Rightarrow> Some [] | Some t \<Rightarrow> parse_env_val env t)"

fun parse_env_vars :: "env_vars \<Rightarrow> (string \<times> string) list \<Rightarrow> env_vars option" where
  "parse_env_vars env [] = Some env"
| "parse_env_vars env ((name, val) # vars) =
     (case parse_env_val env val of None \<Rightarrow> None | Some t \<Rightarrow> parse_env_vars (env(name \<mapsto> t)) vars)"

definition expand_prep :: "env_vars \<Rightarrow> string \<Rightarrow> string \<Rightarrow> bool \<Rightarrow> prep_cmd_t option" where
  "expand_prep env do' undo elev =
     (case (parse_env_val env do', parse_env_val env undo) of
        (Some d, Some u) \<Rightarrow> Some \<lparr>do_cmd = d, undo_cmd = u, elevated = elev\<rparr>
      | _ \<Rightarrow> None)"

definition parse_prep_cmds :: "prep_cmd_t list \<Rightarrow> env_vars \<Rightarrow> app_node \<Rightarrow> prep_cmd_t list option" where
  "parse_prep_cmds global env node =
     (let own = or_else (an_prep_cmd node) [];
          globals = (if or_else (an_exclude_global_prep_cmd node) False then []
                     else map (\<lambda>c. expand_prep env (do_cmd c) (undo_cmd c) (elevated c)) global)
      in those (globals @
           map (\<lambda>n. expand_prep env (or_else (pn_do n) []) (or_else (pn_undo n) []) (or_else (pn_elevated n) False)) own))"

definition choose_id :: "string list \<Rightarrow> string \<times> string \<Rightarrow> string" where
  "choose_id ids possible_ids = (if fst possible_ids \<notin> set ids then fst possible_ids else snd possible_ids)"

definition parse_app ::
  "app_files \<Rightarrow> prep_cmd_t list \<Rightarrow> env_vars \<Rightarrow> string list \<Rightarrow> int \<Rightarrow> app_node \<Rightarrow> app_ctx option" where
  "parse_app fs global env ids i node =
     (case (case an_name node of None \<Rightarrow> None | Some t \<Rightarrow> parse_env_val env t, parse_prep_cmds global env node,
            those (map (parse_env_val env) (or_else (an_detached node) [])), expand_opt env (an_output node),
            expand_opt env (an_cmd node), expand_opt env (an_working_dir node), expand_opt env (an_image_path node)) of
        (Some name, Some prep_cmds, Some detached, Some output, Some cmd, Some dir, Some img) \<Rightarrow>
          Some \<lparr>ac_prep_cmds = prep_cmds, ac_detached = detached, ac_name = name, ac_cmd = cmd, ac_working_dir = dir,
            ac_output = output, ac_image_path = img, ac_id = choose_id ids (calculate_app_id fs name img i),
            ac_elevated = or_else (an_elevated node) False, ac_auto_detach = or_else (an_auto_detach node) True,
            ac_wait_all = or_else (an_wait_all node) True, ac_exit_timeout = or_else (an_exit_timeout node) 5\<rparr>
      | _ \<Rightarrow> None)"

fun parse_apps ::
  "app_files \<Rightarrow> prep_cmd_t list \<Rightarrow> env_vars \<Rightarrow> string list \<Rightarrow> int \<Rightarrow> app_node list \<Rightarrow> app_ctx list option" where
  "parse_apps fs global env ids i [] = Some []"
| "parse_apps fs global env ids i (node # nodes) =
     (case parse_app fs global env ids i node of
        None \<Rightarrow> None
      | Some app \<Rightarrow> map_option (\<lambda>apps. app # apps) (parse_apps fs global env (ac_id app # ids) (i + 1) nodes))"

definition parse_file ::
  "app_files \<Rightarrow> prep_cmd_t list \<Rightarrow> env_vars \<Rightarrow> apps_tree option \<Rightarrow> (env_vars \<times> app_ctx list) option" where
  "parse_file fs global this_env tree =
     (case tree of
        None \<Rightarrow> None
      | Some t \<Rightarrow>
          (case parse_env_vars this_env (at_env t) of
             None \<Rightarrow> None
           | Some env \<Rightarrow> map_option (\<lambda>apps. (env, apps)) (parse_apps fs global env [] 0 (at_apps t))))"

section \<open>Properties\<close>

text \<open>
  The image of an application that the host serves is its default image, the old image of Steam,
  or a file whose name ends in \<open>.png\<close> and that starts with the signature of a PNG: no other
  file can be read through an image path.
\<close>
theorem image_is_png:
  "validate_app_image_path fs path \<in> {DEFAULT_APP_IMAGE_PATH fs, af_assets_dir fs @ ''/steam.png''} \<or>
   (\<exists>file. validate_app_image_path fs path \<in> {path, path_join (af_assets_dir fs) path} \<and>
      map to_lower (path_extension path) = ''.png'' \<and>
      af_content fs (validate_app_image_path fs path) = Some file \<and> take 8 file = PNG_SIGNATURE)"
  by (auto simp: validate_app_image_path_def check_valid_png_def Let_def split: if_splits option.splits)

lemma parse_apps_nth:
  assumes "parse_apps fs global env ids i nodes = Some apps" "k < length apps"
  shows "k < length nodes \<and> parse_app fs global env (rev (map ac_id (take k apps)) @ ids) (i + int k) (nodes ! k) = Some (apps ! k)"
  using assms
proof (induction nodes arbitrary: ids i apps k)
  case (Cons node nodes)
  then obtain app rest where a: "parse_app fs global env ids i node = Some app"
    "parse_apps fs global env (ac_id app # ids) (i + 1) nodes = Some rest" "apps = app # rest"
    by (auto split: option.splits)
  show ?case
  proof (cases k)
    case 0
    then show ?thesis using a by simp
  next
    case (Suc m)
    then show ?thesis using Cons.IH [OF a(2), of m] Cons.prems(2) a(3) by (simp add: algebra_simps)
  qed
qed simp

lemma parse_app_id:
  "parse_app fs global env ids i node = Some app \<Longrightarrow>
   ac_id app = choose_id ids (calculate_app_id fs (ac_name app) (ac_image_path app) i)"
  by (auto simp: parse_app_def split: option.splits)

lemma parse_app_name:
  "parse_app fs global env ids i node = Some app \<Longrightarrow> an_name node = Some t \<Longrightarrow> parse_env_val env t = Some (ac_name app)"
  by (auto simp: parse_app_def split: option.splits)

text \<open>
  Two applications of one file can have the same identifier without any collision of checksums:
  when the third application has the name of the first one and the second has that name
  with the digit two at its end, the identifier with the index is the one the second application has
  already. A client that starts the third one starts the second.
\<close>
theorem duplicate_app_id:
  assumes "parse_apps fs global env [] 0 nodes = Some [a, b, c]"
    and "ac_name b = ac_name a @ ''2''" "ac_name c = ac_name a" "ac_image_path a = []" "ac_image_path b = []" "ac_image_path c = []"
    and "app_id_of fs (ac_name b) \<noteq> app_id_of fs (ac_name a)"
  shows "ac_id c = ac_id b \<and> find (\<lambda>x. ac_id x = ac_id c) [a, b, c] = Some b"
proof -
  have "validate_app_image_path fs [] = DEFAULT_APP_IMAGE_PATH fs" by (simp add: validate_app_image_path_def)
  then have h: "app_hash_input fs n [] = n" for n by (simp add: app_hash_input_def)
  have two: "int_string 2 = ''2''" by code_simp
  note ids = parse_apps_nth [OF assms(1), THEN conjunct2, THEN parse_app_id]
  have a: "ac_id a = app_id_of fs (ac_name a)"
    using ids [of 0] by (simp add: choose_id_def calculate_app_id_def assms(4) h Let_def)
  have b: "ac_id b = app_id_of fs (ac_name b)"
    using ids [of 1] a assms(7) by (simp add: choose_id_def calculate_app_id_def assms(5) h Let_def)
  have "ac_id c = app_id_of fs (ac_name a @ ''2'')"
    using ids [of 2] a b by (simp add: choose_id_def calculate_app_id_def assms(3,6) h two Let_def)
  then have c: "ac_id c = ac_id b" by (simp add: b assms(2))
  have "ac_id a \<noteq> ac_id b" using a b assms(7) by simp
  then show ?thesis by (simp add: c)
qed


definition demo_files :: app_files where
  "demo_files = \<lparr>af_crc32 = (\<lambda>s. word_of_nat (sum_list (map of_char s))), af_sha256 = (\<lambda>_. None), af_exists = (\<lambda>_. False),
     af_content = (\<lambda>_. None), af_assets_dir = ''/assets''\<rparr>"

definition demo_node :: "string \<Rightarrow> app_node" where
  "demo_node name = \<lparr>an_prep_cmd = None, an_detached = None, an_exclude_global_prep_cmd = None, an_output = None,
     an_name = Some name, an_cmd = None, an_image_path = None, an_working_dir = None, an_elevated = None,
     an_auto_detach = None, an_wait_all = None, an_exit_timeout = None\<rparr>"

definition demo_ctx :: "string \<Rightarrow> string \<Rightarrow> app_ctx" where
  "demo_ctx name x = no_app\<lparr>ac_name := name, ac_id := x, ac_auto_detach := True, ac_wait_all := True, ac_exit_timeout := 5\<rparr>"

theorem duplicate_app_id_witness:
  "parse_apps demo_files [] Map.empty [] 0 [demo_node ''A'', demo_node ''A2'', demo_node ''A''] =
     Some [demo_ctx ''A'' ''65'', demo_ctx ''A2'' ''115'', demo_ctx ''A'' ''115''] \<and>
   find (\<lambda>x. ac_id x = ''115'') [demo_ctx ''A'' ''65'', demo_ctx ''A2'' ''115'', demo_ctx ''A'' ''115''] =
     Some (demo_ctx ''A2'' ''115'')"
proof
  show p: "parse_apps demo_files [] Map.empty [] 0 [demo_node ''A'', demo_node ''A2'', demo_node ''A''] =
     Some [demo_ctx ''A'' ''65'', demo_ctx ''A2'' ''115'', demo_ctx ''A'' ''115'']" by code_simp
  have "app_id_of demo_files ''A2'' \<noteq> app_id_of demo_files ''A''" by code_simp
  then show "find (\<lambda>x. ac_id x = ''115'') [demo_ctx ''A'' ''65'', demo_ctx ''A2'' ''115'', demo_ctx ''A'' ''115''] =
     Some (demo_ctx ''A2'' ''115'')"
    using duplicate_app_id [OF p] by (simp add: demo_ctx_def no_app_def)
qed

end
