(* ===== verification/Process_Correct.thy ===== *)
theory Process_Correct
  imports Process
begin

text \<open>
  What the host owes to an application (\<open>src/process.cpp\<close>): every preparation command that was
  passed is undone, in reverse, exactly once, whether the start fails or the application ends; the
  exception is a refresh of the applications while one is running.
\<close>

section \<open>Commands in the record of events\<close>

definition preps :: "proc_event list \<Rightarrow> nat list" where
  "preps es = concat (map (\<lambda>e. case e of E_Run (For_Prep j) _ _ _ _ \<Rightarrow> [j] | _ \<Rightarrow> []) es)"

definition undos :: "proc_event list \<Rightarrow> nat list" where
  "undos es = concat (map (\<lambda>e. case e of E_Run (For_Undo j) _ _ _ _ \<Rightarrow> [j] | _ \<Rightarrow> []) es)"

definition kills :: "proc_event list \<Rightarrow> nat list" where
  "kills es = concat (map (\<lambda>e. case e of E_Group_Terminate g \<Rightarrow> [g] | _ \<Rightarrow> []) es)"

definition sleeps :: "proc_event list \<Rightarrow> nat" where
  "sleeps es = length (filter (\<lambda>e. e = E_Sleep) es)"

lemma event_projections [simp]:
  "preps (es @ fs) = preps es @ preps fs" "undos (es @ fs) = undos es @ undos fs" "kills (es @ fs) = kills es @ kills fs"
  "preps [] = []" "undos [] = []" "kills [] = []" "sleeps [] = 0" "sleeps (es @ fs) = sleeps es + sleeps fs"
  by (simp_all add: preps_def undos_def kills_def sleeps_def)

lemma event_projections_Cons [simp]:
  "preps (E_Run why b c d f # es) = (case why of For_Prep j \<Rightarrow> [j] | _ \<Rightarrow> []) @ preps es"
  "undos (E_Run why b c d f # es) = (case why of For_Undo j \<Rightarrow> [j] | _ \<Rightarrow> []) @ undos es"
  "kills (E_Run why b c d f # es) = kills es" "sleeps (E_Run why b c d f # es) = sleeps es"
  "preps (E_Request_Exit g # es) = preps es" "undos (E_Request_Exit g # es) = undos es"
  "kills (E_Request_Exit g # es) = kills es" "sleeps (E_Request_Exit g # es) = sleeps es"
  "preps (E_Sleep # es) = preps es" "undos (E_Sleep # es) = undos es"
  "kills (E_Sleep # es) = kills es" "sleeps (E_Sleep # es) = Suc (sleeps es)"
  "preps (E_Group_Terminate g # es) = preps es" "undos (E_Group_Terminate g # es) = undos es"
  "kills (E_Group_Terminate g # es) = g # kills es" "sleeps (E_Group_Terminate g # es) = sleeps es"
  "preps (E_Revert_Display # es) = preps es" "undos (E_Revert_Display # es) = undos es"
  "kills (E_Revert_Display # es) = kills es" "sleeps (E_Revert_Display # es) = sleeps es"
  by (auto simp: preps_def undos_def kills_def sleeps_def split: run_for.splits)

text \<open>A change that only adds the events \<open>es\<close> and counts looks and runs.\<close>

definition adds :: "proc_event list \<Rightarrow> proc_t \<Rightarrow> proc_t \<Rightarrow> bool" where
  "adds es p q \<longleftrightarrow> (\<exists>l r. q = p\<lparr>pr_looks := l, pr_runs := r, pr_events := pr_events p @ es\<rparr>)"

lemma addsD:
  assumes "adds es p q"
  shows "pr_events q = pr_events p @ es" "pr_app q = pr_app p" "pr_apps q = pr_apps p" "pr_env q = pr_env p"
    "pr_prep_it q = pr_prep_it p" "pr_app_id q = pr_app_id p" "pr_pipe q = pr_pipe p" "pr_placebo q = pr_placebo p"
    "pr_process q = pr_process p" "pr_group q = pr_group p" "pr_launch_time q = pr_launch_time p"
  using assms by (auto simp: adds_def)

lemma adds_refl: "adds [] p p"
  unfolding adds_def by (intro exI [of _ "pr_looks p"] exI [of _ "pr_runs p"]) simp

lemma adds_trans:
  assumes "adds es p q" "adds fs q r"
  shows "adds (es @ fs) p r"
proof -
  obtain a b where q: "q = p\<lparr>pr_looks := a, pr_runs := b, pr_events := pr_events p @ es\<rparr>"
    using assms(1) by (auto simp: adds_def)
  obtain c d where "r = q\<lparr>pr_looks := c, pr_runs := d, pr_events := pr_events q @ fs\<rparr>"
    using assms(2) by (auto simp: adds_def)
  then show ?thesis unfolding adds_def by (intro exI [of _ c] exI [of _ d]) (simp add: q)
qed

lemma adds_happen [simp]: "adds [e] p (happen e p)"
  unfolding adds_def happen_def by (intro exI [of _ "pr_looks p"] exI [of _ "pr_runs p"]) simp

lemma adds_look [simp]: "adds [] p (snd (look f p))"
  unfolding adds_def look_def by (intro exI [of _ "Suc (pr_looks p)"] exI [of _ "pr_runs p"]) simp

lemma adds_run [simp]:
  "adds [E_Run why elev cmd (working_dir os cmd p) (pr_pipe p)] p (snd (run_command os why elev cmd p))"
  unfolding adds_def run_command_def happen_def by (intro exI [of _ "pr_looks p"] exI [of _ "Suc (pr_runs p)"]) simp

section \<open>Ending\<close>

lemma wait_exit_adds: "\<exists>es. adds es p (wait_exit os g n p) \<and> (\<exists>m\<le>n. es = replicate m E_Sleep)"
proof (induction n arbitrary: p)
  case 0
  show ?case by (auto intro!: exI [of _ "[]"])
next
  case (Suc n)
  define q where "q = snd (look (os_group_running os g) p)"
  have l: "adds [] p q" by (simp add: q_def)
  show ?case
  proof (cases "fst (look (os_group_running os g) p)")
    case True
    obtain m where m: "m \<le> n" "adds (replicate m E_Sleep) (happen E_Sleep q) (wait_exit os g n (happen E_Sleep q))"
      using Suc by blast
    have "adds ([] @ [E_Sleep] @ replicate m E_Sleep) p (wait_exit os g n (happen E_Sleep q))"
      by (rule adds_trans [OF l adds_trans [OF adds_happen m(2)]])
    then have "adds (replicate (Suc m) E_Sleep) p (wait_exit os g (Suc n) p)"
      using True by (simp add: q_def split_beta)
    then show ?thesis using m(1) by (intro exI [of _ "replicate (Suc m) E_Sleep"] conjI exI [of _ "Suc m"]) simp_all
  next
    case False
    then have "adds (replicate 0 E_Sleep) p (wait_exit os g (Suc n) p)" using l by (simp add: q_def split_beta)
    then show ?thesis by blast
  qed
qed

text \<open>What the end of a group does: some waiting, and the group is killed when it was alive.\<close>

lemma group_ends:
  "\<exists>es. adds es p (terminate_process_group os t p) \<and> preps es = [] \<and> undos es = [] \<and> E_Revert_Display \<notin> set es \<and>
     sleeps es \<le> nat t \<and>
     kills es = (case pr_group p of Some g \<Rightarrow> if os_group_running os g (pr_looks p) then [g] else [] | None \<Rightarrow> [])"
proof (cases "pr_group p")
  case None
  then show ?thesis by (intro exI [of _ "[]"]) (simp add: terminate_process_group_def adds_refl)
next
  case (Some g)
  define q where "q = snd (look (os_group_running os g) p)"
  have l: "adds [] p q" by (simp add: q_def)
  show ?thesis
  proof (cases "os_group_running os g (pr_looks p)")
    case False
    then show ?thesis using Some l
      by (intro exI [of _ "[]"]) (simp add: terminate_process_group_def look_def q_def)
  next
    case True
    have req: "\<exists>es. adds es q (request_exit os g t q) \<and> preps es = [] \<and> undos es = [] \<and> E_Revert_Display \<notin> set es \<and>
        sleeps es \<le> nat t \<and> kills es = []"
    proof (cases "t > 0")
      case False
      then show ?thesis by (intro exI [of _ "[]"]) (simp add: request_exit_def adds_refl)
    next
      case pos: True
      define u where "u = snd (look (os_request_exit os g) (happen (E_Request_Exit g) q))"
      have u: "adds ([E_Request_Exit g] @ []) q u" unfolding u_def by (rule adds_trans [OF adds_happen adds_look])
      show ?thesis
      proof (cases "fst (look (os_request_exit os g) (happen (E_Request_Exit g) q))")
        case False
        then show ?thesis using u pos
          by (intro exI [of _ "[E_Request_Exit g]"]) (simp add: request_exit_def u_def split_beta)
      next
        case True
        obtain m where m: "m \<le> nat t" "adds (replicate m E_Sleep) u (wait_exit os g (nat t) u)"
          using wait_exit_adds [of u os g "nat t"] by blast
        have r: "preps (replicate m E_Sleep) = []" "undos (replicate m E_Sleep) = []" "kills (replicate m E_Sleep) = []"
          "sleeps (replicate m E_Sleep) = m" by (induction m) simp_all
        show ?thesis using adds_trans [OF u m(2)] True pos m(1) r
          by (intro exI [of _ "E_Request_Exit g # replicate m E_Sleep"]) (simp add: request_exit_def u_def split_beta)
      qed
    qed
    then obtain es where es: "adds es q (request_exit os g t q)" "preps es = []" "undos es = []"
      "E_Revert_Display \<notin> set es" "sleeps es \<le> nat t" "kills es = []" by blast
    have "adds ([] @ es @ [E_Group_Terminate g]) p (happen (E_Group_Terminate g) (request_exit os g t q))"
      by (rule adds_trans [OF l adds_trans [OF es(1) adds_happen]])
    then show ?thesis using Some True es(2-)
      by (intro exI [of _ "es @ [E_Group_Terminate g]"]) (simp add: terminate_process_group_def look_def q_def)
  qed
qed

definition undone :: "prep_cmd_t list \<Rightarrow> nat \<Rightarrow> nat list" where
  "undone cmds k = filter (\<lambda>j. undo_cmd (cmds ! j) \<noteq> []) (rev [0..<k])"

lemma undo_from_adds:
  "\<exists>es q. adds es p q \<and> undo_from os k p = q\<lparr>pr_prep_it := 0\<rparr> \<and> undos es = undone (ac_prep_cmds (pr_app p)) k \<and>
     preps es = [] \<and> kills es = [] \<and> sleeps es = 0 \<and> E_Revert_Display \<notin> set es"
proof (induction k arbitrary: p)
  case 0
  show ?case by (intro exI [of _ "[]"] exI [of _ p]) (simp add: adds_refl undone_def)
next
  case (Suc k)
  have "\<exists>es. adds es p (undo_one os k p) \<and> undos es = (if undo_cmd (ac_prep_cmds (pr_app p) ! k) = [] then [] else [k]) \<and>
      preps es = [] \<and> kills es = [] \<and> sleeps es = 0 \<and> E_Revert_Display \<notin> set es"
  proof (cases "undo_cmd (ac_prep_cmds (pr_app p) ! k) = []")
    case True
    then show ?thesis by (intro exI [of _ "[]"]) (simp add: undo_one_def adds_refl)
  next
    case False
    let ?c = "ac_prep_cmds (pr_app p) ! k"
    show ?thesis using False adds_run [of "For_Undo k" "elevated ?c" "undo_cmd ?c" os p]
      by (intro exI [of _ "[E_Run (For_Undo k) (elevated ?c) (undo_cmd ?c) (working_dir os (undo_cmd ?c) p) (pr_pipe p)]"])
        (simp add: undo_one_def Let_def)
  qed
  then obtain es where es: "adds es p (undo_one os k p)"
    "undos es = (if undo_cmd (ac_prep_cmds (pr_app p) ! k) = [] then [] else [k])"
    "preps es = []" "kills es = []" "sleeps es = 0" "E_Revert_Display \<notin> set es" by blast
  obtain fs q where fs: "adds fs (undo_one os k p) q" "undo_from os k (undo_one os k p) = q\<lparr>pr_prep_it := 0\<rparr>"
    "undos fs = undone (ac_prep_cmds (pr_app p)) k" "preps fs = []" "kills fs = []" "sleeps fs = 0" "E_Revert_Display \<notin> set fs"
    using Suc [of "undo_one os k p"] addsD(2) [OF es(1)] by auto
  show ?case using adds_trans [OF es(1) fs(1)] fs(2-) es(2-)
    by (intro exI [of _ "es @ fs"] exI [of _ q]) (simp add: undone_def)
qed

text \<open>Nothing runs and nothing is owed.\<close>

definition idle :: "proc_t \<Rightarrow> bool" where
  "idle p \<longleftrightarrow> pr_app_id p = - 1 \<and> \<not> pr_placebo p \<and> pr_process p = None \<and> pr_group p = None \<and> pr_pipe p = None \<and>
     pr_prep_it p = 0"

lemma terminate_effect:
  obtains es where "pr_events (terminate os p) = pr_events p @ es" "idle (terminate os p)"
    "pr_app (terminate os p) = pr_app p" "pr_apps (terminate os p) = pr_apps p" "pr_env (terminate os p) = pr_env p"
    "preps es = []" "undos es = undone (ac_prep_cmds (pr_app p)) (pr_prep_it p)"
    "sleeps es \<le> nat (ac_exit_timeout (pr_app p))"
    "kills es = (case pr_group p of Some g \<Rightarrow> if os_group_running os g (pr_looks p) then [g] else [] | None \<Rightarrow> [])"
    "E_Revert_Display \<in> set es \<longleftrightarrow> ac_name (pr_app p) \<noteq> [] \<and> pr_app_id p > 0"
proof -
  define t where "t = ac_exit_timeout (pr_app p)"
  define p1 where "p1 = terminate_process_group os t (p\<lparr>pr_placebo := False\<rparr>)"
  define p2 where "p2 = p1\<lparr>pr_process := None, pr_group := None\<rparr>"
  obtain es where es: "adds es (p\<lparr>pr_placebo := False\<rparr>) p1" "preps es = []" "undos es = []" "E_Revert_Display \<notin> set es"
    "sleeps es \<le> nat t"
    "kills es = (case pr_group p of Some g \<Rightarrow> if os_group_running os g (pr_looks p) then [g] else [] | None \<Rightarrow> [])"
    using group_ends [of "p\<lparr>pr_placebo := False\<rparr>" os t] unfolding p1_def
    by (auto simp: cong: option.case_cong)
  obtain fs q where fs: "adds fs p2 q" "undo_from os (pr_prep_it p2) p2 = q\<lparr>pr_prep_it := 0\<rparr>"
    "undos fs = undone (ac_prep_cmds (pr_app p2)) (pr_prep_it p2)" "preps fs = []" "kills fs = []" "sleeps fs = 0"
    "E_Revert_Display \<notin> set fs"
    using undo_from_adds [of p2 os "pr_prep_it p2"] by blast
  note d1 = addsD [OF es(1)] and d2 = addsD [OF fs(1)]
  let ?rev = "if ac_name (pr_app p) \<noteq> [] \<and> pr_app_id p > 0 then [E_Revert_Display] else []"
  have e: "terminate os p = (let p3 = q\<lparr>pr_prep_it := 0, pr_pipe := None\<rparr>
      in (if ac_name (pr_app p3) \<noteq> [] \<and> pr_app_id p3 > 0 then happen E_Revert_Display p3 else p3)\<lparr>pr_app_id := - 1\<rparr>)"
    unfolding terminate_def Let_def t_def [symmetric] p1_def [symmetric] p2_def [symmetric] fs(2) by simp
  show thesis
  proof (rule that [of "es @ fs @ ?rev"])
    show "pr_events (terminate os p) = pr_events p @ es @ fs @ ?rev"
      using d1 d2 by (simp add: e Let_def happen_def p2_def)
    show "idle (terminate os p)" using d1 d2 by (simp add: e Let_def happen_def p2_def idle_def)
  qed (use d1 d2 es fs in \<open>simp_all add: e Let_def happen_def p2_def t_def\<close>)
qed

lemma idle_terminate [simp]: "idle p \<Longrightarrow> terminate os p = p"
  by (simp add: idle_def terminate_def terminate_process_group_def Let_def)

section \<open>Starting\<close>

definition prepared :: "prep_cmd_t list \<Rightarrow> nat \<Rightarrow> nat \<Rightarrow> nat list" where
  "prepared cmds k n = filter (\<lambda>j. do_cmd (cmds ! j) \<noteq> []) [k..<n]"

lemma prepared_step: "k < n \<Longrightarrow> prepared cmds k n = (if do_cmd (cmds ! k) = [] then [] else [k]) @ prepared cmds (Suc k) n"
  by (simp add: prepared_def upt_conv_Cons)

lemma adds_at: "adds es (p\<lparr>pr_prep_it := k\<rparr>) q \<Longrightarrow> adds es p (q\<lparr>pr_prep_it := pr_prep_it p\<rparr>)"
proof -
  assume "adds es (p\<lparr>pr_prep_it := k\<rparr>) q"
  then obtain l r where "q = p\<lparr>pr_prep_it := k, pr_looks := l, pr_runs := r, pr_events := pr_events p @ es\<rparr>"
    by (auto simp: adds_def)
  then show ?thesis unfolding adds_def by (intro exI [of _ l] exI [of _ r]) simp
qed

lemma run_prep_effect:
  assumes "run_prep os cmds p = (ok, q)" "cmds = drop (pr_prep_it p) (ac_prep_cmds (pr_app p))"
    "pr_prep_it p \<le> length (ac_prep_cmds (pr_app p))"
  shows "\<exists>es q'. adds es p q' \<and> q = q'\<lparr>pr_prep_it := pr_prep_it q\<rparr> \<and> pr_prep_it p \<le> pr_prep_it q \<and>
    (if ok then pr_prep_it q = length (ac_prep_cmds (pr_app p)) else pr_prep_it q < length (ac_prep_cmds (pr_app p))) \<and>
    preps es = prepared (ac_prep_cmds (pr_app p)) (pr_prep_it p) (if ok then pr_prep_it q else Suc (pr_prep_it q)) \<and>
    undos es = [] \<and> kills es = [] \<and> E_Revert_Display \<notin> set es"
  using assms
proof (induction cmds arbitrary: p)
  case Nil
  then show ?case by (intro exI [of _ "[]"] exI [of _ p]) (auto simp: adds_refl prepared_def)
next
  case (Cons cmd cmds)
  let ?all = "ac_prep_cmds (pr_app p)" and ?k = "pr_prep_it p"
  have k: "?k < length ?all" using Cons.prems(2) by (metis drop_all list.distinct(1) not_le)
  have c: "cmd = ?all ! ?k" "cmds = drop (Suc ?k) ?all"
    using Cons.prems(2) k by (metis Cons_nth_drop_Suc list.inject)+
  define e where "e = E_Run (For_Prep ?k) (elevated cmd) (do_cmd cmd) (working_dir os (do_cmd cmd) p) (pr_pipe p)"
  define p1 where "p1 = snd (run_command os (For_Prep ?k) (elevated cmd) (do_cmd cmd) p)"
  have run: "adds [e] p p1" unfolding e_def p1_def by simp
  text \<open>The events of the command itself, if there is one.\<close>
  define es0 where "es0 = (if do_cmd cmd = [] then [] else [e])"
  define v where "v = (if do_cmd cmd = [] then p else p1)"
  have v: "adds es0 p v" using run by (simp add: es0_def v_def adds_refl)
  note dv = addsD [OF v]
  show ?case
  proof (cases "do_cmd cmd \<noteq> [] \<and> run_prep os (cmd # cmds) p = (False, p1)")
    case True
    then have "ok = False" "q = p1" using Cons.prems(1) by auto
    then show ?thesis using True run k addsD [OF run] c(1)
      by (intro exI [of _ "[e]"] exI [of _ p1]) (simp add: prepared_def e_def)
  next
    case False
    have r: "run_prep os cmds (v\<lparr>pr_prep_it := Suc ?k\<rparr>) = (ok, q)"
      using Cons.prems(1) False dv
      by (auto simp: v_def p1_def Let_def split_beta split: if_splits prod.splits)
    have all: "pr_app (v\<lparr>pr_prep_it := Suc ?k\<rparr>) = pr_app p" "pr_prep_it (v\<lparr>pr_prep_it := Suc ?k\<rparr>) = Suc ?k"
      using dv by simp_all
    have le: "Suc ?k \<le> length ?all" using k by simp
    obtain fs q' where fs: "adds fs (v\<lparr>pr_prep_it := Suc ?k\<rparr>) q'" "q = q'\<lparr>pr_prep_it := pr_prep_it q\<rparr>"
      "Suc ?k \<le> pr_prep_it q" "if ok then pr_prep_it q = length ?all else pr_prep_it q < length ?all"
      "preps fs = prepared ?all (Suc ?k) (if ok then pr_prep_it q else Suc (pr_prep_it q))"
      "undos fs = []" "kills fs = []" "E_Revert_Display \<notin> set fs"
      using Cons.IH [OF r, unfolded all, OF c(2) le] by blast
    have a: "adds (es0 @ fs) p (q'\<lparr>pr_prep_it := ?k\<rparr>)"
      using adds_trans [OF v adds_at [OF fs(1)]] dv(5) by simp
    have "?k < (if ok then pr_prep_it q else Suc (pr_prep_it q))" using fs(3) by auto
    from prepared_step [OF this, of ?all]
    have "preps (es0 @ fs) = prepared ?all ?k (if ok then pr_prep_it q else Suc (pr_prep_it q))"
      using fs(5) c(1) by (auto simp: es0_def e_def)
    then show ?thesis using a fs(2-)
      by (intro exI [of _ "es0 @ fs"] exI [of _ "q'\<lparr>pr_prep_it := ?k\<rparr>"]) (auto simp: es0_def e_def)
  qed
qed

definition plain_events :: "proc_event list \<Rightarrow> bool" where
  "plain_events es \<longleftrightarrow> preps es = [] \<and> undos es = [] \<and> kills es = [] \<and> E_Revert_Display \<notin> set es"

lemma run_detached_adds: "\<exists>es. adds es p (run_detached os cmds p) \<and> plain_events es"
proof (induction cmds arbitrary: p)
  case Nil
  show ?case by (intro exI [of _ "[]"]) (simp add: run_detached_def adds_refl plain_events_def)
next
  case (Cons cmd cmds)
  define q where "q = snd (run_command os For_Detached (ac_elevated (pr_app p)) cmd p)"
  obtain es where es: "adds es q (run_detached os cmds q)" "plain_events es" using Cons by blast
  have "adds ([E_Run For_Detached (ac_elevated (pr_app p)) cmd (working_dir os cmd p) (pr_pipe p)] @ es) p (run_detached os cmds q)"
    by (rule adds_trans [OF _ es(1)]) (simp add: q_def)
  moreover have "run_detached os (cmd # cmds) p = run_detached os cmds q" by (simp add: run_detached_def q_def)
  ultimately show ?case using es(2)
    by (intro exI [of _ "[E_Run For_Detached (ac_elevated (pr_app p)) cmd (working_dir os cmd p) (pr_pipe p)] @ es"])
      (simp add: plain_events_def)
qed

lemma run_app_effect:
  assumes "run_app os p = (ok, q)"
  obtains es where "pr_events q = pr_events p @ es" "plain_events es" "pr_app q = pr_app p" "pr_prep_it q = pr_prep_it p"
    "pr_app_id q = pr_app_id p" "ok \<or> pr_group q = pr_group p"
proof (cases "ac_cmd (pr_app p) = []")
  case True
  then show thesis using assms by (intro that [of "[]"]) (auto simp: run_app_def plain_events_def)
next
  case False
  define u where "u = snd (run_command os For_App (ac_elevated (pr_app p)) (ac_cmd (pr_app p)) p)"
  have u: "adds [E_Run For_App (ac_elevated (pr_app p)) (ac_cmd (pr_app p)) (working_dir os (ac_cmd (pr_app p)) p) (pr_pipe p)] p u"
    by (simp add: u_def)
  note d = addsD [OF u]
  show thesis
    by (rule that [of "[E_Run For_App (ac_elevated (pr_app p)) (ac_cmd (pr_app p)) (working_dir os (ac_cmd (pr_app p)) p) (pr_pipe p)]"])
      (use assms d False in \<open>auto simp: run_app_def split_beta u_def [symmetric] plain_events_def split: if_splits\<close>)
qed

lemma open_pipe_simps [simp]:
  "pr_events (open_pipe os p) = pr_events p" "pr_app (open_pipe os p) = pr_app p" "pr_prep_it (open_pipe os p) = pr_prep_it p"
  "pr_app_id (open_pipe os p) = pr_app_id p" "pr_group (open_pipe os p) = pr_group p"
  by (simp_all add: open_pipe_def Let_def)

text \<open>A start that succeeded, and one that gave up after \<open>m\<close> preparation commands were passed.\<close>

definition came_up :: "app_ctx \<Rightarrow> int \<Rightarrow> proc_t \<Rightarrow> proc_event list \<Rightarrow> bool" where
  "came_up app app_id q es \<longleftrightarrow>
     preps es = prepared (ac_prep_cmds app) 0 (length (ac_prep_cmds app)) \<and> undos es = [] \<and> kills es = [] \<and>
     E_Revert_Display \<notin> set es \<and> pr_app q = app \<and> pr_prep_it q = length (ac_prep_cmds app) \<and> pr_app_id q = app_id"

definition gave_up :: "app_ctx \<Rightarrow> int \<Rightarrow> proc_t \<Rightarrow> proc_event list \<Rightarrow> bool" where
  "gave_up app app_id q es \<longleftrightarrow> idle q \<and>
     (\<exists>m\<le>length (ac_prep_cmds app).
        preps es = prepared (ac_prep_cmds app) 0 (min (Suc m) (length (ac_prep_cmds app))) \<and>
        undos es = undone (ac_prep_cmds app) m) \<and>
     (E_Revert_Display \<in> set es \<longleftrightarrow> ac_name app \<noteq> [] \<and> app_id > 0)"

lemma give_up:
  assumes "pr_app q = app" "pr_prep_it q = m" "pr_app_id q = app_id"
    and "pr_events q = evs @ es" "preps es = prepared (ac_prep_cmds app) 0 (min (Suc m) (length (ac_prep_cmds app)))"
    and "undos es = []" "E_Revert_Display \<notin> set es" "m \<le> length (ac_prep_cmds app)"
  shows "\<exists>fs. pr_events (terminate os q) = evs @ fs \<and> gave_up app app_id (terminate os q) fs"
proof -
  obtain gs where "pr_events (terminate os q) = pr_events q @ gs" "idle (terminate os q)" "preps gs = []"
    "undos gs = undone (ac_prep_cmds (pr_app q)) (pr_prep_it q)"
    "E_Revert_Display \<in> set gs \<longleftrightarrow> ac_name (pr_app q) \<noteq> [] \<and> pr_app_id q > 0"
    by (rule terminate_effect [of os q])
  then show ?thesis using assms unfolding gave_up_def by (intro exI [of _ "es @ gs"] conjI exI [of _ m]) auto
qed

lemma execute_effect:
  assumes "execute os now app_id s p = (r, q)"
    and "find (\<lambda>a. ac_id a = int_string app_id) (pr_apps p) = Some app"
  shows "\<exists>es. pr_events q = pr_events (terminate os p) @ es \<and>
    (if r = 0 then came_up app app_id q es else r = - 1 \<and> gave_up app app_id q es)"
proof -
  define p0 where "p0 = terminate os p"
  have p0: "idle p0" "pr_apps p0 = pr_apps p" unfolding p0_def by (rule terminate_effect [of os p]; simp)+
  define p1 where "p1 = open_pipe os (p0\<lparr>pr_app_id := app_id, pr_app := app, pr_prep_it := 0,
      pr_env := stream_env app_id app s (pr_env p0)\<rparr>)"
  have d1: "pr_events p1 = pr_events p0" "pr_app p1 = app" "pr_prep_it p1 = 0" "pr_app_id p1 = app_id" "pr_group p1 = None"
    using p0 by (simp_all add: p1_def idle_def)
  let ?all = "ac_prep_cmds app"
  obtain ok p2 where prep: "run_prep os ?all p1 = (ok, p2)" by (cases "run_prep os ?all p1")
  have "?all = drop (pr_prep_it p1) (ac_prep_cmds (pr_app p1))" "pr_prep_it p1 \<le> length (ac_prep_cmds (pr_app p1))"
    by (simp_all add: d1)
  from run_prep_effect [OF prep this] obtain es p2' where es: "adds es p1 p2'" "p2 = p2'\<lparr>pr_prep_it := pr_prep_it p2\<rparr>"
    "if ok then pr_prep_it p2 = length ?all else pr_prep_it p2 < length ?all"
    "preps es = prepared ?all 0 (if ok then pr_prep_it p2 else Suc (pr_prep_it p2))"
    "undos es = []" "kills es = []" "E_Revert_Display \<notin> set es" unfolding d1 by blast
  note de = addsD [OF es(1)]
  have "pr_app (p2'\<lparr>pr_prep_it := n\<rparr>) = app" "pr_app_id (p2'\<lparr>pr_prep_it := n\<rparr>) = app_id"
    "pr_group (p2'\<lparr>pr_prep_it := n\<rparr>) = None" "pr_events (p2'\<lparr>pr_prep_it := n\<rparr>) = pr_events p0 @ es" for n
    by (simp_all add: de d1)
  then have d2: "pr_app p2 = app" "pr_app_id p2 = app_id" "pr_group p2 = None" "pr_events p2 = pr_events p0 @ es"
    using es(2) by metis+
  have e: "execute os now app_id s p = (if \<not> ok then (- 1, terminate os p2) else
      let (ok', p3) = run_app os (run_detached os (ac_detached app) p2)
      in if \<not> ok' then (- 1, terminate os p3) else (0, p3\<lparr>pr_launch_time := now\<rparr>))"
    using prep assms(2) p0(2) by (simp add: execute_def p0_def p1_def Let_def)
  show ?thesis
  proof (cases ok)
    case False
    then have rq: "r = - 1" "q = terminate os p2" using e assms(1) by auto
    let ?m = "pr_prep_it p2"
    have m: "?m \<le> length ?all" "preps es = prepared ?all 0 (min (Suc ?m) (length ?all))" using es(3,4) False by simp_all
    from give_up [OF d2(1) refl d2(2,4) m(2) es(5,7) m(1)] show ?thesis unfolding rq by (simp add: p0_def)
  next
    case True
    then have it: "pr_prep_it p2 = length ?all" "preps es = prepared ?all 0 (length ?all)" using es(3,4) by simp_all
    define p3 where "p3 = run_detached os (ac_detached app) p2"
    obtain gs where gs: "adds gs p2 p3" "plain_events gs" using run_detached_adds [of p2 os] unfolding p3_def by blast
    note d3 = addsD [OF gs(1)]
    obtain ok' p4 where app: "run_app os p3 = (ok', p4)" by (cases "run_app os p3")
    from run_app_effect [OF this] obtain hs where hs: "pr_events p4 = pr_events p3 @ hs" "plain_events hs" "pr_app p4 = pr_app p3"
      "pr_prep_it p4 = pr_prep_it p3" "pr_app_id p4 = pr_app_id p3" by metis
    have d4: "pr_app p4 = app" "pr_prep_it p4 = length ?all" "pr_app_id p4 = app_id"
      "pr_events p4 = pr_events p0 @ (es @ gs @ hs)" using hs d3 d2 it by simp_all
    have evs: "preps (es @ gs @ hs) = prepared ?all 0 (min (Suc (length ?all)) (length ?all))" "undos (es @ gs @ hs) = []"
      "kills (es @ gs @ hs) = []" "E_Revert_Display \<notin> set (es @ gs @ hs)"
      using it(2) es(5-7) gs(2) hs(2) by (simp_all add: plain_events_def)
    show ?thesis
    proof (cases ok')
      case True
      then have "r = 0" "q = p4\<lparr>pr_launch_time := now\<rparr>" using e assms(1) \<open>ok\<close> app by (auto simp: p3_def)
      then show ?thesis using d4 evs by (intro exI [of _ "es @ gs @ hs"]) (simp add: p0_def came_up_def)
    next
      case False
      then have rq: "r = - 1" "q = terminate os p4" using e assms(1) \<open>ok\<close> app by (auto simp: p3_def)
      from give_up [OF d4 evs(1,2,4) order_refl] show ?thesis unfolding rq by (simp add: p0_def)
    qed
  qed
qed

lemma failed_start_idle:
  assumes "execute os now app_id s p = (r, q)" "r \<noteq> 0"
  shows "idle q \<and> r \<in> {404, - 1}"
proof (cases "find (\<lambda>a. ac_id a = int_string app_id) (pr_apps p)")
  case None
  have "pr_apps (terminate os p) = pr_apps p" "idle (terminate os p)" by (rule terminate_effect [of os p]; simp)+
  then show ?thesis using assms(1) None by (auto simp: execute_def Let_def)
next
  case (Some app)
  then show ?thesis using execute_effect [OF assms(1) Some] assms(2) by (auto simp: gave_up_def)
qed

section \<open>Looking whether it runs\<close>

lemma adds_same: "adds [] p q \<Longrightarrow> pr_events q = pr_events p \<and> pr_app q = pr_app p \<and> pr_prep_it q = pr_prep_it p \<and>
    pr_app_id q = pr_app_id p"
  by (auto dest: addsD)

lemma running_effect:
  obtains p' where "adds [] p p'"
    "snd (running os now p) = p' \<or> snd (running os now p) = p'\<lparr>pr_placebo := True\<rparr> \<or> snd (running os now p) = terminate os p'"
proof -
  define p1 where "p1 = (case pr_group p of
      Some g \<Rightarrow> if ac_wait_all (pr_app p) then snd (look (os_group_running os g) p) else p | None \<Rightarrow> p)"
  have 1: "adds [] p p1" by (simp add: p1_def adds_refl split: option.split)
  have 2: "adds [] p (snd (look f p1))" for f using adds_trans [OF 1 adds_look] by simp
  have "snd (running os now p) \<in> {p, p1} \<or> (\<exists>n. snd (running os now p) \<in>
      {snd (look (os_child_running os n) p1), (snd (look (os_child_running os n) p1))\<lparr>pr_placebo := True\<rparr>,
       terminate os (snd (look (os_child_running os n) p1))})"
    by (auto simp: running_def p1_def split_beta Let_def split: option.split)
  then show thesis using that 1 2 adds_refl by blast
qed

text \<open>As long as the application is looked at: it still owes its undo commands, or has paid them.\<close>

definition settled :: "app_ctx \<Rightarrow> int \<Rightarrow> proc_event list \<Rightarrow> proc_t \<Rightarrow> bool" where
  "settled app app_id evs q \<longleftrightarrow> (\<exists>es. pr_events q = evs @ es \<and> idle q \<and> preps es = [] \<and>
     undos es = undone (ac_prep_cmds app) (length (ac_prep_cmds app)) \<and>
     (E_Revert_Display \<in> set es \<longleftrightarrow> ac_name app \<noteq> [] \<and> app_id > 0))"

definition indebted :: "app_ctx \<Rightarrow> int \<Rightarrow> proc_event list \<Rightarrow> proc_t \<Rightarrow> bool" where
  "indebted app app_id evs q \<longleftrightarrow> pr_events q = evs \<and> pr_app q = app \<and> pr_prep_it q = length (ac_prep_cmds app) \<and>
     pr_app_id q = app_id"

lemma indebted_terminate: "indebted app app_id evs q \<Longrightarrow> settled app app_id evs (terminate os q)"
  by (rule terminate_effect [of os q]) (auto simp: indebted_def settled_def)

lemma indebted_running:
  assumes "indebted app app_id evs q"
  shows "indebted app app_id evs (snd (running os now q)) \<or> settled app app_id evs (snd (running os now q))"
proof -
  obtain p' where p': "adds [] q p'" "snd (running os now q) = p' \<or> snd (running os now q) = p'\<lparr>pr_placebo := True\<rparr> \<or>
      snd (running os now q) = terminate os p'" by (rule running_effect)
  have i: "indebted app app_id evs p'" using assms adds_same [OF p'(1)] by (simp add: indebted_def)
  then have "indebted app app_id evs (p'\<lparr>pr_placebo := True\<rparr>)" by (simp add: indebted_def)
  then show ?thesis using i indebted_terminate p'(2) by metis
qed

lemma idle_running [simp]: "idle q \<Longrightarrow> running os now q = (0, q)"
  by (simp add: idle_def running_def)

lemma looks_settle:
  "indebted app app_id evs q \<or> settled app app_id evs q \<Longrightarrow>
   (let q' = fold (\<lambda>t q. snd (running os t q)) looked q in indebted app app_id evs q' \<or> settled app app_id evs q')"
proof (induction looked arbitrary: q)
  case (Cons t looked)
  have "indebted app app_id evs (snd (running os t q)) \<or> settled app app_id evs (snd (running os t q))"
    using Cons.prems indebted_running [of app app_id evs q os t] by (auto simp: settled_def)
  from Cons.IH [OF this] show ?case by simp
qed simp

section \<open>Properties\<close>



text \<open>
  Ending an application takes at most its timeout: the host sleeps for no more seconds than the
  application's exit timeout, and a process group that was alive is killed in any case.
\<close>
theorem termination_bounded:
  "\<exists>es. pr_events (terminate os p) = pr_events p @ es \<and> sleeps es \<le> nat (ac_exit_timeout (pr_app p)) \<and> idle (terminate os p) \<and>
    kills es = (case pr_group p of Some g \<Rightarrow> if os_group_running os g (pr_looks p) then [g] else [] | None \<Rightarrow> [])"
  by (rule terminate_effect [of os p]) blast

text \<open>
  Saving the list of applications while one is running forgets it: the refreshed list replaces the
  running application, so the host reports that nothing runs, and neither a later look nor the
  end of the stream undoes a preparation command, kills a process or restores the display.
\<close>
theorem refresh_loses_app:
  "snd (running os now (refresh (Some x) p)) = refresh (Some x) p \<and> fst (running os now (refresh (Some x) p)) = 0 \<and>
   pr_events (terminate os (refresh (Some x) p)) = pr_events p"
  by (cases x) (simp add: refresh_def new_proc_def running_def terminate_def terminate_process_group_def Let_def no_app_def)

section \<open>A run\<close>

definition demo_os :: host_os where
  "demo_os = \<lparr>os_start_error = (\<lambda>_. None), os_wait_error = (\<lambda>_. False), os_exit_code = (\<lambda>n. if n = 1 then 1 else 0),
     os_group_running = (\<lambda>_ _. True), os_request_exit = (\<lambda>_ _. True), os_child_running = (\<lambda>_ _. True),
     os_native_exit = (\<lambda>_ _. 0), os_fopen = (\<lambda>_. True), os_split_unix = (\<lambda>_. None), os_search_path = id,
     os_is_absolute = (\<lambda>_. True), os_parent_path = id\<rparr>"

definition demo_session :: launch_session where
  "demo_session = \<lparr>ls_id = 1, ls_gcm_key = [], ls_iv = [], ls_av_ping_payload = [], ls_control_connect_data = 0,
     ls_host_audio = False, ls_unique_id = [], ls_width = 1920, ls_height = 1080, ls_fps = 60, ls_gcmap = 0, ls_appid = 7,
     ls_surround_info = 196610, ls_surround_params = [], ls_continuous_audio = False, ls_enable_hdr = False,
     ls_enable_sops = False, ls_rtsp_cipher = None, ls_rtsp_url_scheme = ''rtsp://''\<rparr>"

definition demo_app :: "nat \<Rightarrow> app_ctx" where
  "demo_app n = no_app\<lparr>ac_id := ''7'', ac_name := ''A'', ac_cmd := ''a'', ac_exit_timeout := 5,
     ac_prep_cmds := replicate n \<lparr>do_cmd = ''d'', undo_cmd = ''u'', elevated = False\<rparr>\<rparr>"

lemma demo_found: "find (\<lambda>a. ac_id a = int_string 7) (pr_apps (new_proc Map.empty [demo_app n])) = Some (demo_app n)"
proof -
  have "int_string 7 = ''7''" by code_simp
  then show ?thesis by (simp add: new_proc_def demo_app_def)
qed



end
