(* ===== verification/Launch.thy ===== *)
theory Launch
  imports Process_Apps
begin

text \<open>
  Starting, resuming and cancelling a stream (\<open>launch\<close>, \<open>resume\<close> and \<open>cancel\<close> of \<open>src/nvhttp.cpp\<close>),
  with the pending launch and the slots of the RTSP server (\<open>src/rtsp.cpp\<close>) and the start and end of
  a session (\<open>src/stream.cpp\<close>). \<open>None\<close> as a result is an exception that leaves the handler.
\<close>

section \<open>State\<close>

record launch_conf =
  lc_stream :: stream_t
  lc_sunshine :: sunshine_t
  lc_config_revert_on_disconnect :: bool

text \<open>
  The operating system, the probes of the encoders in the order they are made, and the random bytes
  of each launch.
\<close>

record host_env =
  he_os :: host_os
  he_probe_fails :: "nat \<Rightarrow> bool"
  he_random_payload :: "32 word \<Rightarrow> byte list"
  he_random_connect :: "32 word \<Rightarrow> 32 word"

record 'a launch_request =
  lr_args :: "(string \<times> string) list"
  lr_remote :: 'a
  lr_local :: 'a

text \<open>
  \<open>h_slots\<close> are the streaming sessions of the RTSP server, \<open>h_display\<close> says whether the display was
  prepared for a stream and not restored since, \<open>h_callbacks\<close> the calls of
  \<open>streaming_will_start\<close> (\<open>True\<close>) and \<open>streaming_will_stop\<close> (\<open>False\<close>).
\<close>

record host =
  h_proc :: proc_t
  h_session_id_counter :: "32 word"
  h_host_audio :: bool
  h_launch_event :: "launch_session option"
  h_slots :: "(nat \<times> state_e) list"
  h_running_sessions :: "32 word"
  h_display :: bool
  h_probes :: nat
  h_callbacks :: "bool list"

record http_reply =
  re_status :: int
  re_message :: string
  re_session_url :: string

definition status_reply :: "int \<Rightarrow> string \<Rightarrow> http_reply" where
  "status_reply status message = \<lparr>re_status = status, re_message = message, re_session_url = []\<rparr>"

text \<open>The process changes, and restores the display when it says so.\<close>

definition with_proc :: "proc_t \<Rightarrow> host \<Rightarrow> host" where
  "with_proc p h =
     h\<lparr>h_proc := p,
       h_display := h_display h \<and> E_Revert_Display \<notin> set (drop (length (pr_events (h_proc h))) (pr_events p))\<rparr>"

definition proc_running :: "host_env \<Rightarrow> int \<Rightarrow> host \<Rightarrow> int \<times> host" where
  "proc_running E now h =
     (let (app, p) = running (he_os E) now (h_proc h) in (app, with_proc p h))"

definition proc_terminate :: "host_env \<Rightarrow> host \<Rightarrow> host" where
  "proc_terminate E h = with_proc (terminate (he_os E) (h_proc h)) h"

definition revert_configuration :: "host \<Rightarrow> host" where
  "revert_configuration h = h\<lparr>h_display := False\<rparr>"

definition configure_display :: "host \<Rightarrow> host" where
  "configure_display h = h\<lparr>h_display := True\<rparr>"

section \<open>Sessions\<close>

text \<open>\<open>stop\<close> and \<open>join\<close>; a session that was never started has no threads to join.\<close>

definition stop_state :: "state_e \<Rightarrow> state_e" where
  "stop_state s = (if s = RUNNING then STOPPING else s)"

definition last_session_ended :: "launch_conf \<Rightarrow> host_env \<Rightarrow> int \<Rightarrow> host \<Rightarrow> host" where
  "last_session_ended C E now h =
     (let (app, h1) = proc_running E now h;
          revert_display_config = lc_config_revert_on_disconnect C \<or> app = 0;
          h2 = (if revert_display_config then revert_configuration h1 else h1)
      in h2\<lparr>h_callbacks := h_callbacks h2 @ [False]\<rparr>)"

definition join_session :: "launch_conf \<Rightarrow> host_env \<Rightarrow> int \<Rightarrow> state_e \<Rightarrow> host \<Rightarrow> host option" where
  "join_session C E now s h =
     (if s \<notin> {RUNNING, STOPPING} then None
      else
        let h1 = h\<lparr>h_running_sessions := h_running_sessions h - 1\<rparr>
        in Some (if h_running_sessions h1 = 0 then last_session_ended C E now h1 else h1))"

text \<open>\<open>clear\<close>: the slots that stay, and the host.\<close>

fun clear_slots ::
  "launch_conf \<Rightarrow> host_env \<Rightarrow> int \<Rightarrow> bool \<Rightarrow> (nat \<times> state_e) list \<Rightarrow> host \<Rightarrow> ((nat \<times> state_e) list \<times> host) option" where
  "clear_slots C E now all [] h = Some ([], h)"
| "clear_slots C E now all ((i, s) # slots) h =
     (if all \<or> s = STOPPING then
        (case join_session C E now (stop_state s) h of
           None \<Rightarrow> None
         | Some h1 \<Rightarrow> clear_slots C E now all slots h1)
      else map_option (\<lambda>(rest, h'). ((i, s) # rest, h')) (clear_slots C E now all slots h))"

definition clear :: "launch_conf \<Rightarrow> host_env \<Rightarrow> int \<Rightarrow> bool \<Rightarrow> host \<Rightarrow> host option" where
  "clear C E now all h =
     map_option (\<lambda>(slots, h'). h'\<lparr>h_slots := slots\<rparr>) (clear_slots C E now all (h_slots h) h)"

definition session_count :: "launch_conf \<Rightarrow> host_env \<Rightarrow> int \<Rightarrow> host \<Rightarrow> (nat \<times> host) option" where
  "session_count C E now h = map_option (\<lambda>h'. (length (h_slots h'), h')) (clear C E now False h)"

text \<open>The end of \<open>ANNOUNCE\<close>: insert the session, start it, remove it when that fails.\<close>

definition insert_slot :: "nat \<Rightarrow> host \<Rightarrow> host" where
  "insert_slot i h = h\<lparr>h_slots := h_slots h @ [(i, STOPPED)]\<rparr>"

definition remove_slot :: "nat \<Rightarrow> host \<Rightarrow> host" where
  "remove_slot i h = h\<lparr>h_slots := filter (\<lambda>(j, _). j \<noteq> i) (h_slots h)\<rparr>"

definition set_slot :: "nat \<Rightarrow> (state_e \<Rightarrow> state_e) \<Rightarrow> host \<Rightarrow> host" where
  "set_slot i f h = h\<lparr>h_slots := map (\<lambda>(j, s). (j, if j = i then f s else s)) (h_slots h)\<rparr>"

definition start_slot :: "nat \<Rightarrow> host \<Rightarrow> host" where
  "start_slot i h =
     (let h1 = set_slot i (\<lambda>_. RUNNING) h;
          h2 = h1\<lparr>h_running_sessions := h_running_sessions h1 + 1\<rparr>
      in if h_running_sessions h2 = 1 then h2\<lparr>h_callbacks := h_callbacks h2 @ [True]\<rparr> else h2)"

definition stop_slot :: "nat \<Rightarrow> host \<Rightarrow> host" where
  "stop_slot i h = set_slot i stop_state h"

section \<open>The pending launch\<close>

definition session_raise :: "launch_session \<Rightarrow> host \<Rightarrow> host" where
  "session_raise s h = (if h_launch_event h \<noteq> None then h else h\<lparr>h_launch_event := Some s\<rparr>)"

definition session_clear :: "32 word \<Rightarrow> host \<Rightarrow> host" where
  "session_clear launch_session_id h =
     (case h_launch_event h of
        None \<Rightarrow> h
      | Some s \<Rightarrow> if ls_id s \<noteq> launch_session_id then h else h\<lparr>h_launch_event := None\<rparr>)"

text \<open>The timer of a launch.\<close>

definition session_expired :: "host \<Rightarrow> host" where
  "session_expired h = h\<lparr>h_launch_event := None\<rparr>"

section \<open>The arguments of a launch\<close>

definition find_arg :: "(string \<times> string) list \<Rightarrow> string \<Rightarrow> string option" where
  "find_arg args name = map_option snd (find (\<lambda>(n, _). map to_lower n = map to_lower name) args)"

text \<open>\<open>get_arg\<close> with a default value.\<close>

definition get_arg :: "(string \<times> string) list \<Rightarrow> string \<Rightarrow> string \<Rightarrow> string" where
  "get_arg args name default_value = (case find_arg args name of None \<Rightarrow> default_value | Some v \<Rightarrow> v)"

function mode_segments :: "string \<Rightarrow> string list" where
  "mode_segments mode =
     (if mode = [] then []
      else takeWhile (\<lambda>c. c \<noteq> CHR ''x'') mode # mode_segments (tl (dropWhile (\<lambda>c. c \<noteq> CHR ''x'') mode)))"
  by pat_completeness auto
termination
proof (relation "measure length", goal_cases)
  case (2 mode)
  have "length (tl (dropWhile (\<lambda>c. c \<noteq> CHR ''x'') mode)) \<le> length mode - 1"
    by (simp add: diff_le_mono dropWhile_length_le)
  then show ?case using 2 by (cases mode) auto
qed simp

declare mode_segments.simps [simp del]

definition isspace :: "char \<Rightarrow> bool" where
  "isspace c \<longleftrightarrow> c = CHR '' '' \<or> 9 \<le> (of_char c :: nat) \<and> (of_char c :: nat) \<le> 13"

definition atoi :: "string \<Rightarrow> int" where
  "atoi str =
     (let t = dropWhile isspace str; neg = (take 1 t = ''-'');
          digits = takeWhile isdigit (if neg \<or> take 1 t = ''+'' then drop 1 t else t)
      in to_int32 (if neg then - dec_value digits else dec_value digits))"

definition segment :: "nat \<Rightarrow> string list \<Rightarrow> int" where
  "segment k segments = (if k < length segments then atoi (segments ! k) else 0)"

text \<open>\<open>rikey\<close> and \<open>rikeyid\<close> have no default: both handlers have checked that they are there.\<close>

definition make_launch_session :: "host_env \<Rightarrow> bool \<Rightarrow> (string \<times> string) list \<Rightarrow> host \<Rightarrow> launch_session \<times> host" where
  "make_launch_session E host_audio args h =
     (let n = h_session_id_counter h + 1;
          key = (case from_hex_vec (get_arg args ''rikey'' []) True of None \<Rightarrow> [] | Some bs \<Rightarrow> bs);
          mode = mode_segments (get_arg args ''mode'' ''0x0x0'');
          num = (\<lambda>name d. from_view (get_arg args name d));
          encrypted = num ''corever'' ''0'' \<ge> 1
      in (\<lparr>ls_id = n, ls_gcm_key = key,
            ls_iv = be_bytes (word_of_int (num ''rikeyid'' []) :: 32 word) @ replicate 12 0,
            ls_av_ping_payload = hex_vec (he_random_payload E n) False,
            ls_control_connect_data = he_random_connect E n, ls_host_audio = host_audio,
            ls_unique_id = get_arg args ''uniqueid'' ''unknown'', ls_width = segment 0 mode, ls_height = segment 1 mode,
            ls_fps = segment 2 mode, ls_gcmap = to_int32 (num ''gcmap'' ''0''),
            ls_appid = to_int32 (num ''appid'' ''unknown''),
            ls_surround_info = to_int32 (num ''surroundAudioInfo'' ''196610''),
            ls_surround_params = get_arg args ''surroundParams'' [],
            ls_continuous_audio = num ''continuousAudio'' ''0'' \<noteq> 0, ls_enable_hdr = num ''hdrMode'' ''0'' \<noteq> 0,
            ls_enable_sops = num ''sops'' ''0'' \<noteq> 0, ls_rtsp_cipher = (if encrypted then Some key else None),
            ls_rtsp_url_scheme = (if encrypted then ''rtspenc://'' else ''rtsp://'')\<rparr>,
          h\<lparr>h_session_id_counter := n\<rparr>))"

section \<open>The handlers\<close>

definition session_url :: "'a asio \<Rightarrow> launch_conf \<Rightarrow> 'a \<Rightarrow> launch_session \<Rightarrow> string" where
  "session_url io C local s =
     ls_rtsp_url_scheme s @ addr_to_url_escaped_string io local @ '':'' @
     int_string (map_port (lc_sunshine C) RTSP_SETUP_PORT)"

definition has_args :: "(string \<times> string) list \<Rightarrow> string list \<Rightarrow> bool" where
  "has_args args names = list_all (\<lambda>n. find_arg args n \<noteq> None) names"

text \<open>The display and the encoders are prepared when there is no other session: whether that failed.\<close>

definition prepare_stream :: "host_env \<Rightarrow> host \<Rightarrow> bool \<times> host" where
  "prepare_stream E h =
     (let h1 = configure_display h
      in (he_probe_fails E (h_probes h1), h1\<lparr>h_probes := Suc (h_probes h1)\<rparr>))"

definition probe_failed :: http_reply where
  "probe_failed =
     status_reply 503 ''Failed to initialize video capture/encoding. Is a display connected and turned on?''"

definition encryption_refused :: http_reply where
  "encryption_refused = status_reply 403 ''Encryption is mandatory for this host but unsupported by the client''"

text \<open>The part of \<open>launch\<close> behind the preparation; \<open>None\<close> as a reply is an exception.\<close>

definition launch_app ::
  "'a asio \<Rightarrow> launch_conf \<Rightarrow> host_env \<Rightarrow> int \<Rightarrow> 'a launch_request \<Rightarrow> int \<Rightarrow> launch_session \<Rightarrow> host \<Rightarrow> http_reply option \<times> host" where
  "launch_app io C E now req appid s h =
     (case encryption_mode_for_address io (lc_stream C) (lr_remote req) of
        None \<Rightarrow> (None, h)
      | Some encryption_mode \<Rightarrow>
          if ls_rtsp_cipher s = None \<and> encryption_mode = ENCRYPTION_MODE_MANDATORY then (Some encryption_refused, h)
          else
            let (err, h1) = (if appid > 0
                  then (let (err, p) = execute (he_os E) now (to_int32 appid) s (h_proc h) in (err, with_proc p h))
                  else (0, h))
            in if err \<noteq> 0 then (Some (status_reply err ''Failed to start the specified application''), h1)
               else (Some \<lparr>re_status = 200, re_message = [], re_session_url = session_url io C (lr_local req) s\<rparr>,
                     session_raise s h1))"

definition failed_reply :: "http_reply option \<Rightarrow> bool" where
  "failed_reply r = (case r of None \<Rightarrow> True | Some x \<Rightarrow> re_status x \<noteq> 200)"

definition launch ::
  "'a asio \<Rightarrow> launch_conf \<Rightarrow> host_env \<Rightarrow> int \<Rightarrow> 'a launch_request \<Rightarrow> host \<Rightarrow> (http_reply option \<times> host) option" where
  "launch io C E now req h =
     (let args = lr_args req
      in if \<not> has_args args [''rikey'', ''rikeyid'', ''localAudioPlayMode'', ''appid'']
         then Some (Some (status_reply 400 ''Missing a required launch parameter''), h)
         else
           let appid = from_view (get_arg args ''appid'' []); (current_appid, h1) = proc_running E now h
           in if current_appid > 0 then Some (Some (status_reply 400 ''An app is already running on this host''), h1)
              else
                let host_audio = from_view (get_arg args ''localAudioPlayMode'' []) \<noteq> 0;
                    (s, h2) = make_launch_session E host_audio args (h1\<lparr>h_host_audio := host_audio\<rparr>)
                in case session_count C E now h2 of
                     None \<Rightarrow> None
                   | Some (n, h3) \<Rightarrow>
                       if n = 0 then
                         (let (failed, h4) = prepare_stream E h3;
                              (r, h5) = (if failed then (Some probe_failed, h4) else launch_app io C E now req appid s h4)
                          in Some (r, if failed_reply r then revert_configuration h5 else h5))
                       else Some (launch_app io C E now req appid s h3))"

definition resume ::
  "'a asio \<Rightarrow> launch_conf \<Rightarrow> host_env \<Rightarrow> int \<Rightarrow> 'a launch_request \<Rightarrow> host \<Rightarrow> (http_reply option \<times> host) option" where
  "resume io C E now req h =
     (let (current_appid, h1) = proc_running E now h; args = lr_args req
      in if current_appid = 0 then Some (Some (status_reply 503 ''No running app to resume''), h1)
         else if \<not> has_args args [''rikey'', ''rikeyid''] then Some (Some (status_reply 400 ''Missing a required resume parameter''), h1)
         else
           case session_count C E now h1 of
             None \<Rightarrow> None
           | Some (n, h2) \<Rightarrow>
               let h3 = (if n = 0 \<and> find_arg args ''localAudioPlayMode'' \<noteq> None
                         then h2\<lparr>h_host_audio := from_view (get_arg args ''localAudioPlayMode'' []) \<noteq> 0\<rparr> else h2);
                   (s, h4) = make_launch_session E (h_host_audio h3) args h3;
                   (failed, h5) = (if n = 0 then prepare_stream E h4 else (False, h4))
               in if failed then Some (Some probe_failed, h5)
                  else Some (case encryption_mode_for_address io (lc_stream C) (lr_remote req) of
                      None \<Rightarrow> (None, h5)
                    | Some encryption_mode \<Rightarrow>
                        if ls_rtsp_cipher s = None \<and> encryption_mode = ENCRYPTION_MODE_MANDATORY
                        then (Some encryption_refused, h5)
                        else (Some \<lparr>re_status = 200, re_message = [], re_session_url = session_url io C (lr_local req) s\<rparr>,
                              session_raise s h5)))"

definition cancel :: "launch_conf \<Rightarrow> host_env \<Rightarrow> int \<Rightarrow> host \<Rightarrow> (http_reply \<times> host) option" where
  "cancel C E now h =
     (case clear C E now True h of
        None \<Rightarrow> None
      | Some h1 \<Rightarrow>
          let (current_appid, h2) = proc_running E now h1;
              h3 = (if current_appid > 0 then proc_terminate E h2 else h2)
          in Some (status_reply 200 [], revert_configuration h3))"

definition new_host :: "proc_t \<Rightarrow> host" where
  "new_host p = \<lparr>h_proc = p, h_session_id_counter = 0, h_host_audio = False, h_launch_event = None, h_slots = [],
     h_running_sessions = 0, h_display = False, h_probes = 0, h_callbacks = []\<rparr>"

end
