(* ===== verification/Launch_Correct.thy ===== *)
theory Launch_Correct
  imports Launch Process_Correct
begin

text \<open>
  What \<open>launch\<close>, \<open>resume\<close> and \<open>cancel\<close> guarantee: who gets a session, what a refused request leaves
  behind, and that the platform is told of the first and the last session in turn.
\<close>

section \<open>What the steps leave alone\<close>

lemma with_proc_simps [simp]:
  "h_launch_event (with_proc p h) = h_launch_event h" "h_slots (with_proc p h) = h_slots h"
  "h_running_sessions (with_proc p h) = h_running_sessions h" "h_callbacks (with_proc p h) = h_callbacks h"
  "h_proc (with_proc p h) = p"
  by (simp_all add: with_proc_def)

lemma with_proc_display: "h_display (with_proc p h) \<Longrightarrow> h_display h"
  by (simp add: with_proc_def)

lemma running_simps [simp]:
  "h_launch_event (snd (proc_running E now h)) = h_launch_event h" "h_slots (snd (proc_running E now h)) = h_slots h"
  "h_running_sessions (snd (proc_running E now h)) = h_running_sessions h"
  "h_callbacks (snd (proc_running E now h)) = h_callbacks h"
  by (simp_all add: proc_running_def split_beta)

lemma running_display: "h_display (snd (proc_running E now h)) \<Longrightarrow> h_display h"
  by (auto simp: proc_running_def split_beta dest: with_proc_display)

lemma last_session_simps [simp]:
  "h_launch_event (last_session_ended C E now h) = h_launch_event h" "h_slots (last_session_ended C E now h) = h_slots h"
  "h_running_sessions (last_session_ended C E now h) = h_running_sessions h"
  "h_callbacks (last_session_ended C E now h) = h_callbacks h @ [False]"
  by (simp_all add: last_session_ended_def split_beta Let_def revert_configuration_def)

lemma last_session_display: "h_display (last_session_ended C E now h) \<Longrightarrow> h_display h"
  by (auto simp: last_session_ended_def split_beta Let_def revert_configuration_def dest: running_display split: if_splits)

lemma join_session_frame:
  "join_session C E now s h = Some h' \<Longrightarrow>
   h_launch_event h' = h_launch_event h \<and> h_slots h' = h_slots h \<and> (h_display h' \<longrightarrow> h_display h)"
  by (auto simp: join_session_def Let_def dest: last_session_display split: if_splits)

lemma clear_slots_frame:
  "clear_slots C E now all slots h = Some (rest, h') \<Longrightarrow>
   h_launch_event h' = h_launch_event h \<and> h_slots h' = h_slots h \<and> (h_display h' \<longrightarrow> h_display h) \<and> set rest \<subseteq> set slots"
proof (induction slots arbitrary: h rest)
  case (Cons slot slots)
  obtain i s where "slot = (i, s)" by (cases slot)
  then show ?case using Cons by (fastforce dest: join_session_frame split: if_splits option.splits)
qed simp

lemma clear_frame:
  "clear C E now all h = Some h' \<Longrightarrow>
   h_launch_event h' = h_launch_event h \<and> (h_display h' \<longrightarrow> h_display h) \<and> set (h_slots h') \<subseteq> set (h_slots h)"
  by (auto simp: clear_def dest!: clear_slots_frame)

lemma session_count_frame:
  "session_count C E now h = Some (n, h') \<Longrightarrow>
   h_launch_event h' = h_launch_event h \<and> (h_display h' \<longrightarrow> h_display h) \<and> set (h_slots h') \<subseteq> set (h_slots h) \<and>
   n = length (h_slots h')"
  by (auto simp: session_count_def dest: clear_frame)

lemma make_launch_simps:
  "make_launch_session E b args h = (s, h') \<Longrightarrow>
   h_launch_event h' = h_launch_event h \<and> h_slots h' = h_slots h \<and> h_display h' = h_display h \<and> h_proc h' = h_proc h \<and>
   (ls_rtsp_cipher s \<noteq> None \<longleftrightarrow> from_view (get_arg args ''corever'' ''0'') \<ge> 1)"
  by (cases "from_view (get_arg args ''corever'' ''0'') \<ge> 1") (auto simp: make_launch_session_def Let_def)

lemma prepare_simps:
  "prepare_stream E h = (b, h') \<Longrightarrow>
   h_launch_event h' = h_launch_event h \<and> h_slots h' = h_slots h \<and> h_proc h' = h_proc h"
  by (auto simp: prepare_stream_def Let_def configure_display_def)

lemma launch_app_effect:
  assumes "launch_app io C E now req appid s h = (r, h')"
  shows "set (h_slots h') \<subseteq> set (h_slots h) \<and> (h_display h' \<longrightarrow> h_display h) \<and>
    (if failed_reply r
     then h_launch_event h' = h_launch_event h \<and> (r = None \<or> r = Some encryption_refused \<or> idle (h_proc h'))
     else h_launch_event h' = (if h_launch_event h = None then Some s else h_launch_event h) \<and>
       re_session_url (the r) = session_url io C (lr_local req) s \<and>
       (encryption_mode_for_address io (lc_stream C) (lr_remote req) = Some ENCRYPTION_MODE_MANDATORY \<longrightarrow>
          ls_rtsp_cipher s \<noteq> None))"
proof (cases "encryption_mode_for_address io (lc_stream C) (lr_remote req)")
  case None
  then show ?thesis using assms by (auto simp: launch_app_def failed_reply_def)
next
  case (Some mode)
  show ?thesis
  proof (cases "ls_rtsp_cipher s = None \<and> mode = ENCRYPTION_MODE_MANDATORY")
    case True
    then show ?thesis using assms Some by (auto simp: launch_app_def failed_reply_def encryption_refused_def status_reply_def)
  next
    case False
    define err p where "err = fst (execute (he_os E) now (to_int32 appid) s (h_proc h))"
      and "p = snd (execute (he_os E) now (to_int32 appid) s (h_proc h))"
    have ex: "execute (he_os E) now (to_int32 appid) s (h_proc h) = (err, p)" by (simp add: err_def p_def)
    have idle: "idle p \<and> err \<in> {404, - 1}" if "err \<noteq> 0"
      using failed_start_idle [OF ex that] by simp
    show ?thesis
    proof (cases "appid > 0 \<and> err \<noteq> 0")
      case True
      then have r: "r = Some (status_reply err ''Failed to start the specified application'')" "h' = with_proc p h"
        using assms Some False ex by (auto simp: launch_app_def)
      moreover have "err \<noteq> 200" using idle True by auto
      ultimately show ?thesis using idle True with_proc_display [of p h] by (auto simp: failed_reply_def status_reply_def)
    next
      case ok: False
      let ?h1 = "if appid > 0 then with_proc p h else h"
      have r: "r = Some \<lparr>re_status = 200, re_message = [], re_session_url = session_url io C (lr_local req) s\<rparr>"
        "h' = session_raise s ?h1"
        using assms Some False ok ex by (auto simp: launch_app_def split: if_splits)
      have d: "h_display ?h1 \<Longrightarrow> h_display h" using with_proc_display [of p h] by (auto split: if_splits)
      show ?thesis using r False Some d by (auto simp: failed_reply_def session_raise_def split: if_splits)
    qed
  qed
qed

text \<open>The sessions, their number and the calls of the platform stay.\<close>

definition same_sessions :: "host \<Rightarrow> host \<Rightarrow> bool" where
  "same_sessions h h' \<longleftrightarrow> h_slots h' = h_slots h \<and> h_running_sessions h' = h_running_sessions h \<and>
     h_callbacks h' = h_callbacks h"

lemma same_sessions_trans: "same_sessions h h1 \<Longrightarrow> same_sessions h1 h' \<Longrightarrow> same_sessions h h'"
  by (simp add: same_sessions_def)

lemma same_sessions_simps [simp]:
  "same_sessions h h" "same_sessions h (with_proc p h)" "same_sessions h (snd (proc_running E now h))"
  "same_sessions h (revert_configuration h)" "same_sessions h (configure_display h)" "same_sessions h (session_raise s h)"
  "same_sessions h (session_clear k h)" "same_sessions h (session_expired h)" "same_sessions h (proc_terminate E h)"
  by (auto simp: same_sessions_def revert_configuration_def configure_display_def session_raise_def session_clear_def
      session_expired_def proc_terminate_def split: option.splits)

lemma same_sessions_make: "make_launch_session E b args h = (s, h') \<Longrightarrow> same_sessions h h'"
  by (auto simp: make_launch_session_def Let_def same_sessions_def)

lemma same_sessions_prepare: "prepare_stream E h = (b, h') \<Longrightarrow> same_sessions h h'"
  by (auto simp: prepare_stream_def Let_def same_sessions_def configure_display_def)

lemma same_sessions_app: "launch_app io C E now req appid s h = (r, h') \<Longrightarrow> same_sessions h h'"
  by (auto simp: launch_app_def Let_def split_beta session_raise_def same_sessions_def split: option.splits if_splits)

section \<open>Launching\<close>

text \<open>The ways through \<open>launch\<close>: refused at once, or after the sessions were counted.\<close>

lemma launch_cases:
  assumes "launch io C E now req h = Some (r, h')"
  obtains (Refused) m where "r = Some (status_reply 400 m)" "h' = h \<or> h' = snd (proc_running E now h)"
  | (Counted) s n h2 h3 h4 where
      "make_launch_session E (from_view (get_arg (lr_args req) ''localAudioPlayMode'' []) \<noteq> 0) (lr_args req) h2 = (s, h3)"
      "h_launch_event h2 = h_launch_event h" "same_sessions h h2" "h_display h2 \<Longrightarrow> h_display h"
      "session_count C E now h3 = Some (n, h4)"
      "if n = 0 then (\<exists>h5 h6 failed. prepare_stream E h4 = (failed, h5) \<and>
         (if failed then r = Some probe_failed \<and> h6 = h5
          else launch_app io C E now req (from_view (get_arg (lr_args req) ''appid'' [])) s h5 = (r, h6)) \<and>
         h' = (if failed_reply r then revert_configuration h6 else h6))
       else launch_app io C E now req (from_view (get_arg (lr_args req) ''appid'' [])) s h4 = (r, h')"
proof (cases "has_args (lr_args req) [''rikey'', ''rikeyid'', ''localAudioPlayMode'', ''appid''] \<and> \<not> fst (proc_running E now h) > 0")
  case False
  then show thesis using assms
    by (intro Refused [of "if has_args (lr_args req) [''rikey'', ''rikeyid'', ''localAudioPlayMode'', ''appid'']
          then ''An app is already running on this host'' else ''Missing a required launch parameter''"])
      (auto simp: launch_def Let_def split_beta split: if_splits)
next
  case True
  define b where "b = (from_view (get_arg (lr_args req) ''localAudioPlayMode'' []) \<noteq> 0)"
  define h2 where "h2 = (snd (proc_running E now h))\<lparr>h_host_audio := b\<rparr>"
  obtain s h3 where m: "make_launch_session E b (lr_args req) h2 = (s, h3)"
    by (cases "make_launch_session E b (lr_args req) h2")
  have l: "launch io C E now req h = (case session_count C E now h3 of None \<Rightarrow> None
      | Some (n, h3) \<Rightarrow>
          if n = 0 then
            (let (failed, h4) = prepare_stream E h3;
                 (r, h5) = (if failed then (Some probe_failed, h4)
                   else launch_app io C E now req (from_view (get_arg (lr_args req) ''appid'' [])) s h4)
             in Some (r, if failed_reply r then revert_configuration h5 else h5))
          else Some (launch_app io C E now req (from_view (get_arg (lr_args req) ''appid'' [])) s h3))"
  proof -
    obtain a h1 where pr: "proc_running E now h = (a, h1)" by (cases "proc_running E now h")
    then have "\<not> a > 0" "h2 = h1\<lparr>h_host_audio := b\<rparr>" using True by (simp_all add: h2_def)
    then show ?thesis using True m unfolding launch_def Let_def pr b_def [symmetric] by simp
  qed
  then obtain n h4 where c: "session_count C E now h3 = Some (n, h4)" using assms by (cases "session_count C E now h3") auto
  show thesis
  proof (rule Counted [OF m [unfolded b_def] _ _ _ c])
    show "if n = 0 then (\<exists>h5 h6 failed. prepare_stream E h4 = (failed, h5) \<and>
         (if failed then r = Some probe_failed \<and> h6 = h5
          else launch_app io C E now req (from_view (get_arg (lr_args req) ''appid'' [])) s h5 = (r, h6)) \<and>
         h' = (if failed_reply r then revert_configuration h6 else h6))
       else launch_app io C E now req (from_view (get_arg (lr_args req) ''appid'' [])) s h4 = (r, h')"
      using assms l c
      by (cases "prepare_stream E h4"; cases "launch_app io C E now req (from_view (get_arg (lr_args req) ''appid'' [])) s
          (snd (prepare_stream E h4))") (auto simp: split_beta split: if_splits)
  qed (auto simp: h2_def same_sessions_def dest: running_display)
qed

lemma resume_cases:
  assumes "resume io C E now req h = Some (r, h')"
  obtains (Refused) x where "r = Some x" "re_status x \<noteq> 200" "h' = snd (proc_running E now h)"
  | (Counted) s n h2 h3 h4 b h5 failed where
      "make_launch_session E b (lr_args req) h3 = (s, h4)" "session_count C E now (snd (proc_running E now h)) = Some (n, h2)"
      "h_launch_event h3 = h_launch_event h2" "same_sessions h2 h3" "(if n = 0 then prepare_stream E h4 else (False, h4)) = (failed, h5)"
      "if failed then r = Some probe_failed \<and> h' = h5
       else case encryption_mode_for_address io (lc_stream C) (lr_remote req) of
              None \<Rightarrow> r = None \<and> h' = h5
            | Some encryption_mode \<Rightarrow>
                if ls_rtsp_cipher s = None \<and> encryption_mode = ENCRYPTION_MODE_MANDATORY
                then r = Some encryption_refused \<and> h' = h5
                else r = Some \<lparr>re_status = 200, re_message = [], re_session_url = session_url io C (lr_local req) s\<rparr> \<and>
                  h' = session_raise s h5"
proof (cases "fst (proc_running E now h) = 0 \<or> \<not> has_args (lr_args req) [''rikey'', ''rikeyid'']")
  case True
  then show thesis using assms
    by (intro Refused [of "the r"]) (auto simp: resume_def Let_def split_beta status_reply_def split: if_splits)
next
  case False
  obtain a h1 where pr: "proc_running E now h = (a, h1)" by (cases "proc_running E now h")
  with False have a: "a \<noteq> 0" "has_args (lr_args req) [''rikey'', ''rikeyid'']" by simp_all
  obtain n h2 where c: "session_count C E now h1 = Some (n, h2)"
    using assms a pr by (cases "session_count C E now h1") (auto simp: resume_def Let_def)
  define h3 where "h3 = (if n = 0 \<and> find_arg (lr_args req) ''localAudioPlayMode'' \<noteq> None
      then h2\<lparr>h_host_audio := from_view (get_arg (lr_args req) ''localAudioPlayMode'' []) \<noteq> 0\<rparr> else h2)"
  obtain s h4 where m: "make_launch_session E (h_host_audio h3) (lr_args req) h3 = (s, h4)"
    by (cases "make_launch_session E (h_host_audio h3) (lr_args req) h3")
  obtain failed h5 where p: "(if n = 0 then prepare_stream E h4 else (False, h4)) = (failed, h5)"
    by (metis surj_pair)
  have l: "resume io C E now req h = Some (if failed then (Some probe_failed, h5)
      else (case encryption_mode_for_address io (lc_stream C) (lr_remote req) of
              None \<Rightarrow> (None, h5)
            | Some encryption_mode \<Rightarrow>
                if ls_rtsp_cipher s = None \<and> encryption_mode = ENCRYPTION_MODE_MANDATORY then (Some encryption_refused, h5)
                else (Some \<lparr>re_status = 200, re_message = [], re_session_url = session_url io C (lr_local req) s\<rparr>,
                      session_raise s h5)))"
    unfolding resume_def Let_def pr using a c m p by (simp only: prod.case option.case h3_def [symmetric] if_False if_True simp_thms) simp
  have c': "session_count C E now (snd (proc_running E now h)) = Some (n, h2)" using c pr by simp
  show thesis
    by (rule Counted [OF m c' _ _ p])
      (use assms l in \<open>auto simp: h3_def same_sessions_def split: option.splits if_splits\<close>)
qed

section \<open>Properties\<close>



section \<open>The platform is told of the first and the last session\<close>

inductive host_step :: "'a asio \<Rightarrow> launch_conf \<Rightarrow> host_env \<Rightarrow> host \<Rightarrow> host \<Rightarrow> bool" for io C E where
  Step_Launch: "launch io C E now req h = Some (r, h') \<Longrightarrow> host_step io C E h h'"
| Step_Resume: "resume io C E now req h = Some (r, h') \<Longrightarrow> host_step io C E h h'"
| Step_Cancel: "cancel C E now h = Some (x, h') \<Longrightarrow> host_step io C E h h'"
| Step_Count: "session_count C E now h = Some (n, h') \<Longrightarrow> host_step io C E h h'"
| Step_Clear_Launch: "host_step io C E h (session_clear k h)"
| Step_Expire: "host_step io C E h (session_expired h)"
| Step_Insert: "i \<notin> fst ` set (h_slots h) \<Longrightarrow> length (h_slots h) + 1 < 2 ^ 32 \<Longrightarrow> host_step io C E h (insert_slot i h)"
| Step_Start: "(i, STOPPED) \<in> set (h_slots h) \<Longrightarrow> host_step io C E h (start_slot i h)"
| Step_Remove: "(i, STOPPED) \<in> set (h_slots h) \<Longrightarrow> host_step io C E h (remove_slot i h)"
| Step_Stop: "host_step io C E h (stop_slot i h)"

definition has_threads :: "state_e \<Rightarrow> bool" where
  "has_threads s \<longleftrightarrow> s = RUNNING \<or> s = STOPPING"

definition started :: "(nat \<times> state_e) list \<Rightarrow> nat" where
  "started slots = length (filter (\<lambda>x. has_threads (snd x)) slots)"

definition alternating :: "bool list \<Rightarrow> bool" where
  "alternating bs \<longleftrightarrow> bs = map even [0..<length bs]"

lemma alternating_Nil [simp]: "alternating []"
  by (simp add: alternating_def)

lemma alternating_snoc: "alternating bs \<Longrightarrow> alternating (bs @ [even (length bs)])"
  by (simp add: alternating_def)

lemma started_simps [simp]:
  "started [] = 0" "started (x # xs) = (if has_threads (snd x) then 1 else 0) + started xs"
  "started (xs @ ys) = started xs + started ys"
  by (simp_all add: started_def)

lemma started_le: "started slots \<le> length slots"
  by (simp add: started_def)

text \<open>\<open>k\<close> sessions have threads.\<close>

definition told :: "nat \<Rightarrow> host \<Rightarrow> bool" where
  "told k h \<longleftrightarrow> k < 2 ^ 32 \<and> h_running_sessions h = of_nat k \<and> alternating (h_callbacks h) \<and>
     (odd (length (h_callbacks h)) \<longleftrightarrow> 0 < k)"

definition host_inv :: "host \<Rightarrow> bool" where
  "host_inv h \<longleftrightarrow> distinct (map fst (h_slots h)) \<and> length (h_slots h) < 2 ^ 32 \<and> told (started (h_slots h)) h"

lemma told_cong:
  "h_running_sessions h' = h_running_sessions h \<Longrightarrow> h_callbacks h' = h_callbacks h \<Longrightarrow> told k h' = told k h"
  by (simp add: told_def)

lemma told_join:
  assumes "join_session C E now s h = Some h'" "told (Suc k) h"
  shows "told k h' \<and> has_threads s"
proof -
  have s: "has_threads s" using assms(1) by (auto simp: join_session_def has_threads_def split: if_splits)
  have n: "h_running_sessions h - 1 = of_nat k" using assms(2) by (simp add: told_def)
  have z: "(of_nat k :: 32 word) = 0 \<longleftrightarrow> k = 0"
    using assms(2) by (auto simp: told_def word_of_nat_eq_0_iff dest: dvd_imp_le)
  have "h' = (let h1 = h\<lparr>h_running_sessions := of_nat k\<rparr> in if k = 0 then last_session_ended C E now h1 else h1)"
    using assms(1) s unfolding join_session_def n Let_def by (auto simp: has_threads_def z split: if_splits)
  then show ?thesis using assms(2) s alternating_snoc [of "h_callbacks h"]
    by (auto simp: told_def Let_def split: if_splits)
qed

lemma told_clear_slots:
  "clear_slots C E now all slots h = Some (rest, h') \<Longrightarrow> told (started slots + m) h \<Longrightarrow>
   told (started rest + m) h' \<and> (distinct (map fst slots) \<longrightarrow> distinct (map fst rest)) \<and>
   set rest \<subseteq> set slots \<and> length rest \<le> length slots"
proof (induction slots arbitrary: h rest m)
  case (Cons slot slots)
  obtain i s where slot: "slot = (i, s)" by (cases slot)
  show ?case
  proof (cases "all \<or> s = STOPPING")
    case True
    then obtain h1 where j: "join_session C E now (stop_state s) h = Some h1"
      and c: "clear_slots C E now all slots h1 = Some (rest, h')"
      using Cons.prems(1) slot by (auto split: option.splits)
    have "has_threads s"
      using j by (auto simp: join_session_def has_threads_def stop_state_def split: if_splits)
    then have "told (Suc (started slots + m)) h" using Cons.prems(2) slot by simp
    with told_join [OF j] have "told (started slots + m) h1" by simp
    from Cons.IH [OF c this] show ?thesis by auto
  next
    case False
    then obtain rest' where c: "clear_slots C E now all slots h = Some (rest', h')" and r: "rest = (i, s) # rest'"
      using Cons.prems(1) slot by auto
    let ?k = "if has_threads s then 1 else 0"
    have "told (started slots + (?k + m)) h" using Cons.prems(2) slot by (simp add: ac_simps)
    from Cons.IH [OF c this] show ?thesis using r slot by (auto simp: ac_simps)
  qed
qed simp

lemma told_cong_slots: "told k (h\<lparr>h_slots := x\<rparr>) = told k h"
  by (simp add: told_def)

lemma clear_inv: "clear C E now all h = Some h' \<Longrightarrow> host_inv h \<Longrightarrow> host_inv h'"
  by (auto simp: clear_def host_inv_def told_cong_slots dest!: told_clear_slots [where m = 0])

lemma count_inv: "session_count C E now h = Some (n, h') \<Longrightarrow> host_inv h \<Longrightarrow> host_inv h'"
  by (auto simp: session_count_def dest: clear_inv)

lemma same_sessions_inv: "same_sessions h h' \<Longrightarrow> host_inv h' = host_inv h"
  by (simp add: same_sessions_def host_inv_def told_def)

lemma launch_inv:
  assumes "launch io C E now req h = Some (r, h')" "host_inv h"
  shows "host_inv h'"
  using assms(1)
proof (cases rule: launch_cases)
  case (Refused m)
  then show ?thesis using assms(2) Refused(2) same_sessions_inv [OF same_sessions_simps(3)] by auto
next
  case (Counted s n h2 h3 h4)
  have i4: "host_inv h4"
    using assms(2) Counted(3) Counted(1) [THEN same_sessions_make] Counted(5) same_sessions_inv count_inv by metis
  show ?thesis
  proof (cases "n = 0")
    case False
    then have "launch_app io C E now req (from_view (get_arg (lr_args req) ''appid'' [])) s h4 = (r, h')"
      using Counted(6) by simp
    then show ?thesis using i4 same_sessions_app same_sessions_inv by blast
  next
    case True
    then obtain h5 h6 failed where p: "prepare_stream E h4 = (failed, h5)"
      "if failed then r = Some probe_failed \<and> h6 = h5
       else launch_app io C E now req (from_view (get_arg (lr_args req) ''appid'' [])) s h5 = (r, h6)"
      "h' = (if failed_reply r then revert_configuration h6 else h6)" using Counted(6) by auto
    have "same_sessions h5 h6" using p(2) same_sessions_app by (cases failed) auto
    moreover have "same_sessions h6 h'" using p(3) by simp
    ultimately show ?thesis using i4 same_sessions_prepare [OF p(1)] same_sessions_inv by blast
  qed
qed

lemma resume_inv:
  assumes "resume io C E now req h = Some (r, h')" "host_inv h"
  shows "host_inv h'"
  using assms(1)
proof (cases rule: resume_cases)
  case (Refused x)
  then show ?thesis using assms(2) Refused(3) same_sessions_inv [OF same_sessions_simps(3)] by simp
next
  case (Counted s n h2 h3 h4 b h5 failed)
  have "host_inv h2" using assms(2) Counted(2) same_sessions_inv [OF same_sessions_simps(3)] count_inv by metis
  then have "host_inv h4" using Counted(4) Counted(1) [THEN same_sessions_make] same_sessions_inv by metis
  then have "host_inv h5" using Counted(5) same_sessions_prepare same_sessions_inv by (cases "n = 0") (auto, blast)
  moreover have "same_sessions h5 h'" using Counted(6) by (auto split: option.splits if_splits)
  ultimately show ?thesis using same_sessions_inv by blast
qed

lemma cancel_inv: "cancel C E now h = Some (x, h') \<Longrightarrow> host_inv h \<Longrightarrow> host_inv h'"
proof -
  assume c: "cancel C E now h = Some (x, h')" and i: "host_inv h"
  from c obtain h1 where h1: "clear C E now True h = Some h1" by (auto simp: cancel_def split: option.splits)
  obtain a h2 where pr: "proc_running E now h1 = (a, h2)" by (cases "proc_running E now h1")
  have "same_sessions h1 h2" using same_sessions_simps(3) [of h1 E now] pr by simp
  moreover have "same_sessions h2 h'" using c h1 pr
      same_sessions_trans [OF same_sessions_simps(9) same_sessions_simps(4)]
    by (auto simp: cancel_def split: if_splits)
  ultimately show ?thesis using clear_inv [OF h1 i] same_sessions_inv by blast
qed

lemma started_map:
  assumes "distinct (map fst slots)" "(i, s) \<in> set slots"
  shows "started (map (\<lambda>(j, t). (j, if j = i then f t else t)) slots) + of_bool (has_threads s) =
    started slots + of_bool (has_threads (f s))"
  using assms
proof (induction slots)
  case (Cons x xs)
  obtain j t where x: "x = (j, t)" by (cases x)
  show ?case
  proof (cases "j = i")
    case True
    then have "map (\<lambda>(j, t). (j, if j = i then f t else t)) xs = xs"
      using Cons.prems(1) x by (intro map_idI) force
    moreover have "t = s" using Cons.prems x True by force
    ultimately show ?thesis using x True by simp
  next
    case False
    then show ?thesis using Cons x by auto
  qed
qed simp

lemma started_filter:
  "distinct (map fst slots) \<Longrightarrow> (i, STOPPED) \<in> set slots \<Longrightarrow> started (filter (\<lambda>(j, _). j \<noteq> i) slots) = started slots"
proof (induction slots)
  case (Cons x xs)
  obtain j t where x: "x = (j, t)" by (cases x)
  have "filter (\<lambda>(j, _). j \<noteq> i) xs = xs" if "j = i"
    using Cons.prems(1) x that by (intro filter_True) force
  then show ?case using Cons x by (auto simp: has_threads_def rev_image_eqI)
qed simp

lemma map_fst_set_slot [simp]: "map (fst \<circ> (\<lambda>(j, s). (j, g j s))) slots = map fst slots"
  by (induction slots) auto

lemma has_threads_stop [simp]: "has_threads (stop_state s) = has_threads s"
  by (simp add: stop_state_def has_threads_def)

lemma started_stop: "started (map (\<lambda>(j, s). (j, if j = i then stop_state s else s)) slots) = started slots"
  by (induction slots) (auto split: if_splits)

lemma start_inv:
  assumes "(i, STOPPED) \<in> set (h_slots h)" "host_inv h"
  shows "host_inv (start_slot i h)"
proof -
  let ?slots = "h_slots (set_slot i (\<lambda>_. RUNNING) h)" and ?k = "started (h_slots h)"
  have d: "distinct (map fst (h_slots h))" "length (h_slots h) < 2 ^ 32" "told ?k h"
    using assms(2) by (auto simp: host_inv_def)
  have k: "started ?slots = Suc ?k"
    using started_map [OF d(1) assms(1), of "\<lambda>_. RUNNING"] by (simp add: set_slot_def has_threads_def)
  have l: "Suc ?k < 2 ^ 32" using started_le [of ?slots] d(2) k by (simp add: set_slot_def)
  have "(1 + of_nat ?k :: 32 word) = 1 \<longleftrightarrow> ?k = 0"
    using l by (auto simp: word_of_nat_eq_0_iff dest: dvd_imp_le)
  then have "told (Suc ?k) (start_slot i h)"
    using d(3) l alternating_snoc [of "h_callbacks h"]
    by (auto simp: told_def start_slot_def set_slot_def Let_def ac_simps)
  moreover have "h_slots (start_slot i h) = ?slots" by (simp add: start_slot_def Let_def)
  ultimately show ?thesis using d(1,2) k by (simp add: host_inv_def set_slot_def)
qed

lemma host_step_inv:
  assumes "host_step io C E h h'" "host_inv h"
  shows "host_inv h'"
  using assms
proof (cases rule: host_step.cases)
  case (Step_Insert i)
  then show ?thesis using assms(2)
    by (auto simp: host_inv_def insert_slot_def told_def has_threads_def)
next
  case (Step_Remove i)
  then show ?thesis using assms(2) started_filter [of "h_slots h" i] le_less_trans [OF length_filter_le]
    by (auto simp: host_inv_def remove_slot_def told_def distinct_map_filter)
next
  case (Step_Stop i)
  then show ?thesis using assms(2) by (simp add: host_inv_def stop_slot_def set_slot_def told_def started_stop)
qed (use assms(2) launch_inv resume_inv cancel_inv count_inv start_inv in
  \<open>auto simp: same_sessions_inv [OF same_sessions_simps(7)] same_sessions_inv [OF same_sessions_simps(8)]\<close>)


section \<open>Cancelling, and a second launch\<close>

lemma clear_slots_all: "clear_slots C E now True slots h = Some (rest, h') \<Longrightarrow> rest = []"
  by (induction slots arbitrary: h) (auto split: option.splits)

text \<open>
  When a cancel returns, no session is left, the display is restored, and either the application and all
  of its prep commands are gone or a look at it has just found nothing running; but a launch
  that was pending stays pending, so its client can still open a session with it.
\<close>
theorem cancel_clears:
  assumes "cancel C E now h = Some (x, h')"
  shows "re_status x = 200 \<and> h_slots h' = [] \<and> \<not> h_display h' \<and> h_launch_event h' = h_launch_event h \<and>
    (idle (h_proc h') \<or> (\<exists>q. fst (running (he_os E) now q) \<le> 0 \<and> h_proc h' = snd (running (he_os E) now q)))"
proof -
  from assms obtain h1 where h1: "clear C E now True h = Some h1" by (auto simp: cancel_def split: option.splits)
  have s: "h_slots h1 = []" "h_launch_event h1 = h_launch_event h"
    using h1 clear_frame [OF h1] by (auto simp: clear_def dest: clear_slots_all)
  obtain a p where pr: "running (he_os E) now (h_proc h1) = (a, p)" by (cases "running (he_os E) now (h_proc h1)")
  have x: "x = status_reply 200 []" and
    h': "h' = revert_configuration (if a > 0 then proc_terminate E (with_proc p h1) else with_proc p h1)"
    using assms h1 pr by (auto simp: cancel_def proc_running_def)
  have "idle (terminate (he_os E) p)" by (rule terminate_effect [of "he_os E" p])
  moreover have "\<exists>q. fst (running (he_os E) now q) \<le> 0 \<and> p = snd (running (he_os E) now q)" if "\<not> a > 0"
    using pr that by (intro exI [of _ "h_proc h1"]) simp
  ultimately show ?thesis using s by (auto simp: x h' status_reply_def revert_configuration_def proc_terminate_def)
qed

text \<open>
  A launch that is answered with success while an earlier one is pending is lost: the earlier one
  stays pending, although the reply tells the client where to connect.
\<close>
theorem second_launch_lost:
  assumes "launch io C E now req h = Some (Some r, h')" "re_status r = 200" "h_launch_event h = Some first"
  shows "h_launch_event h' = Some first \<and> re_session_url r \<noteq> []"
  using assms(1)
proof (cases rule: launch_cases)
  case (Refused m)
  then show ?thesis using assms(2) by (simp add: status_reply_def)
next
  case (Counted s n h2 h3 h4)
  have ok: "\<not> failed_reply (Some r)" using assms(2) by (simp add: failed_reply_def)
  have e4: "h_launch_event h4 = Some first"
    using make_launch_simps [OF Counted(1)] session_count_frame [OF Counted(5)] Counted(2) assms(3) by simp
  have "\<exists>h5. launch_app io C E now req (from_view (get_arg (lr_args req) ''appid'' [])) s h5 = (Some r, h') \<and>
      h_launch_event h5 = h_launch_event h4"
    using Counted(6) ok assms(2) by (auto simp: probe_failed_def status_reply_def dest: prepare_simps split: if_splits)
  then obtain h5 where a: "launch_app io C E now req (from_view (get_arg (lr_args req) ''appid'' [])) s h5 = (Some r, h')"
    "h_launch_event h5 = h_launch_event h4" by blast
  then show ?thesis using launch_app_effect [OF a(1)] ok e4 by (simp add: session_url_def)
qed

section \<open>A host that starts a stream\<close>

definition demo_host_env :: host_env where
  "demo_host_env = \<lparr>he_os = demo_os, he_probe_fails = (\<lambda>_. False), he_random_payload = (\<lambda>_. []), he_random_connect = id\<rparr>"

definition demo_launch_conf :: "int \<Rightarrow> launch_conf" where
  "demo_launch_conf mode = \<lparr>lc_stream = (default_stream demo_env)\<lparr>st_lan_encryption_mode := mode\<rparr>,
     lc_sunshine = default_sunshine demo_env, lc_config_revert_on_disconnect = False\<rparr>"

definition demo_request :: "string \<Rightarrow> string \<Rightarrow> (bool \<times> bool) launch_request" where
  "demo_request corever appid = \<lparr>lr_args = [(''rikey'', ''00112233445566778899AABBCCDDEEFF''), (''rikeyid'', ''1''),
     (''localAudioPlayMode'', ''0''), (''appid'', appid), (''corever'', corever)], lr_remote = (False, True), lr_local = (False, True)\<rparr>"

definition demo_host :: host where
  "demo_host = new_host (new_proc Map.empty [demo_app 1])"

definition demo_launch :: "string \<Rightarrow> string \<Rightarrow> host \<Rightarrow> (http_reply option \<times> host) option" where
  "demo_launch corever appid h = launch demo_asio (demo_launch_conf 2) demo_host_env 0 (demo_request corever appid) h"

text \<open>The reply and the pending launch of a request.\<close>

definition outcome :: "(http_reply option \<times> host) option \<Rightarrow> (int option \<times> bool \<times> 32 word option) option" where
  "outcome x = map_option (\<lambda>(r, h). (map_option re_status r, h_display h, map_option ls_id (h_launch_event h))) x"

lemma demo_launch_mode:
  "encryption_mode_for_address demo_asio (lc_stream (demo_launch_conf 2)) (False, True) = Some ENCRYPTION_MODE_MANDATORY"
  by code_simp

lemma outcome_cases:
  "outcome x = Some (Some c, d, e) \<Longrightarrow>
   \<exists>r h'. x = Some (Some r, h') \<and> re_status r = c \<and> h_display h' = d \<and> map_option ls_id (h_launch_event h') = e"
  by (auto simp: outcome_def)

lemma demo_encrypted: "outcome (demo_launch ''1'' ''7'' demo_host) = Some (Some 200, True, Some 1)"
  by code_simp

lemma demo_plain: "outcome (demo_launch ''0'' ''7'' demo_host) = Some (Some 403, False, None)"
  by code_simp



lemma demo_second:
  "outcome (demo_launch ''1'' ''0'' (demo_host\<lparr>h_launch_event := Some demo_session, h_session_id_counter := 1\<rparr>)) =
   Some (Some 200, True, Some 1)"
  by code_simp

theorem second_launch_lost_witness:
  "\<exists>r h'. demo_launch ''1'' ''0'' (demo_host\<lparr>h_launch_event := Some demo_session, h_session_id_counter := 1\<rparr>) =
      Some (Some r, h') \<and> h_launch_event h' = Some demo_session \<and> re_session_url r \<noteq> []"
proof -
  obtain r h' where l: "demo_launch ''1'' ''0'' (demo_host\<lparr>h_launch_event := Some demo_session, h_session_id_counter := 1\<rparr>) =
      Some (Some r, h')" "re_status r = 200"
    using outcome_cases [OF demo_second] by blast
  have "h_launch_event (demo_host\<lparr>h_launch_event := Some demo_session, h_session_id_counter := 1\<rparr>) = Some demo_session"
    by simp
  from second_launch_lost [OF l(1) [unfolded demo_launch_def] l(2) this] show ?thesis using l by auto
qed

lemma demo_session_ends:
  "map_option h_callbacks (clear (demo_launch_conf 2) demo_host_env 0 False
     (stop_slot 1 (start_slot 1 (insert_slot 1 demo_host)))) = Some [True, False]"
  by code_simp


lemma demo_cancels: "cancel (demo_launch_conf 2) demo_host_env 0 (start_slot 1 (insert_slot 1 demo_host)) \<noteq> None"
  by code_simp

theorem cancel_clears_witness:
  "\<exists>x h'. cancel (demo_launch_conf 2) demo_host_env 0 (start_slot 1 (insert_slot 1 demo_host)) = Some (x, h') \<and>
     re_status x = 200 \<and> h_slots h' = [] \<and> \<not> h_display h'"
proof -
  obtain x h' where c: "cancel (demo_launch_conf 2) demo_host_env 0 (start_slot 1 (insert_slot 1 demo_host)) = Some (x, h')"
    using demo_cancels by auto
  from cancel_clears [OF this] show ?thesis using c by auto
qed

end
