(* ===== verification/Json.thy ===== *)
theory Json
  imports Launch "HOL-Library.List_Lexorder" "HOL-Library.Char_ord" "HOL-Library.Multiset"
begin

text \<open>
  What the web interface uses of \<open>nlohmann::json\<close> and of the standard library: JSON values with the
  members of an object in the order of their keys, \<open>std::stoi\<close>, and sorting with a comparison.
  Reading and writing JSON text are parameters of the handlers.
\<close>

section \<open>Values\<close>

text \<open>\<open>J_Float t n\<close> is a floating point number with the text \<open>t\<close>, whose conversion to \<open>int\<close> is \<open>n\<close>.\<close>

datatype json =
  J_Null
| J_Bool bool
| J_Int int
| J_Float string int
| J_Str string
| J_Arr "json list"
| J_Obj "(string \<times> json) list"

fun obj_put :: "string \<Rightarrow> json \<Rightarrow> (string \<times> json) list \<Rightarrow> (string \<times> json) list" where
  "obj_put k v [] = [(k, v)]"
| "obj_put k v ((k', v') # ms) =
     (if k = k' then (k, v) # ms else if k < k' then (k, v) # (k', v') # ms else (k', v') # obj_put k v ms)"

lemma map_of_obj_put [simp]: "map_of (obj_put k v ms) = (map_of ms)(k \<mapsto> v)"
  by (induction ms) auto

definition obj_erase :: "string \<Rightarrow> (string \<times> json) list \<Rightarrow> (string \<times> json) list" where
  "obj_erase k ms = filter (\<lambda>(k', _). k' \<noteq> k) ms"

text \<open>
  Access by key creates the member when it is missing; it throws unless the value is an object or
  null. The member and the object are returned.
\<close>

definition json_at :: "string \<Rightarrow> json \<Rightarrow> (json \<times> json) option" where
  "json_at k j =
     (case j of
        J_Null \<Rightarrow> Some (J_Null, J_Obj [(k, J_Null)])
      | J_Obj ms \<Rightarrow> (case map_of ms k of Some v \<Rightarrow> Some (v, j) | None \<Rightarrow> Some (J_Null, J_Obj (obj_put k J_Null ms)))
      | _ \<Rightarrow> None)"

definition json_set :: "string \<Rightarrow> json \<Rightarrow> json \<Rightarrow> json" where
  "json_set k v j = (case j of J_Obj ms \<Rightarrow> J_Obj (obj_put k v ms) | J_Null \<Rightarrow> J_Obj [(k, v)] | _ \<Rightarrow> j)"

definition json_erase :: "string \<Rightarrow> json \<Rightarrow> json" where
  "json_erase k j = (case j of J_Obj ms \<Rightarrow> J_Obj (obj_erase k ms) | _ \<Rightarrow> j)"

definition json_empty :: "json \<Rightarrow> bool" where
  "json_empty j \<longleftrightarrow> j = J_Null \<or> j = J_Arr [] \<or> j = J_Obj []"

definition json_size :: "json \<Rightarrow> nat" where
  "json_size j = (case j of J_Null \<Rightarrow> 0 | J_Arr xs \<Rightarrow> length xs | J_Obj ms \<Rightarrow> length ms | _ \<Rightarrow> 1)"

text \<open>Access by index within the size: it throws on what is not an array.\<close>

definition json_nth :: "json \<Rightarrow> nat \<Rightarrow> json option" where
  "json_nth j i = (case j of J_Arr xs \<Rightarrow> Some (xs ! i) | _ \<Rightarrow> None)"

text \<open>\<open>get\<close> of an \<open>int\<close>, which takes any number and a boolean.\<close>

definition json_int :: "json \<Rightarrow> int option" where
  "json_int j = (case j of J_Int n \<Rightarrow> Some (to_int32 n) | J_Float _ n \<Rightarrow> Some n | J_Bool b \<Rightarrow> Some (of_bool b) | _ \<Rightarrow> None)"

text \<open>\<open>value\<close> with a default; it throws on what is not an object, or when the member has another type.\<close>

definition json_value_str :: "string \<Rightarrow> string \<Rightarrow> json \<Rightarrow> string option" where
  "json_value_str k default_value j =
     (case j of
        J_Obj ms \<Rightarrow> (case map_of ms k of None \<Rightarrow> Some default_value | Some (J_Str s) \<Rightarrow> Some s | Some _ \<Rightarrow> None)
      | _ \<Rightarrow> None)"

definition json_value_bool :: "string \<Rightarrow> bool \<Rightarrow> json \<Rightarrow> bool option" where
  "json_value_bool k default_value j =
     (case j of
        J_Obj ms \<Rightarrow> (case map_of ms k of None \<Rightarrow> Some default_value | Some (J_Bool b) \<Rightarrow> Some b | Some _ \<Rightarrow> None)
      | _ \<Rightarrow> None)"

text \<open>A loop over the elements that may replace them: the members of an object, or the value itself.\<close>

lemma those_Some_iff: "those xs = Some ys \<longleftrightarrow> xs = map Some ys"
  by (induction xs arbitrary: ys) (auto split: option.splits)

lemma those_map_const [simp]: "those (map (\<lambda>x. Some (f x)) xs) = Some (map f xs)"
  by (induction xs) auto

definition json_each :: "(json \<Rightarrow> json option) \<Rightarrow> json \<Rightarrow> json option" where
  "json_each f j =
     (case j of
        J_Null \<Rightarrow> Some J_Null
      | J_Arr xs \<Rightarrow> map_option J_Arr (those (map f xs))
      | J_Obj ms \<Rightarrow> map_option J_Obj (those (map (\<lambda>(k, v). map_option (Pair k) (f v)) ms))
      | _ \<Rightarrow> f j)"

section \<open>Sorting\<close>

text \<open>
  \<open>std::sort\<close> is a parameter: with a strict weak order it gives some sorted permutation, and the
  order of equal elements is its own.
\<close>

type_synonym sorter = "(json \<Rightarrow> json \<Rightarrow> bool) \<Rightarrow> json list \<Rightarrow> json list"

definition strict_weak_on :: "json set \<Rightarrow> (json \<Rightarrow> json \<Rightarrow> bool) \<Rightarrow> bool" where
  "strict_weak_on A lt \<longleftrightarrow>
     (\<forall>a\<in>A. \<not> lt a a) \<and> (\<forall>a\<in>A. \<forall>b\<in>A. \<forall>c\<in>A. lt a b \<longrightarrow> lt b c \<longrightarrow> lt a c) \<and>
     (\<forall>a\<in>A. \<forall>b\<in>A. \<forall>c\<in>A. \<not> lt a b \<longrightarrow> \<not> lt b c \<longrightarrow> \<not> lt a c)"

definition sorts :: "sorter \<Rightarrow> bool" where
  "sorts srt \<longleftrightarrow>
     (\<forall>lt xs. strict_weak_on (set xs) lt \<longrightarrow> mset (srt lt xs) = mset xs \<and> sorted_wrt (\<lambda>a b. \<not> lt b a) (srt lt xs))"

lemma sortsD:
  assumes "sorts srt" "strict_weak_on (set xs) lt"
  shows "mset (srt lt xs) = mset xs" "sorted_wrt (\<lambda>a b. \<not> lt b a) (srt lt xs)"
  using assms by (auto simp: sorts_def)

lemma strict_weak_key:
  fixes key :: "json \<Rightarrow> 'k :: linorder"
  shows "strict_weak_on A (\<lambda>a b. key a < key b)"
  by (fastforce simp: strict_weak_on_def)

text \<open>An instance: insertion.\<close>

fun insert_by :: "(json \<Rightarrow> json \<Rightarrow> bool) \<Rightarrow> json \<Rightarrow> json list \<Rightarrow> json list" where
  "insert_by lt x [] = [x]"
| "insert_by lt x (y # ys) = (if lt y x then y # insert_by lt x ys else x # y # ys)"

definition insertion_sort :: sorter where
  "insertion_sort lt xs = foldr (insert_by lt) xs []"

lemma mset_insert_by [simp]: "mset (insert_by lt x ys) = add_mset x (mset ys)"
  by (induction ys) auto

lemma set_insert_by [simp]: "set (insert_by lt x ys) = insert x (set ys)"
  by (induction ys) auto

lemma sorted_insert_by:
  assumes "strict_weak_on A lt" "x \<in> A" "set ys \<subseteq> A" "sorted_wrt (\<lambda>a b. \<not> lt b a) ys"
  shows "sorted_wrt (\<lambda>a b. \<not> lt b a) (insert_by lt x ys)"
  using assms(3,4)
proof (induction ys)
  case (Cons y ys)
  have tr: "\<not> lt c a" if "\<not> lt c b" "\<not> lt b a" "a \<in> A" "b \<in> A" "c \<in> A" for a b c
    using assms(1) that unfolding strict_weak_on_def by blast
  have as: "\<not> lt x y" if "lt y x"
    using assms(1,2) that Cons.prems(1) unfolding strict_weak_on_def by (metis list.set_intros(1) subsetD)
  show ?case using Cons as tr [of _ y x] assms(2) by (auto simp: subset_iff)
qed simp

lemma set_insertion_sort [simp]: "set (insertion_sort lt xs) = set xs"
  by (induction xs) (auto simp: insertion_sort_def)

lemma insertion_sort_sorts: "sorts insertion_sort"
proof -
  have "mset (insertion_sort lt xs) = mset xs \<and> sorted_wrt (\<lambda>a b. \<not> lt b a) (insertion_sort lt xs)"
    if "strict_weak_on A lt" "set xs \<subseteq> A" for lt xs A
    using that(2)
  proof (induction xs)
    case (Cons x xs)
    then have "sorted_wrt (\<lambda>a b. \<not> lt b a) (insert_by lt x (insertion_sort lt xs))"
      by (intro sorted_insert_by [OF that(1)]) auto
    then show ?case using Cons by (simp add: insertion_sort_def)
  qed (simp add: insertion_sort_def)
  then show ?thesis unfolding sorts_def by blast
qed

section \<open>Text\<close>

text \<open>\<open>std::stoi\<close>: \<open>None\<close> where it throws, without a digit or out of range.\<close>

definition stoi :: "string \<Rightarrow> int option" where
  "stoi str =
     (let t = dropWhile isspace str; neg = (take 1 t = ''-'');
          digits = takeWhile isdigit (if neg \<or> take 1 t = ''+'' then drop 1 t else t);
          n = (if neg then - dec_value digits else dec_value digits)
      in if digits = [] \<or> n < INT_MIN \<or> INT_MAX < n then None else Some n)"

definition iequals :: "string \<Rightarrow> string \<Rightarrow> bool" where
  "iequals a b \<longleftrightarrow> map to_lower a = map to_lower b"

text \<open>\<open>boost::algorithm::trim\<close>.\<close>

definition trim_space :: "string \<Rightarrow> string" where
  "trim_space s = rev (dropWhile isspace (rev (dropWhile isspace s)))"

end
