(* ===== verification/Web.thy ===== *)
theory Web
  imports Json Pairing
begin

text \<open>
  The web interface of \<open>src/confighttp.cpp\<close>: requests and responses, who is logged in, and the tokens
  against cross-site requests. Simple-Web-Server, nlohmann::json, libcurl and the file system are
  the record \<open>web_lib\<close>; what a request draws at random or finds outside is the record \<open>web_env\<close>.
\<close>

section \<open>Parameters\<close>

datatype file_kind = Directory | Regular_File | Other_Kind

text \<open>An entry of a directory: its name, its kind (none when the status throws) and whether it may be executed.\<close>

record dir_item =
  di_name :: string
  di_kind :: "file_kind option"
  di_exec :: bool

text \<open>
  A path is the list of its components; \<open>wl_canonical\<close> is \<open>weakly_canonical\<close>, which throws for
  \<open>None\<close>. \<open>wl_apps_tree\<close> reads the applications file with the JSON reader of the property trees.
\<close>

record 'a web_lib =
  wl_io :: "'a asio"
  wl_base64 :: "string \<Rightarrow> string"
  wl_hash :: "string \<Rightarrow> byte list"
  wl_parse :: "string \<Rightarrow> json option"
  wl_dump :: "json \<Rightarrow> string"
  wl_sort :: sorter
  wl_escape :: "string \<Rightarrow> string"
  wl_host :: "string \<Rightarrow> string"
  wl_canonical :: "string \<Rightarrow> string list option"
  wl_kind :: "string list \<Rightarrow> file_kind option"
  wl_items :: "string list \<Rightarrow> dir_item list"
  wl_apps_tree :: "string \<Rightarrow> apps_tree option"
  wl_files :: app_files
  wl_web_dir :: string

record web_conf =
  wc_origin_web_ui_allowed :: net_e
  wc_csrf_allowed_origins :: "string list"
  wc_locale :: string
  wc_log :: string
  wc_appdata :: string
  wc_prep_cmds :: "prep_cmd_t list"
  wc_launch :: launch_conf
  wc_nv :: nv_conf
  wc_host :: host_env

datatype creds_file = Creds_Missing | Creds_Unreadable | Creds_Tree "string \<rightharpoonup> string"

text \<open>Times are in nanoseconds.\<close>

record web_env =
  we_now :: int
  we_token :: string
  we_salt :: string
  we_nv :: nv_env
  we_write :: write_result
  we_reread :: "(string \<rightharpoonup> string) \<Rightarrow> creds_file"
  we_env_vars :: env_vars
  we_download :: "string \<Rightarrow> string option"
  we_reset_ok :: bool

section \<open>State\<close>

record csrf_token =
  ct_token :: string
  ct_expiration :: int

datatype web_event = W_Restart | W_Reset_Persistence

record 'x web =
  w_username :: string
  w_password :: string
  w_salt :: string
  w_creds :: creds_file
  w_csrf_tokens :: "string \<rightharpoonup> csrf_token"
  w_apps_file :: string
  w_config_file :: string
  w_covers :: "string \<rightharpoonup> string"
  w_nv :: "'x nvhttp"
  w_host :: host
  w_events :: "web_event list"

section \<open>Requests and responses\<close>

text \<open>\<open>rq_match\<close> is what the group of the path's pattern has matched.\<close>

record 'a request =
  rq_method :: string
  rq_path :: string
  rq_match :: string
  rq_header :: "(string \<times> string) list"
  rq_query :: "(string \<times> string) list"
  rq_content :: string
  rq_remote :: 'a

text \<open>
  \<open>R_What\<close> is the response 400 with the message of an exception, and \<open>R_Threw\<close> an exception that
  leaves the handler. \<open>R_Vars\<close> is the object of \<open>getConfig\<close> with the options read.
\<close>

datatype response =
  R_Json json
| R_Vars "string \<rightharpoonup> string"
| R_Bad string
| R_What
| R_Missing string
| R_Unauthorized
| R_Forbidden
| R_Redirect string
| R_File string string
| R_Log string
| R_Threw

text \<open>\<open>None\<close>: the behaviour is undefined, or an exception leaves the sessions half cleared.\<close>

type_synonym 'x outcome = "(response list \<times> 'x web) option"

section \<open>Authentication\<close>

definition net_rank :: "net_e \<Rightarrow> nat" where
  "net_rank n = (case n of PC \<Rightarrow> 0 | LAN \<Rightarrow> 1 | WAN \<Rightarrow> 2)"

text \<open>
  The user name and the password in the header: \<open>index >= size - 1\<close> compares unsigned numbers, so it
  also holds when there is no colon.
\<close>

definition split_credentials :: "string \<Rightarrow> (string \<times> string) option" where
  "split_credentials authData =
     (let index = length (takeWhile (\<lambda>c. c \<noteq> CHR '':'') authData)
      in if index + 1 \<ge> length authData then None else Some (take index authData, drop (index + 1) authData))"

definition password_hash :: "'a web_lib \<Rightarrow> string \<Rightarrow> string" where
  "password_hash L text_in = hex_vec (wl_hash L text_in) False"

text \<open>Whether the user is authenticated, and what was sent when not.\<close>

definition authenticate :: "'a web_lib \<Rightarrow> web_conf \<Rightarrow> 'a request \<Rightarrow> 'x web \<Rightarrow> bool \<times> response list" where
  "authenticate L C req s =
     (case from_address (wl_io L) (addr_to_normalized_string (wl_io L) (rq_remote req)) of
        None \<Rightarrow> (False, [R_Threw])
      | Some ip_type \<Rightarrow>
          if net_rank ip_type > net_rank (wc_origin_web_ui_allowed C) then (False, [R_Forbidden])
          else if w_username s = [] then (False, [R_Redirect ''/welcome''])
          else
            case find_arg (rq_header req) ''authorization'' of
              None \<Rightarrow> (False, [R_Unauthorized])
            | Some rawAuth \<Rightarrow>
                if length rawAuth < 6 then (False, [R_Unauthorized, R_Threw])
                else
                  case split_credentials (wl_base64 L (drop 6 rawAuth)) of
                    None \<Rightarrow> (False, [R_Unauthorized])
                  | Some (username, password) \<Rightarrow>
                      if \<not> iequals username (w_username s) \<or> password_hash L (password @ w_salt s) \<noteq> w_password s
                      then (False, [R_Unauthorized]) else (True, []))"

definition media_type :: "string \<Rightarrow> string" where
  "media_type v = map to_lower (trim_space (takeWhile (\<lambda>c. c \<noteq> CHR '';'') v))"

text \<open>The response when the content type does not match.\<close>

definition check_content_type :: "'a request \<Rightarrow> string \<Rightarrow> response option" where
  "check_content_type req contentType =
     (case find_arg (rq_header req) ''content-type'' of
        None \<Rightarrow> Some (R_Bad ''Content type not provided'')
      | Some v \<Rightarrow> if media_type v \<noteq> map to_lower contentType then Some (R_Bad ''Content type mismatch'') else None)"

section \<open>Cross-site requests\<close>

definition CSRF_TOKEN_LIFETIME :: int where "CSRF_TOKEN_LIFETIME = 3600000000000"

definition get_client_id :: "'a web_lib \<Rightarrow> 'a request \<Rightarrow> 'x web \<Rightarrow> string" where
  "get_client_id L req s =
     (let address = addr_to_normalized_string (wl_io L) (rq_remote req)
      in case find_arg (rq_header req) ''authorization'' of
           None \<Rightarrow> address
         | Some rawAuth \<Rightarrow>
             if w_username s \<noteq> [] \<and> take 6 rawAuth = ''Basic '' then
               (case split_credentials (wl_base64 L (drop 6 rawAuth)) of None \<Rightarrow> address | Some (username, _) \<Rightarrow> username)
             else address)"

definition generate_csrf_token :: "web_env \<Rightarrow> string \<Rightarrow> 'x web \<Rightarrow> string \<times> 'x web" where
  "generate_csrf_token env client_id s =
     (let now = we_now env;
          live = (\<lambda>k. case w_csrf_tokens s k of Some t \<Rightarrow> if ct_expiration t < now then None else Some t | None \<Rightarrow> None)
      in (we_token env,
          s\<lparr>w_csrf_tokens := live(client_id \<mapsto> \<lparr>ct_token = we_token env, ct_expiration = now + CSRF_TOKEN_LIFETIME\<rparr>)\<rparr>))"

definition validate_stored_csrf_token :: "web_env \<Rightarrow> string \<Rightarrow> string \<Rightarrow> 'x web \<Rightarrow> response option \<times> 'x web" where
  "validate_stored_csrf_token env client_id provided_token s =
     (case w_csrf_tokens s client_id of
        None \<Rightarrow> (Some (R_Bad ''Invalid CSRF token''), s)
      | Some t \<Rightarrow>
          if ct_expiration t < we_now env
          then (Some (R_Bad ''CSRF token expired''), s\<lparr>w_csrf_tokens := (w_csrf_tokens s)(client_id := None)\<rparr>)
          else if ct_token t \<noteq> provided_token then (Some (R_Bad ''Invalid CSRF token''), s)
          else (None, s))"

definition is_allowed_origin :: "web_conf \<Rightarrow> string \<Rightarrow> bool" where
  "is_allowed_origin C url =
     list_ex (\<lambda>allowed. take (length allowed) url = allowed \<and>
         (length url = length allowed \<or> url ! length allowed = CHR '':'' \<or> url ! length allowed = CHR ''/''))
       (wc_csrf_allowed_origins C)"

text \<open>The response when the request is refused, and the state.\<close>

definition validate_csrf_token :: "web_conf \<Rightarrow> web_env \<Rightarrow> 'a request \<Rightarrow> string \<Rightarrow> 'x web \<Rightarrow> response option \<times> 'x web" where
  "validate_csrf_token C env req client_id s =
     (let origin = find_arg (rq_header req) ''Origin''; referer = find_arg (rq_header req) ''Referer''
      in if (case origin of Some v \<Rightarrow> is_allowed_origin C v | None \<Rightarrow> False) then (None, s)
         else if (case referer of Some v \<Rightarrow> is_allowed_origin C v | None \<Rightarrow> False) then (None, s)
         else if origin = None \<and> referer = None then (None, s)
         else
           case find_arg (rq_header req) ''X-CSRF-Token'' of
             Some token \<Rightarrow> validate_stored_csrf_token env client_id token s
           | None \<Rightarrow>
               (case find_arg (rq_query req) ''csrf_token'' of
                  None \<Rightarrow> (Some (R_Bad ''Missing CSRF token''), s)
                | Some token \<Rightarrow> validate_stored_csrf_token env client_id token s))"

section \<open>What the handlers begin with\<close>

text \<open>A handler that needs a user, one that needs JSON as well, and one that changes something.\<close>

definition with_user :: "'a web_lib \<Rightarrow> web_conf \<Rightarrow> 'a request \<Rightarrow> ('x web \<Rightarrow> 'x outcome) \<Rightarrow> 'x web \<Rightarrow> 'x outcome" where
  "with_user L C req handler s =
     (let (ok, rs) = authenticate L C req s in if ok then handler s else Some (rs, s))"

definition with_json :: "'a request \<Rightarrow> ('x web \<Rightarrow> 'x outcome) \<Rightarrow> 'x web \<Rightarrow> 'x outcome" where
  "with_json req handler s =
     (case check_content_type req ''application/json'' of Some r \<Rightarrow> Some ([r], s) | None \<Rightarrow> handler s)"

definition with_token ::
  "'a web_lib \<Rightarrow> web_conf \<Rightarrow> web_env \<Rightarrow> 'a request \<Rightarrow> ('x web \<Rightarrow> 'x outcome) \<Rightarrow> 'x web \<Rightarrow> 'x outcome" where
  "with_token L C env req handler s =
     (case validate_csrf_token C env req (get_client_id L req s) s of
        (Some r, s1) \<Rightarrow> Some ([r], s1)
      | (None, s1) \<Rightarrow> handler s1)"

text \<open>An exception that a handler catches.\<close>

definition catching :: "'x web \<Rightarrow> 'x outcome option \<Rightarrow> 'x outcome" where
  "catching s r = (case r of None \<Rightarrow> Some ([R_What], s) | Some out \<Rightarrow> out)"

definition status_json :: "bool \<Rightarrow> json" where
  "status_json b = J_Obj [(''status'', J_Bool b)]"

end
