(* ===== verification/Web_Files.thy ===== *)
theory Web_Files
  imports Web
begin

text \<open>
  The files the web interface of \<open>src/confighttp.cpp\<close> serves and lists: pages, assets, the cover
  images of applications and the directories of the host. The POSIX branches are taken.
\<close>

section \<open>Paths\<close>

text \<open>A canonical path as text; all of these are absolute.\<close>

definition path_text :: "string list \<Rightarrow> string" where
  "path_text cs = (if cs = [] then ''/'' else concat (map (\<lambda>c. CHR ''/'' # c) cs))"

fun drop_common :: "string list \<Rightarrow> string list \<Rightarrow> string list \<times> string list" where
  "drop_common (a # as) (b # bs) = (if a = b then drop_common as bs else (a # as, b # bs))"
| "drop_common as bs = (as, bs)"

text \<open>\<open>lexically_relative\<close> of two absolute paths.\<close>

definition lexically_relative :: "string list \<Rightarrow> string list \<Rightarrow> string list" where
  "lexically_relative p base =
     (let (a, b) = drop_common p base;
          n = sum_list (map (\<lambda>c. if c = ''..'' then - 1 else if c = [] \<or> c = ''.'' then 0 else 1 :: int) b)
      in if n < 0 then [] else if n = 0 \<and> a = [] then [''.''] else replicate (nat n) ''..'' @ a)"

text \<open>\<open>fs::relative\<close> of two canonical paths, and \<open>isChildPath\<close>; \<open>None\<close> where an exception or an empty path stops it.\<close>

definition fs_relative :: "'a web_lib \<Rightarrow> string list \<Rightarrow> string \<Rightarrow> string list option" where
  "fs_relative L p base =
     (case (wl_canonical L (path_text p), wl_canonical L base) of
        (Some p', Some base') \<Rightarrow> Some (lexically_relative p' base') | _ \<Rightarrow> None)"

definition isChildPath :: "'a web_lib \<Rightarrow> string list \<Rightarrow> string \<Rightarrow> bool option" where
  "isChildPath L base query =
     (case fs_relative L base query of
        None \<Rightarrow> None | Some [] \<Rightarrow> None | Some (c # _) \<Rightarrow> Some (c \<noteq> ''..''))"

section \<open>Pages and assets\<close>

definition getPage ::
  "'a web_lib \<Rightarrow> web_conf \<Rightarrow> 'a request \<Rightarrow> string \<Rightarrow> bool \<Rightarrow> bool \<Rightarrow> 'x web \<Rightarrow> 'x outcome" where
  "getPage L C req html_file require_auth redirect_if_username s =
     (let page = (\<lambda>s. Some ([R_File ''text/html; charset=utf-8'' (wl_web_dir L @ html_file)], s))
      in if redirect_if_username \<and> w_username s \<noteq> [] then Some ([R_Redirect ''/''], s)
         else if require_auth then with_user L C req page s else page s)"

definition mime_types :: "(string \<times> string) list" where
  "mime_types = [(''css'', ''text/css''), (''gif'', ''image/gif''), (''htm'', ''text/html''), (''html'', ''text/html''),
     (''ico'', ''image/x-icon''), (''jpeg'', ''image/jpeg''), (''jpg'', ''image/jpeg''), (''js'', ''application/javascript''),
     (''json'', ''application/json''), (''png'', ''image/png''), (''svg'', ''image/svg+xml''), (''ttf'', ''font/ttf''),
     (''txt'', ''text/plain''), (''woff2'', ''font/woff2''), (''xml'', ''text/xml'')]"

text \<open>The substring from 1 of an empty extension throws.\<close>

definition getAsset :: "'a web_lib \<Rightarrow> 'a request \<Rightarrow> 'x web \<Rightarrow> 'x outcome" where
  "getAsset L req s =
     (let nodeModulesPath = path_join (wl_web_dir L) ''assets'';
          relative_path = dropWhile (\<lambda>c. c = CHR ''/'') (rq_path req)
      in case wl_canonical L (path_join (wl_web_dir L) relative_path) of
           None \<Rightarrow> Some ([R_Threw], s)
         | Some filePath \<Rightarrow>
             (case isChildPath L filePath nodeModulesPath of
                None \<Rightarrow> Some ([R_Threw], s)
              | Some False \<Rightarrow> Some ([R_Bad ''Bad Request''], s)
              | Some True \<Rightarrow>
                  if wl_kind L filePath = None then Some ([R_Missing ''Not Found''], s)
                  else
                    (case path_extension (path_text filePath) of
                       [] \<Rightarrow> Some ([R_Threw], s)
                     | _ # extension \<Rightarrow>
                         (case map_of mime_types extension of
                            None \<Rightarrow> Some ([R_Bad ''Bad Request''], s)
                          | Some mimeType \<Rightarrow> Some ([R_File mimeType (path_text filePath)], s)))))"

definition getFaviconImage :: "'a web_lib \<Rightarrow> 'x web \<Rightarrow> 'x outcome" where
  "getFaviconImage L s = Some ([R_File ''image/x-icon'' (wl_web_dir L @ ''images/sunshine.ico'')], s)"

definition getSunshineLogoImage :: "'a web_lib \<Rightarrow> 'x web \<Rightarrow> 'x outcome" where
  "getSunshineLogoImage L s = Some ([R_File ''image/png'' (wl_web_dir L @ ''images/logo-sunshine-45.png'')], s)"

section \<open>Covers\<close>

text \<open>The response when the index is not one of an application; \<open>None\<close> where it throws.\<close>

definition check_app_index :: "'a web_lib \<Rightarrow> int \<Rightarrow> 'x web \<Rightarrow> response option option" where
  "check_app_index L index s =
     (case Option.bind (wl_parse L (w_apps_file s)) (json_at ''apps'') of
        None \<Rightarrow> None
      | Some (apps, _) \<Rightarrow>
          if index < 0 \<or> index \<ge> int (json_size apps) then
            Some (Some (R_Bad (if json_size apps = 0 then ''No applications found''
              else CHR 0x27 # ''index'' @ CHR 0x27 # '' '' @ int_string index @ '' out of range, max index is '' @ int_string (int (json_size apps) - 1))))
          else Some None)"

definition image_path_of :: "json \<Rightarrow> string option" where
  "image_path_of app =
     (case app of
        J_Obj ms \<Rightarrow> (case map_of ms ''image-path'' of
             None \<Rightarrow> Some [] | Some J_Null \<Rightarrow> Some [] | Some (J_Str p) \<Rightarrow> Some p | Some _ \<Rightarrow> None)
      | _ \<Rightarrow> Some [])"

definition cover_response :: "'a web_lib \<Rightarrow> string \<Rightarrow> response" where
  "cover_response L app_image_path =
     (let validated_path = validate_app_image_path (wl_files L) app_image_path
      in if validated_path = DEFAULT_APP_IMAGE_PATH (wl_files L) then R_Missing ''Cover image not found''
         else if af_content (wl_files L) validated_path = None then R_Bad ''Unable to read cover image file''
         else R_File ''image/png'' validated_path)"

definition getCover :: "'a web_lib \<Rightarrow> web_conf \<Rightarrow> 'a request \<Rightarrow> 'x web \<Rightarrow> 'x outcome" where
  "getCover L C req = with_user L C req (\<lambda>s. catching s
     (Option.bind (stoi (rq_match req)) (\<lambda>index.
      Option.bind (check_app_index L index s) (\<lambda>refused.
        case refused of
          Some r \<Rightarrow> Some (Some ([r], s))
        | None \<Rightarrow>
            Option.bind (wl_parse L (w_apps_file s)) (\<lambda>file_tree.
            Option.bind (json_at ''apps'' file_tree) (\<lambda>(apps, _).
            Option.bind (json_nth apps (nat index)) (\<lambda>app.
            Option.bind (image_path_of app) (\<lambda>p. Some (Some ([cover_response L p], s))))))))))"

text \<open>\<open>uploadCover\<close>: the image is fetched, or is the data of the request itself.\<close>

definition uploadCover :: "'a web_lib \<Rightarrow> web_conf \<Rightarrow> web_env \<Rightarrow> 'a request \<Rightarrow> 'x web \<Rightarrow> 'x outcome" where
  "uploadCover L C env req = with_json req (with_user L C req (\<lambda>s. catching s
     (Option.bind (wl_parse L (rq_content req)) (\<lambda>input_tree.
      Option.bind (json_value_str ''key'' [] input_tree) (\<lambda>key.
      if key = [] then Some (Some ([R_Bad ''Cover key is required''], s))
      else
        Option.bind (json_value_str ''url'' [] input_tree) (\<lambda>url.
          let path = wc_appdata C @ ''/covers/'' @ wl_escape L key @ ''.png'';
              written = (\<lambda>data. Some (Some
                ([R_Json (J_Obj [(''path'', J_Str path), (''status'', J_Bool True)])],
                 s\<lparr>w_covers := (w_covers s)(path \<mapsto> data)\<rparr>)))
          in if url \<noteq> [] then
               if wl_host L url \<noteq> ''images.igdb.com'' then Some (Some ([R_Bad ''Only images.igdb.com is allowed''], s))
               else (case we_download env url of
                       None \<Rightarrow> Some (Some ([R_Bad ''Failed to download cover''], s))
                     | Some data \<Rightarrow> written data)
             else Option.bind (json_value_str ''data'' [] input_tree) (\<lambda>data. written (wl_base64 L data))))))))"

section \<open>Directories\<close>

text \<open>\<open>is_browsable_executable\<close> is the bit \<open>di_exec\<close>; an entry whose status throws is skipped.\<close>

definition browse_entry :: "string list \<Rightarrow> string \<Rightarrow> dir_item \<Rightarrow> json option" where
  "browse_entry dir type_str item =
     (case di_kind item of
        None \<Rightarrow> None
      | Some kind \<Rightarrow>
          let is_dir = (kind = Directory); is_regular = (kind = Regular_File)
          in if \<not> is_dir \<and> \<not> is_regular then None
             else if type_str = ''directory'' \<and> \<not> is_dir then None
             else if type_str = ''executable'' \<and> \<not> is_dir \<and> \<not> di_exec item then None
             else Some (J_Obj [(''name'', J_Str (di_name item)), (''path'', J_Str (path_text (dir @ [di_name item]))),
                               (''type'', J_Str (if is_dir then ''directory'' else ''file''))]))"

definition member_text :: "string \<Rightarrow> json \<Rightarrow> string" where
  "member_text k j = (case j of J_Obj ms \<Rightarrow> (case map_of ms k of Some (J_Str t) \<Rightarrow> t | _ \<Rightarrow> []) | _ \<Rightarrow> [])"

definition browse_less :: "json \<Rightarrow> json \<Rightarrow> bool" where
  "browse_less a b =
     (let a_dir = (member_text ''type'' a = ''directory''); b_dir = (member_text ''type'' b = ''directory'')
      in if a_dir \<noteq> b_dir then a_dir \<and> \<not> b_dir
         else map to_lower (member_text ''name'' a) < map to_lower (member_text ''name'' b))"

definition build_browse_entries :: "'a web_lib \<Rightarrow> string list \<Rightarrow> string \<Rightarrow> json list" where
  "build_browse_entries L dir type_str =
     wl_sort L browse_less (List.map_filter (browse_entry dir type_str) (wl_items L dir))"

definition browse_path :: "'a web_lib \<Rightarrow> string list \<Rightarrow> string list" where
  "browse_path L dir =
     (let d1 = (if wl_kind L dir = Some Regular_File then butlast dir else dir)
      in if wl_kind L d1 = None then butlast d1 else d1)"

definition browseDirectory :: "'a web_lib \<Rightarrow> web_conf \<Rightarrow> 'a request \<Rightarrow> 'x web \<Rightarrow> 'x outcome" where
  "browseDirectory L C req = with_user L C req (\<lambda>s.
     let path_str = (case find_arg (rq_query req) ''path'' of Some p \<Rightarrow> if p = [] then ''/'' else p | None \<Rightarrow> ''/'');
         type_str = (case find_arg (rq_query req) ''type'' of Some t \<Rightarrow> if t = [] then ''any'' else t | None \<Rightarrow> ''any'')
     in case wl_canonical L path_str of
          None \<Rightarrow> Some ([R_What], s)
        | Some p \<Rightarrow>
            let dir_path = browse_path L p
            in if wl_kind L dir_path \<noteq> Some Directory then Some ([R_Bad ''Path is not a directory''], s)
               else Some ([R_Json (J_Obj
                 [(''entries'', J_Arr (build_browse_entries L dir_path type_str)),
                  (''parent'', J_Str (path_text (butlast dir_path))), (''path'', J_Str (path_text dir_path))])], s))"

end
