(* ===== verification/Web_Handlers.thy ===== *)
theory Web_Handlers
  imports Web_Files
begin

text \<open>
  What the web interface of \<open>src/confighttp.cpp\<close> changes: the applications file, the clients and
  their sessions, the settings and the credentials (\<open>src/httpcommon.cpp\<close>), and the table of
  resources of \<open>start\<close>.
\<close>

section \<open>Applications\<close>

definition legacy_bool :: "string \<Rightarrow> json \<Rightarrow> json" where
  "legacy_bool key app =
     (case app of
        J_Obj ms \<Rightarrow> (case map_of ms key of Some (J_Str t) \<Rightarrow> json_set key (J_Bool (t = ''true'')) app | _ \<Rightarrow> app)
      | _ \<Rightarrow> app)"

definition legacy_int :: "string \<Rightarrow> json \<Rightarrow> json option" where
  "legacy_int key app =
     (case app of
        J_Obj ms \<Rightarrow> (case map_of ms key of
             Some (J_Str t) \<Rightarrow> map_option (\<lambda>n. json_set key (J_Int n) app) (stoi t) | _ \<Rightarrow> Some app)
      | _ \<Rightarrow> Some app)"

definition boolean_keys :: "string list" where
  "boolean_keys = [''exclude-global-prep-cmd'', ''elevated'', ''auto-detach'', ''wait-all'']"

definition legacy_prep :: "json \<Rightarrow> json option" where
  "legacy_prep app =
     (case app of
        J_Obj ms \<Rightarrow> (case map_of ms ''prep-cmd'' of
             Some prep \<Rightarrow> map_option (\<lambda>p. json_set ''prep-cmd'' p app)
               (json_each (\<lambda>j. Some (legacy_bool ''elevated'' j)) prep)
           | None \<Rightarrow> Some app)
      | _ \<Rightarrow> Some app)"

definition convert_app :: "json \<Rightarrow> json option" where
  "convert_app app = Option.bind (legacy_int ''exit-timeout'' (fold legacy_bool boolean_keys app)) legacy_prep"

definition getApps :: "'a web_lib \<Rightarrow> web_conf \<Rightarrow> 'a request \<Rightarrow> 'x web \<Rightarrow> 'x outcome" where
  "getApps L C req = with_user L C req (\<lambda>s. catching s
     (Option.bind (wl_parse L (w_apps_file s)) (\<lambda>file_tree.
      Option.bind (json_at ''apps'' file_tree) (\<lambda>(apps, tree).
      Option.bind (json_each convert_app apps) (\<lambda>apps'.
        Some (Some ([R_Json (json_set ''apps'' apps' tree)], s)))))))"

text \<open>\<open>refresh\<close> reads the file again, with its own reader, and replaces the process object.\<close>

definition refresh_apps :: "'a web_lib \<Rightarrow> web_conf \<Rightarrow> web_env \<Rightarrow> 'x web \<Rightarrow> 'x web" where
  "refresh_apps L C env s =
     s\<lparr>w_host := (w_host s)\<lparr>h_proc := refresh
         (parse_file (wl_files L) (wc_prep_cmds C) (we_env_vars env) (wl_apps_tree L (w_apps_file s))) (h_proc (w_host s))\<rparr>\<rparr>"

definition write_apps :: "'a web_lib \<Rightarrow> web_conf \<Rightarrow> web_env \<Rightarrow> json \<Rightarrow> 'x web \<Rightarrow> 'x web" where
  "write_apps L C env tree s = refresh_apps L C env (s\<lparr>w_apps_file := wl_dump L tree\<rparr>)"

definition without_empty :: "string \<Rightarrow> json \<Rightarrow> json option" where
  "without_empty key j =
     map_option (\<lambda>(v, j'). if json_empty v then json_erase key j' else j') (json_at key j)"

text \<open>The list with the application put in place of the one with the index, or at its end.\<close>

definition place_app :: "int \<Rightarrow> json \<Rightarrow> json \<Rightarrow> json list option" where
  "place_app index app apps =
     (if index = - 1 then (case apps of J_Null \<Rightarrow> Some [app] | J_Arr xs \<Rightarrow> Some (xs @ [app]) | _ \<Rightarrow> None)
      else those (map (\<lambda>i. if int i = index then Some app else json_nth apps i) [0..<json_size apps]))"

text \<open>
  Comparing the names: a value that is not an object or a name that is not a string throws, and a
  missing name is not defined. With fewer than two values nothing is compared.
\<close>

datatype name_check = Names_Ok | Names_Throw | Names_Undefined

definition check_names :: "json list \<Rightarrow> name_check" where
  "check_names xs =
     (if length xs < 2 then Names_Ok
      else if list_ex (\<lambda>j. case j of J_Obj ms \<Rightarrow> map_of ms ''name'' = None | _ \<Rightarrow> False) xs then Names_Undefined
      else if list_all (\<lambda>j. case j of J_Obj ms \<Rightarrow> (\<exists>t. map_of ms ''name'' = Some (J_Str t)) | _ \<Rightarrow> False) xs then Names_Ok
      else Names_Throw)"

definition name_less :: "json \<Rightarrow> json \<Rightarrow> bool" where
  "name_less a b \<longleftrightarrow> member_text ''name'' a < member_text ''name'' b"

definition save_app_body :: "'a web_lib \<Rightarrow> web_conf \<Rightarrow> web_env \<Rightarrow> json \<Rightarrow> json \<Rightarrow> 'x web \<Rightarrow> 'x outcome option" where
  "save_app_body L C env input_tree file_tree s =
     Option.bind (without_empty ''prep-cmd'' input_tree) (\<lambda>i1.
     Option.bind (without_empty ''detached'' i1) (\<lambda>i2.
     Option.bind (json_at ''apps'' file_tree) (\<lambda>(apps, tree).
     Option.bind (json_at ''index'' i2) (\<lambda>(idx, i3).
     Option.bind (json_int idx) (\<lambda>index.
     Option.bind (place_app index (json_erase ''index'' i3) apps) (\<lambda>xs.
       case check_names xs of
         Names_Throw \<Rightarrow> None
       | Names_Undefined \<Rightarrow> Some None
       | Names_Ok \<Rightarrow> Some (Some ([R_Json (status_json True)],
           write_apps L C env (json_set ''apps'' (J_Arr (wl_sort L name_less xs)) tree) s))))))))"

definition saveApp :: "'a web_lib \<Rightarrow> web_conf \<Rightarrow> web_env \<Rightarrow> 'a request \<Rightarrow> 'x web \<Rightarrow> 'x outcome" where
  "saveApp L C env req = with_json req (with_user L C req (with_token L C env req (\<lambda>s. catching s
     (Option.bind (wl_parse L (rq_content req)) (\<lambda>input_tree.
      Option.bind (wl_parse L (w_apps_file s)) (\<lambda>file_tree. save_app_body L C env input_tree file_tree s))))))"

definition deleteApp :: "'a web_lib \<Rightarrow> web_conf \<Rightarrow> web_env \<Rightarrow> 'a request \<Rightarrow> 'x web \<Rightarrow> 'x outcome" where
  "deleteApp L C env req = with_user L C req (with_token L C env req (\<lambda>s. catching s
     (Option.bind (stoi (rq_match req)) (\<lambda>index.
      Option.bind (check_app_index L index s) (\<lambda>refused.
        case refused of
          Some r \<Rightarrow> Some (Some ([r], s))
        | None \<Rightarrow>
            Option.bind (wl_parse L (w_apps_file s)) (\<lambda>file_tree.
            Option.bind (json_at ''apps'' file_tree) (\<lambda>(apps, tree).
            Option.bind (those (map (json_nth apps) (filter (\<lambda>i. int i \<noteq> index) [0..<json_size apps]))) (\<lambda>new_apps.
              Some (Some ([R_Json (J_Obj [(''result'', J_Str (''application '' @ int_string index @ '' deleted'')),
                                          (''status'', J_Bool True)])],
                write_apps L C env (json_set ''apps'' (J_Arr new_apps) tree) s))))))))))"

definition with_host :: "(host \<Rightarrow> host) \<Rightarrow> 'x web \<Rightarrow> 'x web" where
  "with_host f s = s\<lparr>w_host := f (w_host s)\<rparr>"

definition closeApp :: "'a web_lib \<Rightarrow> web_conf \<Rightarrow> web_env \<Rightarrow> 'a request \<Rightarrow> 'x web \<Rightarrow> 'x outcome" where
  "closeApp L C env req = with_user L C req (with_token L C env req (\<lambda>s.
     Some ([R_Json (status_json True)], with_host (proc_terminate (wc_host C)) s)))"

section \<open>Clients\<close>

definition client_json :: "string \<times> string \<times> bool \<Rightarrow> json" where
  "client_json = (\<lambda>(name, uuid, enabled).
     J_Obj [(''enabled'', J_Bool enabled), (''name'', J_Str name), (''uuid'', J_Str uuid)])"

definition getClients :: "'a web_lib \<Rightarrow> web_conf \<Rightarrow> 'a request \<Rightarrow> 'x web \<Rightarrow> 'x outcome" where
  "getClients L C req = with_user L C req (\<lambda>s.
     Some ([R_Json (J_Obj [(''named_certs'', J_Arr (map client_json (get_all_clients (w_nv s)))), (''status'', J_Bool True)])], s))"

text \<open>Disabling a client ends all sessions, and the application when none is left.\<close>

definition end_sessions :: "web_conf \<Rightarrow> web_env \<Rightarrow> host \<Rightarrow> host option" where
  "end_sessions C env h =
     Option.bind (clear (wc_launch C) (wc_host C) (we_now env) True h) (\<lambda>h1.
     map_option (\<lambda>(n, h2).
         let (app, h3) = proc_running (wc_host C) (we_now env) h2
         in if n \<noteq> 0 then h2 else if app > 0 then proc_terminate (wc_host C) h3 else h3)
       (session_count (wc_launch C) (wc_host C) (we_now env) h1))"

definition updateClient :: "'a web_lib \<Rightarrow> web_conf \<Rightarrow> web_env \<Rightarrow> 'a request \<Rightarrow> 'x web \<Rightarrow> 'x outcome" where
  "updateClient L C env req = with_json req (with_user L C req (with_token L C env req (\<lambda>s. catching s
     (Option.bind (wl_parse L (rq_content req)) (\<lambda>input_tree.
      Option.bind (json_value_str ''uuid'' [] input_tree) (\<lambda>uuid.
      Option.bind (json_value_bool ''enabled'' True input_tree) (\<lambda>enabled.
        let (nv, found) = set_client_enabled (we_nv env) uuid enabled (w_nv s); s1 = s\<lparr>w_nv := nv\<rparr>
        in if \<not> enabled \<and> found then
             Some (map_option (\<lambda>h. ([R_Json (status_json found)], s1\<lparr>w_host := h\<rparr>)) (end_sessions C env (w_host s1)))
           else Some (Some ([R_Json (status_json found)], s1)))))))))"

definition unpair :: "'x crypto \<Rightarrow> 'a web_lib \<Rightarrow> web_conf \<Rightarrow> web_env \<Rightarrow> 'a request \<Rightarrow> 'x web \<Rightarrow> 'x outcome" where
  "unpair K L C env req = with_json req (with_user L C req (with_token L C env req (\<lambda>s. catching s
     (Option.bind (wl_parse L (rq_content req)) (\<lambda>input_tree.
      Option.bind (json_value_str ''uuid'' [] input_tree) (\<lambda>uuid.
        let (nv, removed, ok) = unpair_client K (we_nv env) uuid (w_nv s); s1 = s\<lparr>w_nv := nv\<rparr>
        in if \<not> ok then Some (Some ([R_What], s1))
           else Some (Some ([R_Json (status_json removed)],
             if removed \<and> get_all_clients nv = [] then with_host (proc_terminate (wc_host C)) s1 else s1))))))))"

definition unpairAll :: "'a web_lib \<Rightarrow> web_conf \<Rightarrow> web_env \<Rightarrow> 'a request \<Rightarrow> 'x web \<Rightarrow> 'x outcome" where
  "unpairAll L C env req = with_user L C req (with_token L C env req (\<lambda>s.
     Some ([R_Json (status_json True)],
       with_host (proc_terminate (wc_host C)) (s\<lparr>w_nv := erase_all_clients (we_nv env) (w_nv s)\<rparr>))))"

text \<open>A PIN out of range is answered at once, and passed on all the same.\<close>

definition savePin :: "'x crypto \<Rightarrow> 'a web_lib \<Rightarrow> web_conf \<Rightarrow> web_env \<Rightarrow> 'a request \<Rightarrow> 'x web \<Rightarrow> 'x outcome" where
  "savePin K L C env req = with_json req (with_user L C req (with_token L C env req (\<lambda>s. catching s
     (Option.bind (wl_parse L (rq_content req)) (\<lambda>input_tree.
      Option.bind (json_value_str ''name'' [] input_tree) (\<lambda>name.
      Option.bind (json_value_str ''pin'' [] input_tree) (\<lambda>digits.
      Option.bind (stoi digits) (\<lambda>n.
        let early = (if n < 0 \<or> n > 9999 then [R_Bad ''PIN must be between 0000 and 9999''] else [])
        in case pin K (wc_nv C) (we_nv env) digits name (w_nv s) of
             (_, Dangling) \<Rightarrow> Some None
           | (nv, Returned ok _) \<Rightarrow> Some (Some (early @ [R_Json (status_json ok)], s\<lparr>w_nv := nv\<rparr>))))))))))"

section \<open>Settings\<close>

definition getConfig :: "'a web_lib \<Rightarrow> web_conf \<Rightarrow> 'a request \<Rightarrow> 'x web \<Rightarrow> 'x outcome" where
  "getConfig L C req = with_user L C req (\<lambda>s. Some ([R_Vars (parse_config (w_config_file s))], s))"

definition getLocale :: "web_conf \<Rightarrow> 'x web \<Rightarrow> 'x outcome" where
  "getLocale C s = Some ([R_Json (J_Obj [(''locale'', J_Str (wc_locale C)), (''status'', J_Bool True)])], s)"

definition config_item :: "'a web_lib \<Rightarrow> json \<Rightarrow> json_value" where
  "config_item L v = (case v of J_Null \<Rightarrow> JNull | J_Str t \<Rightarrow> JString t | _ \<Rightarrow> JOther (wl_dump L v))"

text \<open>\<open>items\<close> of an array has the indices as keys; of another value, one item with an empty key.\<close>

definition json_items :: "json \<Rightarrow> (string \<times> json) list" where
  "json_items j =
     (case j of J_Null \<Rightarrow> [] | J_Obj ms \<Rightarrow> ms | J_Arr xs \<Rightarrow> map (\<lambda>(i, x). (int_string (int i), x)) (enumerate 0 xs) | _ \<Rightarrow> [([], j)])"

definition saveConfig :: "'a web_lib \<Rightarrow> web_conf \<Rightarrow> web_env \<Rightarrow> 'a request \<Rightarrow> 'x web \<Rightarrow> 'x outcome" where
  "saveConfig L C env req = with_json req (with_user L C req (with_token L C env req (\<lambda>s. catching s
     (Option.bind (wl_parse L (rq_content req)) (\<lambda>input_tree.
        Some (Some ([R_Json (status_json True)],
          s\<lparr>w_config_file := save_config_text (map (\<lambda>(k, v). (k, config_item L v)) (json_items input_tree))\<rparr>)))))))"

definition getLogs :: "'a web_lib \<Rightarrow> web_conf \<Rightarrow> 'a request \<Rightarrow> 'x web \<Rightarrow> 'x outcome" where
  "getLogs L C req = with_user L C req (\<lambda>s. Some ([R_Log (wc_log C)], s))"

definition getCSRFToken :: "'a web_lib \<Rightarrow> web_conf \<Rightarrow> web_env \<Rightarrow> 'a request \<Rightarrow> 'x web \<Rightarrow> 'x outcome" where
  "getCSRFToken L C env req = with_user L C req (\<lambda>s.
     let (token, s1) = generate_csrf_token env (get_client_id L req s) s
     in Some ([R_Json (J_Obj [(''csrf_token'', J_Str token)])], s1))"

definition resetDisplayDevicePersistence :: "'a web_lib \<Rightarrow> web_conf \<Rightarrow> web_env \<Rightarrow> 'a request \<Rightarrow> 'x web \<Rightarrow> 'x outcome" where
  "resetDisplayDevicePersistence L C env req = with_user L C req (with_token L C env req (\<lambda>s.
     Some ([R_Json (status_json (we_reset_ok env))], s\<lparr>w_events := w_events s @ [W_Reset_Persistence]\<rparr>)))"

definition restart :: "'a web_lib \<Rightarrow> web_conf \<Rightarrow> web_env \<Rightarrow> 'a request \<Rightarrow> 'x web \<Rightarrow> 'x outcome" where
  "restart L C env req = with_user L C req (with_token L C env req (\<lambda>s.
     Some ([], s\<lparr>w_events := w_events s @ [W_Restart]\<rparr>)))"

definition getViGEmBusStatus :: "'a web_lib \<Rightarrow> web_conf \<Rightarrow> 'a request \<Rightarrow> 'x web \<Rightarrow> 'x outcome" where
  "getViGEmBusStatus L C req = with_user L C req (\<lambda>s.
     Some ([R_Json (J_Obj [(''error'', J_Str ''ViGEmBus is only available on Windows''), (''installed'', J_Bool False),
       (''packaged_version'', J_Str []), (''version'', J_Str []), (''version_compatible'', J_Bool False)])], s))"

definition installViGEmBus :: "'a web_lib \<Rightarrow> web_conf \<Rightarrow> web_env \<Rightarrow> 'a request \<Rightarrow> 'x web \<Rightarrow> 'x outcome" where
  "installViGEmBus L C env req = with_user L C req (with_token L C env req (\<lambda>s.
     Some ([R_Json (J_Obj [(''error'', J_Str ''ViGEmBus installation is only available on Windows''), (''status'', J_Bool False)])], s)))"

section \<open>Credentials\<close>

text \<open>The result of \<open>save_user_creds\<close> and \<open>reload_user_creds\<close>, and the state.\<close>

definition save_user_creds :: "'a web_lib \<Rightarrow> web_env \<Rightarrow> string \<Rightarrow> string \<Rightarrow> 'x web \<Rightarrow> int \<times> 'x web" where
  "save_user_creds L env username password s =
     (let salt = we_salt env;
          write = (\<lambda>old.
            let outputTree = old(''username'' \<mapsto> username, ''salt'' \<mapsto> salt, ''password'' \<mapsto> password_hash L (password @ salt))
            in case we_write env of
                 Written \<Rightarrow> (0, s\<lparr>w_creds := we_reread env outputTree\<rparr>)
               | Refused \<Rightarrow> (- 1, s)
               | Truncated \<Rightarrow> (- 1, s\<lparr>w_creds := Creds_Unreadable\<rparr>))
      in case w_creds s of
           Creds_Missing \<Rightarrow> write Map.empty
         | Creds_Unreadable \<Rightarrow> (- 1, s)
         | Creds_Tree t \<Rightarrow> write t)"

definition user_creds_exist :: "'x web \<Rightarrow> bool" where
  "user_creds_exist s =
     (case w_creds s of
        Creds_Tree t \<Rightarrow> t ''username'' \<noteq> None \<and> t ''password'' \<noteq> None \<and> t ''salt'' \<noteq> None
      | _ \<Rightarrow> False)"

text \<open>An entry that is missing leaves those after it as they were.\<close>

definition reload_user_creds :: "'x web \<Rightarrow> int \<times> 'x web" where
  "reload_user_creds s =
     (case w_creds s of
        Creds_Tree t \<Rightarrow>
          (case t ''username'' of
             None \<Rightarrow> (- 1, s)
           | Some u \<Rightarrow>
               let s1 = s\<lparr>w_username := u\<rparr>
               in case t ''password'' of
                    None \<Rightarrow> (- 1, s1)
                  | Some p \<Rightarrow>
                      let s2 = s1\<lparr>w_password := p\<rparr>
                      in case t ''salt'' of None \<Rightarrow> (- 1, s2) | Some salt \<Rightarrow> (0, s2\<lparr>w_salt := salt\<rparr>))
      | _ \<Rightarrow> (- 1, s))"

text \<open>The end of \<open>init\<close>; whether the certificate of the host is there is \<open>have_creds\<close>.\<close>

definition http_init :: "bool \<Rightarrow> 'x web \<Rightarrow> int \<times> 'x web" where
  "http_init have_creds s =
     (if \<not> have_creds then (- 1, s)
      else if \<not> user_creds_exist s then (0, s)
      else (let (r, s1) = reload_user_creds s in if r \<noteq> 0 then (- 1, s1) else (0, s1)))"

definition change_password ::
  "'a web_lib \<Rightarrow> web_env \<Rightarrow> string \<Rightarrow> string \<Rightarrow> string \<Rightarrow> string \<Rightarrow> string \<Rightarrow> 'x web \<Rightarrow> 'x outcome" where
  "change_password L env username newUsername0 password newPassword confirmPassword s =
     (let newUsername = (if newUsername0 = [] then username else newUsername0)
      in if newUsername = [] then Some ([R_Bad ''Invalid Username''], s)
         else if w_username s = [] \<or> iequals username (w_username s) \<and> password_hash L (password @ w_salt s) = w_password s then
           if newPassword = [] \<or> newPassword \<noteq> confirmPassword then Some ([R_Bad ''Password Mismatch''], s)
           else Some ([R_Json (status_json True)],
                  snd (reload_user_creds (snd (save_user_creds L env newUsername newPassword s))))
         else Some ([R_Bad ''Invalid Current Credentials''], s))"

definition savePassword :: "'a web_lib \<Rightarrow> web_conf \<Rightarrow> web_env \<Rightarrow> 'a request \<Rightarrow> 'x web \<Rightarrow> 'x outcome" where
  "savePassword L C env req = with_json req (\<lambda>s.
     (if w_username s \<noteq> [] then with_user L C req else id) (with_token L C env req (\<lambda>s. catching s
       (Option.bind (wl_parse L (rq_content req)) (\<lambda>input_tree.
        Option.bind (json_value_str ''currentUsername'' [] input_tree) (\<lambda>username.
        Option.bind (json_value_str ''newUsername'' [] input_tree) (\<lambda>newUsername.
        Option.bind (json_value_str ''currentPassword'' [] input_tree) (\<lambda>password.
        Option.bind (json_value_str ''newPassword'' [] input_tree) (\<lambda>newPassword.
        Option.bind (json_value_str ''confirmNewPassword'' [] input_tree) (\<lambda>confirmPassword.
          Some (change_password L env username newUsername password newPassword confirmPassword s)))))))))) s)"

end
