(* ===== verification/Web_Server.thy ===== *)
theory Web_Server
  imports Web_Handlers
begin

text \<open>
  The resources of \<open>start\<close> in \<open>src/confighttp.cpp\<close> and the way a request is served: the first
  resource whose method and pattern match, or the default of the method.
\<close>

section \<open>Resources\<close>

text \<open>
  The patterns of the code: a text in which a point stands for any character, a text with an
  optional slash, a text with a number behind it, and anything below a directory.
\<close>

datatype resource_pattern = Exact string | Opt_Slash string | Digits string | Below string

definition regex_char :: "char \<Rightarrow> char \<Rightarrow> bool" where
  "regex_char p c \<longleftrightarrow> p = c \<or> p = CHR ''.'' \<and> c \<noteq> CHR 0x0A \<and> c \<noteq> CHR 0x0D"

text \<open>The text of the first group, which is empty when there is none.\<close>

fun match_path :: "resource_pattern \<Rightarrow> string \<Rightarrow> string option" where
  "match_path (Exact p) path = (if list_all2 regex_char p path then Some [] else None)"
| "match_path (Opt_Slash p) path = (if path = p \<or> path = p @ ''/'' then Some [] else None)"
| "match_path (Digits p) path =
     (let ds = drop (length p) path
      in if take (length p) path = p \<and> ds \<noteq> [] \<and> list_all isdigit ds then Some ds else None)"
| "match_path (Below p) path =
     (let rest = drop (length p) path
      in if take (length p) path = p \<and> rest \<noteq> [] \<and> list_all (regex_char CHR ''.'') rest then Some [] else None)"

datatype endpoint =
  Page string bool bool
| Browse_Directory | Get_Apps | Save_App | Delete_App | Close_App
| Get_Clients | Unpair_Client | Unpair_All | Update_Client
| Get_Config | Save_Config | Get_Locale | Get_Cover | Upload_Cover | Get_CSRF_Token
| Save_Password | Save_Pin | Get_Logs | Reset_Persistence | Restart | ViGEm_Status | ViGEm_Install
| Favicon | Logo | Asset

definition resources :: "(resource_pattern \<times> string \<times> endpoint) list" where
  "resources =
     [(Exact ''/'', ''GET'', Page ''index.html'' True False),
      (Opt_Slash ''/apps'', ''GET'', Page ''apps.html'' True False),
      (Opt_Slash ''/clients'', ''GET'', Page ''clients.html'' True False),
      (Opt_Slash ''/config'', ''GET'', Page ''config.html'' True False),
      (Opt_Slash ''/featured'', ''GET'', Page ''featured.html'' True False),
      (Opt_Slash ''/password'', ''GET'', Page ''password.html'' True False),
      (Opt_Slash ''/pin'', ''GET'', Page ''pin.html'' True False),
      (Opt_Slash ''/troubleshooting'', ''GET'', Page ''troubleshooting.html'' True False),
      (Opt_Slash ''/welcome'', ''GET'', Page ''welcome.html'' False True),
      (Exact ''/api/browse'', ''GET'', Browse_Directory),
      (Exact ''/api/apps'', ''GET'', Get_Apps),
      (Exact ''/api/apps'', ''POST'', Save_App),
      (Digits ''/api/apps/'', ''DELETE'', Delete_App),
      (Exact ''/api/apps/close'', ''POST'', Close_App),
      (Exact ''/api/clients/list'', ''GET'', Get_Clients),
      (Exact ''/api/clients/unpair'', ''POST'', Unpair_Client),
      (Exact ''/api/clients/unpair-all'', ''POST'', Unpair_All),
      (Exact ''/api/clients/update'', ''POST'', Update_Client),
      (Exact ''/api/config'', ''GET'', Get_Config),
      (Exact ''/api/config'', ''POST'', Save_Config),
      (Exact ''/api/configLocale'', ''GET'', Get_Locale),
      (Digits ''/api/covers/'', ''GET'', Get_Cover),
      (Exact ''/api/covers/upload'', ''POST'', Upload_Cover),
      (Exact ''/api/csrf-token'', ''GET'', Get_CSRF_Token),
      (Exact ''/api/password'', ''POST'', Save_Password),
      (Exact ''/api/pin'', ''POST'', Save_Pin),
      (Exact ''/api/logs'', ''GET'', Get_Logs),
      (Exact ''/api/reset-display-device-persistence'', ''POST'', Reset_Persistence),
      (Exact ''/api/restart'', ''POST'', Restart),
      (Exact ''/api/vigembus/status'', ''GET'', ViGEm_Status),
      (Exact ''/api/vigembus/install'', ''POST'', ViGEm_Install),
      (Exact ''/images/sunshine.ico'', ''GET'', Favicon),
      (Exact ''/images/logo-sunshine-45.png'', ''GET'', Logo),
      (Below ''/assets/'', ''GET'', Asset)]"

text \<open>The first resource that takes the request, with the text of the group.\<close>

fun find_resource :: "(resource_pattern \<times> string \<times> endpoint) list \<Rightarrow> string \<Rightarrow> string \<Rightarrow> (endpoint \<times> string) option" where
  "find_resource [] method_name path = None"
| "find_resource ((p, m, e) # rs) method_name path =
     (if m = method_name then
        (case match_path p path of Some g \<Rightarrow> Some (e, g) | None \<Rightarrow> find_resource rs method_name path)
      else find_resource rs method_name path)"

definition default_resource :: "string \<Rightarrow> response list" where
  "default_resource method_name =
     (if method_name = ''GET'' then [R_Missing ''Not Found'']
      else if method_name \<in> set [''DELETE'', ''PATCH'', ''POST'', ''PUT''] then [R_Bad ''Bad Request''] else [])"

fun handle :: "'x crypto \<Rightarrow> 'a web_lib \<Rightarrow> web_conf \<Rightarrow> web_env \<Rightarrow> endpoint \<Rightarrow> 'a request \<Rightarrow> 'x web \<Rightarrow> 'x outcome" where
  "handle K L C env (Page file auth redirect) req = getPage L C req file auth redirect"
| "handle K L C env Browse_Directory req = browseDirectory L C req"
| "handle K L C env Get_Apps req = getApps L C req"
| "handle K L C env Save_App req = saveApp L C env req"
| "handle K L C env Delete_App req = deleteApp L C env req"
| "handle K L C env Close_App req = closeApp L C env req"
| "handle K L C env Get_Clients req = getClients L C req"
| "handle K L C env Unpair_Client req = unpair K L C env req"
| "handle K L C env Unpair_All req = unpairAll L C env req"
| "handle K L C env Update_Client req = updateClient L C env req"
| "handle K L C env Get_Config req = getConfig L C req"
| "handle K L C env Save_Config req = saveConfig L C env req"
| "handle K L C env Get_Locale req = getLocale C"
| "handle K L C env Get_Cover req = getCover L C req"
| "handle K L C env Upload_Cover req = uploadCover L C env req"
| "handle K L C env Get_CSRF_Token req = getCSRFToken L C env req"
| "handle K L C env Save_Password req = savePassword L C env req"
| "handle K L C env Save_Pin req = savePin K L C env req"
| "handle K L C env Get_Logs req = getLogs L C req"
| "handle K L C env Reset_Persistence req = resetDisplayDevicePersistence L C env req"
| "handle K L C env Restart req = restart L C env req"
| "handle K L C env ViGEm_Status req = getViGEmBusStatus L C req"
| "handle K L C env ViGEm_Install req = installViGEmBus L C env req"
| "handle K L C env Favicon req = getFaviconImage L"
| "handle K L C env Logo req = getSunshineLogoImage L"
| "handle K L C env Asset req = getAsset L req"

definition serve :: "'x crypto \<Rightarrow> 'a web_lib \<Rightarrow> web_conf \<Rightarrow> web_env \<Rightarrow> 'a request \<Rightarrow> 'x web \<Rightarrow> 'x outcome" where
  "serve K L C env req s =
     (case find_resource resources (rq_method req) (rq_path req) of
        None \<Rightarrow> Some (default_resource (rq_method req), s)
      | Some (e, g) \<Rightarrow> handle K L C env e (req\<lparr>rq_match := g\<rparr>) s)"

section \<open>The server\<close>

definition PORT_HTTPS :: int where "PORT_HTTPS = 1"

text \<open>The address and the port it listens on.\<close>

definition web_address :: "sunshine_t \<Rightarrow> string \<times> int" where
  "web_address sun = (get_bind_address sun (af_from_enum_string (sun_address_family sun)), map_port sun PORT_HTTPS)"

end
