(* ===== verification/Web_Correct.thy ===== *)
theory Web_Correct
  imports Web_Server Launch_Correct "HOL-Library.Sublist" "HOL-Library.Countable"
begin

text \<open>
  What the web interface guarantees: nothing changes for who is not logged in or comes from another
  site, which passwords log in after a change, which files are served, and what happens to the list
  of applications and to the sessions of clients that are revoked.
\<close>

section \<open>Logging in\<close>

text \<open>
  The user name before the first colon of the decoded header, a password behind it, and an address
  that may use the interface.
\<close>

definition address_allowed :: "'a web_lib \<Rightarrow> web_conf \<Rightarrow> 'a \<Rightarrow> bool" where
  "address_allowed L C remote \<longleftrightarrow>
     (\<exists>n. from_address (wl_io L) (addr_to_normalized_string (wl_io L) remote) = Some n \<and>
        net_rank n \<le> net_rank (wc_origin_web_ui_allowed C))"

definition logged_in :: "'a web_lib \<Rightarrow> web_conf \<Rightarrow> 'a request \<Rightarrow> 'x web \<Rightarrow> bool" where
  "logged_in L C req s \<longleftrightarrow> address_allowed L C (rq_remote req) \<and> w_username s \<noteq> [] \<and>
     (\<exists>raw u p. find_arg (rq_header req) ''authorization'' = Some raw \<and> 6 \<le> length raw \<and>
        wl_base64 L (drop 6 raw) = u @ CHR '':'' # p \<and> CHR '':'' \<notin> set u \<and> p \<noteq> [] \<and>
        iequals u (w_username s) \<and> password_hash L (p @ w_salt s) = w_password s)"

lemma takeWhile_until: "c \<notin> set u \<Longrightarrow> takeWhile (\<lambda>x. x \<noteq> c) (u @ c # p) = u"
  by (induction u) auto

lemma until_eq: "c \<notin> set u \<Longrightarrow> c \<notin> set v \<Longrightarrow> u @ c # p = v @ c # q \<Longrightarrow> u = v \<and> p = q"
  by (induction u arbitrary: v) (auto simp: Cons_eq_append_conv)

lemma split_credentials_iff:
  "split_credentials d = Some (u, p) \<longleftrightarrow> d = u @ CHR '':'' # p \<and> CHR '':'' \<notin> set u \<and> p \<noteq> []"
proof
  assume a: "split_credentials d = Some (u, p)"
  let ?i = "length (takeWhile (\<lambda>c. c \<noteq> CHR '':'') d)"
  have i: "?i + 1 < length d" and u: "u = take ?i d" and p: "p = drop (?i + 1) d"
    using a by (auto simp: split_credentials_def Let_def split: if_splits)
  have t: "take ?i d = takeWhile (\<lambda>c. c \<noteq> CHR '':'') d" by (rule takeWhile_eq_take [symmetric])
  have "d ! ?i = CHR '':''" using nth_length_takeWhile [of "\<lambda>c. c \<noteq> CHR '':''" d] i by simp
  then have "d = take ?i d @ CHR '':'' # drop (?i + 1) d" using id_take_nth_drop [of ?i d] i by simp
  moreover have "CHR '':'' \<notin> set u" unfolding u t by (auto dest: set_takeWhileD)
  ultimately show "d = u @ CHR '':'' # p \<and> CHR '':'' \<notin> set u \<and> p \<noteq> []" using u p i by simp
next
  assume "d = u @ CHR '':'' # p \<and> CHR '':'' \<notin> set u \<and> p \<noteq> []"
  then show "split_credentials d = Some (u, p)"
    by (simp add: split_credentials_def Let_def takeWhile_until Suc_le_eq)
qed

lemma authenticate_iff: "fst (authenticate L C req s) \<longleftrightarrow> logged_in L C req s"
proof (cases "address_allowed L C (rq_remote req) \<and> w_username s \<noteq> []")
  case False
  then show ?thesis
    by (auto simp: authenticate_def logged_in_def address_allowed_def not_less split: option.splits if_splits)
next
  case True
  then obtain n where n: "from_address (wl_io L) (addr_to_normalized_string (wl_io L) (rq_remote req)) = Some n"
    "\<not> net_rank n > net_rank (wc_origin_web_ui_allowed C)" by (auto simp: address_allowed_def not_less)
  show ?thesis
  proof (cases "find_arg (rq_header req) ''authorization''")
    case None
    then show ?thesis using n True by (simp add: authenticate_def logged_in_def)
  next
    case (Some raw)
    show ?thesis
    proof (cases "split_credentials (wl_base64 L (drop 6 raw))")
      case None
      then have "\<nexists>u p. wl_base64 L (drop 6 raw) = u @ CHR '':'' # p \<and> CHR '':'' \<notin> set u \<and> p \<noteq> []"
        by (metis option.distinct(1) split_credentials_iff)
      then show ?thesis using n True Some None by (auto simp: authenticate_def logged_in_def)
    next
      case cr: (Some up)
      obtain u p where up: "up = (u, p)" by (cases up)
      from cr have d: "wl_base64 L (drop 6 raw) = u @ CHR '':'' # p" "CHR '':'' \<notin> set u" "p \<noteq> []"
        unfolding up by (simp_all add: split_credentials_iff)
      have un: "u' = u \<and> p' = p" if "wl_base64 L (drop 6 raw) = u' @ CHR '':'' # p'" "CHR '':'' \<notin> set u'" for u' p'
        using that d until_eq by metis
      have "logged_in L C req s \<longleftrightarrow> 6 \<le> length raw \<and> iequals u (w_username s) \<and>
          password_hash L (p @ w_salt s) = w_password s"
        unfolding logged_in_def using True Some d(2,3) un d(1) by (metis option.inject)
      then show ?thesis using n True Some cr by (simp add: authenticate_def up not_less)
    qed
  qed
qed

text \<open>What may be said to a client that is not logged in.\<close>

definition harmless :: "web_conf \<Rightarrow> response \<Rightarrow> bool" where
  "harmless C r =
     (case r of
        R_Json j \<Rightarrow> j = J_Obj [(''locale'', J_Str (wc_locale C)), (''status'', J_Bool True)]
      | R_Vars _ \<Rightarrow> False
      | R_Log _ \<Rightarrow> False
      | _ \<Rightarrow> True)"

lemma harmless_authenticate: "r \<in> set (snd (authenticate L C req s)) \<Longrightarrow> harmless C r"
  by (auto simp: authenticate_def harmless_def split: option.splits if_splits)

definition turned_away :: "web_conf \<Rightarrow> 'x web \<Rightarrow> 'x outcome \<Rightarrow> bool" where
  "turned_away C s out \<longleftrightarrow> (\<exists>rs. out = Some (rs, s) \<and> (\<forall>r\<in>set rs. harmless C r))"

lemma turned_away_Some [simp]: "turned_away C s (Some (rs, s')) \<longleftrightarrow> s' = s \<and> (\<forall>r\<in>set rs. harmless C r)"
  by (auto simp: turned_away_def)

lemma turned_away_user: "\<not> logged_in L C req s \<Longrightarrow> turned_away C s (with_user L C req h s)"
  using harmless_authenticate [of _ L C req s] authenticate_iff [of L C req s]
  by (auto simp: with_user_def split_beta)

lemma check_content_harmless: "check_content_type req t = Some r \<Longrightarrow> harmless C r"
  by (auto simp: check_content_type_def harmless_def split: option.splits if_splits)

lemma turned_away_json: "turned_away C s (h s) \<Longrightarrow> turned_away C s (with_json req h s)"
  using check_content_harmless by (auto simp: with_json_def split: option.splits)

lemma turned_away_asset: "turned_away C s (getAsset L req s)"
  by (auto simp: getAsset_def Let_def harmless_def split: option.splits bool.splits list.splits)

lemma turned_away_page:
  "\<not> logged_in L C req s \<Longrightarrow> turned_away C s (getPage L C req file auth redirect s)"
  using turned_away_user [of L C req s] by (auto simp: getPage_def Let_def harmless_def)

lemma logged_in_match [simp]: "logged_in L C (req\<lparr>rq_match := g\<rparr>) s = logged_in L C req s"
  by (simp add: logged_in_def)

lemmas user_handlers =
  browseDirectory_def getApps_def saveApp_def deleteApp_def closeApp_def getClients_def unpair_def unpairAll_def
  updateClient_def getConfig_def saveConfig_def getCover_def uploadCover_def getCSRFToken_def savePin_def getLogs_def
  resetDisplayDevicePersistence_def restart_def getViGEmBusStatus_def installViGEmBus_def

lemma turned_away_handle:
  assumes "\<not> logged_in L C req s" "e = Save_Password \<Longrightarrow> w_username s \<noteq> []"
  shows "turned_away C s (handle K L C env e req s)"
proof (cases e)
  case (Page html auth redirect)
  then show ?thesis using turned_away_page [OF assms(1)] by simp
next
  case Save_Password
  then show ?thesis using assms turned_away_user [OF assms(1)] by (simp add: savePassword_def turned_away_json)
qed (use turned_away_user [OF assms(1)] in
  \<open>simp_all add: user_handlers turned_away_json turned_away_asset getLocale_def getFaviconImage_def getSunshineLogoImage_def harmless_def\<close>)

lemma regex_plain: "CHR ''.'' \<notin> set p \<Longrightarrow> list_all2 regex_char p path \<longleftrightarrow> path = p"
  by (induction p arbitrary: path) (auto simp: list_all2_Cons1 regex_char_def)

text \<open>The resource of a request, when it is one that is served for a single path.\<close>

lemma find_resource_mem:
  "find_resource rs m path = Some (e, g) \<Longrightarrow> \<exists>p. (p, m, e) \<in> set rs \<and> match_path p path = Some g"
  by (induction rs) (auto split: if_splits option.splits)

lemma password_path: "find_resource resources m path = Some (Save_Password, g) \<Longrightarrow> path = ''/api/password''"
  by (drule find_resource_mem) (auto simp: resources_def regex_plain split: if_splits)

lemma cover_path: "find_resource resources m path = Some (Upload_Cover, g) \<Longrightarrow> path = ''/api/covers/upload''"
  by (drule find_resource_mem) (auto simp: resources_def regex_plain split: if_splits)

text \<open>
  C14: A request changes nothing on the host, and is answered with none of its settings, logs, clients
  or applications, unless it carries the name and password of the user from an address that may use
  the interface; the one exception is setting the first password.
\<close>
theorem unauthenticated_inert:
  assumes "\<not> logged_in L C req s" "w_username s \<noteq> [] \<or> rq_path req \<noteq> ''/api/password''"
  shows "\<exists>rs. serve K L C env req s = Some (rs, s) \<and> (\<forall>r\<in>set rs. harmless C r)"
proof (cases "find_resource resources (rq_method req) (rq_path req)")
  case None
  then show ?thesis by (simp add: serve_def default_resource_def harmless_def)
next
  case (Some eg)
  obtain e g where eg: "eg = (e, g)" by (cases eg)
  have "turned_away C s (handle K L C env e (req\<lparr>rq_match := g\<rparr>) s)"
    using assms Some password_path unfolding eg by (intro turned_away_handle) auto
  then show ?thesis using Some by (simp add: serve_def eg turned_away_def)
qed

section \<open>Cross-site requests\<close>

text \<open>A request that names where it comes from, and none of the sites it names is allowed.\<close>

definition cross_site :: "web_conf \<Rightarrow> 'a request \<Rightarrow> bool" where
  "cross_site C req \<longleftrightarrow>
     (let sites = List.map_filter (find_arg (rq_header req)) [''Origin'', ''Referer'']
      in sites \<noteq> [] \<and> \<not> list_ex (is_allowed_origin C) sites)"

definition sent_token :: "'a request \<Rightarrow> string option" where
  "sent_token req =
     (case find_arg (rq_header req) ''X-CSRF-Token'' of Some t \<Rightarrow> Some t | None \<Rightarrow> find_arg (rq_query req) ''csrf_token'')"

definition holds_token :: "'a web_lib \<Rightarrow> web_env \<Rightarrow> 'a request \<Rightarrow> 'x web \<Rightarrow> bool" where
  "holds_token L env req s \<longleftrightarrow>
     (\<exists>t. w_csrf_tokens s (get_client_id L req s) = Some t \<and> we_now env \<le> ct_expiration t \<and> sent_token req = Some (ct_token t))"

definition only_tokens :: "'x web \<Rightarrow> 'x outcome \<Rightarrow> bool" where
  "only_tokens s out \<longleftrightarrow> (\<exists>rs T. out = Some (rs, s\<lparr>w_csrf_tokens := T\<rparr>))"

lemma web_same_tokens [simp]: "\<exists>T. s = s\<lparr>w_csrf_tokens := T\<rparr>"
  by (rule exI [of _ "w_csrf_tokens s"]) simp

lemma only_tokens_same [simp]: "only_tokens s (Some (rs, s))"
  by (auto simp: only_tokens_def)

lemma only_tokens_upd [simp]: "only_tokens s (Some (rs, s\<lparr>w_csrf_tokens := T\<rparr>))"
  by (auto simp: only_tokens_def)

lemma validate_cross_site:
  assumes "cross_site C req" "\<not> holds_token L env req s"
  shows "\<exists>r T. validate_csrf_token C env req (get_client_id L req s) s = (Some r, s\<lparr>w_csrf_tokens := T\<rparr>)"
proof -
  have stored: "\<exists>r T. validate_stored_csrf_token env (get_client_id L req s) tok s = (Some r, s\<lparr>w_csrf_tokens := T\<rparr>)"
    if "sent_token req = Some tok" for tok
    using assms(2) that
    by (auto simp: validate_stored_csrf_token_def holds_token_def not_less split: option.splits)
  show ?thesis
    using assms(1) stored
    by (auto simp: validate_csrf_token_def cross_site_def sent_token_def List.map_filter_def Let_def split: option.splits if_splits)
qed

lemma only_tokens_token:
  "cross_site C req \<Longrightarrow> \<not> holds_token L env req s \<Longrightarrow> only_tokens s (with_token L C env req h s)"
  by (drule validate_cross_site, assumption) (auto simp: with_token_def)

lemma only_tokens_user: "only_tokens s (h s) \<Longrightarrow> only_tokens s (with_user L C req h s)"
  by (auto simp: with_user_def split_beta)

lemma only_tokens_json: "only_tokens s (h s) \<Longrightarrow> only_tokens s (with_json req h s)"
  by (auto simp: with_json_def split: option.splits)

lemma only_tokens_turned: "turned_away C s out \<Longrightarrow> only_tokens s out"
  by (auto simp: turned_away_def)

lemma catching_same: "(\<And>out. r = Some out \<Longrightarrow> only_tokens s out) \<Longrightarrow> only_tokens s (catching s r)"
  by (auto simp: catching_def split: option.splits)

lemma cross_site_match [simp]:
  "cross_site C (req\<lparr>rq_match := g\<rparr>) = cross_site C req" "holds_token L env (req\<lparr>rq_match := g\<rparr>) s = holds_token L env req s"
  by (simp_all add: cross_site_def holds_token_def sent_token_def get_client_id_def cong: option.case_cong)

lemma only_tokens_handle:
  assumes "cross_site C req" "\<not> holds_token L env req s" "e \<noteq> Upload_Cover"
  shows "only_tokens s (handle K L C env e req s)"
proof (cases e)
  case (Page html auth redirect)
  then show ?thesis by (simp add: getPage_def Let_def only_tokens_user)
next
  case Get_CSRF_Token
  then show ?thesis
    by (simp add: getCSRFToken_def generate_csrf_token_def only_tokens_user Let_def)
next
  case Browse_Directory
  then show ?thesis
    by (auto intro!: only_tokens_user simp: browseDirectory_def Let_def split: option.split)
next
  case Get_Apps
  then show ?thesis
    by (auto intro!: only_tokens_user catching_same simp: getApps_def bind_eq_Some_conv)
next
  case Get_Cover
  then show ?thesis
    by (auto intro!: only_tokens_user catching_same simp: getCover_def bind_eq_Some_conv split: option.splits)
next
  case Save_Password
  then show ?thesis using only_tokens_token [OF assms(1,2)]
    by (auto intro!: only_tokens_json only_tokens_user simp: savePassword_def)
next
  case Asset
  then show ?thesis using only_tokens_turned [OF turned_away_asset] by simp
qed (use assms only_tokens_token [OF assms(1,2)] in
  \<open>simp_all add: user_handlers only_tokens_json only_tokens_user getLocale_def getFaviconImage_def getSunshineLogoImage_def\<close>)

text \<open>
  C15: A request that a browser sends from another site, without a token that was issued to the same client
  within the last hour, changes nothing but the table of tokens, even with the user's password in its
  header; the one exception is the upload of a cover, which does not ask for a token.
\<close>
theorem cross_site_inert:
  assumes "cross_site C req" "\<not> holds_token L env req s" "rq_path req \<noteq> ''/api/covers/upload''"
  shows "\<exists>rs T. serve K L C env req s = Some (rs, s\<lparr>w_csrf_tokens := T\<rparr>)"
proof (cases "find_resource resources (rq_method req) (rq_path req)")
  case None
  then have "only_tokens s (serve K L C env req s)" by (simp add: serve_def)
  then show ?thesis by (simp add: only_tokens_def)
next
  case (Some eg)
  obtain e g where eg: "eg = (e, g)" by (cases eg)
  then have "e \<noteq> Upload_Cover" using Some cover_path assms(3) by auto
  then have "only_tokens s (serve K L C env req s)"
    using only_tokens_handle [of C "req\<lparr>rq_match := g\<rparr>"] assms(1,2) Some eg by (simp add: serve_def)
  then show ?thesis by (simp add: only_tokens_def)
qed

section \<open>Changing the password\<close>

lemma iequals_colon: "iequals u v \<Longrightarrow> CHR '':'' \<in> set u \<longleftrightarrow> CHR '':'' \<in> set v"
proof -
  have c: "to_lower c = CHR '':'' \<longleftrightarrow> c = CHR '':''" for c
    by (cases c) (auto simp: to_lower_code)
  assume "iequals u v"
  then have "set (map to_lower u) = set (map to_lower v)" by (simp add: iequals_def)
  then have "CHR '':'' \<in> to_lower ` set u \<longleftrightarrow> CHR '':'' \<in> to_lower ` set v" by simp
  then show ?thesis using c by (metis (no_types, lifting) image_iff)
qed

lemma iequals_refl [simp]: "iequals u u"
  by (simp add: iequals_def)


section \<open>Assets\<close>

lemma drop_common_split: "drop_common p base = (a, b) \<Longrightarrow> \<exists>c. p = c @ a \<and> base = c @ b"
proof (induction p base arbitrary: a b rule: drop_common.induct)
  case (1 x as y bs)
  show ?case
  proof (cases "x = y")
    case True
    then have "drop_common as bs = (a, b)" using 1(2) by simp
    from 1(1) [OF True this] obtain c where "as = c @ a" "bs = c @ b" by blast
    then show ?thesis using True by (intro exI [of _ "x # c"]) simp
  qed (use 1(2) in auto)
qed auto

definition plain_components :: "string list \<Rightarrow> bool" where
  "plain_components cs \<longleftrightarrow> [] \<notin> set cs \<and> ''.'' \<notin> set cs \<and> ''..'' \<notin> set cs"

lemma sum_list_plain:
  "plain_components b \<Longrightarrow>
   sum_list (map (\<lambda>c. if c = ''..'' then - 1 else if c = [] \<or> c = ''.'' then 0 else 1 :: int) b) = int (length b)"
  by (induction b) (auto simp: plain_components_def)

lemma child_prefix:
  assumes "plain_components base" "lexically_relative p base = c # cs" "c \<noteq> ''..''"
  shows "prefix base p"
proof -
  obtain a b where ab: "drop_common p base = (a, b)" by (cases "drop_common p base")
  obtain pre where pre: "p = pre @ a" "base = pre @ b" using drop_common_split [OF ab] by blast
  have "plain_components b" using assms(1) pre by (simp add: plain_components_def)
  then have "lexically_relative p base = (if b = [] \<and> a = [] then [''.''] else replicate (length b) ''..'' @ a)"
    unfolding lexically_relative_def ab by (simp add: sum_list_plain)
  then have "b = []" using assms(2,3) by (cases b) (auto split: if_splits)
  then show ?thesis using pre by simp
qed


section \<open>The list of applications\<close>

lemma map_of_obj_erase [simp]: "map_of (obj_erase k ms) = (map_of ms)(k := None)"
  by (induction ms) (auto simp: obj_erase_def)

lemma without_empty_obj:
  assumes "without_empty key (J_Obj ms) = Some j"
  shows "\<exists>ms'. j = J_Obj ms' \<and> (\<forall>k. k \<noteq> key \<longrightarrow> map_of ms' k = map_of ms k)"
proof -
  obtain v j' where a: "json_at key (J_Obj ms) = Some (v, j')" "j = (if json_empty v then json_erase key j' else j')"
    using assms by (auto simp: without_empty_def)
  obtain ms1 where "j' = J_Obj ms1" "\<forall>k. k \<noteq> key \<longrightarrow> map_of ms1 k = map_of ms k"
    using a(1) by (auto simp: json_at_def split: option.splits)
  then show ?thesis using a(2) by (auto simp: json_erase_def)
qed

definition placed :: "int \<Rightarrow> json \<Rightarrow> json list \<Rightarrow> json list" where
  "placed index app old =
     (if index = - 1 then old @ [app]
      else if 0 \<le> index \<and> index < int (length old) then old[nat index := app] else old)"

lemma place_app_arr: "place_app index app (J_Arr old) = Some (placed index app old)"
proof (cases "index = - 1")
  case False
  have "map (\<lambda>i. if int i = index then app else old ! i) [0..<length old] = placed index app old"
    using False by (intro nth_equalityI) (auto simp: placed_def nth_list_update)
  then have "those (map (\<lambda>i. Some (if int i = index then app else old ! i)) [0..<length old]) = Some (placed index app old)"
    by simp
  then show ?thesis using False
    by (simp add: place_app_def json_nth_def json_size_def if_distrib [of Some] cong: if_cong)
qed (simp add: place_app_def placed_def)

text \<open>
  An application that is saved ends up in the file: with the index -1 it is added, with the index of
  an application it replaces that one, and the list is sorted by name; but any other index is
  accepted too, and the application is silently lost.
\<close>
theorem saved_apps:
  assumes "save_app_body L C env (J_Obj im) (J_Obj ms) s = Some (Some (rs, s'))"
    and "map_of ms ''apps'' = Some (J_Arr old)" "map_of im ''index'' = Some idx" "json_int idx = Some index"
    and "sorts (wl_sort L)" "\<forall>j. wl_parse L (wl_dump L j) = Some j"
  shows "rs = [R_Json (status_json True)] \<and>
    (\<exists>am ms' ys. (\<forall>k. k \<notin> {''index'', ''prep-cmd'', ''detached''} \<longrightarrow> map_of am k = map_of im k) \<and>
       wl_parse L (w_apps_file s') = Some (J_Obj ms') \<and> map_of ms' = (map_of ms)(''apps'' \<mapsto> J_Arr ys) \<and>
       mset ys = mset (placed index (J_Obj am) old) \<and>
       sorted_wrt (\<lambda>a b. member_text ''name'' a \<le> member_text ''name'' b) ys)"
proof -
  have at: "json_at ''apps'' (J_Obj ms) = Some (J_Arr old, J_Obj ms)" using assms(2) by (simp add: json_at_def)
  from assms(1) obtain i1 i2 i3 v n xs where
    b: "without_empty ''prep-cmd'' (J_Obj im) = Some i1" "without_empty ''detached'' i1 = Some i2"
    "json_at ''index'' i2 = Some (v, i3)" "json_int v = Some n" "place_app n (json_erase ''index'' i3) (J_Arr old) = Some xs"
    and c: "(case check_names xs of
         Names_Throw \<Rightarrow> None
       | Names_Undefined \<Rightarrow> Some None
       | Names_Ok \<Rightarrow> Some (Some ([R_Json (status_json True)],
           write_apps L C env (json_set ''apps'' (J_Arr (wl_sort L name_less xs)) (J_Obj ms)) s))) = Some (Some (rs, s'))"
    unfolding save_app_body_def at by (auto simp: bind_eq_Some_conv simp del: split_paired_Ex)
  from c have r: "rs = [R_Json (status_json True)]"
    "s' = write_apps L C env (json_set ''apps'' (J_Arr (wl_sort L name_less xs)) (J_Obj ms)) s"
    by (cases "check_names xs"; simp)+
  obtain m1 where m1: "i1 = J_Obj m1" "\<forall>k. k \<noteq> ''prep-cmd'' \<longrightarrow> map_of m1 k = map_of im k"
    using without_empty_obj [OF b(1)] by blast
  obtain m2 where m2: "i2 = J_Obj m2" "\<forall>k. k \<noteq> ''detached'' \<longrightarrow> map_of m2 k = map_of m1 k"
    using without_empty_obj [OF b(2) [unfolded m1(1)]] by blast
  have "map_of m2 ''index'' = Some idx" using m1(2) m2(2) assms(3) by simp
  then have i3: "i3 = J_Obj m2" "v = idx" using b(3) m2(1) by (auto simp: json_at_def)
  have xs: "xs = placed index (J_Obj (obj_erase ''index'' m2)) old"
    using b(4,5) assms(4) by (simp add: i3 place_app_arr json_erase_def)
  let ?ys = "wl_sort L name_less xs"
  have sw: "strict_weak_on (set xs) name_less" unfolding name_less_def by (rule strict_weak_key)
  have "mset ?ys = mset xs" "sorted_wrt (\<lambda>a b. member_text ''name'' a \<le> member_text ''name'' b) ?ys"
    using sortsD [OF assms(5) sw] by (simp_all add: name_less_def not_less)
  moreover have "wl_parse L (w_apps_file s') = Some (J_Obj (obj_put ''apps'' (J_Arr ?ys) ms))"
    using assms(6) unfolding r(2) by (simp add: write_apps_def refresh_apps_def json_set_def)
  moreover have "\<forall>k. k \<notin> {''index'', ''prep-cmd'', ''detached''} \<longrightarrow> map_of (obj_erase ''index'' m2) k = map_of im k"
    using m1(2) m2(2) by simp
  ultimately show ?thesis using r(1) unfolding xs [symmetric]
    by (intro conjI exI [of _ "obj_erase ''index'' m2"] exI [of _ "obj_put ''apps'' (J_Arr ?ys) ms"] exI [of _ ?ys])
      (simp_all add: xs)
qed

section \<open>Revoked clients\<close>

lemma terminate_keeps [simp]:
  "h_slots (proc_terminate E h) = h_slots h" "h_running_sessions (proc_terminate E h) = h_running_sessions h"
  "h_launch_event (proc_terminate E h) = h_launch_event h"
  by (simp_all add: proc_terminate_def)

definition same_streams :: "'x web \<Rightarrow> 'x outcome \<Rightarrow> bool" where
  "same_streams s out \<longleftrightarrow>
     (\<forall>rs s'. out = Some (rs, s') \<longrightarrow> h_slots (w_host s') = h_slots (w_host s) \<and>
        h_running_sessions (w_host s') = h_running_sessions (w_host s) \<and> h_launch_event (w_host s') = h_launch_event (w_host s))"

lemma same_streams_user: "same_streams s (h s) \<Longrightarrow> same_streams s (with_user L C req h s)"
  by (auto simp: with_user_def same_streams_def split_beta)

lemma same_streams_json: "same_streams s (h s) \<Longrightarrow> same_streams s (with_json req h s)"
  by (auto simp: with_json_def same_streams_def split: option.splits)

lemma same_streams_catching: "(\<And>out. r = Some out \<Longrightarrow> same_streams s out) \<Longrightarrow> same_streams s (catching s r)"
  by (auto simp: catching_def same_streams_def split: option.splits)

lemma validate_host: "validate_csrf_token C env req c s = (r, s1) \<Longrightarrow> w_host s1 = w_host s"
  by (auto simp: validate_csrf_token_def validate_stored_csrf_token_def Let_def split: option.splits if_splits)

lemma same_streams_token:
  assumes "\<And>s1. w_host s1 = w_host s \<Longrightarrow> same_streams s1 (h s1)"
  shows "same_streams s (with_token L C env req h s)"
proof -
  obtain r s1 where v: "validate_csrf_token C env req (get_client_id L req s) s = (r, s1)"
    by (cases "validate_csrf_token C env req (get_client_id L req s) s")
  show ?thesis using assms [OF validate_host [OF v]] validate_host [OF v]
    by (cases r) (auto simp: with_token_def v same_streams_def)
qed

text \<open>
  Unpairing a client, or all of them, does not touch the sessions: who is streaming goes on, and a
  launch that is pending can still be used.
\<close>
theorem unpaired_streams_on:
  assumes "serve K L C env req s = Some (rs, s')"
    and "rq_path req = ''/api/clients/unpair'' \<or> rq_path req = ''/api/clients/unpair-all''"
  shows "h_slots (w_host s') = h_slots (w_host s) \<and> h_running_sessions (w_host s') = h_running_sessions (w_host s) \<and>
    h_launch_event (w_host s') = h_launch_event (w_host s)"
proof (cases "find_resource resources (rq_method req) (rq_path req)")
  case None
  then show ?thesis using assms(1) by (simp add: serve_def)
next
  case (Some eg)
  obtain e g where eg: "eg = (e, g)" by (cases eg)
  have l: "list_all (\<lambda>(p, m, e). e \<in> {Unpair_Client, Unpair_All} \<or>
      match_path p ''/api/clients/unpair'' = None \<and> match_path p ''/api/clients/unpair-all'' = None) resources"
    by code_simp
  obtain p where p: "(p, rq_method req, e) \<in> set resources" "match_path p (rq_path req) = Some g"
    using find_resource_mem [OF Some [unfolded eg]] by blast
  have "e \<in> {Unpair_Client, Unpair_All} \<or>
      match_path p ''/api/clients/unpair'' = None \<and> match_path p ''/api/clients/unpair-all'' = None"
    using bspec [OF l [unfolded list_all_iff] p(1)] by (simp only: prod.case)
  then have e: "e \<in> {Unpair_Client, Unpair_All}" using assms(2) p(2) by (metis option.distinct(1))
  have "same_streams s (unpair K L C env (req\<lparr>rq_match := g\<rparr>) s)" unfolding unpair_def
    by (intro same_streams_json same_streams_user same_streams_token same_streams_catching)
      (auto simp: same_streams_def with_host_def split_beta Let_def bind_eq_Some_conv split: if_splits)
  moreover have "same_streams s (unpairAll L C env (req\<lparr>rq_match := g\<rparr>) s)" unfolding unpairAll_def
    by (intro same_streams_user same_streams_token) (auto simp: same_streams_def with_host_def)
  ultimately show ?thesis using assms(1) e Some by (auto simp: serve_def eg same_streams_def)
qed

section \<open>A host with a user\<close>

instance json :: countable
  by countable_datatype

definition demo_web_lib :: "(bool \<times> bool) web_lib" where
  "demo_web_lib = \<lparr>wl_io = demo_asio, wl_base64 = id, wl_hash = map char_byte,
     wl_parse = (\<lambda>t. if t = ''c'' then Some (J_Obj [(''data'', J_Str ''x''), (''key'', J_Str ''k'')]) else None),
     wl_dump = (\<lambda>_. []), wl_sort = insertion_sort, wl_escape = id, wl_host = id,
     wl_canonical = (\<lambda>p. if p = ''/w/assets'' then Some [''w'', ''assets'']
        else if p = ''/w/assets/a.js'' then Some [''w'', ''assets'', ''a.js''] else None),
     wl_kind = (\<lambda>_. Some Regular_File), wl_items = (\<lambda>_. []), wl_apps_tree = (\<lambda>_. None),
     wl_files = \<lparr>af_crc32 = (\<lambda>_. 0), af_sha256 = (\<lambda>_. None), af_exists = (\<lambda>_. False), af_content = (\<lambda>_. None),
        af_assets_dir = ''/a''\<rparr>,
     wl_web_dir = ''/w/''\<rparr>"

definition demo_web_conf :: web_conf where
  "demo_web_conf = \<lparr>wc_origin_web_ui_allowed = LAN, wc_csrf_allowed_origins = [''https://localhost''], wc_locale = ''en'',
     wc_log = [], wc_appdata = ''/d'', wc_prep_cmds = [], wc_launch = demo_launch_conf 2,
     wc_nv = \<lparr>cf_fresh_state = False, cf_pin_stdin = False, cf_pkey = [], cf_servercert = []\<rparr>, wc_host = demo_host_env\<rparr>"

definition demo_web_env :: web_env where
  "demo_web_env = \<lparr>we_now = 0, we_token = ''t'', we_salt = ''s'',
     we_nv = \<lparr>e_uuid = (\<lambda>_. []), e_copy = True, e_write = Written, e_json = Tree, e_serversecret = [], e_serverchallenge = [],
        e_stdin = [], e_connection = 0, e_first = []\<rparr>,
     we_write = Written, we_reread = Creds_Tree, we_env_vars = Map.empty, we_download = (\<lambda>_. None), we_reset_ok = True\<rparr>"

definition demo_web :: "unit web" where
  "demo_web = \<lparr>w_username = ''u'', w_password = password_hash demo_web_lib ''ps'', w_salt = ''s'', w_creds = Creds_Missing,
     w_csrf_tokens = Map.empty, w_apps_file = [], w_config_file = [], w_covers = Map.empty, w_nv = nv_start ''i'',
     w_host = start_slot 1 (insert_slot 1 demo_host), w_events = []\<rparr>"

definition demo_web_request :: "string \<Rightarrow> string \<Rightarrow> (string \<times> string) list \<Rightarrow> (bool \<times> bool) request" where
  "demo_web_request method_name path header = \<lparr>rq_method = method_name, rq_path = path, rq_match = [], rq_header = header,
     rq_query = [], rq_content = ''c'', rq_remote = (False, True)\<rparr>"

theorem unauthenticated_inert_witness:
  "\<forall>K. \<exists>rs. serve K demo_web_lib demo_web_conf demo_web_env (demo_web_request ''POST'' ''/api/clients/unpair-all'' []) demo_web =
     Some (rs, demo_web) \<and> (\<forall>r\<in>set rs. harmless demo_web_conf r)"
  by (intro allI unauthenticated_inert) (simp_all add: logged_in_def demo_web_request_def find_arg_def demo_web_def)

text \<open>The one response, when it is JSON or a file.\<close>

definition only_json :: "'x outcome \<Rightarrow> json option" where
  "only_json out = (case out of Some ([R_Json j], _) \<Rightarrow> Some j | _ \<Rightarrow> None)"

definition only_file :: "'x outcome \<Rightarrow> (string \<times> string) option" where
  "only_file out = (case out of Some ([R_File t f], _) \<Rightarrow> Some (t, f) | _ \<Rightarrow> None)"

lemma only_json: "only_json out = Some j \<Longrightarrow> \<exists>s'. out = Some ([R_Json j], s')"
  by (auto simp: only_json_def split: option.splits list.splits response.splits)

lemma only_file: "only_file out = Some (t, f) \<Longrightarrow> \<exists>s'. out = Some ([R_File t f], s')"
  by (auto simp: only_file_def split: option.splits list.splits response.splits)

definition demo_foreign :: "(string \<times> string) list" where
  "demo_foreign = [(''Authorization'', ''Basic u:p''), (''Content-Type'', ''application/json''), (''Origin'', ''https://x'')]"

lemma demo_foreign_site: "cross_site demo_web_conf (demo_web_request m path demo_foreign)"
proof -
  have "List.map_filter (find_arg demo_foreign) [''Origin'', ''Referer''] = [''https://x'']" by code_simp
  moreover have "\<not> is_allowed_origin demo_web_conf ''https://x''" by code_simp
  ultimately show ?thesis by (simp add: cross_site_def demo_web_request_def)
qed

theorem cross_site_inert_witness:
  "\<forall>K. \<exists>rs T. serve K demo_web_lib demo_web_conf demo_web_env (demo_web_request ''POST'' ''/api/restart'' demo_foreign) demo_web =
     Some (rs, demo_web\<lparr>w_csrf_tokens := T\<rparr>)"
  by (intro allI cross_site_inert demo_foreign_site) (simp_all add: holds_token_def demo_web_def demo_web_request_def)

text \<open>
  The upload of a cover asks for no token: a request from another site that a browser sends with
  the user's password writes a file.
\<close>
theorem upload_cross_site:
  "\<exists>L C env req s rs s'. cross_site C req \<and> \<not> holds_token L env req (s :: unit web) \<and>
     rq_path (req :: (bool \<times> bool) request) = ''/api/covers/upload'' \<and>
     (\<forall>K. serve K L C env req s = Some (rs, s')) \<and> w_covers s ''/d/covers/k.png'' = None \<and> w_covers s' ''/d/covers/k.png'' = Some ''x''"
proof -
  let ?req = "demo_web_request ''POST'' ''/api/covers/upload'' demo_foreign"
  obtain rs s' where s': "uploadCover demo_web_lib demo_web_conf demo_web_env (?req\<lparr>rq_match := []\<rparr>) demo_web = Some (rs, s')"
    "w_covers s' ''/d/covers/k.png'' = Some ''x''"
  proof -
    have "(case uploadCover demo_web_lib demo_web_conf demo_web_env (?req\<lparr>rq_match := []\<rparr>) demo_web of
        None \<Rightarrow> None | Some (rs, s') \<Rightarrow> w_covers s' ''/d/covers/k.png'') = Some ''x''"
      by code_simp
    then show ?thesis using that by (auto split: option.splits)
  qed
  have "find_resource resources ''POST'' ''/api/covers/upload'' = Some (Upload_Cover, [])" by code_simp
  then have "\<forall>K. serve K demo_web_lib demo_web_conf demo_web_env ?req demo_web = Some (rs, s')"
    using s'(1) by (simp add: serve_def demo_web_request_def)
  moreover have "\<not> holds_token demo_web_lib demo_web_env ?req demo_web" "w_covers demo_web ''/d/covers/k.png'' = None"
    "rq_path ?req = ''/api/covers/upload''" by (simp_all add: holds_token_def demo_web_def demo_web_request_def)
  ultimately show ?thesis using demo_foreign_site s'(2) by blast
qed



definition demo_dump :: "json \<Rightarrow> string" where
  "demo_dump j = replicate (to_nat j) (CHR ''0'')"

theorem saved_apps_witness:
  "\<exists>rs s' am ms' ys.
     save_app_body (demo_web_lib\<lparr>wl_dump := demo_dump, wl_parse := \<lambda>t. Some (from_nat (length t))\<rparr>) demo_web_conf demo_web_env
       (J_Obj [(''index'', J_Int (- 1)), (''name'', J_Str ''a'')]) (J_Obj [(''apps'', J_Arr [])]) demo_web = Some (Some (rs, s')) \<and>
     from_nat (length (w_apps_file s')) = J_Obj ms' \<and> map_of ms' ''apps'' = Some (J_Arr ys) \<and> ys = [J_Obj am] \<and>
     map_of am ''name'' = Some (J_Str ''a'')"
proof -
  let ?L = "demo_web_lib\<lparr>wl_dump := demo_dump, wl_parse := \<lambda>t. Some (from_nat (length t))\<rparr>"
  let ?im = "[(''index'', J_Int (- 1)), (''name'', J_Str ''a'')]" and ?ms = "[(''apps'', J_Arr [])]"
  have "save_app_body ?L demo_web_conf demo_web_env (J_Obj ?im) (J_Obj ?ms) demo_web \<in> range (\<lambda>x. Some (Some x))"
    by (simp add: save_app_body_def without_empty_def json_at_def json_erase_def obj_erase_def json_empty_def json_int_def
        place_app_def check_names_def to_int32_def)
  then obtain rs s' where r: "save_app_body ?L demo_web_conf demo_web_env (J_Obj ?im) (J_Obj ?ms) demo_web = Some (Some (rs, s'))"
    by auto
  have i: "map_of ?im ''index'' = Some (J_Int (- 1))" "json_int (J_Int (- 1)) = Some (- 1)" "map_of ?ms ''apps'' = Some (J_Arr [])"
    by (simp_all add: json_int_def to_int32_def)
  have w: "sorts (wl_sort ?L)" "\<forall>j. wl_parse ?L (wl_dump ?L j) = Some j"
    using insertion_sort_sorts by (simp_all add: demo_web_lib_def demo_dump_def)
  obtain am ms' ys where a: "\<forall>k. k \<notin> {''index'', ''prep-cmd'', ''detached''} \<longrightarrow> map_of am k = map_of ?im k"
    "wl_parse ?L (w_apps_file s') = Some (J_Obj ms')" "map_of ms' = (map_of ?ms)(''apps'' \<mapsto> J_Arr ys)"
    "mset ys = mset (placed (- 1) (J_Obj am) [])"
    using conjunct2 [OF saved_apps [OF r i(3) i(1,2) w]] by (elim exE conjE) (rule that)
  have "ys = [J_Obj am]" using a(4) by (simp add: placed_def)
  then show ?thesis using r a(1-3) by (intro exI [of _ rs] exI [of _ s'] exI [of _ am] exI [of _ ms'] exI [of _ ys]) simp
qed

theorem unpaired_streams_on_witness:
  "\<forall>K. \<exists>rs s'. serve K demo_web_lib demo_web_conf demo_web_env
      (demo_web_request ''POST'' ''/api/clients/unpair-all'' [(''Authorization'', ''Basic u:p'')]) demo_web = Some (rs, s') \<and>
    rs = [R_Json (status_json True)] \<and> h_slots (w_host s') = [(1, RUNNING)]"
proof
  fix K :: "unit crypto"
  let ?req = "demo_web_request ''POST'' ''/api/clients/unpair-all'' [(''Authorization'', ''Basic u:p'')]"
  have f: "find_resource resources ''POST'' ''/api/clients/unpair-all'' = Some (Unpair_All, [])" by code_simp
  have "only_json (unpairAll demo_web_lib demo_web_conf demo_web_env (?req\<lparr>rq_match := []\<rparr>) demo_web) =
      Some (status_json True)" by code_simp
  from only_json [OF this] obtain s' where s': "serve K demo_web_lib demo_web_conf demo_web_env ?req demo_web = Some ([R_Json (status_json True)], s')"
    using f by (auto simp: serve_def demo_web_request_def)
  have "h_slots (w_host demo_web) = [(1, RUNNING)]"
    by (simp add: demo_web_def start_slot_def set_slot_def insert_slot_def demo_host_def new_host_def Let_def)
  then show "\<exists>rs s'. serve K demo_web_lib demo_web_conf demo_web_env ?req demo_web = Some (rs, s') \<and>
      rs = [R_Json (status_json True)] \<and> h_slots (w_host s') = [(1, RUNNING)]"
    using unpaired_streams_on [OF s'] s' by (simp add: demo_web_request_def)
qed

end
