(* ===== verification/Colorspace.thy ===== *)
theory Colorspace
  imports Rtsp_Commands Complex_Main
begin

text \<open>
  \<^verbatim>\<open>src/src/video_colorspace.cpp\<close>: the colour space a client gets, its names in the encoder, and the
  table of vectors that take RGB to YUV. Floating point is exact arithmetic with a rounding after
  each operation: \<open>rd\<close> rounds to \<^verbatim>\<open>double\<close> and \<open>rf\<close> to \<^verbatim>\<open>float\<close>.
\<close>

datatype colorspace_e = Rec601 | Rec709 | Bt2020sdr | Bt2020

record sunshine_colorspace_t =
  cs_colorspace :: colorspace_e
  cs_full_range :: bool
  cs_bit_depth :: nat

definition colorspace_is_hdr :: "sunshine_colorspace_t \<Rightarrow> bool" where
  "colorspace_is_hdr c \<longleftrightarrow> cs_colorspace c = Bt2020"

definition colorspace_from_client_config :: "monitor_config \<Rightarrow> bool \<Rightarrow> sunshine_colorspace_t" where
  "colorspace_from_client_config config hdr_display =
     (let cs = (if vc_dynamicRange config > 0 \<and> hdr_display then Bt2020
                else if vc_encoderCscMode config div 2 = 0 then Rec601
                else if vc_encoderCscMode config div 2 = 1 then Rec709
                else if vc_encoderCscMode config div 2 = 2 then Bt2020sdr
                else Rec709);
          full_range = (vc_encoderCscMode config mod 2 \<noteq> 0);
          bit_depth = (if vc_dynamicRange config = 0 then 8 else 10)
      in \<lparr>cs_colorspace = (if cs = Bt2020sdr \<and> bit_depth \<noteq> 10 then Rec709 else cs),
          cs_full_range = full_range, cs_bit_depth = bit_depth\<rparr>)"

section \<open>The names of the encoder library\<close>

datatype av_primaries = PRI_SMPTE170M | PRI_BT709 | PRI_BT2020
datatype av_transfer = TRC_SMPTE170M | TRC_BT709 | TRC_BT2020_10 | TRC_SMPTE2084
datatype av_matrix = SPC_SMPTE170M | SPC_BT709 | SPC_BT2020_NCL
datatype av_range = RANGE_JPEG | RANGE_MPEG
datatype sws_format = CS_SMPTE170M | CS_ITU709 | CS_BT2020

record avcodec_colorspace_t =
  ac_primaries :: av_primaries
  ac_transfer_function :: av_transfer
  ac_matrix :: av_matrix
  ac_range :: av_range
  ac_software_format :: sws_format

text \<open>\<open>None\<close> where an assertion of the code fails.\<close>

definition avcodec_colorspace_from_sunshine_colorspace ::
    "sunshine_colorspace_t \<Rightarrow> avcodec_colorspace_t option" where
  "avcodec_colorspace_from_sunshine_colorspace c =
     (let range = (if cs_full_range c then RANGE_JPEG else RANGE_MPEG) in
      case cs_colorspace c of
        Rec601 \<Rightarrow> Some \<lparr>ac_primaries = PRI_SMPTE170M, ac_transfer_function = TRC_SMPTE170M,
          ac_matrix = SPC_SMPTE170M, ac_range = range, ac_software_format = CS_SMPTE170M\<rparr>
      | Rec709 \<Rightarrow> Some \<lparr>ac_primaries = PRI_BT709, ac_transfer_function = TRC_BT709,
          ac_matrix = SPC_BT709, ac_range = range, ac_software_format = CS_ITU709\<rparr>
      | Bt2020sdr \<Rightarrow> if cs_bit_depth c \<noteq> 10 then None
          else Some \<lparr>ac_primaries = PRI_BT2020, ac_transfer_function = TRC_BT2020_10,
          ac_matrix = SPC_BT2020_NCL, ac_range = range, ac_software_format = CS_BT2020\<rparr>
      | Bt2020 \<Rightarrow> if cs_bit_depth c \<noteq> 10 then None
          else Some \<lparr>ac_primaries = PRI_BT2020, ac_transfer_function = TRC_SMPTE2084,
          ac_matrix = SPC_BT2020_NCL, ac_range = range, ac_software_format = CS_BT2020\<rparr>)"

section \<open>The vectors\<close>

record color_t =
  color_vec_y :: "rat list"
  color_vec_u :: "rat list"
  color_vec_v :: "rat list"
  color_range_y :: "rat list"
  color_range_uv :: "rat list"

definition luma_weights :: "(rat \<Rightarrow> rat) \<Rightarrow> colorspace_e \<Rightarrow> rat \<times> rat" where
  "luma_weights rd cs =
     (case cs of
        Rec601 \<Rightarrow> (rd (299 / 1000), rd (114 / 1000))
      | Rec709 \<Rightarrow> (rd (2126 / 10000), rd (722 / 10000))
      | Bt2020 \<Rightarrow> (rd (2627 / 10000), rd (593 / 10000))
      | Bt2020sdr \<Rightarrow> (rd (2627 / 10000), rd (593 / 10000)))"

text \<open>The multipliers and offsets of luma and chroma, before and after the choice of the output.\<close>

definition code_range :: "sunshine_colorspace_t \<Rightarrow> rat \<times> rat \<times> rat \<times> rat" where
  "code_range c =
     (if cs_full_range c
      then (2 ^ cs_bit_depth c - 1, 0, 2 ^ cs_bit_depth c - 1, 2 ^ (cs_bit_depth c - 1))
      else (2 ^ (cs_bit_depth c - 8) * 219, 2 ^ (cs_bit_depth c - 8) * 16,
            2 ^ (cs_bit_depth c - 8) * 224, 2 ^ (cs_bit_depth c - 8) * 128))"

definition output_range ::
    "(rat \<Rightarrow> rat) \<Rightarrow> sunshine_colorspace_t \<Rightarrow> bool \<Rightarrow> rat \<times> rat \<times> rat \<times> rat" where
  "output_range rd c unorm_output =
     (let (y_mult, y_add, uv_mult, uv_add) = code_range c;
          unorm_range = 2 ^ cs_bit_depth c - 1
      in if unorm_output
         then (rd (y_mult / unorm_range), rd (y_add / unorm_range),
               rd (uv_mult / unorm_range), rd (uv_add / unorm_range))
         else (y_mult, rd (y_add + 1 / 2), uv_mult, rd (uv_add + 1 / 2)))"

definition generate_color_vectors ::
    "(rat \<Rightarrow> rat) \<Rightarrow> (rat \<Rightarrow> rat) \<Rightarrow> sunshine_colorspace_t \<Rightarrow> bool \<Rightarrow> color_t" where
  "generate_color_vectors rd rf c unorm_output =
     (let (Kr, Kb) = luma_weights rd (cs_colorspace c);
          Kg = rd (rd (1 - Kr) - Kb);
          (y_mult, y_add, uv_mult, uv_add) = output_range rd c unorm_output
      in \<lparr>color_vec_y = [rf (rd (Kr * y_mult)), rf (rd (Kg * y_mult)), rf (rd (Kb * y_mult)), rf y_add],
          color_vec_u = [rf (rd (rd (rd (- (1 / 2) * Kr) / rd (1 - Kb)) * uv_mult)),
                         rf (rd (rd (rd (- (1 / 2) * Kg) / rd (1 - Kb)) * uv_mult)),
                         rf (rd (1 / 2 * uv_mult)), rf uv_add],
          color_vec_v = [rf (rd (1 / 2 * uv_mult)),
                         rf (rd (rd (rd (- (1 / 2) * Kg) / rd (1 - Kr)) * uv_mult)),
                         rf (rd (rd (rd (- (1 / 2) * Kb) / rd (1 - Kr)) * uv_mult)), rf uv_add],
          color_range_y = [1, 0], color_range_uv = [1, 0]\<rparr>)"

text \<open>The table, in the order of the code: output, colour space, depth, range.\<close>

definition listed_spaces :: "sunshine_colorspace_t list" where
  "listed_spaces =
     [\<lparr>cs_colorspace = Rec601, cs_full_range = False, cs_bit_depth = 8\<rparr>,
      \<lparr>cs_colorspace = Rec601, cs_full_range = True, cs_bit_depth = 8\<rparr>,
      \<lparr>cs_colorspace = Rec601, cs_full_range = False, cs_bit_depth = 10\<rparr>,
      \<lparr>cs_colorspace = Rec601, cs_full_range = True, cs_bit_depth = 10\<rparr>,
      \<lparr>cs_colorspace = Rec709, cs_full_range = False, cs_bit_depth = 8\<rparr>,
      \<lparr>cs_colorspace = Rec709, cs_full_range = True, cs_bit_depth = 8\<rparr>,
      \<lparr>cs_colorspace = Rec709, cs_full_range = False, cs_bit_depth = 10\<rparr>,
      \<lparr>cs_colorspace = Rec709, cs_full_range = True, cs_bit_depth = 10\<rparr>,
      \<lparr>cs_colorspace = Bt2020, cs_full_range = False, cs_bit_depth = 8\<rparr>,
      \<lparr>cs_colorspace = Bt2020, cs_full_range = True, cs_bit_depth = 8\<rparr>,
      \<lparr>cs_colorspace = Bt2020, cs_full_range = False, cs_bit_depth = 10\<rparr>,
      \<lparr>cs_colorspace = Bt2020, cs_full_range = True, cs_bit_depth = 10\<rparr>]"

definition color_table :: "(rat \<Rightarrow> rat) \<Rightarrow> (rat \<Rightarrow> rat) \<Rightarrow> color_t list" where
  "color_table rd rf =
     map (\<lambda>c. generate_color_vectors rd rf c False) listed_spaces @
     map (\<lambda>c. generate_color_vectors rd rf c True) listed_spaces"

definition color_index :: "sunshine_colorspace_t \<Rightarrow> bool \<Rightarrow> nat" where
  "color_index c unorm_output =
     (case cs_colorspace c of Rec601 \<Rightarrow> 0 | Rec709 \<Rightarrow> 4 | Bt2020 \<Rightarrow> 8 | Bt2020sdr \<Rightarrow> 8)
     + (if cs_bit_depth c = 10 then 2 else 0)
     + (if cs_full_range c then 1 else 0)
     + (if unorm_output then 12 else 0)"

definition color_vectors_from_colorspace ::
    "(rat \<Rightarrow> rat) \<Rightarrow> (rat \<Rightarrow> rat) \<Rightarrow> sunshine_colorspace_t \<Rightarrow> bool \<Rightarrow> color_t" where
  "color_vectors_from_colorspace rd rf c unorm_output = color_table rd rf ! color_index c unorm_output"

section \<open>What the vectors do\<close>

lemma client_depth: "cs_bit_depth (colorspace_from_client_config config h) \<in> {8, 10}"
  by (simp add: colorspace_from_client_config_def Let_def)

text \<open>The colour space of a client always has names in the encoder, so no assertion fails.\<close>

lemma client_colorspace_named:
  "avcodec_colorspace_from_sunshine_colorspace (colorspace_from_client_config config hdr_display) \<noteq> None
   \<and> colorspace_is_hdr (colorspace_from_client_config config hdr_display)
       = (vc_dynamicRange config > 0 \<and> hdr_display)"
  by (simp add: colorspace_from_client_config_def avcodec_colorspace_from_sunshine_colorspace_def
      colorspace_is_hdr_def Let_def)

lemma color_index_less: "color_index c u < 24"
  by (simp add: color_index_def split: colorspace_e.split)

text \<open>The entry that is looked up is the one that would be generated for the colour space.\<close>

lemma color_table_entry:
  assumes "cs_bit_depth c = 8 \<or> cs_bit_depth c = 10"
  shows "color_vectors_from_colorspace rd rf c unorm_output = generate_color_vectors rd rf c unorm_output"
proof -
  obtain s r d where c: "c = \<lparr>cs_colorspace = s, cs_full_range = r, cs_bit_depth = d\<rparr>"
    by (cases c) simp
  have d: "d = 8 \<or> d = 10" using assms c by simp
  have "generate_color_vectors rd rf (c\<lparr>cs_colorspace := Bt2020sdr\<rparr>) unorm_output =
        generate_color_vectors rd rf (c\<lparr>cs_colorspace := Bt2020\<rparr>) unorm_output"
    by (simp add: generate_color_vectors_def luma_weights_def output_range_def code_range_def)
  then show ?thesis using d
    unfolding c color_vectors_from_colorspace_def color_table_def listed_spaces_def color_index_def
    by (cases s; cases r; cases unorm_output; elim disjE) simp_all
qed

text \<open>The shaders add the products of the first three components to the last one.\<close>

definition color_component :: "rat list \<Rightarrow> rat \<times> rat \<times> rat \<Rightarrow> rat" where
  "color_component v p = (case p of (r, g, b) \<Rightarrow> v ! 0 * r + v ! 1 * g + v ! 2 * b + v ! 3)"

lemma mix_bounds:
  assumes "0 \<le> a" "0 \<le> b" "a + b \<le> (1::rat)" "0 \<le> x" "x \<le> 1" "0 \<le> y" "y \<le> 1"
  shows "0 \<le> a * x + b * y" "a * x + b * y \<le> a + b"
proof -
  have "a * x \<le> a" "b * y \<le> b" using assms by (simp_all add: mult_left_le)
  then show "a * x + b * y \<le> a + b" by simp
  show "0 \<le> a * x + b * y" using assms by simp
qed

text \<open>
  With exact arithmetic, the code values of a limited range stay inside it: luma from 16 to 235 and
  chroma from 16 to 240 at eight bits, and four times that at ten.
\<close>

theorem limited_range_kept:
  assumes c: "cs_bit_depth c = 8 \<or> cs_bit_depth c = 10" "\<not> cs_full_range c"
    and rgb: "0 \<le> r" "r \<le> 1" "0 \<le> g" "g \<le> 1" "0 \<le> b" "b \<le> 1"
  defines "v \<equiv> color_vectors_from_colorspace id id c False"
    and "k \<equiv> 2 ^ (cs_bit_depth c - 8)"
  shows "color_component (color_vec_y v) (r, g, b) - 1 / 2 \<in> {16 * k..235 * k} \<and>
    color_component (color_vec_u v) (r, g, b) - 1 / 2 \<in> {16 * k..240 * k} \<and>
    color_component (color_vec_v v) (r, g, b) - 1 / 2 \<in> {16 * k..240 * k}"
proof -
  have v: "v = generate_color_vectors id id c False"
    unfolding v_def by (rule color_table_entry [OF c(1)])
  note d = generate_color_vectors_def luma_weights_def output_range_def code_range_def
    color_component_def k_def
  have "color_component (color_vec_y v) (r, g, b) - 1 / 2 \<in> {16 * k..235 * k}"
    unfolding v using c rgb by (cases "cs_colorspace c"; elim disjE) (simp_all add: d)
  moreover have "color_component (color_vec_u v) (r, g, b) - 1 / 2 \<in> {16 * k..240 * k}"
    unfolding v using c rgb by (cases "cs_colorspace c"; elim disjE) (simp_all add: d)
  moreover have "color_component (color_vec_v v) (r, g, b) - 1 / 2 \<in> {16 * k..240 * k}"
    unfolding v using c rgb by (cases "cs_colorspace c"; elim disjE) (simp_all add: d)
  ultimately show ?thesis by blast
qed

theorem grey_neutral:
  assumes c: "cs_bit_depth c = 8 \<or> cs_bit_depth c = 10"
    and v0: "v = color_vectors_from_colorspace id id c unorm_output"
  shows "color_component (color_vec_u v) (x, x, x) = color_component (color_vec_u v) (0, 0, 0) \<and>
    color_component (color_vec_v v) (x, x, x) = color_component (color_vec_v v) (0, 0, 0)"
proof -
  have v: "v = generate_color_vectors id id c unorm_output"
    unfolding v0 by (rule color_table_entry [OF c])
  show ?thesis unfolding v
    by (cases "cs_colorspace c")
      (simp_all add: generate_color_vectors_def luma_weights_def color_component_def
        split: prod.splits)
qed

end
