(* ===== verification/Display_Device.thy ===== *)
theory Display_Device
  imports Json
begin

text \<open>
  \<^verbatim>\<open>src/src/display_device.cpp\<close>: how the options of the configuration and the request of the client
  become the configuration of a display, the jobs that apply and revert it, and the audio context
  that is kept while a display is off. The settings manager and the scheduler that retries a job are
  a library: the calls into them are recorded as values, and the jobs are functions of its answers.
\<close>

section \<open>Numbers in the options\<close>

text \<open>
  \<open>std::stoul\<close> with an \<open>unsigned long\<close> of 64 bits; \<open>None\<close> where it throws, without a digit or out of
  range.
\<close>

definition stoul :: "string \<Rightarrow> nat option" where
  "stoul str =
     (let t = dropWhile isspace str; neg = (take 1 t = ''-'');
          digits = takeWhile isdigit (if neg \<or> take 1 t = ''+'' then drop 1 t else t);
          n = nat (dec_value digits)
      in if digits = [] \<or> 2 ^ 64 \<le> n then None
         else Some (if neg then (2 ^ 64 - n) mod 2 ^ 64 else n))"

definition stou :: "string \<Rightarrow> 32 word option" where
  "stou str = (case stoul str of None \<Rightarrow> None
     | Some n \<Rightarrow> if 2 ^ 32 - 1 < n then None else Some (word_of_nat n))"

record resolution_t =
  res_width :: "32 word"
  res_height :: "32 word"

record rational_t =
  rat_numerator :: "32 word"
  rat_denominator :: "32 word"

text \<open>The two regular expressions; the groups are the longest runs of digits.\<close>

definition match_resolution :: "string \<Rightarrow> (string \<times> string) option" where
  "match_resolution str =
     (let a = takeWhile isdigit str in
      case dropWhile isdigit str of
        x # b \<Rightarrow> if a \<noteq> [] \<and> x = CHR ''x'' \<and> b \<noteq> [] \<and> list_all isdigit b then Some (a, b) else None
      | [] \<Rightarrow> None)"

definition match_refresh_rate :: "bool \<Rightarrow> string \<Rightarrow> (string \<times> string option) option" where
  "match_refresh_rate allow_decimal_point str =
     (let a = takeWhile isdigit str in
      if a = [] then None
      else case dropWhile isdigit str of
        [] \<Rightarrow> Some (a, None)
      | x # b \<Rightarrow> if allow_decimal_point \<and> x = CHR ''.'' \<and> b \<noteq> [] \<and> list_all isdigit b
                then Some (a, Some b) else None)"

text \<open>
  The readers leave what the output holds when they fail: they take it and return it with their
  result. \<open>big\<close> is what the conversion of \<open>10 ^ n\<close> to \<open>unsigned int\<close> gives where it does not fit,
  which the language does not define.
\<close>

definition parse_resolution_string :: "string \<Rightarrow> resolution_t option \<Rightarrow> bool \<times> resolution_t option" where
  "parse_resolution_string input out =
     (let trimmed_input = trim_space input in
      case match_resolution trimmed_input of
        Some (a, b) \<Rightarrow>
          (case (stou a, stou b) of
             (Some w, Some h) \<Rightarrow> (True, Some \<lparr>res_width = w, res_height = h\<rparr>)
           | _ \<Rightarrow> (False, out))
      | None \<Rightarrow> if trimmed_input = [] then (True, None) else (False, out))"

definition is_zero :: "char \<Rightarrow> bool" where
  "is_zero character \<longleftrightarrow> character = CHR ''0''"

definition trim_right_if :: "(char \<Rightarrow> bool) \<Rightarrow> string \<Rightarrow> string" where
  "trim_right_if p s = rev (dropWhile p (rev s))"

definition pow10 :: "(nat \<Rightarrow> 32 word) \<Rightarrow> nat \<Rightarrow> 32 word" where
  "pow10 big n = (if n \<le> 9 then word_of_nat (10 ^ n) else big n)"

definition rate_of_match :: "(nat \<Rightarrow> 32 word) \<Rightarrow> string \<Rightarrow> string option \<Rightarrow> rational_t option" where
  "rate_of_match big match1 match2 =
     (let m1 = dropWhile is_zero match1;
          trimmed_match_1 = (if m1 = [] then ''0'' else m1);
          trimmed_match_2 = (case match2 of Some m \<Rightarrow> trim_right_if is_zero m | None \<Rightarrow> [])
      in if trimmed_match_2 \<noteq> []
         then (case stou (trimmed_match_1 @ trimmed_match_2) of
                 Some numerator \<Rightarrow> Some \<lparr>rat_numerator = numerator,
                   rat_denominator = pow10 big (length trimmed_match_2)\<rparr>
               | None \<Rightarrow> None)
         else (case stou trimmed_match_1 of
                 Some n \<Rightarrow> Some \<lparr>rat_numerator = n, rat_denominator = 1\<rparr>
               | None \<Rightarrow> None))"

definition parse_refresh_rate_string ::
    "(nat \<Rightarrow> 32 word) \<Rightarrow> bool \<Rightarrow> string \<Rightarrow> rational_t option \<Rightarrow> bool \<times> rational_t option" where
  "parse_refresh_rate_string big allow_decimal_point input out =
     (let trimmed_input = trim_space input in
      case match_refresh_rate allow_decimal_point trimmed_input of
        Some (m1, m2) \<Rightarrow>
          (case rate_of_match big m1 m2 of Some r \<Rightarrow> (True, Some r) | None \<Rightarrow> (False, out))
      | None \<Rightarrow> if trimmed_input = [] then (True, None) else (False, out))"

section \<open>The configuration of a display\<close>

datatype device_preparation = VerifyOnly | EnsureActive | EnsurePrimary | EnsureOnlyDisplay
datatype hdr_state = Hdr_Enabled | Hdr_Disabled

record single_display =
  m_device_id :: string
  m_device_prep :: device_preparation
  m_resolution :: "resolution_t option"
  m_refresh_rate :: "rational_t option"
  m_hdr_state :: "hdr_state option"

definition parse_device_prep_option :: "video_t \<Rightarrow> device_preparation option" where
  "parse_device_prep_option video_config =
     (case dd_configuration_option (v_dd video_config) of
        CO_verify_only \<Rightarrow> Some VerifyOnly
      | CO_ensure_active \<Rightarrow> Some EnsureActive
      | CO_ensure_primary \<Rightarrow> Some EnsurePrimary
      | CO_ensure_only_display \<Rightarrow> Some EnsureOnlyDisplay
      | CO_disabled \<Rightarrow> None)"

definition parse_resolution_option ::
    "video_t \<Rightarrow> launch_session \<Rightarrow> single_display \<Rightarrow> bool \<times> single_display" where
  "parse_resolution_option video_config session config =
     (case dd_resolution_option (v_dd video_config) of
        RO_automatic \<Rightarrow>
          if \<not> ls_enable_sops session then (True, config)
          else if ls_width session \<ge> 0 \<and> ls_height session \<ge> 0 then
            (True, config\<lparr>m_resolution := Some \<lparr>res_width = word_of_int (ls_width session),
                                               res_height = word_of_int (ls_height session)\<rparr>\<rparr>)
          else (False, config)
      | RO_manual \<Rightarrow>
          if \<not> ls_enable_sops session then (True, config)
          else (let (ok, r) = parse_resolution_string (dd_manual_resolution (v_dd video_config))
                                (m_resolution config)
                in (ok \<and> r \<noteq> None, config\<lparr>m_resolution := r\<rparr>))
      | RO_disabled \<Rightarrow> (True, config))"

definition parse_refresh_rate_option ::
    "(nat \<Rightarrow> 32 word) \<Rightarrow> video_t \<Rightarrow> launch_session \<Rightarrow> single_display \<Rightarrow> bool \<times> single_display" where
  "parse_refresh_rate_option big video_config session config =
     (case dd_refresh_rate_option (v_dd video_config) of
        RR_automatic \<Rightarrow>
          if ls_fps session \<ge> 0 then
            (True, config\<lparr>m_refresh_rate := Some \<lparr>rat_numerator = word_of_int (ls_fps session),
                                                 rat_denominator = 1\<rparr>\<rparr>)
          else (False, config)
      | RR_manual \<Rightarrow>
          (let (ok, r) = parse_refresh_rate_string big True
                           (dd_manual_refresh_rate (v_dd video_config)) (m_refresh_rate config)
           in (ok \<and> r \<noteq> None, config\<lparr>m_refresh_rate := r\<rparr>))
      | RR_disabled \<Rightarrow> (True, config))"

definition parse_hdr_option :: "video_t \<Rightarrow> launch_session \<Rightarrow> hdr_state option" where
  "parse_hdr_option video_config session =
     (case dd_hdr_option (v_dd video_config) of
        HO_automatic \<Rightarrow> Some (if ls_enable_hdr session then Hdr_Enabled else Hdr_Disabled)
      | HO_disabled \<Rightarrow> None)"

section \<open>Remapping the mode\<close>

datatype remapping_type_e = Map_Mixed | Map_Resolution | Map_Refresh_Rate

definition determine_remapping_type :: "video_t \<Rightarrow> remapping_type_e option" where
  "determine_remapping_type video_config =
     (let auto_resolution = (dd_resolution_option (v_dd video_config) = RO_automatic);
          auto_refresh_rate = (dd_refresh_rate_option (v_dd video_config) = RR_automatic)
      in if auto_resolution \<and> auto_refresh_rate then Some Map_Mixed
         else if auto_resolution then Some Map_Resolution
         else if auto_refresh_rate then Some Map_Refresh_Rate
         else None)"

record parsed_remapping_entry_t =
  pe_requested_resolution :: "resolution_t option"
  pe_requested_fps :: "rational_t option"
  pe_final_resolution :: "resolution_t option"
  pe_final_refresh_rate :: "rational_t option"

definition is_resolution_mapped :: "remapping_type_e \<Rightarrow> bool" where
  "is_resolution_mapped type \<longleftrightarrow> type = Map_Resolution \<or> type = Map_Mixed"

definition is_fps_mapped :: "remapping_type_e \<Rightarrow> bool" where
  "is_fps_mapped type \<longleftrightarrow> type = Map_Refresh_Rate \<or> type = Map_Mixed"

definition parse_remapping_entry ::
    "(nat \<Rightarrow> 32 word) \<Rightarrow> mode_remapping_entry_t \<Rightarrow> remapping_type_e \<Rightarrow> parsed_remapping_entry_t option" where
  "parse_remapping_entry big entry type =
     (let (ok1, rr) = (if is_resolution_mapped type
                       then parse_resolution_string (requested_resolution entry) None else (True, None));
          (ok2, fr) = (if is_resolution_mapped type
                       then parse_resolution_string (final_resolution entry) None else (True, None));
          (ok3, rf) = (if is_fps_mapped type
                       then parse_refresh_rate_string big False (requested_fps entry) None else (True, None));
          (ok4, ff) = (if is_fps_mapped type
                       then parse_refresh_rate_string big True (final_refresh_rate entry) None else (True, None))
      in if ok1 \<and> ok2 \<and> ok3 \<and> ok4
         then Some \<lparr>pe_requested_resolution = rr, pe_requested_fps = rf,
                    pe_final_resolution = fr, pe_final_refresh_rate = ff\<rparr>
         else None)"

definition final_mode :: "parsed_remapping_entry_t \<Rightarrow> single_display \<Rightarrow> single_display" where
  "final_mode e config =
     (let c1 = (case pe_final_resolution e of Some r \<Rightarrow> config\<lparr>m_resolution := Some r\<rparr> | None \<Rightarrow> config)
      in case pe_final_refresh_rate e of Some r \<Rightarrow> c1\<lparr>m_refresh_rate := Some r\<rparr> | None \<Rightarrow> c1)"

fun remap_entries ::
    "(nat \<Rightarrow> 32 word) \<Rightarrow> remapping_type_e \<Rightarrow> launch_session \<Rightarrow> mode_remapping_entry_t list \<Rightarrow>
     single_display \<Rightarrow> bool \<times> single_display" where
  "remap_entries big type session [] config = (True, config)"
| "remap_entries big type session (entry # entries) config =
     (case parse_remapping_entry big entry type of
        None \<Rightarrow> (False, config)
      | Some e \<Rightarrow>
          if pe_final_resolution e = None \<and> pe_final_refresh_rate e = None then (False, config)
          else if \<not> ls_enable_sops session \<and>
                  (pe_requested_resolution e \<noteq> None \<or> pe_final_resolution e \<noteq> None)
          then remap_entries big type session entries config
          else if pe_requested_resolution e \<noteq> None \<and> pe_requested_resolution e \<noteq> m_resolution config
          then remap_entries big type session entries config
          else if pe_requested_fps e \<noteq> None \<and> pe_requested_fps e \<noteq> m_refresh_rate config
          then remap_entries big type session entries config
          else (True, final_mode e config))"

definition remapping_list :: "video_t \<Rightarrow> remapping_type_e \<Rightarrow> mode_remapping_entry_t list" where
  "remapping_list video_config type =
     (case type of
        Map_Resolution \<Rightarrow> resolution_only (dd_mode_remapping (v_dd video_config))
      | Map_Refresh_Rate \<Rightarrow> refresh_rate_only (dd_mode_remapping (v_dd video_config))
      | Map_Mixed \<Rightarrow> mixed (dd_mode_remapping (v_dd video_config)))"

definition remap_display_mode_if_needed ::
    "(nat \<Rightarrow> 32 word) \<Rightarrow> video_t \<Rightarrow> launch_session \<Rightarrow> single_display \<Rightarrow> bool \<times> single_display" where
  "remap_display_mode_if_needed big video_config session config =
     (case determine_remapping_type video_config of
        None \<Rightarrow> (True, config)
      | Some type \<Rightarrow> remap_entries big type session (remapping_list video_config type) config)"

datatype parsed_display = Failed_To_Parse | Configuration_Disabled | Parsed single_display

definition parse_configuration ::
    "(nat \<Rightarrow> 32 word) \<Rightarrow> video_t \<Rightarrow> launch_session \<Rightarrow> parsed_display" where
  "parse_configuration big video_config session =
     (case parse_device_prep_option video_config of
        None \<Rightarrow> Configuration_Disabled
      | Some device_prep \<Rightarrow>
          let config = \<lparr>m_device_id = v_output_name video_config, m_device_prep = device_prep,
                        m_resolution = None, m_refresh_rate = None,
                        m_hdr_state = parse_hdr_option video_config session\<rparr>;
              (ok1, c1) = parse_resolution_option video_config session config
          in if \<not> ok1 then Failed_To_Parse
             else let (ok2, c2) = parse_refresh_rate_option big video_config session c1
             in if \<not> ok2 then Failed_To_Parse
             else let (ok3, c3) = remap_display_mode_if_needed big video_config session c2
             in if \<not> ok3 then Failed_To_Parse else Parsed c3)"

section \<open>The jobs given to the scheduler\<close>

text \<open>
  A run of the job that reverts the settings, on what the settings manager answers: the devices it
  finds and the result of \<open>revertSettings\<close>. It says whether \<open>revertSettings\<close> was called, whether the
  job is over, and with which devices it was tried last.
\<close>

datatype revert_result = Revert_Ok | Revert_Unavailable | Revert_Failed
datatype apply_result = Apply_Unavailable | Apply_Done

record revert_run =
  rr_called :: bool
  rr_stop :: bool
  rr_tried_out :: "string set"

definition device_names :: "(string \<times> string) list \<Rightarrow> string set" where
  "device_names devices = set (map (\<lambda>(device_id, friendly_name). device_id @ '' - '' @ friendly_name) devices)"

definition revert_job ::
    "bool \<Rightarrow> (string \<times> string) list \<Rightarrow> revert_result \<Rightarrow> string set \<Rightarrow> revert_run" where
  "revert_job try_once devices result tried_out_devices =
     (if try_once then \<lparr>rr_called = True, rr_stop = True, rr_tried_out = tried_out_devices\<rparr>
      else if device_names devices = tried_out_devices then
        \<lparr>rr_called = False, rr_stop = False, rr_tried_out = tried_out_devices\<rparr>
      else case result of
        Revert_Ok \<Rightarrow> \<lparr>rr_called = True, rr_stop = True, rr_tried_out = tried_out_devices\<rparr>
      | Revert_Unavailable \<Rightarrow> \<lparr>rr_called = True, rr_stop = False, rr_tried_out = tried_out_devices\<rparr>
      | Revert_Failed \<Rightarrow> \<lparr>rr_called = True, rr_stop = False, rr_tried_out = device_names devices\<rparr>)"

definition apply_job :: "apply_result \<Rightarrow> bool" where
  "apply_job result \<longleftrightarrow> result \<noteq> Apply_Unavailable"

section \<open>The settings manager\<close>

text \<open>
  \<open>DD_DATA\<close>: the delay of a revert, in milliseconds, and whether there is a settings manager. The
  calls into its scheduler are kept in order: the job, the times it sleeps between runs (the last one
  for ever), and whether the first run is put off as well.
\<close>

datatype dd_call =
  DD_Revert bool "int list" bool
| DD_Apply single_display "int list"
| DD_Enumerate
| DD_Display_Name string
| DD_Reset_Persistence
| DD_Create
| DD_Destroy

record dd_data =
  dd_delay :: int
  dd_instance :: bool
  dd_calls :: "dd_call list"

datatype revert_option_e = Try_Once | Try_Indefinitely | Try_Indefinitely_With_Delay

definition DEFAULT_RETRY_INTERVAL :: int where "DEFAULT_RETRY_INTERVAL = 5000"

definition to_manager :: "dd_call \<Rightarrow> dd_data \<Rightarrow> dd_data" where
  "to_manager c d = d\<lparr>dd_calls := dd_calls d @ [c]\<rparr>"

definition revert_configuration_unlocked :: "revert_option_e \<Rightarrow> dd_data \<Rightarrow> dd_data" where
  "revert_configuration_unlocked algorithm d =
     (if \<not> dd_instance d then d
      else if algorithm = Try_Indefinitely_With_Delay \<and> dd_delay d > 0
      then to_manager (DD_Revert False [dd_delay d, DEFAULT_RETRY_INTERVAL] True) d
      else to_manager (DD_Revert (algorithm = Try_Once) [DEFAULT_RETRY_INTERVAL] False) d)"

definition dd_drop :: "dd_data \<Rightarrow> dd_data" where
  "dd_drop d = (if dd_instance d then to_manager DD_Destroy (d\<lparr>dd_instance := False\<rparr>) else d)"

text \<open>\<open>supported\<close> is whether \<open>make_settings_manager\<close> gives one, which it does on Windows only.\<close>

definition dd_init :: "bool \<Rightarrow> video_t \<Rightarrow> dd_data \<Rightarrow> dd_data" where
  "dd_init supported video_config d =
     (let d1 = revert_configuration_unlocked Try_Once d;
          d2 = dd_drop (d1\<lparr>dd_delay := dd_config_revert_delay (v_dd video_config)\<rparr>)
      in if \<not> supported then d2
         else revert_configuration_unlocked Try_Indefinitely
                (to_manager DD_Enumerate (to_manager DD_Create (d2\<lparr>dd_instance := True\<rparr>))))"

definition dd_deinit :: "dd_data \<Rightarrow> dd_data" where
  "dd_deinit d = dd_drop (revert_configuration_unlocked Try_Once d)"

definition map_output_name :: "(string \<Rightarrow> string) \<Rightarrow> string \<Rightarrow> dd_data \<Rightarrow> string \<times> dd_data" where
  "map_output_name getDisplayName output_name d =
     (if \<not> dd_instance d then (output_name, d)
      else (getDisplayName output_name, to_manager (DD_Display_Name output_name) d))"

definition dd_revert_configuration :: "dd_data \<Rightarrow> dd_data" where
  "dd_revert_configuration d = revert_configuration_unlocked Try_Indefinitely_With_Delay d"

definition configure_single_display :: "single_display \<Rightarrow> dd_data \<Rightarrow> dd_data" where
  "configure_single_display config d =
     (if \<not> dd_instance d then d else to_manager (DD_Apply config [DEFAULT_RETRY_INTERVAL]) d)"

definition dd_configure_display ::
    "(nat \<Rightarrow> 32 word) \<Rightarrow> video_t \<Rightarrow> launch_session \<Rightarrow> dd_data \<Rightarrow> dd_data" where
  "dd_configure_display big video_config session d =
     (case parse_configuration big video_config session of
        Parsed parsed_config \<Rightarrow> configure_single_display parsed_config d
      | Configuration_Disabled \<Rightarrow> dd_revert_configuration d
      | Failed_To_Parse \<Rightarrow> d)"

definition reset_persistence :: "bool \<Rightarrow> dd_data \<Rightarrow> bool \<times> dd_data" where
  "reset_persistence answer d =
     (if \<not> dd_instance d then (True, d) else (answer, to_manager DD_Reset_Persistence d))"

definition enumerate_devices :: "'d list \<Rightarrow> dd_data \<Rightarrow> 'd list \<times> dd_data" where
  "enumerate_devices answer d =
     (if \<not> dd_instance d then ([], d) else (answer, to_manager DD_Enumerate d))"

section \<open>The audio context of a display that is off\<close>

text \<open>
  \<open>sunshine_audio_context_t\<close>: the context that is held, if any. \<open>sink_missing\<close> is whether there is an
  audio context whose sink is not available.
\<close>

record held_audio =
  ha_released :: bool
  ha_retry_counter :: int

definition ac_capture :: "held_audio option \<Rightarrow> held_audio option" where
  "ac_capture audio_context = Some \<lparr>ha_released = False, ha_retry_counter = 15\<rparr>"

definition ac_isCaptured :: "held_audio option \<Rightarrow> bool" where
  "ac_isCaptured audio_context = (case audio_context of Some h \<Rightarrow> \<not> ha_released h | None \<Rightarrow> False)"

text \<open>One run of the job that \<open>release\<close> schedules: what is held then, and whether the job is over.\<close>

definition ac_release_job :: "bool \<Rightarrow> held_audio option \<Rightarrow> held_audio option \<times> bool" where
  "ac_release_job sink_missing audio_context =
     (case audio_context of
        Some h \<Rightarrow>
          if sink_missing \<and> ha_retry_counter h > 0
          then (Some \<lparr>ha_released = True, ha_retry_counter = ha_retry_counter h - 1\<rparr>, False)
          else (None, True)
      | None \<Rightarrow> (None, True))"

end
