(* ===== verification/Display_Correct.thy ===== *)
theory Display_Correct
  imports Display_Device Complex_Main
begin

text \<open>
  What the readers of \<^verbatim>\<open>display_device.cpp\<close> make of the options, when the job that reverts the
  settings tries again, and how long the audio context of a display is kept.
\<close>

section \<open>Decimal numerals\<close>

lemma dec_value_append: "dec_value (a @ b) = dec_value a * 10 ^ length b + dec_value b"
proof (induction a)
  case Nil
  then show ?case by (simp add: dec_value_def)
next
  case (Cons c a)
  then show ?case by (simp add: dec_value_Cons power_add algebra_simps)
qed

lemma schar_zero: "schar (CHR ''0'') = 48"
  by (simp add: schar_def)

lemma dec_value_zeros: "list_all is_zero z \<Longrightarrow> dec_value z = 0"
  by (induction z) (auto simp: dec_value_Cons is_zero_def schar_zero dec_value_def)

lemma dec_value_dropWhile: "dec_value (dropWhile is_zero a) = dec_value a"
  by (induction a) (auto simp: dec_value_Cons is_zero_def schar_zero)

lemma trim_right_split: "\<exists>z. b = trim_right_if p b @ z \<and> list_all p z"
proof -
  have "rev b = takeWhile p (rev b) @ dropWhile p (rev b)" by simp
  then have "b = trim_right_if p b @ rev (takeWhile p (rev b))"
    unfolding trim_right_if_def by (metis rev_append rev_rev_ident)
  moreover have "list_all p (rev (takeWhile p (rev b)))"
    by (auto simp: list_all_iff dest: set_takeWhileD)
  ultimately show ?thesis by blast
qed

definition decimal_value :: "string \<Rightarrow> string \<Rightarrow> rat" where
  "decimal_value a b = of_int (dec_value a) + of_int (dec_value b) / 10 ^ length b"

lemma decimal_value_trim:
  "decimal_value a b =
     of_int (dec_value (a @ trim_right_if is_zero b)) / 10 ^ length (trim_right_if is_zero b)"
proof -
  let ?t = "trim_right_if is_zero b"
  obtain z where z: "b = ?t @ z" "list_all is_zero z" using trim_right_split by blast
  have "dec_value b = dec_value ?t * 10 ^ length z"
    by (subst z(1)) (simp add: dec_value_append dec_value_zeros [OF z(2)])
  moreover have "(10::rat) ^ length b = 10 ^ length ?t * 10 ^ length z"
    by (subst z(1)) (simp add: power_add)
  ultimately show ?thesis
    by (simp add: decimal_value_def dec_value_append add_divide_distrib)
qed

lemma isdigit_not_space: "isdigit c \<Longrightarrow> \<not> isspace c"
  by (auto simp: isdigit_def isspace_def)

lemma isdigit_not_plus: "isdigit c \<Longrightarrow> c \<noteq> CHR ''+''"
  by (auto simp: isdigit_def)

lemma isdigit_zero: "isdigit (CHR ''0'')"
  by (simp add: isdigit_def)

lemma stou_digits:
  assumes "s \<noteq> []" "list_all isdigit s"
  shows "stou s = (if dec_value s < 2 ^ 32 then Some (word_of_int (dec_value s)) else None)"
proof -
  obtain c cs where s: "s = c # cs" using assms(1) by (cases s) auto
  have c: "isdigit c" using assms(2) s by simp
  have d: "dropWhile isspace s = s" using isdigit_not_space [OF c] s by simp
  have t: "takeWhile isdigit s = s" using assms(2) by (simp add: list_all_iff)
  have m: "take 1 s \<noteq> ''-''" "take 1 s \<noteq> ''+''"
    using isdigit_not_minus [OF c] isdigit_not_plus [OF c] s by auto
  have p: "0 \<le> dec_value s" using dec_value_bounds [of s] assms(2) by (simp add: list_all_iff)
  have n: "stoul s = (if 2 ^ 64 \<le> nat (dec_value s) then None else Some (nat (dec_value s)))"
    unfolding stoul_def Let_def d by (simp add: m [simplified] t assms(1))
  show ?thesis
  proof (cases "dec_value s < 2 ^ 32")
    case True
    then have "nat (dec_value s) < 2 ^ 32" using p by simp
    then show ?thesis using True p by (simp add: stou_def n)
  next
    case False
    then have "2 ^ 32 \<le> nat (dec_value s)" using p by simp
    then show ?thesis using False by (simp add: stou_def n)
  qed
qed

section \<open>Refresh rates\<close>

definition rate_value :: "rational_t \<Rightarrow> rat" where
  "rate_value r = of_nat (unat (rat_numerator r)) / of_nat (unat (rat_denominator r))"

lemma pow10_unat: "n \<le> 9 \<Longrightarrow> unat (pow10 big n) = 10 ^ n"
proof -
  assume n: "n \<le> 9"
  then have "(10::nat) ^ n \<le> 10 ^ 9" by (intro power_increasing) simp_all
  then have "(10::nat) ^ n < 2 ^ 32" by simp
  then show ?thesis using n by (simp add: pow10_def unat_of_nat del: of_nat_power of_nat_numeral word_of_nat_eq_0_iff)
qed

lemma unat_word_of_int32:
  assumes "0 \<le> x" "x < 2 ^ 32"
  shows "unat (word_of_int x :: 32 word) = nat x"
proof -
  have "uint (word_of_int x :: 32 word) = x" using assms by (simp add: uint_word_of_int_eq take_bit_int_eq_self)
  then show ?thesis by (simp add: unat_eq_nat_uint)
qed

lemma trim_space_between:
  assumes "list_all isspace u" "list_all isspace w" "s \<noteq> []" "\<not> isspace (hd s)" "\<not> isspace (last s)"
  shows "trim_space (u @ s @ w) = s"
proof -
  have a: "dropWhile isspace (u @ s @ w) = s @ w"
    using assms by (cases s) (auto simp: list_all_iff dropWhile_append)
  have "dropWhile isspace (rev (s @ w)) = rev s"
    using assms by (cases s rule: rev_cases) (auto simp: list_all_iff dropWhile_append)
  then show ?thesis by (simp add: trim_space_def a)
qed

lemma match_rate_decimal:
  assumes "a \<noteq> []" "list_all isdigit a" "b \<noteq> []" "list_all isdigit b"
  shows "match_refresh_rate True (a @ CHR ''.'' # b) = Some (a, Some b)"
proof -
  have n: "\<not> isdigit (CHR ''.'')" by (simp add: isdigit_def)
  have "takeWhile isdigit (a @ CHR ''.'' # b) = a" "dropWhile isdigit (a @ CHR ''.'' # b) = CHR ''.'' # b"
    using assms(2) n by (simp_all add: list_all_iff)
  then show ?thesis using assms by (simp add: match_refresh_rate_def)
qed

lemma rate_of_decimal:
  assumes a: "a \<noteq> []" "list_all isdigit a" and b: "list_all isdigit b"
    and k: "k = length (trim_right_if is_zero b)" "n = dec_value (a @ trim_right_if is_zero b)"
  shows "rate_of_match big a (Some b) =
    (if n < 2 ^ 32 then Some \<lparr>rat_numerator = word_of_int n,
        rat_denominator = (if k = 0 then 1 else pow10 big k)\<rparr> else None)"
proof -
  let ?t = "trim_right_if is_zero b"
  define m where "m = (if dropWhile is_zero a = [] then ''0'' else dropWhile is_zero a)"
  have m: "m \<noteq> []" "list_all isdigit m" "dec_value m = dec_value a"
  proof -
    show "m \<noteq> []" by (simp add: m_def)
    show "list_all isdigit m"
      using a(2) isdigit_zero by (auto simp: m_def list_all_iff dest: set_dropWhileD)
    have "dec_value ''0'' = 0" by (rule dec_value_zeros) (simp add: is_zero_def)
    then show "dec_value m = dec_value a"
      using dec_value_dropWhile [of a] dec_value_zeros [of a]
      by (auto simp: m_def list_all_iff dropWhile_eq_Nil_conv)
  qed
  obtain z where "b = ?t @ z" using trim_right_split by blast
  then have t: "list_all isdigit ?t" using b by (metis list_all_append)
  have v: "dec_value (m @ ?t) = n" using m(3) k(2) by (simp add: dec_value_append)
  have s: "stou (m @ ?t) = (if n < 2 ^ 32 then Some (word_of_int n) else None)"
    using stou_digits [of "m @ ?t"] m t v by simp
  have r: "rate_of_match big a (Some b) =
     (if ?t \<noteq> [] then (case stou (m @ ?t) of
                 Some numerator \<Rightarrow> Some \<lparr>rat_numerator = numerator, rat_denominator = pow10 big (length ?t)\<rparr>
               | None \<Rightarrow> None)
      else (case stou m of Some n \<Rightarrow> Some \<lparr>rat_numerator = n, rat_denominator = 1\<rparr> | None \<Rightarrow> None))"
    by (simp add: rate_of_match_def Let_def m_def)
  show ?thesis
  proof (cases "?t = []")
    case True
    then show ?thesis unfolding r using s k(1) by simp
  next
    case False
    then show ?thesis unfolding r s using k(1) by simp
  qed
qed

text \<open>
  C27: A refresh rate written as decimal digits with a point, possibly between blanks, is read as a
  fraction with exactly the value of the text when its digits, without the zeros behind, fit in 32
  bits, and is refused otherwise with the output left as it was; up to nine decimal places.
\<close>
theorem refresh_rate_value:
  assumes a: "a \<noteq> []" "list_all isdigit a" and b: "b \<noteq> []" "list_all isdigit b"
    and blanks: "list_all isspace u" "list_all isspace w"
    and k: "k = length (trim_right_if is_zero b)" "k \<le> 9"
  shows "if decimal_value a b * 10 ^ k < 2 ^ 32
    then \<exists>r. parse_refresh_rate_string big True (u @ (a @ CHR ''.'' # b) @ w) out = (True, Some r) \<and>
             rate_value r = decimal_value a b
    else parse_refresh_rate_string big True (u @ (a @ CHR ''.'' # b) @ w) out = (False, out)"
proof -
  define n where "n = dec_value (a @ trim_right_if is_zero b)"
  have e: "isdigit (hd a)" "isdigit (last b)" using a b by (auto simp: list_all_iff)
  have trim: "trim_space (u @ (a @ CHR ''.'' # b) @ w) = a @ CHR ''.'' # b"
    using a b blanks e by (intro trim_space_between) (simp_all add: isdigit_not_space)
  have n: "decimal_value a b * 10 ^ k = of_int n" unfolding decimal_value_trim n_def k(1) by simp
  have lt: "decimal_value a b * 10 ^ k < 2 ^ 32 \<longleftrightarrow> n < 2 ^ 32"
    unfolding n by (metis of_int_less_iff of_int_numeral of_int_power)
  obtain z where "b = trim_right_if is_zero b @ z" using trim_right_split by blast
  then have "list_all isdigit (trim_right_if is_zero b)" using b(2) by (metis list_all_append)
  then have p: "0 \<le> n" using dec_value_bounds [of "a @ trim_right_if is_zero b"] a(2)
    by (auto simp: n_def list_all_iff)
  have r: "parse_refresh_rate_string big True (u @ (a @ CHR ''.'' # b) @ w) out =
     (if n < 2 ^ 32 then (True, Some \<lparr>rat_numerator = word_of_int n,
        rat_denominator = (if k = 0 then 1 else pow10 big k)\<rparr>) else (False, out))"
    unfolding parse_refresh_rate_string_def trim Let_def
    by (simp add: match_rate_decimal [OF a b] rate_of_decimal [OF a b(2) k(1) n_def])
  have d: "unat (if k = 0 then 1 else pow10 big k) = 10 ^ k" using k(2) by (simp add: pow10_unat)
  show ?thesis
  proof (cases "n < 2 ^ 32")
    case True
    have "decimal_value a b = of_int n / 10 ^ k" using n by (simp add: field_simps)
    then have "rate_value \<lparr>rat_numerator = word_of_int n, rat_denominator = (if k = 0 then 1 else pow10 big k)\<rparr>
        = decimal_value a b"
      unfolding rate_value_def using d p True by (simp add: unat_word_of_int32 del: of_nat_unat)
    then show ?thesis unfolding lt r using True by auto
  next
    case False
    then show ?thesis unfolding lt r by simp
  qed
qed

theorem refresh_rate_value_witness:
  "\<exists>r. parse_refresh_rate_string (\<lambda>n. 0) True '' 59.950'' None = (True, Some r) \<and>
       rate_value r = decimal_value ''59'' ''950''"
proof -
  have v: "decimal_value ''59'' ''950'' * 10 ^ 2 < 2 ^ 32"
    by (simp add: decimal_value_def dec_value_def schar_def)
  have t: "2 = length (trim_right_if is_zero ''950'')"
    by (simp add: trim_right_if_def is_zero_def)
  show ?thesis
    using refresh_rate_value [of "''59''" "''950''" "'' ''" "[]" 2 "\<lambda>n. 0" None] v t
    by (simp add: isdigit_def isspace_def)
qed

text \<open>
  Ten decimal places or more, and the denominator is a conversion the language does not define.
\<close>

theorem long_fraction:
  "parse_refresh_rate_string big True ''0.0000000001'' out =
     (True, Some \<lparr>rat_numerator = 1, rat_denominator = big 10\<rparr>)"
proof -
  have t: "trim_right_if is_zero ''0000000001'' = ''0000000001''"
    by (simp add: trim_right_if_def is_zero_def)
  have v: "dec_value (''0'' @ ''0000000001'') = 1"
    by (simp add: dec_value_def schar_def)
  have s: "trim_space ''0.0000000001'' = ''0'' @ CHR ''.'' # ''0000000001''"
    by (simp add: trim_space_def isspace_def)
  have m: "match_refresh_rate True (''0'' @ CHR ''.'' # ''0000000001'') = Some (''0'', Some ''0000000001'')"
    by (rule match_rate_decimal) (simp_all add: isdigit_def)
  have r: "rate_of_match big ''0'' (Some ''0000000001'') =
      Some \<lparr>rat_numerator = word_of_int 1, rat_denominator = pow10 big 10\<rparr>"
    by (subst rate_of_decimal [OF _ _ _ refl refl]) (simp_all add: isdigit_def t v [simplified] eval_nat_numeral)
  show ?thesis
    unfolding parse_refresh_rate_string_def s Let_def m by (simp add: r pow10_def)
qed

section \<open>The resolution of the display\<close>

lemma remap_entries_resolution:
  "\<lbrakk>remap_entries big type session entries config = (ok, config'); \<not> ls_enable_sops session\<rbrakk> \<Longrightarrow>
   m_resolution config' = m_resolution config"
proof (induction entries)
  case (Cons entry entries)
  then show ?case
    by (auto simp: final_mode_def Let_def split: option.splits if_splits)
qed simp

theorem no_sops_no_resolution:
  assumes "parse_configuration big video_config session = Parsed config" "\<not> ls_enable_sops session"
  shows "m_resolution config = None \<and> m_device_id config = v_output_name video_config"
proof -
  define c0 where "c0 prep = \<lparr>m_device_id = v_output_name video_config, m_device_prep = prep,
      m_resolution = None, m_refresh_rate = None,
      m_hdr_state = parse_hdr_option video_config session\<rparr>" for prep
  obtain prep c2 where prep: "parse_device_prep_option video_config = Some prep"
    and r1: "parse_resolution_option video_config session (c0 prep) = (True, c0 prep)"
    and r2: "parse_refresh_rate_option big video_config session (c0 prep) = (True, c2)"
    and r3: "remap_display_mode_if_needed big video_config session c2 = (True, config)"
    using assms
    by (auto simp: parse_configuration_def c0_def parse_resolution_option_def Let_def
        split: option.splits prod.splits if_splits resolution_option_e.splits)
  have "m_resolution c2 = None \<and> m_device_id c2 = v_output_name video_config"
    using r2 by (auto simp: parse_refresh_rate_option_def c0_def split: refresh_rate_option_e.splits
        prod.splits if_splits)
  moreover have "m_resolution config = m_resolution c2"
    using r3 assms(2) remap_entries_resolution
    by (auto simp: remap_display_mode_if_needed_def split: option.splits)
  moreover have "m_device_id (snd (remap_entries big type session es c)) = m_device_id c" for type es c
    by (induction es) (auto simp: final_mode_def Let_def split: option.splits)
  then have "m_device_id config = m_device_id c2"
    using r3 unfolding remap_display_mode_if_needed_def
    by (metis (no_types, lifting) option.case_eq_if prod.inject snd_conv)
  ultimately show ?thesis by simp
qed

section \<open>Reverting\<close>

fun revert_runs ::
    "bool \<Rightarrow> string set \<Rightarrow> ((string \<times> string) list \<times> revert_result) list \<Rightarrow> revert_run list" where
  "revert_runs try_once tried [] = []"
| "revert_runs try_once tried ((devices, result) # answers) =
     (let r = revert_job try_once devices result tried
      in r # (if rr_stop r then [] else revert_runs try_once (rr_tried_out r) answers))"

lemma same_devices_wait:
  "\<lbrakk>\<forall>(devices, result) \<in> set answers. device_names devices = tried;
    r \<in> set (revert_runs False tried answers)\<rbrakk> \<Longrightarrow>
   r = \<lparr>rr_called = False, rr_stop = False, rr_tried_out = tried\<rparr>"
proof (induction answers)
  case (Cons a answers)
  then show ?case by (cases a) (auto simp: revert_job_def Let_def)
qed simp

theorem failed_revert_waits:
  assumes "\<forall>(d, result) \<in> set answers. device_names d = device_names devices"
    and "device_names devices \<noteq> tried"
  shows "map rr_called (revert_runs False tried ((devices, Revert_Failed) # answers)) =
    True # replicate (length answers) False"
proof -
  have l: "length (revert_runs False (device_names devices) answers) = length answers"
    using assms(1) by (induction answers) (auto simp: revert_job_def Let_def)
  have "map rr_called (revert_runs False (device_names devices) answers) = replicate (length answers) False"
    using l by (intro replicate_eqI) (auto dest: same_devices_wait [OF assms(1)])
  then show ?thesis using assms(2) by (simp add: revert_job_def Let_def)
qed

section \<open>The audio context\<close>

text \<open>The runs of the release job, on whether the sink is missing at each; they end at the one that lets go.\<close>

fun release_runs :: "bool list \<Rightarrow> held_audio option \<Rightarrow> held_audio option \<times> bool" where
  "release_runs [] audio_context = (audio_context, False)"
| "release_runs (missing # later) audio_context =
     (case ac_release_job missing audio_context of
        (a, True) \<Rightarrow> (a, True)
      | (a, False) \<Rightarrow> release_runs later a)"

lemma release_runs_end:
  "\<lbrakk>audio_context = None \<or> (\<exists>h. audio_context = Some h \<and> nat (ha_retry_counter h) < length missing);
    missing \<noteq> []\<rbrakk> \<Longrightarrow> release_runs missing audio_context = (None, True)"
proof (induction missing arbitrary: audio_context)
  case (Cons m ms)
  show ?case
  proof (cases audio_context)
    case None
    then show ?thesis by (simp add: ac_release_job_def)
  next
    case (Some h)
    show ?thesis
    proof (cases "m \<and> ha_retry_counter h > 0")
      case True
      then have "nat (ha_retry_counter h - 1) < length ms" using Cons.prems Some by auto
      moreover from this have "ms \<noteq> []" by auto
      ultimately show ?thesis using Some True Cons.IH by (simp add: ac_release_job_def)
    next
      case False
      then show ?thesis using Some by (auto simp: ac_release_job_def)
    qed
  qed
qed simp

theorem audio_context_released:
  assumes "length missing = 16"
  shows "release_runs missing (ac_capture audio_context) = (None, True)"
  using assms by (intro release_runs_end) (auto simp: ac_capture_def)

text \<open>
  While the sink of a released display is missing the context is held and the job of the release
  runs again; when the display is switched off meanwhile and its context captured anew, the next run
  of that job takes it for released, and drops it as soon as a sink is there: the new capture is lost.
\<close>
theorem captured_context_dropped:
  assumes "fst (ac_release_job True audio_context) \<noteq> None"
  shows "let recaptured = ac_capture (fst (ac_release_job True audio_context))
    in \<not> snd (ac_release_job True audio_context) \<and> ac_isCaptured recaptured \<and>
       \<not> ac_isCaptured (fst (ac_release_job missing recaptured)) \<and>
       fst (ac_release_job False recaptured) = None"
  using assms by (auto simp: ac_release_job_def ac_capture_def ac_isCaptured_def Let_def
      split: option.splits if_splits)

theorem captured_context_dropped_witness:
  "let c = Some \<lparr>ha_released = False, ha_retry_counter = 15\<rparr>;
       recaptured = ac_capture (fst (ac_release_job True c))
   in \<not> snd (ac_release_job True c) \<and> ac_isCaptured recaptured \<and>
      \<not> ac_isCaptured (fst (ac_release_job True recaptured)) \<and>
      fst (ac_release_job False recaptured) = None"
  unfolding Let_def
  using captured_context_dropped [of "Some \<lparr>ha_released = False, ha_retry_counter = 15\<rparr>" True,
      unfolded Let_def]
  by (simp add: ac_release_job_def)

end
