(* ===== verification/Encoders.thy ===== *)
theory Encoders
  imports Colorspace
begin

text \<open>
  The encoders of \<^verbatim>\<open>src/src/video.cpp\<close> and \<^verbatim>\<open>video.h\<close>: what is known of an encoder and of each of its
  codecs, the tables of the encoders of Linux, and the memory and pixel formats they ask for. The
  numbers that headers of other projects give are in \<open>av_lib\<close>.
\<close>

unbundle bit_operations_syntax

section \<open>Formats\<close>

datatype hw_device_type = HW_NONE | HW_D3D11VA | HW_QSV | HW_CUDA | HW_VAAPI | HW_VULKAN | HW_VIDEOTOOLBOX

datatype av_pix_fmt =
  PIX_NONE | PIX_CUDA | PIX_VAAPI | PIX_VULKAN | PIX_NV12 | PIX_P010 | PIX_YUV420P | PIX_YUV420P10
| PIX_YUV444P | PIX_YUV444P10 | PIX_VUYX | PIX_XV30

datatype mem_type_e =
  Mem_System | Mem_Vaapi | Mem_Dxgi | Mem_Cuda | Mem_Videotoolbox | Mem_Vulkan | Mem_Unknown

datatype pix_fmt_e =
  Pix_Yuv420p | Pix_Yuv420p10 | Pix_Nv12 | Pix_P010 | Pix_Ayuv | Pix_Yuv444p16 | Pix_Y410 | Pix_Unknown

text \<open>Vulkan counts only in a build with it, which the two functions take as an argument.\<close>

definition map_base_dev_type :: "bool \<Rightarrow> hw_device_type \<Rightarrow> mem_type_e" where
  "map_base_dev_type build_vulkan type =
     (case type of
        HW_D3D11VA \<Rightarrow> Mem_Dxgi
      | HW_VAAPI \<Rightarrow> Mem_Vaapi
      | HW_VULKAN \<Rightarrow> if build_vulkan then Mem_Vulkan else Mem_Unknown
      | HW_CUDA \<Rightarrow> Mem_Cuda
      | HW_NONE \<Rightarrow> Mem_System
      | HW_VIDEOTOOLBOX \<Rightarrow> Mem_Videotoolbox
      | HW_QSV \<Rightarrow> Mem_Unknown)"

fun map_pix_fmt :: "av_pix_fmt \<Rightarrow> pix_fmt_e" where
  "map_pix_fmt PIX_VUYX = Pix_Ayuv"
| "map_pix_fmt PIX_XV30 = Pix_Y410"
| "map_pix_fmt PIX_YUV420P10 = Pix_Yuv420p10"
| "map_pix_fmt PIX_YUV420P = Pix_Yuv420p"
| "map_pix_fmt PIX_NV12 = Pix_Nv12"
| "map_pix_fmt PIX_P010 = Pix_P010"
| "map_pix_fmt _ = Pix_Unknown"

record platform_formats =
  pf_base_dev_type :: hw_device_type
  pf_derived_dev_type :: hw_device_type
  pf_dev_pix_fmt :: av_pix_fmt
  pf_av_8bit :: av_pix_fmt
  pf_av_10bit :: av_pix_fmt
  pf_av_yuv444_8bit :: av_pix_fmt
  pf_av_yuv444_10bit :: av_pix_fmt

definition avcodec_formats ::
    "hw_device_type \<Rightarrow> hw_device_type \<Rightarrow> av_pix_fmt \<Rightarrow> av_pix_fmt \<Rightarrow> av_pix_fmt \<Rightarrow> av_pix_fmt \<Rightarrow>
     av_pix_fmt \<Rightarrow> platform_formats" where
  "avcodec_formats base derived dev p8 p10 p444_8 p444_10 =
     \<lparr>pf_base_dev_type = base, pf_derived_dev_type = derived, pf_dev_pix_fmt = dev,
      pf_av_8bit = p8, pf_av_10bit = p10, pf_av_yuv444_8bit = p444_8, pf_av_yuv444_10bit = p444_10\<rparr>"

definition pf_dev_type :: "bool \<Rightarrow> platform_formats \<Rightarrow> mem_type_e" where
  "pf_dev_type build_vulkan f = map_base_dev_type build_vulkan (pf_base_dev_type f)"

section \<open>Encoders and codecs\<close>

text \<open>
  The value of an option is a number or a text, a setting, a setting that may be missing (which then
  gives no option), or computed from the settings or from what the client asked for.
\<close>

datatype opt_value =
  OV_Int int
| OV_Ref "video_t \<Rightarrow> int"
| OV_OptRef "video_t \<Rightarrow> int option"
| OV_FunInt "video_t \<Rightarrow> int"
| OV_Str string
| OV_StrRef "video_t \<Rightarrow> string"
| OV_FunStr "monitor_config \<Rightarrow> string"

type_synonym enc_option = "string \<times> opt_value"

record codec_caps =
  cap_PASSED :: bool
  cap_REF_FRAMES_RESTRICT :: bool
  cap_DYNAMIC_RANGE :: bool
  cap_YUV444 :: bool
  cap_VUI_PARAMETERS :: bool

record codec_t =
  co_common_options :: "enc_option list"
  co_sdr_options :: "enc_option list"
  co_hdr_options :: "enc_option list"
  co_sdr444_options :: "enc_option list"
  co_hdr444_options :: "enc_option list"
  co_fallback_options :: "enc_option list"
  co_name :: string
  co_caps :: codec_caps

definition no_caps :: codec_caps where
  "no_caps = \<lparr>cap_PASSED = False, cap_REF_FRAMES_RESTRICT = False, cap_DYNAMIC_RANGE = False,
     cap_YUV444 = False, cap_VUI_PARAMETERS = False\<rparr>"

definition all_caps :: codec_caps where
  "all_caps = \<lparr>cap_PASSED = True, cap_REF_FRAMES_RESTRICT = True, cap_DYNAMIC_RANGE = True,
     cap_YUV444 = True, cap_VUI_PARAMETERS = True\<rparr>"

definition codec_of ::
    "string \<Rightarrow> enc_option list \<Rightarrow> enc_option list \<Rightarrow> enc_option list \<Rightarrow> enc_option list \<Rightarrow>
     enc_option list \<Rightarrow> enc_option list \<Rightarrow> codec_t" where
  "codec_of name common sdr hdr sdr444 hdr444 fallback =
     \<lparr>co_common_options = common, co_sdr_options = sdr, co_hdr_options = hdr,
      co_sdr444_options = sdr444, co_hdr444_options = hdr444, co_fallback_options = fallback,
      co_name = name, co_caps = no_caps\<rparr>"

record encoder_t =
  en_name :: string
  en_formats :: platform_formats
  en_av1 :: codec_t
  en_hevc :: codec_t
  en_h264 :: codec_t
  en_flags :: "32 word"

definition codec_from_config :: "encoder_t \<Rightarrow> monitor_config \<Rightarrow> codec_t" where
  "codec_from_config encoder config =
     (if vc_videoFormat config = 1 then en_hevc encoder
      else if vc_videoFormat config = 2 then en_av1 encoder
      else en_h264 encoder)"

definition DEFAULT :: "32 word" where "DEFAULT = 0"
definition PARALLEL_ENCODING :: "32 word" where "PARALLEL_ENCODING = push_bit 1 1"
definition H264_ONLY :: "32 word" where "H264_ONLY = push_bit 2 1"
definition LIMITED_GOP_SIZE :: "32 word" where "LIMITED_GOP_SIZE = push_bit 3 1"
definition SINGLE_SLICE_ONLY :: "32 word" where "SINGLE_SLICE_ONLY = push_bit 4 1"
definition CBR_WITH_VBR :: "32 word" where "CBR_WITH_VBR = push_bit 5 1"
definition RELAXED_COMPLIANCE :: "32 word" where "RELAXED_COMPLIANCE = push_bit 6 1"
definition NO_RC_BUF_LIMIT :: "32 word" where "NO_RC_BUF_LIMIT = push_bit 7 1"
definition REF_FRAMES_INVALIDATION :: "32 word" where "REF_FRAMES_INVALIDATION = push_bit 8 1"
definition ALWAYS_REPROBE :: "32 word" where "ALWAYS_REPROBE = push_bit 9 1"
definition YUV444_SUPPORT :: "32 word" where "YUV444_SUPPORT = push_bit 10 1"
definition ASYNC_TEARDOWN :: "32 word" where "ASYNC_TEARDOWN = push_bit 11 1"
definition FIXED_GOP_SIZE :: "32 word" where "FIXED_GOP_SIZE = push_bit 12 1"

lemmas encoder_flag_defs = DEFAULT_def PARALLEL_ENCODING_def H264_ONLY_def LIMITED_GOP_SIZE_def
  SINGLE_SLICE_ONLY_def CBR_WITH_VBR_def RELAXED_COMPLIANCE_def NO_RC_BUF_LIMIT_def
  REF_FRAMES_INVALIDATION_def ALWAYS_REPROBE_def YUV444_SUPPORT_def ASYNC_TEARDOWN_def
  FIXED_GOP_SIZE_def

definition has_flag :: "encoder_t \<Rightarrow> 32 word \<Rightarrow> bool" where
  "has_flag encoder flag \<longleftrightarrow> en_flags encoder AND flag \<noteq> 0"

section \<open>The encoders of Linux\<close>

record av_lib =
  al_tuning_ultra_low_latency :: int
  al_rc_cbr :: int

definition nvenc_encoder :: "av_lib \<Rightarrow> encoder_t" where
  "nvenc_encoder A =
     \<lparr>en_name = ''nvenc'',
      en_formats = avcodec_formats HW_CUDA HW_NONE PIX_CUDA PIX_NV12 PIX_P010 PIX_NONE PIX_NONE,
      en_av1 = codec_of ''av1_nvenc''
       [(''delay'', OV_Int 0), (''forced-idr'', OV_Int 1), (''zerolatency'', OV_Int 1),
        (''surfaces'', OV_Int 1), (''cbr_padding'', OV_Int 0), (''preset'', OV_Ref (\<lambda>v. nvl_preset (v_nv_legacy v))),
        (''tune'', OV_Int (al_tuning_ultra_low_latency A)), (''rc'', OV_Int (al_rc_cbr A)),
        (''multipass'', OV_Ref (\<lambda>v. nvl_multipass (v_nv_legacy v))), (''aq'', OV_Ref (\<lambda>v. nvl_aq (v_nv_legacy v)))]
       [] [] [] [] [],
      en_hevc = codec_of ''hevc_nvenc''
       [(''delay'', OV_Int 0), (''forced-idr'', OV_Int 1), (''zerolatency'', OV_Int 1),
        (''surfaces'', OV_Int 1), (''cbr_padding'', OV_Int 0), (''preset'', OV_Ref (\<lambda>v. nvl_preset (v_nv_legacy v))),
        (''tune'', OV_Int (al_tuning_ultra_low_latency A)), (''rc'', OV_Int (al_rc_cbr A)),
        (''multipass'', OV_Ref (\<lambda>v. nvl_multipass (v_nv_legacy v))), (''aq'', OV_Ref (\<lambda>v. nvl_aq (v_nv_legacy v)))]
       [(''profile'', OV_Int 0)] [(''profile'', OV_Int 1)] [] [] [],
      en_h264 = codec_of ''h264_nvenc''
       [(''delay'', OV_Int 0), (''forced-idr'', OV_Int 1), (''zerolatency'', OV_Int 1),
        (''surfaces'', OV_Int 1), (''cbr_padding'', OV_Int 0), (''preset'', OV_Ref (\<lambda>v. nvl_preset (v_nv_legacy v))),
        (''tune'', OV_Int (al_tuning_ultra_low_latency A)), (''rc'', OV_Int (al_rc_cbr A)),
        (''coder'', OV_Ref (\<lambda>v. nvl_h264_coder (v_nv_legacy v))), (''multipass'', OV_Ref (\<lambda>v. nvl_multipass (v_nv_legacy v))),
        (''aq'', OV_Ref (\<lambda>v. nvl_aq (v_nv_legacy v)))]
       [(''profile'', OV_Int 2)] [] [] [] [],
      en_flags = PARALLEL_ENCODING\<rparr>"

definition vulkan_encoder :: encoder_t where
  "vulkan_encoder =
     \<lparr>en_name = ''vulkan'',
      en_formats = avcodec_formats HW_VULKAN HW_NONE PIX_VULKAN PIX_NV12 PIX_P010 PIX_NONE PIX_NONE,
      en_av1 = codec_of ''av1_vulkan''
       [(''idr_interval'', OV_Int INT_MAX), (''tune'', OV_Ref v_vk_tune), (''rc_mode'', OV_Ref v_vk_rc_mode),
        (''units'', OV_Int 0), (''usage'', OV_Str ''stream''), (''content'', OV_Str ''rendered''),
        (''async_depth'', OV_Int 1)]
       [] [] [] [] [],
      en_hevc = codec_of ''hevc_vulkan''
       [(''idr_interval'', OV_Int INT_MAX), (''tune'', OV_Ref v_vk_tune), (''rc_mode'', OV_Ref v_vk_rc_mode),
        (''units'', OV_Int 0), (''usage'', OV_Str ''stream''), (''content'', OV_Str ''rendered''),
        (''async_depth'', OV_Int 1)]
       [] [] [] [] [],
      en_h264 = codec_of ''h264_vulkan''
       [(''idr_interval'', OV_Int INT_MAX), (''tune'', OV_Ref v_vk_tune), (''rc_mode'', OV_Ref v_vk_rc_mode),
        (''units'', OV_Int 0), (''usage'', OV_Str ''stream''), (''content'', OV_Str ''rendered''),
        (''async_depth'', OV_Int 1)]
       [] [] [] [] [],
      en_flags = LIMITED_GOP_SIZE OR PARALLEL_ENCODING\<rparr>"

definition vaapi_encoder :: encoder_t where
  "vaapi_encoder =
     \<lparr>en_name = ''vaapi'',
      en_formats = avcodec_formats HW_VAAPI HW_NONE PIX_VAAPI PIX_NV12 PIX_P010 PIX_NONE PIX_NONE,
      en_av1 = codec_of ''av1_vaapi''
       [(''async_depth'', OV_Int 1), (''idr_interval'', OV_Int INT_MAX)]
       [] [] [] [] [],
      en_hevc = codec_of ''hevc_vaapi''
       [(''async_depth'', OV_Int 1), (''sei'', OV_Int 0), (''idr_interval'', OV_Int INT_MAX)]
       [] [] [] [] [],
      en_h264 = codec_of ''h264_vaapi''
       [(''async_depth'', OV_Int 1), (''sei'', OV_Int 0), (''idr_interval'', OV_Int INT_MAX)]
       [] [] [] [] [],
      en_flags = LIMITED_GOP_SIZE OR PARALLEL_ENCODING OR NO_RC_BUF_LIMIT\<rparr>"

definition software_encoder :: encoder_t where
  "software_encoder =
     \<lparr>en_name = ''software'',
      en_formats = avcodec_formats HW_NONE HW_NONE PIX_NONE PIX_YUV420P PIX_YUV420P10 PIX_YUV444P PIX_YUV444P10,
      en_av1 = codec_of ''''
       [(''svtav1-params'', OV_Str ''keyint=-1:pred-struct=1:force-key-frames=1:mbr=0''),
        (''preset'', OV_OptRef (\<lambda>v. sw_svtav1_preset (v_sw v)))]
       [] [] [] [] [],
      en_hevc = codec_of ''libx265''
       [(''forced-idr'', OV_Int 1), (''x265-params'', OV_Str ''info=0:keyint=-1''),
        (''preset'', OV_StrRef (\<lambda>v. sw_preset (v_sw v))), (''tune'', OV_StrRef (\<lambda>v. sw_tune (v_sw v)))]
       [] [] [] [] [],
      en_h264 = codec_of ''libx264''
       [(''preset'', OV_StrRef (\<lambda>v. sw_preset (v_sw v))), (''tune'', OV_StrRef (\<lambda>v. sw_tune (v_sw v)))]
       [] [] [] [] [],
      en_flags = H264_ONLY OR PARALLEL_ENCODING OR ALWAYS_REPROBE OR YUV444_SUPPORT\<rparr>"

definition linux_encoders :: "bool \<Rightarrow> av_lib \<Rightarrow> encoder_t list" where
  "linux_encoders build_vulkan A =
     [nvenc_encoder A] @ (if build_vulkan then [vulkan_encoder] else []) @ [vaapi_encoder, software_encoder]"

end
