(* ===== verification/Encode_Session.thy ===== *)
theory Encode_Session
  imports Encoders
begin

text \<open>
  How \<^verbatim>\<open>video.cpp\<close> opens an encoder of FFmpeg: \<^verbatim>\<open>make_avcodec_encode_session\<close> with the settings it
  gives the codec, the second attempt with the fallback options, the buffers of the devices, and the
  encoding of one frame. What FFmpeg, the display and the device answer is in \<open>attempt_env\<close> and
  \<open>session_env\<close>.
\<close>

section \<open>The codec context\<close>

datatype av_profile =
  PROFILE_UNKNOWN | H264_HIGH | H264_HIGH_444_PREDICTIVE | HEVC_MAIN | HEVC_MAIN_10 | HEVC_REXT
| AV1_MAIN | AV1_HIGH

type_synonym av_rational = "int \<times> int"

record codec_context =
  cx_width :: int
  cx_height :: int
  cx_time_base :: av_rational
  cx_framerate :: av_rational
  cx_profile :: av_profile
  cx_max_b_frames :: int
  cx_gop_size :: int
  cx_keyint_min :: int
  cx_refs :: int
  cx_closed_gop :: bool
  cx_low_delay :: bool
  cx_fast :: bool
  cx_color_range :: av_range
  cx_color_primaries :: av_primaries
  cx_color_trc :: av_transfer
  cx_colorspace :: av_matrix
  cx_sw_pix_fmt :: av_pix_fmt
  cx_pix_fmt :: av_pix_fmt
  cx_hw_frames :: bool
  cx_slices :: int
  cx_thread_slice :: bool
  cx_thread_count :: int
  cx_rc_max_rate :: int
  cx_bit_rate :: int
  cx_rc_min_rate :: int
  cx_rc_buffer_size :: int
  cx_unofficial :: bool

type_synonym av_dict = "string \<rightharpoonup> string"

record attempt_env =
  at_device_init :: bool
  at_create :: "hw_device_type \<Rightarrow> string option \<Rightarrow> bool"
  at_prepare_fails :: bool
  at_derive_fails :: bool
  at_hwframe_fails :: bool
  at_init_codec_options :: "codec_context \<Rightarrow> av_dict \<Rightarrow> codec_context \<times> av_dict"
  at_open :: "codec_context \<Rightarrow> av_dict \<Rightarrow> bool"

record hdr_metadata_t =
  hm_display_primaries :: "(int \<times> int) list"
  hm_white_point :: "int \<times> int"
  hm_max_display_luminance :: int
  hm_min_display_luminance :: int
  hm_max_content_light_level :: int
  hm_max_frame_average_light_level :: int

record session_env =
  se_supported :: "string \<Rightarrow> monitor_config \<Rightarrow> bool"
  se_find_encoder :: "string \<Rightarrow> bool"
  se_d2q :: "int \<Rightarrow> av_rational"
  se_fresh :: codec_context
  se_attempt :: "nat \<Rightarrow> attempt_env"
  se_device_data :: bool
  se_hdr_metadata :: "hdr_metadata_t option"
  se_software_init_fails :: bool
  se_set_frame_fails :: bool

text \<open>
  \<open>Undefined\<close> is where the language leaves open what happens: a failed assertion, a division by zero
  or an \<open>int\<close> that does not fit.
\<close>

datatype 'a outcome = Made 'a | Refused | Undefined

definition fits_int :: "int \<Rightarrow> bool" where
  "fits_int x \<longleftrightarrow> - (2 ^ 31) \<le> x \<and> x < 2 ^ 31"

text \<open>\<open>d2q\<close> is \<open>av_d2q\<close> of a hundredth of its argument.\<close>

definition framerateX100_to_rational :: "(int \<Rightarrow> av_rational) \<Rightarrow> int \<Rightarrow> av_rational option" where
  "framerateX100_to_rational d2q framerateX100 =
     (if framerateX100 smod 2997 = 0
      then (let num = (framerateX100 sdiv 2997) * 30000 in if fits_int num then Some (num, 1001) else None)
      else if framerateX100 = 2397 \<or> framerateX100 = 2398 then Some (24000, 1001)
      else Some (d2q framerateX100))"

definition ctx_basics ::
    "(int \<Rightarrow> av_rational) \<Rightarrow> monitor_config \<Rightarrow> codec_context \<Rightarrow> codec_context option" where
  "ctx_basics d2q config ctx =
     (let c1 = ctx\<lparr>cx_width := vc_width config, cx_height := vc_height config,
                   cx_time_base := (1, vc_framerate config), cx_framerate := (vc_framerate config, 1)\<rparr>
      in if vc_framerateX100 config > 0
         then (case framerateX100_to_rational d2q (vc_framerateX100 config) of
                 Some (num, den) \<Rightarrow> Some (c1\<lparr>cx_framerate := (num, den), cx_time_base := (den, num)\<rparr>)
               | None \<Rightarrow> None)
         else Some c1)"

text \<open>\<open>None\<close> where H.264 is asked for more than eight bits, which an assertion excludes.\<close>

definition ctx_profile :: "monitor_config \<Rightarrow> codec_context \<Rightarrow> codec_context option" where
  "ctx_profile config ctx =
     (let yuv444 = (vc_chromaSamplingType config = 1); hdr = (vc_dynamicRange config \<noteq> 0) in
      if vc_videoFormat config = 0 then
        (if hdr then None
         else Some (ctx\<lparr>cx_profile := (if yuv444 then H264_HIGH_444_PREDICTIVE else H264_HIGH)\<rparr>))
      else if vc_videoFormat config = 1 then
        Some (ctx\<lparr>cx_profile := (if yuv444 then HEVC_REXT else if hdr then HEVC_MAIN_10 else HEVC_MAIN)\<rparr>)
      else if vc_videoFormat config = 2 then
        Some (ctx\<lparr>cx_profile := (if yuv444 then AV1_HIGH else AV1_MAIN)\<rparr>)
      else Some ctx)"

definition ctx_gop :: "encoder_t \<Rightarrow> codec_context \<Rightarrow> codec_context" where
  "ctx_gop encoder ctx =
     (let c1 = ctx\<lparr>cx_max_b_frames := 0\<rparr> in
      if has_flag encoder FIXED_GOP_SIZE then c1\<lparr>cx_gop_size := 120, cx_keyint_min := 120\<rparr>
      else c1\<lparr>cx_gop_size := (if has_flag encoder LIMITED_GOP_SIZE then 32767 else INT_MAX),
              cx_keyint_min := INT_MAX\<rparr>)"

definition ctx_refs :: "codec_caps \<Rightarrow> monitor_config \<Rightarrow> codec_context \<Rightarrow> codec_context" where
  "ctx_refs caps config ctx =
     (if vc_numRefFrames config \<noteq> 0 \<and> cap_REF_FRAMES_RESTRICT caps
      then ctx\<lparr>cx_refs := vc_numRefFrames config\<rparr> else ctx)"

definition ctx_colors ::
    "avcodec_colorspace_t \<Rightarrow> av_pix_fmt \<Rightarrow> codec_context \<Rightarrow> codec_context" where
  "ctx_colors cs sw_fmt ctx =
     ctx\<lparr>cx_closed_gop := True, cx_low_delay := True, cx_fast := True,
         cx_color_range := ac_range cs, cx_color_primaries := ac_primaries cs,
         cx_color_trc := ac_transfer_function cs, cx_colorspace := ac_matrix cs,
         cx_sw_pix_fmt := sw_fmt\<rparr>"

definition software_format ::
    "platform_formats \<Rightarrow> sunshine_colorspace_t \<Rightarrow> monitor_config \<Rightarrow> av_pix_fmt" where
  "software_format f cs config =
     (if cs_bit_depth cs = 8 \<and> vc_chromaSamplingType config = 0 then pf_av_8bit f
      else if cs_bit_depth cs = 8 \<and> vc_chromaSamplingType config = 1 then pf_av_yuv444_8bit f
      else if cs_bit_depth cs = 10 \<and> vc_chromaSamplingType config = 0 then pf_av_10bit f
      else if cs_bit_depth cs = 10 \<and> vc_chromaSamplingType config = 1 then pf_av_yuv444_10bit f
      else PIX_NONE)"

section \<open>The buffers of the devices\<close>

text \<open>Whether the base device is there; with data of its own the encoding device makes it.\<close>

definition vaapi_init_avcodec_hardware_input_buffer :: "string \<Rightarrow> bool \<Rightarrow> attempt_env \<Rightarrow> bool" where
  "vaapi_init_avcodec_hardware_input_buffer adapter_name has_data a =
     (if has_data then at_device_init a
      else at_create a HW_VAAPI (if adapter_name = [] then None else Some adapter_name))"

definition vulkan_init_avcodec_hardware_input_buffer :: "string \<Rightarrow> bool \<Rightarrow> attempt_env \<Rightarrow> bool" where
  "vulkan_init_avcodec_hardware_input_buffer adapter_name has_data a =
     (if has_data then at_device_init a
      else at_create a HW_VULKAN (Some (if adapter_name = [] then ''/dev/dri/renderD128'' else adapter_name)) \<or>
           list_ex (\<lambda>device. at_create a HW_VULKAN (Some device)) [''1'', ''0'', ''2'', ''3''])"

definition cuda_init_avcodec_hardware_input_buffer :: "attempt_env \<Rightarrow> bool" where
  "cuda_init_avcodec_hardware_input_buffer a = at_create a HW_CUDA None"

definition vt_init_avcodec_hardware_input_buffer :: "attempt_env \<Rightarrow> bool" where
  "vt_init_avcodec_hardware_input_buffer a = at_create a HW_VIDEOTOOLBOX None"

definition init_hardware_input_buffer ::
    "platform_formats \<Rightarrow> string \<Rightarrow> bool \<Rightarrow> attempt_env \<Rightarrow> bool" where
  "init_hardware_input_buffer f adapter_name has_data a =
     (case pf_base_dev_type f of
        HW_VAAPI \<Rightarrow> vaapi_init_avcodec_hardware_input_buffer adapter_name has_data a
      | HW_VULKAN \<Rightarrow> vulkan_init_avcodec_hardware_input_buffer adapter_name has_data a
      | HW_CUDA \<Rightarrow> cuda_init_avcodec_hardware_input_buffer a
      | HW_VIDEOTOOLBOX \<Rightarrow> vt_init_avcodec_hardware_input_buffer a
      | _ \<Rightarrow> False)"

text \<open>\<open>None\<close> where the session is given up.\<close>

definition ctx_device ::
    "video_t \<Rightarrow> platform_formats \<Rightarrow> bool \<Rightarrow> monitor_config \<Rightarrow> av_pix_fmt \<Rightarrow> attempt_env \<Rightarrow>
     codec_context \<Rightarrow> codec_context option" where
  "ctx_device V f has_data config sw_fmt a ctx =
     (if pf_base_dev_type f \<noteq> HW_NONE then
        (if \<not> init_hardware_input_buffer f (v_adapter_name V) has_data a then None
         else if pf_derived_dev_type f \<noteq> HW_NONE \<and> (at_prepare_fails a \<or> at_derive_fails a) then None
         else if at_hwframe_fails a then None
         else Some (ctx\<lparr>cx_pix_fmt := pf_dev_pix_fmt f, cx_hw_frames := True,
                        cx_slices := vc_slicesPerFrame config\<rparr>))
      else Some (ctx\<lparr>cx_pix_fmt := sw_fmt,
                     cx_slices := max (vc_slicesPerFrame config) (v_min_threads V)\<rparr>))"

definition ctx_slicing :: "encoder_t \<Rightarrow> codec_context \<Rightarrow> codec_context" where
  "ctx_slicing encoder ctx =
     (let c1 = (if has_flag encoder SINGLE_SLICE_ONLY then ctx\<lparr>cx_slices := 1\<rparr> else ctx)
      in c1\<lparr>cx_thread_slice := True, cx_thread_count := cx_slices c1\<rparr>)"

section \<open>The options\<close>

definition handle_option :: "video_t \<Rightarrow> monitor_config \<Rightarrow> enc_option \<Rightarrow> av_dict \<Rightarrow> av_dict" where
  "handle_option V config item options =
     (case snd item of
        OV_Int v \<Rightarrow> options(fst item \<mapsto> int_string v)
      | OV_Ref v \<Rightarrow> options(fst item \<mapsto> int_string (v V))
      | OV_OptRef v \<Rightarrow> (case v V of Some n \<Rightarrow> options(fst item \<mapsto> int_string n) | None \<Rightarrow> options)
      | OV_FunInt v \<Rightarrow> options(fst item \<mapsto> int_string (v V))
      | OV_Str v \<Rightarrow> options(fst item \<mapsto> v)
      | OV_StrRef v \<Rightarrow> if v V \<noteq> [] then options(fst item \<mapsto> v V) else options
      | OV_FunStr v \<Rightarrow> options(fst item \<mapsto> v config))"

definition option_order :: "codec_t \<Rightarrow> monitor_config \<Rightarrow> nat \<Rightarrow> enc_option list" where
  "option_order video_format config retries =
     co_common_options video_format @
     (if vc_dynamicRange config \<noteq> 0 then co_hdr_options video_format else co_sdr_options video_format) @
     (if vc_chromaSamplingType config = 1
      then (if vc_dynamicRange config \<noteq> 0 then co_hdr444_options video_format
            else co_sdr444_options video_format) else []) @
     (if retries > 0 then co_fallback_options video_format else [])"

definition session_options :: "video_t \<Rightarrow> codec_t \<Rightarrow> monitor_config \<Rightarrow> nat \<Rightarrow> av_dict" where
  "session_options V video_format config retries =
     fold (handle_option V config) (option_order video_format config retries) Map.empty"

section \<open>The rate control\<close>

definition stream_bitrate :: "video_t \<Rightarrow> monitor_config \<Rightarrow> int option" where
  "stream_bitrate V config =
     (let b = (if v_max_bitrate V > 0 then min (vc_bitrate config) (v_max_bitrate V)
               else vc_bitrate config) * 1000
      in if fits_int b then Some b else None)"

definition rc_buffer :: "video_t \<Rightarrow> encoder_t \<Rightarrow> bool \<Rightarrow> monitor_config \<Rightarrow> int \<Rightarrow> int \<Rightarrow> int option" where
  "rc_buffer V encoder hardware config slices bitrate =
     (if \<not> hardware \<and> (slices > 1 \<or> vc_videoFormat config = 1) then
        (let d = (vc_framerate config * 10) sdiv 15 in
         if \<not> fits_int (vc_framerate config * 10) \<or> d = 0 then None else Some (bitrate sdiv d))
      else if vc_framerate config = 0 then None
      else (let base = bitrate sdiv vc_framerate config;
                percentage = nvl_vbv_percentage_increase (v_nv_legacy V)
            in if en_name encoder = ''nvenc'' \<and> percentage > 0
               then (let more = base * percentage in
                     if fits_int more \<and> fits_int (base + more sdiv 100) then Some (base + more sdiv 100) else None)
               else Some base))"

definition ctx_rates ::
    "video_t \<Rightarrow> encoder_t \<Rightarrow> bool \<Rightarrow> monitor_config \<Rightarrow> codec_context \<Rightarrow> codec_context option" where
  "ctx_rates V encoder hardware config ctx =
     (case stream_bitrate V config of
        None \<Rightarrow> None
      | Some bitrate \<Rightarrow>
          let c1 = ctx\<lparr>cx_rc_max_rate := bitrate, cx_bit_rate := bitrate\<rparr>;
              c2 = (if has_flag encoder CBR_WITH_VBR then c1\<lparr>cx_bit_rate := bitrate - 1\<rparr>
                    else c1\<lparr>cx_rc_min_rate := bitrate\<rparr>);
              c3 = (if has_flag encoder RELAXED_COMPLIANCE then c2\<lparr>cx_unofficial := True\<rparr> else c2)
          in if has_flag encoder NO_RC_BUF_LIMIT then Some c3
             else (case rc_buffer V encoder hardware config (cx_slices c3) bitrate of
                     Some base \<Rightarrow> Some (c3\<lparr>cx_rc_buffer_size := base\<rparr>)
                   | None \<Rightarrow> None))"

section \<open>Opening the encoder\<close>

text \<open>One attempt: the context, the options and whether the encoder opened.\<close>

definition open_attempt ::
    "session_env \<Rightarrow> video_t \<Rightarrow> encoder_t \<Rightarrow> monitor_config \<Rightarrow> sunshine_colorspace_t \<Rightarrow> nat \<Rightarrow>
     (codec_context \<times> av_dict \<times> bool) outcome" where
  "open_attempt E V encoder config cs retries =
     (let f = en_formats encoder;
          video_format = codec_from_config encoder config;
          hardware = (pf_base_dev_type f \<noteq> HW_NONE);
          sw_fmt = software_format f cs config;
          a = se_attempt E retries
      in case Option.bind (ctx_basics (se_d2q E) config (se_fresh E)) (ctx_profile config) of
           None \<Rightarrow> Undefined
         | Some c1 \<Rightarrow>
             (case avcodec_colorspace_from_sunshine_colorspace cs of
                None \<Rightarrow> Undefined
              | Some av_cs \<Rightarrow>
                  let c2 = ctx_colors av_cs sw_fmt (ctx_refs (co_caps video_format) config (ctx_gop encoder c1))
                  in (case ctx_device V f (se_device_data E) config sw_fmt a c2 of
                        None \<Rightarrow> Refused
                      | Some c3 \<Rightarrow>
                          (case ctx_rates V encoder hardware config (ctx_slicing encoder c3) of
                             None \<Rightarrow> Undefined
                           | Some c4 \<Rightarrow>
                               let (ctx, options) = at_init_codec_options a c4
                                     (session_options V video_format config retries)
                               in Made (ctx, options, at_open a ctx options)))))"

text \<open>The side data of a frame: each number with its denominator.\<close>

record side_data =
  sd_display_primaries :: "(av_rational \<times> av_rational) list"
  sd_white_point :: "av_rational \<times> av_rational"
  sd_min_luminance :: av_rational
  sd_max_luminance :: av_rational
  sd_has_luminance :: bool
  sd_has_primaries :: bool
  sd_light_level :: "(int \<times> int) option"

definition hdr_side_data :: "hdr_metadata_t \<Rightarrow> side_data" where
  "hdr_side_data m =
     \<lparr>sd_display_primaries = map (\<lambda>(x, y). ((x, 50000), (y, 50000))) (take 3 (hm_display_primaries m)),
      sd_white_point = ((fst (hm_white_point m), 50000), (snd (hm_white_point m), 50000)),
      sd_min_luminance = (hm_min_display_luminance m, 10000),
      sd_max_luminance = (hm_max_display_luminance m, 1),
      sd_has_luminance = (hm_max_display_luminance m \<noteq> 0),
      sd_has_primaries = (fst (hd (hm_display_primaries m)) \<noteq> 0),
      sd_light_level = (if hm_max_content_light_level m \<noteq> 0 \<or> hm_max_frame_average_light_level m \<noteq> 0
        then Some (hm_max_content_light_level m, hm_max_frame_average_light_level m) else None)\<rparr>"

record avcodec_session =
  as_context :: codec_context
  as_options :: av_dict
  as_format :: av_pix_fmt
  as_side_data :: "side_data option"
  as_software_device :: bool
  as_inject :: int

definition finish_session ::
    "session_env \<Rightarrow> encoder_t \<Rightarrow> monitor_config \<Rightarrow> sunshine_colorspace_t \<Rightarrow> codec_context \<Rightarrow> av_dict \<Rightarrow>
     avcodec_session outcome" where
  "finish_session E encoder config cs ctx options =
     (if \<not> se_device_data E \<and> se_software_init_fails E then Refused
      else if se_set_frame_fails E then Refused
      else Made \<lparr>as_context = ctx, as_options = options, as_format = cx_pix_fmt ctx,
        as_side_data = (if colorspace_is_hdr cs then map_option hdr_side_data (se_hdr_metadata E) else None),
        as_software_device = (\<not> se_device_data E),
        as_inject = (if vc_videoFormat config \<le> 1
          then (1 - of_bool (cap_VUI_PARAMETERS (co_caps (codec_from_config encoder config)))) *
               (1 + vc_videoFormat config)
          else 0)\<rparr>)"

definition make_avcodec_encode_session ::
    "session_env \<Rightarrow> video_t \<Rightarrow> encoder_t \<Rightarrow> monitor_config \<Rightarrow> sunshine_colorspace_t \<Rightarrow>
     avcodec_session outcome" where
  "make_avcodec_encode_session E V encoder config cs =
     (let video_format = codec_from_config encoder config in
      if \<not> cap_PASSED (co_caps video_format) \<or> \<not> se_supported E (co_name video_format) config then Refused
      else if vc_dynamicRange config \<noteq> 0 \<and> \<not> cap_DYNAMIC_RANGE (co_caps video_format) then Refused
      else if vc_chromaSamplingType config = 1 \<and> \<not> cap_YUV444 (co_caps video_format) then Refused
      else if \<not> se_find_encoder E (co_name video_format) then Refused
      else case open_attempt E V encoder config cs 0 of
        Undefined \<Rightarrow> Undefined
      | Refused \<Rightarrow> Refused
      | Made (ctx, options, True) \<Rightarrow> finish_session E encoder config cs ctx options
      | Made (_, _, False) \<Rightarrow>
          (case co_fallback_options video_format of
             [] \<Rightarrow> Refused
           | _ # _ \<Rightarrow>
               (case open_attempt E V encoder config cs 1 of
                  Undefined \<Rightarrow> Undefined
                | Refused \<Rightarrow> Refused
                | Made (ctx, options, True) \<Rightarrow> finish_session E encoder config cs ctx options
                | Made (_, _, False) \<Rightarrow> Refused)))"

section \<open>Encoding a frame\<close>

text \<open>
  What the encoder does with a frame: it takes it or not, and gives packets until it asks for the next
  frame (\<open>Recv_Again\<close>) or fails. \<open>make_sps\<close> reads the parameter sets out of a packet, old and new.
\<close>

record av_packet =
  ap_data :: "8 word list"
  ap_key :: bool
  ap_pts :: int

datatype av_receive = Recv_Packet av_packet | Recv_Again | Recv_Error int

type_synonym nal_t = "8 word list \<times> 8 word list"

record packet_raw =
  pk_data :: "8 word list"
  pk_idr :: bool
  pk_index :: int
  pk_timestamp :: "int option"
  pk_channel :: nat
  pk_after_invalidation :: bool

record encode_state =
  es_inject :: int
  es_replacements :: "nal_t list"
  es_packets :: "packet_raw list"

text \<open>The vectors that are injected: for HEVC those of the VPS come first.\<close>

definition inject_sets ::
    "(av_packet \<Rightarrow> nal_t) \<Rightarrow> (av_packet \<Rightarrow> nal_t \<times> nal_t) \<Rightarrow> av_packet \<Rightarrow> encode_state \<Rightarrow> encode_state" where
  "inject_sets make_sps_h264 make_sps_hevc p s =
     (if es_inject s = 0 then s
      else if es_inject s = 1
      then s\<lparr>es_inject := 0, es_replacements := es_replacements s @ [make_sps_h264 p]\<rparr>
      else (let (vps, sps) = make_sps_hevc p
            in s\<lparr>es_inject := 0, es_replacements := es_replacements s @ [vps, sps]\<rparr>))"

fun receive_packets ::
    "(av_packet \<Rightarrow> nal_t) \<Rightarrow> (av_packet \<Rightarrow> nal_t \<times> nal_t) \<Rightarrow> int \<Rightarrow> nat \<Rightarrow> int option \<Rightarrow>
     av_receive list \<Rightarrow> encode_state \<Rightarrow> int \<times> encode_state" where
  "receive_packets h264 hevc frame_nr channel timestamp [] s = (0, s)"
| "receive_packets h264 hevc frame_nr channel timestamp (Recv_Again # rs) s = (0, s)"
| "receive_packets h264 hevc frame_nr channel timestamp (Recv_Error e # rs) s = (e, s)"
| "receive_packets h264 hevc frame_nr channel timestamp (Recv_Packet p # rs) s =
     (let s1 = inject_sets h264 hevc p s;
          packet = \<lparr>pk_data = ap_data p, pk_idr = ap_key p, pk_index = ap_pts p,
            pk_timestamp = (if ap_pts p = frame_nr then timestamp else None),
            pk_channel = channel, pk_after_invalidation = False\<rparr>
      in receive_packets h264 hevc frame_nr channel timestamp rs
           (s1\<lparr>es_packets := es_packets s1 @ [packet]\<rparr>))"

definition encode_avcodec ::
    "(av_packet \<Rightarrow> nal_t) \<Rightarrow> (av_packet \<Rightarrow> nal_t \<times> nal_t) \<Rightarrow> bool \<Rightarrow> av_receive list \<Rightarrow> int \<Rightarrow> nat \<Rightarrow>
     int option \<Rightarrow> encode_state \<Rightarrow> int \<times> encode_state" where
  "encode_avcodec h264 hevc sent answers frame_nr channel timestamp s =
     (if \<not> sent then (- 1, s) else receive_packets h264 hevc frame_nr channel timestamp answers s)"

record nvenc_frame =
  nf_data :: "8 word list"
  nf_index :: int
  nf_idr :: bool
  nf_after_invalidation :: bool

definition encode_nvenc ::
    "nvenc_frame \<Rightarrow> nat \<Rightarrow> int option \<Rightarrow> packet_raw list \<Rightarrow> int \<times> packet_raw list" where
  "encode_nvenc encoded_frame channel timestamp packets =
     (if nf_data encoded_frame = [] then (- 1, packets)
      else (0, packets @ [\<lparr>pk_data = nf_data encoded_frame, pk_idr = nf_idr encoded_frame,
             pk_index = nf_index encoded_frame, pk_timestamp = timestamp, pk_channel = channel,
             pk_after_invalidation = nf_after_invalidation encoded_frame\<rparr>]))"

end
