(* ===== verification/Video_Probe.thy ===== *)
theory Video_Probe
  imports Encode_Session
begin

text \<open>
  The choice of the encoder in \<^verbatim>\<open>video.cpp\<close>: \<^verbatim>\<open>validate_config\<close> encodes one frame, \<^verbatim>\<open>validate_encoder\<close>
  finds out what an encoder can do, and \<^verbatim>\<open>probe_encoders\<close> takes the first that will do, with the
  state the rest of the host reads. What the hardware answers is a function of the question; the
  questions of one validation are told apart by labels, since none is asked twice.
\<close>

fun obind :: "'a outcome \<Rightarrow> ('a \<Rightarrow> 'b outcome) \<Rightarrow> 'b outcome" where
  "obind (Made x) f = f x"
| "obind Refused f = Refused"
| "obind Undefined f = Undefined"

section \<open>One configuration\<close>

record validate_env =
  ve_hdr_display :: bool
  ve_device :: "pix_fmt_e \<Rightarrow> bool"
  ve_session :: session_env
  ve_image :: bool
  ve_dummy_fails :: bool
  ve_convert_fails :: bool
  ve_make_sps_h264 :: "av_packet \<Rightarrow> nal_t"
  ve_make_sps_hevc :: "av_packet \<Rightarrow> nal_t \<times> nal_t"
  ve_frames :: "(bool \<times> av_receive list) list"
  ve_validate_sps :: "packet_raw \<Rightarrow> bool"

text \<open>The device of an encoder is made by the display; the result is the colour space it is given.\<close>

definition make_encode_device ::
    "validate_env \<Rightarrow> encoder_t \<Rightarrow> monitor_config \<Rightarrow> sunshine_colorspace_t option" where
  "make_encode_device W encoder config =
     (let cs = colorspace_from_client_config config (ve_hdr_display W);
          f = en_formats encoder;
          pix_fmt = map_pix_fmt
            (if vc_chromaSamplingType config = 1
             then (if cs_bit_depth cs = 10 then pf_av_yuv444_10bit f else pf_av_yuv444_8bit f)
             else (if cs_bit_depth cs = 10 then pf_av_10bit f else pf_av_8bit f))
      in if vc_chromaSamplingType config = 1 \<and> \<not> has_flag encoder YUV444_SUPPORT then None
         else if ve_device W pix_fmt then Some cs else None)"

text \<open>
  Encoding until there is a packet; \<open>Undefined\<close> where the frames run out, since the loop of the code
  then does not end. \<open>None\<close> is a failed call.
\<close>

fun first_packet ::
    "validate_env \<Rightarrow> (bool \<times> av_receive list) list \<Rightarrow> encode_state \<Rightarrow> packet_raw option outcome" where
  "first_packet W frames s =
     (case es_packets s of
        packet # _ \<Rightarrow> Made (Some packet)
      | [] \<Rightarrow> (case frames of
          [] \<Rightarrow> Undefined
        | (sent, answers) # later \<Rightarrow>
            (let (r, s1) = encode_avcodec (ve_make_sps_h264 W) (ve_make_sps_hevc W) sent answers 1 0 None s
             in if r \<noteq> 0 then Made None else first_packet W later s1)))"

declare first_packet.simps [simp del]

definition VUI_PARAMS :: int where "VUI_PARAMS = 1"

text \<open>The flags that were found, or \<open>-1\<close>.\<close>

definition validate_config ::
    "validate_env \<Rightarrow> video_t \<Rightarrow> encoder_t \<Rightarrow> monitor_config \<Rightarrow> int outcome" where
  "validate_config W V encoder config =
     (case make_encode_device W encoder config of
        None \<Rightarrow> Made (- 1)
      | Some cs \<Rightarrow>
          (case make_avcodec_encode_session (ve_session W) V encoder config cs of
             Undefined \<Rightarrow> Undefined
           | Refused \<Rightarrow> Made (- 1)
           | Made session \<Rightarrow>
               if \<not> ve_image W \<or> ve_dummy_fails W \<or> ve_convert_fails W then Made (- 1)
               else obind (first_packet W (ve_frames W)
                      \<lparr>es_inject = as_inject session, es_replacements = [], es_packets = []\<rparr>)
                    (\<lambda>p. case p of
                       None \<Rightarrow> Made (- 1)
                     | Some packet \<Rightarrow>
                         if \<not> pk_idr packet then Made (- 1)
                         else if vc_videoFormat config \<le> 1 \<and> ve_validate_sps W packet then Made VUI_PARAMS
                         else Made 0)))"

section \<open>One encoder\<close>

datatype probe_question =
  Ask_Max int | Ask_Max_Late | Ask_Auto int | Ask_H264_444 | Ask_Hdr_444 int | Ask_Hdr int

record probe_answers =
  pa_display :: "nat \<Rightarrow> bool"
  pa_hdr_display :: "nat \<Rightarrow> bool"
  pa_supported :: "probe_question \<Rightarrow> bool"
  pa_trial :: "probe_question \<Rightarrow> validate_env"

text \<open>Two tries, of which the second is made when the first fails.\<close>

definition reset_display :: "(nat \<Rightarrow> bool) \<Rightarrow> bool" where
  "reset_display found \<longleftrightarrow> (if found 0 then True else found 1)"

definition probe_config :: "int \<Rightarrow> int \<Rightarrow> int \<Rightarrow> int \<Rightarrow> int \<Rightarrow> monitor_config" where
  "probe_config refs csc format dynamic_range chroma =
     \<lparr>vc_width = 1920, vc_height = 1080, vc_framerate = 60, vc_framerateX100 = 6000,
      vc_bitrate = 1000, vc_slicesPerFrame = 1, vc_numRefFrames = refs, vc_encoderCscMode = csc,
      vc_videoFormat = format, vc_dynamicRange = dynamic_range, vc_chromaSamplingType = chroma,
      vc_enableIntraRefresh = 0\<rparr>"

definition upd_codec :: "int \<Rightarrow> (codec_caps \<Rightarrow> codec_caps) \<Rightarrow> encoder_t \<Rightarrow> encoder_t" where
  "upd_codec format g e =
     (if format = 1 then e\<lparr>en_hevc := (en_hevc e)\<lparr>co_caps := g (co_caps (en_hevc e))\<rparr>\<rparr>
      else if format = 2 then e\<lparr>en_av1 := (en_av1 e)\<lparr>co_caps := g (co_caps (en_av1 e))\<rparr>\<rparr>
      else e\<lparr>en_h264 := (en_h264 e)\<lparr>co_caps := g (co_caps (en_h264 e))\<rparr>\<rparr>)"

definition caps_of :: "int \<Rightarrow> encoder_t \<Rightarrow> codec_caps" where
  "caps_of format e =
     co_caps (if format = 1 then en_hevc e else if format = 2 then en_av1 e else en_h264 e)"

text \<open>\<open>a & VUI_PARAMS && b & VUI_PARAMS\<close>: of \<open>-1\<close> every bit is set.\<close>

definition vui_bit :: "int \<Rightarrow> int \<Rightarrow> bool" where
  "vui_bit a b \<longleftrightarrow> a AND VUI_PARAMS \<noteq> 0 \<and> b AND VUI_PARAMS \<noteq> 0"

text \<open>The first part: is the encoder there at all, for H.264?\<close>

definition probe_h264 ::
    "probe_answers \<Rightarrow> video_t \<Rightarrow> bool \<Rightarrow> encoder_t \<Rightarrow> (int \<times> encoder_t) option outcome" where
  "probe_h264 P V expect_failure e =
     (let cfg_max = probe_config 1 1 0 0 0; cfg_auto = probe_config 0 1 0 0 0 in
      obind (if expect_failure then Made (- 1) else validate_config (pa_trial P (Ask_Max 0)) V e cfg_max)
      (\<lambda>max1. obind (if max1 \<ge> 0 then Made max1
                     else validate_config (pa_trial P (Ask_Auto 0)) V e cfg_auto)
      (\<lambda>auto. if auto < 0 then Made None
        else obind (if expect_failure then validate_config (pa_trial P Ask_Max_Late) V e cfg_max
                    else Made max1)
        (\<lambda>max2. Made (Some (max2, upd_codec 0 (\<lambda>c. c\<lparr>cap_VUI_PARAMETERS := vui_bit max2 auto,
                   cap_REF_FRAMES_RESTRICT := (max2 \<ge> 0), cap_PASSED := True\<rparr>) e))))))"

text \<open>HEVC and AV1, when they are to be tested; \<open>max_h264\<close> is the result for H.264.\<close>

definition probe_codec ::
    "probe_answers \<Rightarrow> video_t \<Rightarrow> int \<Rightarrow> bool \<Rightarrow> int \<Rightarrow> encoder_t \<Rightarrow> encoder_t outcome" where
  "probe_codec P V format test max_h264 e =
     (let cfg_max = probe_config 1 1 format 0 0; cfg_auto = probe_config 0 1 format 0 0 in
      if \<not> test \<or> \<not> pa_supported P (Ask_Auto format) then Made (upd_codec format (\<lambda>_. no_caps) e)
      else obind (validate_config (pa_trial P (Ask_Max format)) V e cfg_max)
      (\<lambda>max1. obind (if max1 \<ge> 0 \<or> max_h264 \<ge> 0 then Made max1
                     else validate_config (pa_trial P (Ask_Auto format)) V e cfg_auto)
      (\<lambda>auto. Made (upd_codec format (\<lambda>c. c\<lparr>cap_VUI_PARAMETERS := vui_bit max1 auto,
                 cap_REF_FRAMES_RESTRICT := (max1 \<ge> 0), cap_PASSED := (max1 \<ge> 0 \<or> auto \<ge> 0)\<rparr>) e))))"

definition probe_h264_444 :: "probe_answers \<Rightarrow> video_t \<Rightarrow> encoder_t \<Rightarrow> encoder_t outcome" where
  "probe_h264_444 P V e =
     (if has_flag e YUV444_SUPPORT \<and> pa_supported P Ask_H264_444
      then obind (validate_config (pa_trial P Ask_H264_444) V e (probe_config 0 1 0 0 1))
             (\<lambda>r. Made (upd_codec 0 (\<lambda>c. c\<lparr>cap_YUV444 := (r \<ge> 0)\<rparr>) e))
      else Made (upd_codec 0 (\<lambda>c. c\<lparr>cap_YUV444 := False\<rparr>) e))"

definition test_hdr_and_yuv444 :: "probe_answers \<Rightarrow> video_t \<Rightarrow> int \<Rightarrow> encoder_t \<Rightarrow> encoder_t outcome" where
  "test_hdr_and_yuv444 P V format e =
     (if \<not> cap_PASSED (caps_of format e) then Made e
      else obind (if has_flag e YUV444_SUPPORT \<and> pa_supported P (Ask_Hdr_444 format)
                  then validate_config (pa_trial P (Ask_Hdr_444 format)) V e (probe_config 0 3 format 1 1)
                  else Made (- 1))
      (\<lambda>r444. if r444 \<ge> 0
        then Made (upd_codec format (\<lambda>c. c\<lparr>cap_DYNAMIC_RANGE := True, cap_YUV444 := True\<rparr>) e)
        else (let e1 = upd_codec format (\<lambda>c. c\<lparr>cap_YUV444 := False\<rparr>) e in
              obind (if pa_supported P (Ask_Hdr format)
                     then validate_config (pa_trial P (Ask_Hdr format)) V e1 (probe_config 0 3 format 1 0)
                     else Made (- 1))
              (\<lambda>r. Made (upd_codec format (\<lambda>c. c\<lparr>cap_DYNAMIC_RANGE := (r \<ge> 0)\<rparr>) e1)))))"

definition mask_vui :: "bool \<Rightarrow> codec_caps \<Rightarrow> codec_caps" where
  "mask_vui force_replace c = c\<lparr>cap_VUI_PARAMETERS := (cap_VUI_PARAMETERS c \<and> \<not> force_replace)\<rparr>"

text \<open>
  Whether the encoder will do, and what it can do then. The mode of a codec is 0 where the host
  decides, 1 where it is off, 2 where it is wanted and 3 where it is wanted with HDR.
\<close>

definition validate_encoder ::
    "probe_answers \<Rightarrow> video_t \<Rightarrow> bool \<Rightarrow> int \<Rightarrow> int \<Rightarrow> bool \<Rightarrow> encoder_t \<Rightarrow> (bool \<times> encoder_t) outcome" where
  "validate_encoder P V force_replace hevc_mode av1_mode expect_failure encoder =
     (let test_hevc = (hevc_mode \<ge> 2 \<or> hevc_mode = 0 \<and> \<not> has_flag encoder H264_ONLY);
          test_av1 = (av1_mode \<ge> 2 \<or> av1_mode = 0 \<and> \<not> has_flag encoder H264_ONLY);
          e0 = upd_codec 0 (\<lambda>_. all_caps) (upd_codec 1 (\<lambda>_. all_caps) (upd_codec 2 (\<lambda>_. all_caps) encoder))
      in if \<not> reset_display (pa_display P) then Made (False, e0)
         else if \<not> pa_supported P (Ask_Auto 0) then Made (False, e0)
         else obind (probe_h264 P V expect_failure e0) (\<lambda>h264. case h264 of
           None \<Rightarrow> Made (False, e0)
         | Some (max_h264, e1) \<Rightarrow>
             obind (probe_codec P V 1 test_hevc max_h264 e1) (\<lambda>e2.
             obind (probe_codec P V 2 test_av1 max_h264 e2) (\<lambda>e3.
             obind (probe_h264_444 P V e3) (\<lambda>e4.
             if \<not> reset_display (pa_hdr_display P) then Made (False, e4)
             else obind (test_hdr_and_yuv444 P V 1 (upd_codec 0 (\<lambda>c. c\<lparr>cap_DYNAMIC_RANGE := False\<rparr>) e4)) (\<lambda>e5.
             obind (test_hdr_and_yuv444 P V 2 e5) (\<lambda>e6.
             Made (True, upd_codec 0 (mask_vui force_replace) (upd_codec 1 (mask_vui force_replace) e6)))))))))"

section \<open>The choice\<close>

text \<open>
  Encoders are known by their place in the table, which keeps what was found out about them.
  \<open>vs_probes\<close> counts the validations: it numbers the answers of the hardware.
\<close>

record selection_state =
  vs_encoders :: "encoder_t list"
  vs_chosen :: "nat option"
  vs_hevc_mode :: int
  vs_av1_mode :: int
  vs_ref_frames_invalidation :: bool
  vs_yuv444 :: "bool list"
  vs_probes :: nat

record probe_env =
  pn_video :: video_t
  pn_force_replace :: bool
  pn_devices :: "bool list"
  pn_reenumerate :: bool
  pn_answers :: "nat \<Rightarrow> probe_answers"

text \<open>The devices, each with whether it has information about itself, which means it is active.\<close>

definition allow_encoder_probing :: "bool list \<Rightarrow> bool" where
  "allow_encoder_probing devices \<longleftrightarrow> devices = [] \<or> list_ex (\<lambda>active. active) devices"

definition encoder_at :: "selection_state \<Rightarrow> nat \<Rightarrow> encoder_t" where
  "encoder_at s i = vs_encoders s ! i"

text \<open>A validation, with the encoder that was in use before the probe.\<close>

definition run_validation ::
    "probe_env \<Rightarrow> nat option \<Rightarrow> nat \<Rightarrow> selection_state \<Rightarrow> (bool \<times> selection_state) outcome" where
  "run_validation N previous i s =
     obind (validate_encoder (pn_answers N (vs_probes s)) (pn_video N) (pn_force_replace N)
              (vs_hevc_mode s) (vs_av1_mode s) (previous \<noteq> None \<and> previous \<noteq> Some i) (encoder_at s i))
       (\<lambda>(ok, e). Made (ok, s\<lparr>vs_encoders := (vs_encoders s)[i := e], vs_probes := Suc (vs_probes s)\<rparr>))"

definition adjusted_mode :: "int \<Rightarrow> codec_caps \<Rightarrow> int" where
  "adjusted_mode m c =
     (if m = 3 \<and> \<not> cap_DYNAMIC_RANGE c then 0
      else if m = 2 \<and> \<not> cap_PASSED c then 0 else m)"

definition adjust_encoder_constraints :: "nat \<Rightarrow> selection_state \<Rightarrow> selection_state" where
  "adjust_encoder_constraints i s =
     s\<lparr>vs_hevc_mode := adjusted_mode (vs_hevc_mode s) (caps_of 1 (encoder_at s i)),
       vs_av1_mode := adjusted_mode (vs_av1_mode s) (caps_of 2 (encoder_at s i))\<rparr>"

text \<open>The three passes over the encoders that are left; each returns those that are left after it.\<close>

definition named_pass ::
    "probe_env \<Rightarrow> nat option \<Rightarrow> nat list \<Rightarrow> selection_state \<Rightarrow> (nat list \<times> selection_state) outcome" where
  "named_pass N previous rest s =
     (case find (\<lambda>i. en_name (encoder_at s i) = v_encoder (pn_video N)) rest of
        None \<Rightarrow> Made (rest, s)
      | Some i \<Rightarrow>
          obind (run_validation N previous i s) (\<lambda>(ok, s1).
            if \<not> ok then Made (remove1 i rest, s1)
            else Made (rest, (adjust_encoder_constraints i s1)\<lparr>vs_chosen := Some i\<rparr>)))"

definition codec_lacking :: "int \<Rightarrow> codec_caps \<Rightarrow> bool" where
  "codec_lacking m c \<longleftrightarrow> m \<ge> 2 \<and> \<not> cap_PASSED c \<or> m = 3 \<and> \<not> cap_DYNAMIC_RANGE c"

fun required_pass ::
    "probe_env \<Rightarrow> nat option \<Rightarrow> nat list \<Rightarrow> selection_state \<Rightarrow> (nat list \<times> selection_state) outcome" where
  "required_pass N previous [] s = Made ([], s)"
| "required_pass N previous (i # rest) s =
     obind (run_validation N previous i s) (\<lambda>(ok, s1).
       if \<not> ok then required_pass N previous rest s1
       else if codec_lacking (vs_hevc_mode s1) (caps_of 1 (encoder_at s1 i)) \<or>
               codec_lacking (vs_av1_mode s1) (caps_of 2 (encoder_at s1 i))
       then obind (required_pass N previous rest s1) (\<lambda>(left, s2). Made (i # left, s2))
       else Made (i # rest, s1\<lparr>vs_chosen := Some i\<rparr>))"

fun any_pass ::
    "probe_env \<Rightarrow> nat option \<Rightarrow> nat list \<Rightarrow> selection_state \<Rightarrow> (nat list \<times> selection_state) outcome" where
  "any_pass N previous [] s = Made ([], s)"
| "any_pass N previous (i # rest) s =
     obind (run_validation N previous i s) (\<lambda>(ok, s1).
       if \<not> ok then any_pass N previous rest s1
       else Made (i # rest, (adjust_encoder_constraints i s1)\<lparr>vs_chosen := Some i\<rparr>))"

definition settled_mode :: "int \<Rightarrow> codec_caps \<Rightarrow> int" where
  "settled_mode m c =
     (if m = 0 then (if cap_PASSED c then (if cap_DYNAMIC_RANGE c then 3 else 2) else 1) else m)"

definition settle_encoder :: "nat \<Rightarrow> selection_state \<Rightarrow> selection_state" where
  "settle_encoder i s =
     (let e = encoder_at s i in
      s\<lparr>vs_ref_frames_invalidation := has_flag e REF_FRAMES_INVALIDATION,
        vs_yuv444 := [cap_PASSED (caps_of 0 e) \<and> cap_YUV444 (caps_of 0 e),
                      cap_PASSED (caps_of 1 e) \<and> cap_YUV444 (caps_of 1 e),
                      cap_PASSED (caps_of 2 e) \<and> cap_YUV444 (caps_of 2 e)],
        vs_hevc_mode := settled_mode (vs_hevc_mode s) (caps_of 1 e),
        vs_av1_mode := settled_mode (vs_av1_mode s) (caps_of 2 e)\<rparr>)"

definition restart_selection :: "video_t \<Rightarrow> selection_state \<Rightarrow> selection_state" where
  "restart_selection V s =
     s\<lparr>vs_chosen := None, vs_hevc_mode := v_hevc_mode V, vs_av1_mode := v_av1_mode V,
       vs_ref_frames_invalidation := False\<rparr>"

definition probe_encoders :: "probe_env \<Rightarrow> selection_state \<Rightarrow> (int \<times> selection_state) outcome" where
  "probe_encoders N s =
     (if \<not> allow_encoder_probing (pn_devices N) then Made (- 1, s)
      else if (case vs_chosen s of
                 Some i \<Rightarrow> \<not> has_flag (encoder_at s i) ALWAYS_REPROBE \<and> \<not> pn_reenumerate N
               | None \<Rightarrow> False) then Made (0, s)
      else let previous = vs_chosen s; s0 = restart_selection (pn_video N) s in
        obind (if v_encoder (pn_video N) \<noteq> [] then named_pass N previous [0..<length (vs_encoders s)] s0
               else Made ([0..<length (vs_encoders s)], s0))
        (\<lambda>(left1, s1).
        obind (if vs_chosen s1 = None \<and> (vs_hevc_mode s1 \<ge> 2 \<or> vs_av1_mode s1 \<ge> 2)
               then required_pass N previous left1 s1 else Made (left1, s1))
        (\<lambda>(left2, s2).
        obind (if vs_chosen s2 = None then any_pass N previous left2 s2 else Made (left2, s2))
        (\<lambda>(left3, s3). case vs_chosen s3 of
           None \<Rightarrow> Made (- 1, s3)
         | Some i \<Rightarrow> Made (0, settle_encoder i s3)))))"

end
