(* ===== verification/Video_Probe_Correct.thy ===== *)
theory Video_Probe_Correct
  imports Video_Probe
begin

text \<open>
  What a validation finds out about an encoder, which modes a probe settles on, and the mode of a
  codec that does not work which it keeps.
\<close>

lemma obind_Made: "obind m f = Made y \<longleftrightarrow> (\<exists>x. m = Made x \<and> f x = Made y)"
  by (cases m) auto

lemma caps_upd [simp]:
  "caps_of 0 (upd_codec 0 g e) = g (caps_of 0 e)" "caps_of 0 (upd_codec 1 g e) = caps_of 0 e"
  "caps_of 0 (upd_codec 2 g e) = caps_of 0 e" "caps_of 1 (upd_codec 0 g e) = caps_of 1 e"
  "caps_of 1 (upd_codec 1 g e) = g (caps_of 1 e)" "caps_of 1 (upd_codec 2 g e) = caps_of 1 e"
  "caps_of 2 (upd_codec 0 g e) = caps_of 2 e" "caps_of 2 (upd_codec 1 g e) = caps_of 2 e"
  "caps_of 2 (upd_codec 2 g e) = g (caps_of 2 e)"
  by (simp_all add: caps_of_def upd_codec_def)

lemma upd_codec_flags [simp]: "en_flags (upd_codec f g e) = en_flags e" "en_name (upd_codec f g e) = en_name e"
  by (simp_all add: upd_codec_def)

section \<open>A validation\<close>

lemma probe_h264_passed:
  "probe_h264 P V ef e = Made (Some (m, e')) \<Longrightarrow>
   cap_PASSED (caps_of 0 e') \<and> caps_of 1 e' = caps_of 1 e \<and> caps_of 2 e' = caps_of 2 e \<and>
   (cap_REF_FRAMES_RESTRICT (caps_of 0 e') \<longleftrightarrow> m \<ge> 0)"
  by (auto simp: probe_h264_def obind_Made Let_def split: if_splits)

lemma probe_codec_others:
  "\<lbrakk>probe_codec P V f test m e = Made e'; f \<in> {1, 2}; g \<in> {0, 1, 2}; g \<noteq> f\<rbrakk> \<Longrightarrow> caps_of g e' = caps_of g e"
  by (auto simp: probe_codec_def obind_Made Let_def split: if_splits)

lemma probe_codec_hdr:
  "\<lbrakk>probe_codec P V f True m e = Made e'; f \<in> {1, 2}; pa_supported P (Ask_Auto f)\<rbrakk> \<Longrightarrow>
   cap_DYNAMIC_RANGE (caps_of f e') = cap_DYNAMIC_RANGE (caps_of f e)"
  by (auto simp: probe_codec_def obind_Made Let_def split: if_splits)

lemma probe_h264_444_others:
  "probe_h264_444 P V e = Made e' \<Longrightarrow>
   caps_of 1 e' = caps_of 1 e \<and> caps_of 2 e' = caps_of 2 e \<and>
   cap_PASSED (caps_of 0 e') = cap_PASSED (caps_of 0 e)"
  by (auto simp: probe_h264_444_def obind_Made split: if_splits)

lemma test_hdr_others:
  "\<lbrakk>test_hdr_and_yuv444 P V f e = Made e'; f \<in> {1, 2}; g \<in> {0, 1, 2}; g \<noteq> f\<rbrakk> \<Longrightarrow>
   caps_of g e' = caps_of g e"
  by (auto simp: test_hdr_and_yuv444_def obind_Made Let_def split: if_splits)

lemma test_hdr_passed:
  "\<lbrakk>test_hdr_and_yuv444 P V f e = Made e'; f \<in> {1, 2}\<rbrakk> \<Longrightarrow>
   cap_PASSED (caps_of f e') = cap_PASSED (caps_of f e) \<and>
   (\<not> cap_PASSED (caps_of f e) \<longrightarrow> caps_of f e' = caps_of f e)"
  by (auto simp: test_hdr_and_yuv444_def obind_Made Let_def split: if_splits)

lemma mask_vui_caps [simp]:
  "cap_PASSED (mask_vui b c) = cap_PASSED c" "cap_DYNAMIC_RANGE (mask_vui b c) = cap_DYNAMIC_RANGE c"
  "cap_YUV444 (mask_vui b c) = cap_YUV444 c"
  "cap_REF_FRAMES_RESTRICT (mask_vui b c) = cap_REF_FRAMES_RESTRICT c"
  by (simp_all add: mask_vui_def)

lemma validate_encoder_steps:
  assumes "validate_encoder P V fr hm am ef encoder = Made (True, e)"
  obtains m e1 e2 e3 e4 e5 e6 where
    "probe_h264 P V ef (upd_codec 0 (\<lambda>_. all_caps) (upd_codec 1 (\<lambda>_. all_caps)
       (upd_codec 2 (\<lambda>_. all_caps) encoder))) = Made (Some (m, e1))"
    "probe_codec P V 1 (hm \<ge> 2 \<or> hm = 0 \<and> \<not> has_flag encoder H264_ONLY) m e1 = Made e2"
    "probe_codec P V 2 (am \<ge> 2 \<or> am = 0 \<and> \<not> has_flag encoder H264_ONLY) m e2 = Made e3"
    "probe_h264_444 P V e3 = Made e4"
    "test_hdr_and_yuv444 P V 1 (upd_codec 0 (\<lambda>c. c\<lparr>cap_DYNAMIC_RANGE := False\<rparr>) e4) = Made e5"
    "test_hdr_and_yuv444 P V 2 e5 = Made e6"
    "e = upd_codec 0 (mask_vui fr) (upd_codec 1 (mask_vui fr) e6)"
  using assms
  by (auto simp: validate_encoder_def Let_def obind_Made split: if_splits option.splits prod.splits)

theorem validated_h264:
  assumes "validate_encoder P V force_replace hevc_mode av1_mode expect_failure encoder = Made (True, e)"
  shows "cap_PASSED (caps_of 0 e) \<and> \<not> cap_DYNAMIC_RANGE (caps_of 0 e)"
  using assms
proof (rule validate_encoder_steps)
  fix m e1 e2 e3 e4 e5 e6
  assume s: "probe_h264 P V expect_failure (upd_codec 0 (\<lambda>_. all_caps) (upd_codec 1 (\<lambda>_. all_caps)
       (upd_codec 2 (\<lambda>_. all_caps) encoder))) = Made (Some (m, e1))"
    "probe_codec P V 1 (hevc_mode \<ge> 2 \<or> hevc_mode = 0 \<and> \<not> has_flag encoder H264_ONLY) m e1 = Made e2"
    "probe_codec P V 2 (av1_mode \<ge> 2 \<or> av1_mode = 0 \<and> \<not> has_flag encoder H264_ONLY) m e2 = Made e3"
    "probe_h264_444 P V e3 = Made e4"
    "test_hdr_and_yuv444 P V 1 (upd_codec 0 (\<lambda>c. c\<lparr>cap_DYNAMIC_RANGE := False\<rparr>) e4) = Made e5"
    "test_hdr_and_yuv444 P V 2 e5 = Made e6"
    and e: "e = upd_codec 0 (mask_vui force_replace) (upd_codec 1 (mask_vui force_replace) e6)"
  have "caps_of 0 e6 = caps_of 0 e5" "caps_of 0 e5 = (caps_of 0 e4)\<lparr>cap_DYNAMIC_RANGE := False\<rparr>"
    "caps_of 0 e3 = caps_of 0 e2" "caps_of 0 e2 = caps_of 0 e1"
    using test_hdr_others [OF s(6), of 0] test_hdr_others [OF s(5), of 0]
      probe_codec_others [OF s(2), of 0] probe_codec_others [OF s(3), of 0] by simp_all
  moreover have "cap_PASSED (caps_of 0 e4) = cap_PASSED (caps_of 0 e3)" "cap_PASSED (caps_of 0 e1)"
    using probe_h264_444_others [OF s(4)] probe_h264_passed [OF s(1)] by simp_all
  ultimately show ?thesis by (simp add: e)
qed

lemma failed_codec_hdr:
  assumes "validate_encoder P V force_replace 3 av1_mode expect_failure encoder = Made (True, e)"
    and "pa_supported P (Ask_Auto 1)" "\<not> cap_PASSED (caps_of 1 e)"
  shows "cap_DYNAMIC_RANGE (caps_of 1 e)"
  using assms(1)
proof (rule validate_encoder_steps)
  fix m e1 e2 e3 e4 e5 e6
  assume s: "probe_h264 P V expect_failure (upd_codec 0 (\<lambda>_. all_caps) (upd_codec 1 (\<lambda>_. all_caps)
       (upd_codec 2 (\<lambda>_. all_caps) encoder))) = Made (Some (m, e1))"
    "probe_codec P V 1 (2 \<le> (3::int) \<or> (3::int) = 0 \<and> \<not> has_flag encoder H264_ONLY) m e1 = Made e2"
    "probe_codec P V 2 (2 \<le> av1_mode \<or> av1_mode = 0 \<and> \<not> has_flag encoder H264_ONLY) m e2 = Made e3"
    "probe_h264_444 P V e3 = Made e4"
    "test_hdr_and_yuv444 P V 1 (upd_codec 0 (\<lambda>c. c\<lparr>cap_DYNAMIC_RANGE := False\<rparr>) e4) = Made e5"
    "test_hdr_and_yuv444 P V 2 e5 = Made e6"
    and e: "e = upd_codec 0 (mask_vui force_replace) (upd_codec 1 (mask_vui force_replace) e6)"
  have e65: "caps_of 1 e6 = caps_of 1 e5" using test_hdr_others [OF s(6), of 1] by simp
  then have "\<not> cap_PASSED (caps_of 1 e5)" using assms(3) by (simp add: e)
  then have "caps_of 1 e5 = caps_of 1 e4" using test_hdr_passed [OF s(5)] by auto
  moreover have "caps_of 1 e4 = caps_of 1 e3" using probe_h264_444_others [OF s(4)] by simp
  moreover have "caps_of 1 e3 = caps_of 1 e2" using probe_codec_others [OF s(3), of 1] by simp
  moreover have "cap_DYNAMIC_RANGE (caps_of 1 e2) = cap_DYNAMIC_RANGE (caps_of 1 e1)"
    using s(2) assms(2) by (intro probe_codec_hdr [of P V 1 m]) simp_all
  moreover have "cap_DYNAMIC_RANGE (caps_of 1 e1)" using probe_h264_passed [OF s(1)] by (simp add: all_caps_def)
  ultimately show ?thesis using e65 by (simp add: e)
qed

section \<open>The modes a probe settles on\<close>

definition mode_supported :: "int \<Rightarrow> int \<Rightarrow> codec_caps \<Rightarrow> bool" where
  "mode_supported wanted m c \<longleftrightarrow>
     m \<in> {1, 2, 3} \<and> (m = 2 \<longrightarrow> cap_PASSED c) \<and>
     (m = 3 \<longrightarrow> cap_DYNAMIC_RANGE c \<and> (cap_PASSED c \<or> wanted = 3))"

definition mode_kept :: "int \<Rightarrow> int \<Rightarrow> codec_caps \<Rightarrow> bool" where
  "mode_kept wanted m c \<longleftrightarrow> m \<in> {0, wanted} \<and> (m = 2 \<longrightarrow> cap_PASSED c) \<and> (m = 3 \<longrightarrow> cap_DYNAMIC_RANGE c)"

lemma adjusted_kept: "mode_kept m (adjusted_mode m c) c"
  by (simp add: mode_kept_def adjusted_mode_def)

lemma settled_supported:
  "\<lbrakk>mode_kept wanted m c; wanted \<in> {0..3}\<rbrakk> \<Longrightarrow> mode_supported wanted (settled_mode m c) c"
  by (auto simp: mode_kept_def mode_supported_def settled_mode_def)

lemma not_lacking_kept: "\<not> codec_lacking m c \<Longrightarrow> mode_kept m m c"
  by (auto simp: codec_lacking_def mode_kept_def)

definition selection_ok :: "video_t \<Rightarrow> selection_state \<Rightarrow> bool" where
  "selection_ok V s \<longleftrightarrow>
     (case vs_chosen s of
        None \<Rightarrow> vs_hevc_mode s = v_hevc_mode V \<and> vs_av1_mode s = v_av1_mode V
      | Some i \<Rightarrow> i < length (vs_encoders s) \<and> cap_PASSED (caps_of 0 (encoder_at s i)) \<and>
          mode_kept (v_hevc_mode V) (vs_hevc_mode s) (caps_of 1 (encoder_at s i)) \<and>
          mode_kept (v_av1_mode V) (vs_av1_mode s) (caps_of 2 (encoder_at s i)))"

lemma run_validation_facts:
  assumes "run_validation N previous i s = Made (ok, s1)" "i < length (vs_encoders s)"
  shows "length (vs_encoders s1) = length (vs_encoders s) \<and> vs_chosen s1 = vs_chosen s \<and>
    vs_hevc_mode s1 = vs_hevc_mode s \<and> vs_av1_mode s1 = vs_av1_mode s \<and>
    (ok \<longrightarrow> cap_PASSED (caps_of 0 (encoder_at s1 i)))"
  using assms validated_h264
  by (auto simp: run_validation_def obind_Made encoder_at_def)

lemma adjust_fields [simp]:
  "vs_encoders (adjust_encoder_constraints i s) = vs_encoders s"
  "vs_hevc_mode (adjust_encoder_constraints i s) = adjusted_mode (vs_hevc_mode s) (caps_of 1 (encoder_at s i))"
  "vs_av1_mode (adjust_encoder_constraints i s) = adjusted_mode (vs_av1_mode s) (caps_of 2 (encoder_at s i))"
  by (simp_all add: adjust_encoder_constraints_def)

lemma encoder_at_more [simp]:
  "encoder_at (s\<lparr>vs_chosen := c\<rparr>) i = encoder_at s i"
  "encoder_at (adjust_encoder_constraints j s) i = encoder_at s i"
  by (simp_all add: encoder_at_def)

lemma chosen_adjusted:
  assumes "run_validation N previous i s = Made (True, s1)" "i < length (vs_encoders s)"
    and "vs_chosen s = None" "selection_ok V s"
  shows "selection_ok V ((adjust_encoder_constraints i s1)\<lparr>vs_chosen := Some i\<rparr>)"
  using run_validation_facts [OF assms(1,2)] assms(2-4) adjusted_kept
  by (simp add: selection_ok_def)

lemma unchosen_ok:
  assumes "run_validation N previous i s = Made (ok, s1)" "i < length (vs_encoders s)"
    and "vs_chosen s = None" "selection_ok V s"
  shows "selection_ok V s1 \<and> vs_chosen s1 = None"
  using run_validation_facts [OF assms(1,2)] assms(3,4) by (simp add: selection_ok_def)

lemma named_pass_ok:
  assumes "named_pass N previous rest s = Made (left, s')" "set rest \<subseteq> {0..<length (vs_encoders s)}"
    and "vs_chosen s = None" "selection_ok V s"
  shows "selection_ok V s' \<and> set left \<subseteq> {0..<length (vs_encoders s')}"
proof (cases "find (\<lambda>i. en_name (encoder_at s i) = v_encoder (pn_video N)) rest")
  case None
  then show ?thesis using assms by (simp add: named_pass_def)
next
  case (Some i)
  then have "i \<in> set rest" by (metis find_Some_iff nth_mem)
  then have i: "i < length (vs_encoders s)" using assms(2) by auto
  obtain ok s1 where r: "run_validation N previous i s = Made (ok, s1)"
    using assms(1) Some by (auto simp: named_pass_def obind_Made)
  have l: "set left \<subseteq> set rest" "length (vs_encoders s') = length (vs_encoders s)"
    using assms(1) Some r run_validation_facts [OF r i] set_remove1_subset [of i rest]
    by (auto simp: named_pass_def split: if_splits)
  have "selection_ok V s'"
    using assms(1) Some r chosen_adjusted [of N previous i s s1 V] unchosen_ok [OF r i assms(3,4)] i assms(3,4)
    by (cases ok) (auto simp: named_pass_def)
  then show ?thesis using l assms(2) by auto
qed

lemma required_pass_ok:
  "\<lbrakk>required_pass N previous rest s = Made (left, s'); set rest \<subseteq> {0..<length (vs_encoders s)};
    vs_chosen s = None; selection_ok V s\<rbrakk> \<Longrightarrow>
   selection_ok V s' \<and> set left \<subseteq> {0..<length (vs_encoders s')}"
proof (induction rest arbitrary: s left)
  case (Cons i rest)
  have i: "i < length (vs_encoders s)" using Cons.prems(2) by simp
  obtain ok s1 where r: "run_validation N previous i s = Made (ok, s1)"
    using Cons.prems(1) by (auto simp: obind_Made)
  note f = run_validation_facts [OF r i]
  note u = unchosen_ok [OF r i Cons.prems(3,4)]
  have rest: "set rest \<subseteq> {0..<length (vs_encoders s1)}" using Cons.prems(2) f by auto
  define lack where "lack \<longleftrightarrow> codec_lacking (vs_hevc_mode s1) (caps_of 1 (encoder_at s1 i)) \<or>
               codec_lacking (vs_av1_mode s1) (caps_of 2 (encoder_at s1 i))"
  consider "\<not> ok" | "ok" "lack" | "ok" "\<not> lack" by blast
  then show ?case
  proof cases
    case 1
    then show ?thesis using Cons.prems(1) Cons.IH [OF _ rest] u r by simp
  next
    case 2
    then obtain left' where l: "required_pass N previous rest s1 = Made (left', s')" "left = i # left'"
      using Cons.prems(1) r by (auto simp: obind_Made lack_def)
    have same: "required_pass N previous xs t = Made (ys, t') \<Longrightarrow> set xs \<subseteq> {0..<length (vs_encoders t)} \<Longrightarrow>
        length (vs_encoders t') = length (vs_encoders t)" for xs t ys t'
    proof (induction xs arbitrary: t ys)
      case (Cons x xs)
      then obtain ok t1 where v: "run_validation N previous x t = Made (ok, t1)" by (auto simp: obind_Made)
      have "length (vs_encoders t1) = length (vs_encoders t)"
        using run_validation_facts [OF v] Cons.prems(2) by simp
      then show ?case using Cons.prems v Cons.IH [of t1] by (auto simp: obind_Made split: if_splits)
    qed simp
    show ?thesis using Cons.IH [OF l(1) rest] u l(2) i same [OF l(1) rest] f by auto
  next
    case 3
    then have "s' = s1\<lparr>vs_chosen := Some i\<rparr>" "left = i # rest"
      using Cons.prems(1) r by (auto simp: lack_def)
    then show ?thesis using 3 f u rest i not_lacking_kept
      by (auto simp: selection_ok_def lack_def)
  qed
qed simp

lemma any_pass_ok:
  "\<lbrakk>any_pass N previous rest s = Made (left, s'); set rest \<subseteq> {0..<length (vs_encoders s)};
    vs_chosen s = None; selection_ok V s\<rbrakk> \<Longrightarrow> selection_ok V s'"
proof (induction rest arbitrary: s)
  case (Cons i rest)
  have i: "i < length (vs_encoders s)" using Cons.prems(2) by simp
  obtain ok s1 where r: "run_validation N previous i s = Made (ok, s1)"
    using Cons.prems(1) by (auto simp: obind_Made)
  have rest: "set rest \<subseteq> {0..<length (vs_encoders s1)}"
    using Cons.prems(2) run_validation_facts [OF r i] by auto
  show ?case
  proof (cases ok)
    case True
    then show ?thesis using Cons.prems r i chosen_adjusted [of N previous i s s1 V] by auto
  next
    case False
    then show ?thesis
      using Cons.prems r Cons.IH [OF _ rest] unchosen_ok [OF r i Cons.prems(3,4)] by simp
  qed
qed simp

definition needs_probe :: "probe_env \<Rightarrow> selection_state \<Rightarrow> bool" where
  "needs_probe N s \<longleftrightarrow>
     (case vs_chosen s of
        Some i \<Rightarrow> has_flag (encoder_at s i) ALWAYS_REPROBE \<or> pn_reenumerate N
      | None \<Rightarrow> True)"

text \<open>
  C23: A probe that succeeds has chosen an encoder of the table that encodes H.264, and leaves a mode of
  HEVC and of AV1 between 1 and 3: with mode 2 the codec of that encoder has passed its test, and with
  mode 3 it has HDR, except that a mode 3 of the configuration may be kept by a codec that failed.
\<close>
theorem probe_modes:
  assumes "probe_encoders N s = Made (0, s')" "needs_probe N s"
    and modes: "v_hevc_mode (pn_video N) \<in> {0..3}" "v_av1_mode (pn_video N) \<in> {0..3}"
  shows "\<exists>i. vs_chosen s' = Some i \<and> i < length (vs_encoders s') \<and>
    cap_PASSED (caps_of 0 (encoder_at s' i)) \<and>
    mode_supported (v_hevc_mode (pn_video N)) (vs_hevc_mode s') (caps_of 1 (encoder_at s' i)) \<and>
    mode_supported (v_av1_mode (pn_video N)) (vs_av1_mode s') (caps_of 2 (encoder_at s' i))"
proof -
  let ?V = "pn_video N" and ?prev = "vs_chosen s"
  define s0 where "s0 = restart_selection ?V s"
  have allow: "allow_encoder_probing (pn_devices N)"
    using assms(1) by (auto simp: probe_encoders_def split: if_splits)
  have run: "probe_encoders N s =
      obind (if v_encoder ?V \<noteq> [] then named_pass N ?prev [0..<length (vs_encoders s)] s0
               else Made ([0..<length (vs_encoders s)], s0))
        (\<lambda>(left1, s1).
        obind (if vs_chosen s1 = None \<and> (vs_hevc_mode s1 \<ge> 2 \<or> vs_av1_mode s1 \<ge> 2)
               then required_pass N ?prev left1 s1 else Made (left1, s1))
        (\<lambda>(left2, s2).
        obind (if vs_chosen s2 = None then any_pass N ?prev left2 s2 else Made (left2, s2))
        (\<lambda>(left3, s3). case vs_chosen s3 of
           None \<Rightarrow> Made (- 1, s3)
         | Some i \<Rightarrow> Made (0, settle_encoder i s3))))"
    unfolding probe_encoders_def s0_def Let_def
    using allow assms(2) by (auto simp: needs_probe_def split: option.split)
  obtain left1 s1 left2 s2 left3 s3 i where
    p1: "(if v_encoder ?V \<noteq> [] then named_pass N ?prev [0..<length (vs_encoders s)] s0
          else Made ([0..<length (vs_encoders s)], s0)) = Made (left1, s1)"
    and p2: "(if vs_chosen s1 = None \<and> (vs_hevc_mode s1 \<ge> 2 \<or> vs_av1_mode s1 \<ge> 2)
          then required_pass N ?prev left1 s1 else Made (left1, s1)) = Made (left2, s2)"
    and p3: "(if vs_chosen s2 = None then any_pass N ?prev left2 s2 else Made (left2, s2)) = Made (left3, s3)"
    and i: "vs_chosen s3 = Some i" and s': "s' = settle_encoder i s3"
    using run [unfolded assms(1), symmetric] unfolding obind_Made
    by (clarsimp simp: obind_Made split: option.splits)
  have "selection_ok ?V s0" "vs_chosen s0 = None" "vs_encoders s0 = vs_encoders s"
    by (simp_all add: s0_def restart_selection_def selection_ok_def)
  then have k1: "selection_ok ?V s1 \<and> set left1 \<subseteq> {0..<length (vs_encoders s1)}"
    using p1 named_pass_ok [of N ?prev "[0..<length (vs_encoders s)]" s0 left1 s1 ?V]
    by (auto split: if_splits)
  then have k2: "selection_ok ?V s2 \<and> set left2 \<subseteq> {0..<length (vs_encoders s2)}"
    using p2 required_pass_ok [of N ?prev left1 s1 left2 s2 ?V] by (auto split: if_splits)
  then have "selection_ok ?V s3"
    using p3 any_pass_ok [of N ?prev left2 s2 left3 s3 ?V] by (auto split: if_splits)
  moreover have "encoder_at (settle_encoder i s3) j = encoder_at s3 j" for j
    by (simp add: settle_encoder_def encoder_at_def Let_def)
  moreover have "vs_chosen (settle_encoder i s3) = Some i" "vs_encoders (settle_encoder i s3) = vs_encoders s3"
    "vs_hevc_mode (settle_encoder i s3) = settled_mode (vs_hevc_mode s3) (caps_of 1 (encoder_at s3 i))"
    "vs_av1_mode (settle_encoder i s3) = settled_mode (vs_av1_mode s3) (caps_of 2 (encoder_at s3 i))"
    by (simp_all add: settle_encoder_def Let_def i)
  ultimately show ?thesis
    using i settled_supported modes unfolding s' by (auto simp: selection_ok_def)
qed

section \<open>An encoder without HEVC\<close>

definition demo_session :: session_env where
  "demo_session =
     \<lparr>se_supported = (\<lambda>_ _. True), se_find_encoder = (\<lambda>name. name = ''h264_vaapi''),
      se_d2q = (\<lambda>n. (n, 100)),
      se_fresh = \<lparr>cx_width = 0, cx_height = 0, cx_time_base = (0, 1), cx_framerate = (0, 1),
        cx_profile = PROFILE_UNKNOWN, cx_max_b_frames = 0, cx_gop_size = 12, cx_keyint_min = 25,
        cx_refs = 1, cx_closed_gop = False, cx_low_delay = False, cx_fast = False,
        cx_color_range = RANGE_MPEG, cx_color_primaries = PRI_BT709, cx_color_trc = TRC_BT709,
        cx_colorspace = SPC_BT709, cx_sw_pix_fmt = PIX_NONE, cx_pix_fmt = PIX_NONE,
        cx_hw_frames = False, cx_slices = 0, cx_thread_slice = False, cx_thread_count = 1,
        cx_rc_max_rate = 0, cx_bit_rate = 0, cx_rc_min_rate = 0, cx_rc_buffer_size = 0,
        cx_unofficial = False\<rparr>,
      se_attempt = (\<lambda>_. \<lparr>at_device_init = True, at_create = (\<lambda>_ _. True), at_prepare_fails = False,
        at_derive_fails = False, at_hwframe_fails = False, at_init_codec_options = Pair,
        at_open = (\<lambda>_ _. True)\<rparr>),
      se_device_data = False, se_hdr_metadata = None, se_software_init_fails = False,
      se_set_frame_fails = False\<rparr>"

definition demo_answers :: probe_answers where
  "demo_answers =
     \<lparr>pa_display = (\<lambda>_. True), pa_hdr_display = (\<lambda>_. True), pa_supported = (\<lambda>_. True),
      pa_trial = (\<lambda>_. \<lparr>ve_hdr_display = False, ve_device = (\<lambda>_. True), ve_session = demo_session,
        ve_image = True, ve_dummy_fails = False, ve_convert_fails = False,
        ve_make_sps_h264 = (\<lambda>_. ([], [])), ve_make_sps_hevc = (\<lambda>_. (([], []), ([], []))),
        ve_frames = [(True, [Recv_Packet \<lparr>ap_data = [1], ap_key = True, ap_pts = 1\<rparr>, Recv_Again])],
        ve_validate_sps = (\<lambda>_. True)\<rparr>)\<rparr>"

definition demo_probe :: "int \<Rightarrow> probe_env" where
  "demo_probe mode =
     \<lparr>pn_video = default_video\<lparr>v_hevc_mode := mode\<rparr>, pn_force_replace = False, pn_devices = [],
      pn_reenumerate = False, pn_answers = (\<lambda>_. demo_answers)\<rparr>"

definition demo_video_state :: selection_state where
  "demo_video_state =
     \<lparr>vs_encoders = [vaapi_encoder], vs_chosen = None, vs_hevc_mode = 0, vs_av1_mode = 0,
      vs_ref_frames_invalidation = False, vs_yuv444 = [], vs_probes = 0\<rparr>"

theorem probe_modes_witness:
  "\<exists>s'. probe_encoders (demo_probe 0) demo_video_state = Made (0, s') \<and>
     (\<exists>i. vs_chosen s' = Some i \<and> mode_supported 0 (vs_hevc_mode s') (caps_of 1 (encoder_at s' i)))"
proof -
  have "case probe_encoders (demo_probe 0) demo_video_state of Made (r, s) \<Rightarrow> r = 0 | _ \<Rightarrow> False"
    by code_simp
  then obtain s' where s': "probe_encoders (demo_probe 0) demo_video_state = Made (0, s')"
    by (auto split: outcome.splits)
  moreover have "needs_probe (demo_probe 0) demo_video_state"
    by (simp add: needs_probe_def demo_video_state_def)
  ultimately show ?thesis
    using probe_modes [OF s'] by (auto simp: demo_probe_def default_video_def)
qed

text \<open>
  C28: When HEVC fails its test on an encoder whose display says it supports it, the flag of HDR that was
  set before the tests stays: with mode 3 in the configuration the host keeps that mode and announces
  HEVC with HDR, which it cannot encode.
\<close>
theorem failed_codec_advertised:
  assumes "validate_encoder P V force_replace 3 av1_mode expect_failure encoder = Made (True, e)"
    and "pa_supported P (Ask_Auto 1)" "\<not> cap_PASSED (caps_of 1 e)"
    and "encoder_at s i = e" "vs_hevc_mode s = 3"
  shows "vs_hevc_mode (settle_encoder i (adjust_encoder_constraints i s)) = 3"
  using failed_codec_hdr [OF assms(1-3)] assms(4,5)
  by (simp add: settle_encoder_def Let_def adjusted_mode_def settled_mode_def)

theorem failed_codec_advertised_witness:
  "\<exists>e. validate_encoder demo_answers default_video False 3 0 False vaapi_encoder = Made (True, e) \<and>
     \<not> cap_PASSED (caps_of 1 e) \<and>
     vs_hevc_mode (settle_encoder 0 (adjust_encoder_constraints 0
       (demo_video_state\<lparr>vs_encoders := [e], vs_hevc_mode := 3\<rparr>))) = 3"
proof -
  have "case validate_encoder demo_answers default_video False 3 0 False vaapi_encoder of
      Made (ok, e) \<Rightarrow> ok \<and> \<not> cap_PASSED (caps_of 1 e) | _ \<Rightarrow> False"
    by code_simp
  then obtain e where e: "validate_encoder demo_answers default_video False 3 0 False vaapi_encoder = Made (True, e)"
    "\<not> cap_PASSED (caps_of 1 e)"
    by (auto split: outcome.splits)
  then show ?thesis
    using failed_codec_advertised [OF e(1) _ e(2),
        of "demo_video_state\<lparr>vs_encoders := [e], vs_hevc_mode := 3\<rparr>" 0]
    by (simp add: demo_answers_def encoder_at_def)
qed

end
