(* ===== verification/Encode_Correct.thy ===== *)
theory Encode_Correct
  imports Video_Probe_Correct
begin

text \<open>
  What the codec is told when a session is made, and the frame rate with which making one divides by
  zero.
\<close>

lemma basics_profile_fields:
  assumes "Option.bind (ctx_basics d2q config ctx0) (ctx_profile config) = Some c"
  shows "cx_width c = vc_width config \<and> cx_height c = vc_height config \<and>
    (vc_videoFormat config = 0 \<longrightarrow> vc_dynamicRange config = 0)"
  using assms
  by (auto simp: bind_eq_Some_conv ctx_basics_def ctx_profile_def Let_def
      split: if_splits option.splits prod.splits)

lemma gop_fields [simp]:
  "cx_width (ctx_gop e c) = cx_width c" "cx_height (ctx_gop e c) = cx_height c"
  "cx_max_b_frames (ctx_gop e c) = 0"
  by (simp_all add: ctx_gop_def Let_def)

lemma refs_fields [simp]:
  "cx_width (ctx_refs k f c) = cx_width c" "cx_height (ctx_refs k f c) = cx_height c"
  "cx_max_b_frames (ctx_refs k f c) = cx_max_b_frames c"
  by (simp_all add: ctx_refs_def)

lemma device_fields:
  "ctx_device V f d config fmt a c = Some c' \<Longrightarrow>
   cx_width c' = cx_width c \<and> cx_height c' = cx_height c \<and> cx_max_b_frames c' = cx_max_b_frames c \<and>
   cx_closed_gop c' = cx_closed_gop c \<and> cx_low_delay c' = cx_low_delay c \<and>
   cx_color_range c' = cx_color_range c \<and> cx_color_primaries c' = cx_color_primaries c \<and>
   cx_color_trc c' = cx_color_trc c \<and> cx_colorspace c' = cx_colorspace c"
  by (auto simp: ctx_device_def split: if_splits)

lemma slicing_fields [simp]:
  "cx_width (ctx_slicing e c) = cx_width c" "cx_height (ctx_slicing e c) = cx_height c"
  "cx_max_b_frames (ctx_slicing e c) = cx_max_b_frames c" "cx_closed_gop (ctx_slicing e c) = cx_closed_gop c"
  "cx_low_delay (ctx_slicing e c) = cx_low_delay c" "cx_color_range (ctx_slicing e c) = cx_color_range c"
  "cx_color_primaries (ctx_slicing e c) = cx_color_primaries c"
  "cx_color_trc (ctx_slicing e c) = cx_color_trc c" "cx_colorspace (ctx_slicing e c) = cx_colorspace c"
  "cx_thread_count (ctx_slicing e c) = cx_slices (ctx_slicing e c)"
  by (simp_all add: ctx_slicing_def Let_def)

lemma rates_fields:
  "ctx_rates V e h config c = Some c' \<Longrightarrow>
   cx_width c' = cx_width c \<and> cx_height c' = cx_height c \<and> cx_max_b_frames c' = cx_max_b_frames c \<and>
   cx_closed_gop c' = cx_closed_gop c \<and> cx_low_delay c' = cx_low_delay c \<and>
   cx_color_range c' = cx_color_range c \<and> cx_color_primaries c' = cx_color_primaries c \<and>
   cx_color_trc c' = cx_color_trc c \<and> cx_colorspace c' = cx_colorspace c \<and>
   cx_slices c' = cx_slices c \<and> cx_thread_count c' = cx_thread_count c \<and>
   stream_bitrate V config = Some (cx_rc_max_rate c') \<and>
   cx_bit_rate c' = cx_rc_max_rate c' - of_bool (has_flag e CBR_WITH_VBR)"
  by (auto simp: ctx_rates_def Let_def split: option.splits if_splits)

definition named_colors :: "sunshine_colorspace_t \<Rightarrow> codec_context \<Rightarrow> bool" where
  "named_colors cs c \<longleftrightarrow>
     (case avcodec_colorspace_from_sunshine_colorspace cs of
        None \<Rightarrow> False
      | Some a \<Rightarrow> cx_color_range c = ac_range a \<and> cx_color_primaries c = ac_primaries a \<and>
          cx_color_trc c = ac_transfer_function a \<and> cx_colorspace c = ac_matrix a)"

definition low_latency :: "codec_context \<Rightarrow> bool" where
  "low_latency c \<longleftrightarrow> cx_max_b_frames c = 0 \<and> cx_closed_gop c \<and> cx_low_delay c"

lemma open_attempt_settings:
  assumes "open_attempt E V encoder config cs retries = Made (ctx, options, opened)"
    and "at_init_codec_options (se_attempt E retries) = Pair"
  shows "cx_width ctx = vc_width config \<and> cx_height ctx = vc_height config \<and> low_latency ctx \<and>
    named_colors cs ctx \<and> cx_thread_count ctx = cx_slices ctx \<and>
    stream_bitrate V config = Some (cx_rc_max_rate ctx) \<and>
    cx_bit_rate ctx = cx_rc_max_rate ctx - of_bool (has_flag encoder CBR_WITH_VBR) \<and>
    options = session_options V (codec_from_config encoder config) config retries"
proof -
  let ?codec = "codec_from_config encoder config" and ?f = "en_formats encoder"
  let ?fmt = "software_format ?f cs config" and ?a = "se_attempt E retries"
  obtain c1 a c3 c4 where
    c1: "Option.bind (ctx_basics (se_d2q E) config (se_fresh E)) (ctx_profile config) = Some c1"
    and a: "avcodec_colorspace_from_sunshine_colorspace cs = Some a"
    and c3: "ctx_device V ?f (se_device_data E) config ?fmt ?a
       (ctx_colors a ?fmt (ctx_refs (co_caps ?codec) config (ctx_gop encoder c1))) = Some c3"
    and c4: "ctx_rates V encoder (pf_base_dev_type ?f \<noteq> HW_NONE) config (ctx_slicing encoder c3) = Some c4"
    and m: "ctx = c4" "options = session_options V ?codec config retries"
    using assms by (auto simp: open_attempt_def Let_def split: option.splits)
  show ?thesis
    using basics_profile_fields [OF c1] device_fields [OF c3] rates_fields [OF c4] a m
    by (simp add: ctx_colors_def low_latency_def named_colors_def)
qed

lemma session_attempt:
  assumes "make_avcodec_encode_session E V encoder config cs = Made session"
  obtains retries ctx options where
    "open_attempt E V encoder config cs retries = Made (ctx, options, True)" "retries \<le> 1"
    "finish_session E encoder config cs ctx options = Made session"
    "retries = 1 \<Longrightarrow> co_fallback_options (codec_from_config encoder config) \<noteq> []"
proof -
  have t: "(0::nat) \<le> 1" "(1::nat) \<le> 1" by simp_all
  show thesis
    using assms that [OF _ t(1)] that [OF _ t(2)]
    by (auto simp: make_avcodec_encode_session_def Let_def split: if_splits outcome.splits prod.splits
        bool.splits list.splits)
qed



text \<open>
  C29: A client that asks for one frame per second makes the host divide by zero: the rate control of a
  software encoder with more than one slice divides the bit rate by two thirds of the frame rate, in
  whole numbers.
\<close>
theorem one_frame_per_second:
  assumes "pf_base_dev_type (en_formats encoder) = HW_NONE" "\<not> has_flag encoder NO_RC_BUF_LIMIT"
    "\<not> has_flag encoder SINGLE_SLICE_ONLY" "v_min_threads V > 1"
    and "cap_PASSED (co_caps (codec_from_config encoder config))"
    "se_supported E (co_name (codec_from_config encoder config)) config"
    "se_find_encoder E (co_name (codec_from_config encoder config))"
    and "vc_framerate config = 1" "vc_framerateX100 config = 0" "vc_dynamicRange config = 0"
    "vc_chromaSamplingType config = 0"
  shows "make_avcodec_encode_session E V encoder config (colorspace_from_client_config config hdr_display)
    = Undefined"
proof -
  let ?cs = "colorspace_from_client_config config hdr_display"
  obtain a where a: "avcodec_colorspace_from_sunshine_colorspace ?cs = Some a"
    using client_colorspace_named [of config hdr_display] by blast
  obtain c1 where c1: "Option.bind (ctx_basics (se_d2q E) config (se_fresh E)) (ctx_profile config) = Some c1"
    using assms(9,10)
    by (cases "vc_videoFormat config \<in> {0, 1, 2}") (auto simp: ctx_basics_def ctx_profile_def Let_def)
  have rates: "ctx_rates V encoder False config (ctx_slicing encoder
      (c\<lparr>cx_pix_fmt := p, cx_slices := max k (v_min_threads V)\<rparr>)) = None" for c p k
  proof -
    have "rc_buffer V encoder False config n bitrate = None" if "n > 1" for n bitrate
      using that assms(8) by (simp add: rc_buffer_def Let_def signed_divide_int_def)
    then show ?thesis
      using assms(2-4) by (simp add: ctx_rates_def ctx_slicing_def Let_def less_max_iff_disj split: option.split)
  qed
  have "open_attempt E V encoder config ?cs 0 = Undefined"
    unfolding open_attempt_def Let_def c1 option.case a ctx_device_def
    using assms(1) by (simp add: rates)
  then show ?thesis
    unfolding make_avcodec_encode_session_def Let_def using assms(5-7,10,11) by simp
qed

theorem one_frame_per_second_witness:
  "make_avcodec_encode_session (demo_session\<lparr>se_find_encoder := \<lambda>_. True\<rparr>) default_video
     (upd_codec 0 (\<lambda>_. all_caps) software_encoder)
     ((probe_config 0 1 0 0 0)\<lparr>vc_framerate := 1, vc_framerateX100 := 0\<rparr>)
     (colorspace_from_client_config ((probe_config 0 1 0 0 0)\<lparr>vc_framerate := 1, vc_framerateX100 := 0\<rparr>) False)
   = Undefined"
proof (rule one_frame_per_second)
  have "\<not> has_flag (upd_codec 0 (\<lambda>_. all_caps) software_encoder) NO_RC_BUF_LIMIT \<and>
    \<not> has_flag (upd_codec 0 (\<lambda>_. all_caps) software_encoder) SINGLE_SLICE_ONLY"
    by code_simp
  then show "\<not> has_flag (upd_codec 0 (\<lambda>_. all_caps) software_encoder) NO_RC_BUF_LIMIT"
    "\<not> has_flag (upd_codec 0 (\<lambda>_. all_caps) software_encoder) SINGLE_SLICE_ONLY" by simp_all
qed (simp_all add: software_encoder_def avcodec_formats_def upd_codec_def default_video_def
      probe_config_def codec_from_config_def all_caps_def demo_session_def)

end
