(* ===== verification/Video_Capture.thy ===== *)
theory Video_Capture
  imports Video_Probe Input_Handlers
begin

text \<open>
  Capturing in \<^verbatim>\<open>video.cpp\<close>: the list of displays and the one in use, the pool of images, the capture
  thread with the sessions that listen to it, and the loop that encodes for one session. The display
  and the other threads are arguments: what is found at each step, in order.
\<close>

section \<open>Displays\<close>

fun index_of :: "string \<Rightarrow> string list \<Rightarrow> nat option" where
  "index_of x [] = None"
| "index_of x (y # ys) = (if y = x then Some 0 else map_option Suc (index_of x ys))"

text \<open>\<open>found\<close> are the names the platform gives now; the index is \<open>-1\<close> where there is none yet.\<close>

definition refresh_displays ::
    "string \<Rightarrow> string list \<Rightarrow> string list \<Rightarrow> int \<Rightarrow> string list \<times> int" where
  "refresh_displays output_name found display_names current =
     (let current_name = (if current \<ge> 0 \<and> nat current < length display_names
                          then display_names ! nat current else [])
      in if found = [] \<and> display_names \<noteq> [] then (display_names, current)
         else let names = (if found = [] then [output_name] else found);
                  wanted = (if current_name \<noteq> [] then current_name else output_name)
              in (names, case index_of wanted names of Some x \<Rightarrow> int x | None \<Rightarrow> 0))"

definition switch_display :: "int option \<Rightarrow> string list \<Rightarrow> int \<Rightarrow> int" where
  "switch_display request display_names current =
     (case request of
        Some p \<Rightarrow> max 0 (min p (int (length display_names) - 1))
      | None \<Rightarrow> current)"

section \<open>The pool of images\<close>

text \<open>
  A slot of the pool is empty or holds an image by its number; \<open>held\<close> counts the references to an
  image outside the pool, so \<open>use_count\<close> is one more. \<open>im_stamps\<close> has, for each number of images in
  use, when it was last seen; times are in nanoseconds.
\<close>

record image_pool =
  im_slots :: "nat option list"
  im_stamps :: "int option list"
  im_next :: nat

definition capture_buffer_size :: nat where "capture_buffer_size = 12"
definition trim_timeout :: int where "trim_timeout = 3000000000"

definition empty_pool :: image_pool where
  "empty_pool = \<lparr>im_slots = replicate capture_buffer_size None, im_stamps = [], im_next = 0\<rparr>"

definition resize_list :: "nat \<Rightarrow> 'a \<Rightarrow> 'a list \<Rightarrow> 'a list" where
  "resize_list n x xs = take n xs @ replicate (n - length xs) x"

definition allocated_count :: "nat option list \<Rightarrow> nat" where
  "allocated_count slots = length (filter (\<lambda>i. i \<noteq> None) slots)"

definition in_use :: "(nat \<Rightarrow> nat) \<Rightarrow> nat option \<Rightarrow> bool" where
  "in_use held slot = (case slot of Some i \<Rightarrow> held i > 0 | None \<Rightarrow> False)"

definition used_count :: "(nat \<Rightarrow> nat) \<Rightarrow> nat option list \<Rightarrow> nat" where
  "used_count held slots = length (filter (in_use held) slots)"

text \<open>The last number of images in use that was seen within the timeout, from the current one up.\<close>

definition trim_target :: "int \<Rightarrow> int option list \<Rightarrow> nat \<Rightarrow> nat" where
  "trim_target now stamps used =
     fold (\<lambda>i target. case stamps ! i of
             Some t \<Rightarrow> if now - t < trim_timeout then i else target
           | None \<Rightarrow> target) [used..<length stamps] used"

text \<open>From the front of its argument, empties as many slots of unused images as are to be trimmed.\<close>

fun trim_slots :: "(nat \<Rightarrow> nat) \<Rightarrow> nat \<Rightarrow> nat option list \<Rightarrow> nat option list" where
  "trim_slots held to_trim [] = []"
| "trim_slots held to_trim (slot # slots) =
     (if to_trim > 0 \<and> slot \<noteq> None \<and> \<not> in_use held slot
      then None # trim_slots held (to_trim - 1) slots
      else slot # trim_slots held to_trim slots)"

definition note_used :: "int \<Rightarrow> nat \<Rightarrow> int option list \<Rightarrow> int option list" where
  "note_used now used stamps =
     (resize_list (max (length stamps) (used + 1)) None stamps)[used := Some now]"

definition trim_imgs :: "(nat \<Rightarrow> nat) \<Rightarrow> int \<Rightarrow> image_pool \<Rightarrow> image_pool" where
  "trim_imgs held now p =
     (let allocated = allocated_count (im_slots p);
          used = used_count held (im_slots p);
          stamps = note_used now used (im_stamps p);
          target = trim_target now stamps used
      in if allocated > target
         then p\<lparr>im_slots := rev (trim_slots held (allocated - target) (rev (im_slots p))),
                im_stamps := resize_list (target + 1) None stamps\<rparr>
         else p\<lparr>im_stamps := stamps\<rparr>)"

text \<open>
  One turn of the loop that looks for a free image: the first one that is allocated and not in use, or
  else the first empty slot, where the display may fail to allocate; it comes to the front. \<open>None\<close>
  where the loop sleeps and looks again.
\<close>

definition to_front :: "nat \<Rightarrow> nat option list \<Rightarrow> nat option list" where
  "to_front k slots = slots ! k # take k slots @ drop (Suc k) slots"

definition first_slot :: "(nat option \<Rightarrow> bool) \<Rightarrow> nat option list \<Rightarrow> nat option" where
  "first_slot P slots = find (\<lambda>k. P (slots ! k)) [0..<length slots]"

definition pull_free_image ::
    "(nat \<Rightarrow> nat) \<Rightarrow> bool \<Rightarrow> int \<Rightarrow> image_pool \<Rightarrow> nat option \<times> image_pool" where
  "pull_free_image held allocates now p =
     (case first_slot (\<lambda>s. s \<noteq> None \<and> \<not> in_use held s) (im_slots p) of
        Some k \<Rightarrow>
          let img = the (im_slots p ! k); p1 = p\<lparr>im_slots := to_front k (im_slots p)\<rparr>
          in (Some img, trim_imgs (held(img := Suc (held img))) now p1)
      | None \<Rightarrow>
          (case first_slot (\<lambda>s. s = None) (im_slots p) of
             Some k \<Rightarrow>
               if allocates then
                 (let img = im_next p;
                      p1 = p\<lparr>im_slots := to_front k ((im_slots p)[k := Some img]), im_next := Suc img\<rparr>
                  in (Some img, trim_imgs (held(img := Suc (held img))) now p1))
               else (None, p\<lparr>im_slots := to_front k (im_slots p)\<rparr>)
           | None \<Rightarrow> (None, p)))"

section \<open>The capture thread\<close>

text \<open>
  A session that listens: its event of images, which is running or stopped and holds at most the last
  image, and what it asked for. The queue has the sessions that are still to be taken in.
\<close>

record capture_ctx =
  cc_id :: nat
  cc_running :: bool
  cc_image :: "nat option"
  cc_config :: monitor_config

record capture_state =
  cs_ctxs :: "capture_ctx list"
  cs_queue :: "capture_ctx list"
  cs_queue_running :: bool
  cs_switch :: "int option"
  cs_names :: "string list"
  cs_display :: int
  cs_pool :: image_pool
  cs_reinit :: bool

definition raise_image :: "nat \<Rightarrow> capture_ctx \<Rightarrow> capture_ctx" where
  "raise_image img c = (if cc_running c then c\<lparr>cc_image := Some img\<rparr> else c)"

text \<open>What the callback for a captured image answers: whether to go on, and whether to start over.\<close>

definition push_captured_image ::
    "nat \<Rightarrow> bool \<Rightarrow> capture_state \<Rightarrow> bool \<times> bool \<times> capture_state" where
  "push_captured_image img frame_captured s =
     (let ctxs = filter cc_running (cs_ctxs s);
          s1 = s\<lparr>cs_ctxs := (if frame_captured then map (raise_image img) ctxs else ctxs)\<rparr>
      in if \<not> cs_queue_running s1 then (False, False, s1)
         else let s2 = s1\<lparr>cs_ctxs := cs_ctxs s1 @ cs_queue s1, cs_queue := []\<rparr>
              in if cs_switch s2 \<noteq> None then (False, True, s2) else (True, False, s2))"

text \<open>While another thread holds the display: stopped sessions go, and images that wait are freed.\<close>

definition drain_ctxs :: "capture_state \<Rightarrow> capture_state" where
  "drain_ctxs s = s\<lparr>cs_ctxs := map (\<lambda>c. c\<lparr>cc_image := None\<rparr>) (filter cc_running (cs_ctxs s))\<rparr>"

datatype capture_e = Cap_Ok | Cap_Reinit | Cap_Timeout | Cap_Interrupted | Cap_Error

text \<open>
  One try to get the display again: the names that are found, whether a display is given, and
  whether the queue is still running when the loop looks next. \<open>Undefined\<close> is the front of an empty
  list, of the sessions or, past its end, of the names.
\<close>

definition reopen_display ::
    "string \<Rightarrow> string list \<Rightarrow> capture_state \<Rightarrow> capture_state outcome" where
  "reopen_display output_name found s =
     (let (names, p) = refresh_displays output_name found (cs_names s) (cs_display s);
          p1 = switch_display (cs_switch s) names p
      in if p1 < 0 \<or> nat p1 \<ge> length names \<or> cs_ctxs s = [] then Undefined
         else Made (s\<lparr>cs_names := names, cs_display := p1, cs_switch := None\<rparr>))"

text \<open>The end of the thread: the guard stops the queue and every session that listens or waits.\<close>

definition stop_ctx :: "capture_ctx \<Rightarrow> capture_ctx" where
  "stop_ctx c = c\<lparr>cc_running := False\<rparr>"

definition capture_exit :: "capture_state \<Rightarrow> capture_state" where
  "capture_exit s = s\<lparr>cs_queue_running := False, cs_ctxs := map stop_ctx (cs_ctxs s),
     cs_queue := map stop_ctx (cs_queue s)\<rparr>"

text \<open>
  The loop that opens the display again, on the answers it gets: the names, whether a display is
  opened, and whether the queue has been stopped meanwhile. The result says whether there is a display.
\<close>

fun reopen_loop ::
    "string \<Rightarrow> (string list \<times> bool \<times> bool) list \<Rightarrow> capture_state \<Rightarrow> (bool \<times> capture_state) outcome" where
  "reopen_loop output_name [] s = Made (False, s\<lparr>cs_queue_running := False\<rparr>)"
| "reopen_loop output_name ((found, opened, stopped) # later) s =
     (if \<not> cs_queue_running s then Made (False, s)
      else case reopen_display output_name found s of
        Made s1 \<Rightarrow>
          let s2 = s1\<lparr>cs_queue_running := \<not> stopped\<rparr>
          in if opened then Made (True, s2) else reopen_loop output_name later s2
      | _ \<Rightarrow> Undefined)"

text \<open>
  A reinitialisation: the encoders are told, the pool is emptied, the sessions are drained until they
  have let the display go (\<open>drains\<close> times), and the display is opened again.
\<close>

definition reinit_capture ::
    "string \<Rightarrow> nat \<Rightarrow> (string list \<times> bool \<times> bool) list \<Rightarrow> capture_state \<Rightarrow> (bool \<times> capture_state) outcome" where
  "reinit_capture output_name drains answers s =
     (let s1 = s\<lparr>cs_reinit := True,
                 cs_pool := (cs_pool s)\<lparr>im_slots := map (\<lambda>_. None) (im_slots (cs_pool s))\<rparr>\<rparr>;
          s2 = (drain_ctxs ^^ drains) s1
      in obind (reopen_loop output_name answers s2)
           (\<lambda>(opened, s3). if opened then Made (True, s3\<lparr>cs_reinit := False\<rparr>)
                           else Made (False, capture_exit s3)))"

text \<open>What \<open>capture\<close> of the display did: the images it pushed, in order, and how it ended.\<close>

fun captured :: "(nat \<times> bool \<times> capture_ctx list \<times> int option) list \<Rightarrow> capture_state \<Rightarrow> bool \<times> capture_state" where
  "captured [] s = (False, s)"
| "captured ((img, frame_captured, arrived, request) # rest) s =
     (let s0 = s\<lparr>cs_queue := cs_queue s @ arrived,
                 cs_switch := (if request = None then cs_switch s else request)\<rparr>;
          (go_on, artificial, s1) = push_captured_image img frame_captured s0
      in if go_on then captured rest s1 else (artificial, s1))"

definition capture_round ::
    "string \<Rightarrow> (nat \<times> bool \<times> capture_ctx list \<times> int option) list \<Rightarrow> capture_e \<Rightarrow> nat \<Rightarrow>
     (string list \<times> bool \<times> bool) list \<Rightarrow> capture_state \<Rightarrow> (bool \<times> capture_state) outcome" where
  "capture_round output_name pushed status drains answers s =
     (if \<not> cs_queue_running s then Made (False, capture_exit s)
      else let (artificial_reinit, s1) = captured pushed s;
               status1 = (if artificial_reinit \<and> status \<noteq> Cap_Error then Cap_Reinit else status)
           in if status1 = Cap_Reinit then reinit_capture output_name drains answers s1
              else Made (False, capture_exit s1))"

text \<open>The start of the thread, on the first session if one comes.\<close>

definition capture_start ::
    "string \<Rightarrow> string list \<Rightarrow> bool \<Rightarrow> capture_ctx option \<Rightarrow> capture_state \<Rightarrow> (bool \<times> capture_state) outcome" where
  "capture_start output_name found opened initial s =
     (case initial of
        None \<Rightarrow> Made (False, capture_exit s)
      | Some c \<Rightarrow>
          let (names, p) = refresh_displays output_name found [] (- 1);
              s1 = s\<lparr>cs_ctxs := [c], cs_names := names, cs_display := p\<rparr>
          in if p < 0 \<or> nat p \<ge> length names then Undefined
             else if opened then Made (True, s1\<lparr>cs_pool := empty_pool\<rparr>)
             else Made (False, capture_exit s1))"

section \<open>Encoding for a session\<close>

text \<open>The calls that \<open>encode_run\<close> makes on the encoder session, and what a turn of its loop finds.\<close>

datatype session_call =
  SC_Invalidate int int
| SC_Idr
| SC_Convert
| SC_Encode int "int option"
| SC_Normal

record encode_turn_env =
  tn_shutdown :: bool
  tn_images_running :: bool
  tn_reinit :: bool
  tn_invalidate :: "(int \<times> int) list"
  tn_idr :: bool
  tn_image_waiting :: bool
  tn_image :: "int option option"
  tn_still_running :: bool
  tn_convert_fails :: bool
  tn_encode_fails :: bool

record encode_run_state =
  er_frame_nr :: int
  er_calls :: "session_call list"

definition call_session :: "session_call \<Rightarrow> encode_run_state \<Rightarrow> encode_run_state" where
  "call_session c s = s\<lparr>er_calls := er_calls s @ [c]\<rparr>"

text \<open>The end of a turn: the frame is encoded, with its time, and the next one is an ordinary frame again.\<close>

definition encode_frame :: "encode_turn_env \<Rightarrow> int option \<Rightarrow> encode_run_state \<Rightarrow> bool \<times> encode_run_state" where
  "encode_frame t timestamp s =
     (let s1 = (call_session (SC_Encode (er_frame_nr s) timestamp) s)\<lparr>er_frame_nr := er_frame_nr s + 1\<rparr>
      in if tn_encode_fails t then (False, s1) else (True, call_session SC_Normal s1))"

definition encode_turn :: "encode_turn_env \<Rightarrow> encode_run_state \<Rightarrow> bool \<times> encode_run_state" where
  "encode_turn t s =
     (if tn_shutdown t \<or> \<not> tn_images_running t \<or> tn_reinit t \<and> er_frame_nr s > 1 then (False, s)
      else let s1 = fold (\<lambda>(first, last). call_session (SC_Invalidate first last)) (tn_invalidate t) s;
               s2 = (if tn_idr t then call_session SC_Idr s1 else s1)
           in if \<not> tn_idr t \<or> tn_image_waiting t then
                (case tn_image t of
                   Some timestamp \<Rightarrow>
                     let s3 = call_session SC_Convert s2
                     in if tn_convert_fails t then (False, s3) else encode_frame t timestamp s3
                 | None \<Rightarrow> if \<not> tn_still_running t then (False, s2) else encode_frame t None s2)
              else encode_frame t None s2)"

fun encode_turns :: "encode_turn_env list \<Rightarrow> encode_run_state \<Rightarrow> encode_run_state" where
  "encode_turns [] s = s"
| "encode_turns (t # ts) s = (case encode_turn t s of (True, s1) \<Rightarrow> encode_turns ts s1 | (False, s1) \<Rightarrow> s1)"

text \<open>\<open>made\<close> is whether the session was made, \<open>dummy\<close> whether there is a blank image to start from.\<close>

definition encode_run ::
    "bool \<Rightarrow> bool \<Rightarrow> bool \<Rightarrow> encode_turn_env list \<Rightarrow> encode_run_state \<Rightarrow> encode_run_state" where
  "encode_run made dummy convert_fails turns s =
     (if \<not> made \<or> \<not> dummy then s
      else let s1 = call_session SC_Convert s
           in if convert_fails then s1 else encode_turns turns s1)"

text \<open>
  A session of FFmpeg keeps whether the next frame is to be a key frame: \<open>session_flag\<close> is that flag
  after a call. Reference frames cannot be invalidated there, so a key frame is asked for.
\<close>

definition session_flag :: "session_call \<Rightarrow> bool \<Rightarrow> bool" where
  "session_flag c flag =
     (case c of SC_Idr \<Rightarrow> True | SC_Invalidate _ _ \<Rightarrow> True | SC_Normal \<Rightarrow> False | _ \<Rightarrow> flag)"

section \<open>What the client is told\<close>

record display_info =
  di_width :: int
  di_height :: int
  di_offset_x :: int
  di_offset_y :: int
  di_env_width :: int
  di_env_height :: int
  di_logical_width :: int
  di_logical_height :: int
  di_env_logical_width :: int
  di_env_logical_height :: int

definition f_min :: "fpu \<Rightarrow> f32 \<Rightarrow> f32 \<Rightarrow> f32" where
  "f_min F a b = (if f_less F b a then b else a)"

definition make_port :: "fpu \<Rightarrow> display_info \<Rightarrow> monitor_config \<Rightarrow> touch_port" where
  "make_port F d config =
     (let wd = f_int F (di_width d); hd = f_int F (di_height d);
          wt = f_int F (vc_width config); ht = f_int F (vc_height config);
          scalar = f_min F (f_div F wt wd) (f_div F ht hd);
          logical = (di_logical_width d \<noteq> 0 \<and> di_logical_height d \<noteq> 0 \<and>
                     di_env_logical_width d \<noteq> 0 \<and> di_env_logical_height d \<noteq> 0);
          scalar_tpcoords = (if logical
            then f_min F (f_div F wd (f_int F (di_logical_width d))) (f_div F hd (f_int F (di_logical_height d)))
            else f_int F 1);
          w2 = f_mul F scalar wd; h2 = f_mul F scalar hd;
          half = f_div F (f_int F 1) (f_int F 2)
      in \<lparr>tp_offset_x = di_offset_x d, tp_offset_y = di_offset_y d,
          tp_width = vc_width config, tp_height = vc_height config,
          tp_env_width = di_env_width d, tp_env_height = di_env_height d,
          tp_client_offsetX = f_mul F (f_sub F wt w2) half,
          tp_client_offsetY = f_mul F (f_sub F ht h2) half,
          tp_scalar_inv = f_div F (f_int F 1) scalar, tp_scalar_tpcoords = scalar_tpcoords,
          tp_env_logical_width = (if logical then di_env_logical_width d else 0),
          tp_env_logical_height = (if logical then di_env_logical_height d else 0)\<rparr>)"

text \<open>HDR is announced where the colour space has it and the display gives its metadata.\<close>

definition hdr_info_of :: "sunshine_colorspace_t \<Rightarrow> hdr_metadata_t option \<Rightarrow> hdr_metadata_t option" where
  "hdr_info_of cs metadata = (if colorspace_is_hdr cs then metadata else None)"

end
