(* ===== verification/Capture_Correct.thy ===== *)
theory Capture_Correct
  imports Video_Capture "HOL-Library.Multiset"
begin

text \<open>
  The display in use is one of the list, a free image is free, the sessions are stopped with the
  capture thread, and a key frame that is asked for is the next frame that is encoded.
\<close>

lemma some_bool [simp]: "\<exists>b. b" "\<exists>b. \<not> b"
  by (rule exI [of _ True], simp) (rule exI [of _ False], simp)

section \<open>Displays\<close>

lemma index_of_less: "index_of x ys = Some k \<Longrightarrow> k < length ys \<and> ys ! k = x"
  by (induction ys arbitrary: k) (auto split: if_splits)

lemma refresh_in_range:
  assumes "refresh_displays output_name found old i = (names, p)"
    and "old = [] \<or> 0 \<le> i \<and> nat i < length old"
  shows "0 \<le> p \<and> nat p < length names"
  using assms
  by (auto simp: refresh_displays_def Let_def split: if_splits option.splits dest: index_of_less)

lemma refresh_keeps_name:
  assumes "refresh_displays output_name found old i = (names, p)"
    and "0 \<le> i" "nat i < length old" "old ! nat i \<noteq> []" "old ! nat i \<in> set found"
  shows "names ! nat p = old ! nat i"
proof -
  have "x \<in> set ys \<Longrightarrow> \<exists>k. index_of x ys = Some k" for x and ys :: "string list"
    by (induction ys) auto
  then obtain k where k: "index_of (old ! nat i) found = Some k" using assms(5) by blast
  then show ?thesis using assms index_of_less [OF k]
    by (auto simp: refresh_displays_def Let_def split: if_splits)
qed

lemma switch_in_range:
  "0 \<le> p \<and> nat p < length names \<Longrightarrow>
   0 \<le> switch_display r names p \<and> nat (switch_display r names p) < length names"
  by (auto simp: switch_display_def split: option.split)

definition display_ok :: "capture_state \<Rightarrow> bool" where
  "display_ok s \<longleftrightarrow> 0 \<le> cs_display s \<and> nat (cs_display s) < length (cs_names s)"

lemma reopen_display_ok:
  assumes "display_ok s"
  shows "case reopen_display output_name found s of
      Made s' \<Rightarrow> display_ok s' \<and> cs_ctxs s' = cs_ctxs s \<and> cs_queue s' = cs_queue s
    | _ \<Rightarrow> cs_ctxs s = []"
proof -
  obtain names p where r: "refresh_displays output_name found (cs_names s) (cs_display s) = (names, p)"
    by (cases "refresh_displays output_name found (cs_names s) (cs_display s)")
  have "0 \<le> p \<and> nat p < length names"
    using refresh_in_range [OF r] assms by (simp add: display_ok_def)
  from switch_in_range [OF this, of "cs_switch s"]
  show ?thesis by (auto simp: reopen_display_def r Let_def display_ok_def)
qed

lemma reopen_loop_ok:
  "\<lbrakk>display_ok s; cs_ctxs s \<noteq> []\<rbrakk> \<Longrightarrow>
   \<exists>opened s'. reopen_loop output_name answers s = Made (opened, s') \<and> display_ok s' \<and>
     cs_ctxs s' = cs_ctxs s \<and> cs_queue s' = cs_queue s"
proof (induction answers arbitrary: s)
  case Nil
  then show ?case by (simp add: display_ok_def)
next
  case (Cons a answers)
  obtain found opened stopped where a: "a = (found, opened, stopped)" by (cases a)
  obtain s1 where s1: "reopen_display output_name found s = Made s1" "display_ok s1"
    "cs_ctxs s1 = cs_ctxs s" "cs_queue s1 = cs_queue s"
    using reopen_display_ok [OF Cons.prems(1), of output_name found] Cons.prems(2)
    by (auto split: outcome.splits)
  have "display_ok (s1\<lparr>cs_queue_running := r\<rparr>)" for r using s1(2) by (simp add: display_ok_def)
  then show ?case
    using Cons.IH [of "s1\<lparr>cs_queue_running := \<not> stopped\<rparr>"] Cons.prems s1 a by (simp add: Let_def)
qed

lemma push_display [simp]:
  "push_captured_image img fc s = (g, a, s') \<Longrightarrow> display_ok s' = display_ok s"
  by (auto simp: push_captured_image_def Let_def display_ok_def split: if_splits)

lemma captured_display: "captured pushed s = (a, s') \<Longrightarrow> display_ok s' = display_ok s"
proof (induction pushed arbitrary: s)
  case (Cons p pushed)
  obtain img fc arrived request where p: "p = (img, fc, arrived, request)" by (cases p)
  let ?s0 = "s\<lparr>cs_queue := cs_queue s @ arrived,
       cs_switch := (if request = None then cs_switch s else request)\<rparr>"
  obtain g b s1 where r: "push_captured_image img fc ?s0 = (g, b, s1)"
    by (cases "push_captured_image img fc ?s0")
  have "display_ok s1 = display_ok s" using push_display [OF r] by (simp add: display_ok_def)
  then show ?case using Cons r by (auto simp: p Let_def split: if_splits)
qed simp

lemma drain_fields:
  "display_ok ((drain_ctxs ^^ n) s) = display_ok s"
  "cs_queue ((drain_ctxs ^^ n) s) = cs_queue s"
  by (induction n) (simp_all add: drain_ctxs_def display_ok_def)

section \<open>The end of the thread\<close>

definition all_stopped :: "capture_state \<Rightarrow> bool" where
  "all_stopped s \<longleftrightarrow> \<not> cs_queue_running s \<and> (\<forall>c \<in> set (cs_ctxs s @ cs_queue s). \<not> cc_running c)"

lemma exit_stopped: "all_stopped (capture_exit s)"
  by (auto simp: all_stopped_def capture_exit_def stop_ctx_def)

lemma exit_display [simp]: "display_ok (capture_exit s) = display_ok s"
  by (simp add: display_ok_def capture_exit_def)

text \<open>The session list of a thread that starts over: the front is taken of it.\<close>

definition has_session :: "nat \<Rightarrow> (nat \<times> bool \<times> capture_ctx list \<times> int option) list \<Rightarrow> capture_state \<Rightarrow> bool" where
  "has_session drains pushed s \<longleftrightarrow> cs_ctxs ((drain_ctxs ^^ drains) (snd (captured pushed s))) \<noteq> []"

lemma drain_ctxs_only [simp]:
  "cs_ctxs ((drain_ctxs ^^ n) (s\<lparr>cs_reinit := b, cs_pool := p\<rparr>)) = cs_ctxs ((drain_ctxs ^^ n) s)"
  by (induction n) (simp_all add: drain_ctxs_def)

text \<open>
  C26: A round of the capture thread leaves the display in use one of the names it has, whatever displays
  appear or go, and when the thread ends, for whatever reason, its queue and every session that listens
  or still waits are stopped; a session must be left when the display is opened again.
\<close>
theorem capture_round_ok:
  assumes "display_ok s" "has_session drains pushed s"
  shows "\<exists>go_on s'. capture_round output_name pushed status drains answers s = Made (go_on, s') \<and>
    display_ok s' \<and> (go_on \<or> all_stopped s')"
proof (cases "cs_queue_running s")
  case False
  then show ?thesis using assms(1) by (simp add: capture_round_def exit_stopped)
next
  case True
  obtain a s1 where c: "captured pushed s = (a, s1)" by (cases "captured pushed s")
  have d1: "display_ok s1" using captured_display [OF c] assms(1) by simp
  show ?thesis
  proof (cases "(if a \<and> status \<noteq> Cap_Error then Cap_Reinit else status) = Cap_Reinit")
    case False
    then show ?thesis using True c d1 by (simp add: capture_round_def exit_stopped)
  next
    case reinit: True
    define s2 where "s2 = (drain_ctxs ^^ drains) (s1\<lparr>cs_reinit := True,
        cs_pool := (cs_pool s1)\<lparr>im_slots := map (\<lambda>_. None) (im_slots (cs_pool s1))\<rparr>\<rparr>)"
    have "display_ok s2" unfolding s2_def drain_fields using d1 by (simp add: display_ok_def)
    moreover have "cs_ctxs s2 \<noteq> []"
      using assms(2) c by (simp add: s2_def has_session_def)
    ultimately obtain opened s3 where r: "reopen_loop output_name answers s2 = Made (opened, s3)" "display_ok s3"
      using reopen_loop_ok by blast
    have "reinit_capture output_name drains answers s1 =
        (if opened then Made (True, s3\<lparr>cs_reinit := False\<rparr>) else Made (False, capture_exit s3))"
      unfolding reinit_capture_def Let_def s2_def [symmetric] by (simp add: r)
    moreover have "display_ok (s3\<lparr>cs_reinit := False\<rparr>)" using r(2) by (simp add: display_ok_def)
    ultimately show ?thesis
      using True c reinit r(2) by (cases opened) (auto simp: capture_round_def exit_stopped)
  qed
qed

definition demo_ctx :: "nat \<Rightarrow> capture_ctx" where
  "demo_ctx i = \<lparr>cc_id = i, cc_running = True, cc_image = None, cc_config = probe_config 0 1 0 0 0\<rparr>"

definition demo_capture :: capture_state where
  "demo_capture = \<lparr>cs_ctxs = [demo_ctx 1], cs_queue = [], cs_queue_running = True, cs_switch = None,
     cs_names = [''DP-1'', ''DP-2''], cs_display = 1, cs_pool = empty_pool, cs_reinit = False\<rparr>"

theorem capture_round_ok_witness:
  "\<exists>go_on s'. capture_round [] [(7, True, [demo_ctx 2], None)] Cap_Reinit 1
       [([''DP-3''], True, False)] demo_capture = Made (go_on, s') \<and>
     display_ok s' \<and> (go_on \<or> all_stopped s')"
proof (rule capture_round_ok)
  show "display_ok demo_capture" by (simp add: display_ok_def demo_capture_def)
  show "has_session 1 [(7, True, [demo_ctx 2], None)] demo_capture"
    by (simp add: has_session_def demo_capture_def demo_ctx_def push_captured_image_def
        raise_image_def drain_ctxs_def Let_def)
qed

text \<open>Without one, the front of an empty list is taken.\<close>

lemma no_session_undefined:
  assumes "cs_queue_running s" "captured pushed s = (a, s1)" "cs_queue_running s1"
    and "\<not> has_session drains pushed s"
  shows "capture_round output_name pushed Cap_Reinit drains ((found, opened, stopped) # later) s = Undefined"
proof -
  let ?s2 = "(drain_ctxs ^^ drains) (s1\<lparr>cs_reinit := True,
        cs_pool := (cs_pool s1)\<lparr>im_slots := map (\<lambda>_. None) (im_slots (cs_pool s1))\<rparr>\<rparr>)"
  have r: "cs_queue_running ((drain_ctxs ^^ n) t) = cs_queue_running t" for n t
    by (induction n) (simp_all add: drain_ctxs_def)
  have "cs_ctxs ?s2 = []" using assms(2,4) by (simp add: has_session_def)
  then have "reopen_display output_name found ?s2 = Undefined"
    by (simp add: reopen_display_def Let_def split: prod.split)
  then have "reopen_loop output_name ((found, opened, stopped) # later) ?s2 = Undefined"
    using assms(3) by (simp add: r)
  then show ?thesis
    using assms(1,2) by (simp add: capture_round_def reinit_capture_def Let_def)
qed

section \<open>Images\<close>

lemma first_slot_Some: "first_slot P slots = Some k \<Longrightarrow> k < length slots \<and> P (slots ! k)"
  by (auto simp: first_slot_def find_Some_iff)

lemma to_front_mset: "k < length slots \<Longrightarrow> mset (to_front k slots) = mset slots"
  by (simp add: to_front_def id_take_nth_drop [symmetric] flip: mset.simps mset_append)
     (metis Cons_nth_drop_Suc append_take_drop_id mset.simps(2) mset_append union_mset_add_mset_right)

definition images :: "nat option list \<Rightarrow> nat option list" where
  "images slots = filter (\<lambda>i. i \<noteq> None) slots"

definition pool_ok :: "(nat \<Rightarrow> nat) \<Rightarrow> image_pool \<Rightarrow> bool" where
  "pool_ok held p \<longleftrightarrow> length (im_slots p) = capture_buffer_size \<and> distinct (images (im_slots p)) \<and>
     (\<forall>i. Some i \<in> set (im_slots p) \<or> held i > 0 \<longrightarrow> i < im_next p)"

lemma trim_slots_facts:
  "length (trim_slots held n slots) = length slots \<and>
   (\<forall>x \<in> set (trim_slots held n slots). x = None \<or> x \<in> set slots) \<and>
   (\<forall>x \<in> set slots. in_use held x \<longrightarrow> x \<in> set (trim_slots held n slots)) \<and>
   (distinct (images slots) \<longrightarrow> distinct (images (trim_slots held n slots)))"
proof (induction slots arbitrary: n)
  case (Cons x slots)
  have "set (images (trim_slots held n slots)) \<subseteq> set (images slots)" for n
    using Cons.IH [of n] by (auto simp: images_def)
  then show ?case using Cons.IH [of n] Cons.IH [of "n - 1"]
    by (auto simp: images_def in_use_def split: option.splits)
qed simp

lemma used_le_allocated: "used_count held slots \<le> allocated_count slots"
proof -
  have "filter (in_use held) slots = filter (in_use held) (images slots)"
    unfolding images_def filter_filter
    by (rule filter_cong) (auto simp: in_use_def split: option.splits)
  then show ?thesis by (metis allocated_count_def images_def length_filter_le used_count_def)
qed

lemma trim_slots_count:
  "allocated_count (trim_slots held n slots) + min n (allocated_count slots - used_count held slots) =
   allocated_count slots"
proof (induction slots arbitrary: n)
  case (Cons x slots)
  show ?case using Cons.IH [of n] Cons.IH [of "n - 1"] used_le_allocated [of held slots]
    by (auto simp: allocated_count_def used_count_def in_use_def split: option.splits)
qed (simp add: allocated_count_def)

lemma trim_target_ge: "used \<le> trim_target now stamps used"
proof -
  have "used \<le> fold (\<lambda>i target. case stamps ! i of
             Some t \<Rightarrow> if now - t < trim_timeout then i else target
           | None \<Rightarrow> target) is target"
    if "used \<le> target" "\<forall>i \<in> set is. used \<le> i" for "is" target
    using that by (induction "is" arbitrary: target) (auto split: option.split)
  then show ?thesis by (simp add: trim_target_def)
qed

lemma trim_imgs_facts:
  "length (im_slots (trim_imgs held now p)) = length (im_slots p) \<and> im_next (trim_imgs held now p) = im_next p \<and>
   (\<forall>x \<in> set (im_slots (trim_imgs held now p)). x = None \<or> x \<in> set (im_slots p)) \<and>
   (\<forall>x \<in> set (im_slots p). in_use held x \<longrightarrow> x \<in> set (im_slots (trim_imgs held now p))) \<and>
   (distinct (images (im_slots p)) \<longrightarrow> distinct (images (im_slots (trim_imgs held now p))))"
proof -
  have "images (rev slots) = rev (images slots)" for slots by (simp add: images_def rev_filter)
  then show ?thesis
    using trim_slots_facts [of held _ "rev (im_slots p)"]
    by (auto simp: trim_imgs_def Let_def)
qed

lemma trim_imgs_count:
  "allocated_count (im_slots (trim_imgs held now p)) =
     min (allocated_count (im_slots p))
       (trim_target now (note_used now (used_count held (im_slots p)) (im_stamps p))
         (used_count held (im_slots p)))"
proof -
  let ?used = "used_count held (im_slots p)" and ?all = "allocated_count (im_slots p)"
  let ?target = "trim_target now (note_used now ?used (im_stamps p)) ?used"
  have r: "allocated_count (rev slots) = allocated_count slots" "used_count held (rev slots) = used_count held slots"
    for slots by (simp_all add: allocated_count_def used_count_def flip: rev_filter)
  have t: "?used \<le> ?target" by (rule trim_target_ge)
  show ?thesis
  proof (cases "?all > ?target")
    case True
    then have "allocated_count (rev (trim_slots held (?all - ?target) (rev (im_slots p)))) = ?target"
      using trim_slots_count [of held "?all - ?target" "rev (im_slots p)"] t by (simp add: r)
    then show ?thesis using True by (simp add: trim_imgs_def Let_def)
  next
    case False
    then show ?thesis by (simp add: trim_imgs_def Let_def)
  qed
qed

lemma to_front_facts:
  assumes "k < length slots"
  shows "set (to_front k slots) = set slots" "length (to_front k slots) = length slots"
    "distinct (images (to_front k slots)) = distinct (images slots)"
proof -
  note m = to_front_mset [OF assms]
  show "set (to_front k slots) = set slots" using m by (metis set_mset_mset)
  show "length (to_front k slots) = length slots" using m by (metis size_mset)
  have "mset (images (to_front k slots)) = mset (images slots)" by (simp add: images_def m mset_filter)
  then show "distinct (images (to_front k slots)) = distinct (images slots)"
    by (rule mset_eq_imp_distinct_iff)
qed

text \<open>Filling an empty slot with a new image.\<close>

lemma fill_slot_facts:
  assumes "k < length slots" "slots ! k = None" "Some img \<notin> set slots" "distinct (images slots)"
  shows "distinct (images (slots[k := Some img])) \<and>
    (\<forall>j. Some j \<in> set (slots[k := Some img]) \<longleftrightarrow> Some j \<in> set slots \<or> j = img)"
proof -
  define a b where "a = take k slots" and "b = drop (Suc k) slots"
  have u: "slots = a @ None # b" using assms(1,2) by (metis a_def b_def id_take_nth_drop)
  have w: "slots[k := Some img] = a @ Some img # b"
    using assms(1) by (simp add: a_def b_def upd_conv_take_nth_drop)
  have n: "Some img \<notin> set a" "Some img \<notin> set b" "distinct (images a @ images b)"
    using assms(3,4) by (auto simp: u images_def)
  show ?thesis unfolding w using n by (auto simp: u images_def)
qed

lemma trim_keeps_pool:
  assumes "pool_ok held p" "\<forall>i. held i > 0 \<and> Some i \<in> S \<longrightarrow> Some i \<in> set (im_slots p)"
  shows "pool_ok held (trim_imgs held now p) \<and>
    (\<forall>i. held i > 0 \<and> Some i \<in> S \<longrightarrow> Some i \<in> set (im_slots (trim_imgs held now p)))"
  using trim_imgs_facts [of held now p] assms by (auto simp: pool_ok_def in_use_def)

text \<open>
  C25: An image that is pulled for a new frame is not in use, or has just been allocated; it is in the
  pool, which keeps its twelve slots, holds no image twice and has lost none that is in use.
\<close>
theorem pulled_image_free:
  assumes "pool_ok held p" "pull_free_image held allocates now p = (Some img, p')"
  shows "held img = 0 \<and> Some img \<in> set (im_slots p') \<and> pool_ok (held(img := 1)) p' \<and>
    (\<forall>i. held i > 0 \<and> Some i \<in> set (im_slots p) \<longrightarrow> Some i \<in> set (im_slots p'))"
proof -
  let ?held = "held(img := 1)"
  obtain p1 where p': "p' = trim_imgs ?held now p1" and img: "held img = 0" "Some img \<in> set (im_slots p1)"
    and ok: "pool_ok ?held p1" and kept: "\<forall>i. held i > 0 \<and> Some i \<in> set (im_slots p) \<longrightarrow> Some i \<in> set (im_slots p1)"
  proof (cases "first_slot (\<lambda>s. s \<noteq> None \<and> \<not> in_use held s) (im_slots p)")
    case (Some k)
    note k = first_slot_Some [OF Some]
    then have i: "im_slots p ! k = Some img" "held img = 0"
      and q: "p' = trim_imgs ?held now (p\<lparr>im_slots := to_front k (im_slots p)\<rparr>)"
      using assms(2) Some by (auto simp: pull_free_image_def Let_def in_use_def split: option.splits)
    have "Some img \<in> set (im_slots p)" using i(1) k nth_mem [of k "im_slots p"] by simp
    then show thesis using that [OF q] assms(1) i k to_front_facts by (auto simp: pool_ok_def)
  next
    case None
    then obtain k where e: "first_slot (\<lambda>s. s = None) (im_slots p) = Some k"
      and i: "img = im_next p"
      and q: "p' = trim_imgs (held(img := Suc (held img))) now
         (p\<lparr>im_slots := to_front k ((im_slots p)[k := Some img]), im_next := Suc img\<rparr>)"
      using assms(2) by (auto simp: pull_free_image_def Let_def split: option.splits if_splits)
    note k = first_slot_Some [OF e]
    have z: "held img = 0" using assms(1) i by (metis gr0I less_irrefl pool_ok_def)
    have new: "Some img \<notin> set (im_slots p)" using assms(1) i by (auto simp: pool_ok_def)
    have "distinct (images (im_slots p))" using assms(1) by (simp add: pool_ok_def)
    note fill = fill_slot_facts [OF _ _ new this, of k]
    have "distinct (images ((im_slots p)[k := Some img]))" using fill k by simp
    moreover have "k < length ((im_slots p)[k := Some img])" using k by simp
    moreover have "Some j \<in> set ((im_slots p)[k := Some img]) \<longleftrightarrow> Some j \<in> set (im_slots p) \<or> j = img" for j
      using fill k by simp
    ultimately show thesis
      using that [of "p\<lparr>im_slots := to_front k ((im_slots p)[k := Some img]), im_next := Suc img\<rparr>"]
        q z to_front_facts [of k "(im_slots p)[k := Some img]"] assms(1) i
      by (auto simp: pool_ok_def less_Suc_eq)
  qed
  define H where "H = ?held"
  have H: "H img > 0" "held i > 0 \<Longrightarrow> H i > 0" for i by (simp_all add: H_def)
  have "\<forall>i. H i > 0 \<and> Some i \<in> set (im_slots p) \<union> {Some img} \<longrightarrow> Some i \<in> set (im_slots p1)"
    using kept img by (auto simp: H_def)
  from trim_keeps_pool [OF ok [folded H_def] this, of now] show ?thesis
    unfolding p' H_def [symmetric] using img(1) H by blast
qed

theorem pulled_image_free_witness:
  "pool_ok ((\<lambda>_. 0)(0 := 1)) (snd (pull_free_image (\<lambda>_. 0) True 5 empty_pool))"
proof -
  have p: "pull_free_image (\<lambda>_. 0) True 5 empty_pool =
      (Some 0, snd (pull_free_image (\<lambda>_. 0) True 5 empty_pool))"
    by code_simp
  have "pool_ok (\<lambda>_. 0) empty_pool"
    by (simp add: pool_ok_def empty_pool_def images_def)
  from pulled_image_free [OF this p] show ?thesis by blast
qed

section \<open>Key frames\<close>

text \<open>The frames that are encoded, each with whether a key frame was asked for.\<close>

fun encoded_frames :: "bool \<Rightarrow> session_call list \<Rightarrow> (int \<times> bool) list" where
  "encoded_frames flag [] = []"
| "encoded_frames flag (c # cs) =
     (case c of SC_Encode n _ \<Rightarrow> [(n, flag)] | _ \<Rightarrow> []) @ encoded_frames (session_flag c flag) cs"

lemma encoded_append:
  "encoded_frames flag (xs @ ys) = encoded_frames flag xs @ encoded_frames (fold session_flag xs flag) ys"
  by (induction xs arbitrary: flag) auto

definition wants_key :: "encode_turn_env \<Rightarrow> bool" where
  "wants_key t \<longleftrightarrow> tn_idr t \<or> tn_invalidate t \<noteq> []"

lemma invalidate_calls:
  "fold (\<lambda>(first, last). call_session (SC_Invalidate first last)) fs s =
   s\<lparr>er_calls := er_calls s @ map (\<lambda>(first, last). SC_Invalidate first last) fs\<rparr>"
  by (induction fs arbitrary: s) (auto simp: call_session_def)

lemma invalidate_flag:
  "fold session_flag (map (\<lambda>(first, last). SC_Invalidate first last) fs) flag = (flag \<or> fs \<noteq> [])"
  "encoded_frames flag (map (\<lambda>(first, last). SC_Invalidate first last) fs) = []"
  by (induction fs arbitrary: flag) (auto simp: session_flag_def split: prod.splits)

lemma encode_turn_calls:
  assumes "encode_turn t s = (go_on, s')"
  shows "\<exists>cs. er_calls s' = er_calls s @ cs \<and>
    (encoded_frames False cs = [] \<and> er_frame_nr s' = er_frame_nr s \<and> \<not> go_on \<or>
     encoded_frames False cs = [(er_frame_nr s, wants_key t)] \<and> er_frame_nr s' = er_frame_nr s + 1 \<and>
     (go_on \<longrightarrow> \<not> fold session_flag cs False))"
  using assms
  by (auto simp: encode_turn_def encode_frame_def call_session_def invalidate_calls invalidate_flag
      encoded_append session_flag_def wants_key_def Let_def split: if_splits option.splits)

lemma encode_turns_calls:
  "\<exists>cs k. er_calls (encode_turns ts s) = er_calls s @ cs \<and> k \<le> length ts \<and>
     er_frame_nr (encode_turns ts s) = er_frame_nr s + int k \<and>
     encoded_frames False cs =
       map (\<lambda>i. (er_frame_nr s + int i, wants_key (ts ! i))) [0..<k]"
proof (induction ts arbitrary: s)
  case Nil
  show ?case by (rule exI [of _ "[]"], rule exI [of _ 0]) simp
next
  case (Cons t ts)
  obtain go_on s1 where t: "encode_turn t s = (go_on, s1)" by (cases "encode_turn t s")
  obtain cs where cs: "er_calls s1 = er_calls s @ cs"
    and alt: "encoded_frames False cs = [] \<and> er_frame_nr s1 = er_frame_nr s \<and> \<not> go_on \<or>
     encoded_frames False cs = [(er_frame_nr s, wants_key t)] \<and> er_frame_nr s1 = er_frame_nr s + 1 \<and>
     (go_on \<longrightarrow> \<not> fold session_flag cs False)"
    using encode_turn_calls [OF t] by blast
  consider "\<not> go_on" "encoded_frames False cs = []" "er_frame_nr s1 = er_frame_nr s"
    | "\<not> go_on" "encoded_frames False cs = [(er_frame_nr s, wants_key t)]" "er_frame_nr s1 = er_frame_nr s + 1"
    | "go_on" "encoded_frames False cs = [(er_frame_nr s, wants_key t)]" "er_frame_nr s1 = er_frame_nr s + 1"
      "\<not> fold session_flag cs False"
    using alt by blast
  then show ?case
  proof cases
    case 1
    then show ?thesis using t cs by (intro exI [of _ cs] exI [of _ 0]) simp
  next
    case 2
    then show ?thesis using t cs by (intro exI [of _ cs] exI [of _ 1]) simp
  next
    case 3
    obtain ds k where ds: "er_calls (encode_turns ts s1) = er_calls s1 @ ds" "k \<le> length ts"
      "er_frame_nr (encode_turns ts s1) = er_frame_nr s1 + int k"
      "encoded_frames False ds = map (\<lambda>i. (er_frame_nr s1 + int i, wants_key (ts ! i))) [0..<k]"
      using Cons.IH [of s1] by blast
    have "encoded_frames False (cs @ ds) = (er_frame_nr s, wants_key t) # encoded_frames False ds"
      using 3 by (simp add: encoded_append)
    moreover have "map (\<lambda>i. (er_frame_nr s + int i, wants_key ((t # ts) ! i))) [0..<Suc k] =
        (er_frame_nr s, wants_key t) # encoded_frames False ds"
      unfolding ds(4) upt_conv_Cons [OF zero_less_Suc] using 3
      by (simp add: map_Suc_upt [symmetric] add.assoc add.commute del: upt_Suc)
    ultimately show ?thesis using t cs ds 3
      by (intro exI [of _ "cs @ ds"] exI [of _ "Suc k"]) simp
  qed
qed


end
