(* ===== verification/Spec2Isabelle.thy ===== *)
theory Spec2Isabelle
  imports Prelude Utility Config_Parse Config_Options Config_State Config_Apply Config_Correct
    Network Thread_Safe Task_Pool Gcm_Iv Rtsp Slices Video_Packets Video_Frames
    Control Control_Correct Audio Rtsp_Commands Rtsp_Commands_Correct Pairing Pairing_Correct
    Input Input_Handlers Input_Dispatch Input_Correct Input_Held Input_Runs Input_Batching
    Env_Text Process Process_Apps Process_Correct Launch Launch_Correct
    Json Web Web_Files Web_Handlers Web_Server Web_Correct
    Colorspace Display_Device Display_Correct Encoders Encode_Session Video_Probe Video_Probe_Correct
    Encode_Correct Video_Capture Capture_Correct
begin

text \<open>
  MidnightSun, a self-hosted game-stream host: verification library.

  \<^bold>\<open>The program.\<close> The host reads its configuration (\<^verbatim>\<open>src/src/config.cpp\<close>), answers the
  client's RTSP negotiation (\<^verbatim>\<open>src/src/rtsp.cpp\<close>), and then streams: a control channel over ENet and
  video and audio packets over UDP (\<^verbatim>\<open>src/src/stream.cpp\<close>). Its threads talk through the events,
  queues, shared objects and mail of \<^verbatim>\<open>src/src/thread_safe.h\<close> and through the pool of
  \<^verbatim>\<open>src/src/task_pool.h\<close> and \<^verbatim>\<open>src/src/thread_pool.h\<close>.

  \<^bold>\<open>Foundations.\<close> Prelude holds the types of bytes, the integer conversions and the lemmas the
  components share; Slices the operations on contiguous bytes (search, overwriting, division in
  slices). Utility models \<^verbatim>\<open>hex\<close>, \<^verbatim>\<open>hex_vec\<close>, \<^verbatim>\<open>from_hex\<close>, \<^verbatim>\<open>from_hex_vec\<close> and \<^verbatim>\<open>from_chars\<close> of
  \<^verbatim>\<open>utility.h\<close>; Network the address classes, ports and the mDNS name of \<^verbatim>\<open>network.cpp\<close>.

  \<^bold>\<open>Configuration.\<close> Config_Parse is \<^verbatim>\<open>parse_option\<close> and \<^verbatim>\<open>parse_config\<close> and the text that
  \<^verbatim>\<open>saveConfig\<close> of \<^verbatim>\<open>confighttp.cpp\<close> writes; Config_Options the readers of options (\<^verbatim>\<open>string_f\<close>,
  \<^verbatim>\<open>int_f\<close>, \<^verbatim>\<open>list_string_f\<close> and the others) and the tables of names; Config_State the records of
  \<^verbatim>\<open>config.h\<close> with their defaults; Config_Apply \<^verbatim>\<open>apply_config\<close> in the order of the code, with its
  exceptions as the left of a sum, the flags and \<^verbatim>\<open>parse\<close>. Config_Correct proves the invariant of
  the settings, what is left unread, that the command line wins, where the paths end up and which
  ports are accepted. The lemmas named \<^verbatim>\<open>consumes_\<close>, \<^verbatim>\<open>preserves_\<close>, \<^verbatim>\<open>keeps_\<close> and \<^verbatim>\<open>grows_\<close> say of
  each section of \<^verbatim>\<open>apply_config\<close> which options it takes, that it keeps the invariant, that it
  leaves other fields alone and that it only adds directories.

  \<^bold>\<open>Concurrency.\<close> Thread_Safe has \<^verbatim>\<open>event_t\<close> and \<^verbatim>\<open>queue_t\<close> as operations on a state whose
  consumers sleep on the condition variable, \<^verbatim>\<open>shared_t\<close> as operations on a counter and handles, and
  \<^verbatim>\<open>mail_raw_t\<close> with its table of weak references. Task_Pool has the operations of \<^verbatim>\<open>TaskPool\<close> on
  explicit times and the workers of \<^verbatim>\<open>ThreadPool\<close> as a step relation; each step is a stretch of code
  under the mutex.

  \<^bold>\<open>Pairing.\<close> Pairing is the part of \<^verbatim>\<open>nvhttp.cpp\<close> that decides who may connect: the phases of
  \<^verbatim>\<open>pair\<close> and \<^verbatim>\<open>pin\<close>, the list of clients with its state file and backup, and the check of the
  certificate of an HTTPS connection. Pairing_Correct proves who is admitted, that an honest client
  gets through, what the state file brings back, and the ways around a revocation.

  \<^bold>\<open>RTSP.\<close> Rtsp is \<^verbatim>\<open>socket_t\<close>: the fixed buffer, the reads, plain and encrypted messages, the
  completion handlers as one step function on the bytes that arrive. Rtsp_Commands has the commands
  behind it: the text of \<^verbatim>\<open>DESCRIBE\<close>, the ports of \<^verbatim>\<open>SETUP\<close>, and how the attributes of \<^verbatim>\<open>ANNOUNCE\<close>
  become the configuration of a stream. Rtsp_Commands_Correct proves that the attributes are read as
  they were written, and what encryption, layout and bitrate a started stream has.

  \<^bold>\<open>Streaming.\<close> Gcm_Iv has the initialisation vectors of RTSP, control and video. Video_Packets is
  the packetisation of \<^verbatim>\<open>videoBroadcastThread\<close>: \<^verbatim>\<open>replace\<close>, \<^verbatim>\<open>concat_and_insert\<close>, \<^verbatim>\<open>fec::encode\<close>,
  the plan of FEC blocks and the packets of each; Video_Frames proves what a frame becomes. Control
  is \<^verbatim>\<open>control_server_t\<close>, \<^verbatim>\<open>encode_control\<close>, the handlers of messages and the passes of
  \<^verbatim>\<open>controlBroadcastThread\<close>; Control_Correct its invariant and what its messages can do. Audio has the
  layouts and the sinks of \<^verbatim>\<open>audio.cpp\<close> and the packets and FEC blocks of \<^verbatim>\<open>audioBroadcastThread\<close>.

  \<^bold>\<open>Input.\<close> Input has the packets, the calls into the platform and the state of \<^verbatim>\<open>input.cpp\<close>: one
  context per client, the tables of pressed keys and buttons and the mask of gamepads they share, and
  the tasks in the pool of Task_Pool. Input_Handlers is what each message of mouse and keyboard does,
  with \<^verbatim>\<open>repeat_key\<close>, the delayed release and \<^verbatim>\<open>reset\<close>; Input_Dispatch the gamepads, touch and pen,
  \<^verbatim>\<open>batch\<close> and the worker. Input_Held follows what the platform holds pressed through every step of a
  relation and proves what a reset releases; Input_Batching that merged messages amount to the
  single ones; Input_Correct what scrolling keeps and the inverted overflow check; Input_Runs the
  runs in which something stays pressed.

  \<^bold>\<open>Applications and launching.\<close> Env_Text is \<^verbatim>\<open>parse_env_val\<close> of \<^verbatim>\<open>process.cpp\<close>; Process the object that
  runs one application (\<^verbatim>\<open>execute\<close>, \<^verbatim>\<open>running\<close>, \<^verbatim>\<open>terminate\<close>), its commands and looks at processes as
  events in order; Process_Apps how the list of applications is read, with their images and ids.
  Process_Correct follows the preparation commands and proves that each is undone. Launch has
  \<^verbatim>\<open>launch\<close>, \<^verbatim>\<open>resume\<close> and \<^verbatim>\<open>cancel\<close> of \<^verbatim>\<open>nvhttp.cpp\<close> with the pending launch and the sessions of
  \<^verbatim>\<open>rtsp.cpp\<close> and what \<^verbatim>\<open>stream.cpp\<close> does when a session starts and ends; Launch_Correct who gets a
  session, what a refused or cancelled one leaves, and that the platform is told of the first and
  the last session in turn. The POSIX branches are taken, and the tray is left out.

  \<^bold>\<open>Web interface.\<close> Json has the values of nlohmann::json that the handlers build and read, and the
  readers of text they use. Web is what every handler of \<^verbatim>\<open>confighttp.cpp\<close> starts with:
  \<^verbatim>\<open>authenticate\<close>, \<^verbatim>\<open>check_content_type\<close> and the tokens against cross-site requests, with the state the
  handlers share. Web_Files has the pages, the assets, the covers and browsing; Web_Handlers the
  handlers that change applications, clients, settings and the password, with the credentials of
  \<^verbatim>\<open>httpcommon.cpp\<close>; Web_Server the table of resources and the dispatch of a request. Web_Correct
  proves that a request without credentials, or from another site without a token, changes nothing,
  what a change of the password does, that an asset stays inside the directory of assets, and what
  unpairing and the upload of a cover leave open.

  \<^bold>\<open>Displays.\<close> Display_Device is \<^verbatim>\<open>display_device.cpp\<close>: the readers of resolutions and refresh
  rates, \<^verbatim>\<open>parse_configuration\<close> with the remapping of modes, the jobs that apply and revert settings as
  functions of what the settings manager answers, \<^verbatim>\<open>DD_DATA\<close> with the calls scheduled on the manager,
  and the audio context held while a display is off. Display_Correct proves that a refresh rate is the
  value of its text, when the resolution is left alone, that a failed revert waits for a change of
  devices, and that the audio context is released in the end, or too early.

  \<^bold>\<open>Video.\<close> Colorspace is \<^verbatim>\<open>video_colorspace.cpp\<close>. Encoders has the tables of the Linux encoders of
  \<^verbatim>\<open>video.cpp\<close>; Encode_Session \<^verbatim>\<open>make_avcodec_encode_session\<close>, stage by stage, and \<^verbatim>\<open>encode_avcodec\<close>;
  Video_Probe \<^verbatim>\<open>validate_encoder\<close> and \<^verbatim>\<open>probe_encoders\<close>, whose tests ask numbered questions; Video_Capture
  the list of displays, the pool of images, \<^verbatim>\<open>captureThread\<close> in rounds and \<^verbatim>\<open>encode_run\<close> in turns.
  The type outcome tells a refusal from behaviour the language does not define (a division by zero, an
  overflow of int, the front of an empty vector). Video_Probe_Correct proves which encoder and modes a
  probe leaves; Encode_Correct what the settings of a session are; Capture_Correct that a pulled image
  is read by nobody, that the display in use exists and a thread that ends stops its sessions, and that
  each request for a key frame is answered.

  \<^bold>\<open>Locales.\<close> consuming_reader and its extension option_reader (Config_Options) state what an
  option reader may do to the settings that are left; every reader of the code is interpreted.
  waitable (Thread_Safe) states the monitor discipline of a condition variable once for events and
  queues. unseen (Input_Batching) is a change of the world that no handler of a message looks at,
  interpreted on the calls already made and on the waiting messages; batched_input the contract
  under which a merged message stands for the ones it replaces, interpreted on \<^verbatim>\<open>passthrough\<close>.

  \<^bold>\<open>Parameters.\<close> Code that is not in the repository is an argument: the ciphers of OpenSSL, the
  Reed-Solomon encoder, ENet, \<^verbatim>\<open>strtod\<close>, the file system, the clock; for
  input the constants of the protocol (limelight), the arithmetic of floating point (fpu) and whether
  the platform can plug in another gamepad (input_env); for applications what the operating system
  answers, by the number of the question (host_os), and what the files are (app_files); for the web
  interface the base64 and hash functions, the reader and the printer of JSON, the files, the clock
  and the random tokens (web_lib, web_conf, web_env); for video what FFmpeg, the device and the display
  answer in an attempt, a session and a test (attempt_env, session_env, validate_env, probe_answers),
  the constants of FFmpeg (av_lib) and the rounding of double and float; for a refresh rate the value
  of a conversion out of range. What the properties need of them
  is stated as a hypothesis (a decryption inverts its encryption, an encoder returns as many parity
  shards as it was asked for), and witnesses instantiate them.

  \<^bold>\<open>Bounds.\<close> Sizes and counters keep the width of the code where it can overflow (\<^verbatim>\<open>uint16_t\<close>
  sequence numbers, \<^verbatim>\<open>size_t\<close> products, \<^verbatim>\<open>int\<close> option values). No definition uses fuel: loops are
  structural, or \<^verbatim>\<open>function\<close>s with a measure.

  \<^bold>\<open>Not modelled.\<close> The back ends under \<^verbatim>\<open>platform/\<close> drive DirectX, KMS, PipeWire and the macOS
  frameworks, and \<^verbatim>\<open>nvenc/\<close> the library of NVIDIA; of \<^verbatim>\<open>video.cpp\<close> the tables of the Windows and macOS
  encoders, the software scaler and the synchronous capture, which only encoders without
  \<^verbatim>\<open>PARALLEL_ENCODING\<close> use. \<^verbatim>\<open>crypto.cpp\<close>, \<^verbatim>\<open>upnp.cpp\<close>, \<^verbatim>\<open>system_tray.cpp\<close> and \<^verbatim>\<open>logging.cpp\<close> call
  their libraries; pacing by the clock and the sockets themselves are left out.
\<close>

end
